(* ===== verification/Nclav_Prelude.thy ===== *)
theory Nclav_Prelude imports Main "HOL-Library.AList" begin

section \<open>Shared notions of the development\<close>

text \<open>
  What every component uses: results of fallible Rust functions, \<open>HashMap\<close> as an association
  list, the early-return loops over a list, and the collections of facts the component proofs
  pass to the simplifier.

  A Rust \<open>Result<T, E>\<close> is the sum \<open>'e + 'a\<close> with \<open>Inl\<close> for \<open>Err\<close> and \<open>Inr\<close> for \<open>Ok\<close>. A
  \<open>HashMap<K, V>\<close> is an association list: its lookup is \<open>map_of\<close>, its iteration order is the
  order of the list, which Rust leaves unspecified, so no theorem relies on a particular one.
\<close>

named_theorems wp_simps \<open>weakest preconditions of the effects of the program\<close>
named_theorems hm_simps \<open>lookups and domains after the operations of a hash map\<close>
named_theorems json_simps \<open>accessors on JSON values\<close>
named_theorems store_simps \<open>what a store operation does to what the store holds\<close>

type_synonym ('e, 'a) result = "'e + 'a"
type_synonym ('k, 'v) hashmap = "('k \<times> 'v) list"

abbreviation ok :: "('e, 'a) result \<Rightarrow> bool" where
  "ok r \<equiv> (case r of Inl _ \<Rightarrow> False | Inr _ \<Rightarrow> True)"

subsection \<open>Hash maps\<close>

definition hm_get :: "('k, 'v) hashmap \<Rightarrow> 'k \<Rightarrow> 'v option" where
  "hm_get m k = map_of m k"

definition hm_insert :: "'k \<Rightarrow> 'v \<Rightarrow> ('k, 'v) hashmap \<Rightarrow> ('k, 'v) hashmap" where
  "hm_insert k v m = AList.update k v m"

definition hm_remove :: "'k \<Rightarrow> ('k, 'v) hashmap \<Rightarrow> ('k, 'v) hashmap" where
  "hm_remove k m = AList.delete k m"

definition hm_keys :: "('k, 'v) hashmap \<Rightarrow> 'k list" where
  "hm_keys m = map fst m"

definition hm_values :: "('k, 'v) hashmap \<Rightarrow> 'v list" where
  "hm_values m = map snd m"

definition hm_contains :: "('k, 'v) hashmap \<Rightarrow> 'k \<Rightarrow> bool" where
  "hm_contains m k \<longleftrightarrow> hm_get m k \<noteq> None"

text \<open>A map holds one entry for a key: every map built from the empty one has this.\<close>

definition hm_ok :: "('k, 'v) hashmap \<Rightarrow> bool" where
  "hm_ok m \<longleftrightarrow> distinct (map fst m)"

text \<open>\<open>iter().collect::<HashMap<_, _>>()\<close>: a later pair replaces an earlier one of the same key.\<close>

definition hm_collect :: "('k \<times> 'v) list \<Rightarrow> ('k, 'v) hashmap" where
  "hm_collect kvs = fold (\<lambda>(k, v). hm_insert k v) kvs []"

lemma hm_get_conv: "hm_get m = map_of m"
  by (rule ext) (simp add: hm_get_def)

lemma hm_get_insert [hm_simps]: "hm_get (hm_insert k v m) = (hm_get m)(k \<mapsto> v)"
  by (rule ext) (simp add: hm_get_def hm_insert_def update_conv')

lemma hm_get_remove [hm_simps]: "hm_get (hm_remove k m) = (hm_get m)(k := None)"
  by (rule ext) (simp add: hm_get_def hm_remove_def delete_conv')

lemma hm_get_Nil [simp, hm_simps]: "hm_get [] = Map.empty"
  by (rule ext) (simp add: hm_get_def)

lemma hm_ok_Nil [simp, intro]: "hm_ok []"
  by (simp add: hm_ok_def)

lemma hm_ok_insert [simp, intro]: "hm_ok m \<Longrightarrow> hm_ok (hm_insert k v m)"
  by (simp add: hm_ok_def hm_insert_def distinct_update)

lemma hm_ok_remove [simp, intro]: "hm_ok m \<Longrightarrow> hm_ok (hm_remove k m)"
  by (simp add: hm_ok_def hm_remove_def distinct_delete)

lemma hm_get_iff_mem: "hm_ok m \<Longrightarrow> hm_get m k = Some v \<longleftrightarrow> (k, v) \<in> set m"
  by (simp add: hm_ok_def hm_get_def)

lemma hm_get_SomeD: "hm_get m k = Some v \<Longrightarrow> (k, v) \<in> set m"
  by (simp add: hm_get_def map_of_SomeD)

lemma set_hm_keys: "set (hm_keys m) = dom (hm_get m)"
  by (simp add: hm_keys_def hm_get_conv dom_map_of_conv_image_fst)

lemma hm_keys_iff: "k \<in> set (hm_keys m) \<longleftrightarrow> hm_get m k \<noteq> None"
  by (auto simp: set_hm_keys)

lemma distinct_hm_keys: "hm_ok m \<Longrightarrow> distinct (hm_keys m)"
  by (simp add: hm_ok_def hm_keys_def)

lemma set_hm_values: "hm_ok m \<Longrightarrow> set (hm_values m) = ran (hm_get m)"
  by (simp add: hm_ok_def hm_values_def hm_get_conv ran_distinct)

lemma hm_collect_aux:
  "hm_get (fold (\<lambda>(k, v). hm_insert k v) kvs m) k =
     (case map_of (rev kvs) k of None \<Rightarrow> hm_get m k | Some v \<Rightarrow> Some v)"
  by (induction kvs arbitrary: m)
     (auto simp: hm_get_insert map_add_def split: option.splits)

lemma hm_get_collect: "hm_get (hm_collect kvs) k = map_of (rev kvs) k"
  by (simp add: hm_collect_def hm_collect_aux split: option.splits)

lemma dom_hm_collect: "dom (hm_get (hm_collect kvs)) = fst ` set kvs"
proof -
  have "hm_get (hm_collect kvs) = map_of (rev kvs)" by (rule ext) (rule hm_get_collect)
  then show ?thesis by (simp add: dom_map_of_conv_image_fst)
qed

lemma hm_ok_collect [simp, intro]: "hm_ok (hm_collect kvs)"
proof -
  have "hm_ok m \<Longrightarrow> hm_ok (fold (\<lambda>(k, v). hm_insert k v) kvs m)" for m
    by (induction kvs arbitrary: m) auto
  then show ?thesis by (simp add: hm_collect_def)
qed

lemma hm_get_collect_distinct:
  "distinct (map fst kvs) \<Longrightarrow> hm_get (hm_collect kvs) k = map_of kvs k"
proof -
  assume "distinct (map fst kvs)"
  then have "map_of (rev kvs) = map_of kvs"
    by (intro map_of_eqI) (auto simp: rev_map [symmetric] split: option.splits)
  then show ?thesis by (simp add: hm_get_collect)
qed

lemma hm_get_collect_map:
  assumes "distinct xs"
  shows "hm_get (hm_collect (map (\<lambda>x. (x, f x)) xs)) k = (if k \<in> set xs then Some (f k) else None)"
  using assms
  by (simp add: hm_get_collect_distinct comp_def map_of_map_restrict restrict_map_def)

lemma in_map_filter: "y \<in> set (List.map_filter f xs) \<longleftrightarrow> (\<exists>x \<in> set xs. f x = Some y)"
  by (induction xs) (auto simp: map_filter_simps split: option.splits)

lemma hm_contains_iff: "hm_contains m k \<longleftrightarrow> k \<in> dom (hm_get m)"
  by (auto simp: hm_contains_def)

end
