(* ===== verification/Rust_Strings.thy ===== *)
theory Rust_Strings imports Nclav_Prelude "HOL-Library.Word" begin

section \<open>The string operations of the standard library that the program uses\<close>

text \<open>
  A Rust \<open>String\<close> is the list of its UTF-8 bytes, one \<open>char\<close> for a byte, so offsets are byte
  offsets as in Rust. White space is the ASCII white space, and bytes from 0x80 on are letters to
  \<open>str_debug\<close>: what Rust does to other Unicode white space and to unprintable characters outside
  ASCII is not modelled.
\<close>

text \<open>A \<open>PathBuf\<close> is the string that it holds.\<close>

type_synonym path = string

definition starts_with :: "string \<Rightarrow> string \<Rightarrow> bool" where
  "starts_with p s \<longleftrightarrow> take (length p) s = p"

definition ends_with :: "string \<Rightarrow> string \<Rightarrow> bool" where
  "ends_with p s \<longleftrightarrow> length p \<le> length s \<and> drop (length s - length p) s = p"

definition strip_prefix :: "string \<Rightarrow> string \<Rightarrow> string option" where
  "strip_prefix p s = (if starts_with p s then Some (drop (length p) s) else None)"

text \<open>\<open>s.find(pat)\<close>, the offset of the first occurrence.\<close>

fun str_find :: "string \<Rightarrow> string \<Rightarrow> nat option" where
  "str_find p [] = (if p = [] then Some 0 else None)"
| "str_find p (c # cs) =
     (if starts_with p (c # cs) then Some 0 else map_option Suc (str_find p cs))"

definition str_contains :: "string \<Rightarrow> string \<Rightarrow> bool" where
  "str_contains p s \<longleftrightarrow> str_find p s \<noteq> None"

definition is_ws :: "char \<Rightarrow> bool" where
  "is_ws c \<longleftrightarrow> c \<in> {CHR '' '', CHR 0x09, CHR 0x0A, CHR 0x0B, CHR 0x0C, CHR 0x0D}"

definition trim :: "string \<Rightarrow> string" where
  "trim s = rev (dropWhile is_ws (rev (dropWhile is_ws s)))"

definition trim_end_matches :: "char \<Rightarrow> string \<Rightarrow> string" where
  "trim_end_matches c s = rev (dropWhile (\<lambda>d. d = c) (rev s))"

text \<open>\<open>s.split_once(c)\<close>, and \<open>s.splitn(2, c)\<close> collected into a vector.\<close>

definition split_once :: "char \<Rightarrow> string \<Rightarrow> (string \<times> string) option" where
  "split_once c s = (case dropWhile (\<lambda>d. d \<noteq> c) s of
     [] \<Rightarrow> None
   | _ # rest \<Rightarrow> Some (takeWhile (\<lambda>d. d \<noteq> c) s, rest))"

definition splitn2 :: "char \<Rightarrow> string \<Rightarrow> string list" where
  "splitn2 c s = (case split_once c s of None \<Rightarrow> [s] | Some (a, b) \<Rightarrow> [a, b])"

text \<open>\<open>s.split(c)\<close>, and \<open>parts.join(sep)\<close>.\<close>

fun split_char :: "char \<Rightarrow> string \<Rightarrow> string list" where
  "split_char c [] = [[]]"
| "split_char c (d # ds) =
     (if d = c then [] # split_char c ds
      else (case split_char c ds of [] \<Rightarrow> [[d]] | p # ps \<Rightarrow> (d # p) # ps))"

fun join_strs :: "string \<Rightarrow> string list \<Rightarrow> string" where
  "join_strs sep [] = []"
| "join_strs sep [x] = x"
| "join_strs sep (x # y # xs) = x @ sep @ join_strs sep (y # xs)"

text \<open>\<open>s.replace(c, r)\<close> for a character \<open>c\<close>.\<close>

definition replace_char :: "char \<Rightarrow> string \<Rightarrow> string \<Rightarrow> string" where
  "replace_char c r s = concat (map (\<lambda>d. if d = c then r else [d]) s)"

text \<open>\<open>Display\<close> of an integer.\<close>

fun nat_str :: "nat \<Rightarrow> string" where
  "nat_str n = (if n < 10 then [char_of (48 + n)] else nat_str (n div 10) @ [char_of (48 + n mod 10)])"

declare nat_str.simps [simp del]

definition int_str :: "int \<Rightarrow> string" where
  "int_str i = (if i < 0 then CHR ''-'' # nat_str (nat (- i)) else nat_str (nat i))"

definition i32_str :: "32 word \<Rightarrow> string" where
  "i32_str w = int_str (sint w)"

text \<open>The line feed and the double quote.\<close>

abbreviation nl :: string where "nl \<equiv> [CHR 0x0A]"
abbreviation dq :: string where "dq \<equiv> [CHR 0x22]"
abbreviation bs :: char where "bs \<equiv> CHR 0x5C"

definition hex_digit :: "nat \<Rightarrow> char" where
  "hex_digit n = (if n < 10 then char_of (48 + n) else char_of (87 + n))"

definition hex_str :: "nat \<Rightarrow> string" where
  "hex_str n = (if n < 16 then [hex_digit n] else [hex_digit (n div 16), hex_digit (n mod 16)])"

text \<open>The format \<open>{:?}\<close> of a string.\<close>

definition debug_char :: "char \<Rightarrow> string" where
  "debug_char c =
     (if c = CHR 0x22 then [bs, CHR 0x22]
      else if c = bs then [bs, bs]
      else if c = CHR 0x0A then [bs, CHR ''n'']
      else if c = CHR 0x0D then [bs, CHR ''r'']
      else if c = CHR 0x09 then [bs, CHR ''t'']
      else if c = CHR 0x00 then [bs, CHR ''0'']
      else if of_char c < (32 :: nat) \<or> of_char c = (127 :: nat)
        then [bs, CHR ''u'', CHR 0x7B] @ hex_str (of_char c) @ [CHR 0x7D]
      else [c])"

definition str_debug :: "string \<Rightarrow> string" where
  "str_debug s = dq @ concat (map debug_char s) @ dq"

subsection \<open>What they compute\<close>

lemma starts_with_iff: "starts_with p s \<longleftrightarrow> (\<exists>t. s = p @ t)"
  by (auto simp: starts_with_def) (metis append_take_drop_id)

lemma starts_with_append [simp]: "starts_with p (p @ t)"
  by (auto simp: starts_with_iff)

lemma ends_with_append [simp]: "ends_with p (t @ p)"
  by (simp add: ends_with_def)

lemma ends_with_iff: "ends_with p s \<longleftrightarrow> (\<exists>t. s = t @ p)"
  by (auto simp: ends_with_def) (metis append_take_drop_id)

lemma strip_prefix_eq_Some: "strip_prefix p s = Some t \<longleftrightarrow> s = p @ t"
  by (auto simp: strip_prefix_def starts_with_iff)

lemma str_find_None: "str_find p s = None \<longleftrightarrow> (\<forall>i \<le> length s. \<not> starts_with p (drop i s))"
proof (induction p s rule: str_find.induct)
  case (2 p c cs)
  show ?case
  proof
    assume l: "str_find p (c # cs) = None"
    show "\<forall>i \<le> length (c # cs). \<not> starts_with p (drop i (c # cs))"
    proof (intro allI impI)
      fix i assume "i \<le> length (c # cs)"
      then show "\<not> starts_with p (drop i (c # cs))"
        using l 2 by (cases i) (auto split: if_splits)
    qed
  next
    assume r: "\<forall>i \<le> length (c # cs). \<not> starts_with p (drop i (c # cs))"
    then have "\<not> starts_with p (c # cs)" by (metis drop0 le0)
    moreover have "\<forall>i \<le> length cs. \<not> starts_with p (drop i cs)"
      using r by (metis Suc_le_mono drop_Suc_Cons length_Cons)
    ultimately show "str_find p (c # cs) = None" using 2 by simp
  qed
qed (auto simp: starts_with_def)

lemma str_find_Some:
  "str_find p s = Some i \<Longrightarrow>
     i \<le> length s \<and> starts_with p (drop i s) \<and> (\<forall>j < i. \<not> starts_with p (drop j s))"
proof (induction p s arbitrary: i rule: str_find.induct)
  case (2 p c cs)
  show ?case
  proof (cases "starts_with p (c # cs)")
    case True
    then show ?thesis using 2 by auto
  next
    case False
    then obtain k where k: "str_find p cs = Some k" "i = Suc k" using "2.prems" by auto
    show ?thesis
      using "2.IH" [OF False k(1)] k(2) False
      by (auto simp: less_Suc_eq_0_disj)
  qed
qed (auto simp: starts_with_def split: if_splits)

lemma str_find_split:
  assumes "str_find p s = Some i"
  shows "s = take i s @ p @ drop (i + length p) s"
proof -
  obtain t where t: "drop i s = p @ t"
    using str_find_Some [OF assms] by (auto simp: starts_with_iff)
  then have "drop (i + length p) s = t"
    by (metis add.commute append_eq_conv_conj drop_drop)
  with t show ?thesis by (metis append_take_drop_id)
qed

lemma str_find_bound: "str_find p s = Some i \<Longrightarrow> i + length p \<le> length s"
proof -
  assume a: "str_find p s = Some i"
  then have "length p \<le> length (drop i s)" "i \<le> length s"
    using str_find_Some [OF a] by (auto simp: starts_with_def dest: arg_cong [where f = length])
  then show ?thesis by simp
qed

lemma trim_Nil [simp]: "trim [] = []" by (simp add: trim_def)

lemma split_once_None: "split_once c s = None \<longleftrightarrow> c \<notin> set s"
proof (cases "dropWhile (\<lambda>d. d \<noteq> c) s")
  case Nil
  then have "c \<notin> set s" by (auto simp: dropWhile_eq_Nil_conv)
  with Nil show ?thesis by (simp only: split_once_def list.case) simp
next
  case (Cons d ds)
  then have "d \<in> set s" by (metis list.set_intros(1) set_dropWhileD)
  moreover have "d = c" using hd_dropWhile [of "\<lambda>d. d \<noteq> c" s] Cons by simp
  ultimately show ?thesis using Cons by (simp add: split_once_def)
qed

lemma split_once_Some: "split_once c s = Some (a, b) \<longleftrightarrow> s = a @ c # b \<and> c \<notin> set a"
proof
  assume l: "split_once c s = Some (a, b)"
  then obtain d where d: "dropWhile (\<lambda>d. d \<noteq> c) s = d # b" and a: "a = takeWhile (\<lambda>d. d \<noteq> c) s"
    by (auto simp: split_once_def split: list.splits)
  have "d = c" using hd_dropWhile [of "\<lambda>d. d \<noteq> c" s] d by simp
  moreover have "c \<notin> set a" unfolding a using set_takeWhileD [of c "\<lambda>d. d \<noteq> c" s] by blast
  moreover have "s = a @ d # b" unfolding a d [symmetric] by simp
  ultimately show "s = a @ c # b \<and> c \<notin> set a" by simp
next
  assume r: "s = a @ c # b \<and> c \<notin> set a"
  then have "\<forall>x \<in> set a. x \<noteq> c" by auto
  with r show "split_once c s = Some (a, b)"
    by (simp add: split_once_def dropWhile_append2 takeWhile_append2)
qed

lemma split_char_not_Nil [simp]: "split_char c s \<noteq> []"
  by (induction c s rule: split_char.induct) (auto split: list.split)

lemma join_strs_Cons_hd: "join_strs sep ((c # x) # xs) = c # join_strs sep (x # xs)"
  by (cases xs) simp_all

lemma join_split_char: "join_strs [c] (split_char c s) = s"
proof (induction c s rule: split_char.induct)
  case (2 c d ds)
  obtain p ps where "split_char c ds = p # ps" by (cases "split_char c ds") auto
  with 2 show ?case by (cases "d = c") (simp_all add: join_strs_Cons_hd)
qed simp

lemma replace_char_Nil [simp]: "replace_char c r [] = []"
  by (simp add: replace_char_def)

lemma replace_char_append: "replace_char c r (s @ t) = replace_char c r s @ replace_char c r t"
  by (simp add: replace_char_def)

end
