(* ===== verification/Json_Value.thy ===== *)
theory Json_Value
  imports Nclav_Prelude "HOL-Library.List_Lexorder" "HOL-Library.Char_ord"
begin

section \<open>JSON values and sorted maps\<close>

text \<open>
  \<open>serde_json::Value\<close> as the sources take it apart, and the \<open>BTreeMap\<close> of the standard library.
  A \<open>BTreeMap<String, _>\<close> is an association list in strictly increasing key order, strings ordered
  by their bytes. The workspace does not turn on \<open>preserve_order\<close>, so the map of a JSON object is a
  \<open>BTreeMap\<close> too. The numbers that the program writes are integers. The handles of the drivers
  (\<open>Handle\<close> in \<open>nclav-driver/src/lib.rs\<close> and \<open>nclav-store/src/state.rs\<close>) are JSON values.
\<close>

datatype json =
    JNull
  | JBool bool
  | JNumber int
  | JString string
  | JArray "json list"
  | JObject "(string \<times> json) list"

type_synonym handle = json

subsection \<open>Sorted maps\<close>

fun bt_insert :: "('k :: linorder) \<Rightarrow> 'v \<Rightarrow> ('k \<times> 'v) list \<Rightarrow> ('k \<times> 'v) list" where
  "bt_insert k v [] = [(k, v)]"
| "bt_insert k v ((k', v') # m) =
     (if k < k' then (k, v) # (k', v') # m
      else if k = k' then (k, v) # m
      else (k', v') # bt_insert k v m)"

definition bt_collect :: "(('k :: linorder) \<times> 'v) list \<Rightarrow> ('k \<times> 'v) list" where
  "bt_collect kvs = fold (\<lambda>(k, v). bt_insert k v) kvs []"

definition bt_sorted :: "(('k :: linorder) \<times> 'v) list \<Rightarrow> bool" where
  "bt_sorted m \<longleftrightarrow> sorted_wrt (<) (map fst m)"

lemma map_of_bt_insert: "map_of (bt_insert k v m) = (map_of m)(k \<mapsto> v)"
  by (induction k v m rule: bt_insert.induct) (auto simp: fun_upd_twist)

lemma keys_bt_insert: "fst ` set (bt_insert k v m) = insert k (fst ` set m)"
  by (induction k v m rule: bt_insert.induct) auto

lemma bt_sorted_Nil [simp]: "bt_sorted []"
  by (simp add: bt_sorted_def)

lemma bt_sorted_Cons: "bt_sorted ((k, v) # m) \<longleftrightarrow> (\<forall>k' \<in> fst ` set m. k < k') \<and> bt_sorted m"
  by (auto simp: bt_sorted_def)

lemma bt_sorted_insert: "bt_sorted m \<Longrightarrow> bt_sorted (bt_insert k v m)"
proof (induction k v m rule: bt_insert.induct)
  case (2 k v k' v' m)
  then show ?case
    by (auto simp: bt_sorted_Cons keys_bt_insert)
qed (simp add: bt_sorted_Cons)

lemma bt_collect_aux:
  "map_of (fold (\<lambda>(k, v). bt_insert k v) kvs m) = map_of m ++ map_of (rev kvs)"
  by (induction kvs arbitrary: m) (auto simp: map_of_bt_insert map_add_assoc [symmetric])

lemma map_of_bt_collect: "map_of (bt_collect kvs) = map_of (rev kvs)"
  by (simp add: bt_collect_def bt_collect_aux)

lemma bt_sorted_collect: "bt_sorted (bt_collect kvs)"
proof -
  have "bt_sorted m \<Longrightarrow> bt_sorted (fold (\<lambda>(k, v). bt_insert k v) kvs m)" for m
    by (induction kvs arbitrary: m) (auto simp: bt_sorted_insert)
  then show ?thesis by (simp add: bt_collect_def)
qed

lemma bt_sorted_distinct: "bt_sorted m \<Longrightarrow> distinct (map fst m)"
  by (simp add: bt_sorted_def strict_sorted_iff)

text \<open>A sorted map is determined by its lookups.\<close>

lemma bt_sorted_eqI:
  assumes "bt_sorted m" "bt_sorted n" "map_of m = map_of n"
  shows "m = n"
proof -
  have eq: "set m = set n"
    using assms(3) map_of_inject_set [OF bt_sorted_distinct [OF assms(1)] bt_sorted_distinct [OF assms(2)]]
    by simp
  have "inj_on fst (set m)"
    using bt_sorted_distinct [OF assms(1)] by (simp add: distinct_map)
  then show ?thesis
    using assms(1,2) eq
    by (intro map_sorted_distinct_set_unique [of fst]) (simp_all add: bt_sorted_def strict_sorted_iff)
qed

lemma bt_collect_cong: "map_of (rev kvs) = map_of (rev kvs') \<Longrightarrow> bt_collect kvs = bt_collect kvs'"
  by (rule bt_sorted_eqI) (simp_all add: bt_sorted_collect map_of_bt_collect)

lemma map_of_rev: "distinct (map fst kvs) \<Longrightarrow> map_of (rev kvs) = map_of kvs"
  by (rule map_of_eqI) (auto simp: rev_map [symmetric])

lemma bt_collect_id: "bt_sorted m \<Longrightarrow> bt_collect m = m"
  by (rule bt_sorted_eqI)
     (simp_all add: bt_sorted_collect map_of_bt_collect map_of_rev bt_sorted_distinct)

text \<open>The order in which a hash map is walked does not show in a sorted map.\<close>

lemma bt_collect_hm: "hm_ok m \<Longrightarrow> hm_ok m' \<Longrightarrow> hm_get m = hm_get m' \<Longrightarrow> bt_collect m = bt_collect m'"
  by (rule bt_collect_cong) (simp add: hm_ok_def hm_get_conv map_of_rev)

subsection \<open>Accessors\<close>

definition json_get :: "json \<Rightarrow> string \<Rightarrow> json option" where
  "json_get v k = (case v of JObject m \<Rightarrow> map_of m k | _ \<Rightarrow> None)"

text \<open>\<open>v["k"]\<close> is \<open>Null\<close> where \<open>get\<close> has nothing.\<close>

definition json_index :: "json \<Rightarrow> string \<Rightarrow> json" where
  "json_index v k = (case json_get v k of None \<Rightarrow> JNull | Some x \<Rightarrow> x)"

text \<open>\<open>v["k"] = x\<close> panics, here \<open>None\<close>, unless \<open>v\<close> is an object or \<open>Null\<close>.\<close>

definition json_index_set :: "json \<Rightarrow> string \<Rightarrow> json \<Rightarrow> json option" where
  "json_index_set v k x = (case v of
     JObject m \<Rightarrow> Some (JObject (bt_insert k x m))
   | JNull \<Rightarrow> Some (JObject [(k, x)])
   | _ \<Rightarrow> None)"

definition json_as_str :: "json \<Rightarrow> string option" where
  "json_as_str v = (case v of JString s \<Rightarrow> Some s | _ \<Rightarrow> None)"

definition json_as_object :: "json \<Rightarrow> (string \<times> json) list option" where
  "json_as_object v = (case v of JObject m \<Rightarrow> Some m | _ \<Rightarrow> None)"

text \<open>\<open>json!({ ... })\<close>, and the values of options, lists and string maps inside it.\<close>

definition json_object :: "(string \<times> json) list \<Rightarrow> json" where
  "json_object kvs = JObject (bt_collect kvs)"

definition json_option :: "('a \<Rightarrow> json) \<Rightarrow> 'a option \<Rightarrow> json" where
  "json_option f x = (case x of None \<Rightarrow> JNull | Some y \<Rightarrow> f y)"

definition json_list :: "('a \<Rightarrow> json) \<Rightarrow> 'a list \<Rightarrow> json" where
  "json_list f xs = JArray (map f xs)"

definition json_string_map :: "(string, string) hashmap \<Rightarrow> json" where
  "json_string_map m = JObject (bt_collect (map (\<lambda>(k, v). (k, JString v)) m))"

lemma json_get_object [json_simps]: "json_get (json_object kvs) k = map_of (rev kvs) k"
  by (simp add: json_get_def json_object_def map_of_bt_collect)

lemma json_as_str_simps [simp, json_simps]:
  "json_as_str (JString s) = Some s" "json_as_str JNull = None" "json_as_str (JObject m) = None"
  by (simp_all add: json_as_str_def)

lemma json_as_str_Some: "json_as_str v = Some s \<longleftrightarrow> v = JString s"
  by (auto simp: json_as_str_def split: json.splits)

lemma json_option_simps [simp]: "json_option f None = JNull" "json_option f (Some y) = f y"
  by (simp_all add: json_option_def)

lemma json_index_as_str:
  "json_as_str (json_index v k) = (case json_get v k of None \<Rightarrow> None | Some x \<Rightarrow> json_as_str x)"
  by (simp add: json_index_def split: option.split)

lemma map_the_map_of: "distinct (map fst xs) \<Longrightarrow> map (\<lambda>k. the (map_of xs k)) (map fst xs) = map snd xs"
proof (rule nth_equalityI)
  fix i assume d: "distinct (map fst xs)" and i: "i < length (map (\<lambda>k. the (map_of xs k)) (map fst xs))"
  then have "(fst (xs ! i), snd (xs ! i)) \<in> set xs" by simp
  with d have "map_of xs (fst (xs ! i)) = Some (snd (xs ! i))" by simp
  with i show "map (\<lambda>k. the (map_of xs k)) (map fst xs) ! i = map snd xs ! i" by simp
qed simp

text \<open>Objects written with the same keys are equal when their values are.\<close>

lemma json_object_eq_iff:
  assumes "map fst kvs = map fst kvs'" "distinct (map fst kvs)"
  shows "json_object kvs = json_object kvs' \<longleftrightarrow> map snd kvs = map snd kvs'"
proof
  assume "json_object kvs = json_object kvs'"
  then have "map_of (rev kvs) = map_of (rev kvs')"
    by (metis json.inject(5) json_object_def map_of_bt_collect)
  then have "map_of kvs = map_of kvs'" using assms by (simp add: map_of_rev)
  then show "map snd kvs = map snd kvs'"
    using map_the_map_of [of kvs] map_the_map_of [of kvs'] assms by metis
next
  assume "map snd kvs = map snd kvs'"
  with assms(1) have "kvs = kvs'" by (metis zip_map_fst_snd)
  then show "json_object kvs = json_object kvs'" by simp
qed

lemma json_index_set_object [json_simps]:
  "json_index_set (json_object kvs) k x = Some (json_object (kvs @ [(k, x)]))"
  by (simp add: json_index_set_def json_object_def bt_collect_def)

lemma json_string_map_hm:
  assumes "hm_ok m" "hm_ok m'" "hm_get m = hm_get m'"
  shows "json_string_map m = json_string_map m'"
proof -
  have keys: "map fst (map (\<lambda>(k, v). (k, JString v)) n) = map fst n" for n :: "(string, string) hashmap"
    by (induction n) auto
  have get: "map_of (map (\<lambda>(k, v). (k, JString v)) n) = map_option JString \<circ> map_of n"
    for n :: "(string, string) hashmap"
    by (rule ext) (induction n, auto)
  show ?thesis
    unfolding json_string_map_def using assms
    by (intro arg_cong [where f = JObject] bt_collect_hm)
       (simp_all add: hm_ok_def keys hm_get_conv get del: map_map)
qed

subsection \<open>Values whose objects are all sorted\<close>

inductive json_wf :: "json \<Rightarrow> bool" where
  wf_null: "json_wf JNull"
| wf_bool: "json_wf (JBool b)"
| wf_number: "json_wf (JNumber n)"
| wf_string: "json_wf (JString s)"
| wf_array: "(\<And>v. v \<in> set vs \<Longrightarrow> json_wf v) \<Longrightarrow> json_wf (JArray vs)"
| wf_object: "bt_sorted m \<Longrightarrow> (\<And>v. v \<in> snd ` set m \<Longrightarrow> json_wf v) \<Longrightarrow> json_wf (JObject m)"

inductive_simps json_wf_simps [simp]:
  "json_wf JNull" "json_wf (JBool b)" "json_wf (JNumber n)" "json_wf (JString s)"
  "json_wf (JArray vs)" "json_wf (JObject m)"

lemma set_bt_insert: "set (bt_insert k v m) \<subseteq> insert (k, v) (set m)"
  by (induction k v m rule: bt_insert.induct) auto

lemma set_bt_collect: "set (bt_collect kvs) \<subseteq> set kvs"
proof -
  have "set (fold (\<lambda>(k, v). bt_insert k v) kvs m) \<subseteq> set m \<union> set kvs" for m
    by (induction kvs arbitrary: m) (use set_bt_insert in fastforce)+
  from this [of "[]"] show ?thesis by (simp add: bt_collect_def)
qed

lemma json_wf_collect [intro!]:
  "(\<And>v. v \<in> snd ` set kvs \<Longrightarrow> json_wf v) \<Longrightarrow> json_wf (JObject (bt_collect kvs))"
  using set_bt_collect [of kvs] by (auto simp: bt_sorted_collect)

lemma json_wf_object [intro!]: "(\<And>v. v \<in> snd ` set kvs \<Longrightarrow> json_wf v) \<Longrightarrow> json_wf (json_object kvs)"
  unfolding json_object_def by (rule json_wf_collect)

lemma json_wf_option [intro!]: "(\<And>y. json_wf (f y)) \<Longrightarrow> json_wf (json_option f x)"
  by (cases x) simp_all

lemma json_wf_list [intro!]: "(\<And>y. json_wf (f y)) \<Longrightarrow> json_wf (json_list f xs)"
  by (auto simp: json_list_def)

lemma json_wf_string_map [simp, intro!]: "json_wf (json_string_map m)"
  unfolding json_string_map_def by (rule json_wf_collect) auto

end
