(* ===== verification/Domain_Types.thy ===== *)
theory Domain_Types
  imports Rust_Strings Json_Value
begin

section \<open>The domain model\<close>

text \<open>
  \<open>crates/nclav-domain/src/types.rs\<close>: identifiers, enumerations, the configuration of an enclave
  with its partitions, exports and imports, and the JSON encodings that \<open>serde\<close> derives from their
  attributes. A field \<open>f\<close> of the struct \<open>Enclave\<close> is \<open>enc_f\<close>, of \<open>Partition\<close> \<open>part_f\<close>, of
  \<open>Export\<close> \<open>exp_f\<close>, of \<open>Import\<close> \<open>imp_f\<close>, of \<open>TerraformConfig\<close> \<open>tfc_f\<close>.
\<close>

subsection \<open>Identifiers\<close>

datatype enclave_id = EnclaveId (eid_str: string)
datatype partition_id = PartitionId (pid_str: string)

text \<open>Identifiers are ordered as their strings.\<close>

instantiation enclave_id :: linorder
begin

definition less_eq_enclave_id :: "enclave_id \<Rightarrow> enclave_id \<Rightarrow> bool" where
  "less_eq_enclave_id a b \<longleftrightarrow> eid_str a \<le> eid_str b"

definition less_enclave_id :: "enclave_id \<Rightarrow> enclave_id \<Rightarrow> bool" where
  "less_enclave_id a b \<longleftrightarrow> eid_str a < eid_str b"

instance
  by standard
     (auto simp: less_eq_enclave_id_def less_enclave_id_def intro: enclave_id.expand)

end

subsection \<open>Enumerations\<close>

datatype cloud_target = Local | Gcp | Azure | Aws

definition cloud_str :: "cloud_target \<Rightarrow> string" where
  "cloud_str c = (case c of
     Local \<Rightarrow> ''local'' | Gcp \<Rightarrow> ''gcp'' | Azure \<Rightarrow> ''azure'' | Aws \<Rightarrow> ''aws'')"

datatype export_type = ExpHttp | ExpTcp | ExpQueue

datatype auth_type = AuthNone | AuthToken | AuthOauth | AuthMtls | AuthNative

definition compatible_auth_types :: "export_type \<Rightarrow> auth_type list" where
  "compatible_auth_types t = (case t of
     ExpHttp \<Rightarrow> [AuthNone, AuthToken, AuthOauth, AuthMtls]
   | ExpTcp \<Rightarrow> [AuthNone, AuthMtls, AuthNative]
   | ExpQueue \<Rightarrow> [AuthNone, AuthToken, AuthNative])"

definition is_auth_compatible :: "export_type \<Rightarrow> auth_type \<Rightarrow> bool" where
  "is_auth_compatible t a \<longleftrightarrow> a \<in> set (compatible_auth_types t)"

definition export_type_str :: "export_type \<Rightarrow> string" where
  "export_type_str t = (case t of ExpHttp \<Rightarrow> ''http'' | ExpTcp \<Rightarrow> ''tcp'' | ExpQueue \<Rightarrow> ''queue'')"

definition auth_type_str :: "auth_type \<Rightarrow> string" where
  "auth_type_str a = (case a of
     AuthNone \<Rightarrow> ''none'' | AuthToken \<Rightarrow> ''token'' | AuthOauth \<Rightarrow> ''oauth''
   | AuthMtls \<Rightarrow> ''mtls'' | AuthNative \<Rightarrow> ''native'')"

datatype export_target =
    ToPublic
  | ToAnyEnclave
  | ToEnclave enclave_id
  | ToVpn
  | ToPartition partition_id

datatype produces_type = ProdHttp | ProdTcp | ProdQueue

definition required_outputs :: "produces_type \<Rightarrow> string list" where
  "required_outputs p = (case p of
     ProdHttp \<Rightarrow> [''hostname'', ''port'']
   | ProdTcp \<Rightarrow> [''hostname'', ''port'']
   | ProdQueue \<Rightarrow> [''queue_url''])"

definition produces_str :: "produces_type \<Rightarrow> string" where
  "produces_str p = (case p of ProdHttp \<Rightarrow> ''http'' | ProdTcp \<Rightarrow> ''tcp'' | ProdQueue \<Rightarrow> ''queue'')"

definition export_type_of_produces :: "produces_type \<Rightarrow> export_type" where
  "export_type_of_produces p = (case p of
     ProdHttp \<Rightarrow> ExpHttp | ProdTcp \<Rightarrow> ExpTcp | ProdQueue \<Rightarrow> ExpQueue)"

subsection \<open>Structs\<close>

record terraform_config =
  tfc_tool :: "string option"
  tfc_source :: "string option"
  tfc_dir :: path

datatype partition_backend = Terraform terraform_config | OpenTofu terraform_config

definition default_backend :: partition_backend where
  "default_backend = Terraform \<lparr>tfc_tool = None, tfc_source = None, tfc_dir = []\<rparr>"

record export =
  exp_name :: string
  exp_target_partition :: partition_id
  exp_export_type :: export_type
  exp_to :: export_target
  exp_auth :: auth_type
  exp_hostname :: "string option"
  exp_port :: "16 word option"

record import =
  imp_from :: enclave_id
  imp_export_name :: string
  imp_alias :: string

record partition =
  part_id :: partition_id
  part_name :: string
  part_produces :: "produces_type option"
  part_imports :: "import list"
  part_exports :: "export list"
  part_inputs :: "(string, string) hashmap"
  part_declared_outputs :: "string list"
  part_backend :: partition_backend

record network_config =
  net_vpc_cidr :: "string option"
  net_subnets :: "string list"

record dns_config =
  dns_zone :: "string option"

record enclave =
  enc_id :: enclave_id
  enc_name :: string
  enc_cloud :: "cloud_target option"
  enc_region :: string
  enc_identity :: "string option"
  enc_network :: "network_config option"
  enc_dns :: "dns_config option"
  enc_imports :: "import list"
  enc_exports :: "export list"
  enc_partitions :: "partition list"

subsection \<open>JSON encodings\<close>

abbreviation json_opt_str :: "string option \<Rightarrow> json" where
  "json_opt_str \<equiv> json_option JString"

definition export_target_to_json :: "export_target \<Rightarrow> json" where
  "export_target_to_json t = (case t of
     ToPublic \<Rightarrow> JString ''public''
   | ToAnyEnclave \<Rightarrow> JString ''any_enclave''
   | ToEnclave e \<Rightarrow> json_object [(''enclave'', JString (eid_str e))]
   | ToVpn \<Rightarrow> JString ''vpn''
   | ToPartition p \<Rightarrow> json_object [(''partition'', JString (pid_str p))])"

definition terraform_config_to_json :: "terraform_config \<Rightarrow> json" where
  "terraform_config_to_json c = json_object [
     (''tool'', json_opt_str (tfc_tool c)),
     (''source'', json_opt_str (tfc_source c)),
     (''dir'', JString (tfc_dir c))]"

definition backend_to_json :: "partition_backend \<Rightarrow> json" where
  "backend_to_json b = (case b of
     Terraform c \<Rightarrow> json_object [(''Terraform'', terraform_config_to_json c)]
   | OpenTofu c \<Rightarrow> json_object [(''OpenTofu'', terraform_config_to_json c)])"

definition export_to_json :: "export \<Rightarrow> json" where
  "export_to_json e = json_object [
     (''name'', JString (exp_name e)),
     (''target_partition'', JString (pid_str (exp_target_partition e))),
     (''export_type'', JString (export_type_str (exp_export_type e))),
     (''to'', export_target_to_json (exp_to e)),
     (''auth'', JString (auth_type_str (exp_auth e))),
     (''hostname'', json_opt_str (exp_hostname e)),
     (''port'', json_option (\<lambda>p. JNumber (uint p)) (exp_port e))]"

definition import_to_json :: "import \<Rightarrow> json" where
  "import_to_json i = json_object [
     (''from'', JString (eid_str (imp_from i))),
     (''export_name'', JString (imp_export_name i)),
     (''alias'', JString (imp_alias i))]"

definition partition_to_json :: "partition \<Rightarrow> json" where
  "partition_to_json p = json_object [
     (''id'', JString (pid_str (part_id p))),
     (''name'', JString (part_name p)),
     (''produces'', json_option (\<lambda>t. JString (produces_str t)) (part_produces p)),
     (''imports'', json_list import_to_json (part_imports p)),
     (''exports'', json_list export_to_json (part_exports p)),
     (''inputs'', json_string_map (part_inputs p)),
     (''declared_outputs'', json_list JString (part_declared_outputs p)),
     (''backend'', backend_to_json (part_backend p))]"

definition network_to_json :: "network_config \<Rightarrow> json" where
  "network_to_json n = json_object [
     (''vpc_cidr'', json_opt_str (net_vpc_cidr n)),
     (''subnets'', json_list JString (net_subnets n))]"

definition dns_to_json :: "dns_config \<Rightarrow> json" where
  "dns_to_json d = json_object [(''zone'', json_opt_str (dns_zone d))]"

definition enclave_to_json :: "enclave \<Rightarrow> json" where
  "enclave_to_json e = json_object [
     (''id'', JString (eid_str (enc_id e))),
     (''name'', JString (enc_name e)),
     (''cloud'', json_option (\<lambda>c. JString (cloud_str c)) (enc_cloud e)),
     (''region'', JString (enc_region e)),
     (''identity'', json_opt_str (enc_identity e)),
     (''network'', json_option network_to_json (enc_network e)),
     (''dns'', json_option dns_to_json (enc_dns e)),
     (''imports'', json_list import_to_json (enc_imports e)),
     (''exports'', json_list export_to_json (enc_exports e)),
     (''partitions'', json_list partition_to_json (enc_partitions e))]"

text \<open>
  Decoding of \<open>PartitionBackend\<close>, written by hand in the source: the bare string \<open>"Managed"\<close> of
  an older release is promoted to the default, everything else is the externally tagged form. The
  derived decoder of a struct ignores unknown keys, reads a missing or null \<open>Option\<close> field as
  \<open>None\<close>, and accepts an array of the fields in place of an object.
\<close>

datatype json_error = JsonError

definition decode_opt_str :: "json option \<Rightarrow> (json_error, string option) result" where
  "decode_opt_str x = (case x of
     None \<Rightarrow> Inr None
   | Some JNull \<Rightarrow> Inr None
   | Some (JString s) \<Rightarrow> Inr (Some s)
   | Some _ \<Rightarrow> Inl JsonError)"

definition terraform_config_fields ::
  "json option \<Rightarrow> json option \<Rightarrow> json option \<Rightarrow> (json_error, terraform_config) result" where
  "terraform_config_fields tool source dir =
     (case (decode_opt_str tool, decode_opt_str source, dir) of
        (Inr t, Inr s, Some (JString d)) \<Rightarrow> Inr \<lparr>tfc_tool = t, tfc_source = s, tfc_dir = d\<rparr>
      | _ \<Rightarrow> Inl JsonError)"

definition terraform_config_from_json :: "json \<Rightarrow> (json_error, terraform_config) result" where
  "terraform_config_from_json v = (case v of
     JObject m \<Rightarrow>
       terraform_config_fields (map_of m ''tool'') (map_of m ''source'') (map_of m ''dir'')
   | JArray [t, s, d] \<Rightarrow> terraform_config_fields (Some t) (Some s) (Some d)
   | _ \<Rightarrow> Inl JsonError)"

definition backend_from_json :: "json \<Rightarrow> (json_error, partition_backend) result" where
  "backend_from_json v = (case v of
     JString s \<Rightarrow> if s = ''Managed''
       then Inr (Terraform \<lparr>tfc_tool = None, tfc_source = None, tfc_dir = []\<rparr>)
       else Inl JsonError
   | JObject [(tag, c)] \<Rightarrow>
       if tag = ''Terraform'' then map_sum id Terraform (terraform_config_from_json c)
       else if tag = ''OpenTofu'' then map_sum id OpenTofu (terraform_config_from_json c)
       else Inl JsonError
   | _ \<Rightarrow> Inl JsonError)"

subsection \<open>The encodings are faithful\<close>

lemma json_object_eqD: "json_object kvs = json_object kvs' \<Longrightarrow> map_of (rev kvs) k = map_of (rev kvs') k"
  by (metis json.inject(5) json_object_def map_of_bt_collect)

lemma cloud_str_inj: "cloud_str a = cloud_str b \<longleftrightarrow> a = b"
  by (cases a; cases b) (simp_all add: cloud_str_def)

lemma export_type_str_inj: "export_type_str a = export_type_str b \<longleftrightarrow> a = b"
  by (cases a; cases b) (simp_all add: export_type_str_def)

lemma auth_type_str_inj: "auth_type_str a = auth_type_str b \<longleftrightarrow> a = b"
  by (cases a; cases b) (simp_all add: auth_type_str_def)

lemma produces_str_inj: "produces_str a = produces_str b \<longleftrightarrow> a = b"
  by (cases a; cases b) (simp_all add: produces_str_def)

lemma json_option_inj:
  assumes "\<And>a b. f a = f b \<longleftrightarrow> a = b" "\<And>a. f a \<noteq> JNull"
  shows "json_option f x = json_option f y \<longleftrightarrow> x = y"
  using assms(2) assms(2) [symmetric] by (cases x; cases y) (simp_all add: assms(1))

lemma json_list_inj: "(\<And>a b. f a = f b \<Longrightarrow> a = b) \<Longrightarrow> json_list f xs = json_list f ys \<longleftrightarrow> xs = ys"
  by (auto simp: json_list_def inj_def dest: map_injective)

lemma json_object_not_null [simp]: "json_object kvs \<noteq> JNull" "json_object kvs \<noteq> JString s"
  "JString s \<noteq> json_object kvs"
  by (simp_all add: json_object_def)

lemma eid_eq_iff: "eid_str a = eid_str b \<longleftrightarrow> a = b"
  by (auto intro: enclave_id.expand)

lemma pid_eq_iff: "pid_str a = pid_str b \<longleftrightarrow> a = b"
  by (auto intro: partition_id.expand)

lemmas enum_inj = cloud_str_inj export_type_str_inj auth_type_str_inj produces_str_inj
  eid_eq_iff pid_eq_iff

lemma json_object_single_iff [simp]: "json_object [(k, v)] = json_object [(k', v')] \<longleftrightarrow> k = k' \<and> v = v'"
  by (simp add: json_object_def bt_collect_def)

lemma export_target_to_json_inj:
  "export_target_to_json a = export_target_to_json b \<longleftrightarrow> a = b"
  by (cases a; cases b) (auto simp: export_target_to_json_def enum_inj)

lemma json_opt_str_inj: "json_opt_str x = json_opt_str y \<longleftrightarrow> x = y"
  by (rule json_option_inj) auto

lemma terraform_config_to_json_inj:
  "terraform_config_to_json a = terraform_config_to_json b \<longleftrightarrow> a = b"
  by (cases a; cases b)
     (simp add: terraform_config_to_json_def json_object_eq_iff json_opt_str_inj)

lemma backend_to_json_inj: "backend_to_json a = backend_to_json b \<longleftrightarrow> a = b"
  by (cases a; cases b) (simp_all add: backend_to_json_def terraform_config_to_json_inj)

lemma export_to_json_inj: "export_to_json a = export_to_json b \<longleftrightarrow> a = b"
proof -
  have "json_option (\<lambda>p. JNumber (uint p)) x = json_option (\<lambda>p. JNumber (uint p)) y \<longleftrightarrow> x = y"
    for x y :: "16 word option"
    by (rule json_option_inj) (auto simp: word_uint_eq_iff)
  then show ?thesis
    by (cases a; cases b)
       (simp add: export_to_json_def json_object_eq_iff json_opt_str_inj enum_inj
          export_target_to_json_inj)
qed

lemma import_to_json_inj: "import_to_json a = import_to_json b \<longleftrightarrow> a = b"
  by (cases a; cases b) (simp add: import_to_json_def json_object_eq_iff enum_inj)

lemma json_lists_inj:
  "json_list JString ss = json_list JString ts \<longleftrightarrow> ss = ts"
  "json_list import_to_json is = json_list import_to_json js \<longleftrightarrow> is = js"
  "json_list export_to_json es = json_list export_to_json fs \<longleftrightarrow> es = fs"
  by (rule json_list_inj, simp add: import_to_json_inj export_to_json_inj)+

text \<open>Two partitions that differ at most in the order in which their \<open>inputs\<close> are walked.\<close>

definition partition_eqv :: "partition \<Rightarrow> partition \<Rightarrow> bool" where
  "partition_eqv p q \<longleftrightarrow>
     p\<lparr>part_inputs := []\<rparr> = q\<lparr>part_inputs := []\<rparr> \<and> hm_get (part_inputs p) = hm_get (part_inputs q)"

definition partition_ok :: "partition \<Rightarrow> bool" where
  "partition_ok p \<longleftrightarrow> hm_ok (part_inputs p)"

lemma json_string_map_eq_iff:
  assumes "hm_ok m" "hm_ok m'"
  shows "json_string_map m = json_string_map m' \<longleftrightarrow> hm_get m = hm_get m'"
proof
  assume l: "json_string_map m = json_string_map m'"
  have keys: "map fst (map (\<lambda>(k, v). (k, JString v)) n) = map fst n" for n :: "(string, string) hashmap"
    by (induction n) auto
  have get: "map_of (map (\<lambda>(k, v). (k, JString v)) n) = map_option JString \<circ> map_of n"
    for n :: "(string, string) hashmap"
    by (rule ext) (induction n, auto)
  from l have "map_of (rev (map (\<lambda>(k, v). (k, JString v)) m)) = map_of (rev (map (\<lambda>(k, v). (k, JString v)) m'))"
    unfolding json_string_map_def json.inject map_of_bt_collect [symmetric] by simp
  then have "map_option JString \<circ> map_of m = map_option JString \<circ> map_of m'"
    using assms by (simp add: map_of_rev keys hm_ok_def get del: map_map)
  then have eq: "map_option JString (map_of m k) = map_option JString (map_of m' k)" for k
    by (metis comp_apply)
  show "hm_get m = hm_get m'"
  proof
    fix k
    show "hm_get m k = hm_get m' k"
      using eq [of k] by (cases "map_of m k"; cases "map_of m' k") (simp_all add: hm_get_conv)
  qed
qed (use assms in \<open>auto intro: json_string_map_hm\<close>)

lemma produces_json_inj:
  "json_option (\<lambda>t. JString (produces_str t)) x = json_option (\<lambda>t. JString (produces_str t)) y \<longleftrightarrow> x = y"
  by (rule json_option_inj) (auto simp: enum_inj)

lemma partition_to_json_eq_iff:
  assumes "partition_ok p" "partition_ok q"
  shows "partition_to_json p = partition_to_json q \<longleftrightarrow> partition_eqv p q"
  using assms
  by (cases p; cases q)
     (auto simp: partition_to_json_def json_object_eq_iff partition_eqv_def partition_ok_def enum_inj
        json_string_map_eq_iff produces_json_inj backend_to_json_inj json_lists_inj)

text \<open>The same for enclaves, partition by partition.\<close>

definition enclave_eqv :: "enclave \<Rightarrow> enclave \<Rightarrow> bool" where
  "enclave_eqv d e \<longleftrightarrow>
     d\<lparr>enc_partitions := []\<rparr> = e\<lparr>enc_partitions := []\<rparr> \<and>
     list_all2 partition_eqv (enc_partitions d) (enc_partitions e)"

definition enclave_ok :: "enclave \<Rightarrow> bool" where
  "enclave_ok e \<longleftrightarrow> list_all partition_ok (enc_partitions e)"

lemma network_to_json_inj: "network_to_json a = network_to_json b \<longleftrightarrow> a = b"
  by (cases a; cases b)
     (simp add: network_to_json_def json_object_eq_iff json_opt_str_inj json_lists_inj)

lemma dns_to_json_inj: "dns_to_json a = dns_to_json b \<longleftrightarrow> a = b"
  by (cases a; cases b) (simp add: dns_to_json_def json_opt_str_inj)

lemma partitions_json_eq_iff:
  "list_all partition_ok ps \<Longrightarrow> list_all partition_ok qs \<Longrightarrow>
     map partition_to_json ps = map partition_to_json qs \<longleftrightarrow> list_all2 partition_eqv ps qs"
proof (induction ps arbitrary: qs)
  case (Cons p ps)
  then show ?case by (cases qs) (auto simp: partition_to_json_eq_iff)
qed auto

lemma enclave_to_json_eq_iff:
  assumes "enclave_ok d" "enclave_ok e"
  shows "enclave_to_json d = enclave_to_json e \<longleftrightarrow> enclave_eqv d e"
proof -
  have cloud: "json_option (\<lambda>c. JString (cloud_str c)) x = json_option (\<lambda>c. JString (cloud_str c)) y \<longleftrightarrow> x = y"
    for x y by (rule json_option_inj) (auto simp: enum_inj)
  have net: "json_option network_to_json x = json_option network_to_json y \<longleftrightarrow> x = y" for x y
    by (rule json_option_inj) (auto simp: network_to_json_inj, simp add: network_to_json_def)
  have dns: "json_option dns_to_json x = json_option dns_to_json y \<longleftrightarrow> x = y" for x y
    by (rule json_option_inj) (auto simp: dns_to_json_inj, simp add: dns_to_json_def)
  show ?thesis
    using assms
    by (cases d; cases e)
       (auto simp: enclave_to_json_def json_object_eq_iff enclave_eqv_def enclave_ok_def enum_inj
          json_opt_str_inj cloud net dns json_lists_inj
          partitions_json_eq_iff json_list_def [of partition_to_json])
qed

lemma json_wf_partition [simp]: "json_wf (partition_to_json p)"
  by (auto simp: partition_to_json_def backend_to_json_def terraform_config_to_json_def
      import_to_json_def export_to_json_def export_target_to_json_def
      split: partition_backend.split export_target.split)

lemma json_wf_enclave [simp]: "json_wf (enclave_to_json e)"
  by (auto simp: enclave_to_json_def network_to_json_def dns_to_json_def
      import_to_json_def export_to_json_def export_target_to_json_def split: export_target.split)

text \<open>What the hand-written decoder makes of what the encoder writes.\<close>

lemma decode_json_opt_str [simp]: "decode_opt_str (Some (json_opt_str x)) = Inr x"
  by (cases x) (simp_all add: decode_opt_str_def)

lemma terraform_config_roundtrip [simp]:
  "terraform_config_from_json (terraform_config_to_json c) = Inr c"
  by (simp add: terraform_config_from_json_def terraform_config_to_json_def json_object_def
      map_of_bt_collect terraform_config_fields_def)

text \<open>
  The backend of a partition survives storage: decoding what was encoded gives it back, and the
  word \<open>Managed\<close> of older releases is read as Terraform without source, tool or directory.
\<close>
theorem backend_json_roundtrip:
  "backend_from_json (backend_to_json b) = Inr b \<and>
   backend_from_json (JString ''Managed'') = Inr (Terraform \<lparr>tfc_tool = None, tfc_source = None, tfc_dir = []\<rparr>)"
  by (cases b) (simp_all add: backend_from_json_def backend_to_json_def json_object_def bt_collect_def)

end
