(* ===== verification/Effect_Monad.thy ===== *)
theory Effect_Monad imports Nclav_Prelude begin

section \<open>Fallible effects with early return\<close>

text \<open>
  The asynchronous functions of the program read and change a world \<open>'w\<close> and return a
  \<open>Result\<close>. \<open>act\<close> is their type. \<open>seq\<close> is the \<open>?\<close> operator followed by the rest of the body: an
  \<open>Err\<close> leaves the function at once, with the effects made so far. \<open>attempt\<close> is a \<open>match\<close> on the
  result, which goes on in both cases. \<open>foldM\<close> is a \<open>for\<close> loop whose mutable locals are its
  accumulator: \<open>continue\<close> returns the accumulator, \<open>?\<close> in the body leaves the loop and the function.

  \<open>wp\<close> is the weakest precondition for a result \<open>Q\<close> and an error \<open>E\<close>. Its equations drive the
  invariant proofs; a loop needs an invariant (\<open>wp_foldM\<close>).
\<close>

type_synonym ('w, 'e, 'a) act = "'w \<Rightarrow> ('e, 'a) result \<times> 'w"

definition ret :: "'a \<Rightarrow> ('w, 'e, 'a) act" where
  "ret a = (\<lambda>w. (Inr a, w))"

definition throw :: "'e \<Rightarrow> ('w, 'e, 'a) act" where
  "throw e = (\<lambda>w. (Inl e, w))"

definition seq :: "('w, 'e, 'a) act \<Rightarrow> ('a \<Rightarrow> ('w, 'e, 'b) act) \<Rightarrow> ('w, 'e, 'b) act" where
  "seq m f = (\<lambda>w. case m w of (Inl e, w') \<Rightarrow> (Inl e, w') | (Inr a, w') \<Rightarrow> f a w')"

text \<open>\<open>attempt m\<close> makes the result of \<open>m\<close> a value, to match on; it never leaves early.\<close>

definition attempt :: "('w, 'e, 'a) act \<Rightarrow> ('w, 'x, ('e, 'a) result) act" where
  "attempt m = (\<lambda>w. case m w of (r, w') \<Rightarrow> (Inr r, w'))"

text \<open>\<open>map_err\<close>, and the \<open>From\<close> conversion that \<open>?\<close> applies.\<close>

definition map_err :: "('e \<Rightarrow> 'f) \<Rightarrow> ('w, 'e, 'a) act \<Rightarrow> ('w, 'f, 'a) act" where
  "map_err g m = (\<lambda>w. case m w of (Inl e, w') \<Rightarrow> (Inl (g e), w') | (Inr a, w') \<Rightarrow> (Inr a, w'))"

definition lift_result :: "('e, 'a) result \<Rightarrow> ('w, 'e, 'a) act" where
  "lift_result r = (\<lambda>w. (r, w))"

primrec foldM :: "('x \<Rightarrow> 'a \<Rightarrow> ('w, 'e, 'a) act) \<Rightarrow> 'x list \<Rightarrow> 'a \<Rightarrow> ('w, 'e, 'a) act" where
  "foldM f [] a = ret a"
| "foldM f (x # xs) a = seq (f x a) (foldM f xs)"

text \<open>The pure loop with early return, \<open>collect::<Result<Vec<_>, _>>()\<close>.\<close>

fun mapR :: "('x \<Rightarrow> ('e, 'a) result) \<Rightarrow> 'x list \<Rightarrow> ('e, 'a list) result" where
  "mapR f [] = Inr []"
| "mapR f (x # xs) = (case f x of Inl e \<Rightarrow> Inl e | Inr y \<Rightarrow>
     (case mapR f xs of Inl e \<Rightarrow> Inl e | Inr ys \<Rightarrow> Inr (y # ys)))"

text \<open>The pure \<open>?\<close>.\<close>

definition bindR :: "('e, 'a) result \<Rightarrow> ('a \<Rightarrow> ('e, 'b) result) \<Rightarrow> ('e, 'b) result" where
  "bindR r f = (case r of Inl e \<Rightarrow> Inl e | Inr a \<Rightarrow> f a)"

lemma bindR_simps [simp]: "bindR (Inl e) f = Inl e" "bindR (Inr a) f = f a"
  by (simp_all add: bindR_def)

lemma bindR_Inr_iff: "bindR r f = Inr b \<longleftrightarrow> (\<exists>a. r = Inr a \<and> f a = Inr b)"
  by (cases r) simp_all

lemma mapR_Inr_iff: "mapR f xs = Inr ys \<longleftrightarrow> list_all2 (\<lambda>x y. f x = Inr y) xs ys"
proof (induction xs arbitrary: ys)
  case (Cons x xs)
  show ?case
    by (cases "f x"; cases ys; cases "mapR f xs") (auto simp: Cons.IH [symmetric])
qed auto

lemma mapR_Inl_iff:
  "mapR f xs = Inl e \<longleftrightarrow> (\<exists>us x vs. xs = us @ x # vs \<and> (\<forall>u \<in> set us. \<exists>y. f u = Inr y) \<and> f x = Inl e)"
proof (induction xs)
  case (Cons z zs)
  show ?case
  proof (cases "f z")
    case (Inl d)
    then have "mapR f (z # zs) = Inl e \<longleftrightarrow> d = e" by simp
    moreover have "\<exists>us x vs. z # zs = us @ x # vs \<and> (\<forall>u \<in> set us. \<exists>y. f u = Inr y) \<and> f x = Inl d"
      using Inl by (intro exI [of _ "[]"]) simp
    moreover have "e = d"
      if "z # zs = us @ x # vs" "\<forall>u \<in> set us. \<exists>y. f u = Inr y" "f x = Inl e" for us x vs
      using that Inl by (cases us) auto
    ultimately show ?thesis by blast
  next
    case (Inr y)
    then have "mapR f (z # zs) = Inl e \<longleftrightarrow> mapR f zs = Inl e"
      by (auto split: sum.splits)
    also have "\<dots> \<longleftrightarrow> (\<exists>us x vs. z # zs = us @ x # vs \<and> (\<forall>u \<in> set us. \<exists>y. f u = Inr y) \<and> f x = Inl e)"
      unfolding Cons.IH
    proof safe
      fix us x vs assume "f x = Inl e" "\<forall>u \<in> set us. \<exists>y. f u = Inr y"
      then show "\<exists>us' x' vs'. z # us @ x # vs = us' @ x' # vs' \<and>
          (\<forall>u \<in> set us'. \<exists>y. f u = Inr y) \<and> f x' = Inl e"
        using Inr by (intro exI [of _ "z # us"] exI [of _ x] exI [of _ vs]) simp
    next
      fix us x vs assume "z # zs = us @ x # vs" "\<forall>u \<in> set us. \<exists>y. f u = Inr y" "f x = Inl e"
      then show "\<exists>us x vs. zs = us @ x # vs \<and> (\<forall>u \<in> set us. \<exists>y. f u = Inr y) \<and> f x = Inl e"
        using Inr by (cases us) auto
    qed
    finally show ?thesis .
  qed
qed simp

text \<open>The pure loop over an accumulator, with early return.\<close>

primrec foldR :: "('x \<Rightarrow> 'a \<Rightarrow> ('e, 'a) result) \<Rightarrow> 'x list \<Rightarrow> 'a \<Rightarrow> ('e, 'a) result" where
  "foldR f [] a = Inr a"
| "foldR f (x # xs) a = bindR (f x a) (foldR f xs)"

lemma foldR_cong [fundef_cong]:
  assumes "xs = ys" "a = b" "\<And>x c. x \<in> set ys \<Longrightarrow> f x c = g x c"
  shows "foldR f xs a = foldR g ys b"
proof -
  have "foldR f ys a = foldR g ys a" using assms(3)
  proof (induction ys arbitrary: a)
    case (Cons y ys)
    then have "f y a = g y a" "foldR f ys = foldR g ys" by (auto intro!: ext)
    then show ?case by simp
  qed simp
  with assms(1,2) show ?thesis by simp
qed

lemma foldR_invariant:
  assumes "foldR f xs a = Inr b" "I a"
    and "\<And>x c d. x \<in> set xs \<Longrightarrow> I c \<Longrightarrow> f x c = Inr d \<Longrightarrow> I d"
  shows "I b"
  using assms
proof (induction xs arbitrary: a)
  case (Cons x xs)
  then obtain c where "f x a = Inr c" "foldR f xs c = Inr b" by (auto simp: bindR_Inr_iff)
  then show ?case using Cons by (metis list.set_intros(1,2))
qed simp

subsection \<open>Weakest preconditions\<close>

definition wp :: "('w, 'e, 'a) act \<Rightarrow> ('a \<Rightarrow> 'w \<Rightarrow> bool) \<Rightarrow> ('e \<Rightarrow> 'w \<Rightarrow> bool) \<Rightarrow> 'w \<Rightarrow> bool" where
  "wp m Q E w = (case m w of (Inr a, w') \<Rightarrow> Q a w' | (Inl e, w') \<Rightarrow> E e w')"

lemma wp_ret [wp_simps]: "wp (ret a) Q E w = Q a w"
  by (simp add: wp_def ret_def)

lemma wp_throw [wp_simps]: "wp (throw e) Q E w = E e w"
  by (simp add: wp_def throw_def)

lemma wp_seq [wp_simps]: "wp (seq m f) Q E w = wp m (\<lambda>a. wp (f a) Q E) E w"
  by (simp add: wp_def seq_def split: prod.split sum.split)

lemma wp_attempt [wp_simps]:
  "wp (attempt m) Q E w = wp m (\<lambda>a. Q (Inr a)) (\<lambda>e. Q (Inl e)) w"
  by (simp add: wp_def attempt_def split: prod.split sum.split)

lemma wp_map_err [wp_simps]: "wp (map_err g m) Q E w = wp m Q (\<lambda>e. E (g e)) w"
  by (simp add: wp_def map_err_def split: prod.split sum.split)

lemma wp_lift_result [wp_simps]:
  "wp (lift_result r) Q E w = (case r of Inl e \<Rightarrow> E e w | Inr a \<Rightarrow> Q a w)"
  by (simp add: wp_def lift_result_def split: sum.split)

lemma wp_if [wp_simps]: "wp (if b then m else n) Q E w = (if b then wp m Q E w else wp n Q E w)"
  by simp

lemma wp_state_if [wp_simps]:
  "wp (\<lambda>s. if b s then m s else n s) Q E w = (if b w then wp m Q E w else wp n Q E w)"
  by (simp add: wp_def)

lemma wp_case_option [wp_simps]:
  "wp (case x of None \<Rightarrow> m | Some y \<Rightarrow> f y) Q E w =
     (case x of None \<Rightarrow> wp m Q E w | Some y \<Rightarrow> wp (f y) Q E w)"
  by (simp split: option.split)

lemma wp_case_sum [wp_simps]:
  "wp (case x of Inl e \<Rightarrow> f e | Inr y \<Rightarrow> g y) Q E w =
     (case x of Inl e \<Rightarrow> wp (f e) Q E w | Inr y \<Rightarrow> wp (g y) Q E w)"
  by (simp split: sum.split)

lemma wp_mono:
  assumes "wp m Q E w" "\<And>a w'. Q a w' \<Longrightarrow> Q' a w'" "\<And>e w'. E e w' \<Longrightarrow> E' e w'"
  shows "wp m Q' E' w"
  using assms by (auto simp: wp_def split: prod.splits sum.splits)

lemma wp_conj: "wp m Q E w \<Longrightarrow> wp m Q' E' w \<Longrightarrow> wp m (\<lambda>a w. Q a w \<and> Q' a w) (\<lambda>e w. E e w \<and> E' e w) w"
  by (auto simp: wp_def split: prod.splits sum.splits)

lemma wp_InrD: "wp m Q E w \<Longrightarrow> m w = (Inr a, w') \<Longrightarrow> Q a w'"
  by (simp add: wp_def)

lemma wp_InlD: "wp m Q E w \<Longrightarrow> m w = (Inl e, w') \<Longrightarrow> E e w'"
  by (simp add: wp_def)

lemma wp_snd: "wp m (\<lambda>_. P) (\<lambda>_. P) w = P (snd (m w))"
  by (simp add: wp_def split: prod.split sum.split)

lemma wp_seqI:
  assumes "wp m R E w" "\<And>a w'. R a w' \<Longrightarrow> wp (f a) Q E w'"
  shows "wp (seq m f) Q E w"
  unfolding wp_seq by (rule wp_mono [OF assms(1)]) (use assms(2) in auto)

lemma wp_True [intro!, simp]: "wp m (\<lambda>_ _. True) (\<lambda>_ _. True) w"
  by (simp add: wp_def split: prod.split sum.split)

lemma wp_fail_after: "wp (seq m (\<lambda>_. throw e)) Q (\<lambda>_ _. True) w"
  by (rule wp_seqI [OF wp_True]) (simp add: wp_throw)

text \<open>A loop: an invariant over the processed prefix, the accumulator and the world.\<close>

lemma wp_foldM_prefix:
  assumes "I [] a w"
    and "\<And>us x vs a w. xs = us @ x # vs \<Longrightarrow> I us a w \<Longrightarrow> wp (f x a) (\<lambda>a'. I (us @ [x]) a') E w"
  shows "wp (foldM f xs a) (I xs) E w"
proof -
  have "wp (foldM f vs a) (I xs) E w" if "xs = us @ vs" "I us a w" for us vs a w
    using that
  proof (induction vs arbitrary: us a w)
    case Nil
    then show ?case by (simp add: wp_ret)
  next
    case (Cons x vs)
    have "wp (f x a) (\<lambda>a'. I (us @ [x]) a') E w"
      by (rule assms(2)) (use Cons.prems in auto)
    then show ?case
      by (auto simp: wp_seq intro!: Cons.IH [of "us @ [x]"] Cons.prems elim!: wp_mono)
  qed
  from this [of "[]"] assms(1) show ?thesis by simp
qed

lemma wp_foldM:
  assumes "I a w" and "\<And>x a w. x \<in> set xs \<Longrightarrow> I a w \<Longrightarrow> wp (f x a) I E w"
  shows "wp (foldM f xs a) I E w"
  by (rule wp_foldM_prefix [where I = "\<lambda>_. I", OF assms(1)]) (use assms(2) in auto)

lemma foldM_append: "foldM f (xs @ ys) a = seq (foldM f xs a) (foldM f ys)"
proof (induction xs arbitrary: a)
  case Nil
  then show ?case by (simp add: seq_def ret_def)
next
  case (Cons x xs)
  show ?case
    by (rule ext) (simp add: Cons.IH seq_def split: prod.split sum.split)
qed

lemma foldM_cong:
  assumes "\<And>x a. x \<in> set xs \<Longrightarrow> f x a = g x a"
  shows "foldM f xs a = foldM g xs a"
  using assms
proof (induction xs arbitrary: a)
  case (Cons x xs)
  then have "foldM f xs = foldM g xs" "f x a = g x a" by (auto intro!: ext)
  then show ?case by simp
qed simp

subsection \<open>What holds whatever the outcome\<close>

definition preserves :: "('w \<Rightarrow> bool) \<Rightarrow> ('w, 'e, 'a) act \<Rightarrow> bool" where
  "preserves P m \<longleftrightarrow> (\<forall>w. P w \<longrightarrow> P (snd (m w)))"

named_theorems preserves_intros \<open>which effects preserve a predicate\<close>

lemma preservesD: "preserves P m \<Longrightarrow> P w \<Longrightarrow> m w = (r, w') \<Longrightarrow> P w'"
  by (metis preserves_def snd_conv)

lemma preserves_wp: "preserves P m \<Longrightarrow> P w \<Longrightarrow> wp m (\<lambda>_. P) (\<lambda>_. P) w"
  by (simp add: preserves_def wp_snd)

lemma preservesI_wp: "(\<And>w. P w \<Longrightarrow> wp m (\<lambda>_. P) (\<lambda>_. P) w) \<Longrightarrow> preserves P m"
  by (simp add: preserves_def wp_snd)

lemma preserves_ret [preserves_intros]: "preserves P (ret a)"
  by (simp add: preserves_def ret_def)

lemma preserves_throw [preserves_intros]: "preserves P (throw e)"
  by (simp add: preserves_def throw_def)

lemma preserves_lift_result [preserves_intros]: "preserves P (lift_result r)"
  by (simp add: preserves_def lift_result_def)

lemma preserves_seq [preserves_intros]:
  assumes "preserves P m" "\<And>a. preserves P (f a)"
  shows "preserves P (seq m f)"
proof (rule preservesI_wp)
  fix w assume "P w"
  from preserves_wp [OF assms(1) this] show "wp (seq m f) (\<lambda>_. P) (\<lambda>_. P) w"
    unfolding wp_seq by (rule wp_mono) (auto intro: preserves_wp assms(2))
qed

lemma preserves_attempt [preserves_intros]: "preserves P m \<Longrightarrow> preserves P (attempt m)"
  by (simp add: preserves_def attempt_def case_prod_beta)

lemma preserves_map_err [preserves_intros]: "preserves P m \<Longrightarrow> preserves P (map_err g m)"
  by (rule preservesI_wp) (auto simp: wp_map_err dest: preserves_wp)

lemma preserves_if [preserves_intros]:
  "(b \<Longrightarrow> preserves P m) \<Longrightarrow> (\<not> b \<Longrightarrow> preserves P n) \<Longrightarrow> preserves P (if b then m else n)"
  by simp

lemma preserves_state_if [preserves_intros]:
  "preserves P m \<Longrightarrow> preserves P n \<Longrightarrow> preserves P (\<lambda>s. if b s then m s else n s)"
  by (simp add: preserves_def)

lemma preserves_case_option [preserves_intros]:
  "preserves P m \<Longrightarrow> (\<And>y. preserves P (f y)) \<Longrightarrow> preserves P (case x of None \<Rightarrow> m | Some y \<Rightarrow> f y)"
  by (cases x) simp_all

lemma preserves_case_sum [preserves_intros]:
  "(\<And>e. preserves P (f e)) \<Longrightarrow> (\<And>y. preserves P (g y)) \<Longrightarrow> preserves P (case x of Inl e \<Rightarrow> f e | Inr y \<Rightarrow> g y)"
  by (cases x) simp_all

lemma preserves_case_prod [preserves_intros]:
  "(\<And>a b. preserves P (f a b)) \<Longrightarrow> preserves P (case x of (a, b) \<Rightarrow> f a b)"
  by (cases x) simp_all

lemma preserves_Let [preserves_intros]: "(\<And>a. preserves P (f a)) \<Longrightarrow> preserves P (Let x f)"
  by simp

lemma preserves_foldM [preserves_intros]:
  "(\<And>x a. preserves P (f x a)) \<Longrightarrow> preserves P (foldM f xs a)"
  by (induction xs arbitrary: a) (auto intro: preserves_ret preserves_seq)

subsection \<open>Which errors can leave a function\<close>

definition raises :: "('e \<Rightarrow> bool) \<Rightarrow> ('w, 'e, 'a) act \<Rightarrow> bool" where
  "raises E m \<longleftrightarrow> (\<forall>w. wp m (\<lambda>_ _. True) (\<lambda>e _. E e) w)"

named_theorems raises_intros \<open>which errors can leave a function\<close>

lemma raisesD: "raises E m \<Longrightarrow> m w = (Inl e, w') \<Longrightarrow> E e"
  unfolding raises_def by (metis wp_InlD)

lemma raises_ret [raises_intros]: "raises E (ret a)"
  by (simp add: raises_def wp_ret)

lemma raises_throw [raises_intros]: "E e \<Longrightarrow> raises E (throw e)"
  by (simp add: raises_def wp_throw)

lemma raises_seq [raises_intros]: "raises E m \<Longrightarrow> (\<And>a. raises E (f a)) \<Longrightarrow> raises E (seq m f)"
  unfolding raises_def by (blast intro: wp_seqI)

lemma raises_attempt [raises_intros]: "raises E (attempt m)"
  by (simp add: raises_def wp_attempt)

lemma raises_map_err [raises_intros]: "(\<And>e. E (g e)) \<Longrightarrow> raises E (map_err g m)"
  by (simp add: raises_def wp_map_err)

lemma raises_if [raises_intros]: "raises E m \<Longrightarrow> raises E n \<Longrightarrow> raises E (if b then m else n)"
  by simp

lemma raises_case_option [raises_intros]:
  "raises E m \<Longrightarrow> (\<And>y. raises E (f y)) \<Longrightarrow> raises E (case x of None \<Rightarrow> m | Some y \<Rightarrow> f y)"
  by (cases x) simp_all

lemma raises_case_sum [raises_intros]:
  "(\<And>e. raises E (f e)) \<Longrightarrow> (\<And>y. raises E (g y)) \<Longrightarrow> raises E (case x of Inl e \<Rightarrow> f e | Inr y \<Rightarrow> g y)"
  by (cases x) simp_all

lemma raises_case_prod [raises_intros]:
  "(\<And>a b. raises E (f a b)) \<Longrightarrow> raises E (case x of (a, b) \<Rightarrow> f a b)"
  by (cases x) simp_all

lemma raises_Let [raises_intros]: "(\<And>a. raises E (f a)) \<Longrightarrow> raises E (Let x f)"
  by simp

lemma raises_foldM [raises_intros]: "(\<And>x a. raises E (f x a)) \<Longrightarrow> raises E (foldM f xs a)"
  by (induction xs arbitrary: a) (auto intro: raises_ret raises_seq)

end
