(* ===== verification/Graph_Validate.thy ===== *)
theory Graph_Validate
  imports Domain_Types Effect_Monad
begin

section \<open>Validation of the enclave graph\<close>

text \<open>
  \<open>crates/nclav-graph/src/validate.rs\<close> and \<open>error.rs\<close>. The two algorithms of the \<open>petgraph\<close>
  package are a parameter (\<open>petgraph\<close>): a graph is its number of nodes and its list of edges, a
  node its index. \<open>petgraph_at\<close> states what their documentation promises for one graph.
  \<open>kahn_petgraph\<close> is an implementation that keeps the promise on every graph, so the hypothesis
  is satisfiable and the examples compute.
\<close>

subsection \<open>Errors\<close>

datatype graph_error =
    DanglingImportEnclave enclave_id enclave_id
  | DanglingImportExport enclave_id enclave_id string
  | AccessDenied enclave_id enclave_id string
  | TypeMismatch enclave_id string string string
  | ProducesExportMismatch partition_id string string string
  | MissingRequiredOutput partition_id string string
  | CycleDetected
  | MultipleErrors "graph_error list"
  | GraphPanic \<comment> \<open>not in the source: the panic of indexing a hash map with a missing key\<close>

definition graph_error_str :: "graph_error \<Rightarrow> string" where
  "graph_error_str e = (case e of
     DanglingImportEnclave i f \<Rightarrow>
       ''dangling import: enclave '' @ [CHR 0x27] @ eid_str i @ [CHR 0x27] @
       '' imports from unknown enclave '' @ [CHR 0x27] @ eid_str f @ [CHR 0x27]
   | DanglingImportExport i f x \<Rightarrow>
       ''dangling import: enclave '' @ [CHR 0x27] @ eid_str i @ [CHR 0x27] @ '' imports export '' @
       [CHR 0x27] @ x @ [CHR 0x27] @ '' which does not exist on '' @ [CHR 0x27] @ eid_str f @ [CHR 0x27]
   | AccessDenied i f x \<Rightarrow>
       ''access denied: enclave '' @ [CHR 0x27] @ eid_str i @ [CHR 0x27] @
       '' is not permitted to import '' @ [CHR 0x27] @ x @ [CHR 0x27] @ '' from '' @
       [CHR 0x27] @ eid_str f @ [CHR 0x27]
   | TypeMismatch i x it et \<Rightarrow>
       ''type mismatch: enclave '' @ [CHR 0x27] @ eid_str i @ [CHR 0x27] @ '' imports '' @
       [CHR 0x27] @ x @ [CHR 0x27] @ '' as '' @ it @ '' but it is '' @ et
   | ProducesExportMismatch p pt x et \<Rightarrow>
       ''produces/export mismatch: partition '' @ [CHR 0x27] @ pid_str p @ [CHR 0x27] @ '' produces '' @
       pt @ '' but is targeted by export '' @ [CHR 0x27] @ x @ [CHR 0x27] @ '' of type '' @ et
   | MissingRequiredOutput p pt k \<Rightarrow>
       ''missing required output: partition '' @ [CHR 0x27] @ pid_str p @ [CHR 0x27] @ '' produces '' @
       pt @ '' but does not declare output '' @ [CHR 0x27] @ k @ [CHR 0x27]
   | CycleDetected \<Rightarrow> ''cycle detected in enclave dependency graph''
   | MultipleErrors es \<Rightarrow> ''multiple errors''
   | GraphPanic \<Rightarrow> ''panic'')"

subsection \<open>Results\<close>

record wiring =
  wir_importer_enclave :: enclave_id
  wir_importer_partition :: "partition_id option"
  wir_exporter_enclave :: enclave_id
  wir_export_name :: string

record resolved_graph =
  res_topo_order :: "string list"
  res_wiring :: "wiring list"

record petgraph =
  pg_is_cyclic :: "nat \<Rightarrow> (nat \<times> nat) list \<Rightarrow> bool"
  pg_toposort :: "nat \<Rightarrow> (nat \<times> nat) list \<Rightarrow> nat list option"

subsection \<open>The checks\<close>

definition missing_outputs :: "partition \<Rightarrow> graph_error list" where
  "missing_outputs p = (case part_produces p of
     None \<Rightarrow> []
   | Some pt \<Rightarrow>
       [MissingRequiredOutput (part_id p) (produces_str pt) k.
          k \<leftarrow> required_outputs pt, k \<notin> set (part_declared_outputs p)])"

definition export_mismatch :: "enclave \<Rightarrow> export \<Rightarrow> graph_error list" where
  "export_mismatch enc x =
     (case find (\<lambda>p. part_id p = exp_target_partition x) (enc_partitions enc) of
        None \<Rightarrow> []
      | Some p \<Rightarrow> (case part_produces p of
          None \<Rightarrow> []
        | Some pt \<Rightarrow>
            if export_type_of_produces pt \<noteq> exp_export_type x
            then [ProducesExportMismatch (part_id p) (produces_str pt) (exp_name x)
                    (export_type_str (exp_export_type x))]
            else []))"

definition access_permitted :: "export_target \<Rightarrow> enclave_id \<Rightarrow> bool" where
  "access_permitted t importer = (case t of
     ToPublic \<Rightarrow> True
   | ToAnyEnclave \<Rightarrow> True
   | ToVpn \<Rightarrow> True
   | ToEnclave allowed \<Rightarrow> allowed = importer
   | ToPartition _ \<Rightarrow> False)"

definition check_import_partition ::
  "enclave \<Rightarrow> partition_id \<Rightarrow> import \<Rightarrow> (enclave_id, enclave) hashmap \<Rightarrow> (graph_error, wiring) result" where
  "check_import_partition importer pid i by_id =
     (case hm_get by_id (imp_from i) of
        None \<Rightarrow> Inl (DanglingImportEnclave (enc_id importer) (imp_from i))
      | Some source \<Rightarrow>
          (case find (\<lambda>x. exp_name x = imp_export_name i) (enc_exports source) of
             None \<Rightarrow> Inl (DanglingImportExport (enc_id importer) (imp_from i) (imp_export_name i))
           | Some x \<Rightarrow>
               if \<not> access_permitted (exp_to x) (enc_id importer)
               then Inl (AccessDenied (enc_id importer) (imp_from i) (imp_export_name i))
               else Inr \<lparr>wir_importer_enclave = enc_id importer,
                         wir_importer_partition = (if pid_str pid = [] then None else Some pid),
                         wir_exporter_enclave = imp_from i,
                         wir_export_name = imp_export_name i\<rparr>))"

definition check_import ::
  "enclave \<Rightarrow> import \<Rightarrow> (enclave_id, enclave) hashmap \<Rightarrow> (graph_error, wiring) result" where
  "check_import importer i by_id =
     map_sum id (\<lambda>w. w\<lparr>wir_importer_partition := None\<rparr>)
       (check_import_partition importer (PartitionId []) i by_id)"

definition import_checks ::
  "(enclave_id, enclave) hashmap \<Rightarrow> enclave \<Rightarrow> (graph_error, wiring) result list" where
  "import_checks by_id enc =
     map (\<lambda>i. check_import enc i by_id) (enc_imports enc) @
     concat (map (\<lambda>p. map (\<lambda>i. check_import_partition enc (part_id p) i by_id) (part_imports p))
       (enc_partitions enc))"

definition errs_of :: "('e, 'a) result list \<Rightarrow> 'e list" where
  "errs_of rs = concat (map (\<lambda>r. case r of Inl e \<Rightarrow> [e] | Inr _ \<Rightarrow> []) rs)"

definition oks_of :: "('e, 'a) result list \<Rightarrow> 'a list" where
  "oks_of rs = concat (map (\<lambda>r. case r of Inl _ \<Rightarrow> [] | Inr a \<Rightarrow> [a]) rs)"

definition enclave_errors :: "(enclave_id, enclave) hashmap \<Rightarrow> enclave \<Rightarrow> graph_error list" where
  "enclave_errors by_id enc =
     concat (map missing_outputs (enc_partitions enc)) @
     concat (map (export_mismatch enc) (enc_exports enc)) @
     errs_of (import_checks by_id enc)"

definition enclaves_by_id :: "enclave list \<Rightarrow> (enclave_id, enclave) hashmap" where
  "enclaves_by_id encs = hm_collect (map (\<lambda>e. (enc_id e, e)) encs)"

definition validate_errors :: "enclave list \<Rightarrow> graph_error list" where
  "validate_errors encs = concat (map (enclave_errors (enclaves_by_id encs)) encs)"

definition validate_wiring :: "enclave list \<Rightarrow> wiring list" where
  "validate_wiring encs =
     concat (map (\<lambda>enc. oks_of (import_checks (enclaves_by_id encs) enc)) encs)"

subsection \<open>Cycle detection and order\<close>

definition node_map :: "enclave list \<Rightarrow> (enclave_id, nat) hashmap" where
  "node_map encs = hm_collect (zip (map enc_id encs) [0..<length encs])"

definition graph_nodes :: "enclave list \<Rightarrow> enclave_id list" where
  "graph_nodes encs = map enc_id encs"

text \<open>The edges, exporter to importer; \<open>None\<close> is the panic of \<open>node_map[..]\<close> on a missing key.\<close>

fun graph_edges :: "(enclave_id, nat) hashmap \<Rightarrow> wiring list \<Rightarrow> (nat \<times> nat) list option" where
  "graph_edges nm [] = Some []"
| "graph_edges nm (w # ws) =
     (if wir_exporter_enclave w = wir_importer_enclave w then graph_edges nm ws
      else (case (hm_get nm (wir_exporter_enclave w), hm_get nm (wir_importer_enclave w)) of
          (Some a, Some b) \<Rightarrow> map_option (Cons (a, b)) (graph_edges nm ws)
        | _ \<Rightarrow> None))"

definition validate :: "petgraph \<Rightarrow> enclave list \<Rightarrow> (graph_error, resolved_graph) result" where
  "validate pg encs =
     (case validate_errors encs of
        [e] \<Rightarrow> Inl e
      | e # es \<Rightarrow> Inl (MultipleErrors (e # es))
      | [] \<Rightarrow>
          (case graph_edges (node_map encs) (validate_wiring encs) of
             None \<Rightarrow> Inl GraphPanic
           | Some edges \<Rightarrow>
               if pg_is_cyclic pg (length encs) edges then Inl CycleDetected
               else (case pg_toposort pg (length encs) edges of
                   None \<Rightarrow> Inl CycleDetected
                 | Some topo \<Rightarrow>
                     Inr \<lparr>res_topo_order = map (\<lambda>i. eid_str (graph_nodes encs ! i)) topo,
                          res_wiring = validate_wiring encs\<rparr>)))"

subsection \<open>What petgraph promises\<close>

definition before_in :: "'a list \<Rightarrow> 'a \<Rightarrow> 'a \<Rightarrow> bool" where
  "before_in xs a b \<longleftrightarrow> (\<exists>us vs ws. xs = us @ a # vs @ b # ws)"

definition petgraph_at :: "petgraph \<Rightarrow> nat \<Rightarrow> (nat \<times> nat) list \<Rightarrow> bool" where
  "petgraph_at pg n es \<longleftrightarrow>
     (pg_is_cyclic pg n es \<longleftrightarrow> \<not> acyclic (set es)) \<and>
     (acyclic (set es) \<longrightarrow>
        (\<exists>topo. pg_toposort pg n es = Some topo \<and> distinct topo \<and> set topo = {..<n} \<and>
                (\<forall>(a, b) \<in> set es. before_in topo a b)))"

text \<open>An implementation: repeatedly take a node without a predecessor among those left.\<close>

fun kahn :: "nat \<Rightarrow> nat list \<Rightarrow> (nat \<times> nat) list \<Rightarrow> nat list option" where
  "kahn 0 rem es = (if rem = [] then Some [] else None)"
| "kahn (Suc k) rem es =
     (if rem = [] then Some []
      else (case find (\<lambda>x. list_all (\<lambda>(a, b). b \<noteq> x \<or> a \<notin> set rem) es) rem of
          None \<Rightarrow> None
        | Some x \<Rightarrow> map_option (Cons x) (kahn k (removeAll x rem) es)))"

definition kahn_petgraph :: petgraph where
  "kahn_petgraph = \<lparr>pg_is_cyclic = (\<lambda>n es. kahn n [0..<n] es = None),
                    pg_toposort = (\<lambda>n es. kahn n [0..<n] es)\<rparr>"

subsection \<open>The reference algorithm keeps the promise\<close>

lemma before_in_Cons: "b \<in> set xs \<Longrightarrow> before_in (a # xs) a b"
  unfolding before_in_def by (metis append_Nil split_list)

lemma before_in_ConsI: "before_in xs a b \<Longrightarrow> before_in (x # xs) a b"
  unfolding before_in_def by (metis append_Cons)

lemma before_in_acyclic:
  assumes "distinct xs" "\<And>a b. (a, b) \<in> r \<Longrightarrow> before_in xs a b"
  shows "acyclic r"
proof -
  have "length (takeWhile (\<lambda>x. x \<noteq> a) xs) < length (takeWhile (\<lambda>x. x \<noteq> b) xs)"
    if ab: "(a, b) \<in> r" for a b
  proof -
    obtain us vs ws where xs: "xs = us @ a # vs @ b # ws"
      using assms(2) [OF ab] by (auto simp: before_in_def)
    with assms(1) have "\<forall>x \<in> set us. x \<noteq> a" "\<forall>x \<in> set (us @ a # vs). x \<noteq> b" by auto
    then have "takeWhile (\<lambda>x. x \<noteq> a) xs = us" "takeWhile (\<lambda>x. x \<noteq> b) xs = us @ a # vs"
      unfolding xs by (simp_all add: takeWhile_append2)
    then show ?thesis by simp
  qed
  then have "r \<subseteq> measure (\<lambda>a. length (takeWhile (\<lambda>x. x \<noteq> a) xs))" by auto
  then show ?thesis by (metis wf_acyclic wf_measure wf_subset)
qed

lemma kahn_Some:
  "kahn k rem es = Some topo \<Longrightarrow> distinct rem \<Longrightarrow>
     distinct topo \<and> set topo = set rem \<and>
     (\<forall>(a, b) \<in> set es. a \<in> set rem \<longrightarrow> b \<in> set rem \<longrightarrow> before_in topo a b)"
proof (induction k rem es arbitrary: topo rule: kahn.induct)
  case (2 k rem es)
  show ?case
  proof (cases "rem = []")
    case False
    with 2(2) obtain x o' where
      x: "find (\<lambda>x. list_all (\<lambda>(a, b). b \<noteq> x \<or> a \<notin> set rem) es) rem = Some x"
      and o': "kahn k (removeAll x rem) es = Some o'" and topo: "topo = x # o'"
      by (auto split: option.splits)
    from x have xr: "x \<in> set rem" and min: "\<forall>(a, b) \<in> set es. b = x \<longrightarrow> a \<notin> set rem"
      by (auto simp: find_Some_iff list_all_iff)
    have ih: "distinct o'" "set o' = set rem - {x}"
      "\<forall>(a, b) \<in> set es. a \<in> set rem - {x} \<longrightarrow> b \<in> set rem - {x} \<longrightarrow> before_in o' a b"
      using "2.IH" [OF False x o'] 2(3) by (auto simp: distinct_removeAll)
    have "before_in topo a b" if "(a, b) \<in> set es" "a \<in> set rem" "b \<in> set rem" for a b
    proof -
      have "b \<noteq> x" using min that by auto
      then show ?thesis
        using that ih topo by (cases "a = x") (auto intro: before_in_Cons before_in_ConsI)
    qed
    with ih xr topo show ?thesis by auto
  qed (use 2 in auto)
qed (auto split: if_splits)

lemma kahn_None:
  "kahn k rem es = None \<Longrightarrow> distinct rem \<Longrightarrow> length rem \<le> k \<Longrightarrow> \<not> acyclic (set es)"
proof (induction k rem es rule: kahn.induct)
  case (2 k rem es)
  then have ne: "rem \<noteq> []" by auto
  show ?case
  proof (cases "find (\<lambda>x. list_all (\<lambda>(a, b). b \<noteq> x \<or> a \<notin> set rem) es) rem")
    case None
    then have no_min: "\<forall>x \<in> set rem. \<exists>a. (a, x) \<in> set es \<and> a \<in> set rem"
      by (fastforce simp: find_None_iff list_all_iff)
    show ?thesis
    proof
      assume "acyclic (set es)"
      then have "wf (set es)" by (simp add: finite_acyclic_wf)
      then obtain x where "x \<in> set rem" "\<forall>a. (a, x) \<in> set es \<longrightarrow> a \<notin> set rem"
        using ne by (metis list.set_intros(1) neq_Nil_conv wfE_min)
      with no_min show False by blast
    qed
  next
    case (Some x)
    then have "x \<in> set rem" by (auto simp: find_Some_iff)
    then have "length (removeAll x rem) \<le> k"
      using 2(4) by (metis length_removeAll_less less_le_trans less_Suc_eq_le)
    then show ?thesis
      using "2.IH" [OF ne Some] 2(2,3) Some ne by (auto simp: distinct_removeAll split: option.splits)
  qed
qed (auto split: if_splits)

lemma kahn_petgraph_at:
  assumes "set es \<subseteq> {..<n} \<times> {..<n}"
  shows "petgraph_at kahn_petgraph n es"
proof -
  have some: "distinct topo \<and> set topo = {..<n} \<and> (\<forall>(a, b) \<in> set es. before_in topo a b)"
    if "kahn n [0..<n] es = Some topo" for topo
    using kahn_Some [OF that] assms by (auto simp: atLeast0LessThan)
  have none: "\<not> acyclic (set es)" if "kahn n [0..<n] es = None"
    using kahn_None [OF that] by simp
  show ?thesis
  proof (cases "kahn n [0..<n] es")
    case (Some topo)
    then have "acyclic (set es)"
      using some by (intro before_in_acyclic [of topo]) auto
    with Some some show ?thesis by (simp add: petgraph_at_def kahn_petgraph_def)
  qed (use none in \<open>simp add: petgraph_at_def kahn_petgraph_def\<close>)
qed

subsection \<open>Lookups\<close>

lemma hm_get_by_id_dom: "hm_get (enclaves_by_id encs) i \<noteq> None \<longleftrightarrow> i \<in> enc_id ` set encs"
  by (auto simp: enclaves_by_id_def hm_get_collect map_of_eq_None_iff image_image
      dest: sym [of _ None])

lemma hm_get_by_id_Some: "hm_get (enclaves_by_id encs) i = Some e \<Longrightarrow> e \<in> set encs \<and> enc_id e = i"
  by (auto simp: enclaves_by_id_def hm_get_collect dest!: map_of_SomeD)

lemma hm_get_by_id_distinct:
  assumes "distinct (map enc_id encs)" "e \<in> set encs"
  shows "hm_get (enclaves_by_id encs) (enc_id e) = Some e"
proof -
  have "map fst (map (\<lambda>e. (enc_id e, e)) encs) = map enc_id encs" by simp
  with assms show ?thesis
    by (simp add: enclaves_by_id_def hm_get_collect_distinct map_of_eq_Some_iff del: map_map)
qed

lemma hm_get_node_map_dom: "hm_get (node_map encs) i \<noteq> None \<longleftrightarrow> i \<in> enc_id ` set encs"
proof -
  have "fst ` set (zip (map enc_id encs) [0..<length encs]) = enc_id ` set encs"
    by (metis length_map length_upt list.set_map map_fst_zip minus_nat.diff_0)
  then show ?thesis
    by (auto simp: node_map_def hm_get_collect map_of_eq_None_iff dest: sym [of _ None])
qed

lemma hm_get_node_map_Some:
  "hm_get (node_map encs) i = Some n \<Longrightarrow> n < length encs \<and> enc_id (encs ! n) = i"
  by (auto simp: node_map_def hm_get_collect set_zip dest!: map_of_SomeD)

lemma hm_get_node_map_nth:
  assumes "distinct (map enc_id encs)" "n < length encs"
  shows "hm_get (node_map encs) (enc_id (encs ! n)) = Some n"
proof -
  have "(enc_id (encs ! n), n) \<in> set (zip (map enc_id encs) [0..<length encs])"
    using assms(2) by (auto simp: set_zip intro!: exI [of _ n])
  with assms(1) show ?thesis by (simp add: node_map_def hm_get_collect_distinct)
qed

subsection \<open>The specification of a valid configuration\<close>

definition imports_of :: "enclave \<Rightarrow> import list" where
  "imports_of e = enc_imports e @ concat (map part_imports (enc_partitions e))"

text \<open>A partition declares the outputs that what it produces requires.\<close>

definition contract_met :: "partition \<Rightarrow> bool" where
  "contract_met p \<longleftrightarrow>
     (\<forall>pt. part_produces p = Some pt \<longrightarrow> set (required_outputs pt) \<subseteq> set (part_declared_outputs p))"

text \<open>An export has the type that its target partition produces.\<close>

definition export_type_met :: "enclave \<Rightarrow> export \<Rightarrow> bool" where
  "export_type_met e x \<longleftrightarrow>
     (\<forall>p pt. find (\<lambda>p. part_id p = exp_target_partition x) (enc_partitions e) = Some p \<longrightarrow>
        part_produces p = Some pt \<longrightarrow> exp_export_type x = export_type_of_produces pt)"

text \<open>An import names an export that exists and that admits the importer.\<close>

definition import_met :: "enclave list \<Rightarrow> enclave \<Rightarrow> import \<Rightarrow> bool" where
  "import_met encs e i \<longleftrightarrow>
     (\<exists>s x. hm_get (enclaves_by_id encs) (imp_from i) = Some s \<and>
        find (\<lambda>x. exp_name x = imp_export_name i) (enc_exports s) = Some x \<and>
        access_permitted (exp_to x) (enc_id e))"

definition config_spec :: "enclave list \<Rightarrow> bool" where
  "config_spec encs \<longleftrightarrow> (\<forall>e \<in> set encs.
     (\<forall>p \<in> set (enc_partitions e). contract_met p) \<and>
     (\<forall>x \<in> set (enc_exports e). export_type_met e x) \<and>
     (\<forall>i \<in> set (imports_of e). import_met encs e i))"

text \<open>Who has to be provisioned before whom.\<close>

definition depends :: "enclave list \<Rightarrow> (enclave_id \<times> enclave_id) set" where
  "depends encs = {(imp_from i, enc_id e) |e i. e \<in> set encs \<and> i \<in> set (imports_of e) \<and> imp_from i \<noteq> enc_id e}"

lemma missing_outputs_Nil: "missing_outputs p = [] \<longleftrightarrow> contract_met p"
  by (auto simp: missing_outputs_def contract_met_def concat_eq_Nil_conv split: option.split)

lemma export_mismatch_Nil: "export_mismatch e x = [] \<longleftrightarrow> export_type_met e x"
  by (auto simp: export_mismatch_def export_type_met_def split: option.split)

lemma errs_of_Nil: "errs_of rs = [] \<longleftrightarrow> (\<forall>r \<in> set rs. \<exists>a. r = Inr a)"
  by (auto simp: errs_of_def concat_eq_Nil_conv split: sum.splits) (metis sum.exhaust)

lemma set_oks_of: "set (oks_of rs) = {a. Inr a \<in> set rs}"
  by (auto simp: oks_of_def split: sum.splits)

lemma set_errs_of: "set (errs_of rs) = {e. Inl e \<in> set rs}"
  by (auto simp: errs_of_def split: sum.splits)

lemma check_import_partition_ok:
  "(\<exists>w. check_import_partition e pid i (enclaves_by_id encs) = Inr w) \<longleftrightarrow> import_met encs e i"
  by (auto simp: check_import_partition_def import_met_def split: option.split)

lemma check_import_ok:
  "(\<exists>w. check_import e i (enclaves_by_id encs) = Inr w) \<longleftrightarrow> import_met encs e i"
  unfolding check_import_partition_ok [symmetric, where pid = "PartitionId []"] check_import_def
  by (cases "check_import_partition e (PartitionId []) i (enclaves_by_id encs)") auto

lemma import_checks_ok:
  "errs_of (import_checks (enclaves_by_id encs) e) = [] \<longleftrightarrow> (\<forall>i \<in> set (imports_of e). import_met encs e i)"
  unfolding errs_of_Nil import_checks_def imports_of_def
  by (simp add: ball_Un check_import_ok check_import_partition_ok)

lemma validate_errors_Nil: "validate_errors encs = [] \<longleftrightarrow> config_spec encs"
  by (auto simp: validate_errors_def enclave_errors_def config_spec_def missing_outputs_Nil
      export_mismatch_Nil import_checks_ok)

text \<open>The ends of a wiring are those of the import it comes from.\<close>

lemma check_import_partition_ends:
  "check_import_partition e pid i by_id = Inr w \<Longrightarrow>
     wir_importer_enclave w = enc_id e \<and> wir_exporter_enclave w = imp_from i \<and>
     wir_export_name w = imp_export_name i"
  by (auto simp: check_import_partition_def split: option.splits if_splits)

lemma check_import_ends:
  "check_import e i by_id = Inr w \<Longrightarrow>
     wir_importer_enclave w = enc_id e \<and> wir_exporter_enclave w = imp_from i \<and>
     wir_export_name w = imp_export_name i"
  by (cases "check_import_partition e (PartitionId []) i by_id")
     (auto simp: check_import_def dest!: check_import_partition_ends)

lemma import_checks_ends:
  assumes "Inr w \<in> set (import_checks by_id e)"
  obtains i where "i \<in> set (imports_of e)" "wir_importer_enclave w = enc_id e"
    "wir_exporter_enclave w = imp_from i" "wir_export_name w = imp_export_name i"
  using assms
  by (force simp: import_checks_def imports_of_def
      dest: sym [of "Inr w"] check_import_ends check_import_partition_ends)

lemma import_checks_complete:
  assumes "errs_of (import_checks by_id e) = []" "i \<in> set (imports_of e)"
  obtains w where "Inr w \<in> set (import_checks by_id e)" "wir_importer_enclave w = enc_id e"
    "wir_exporter_enclave w = imp_from i"
proof -
  obtain r pid where r: "r \<in> set (import_checks by_id e)"
    "r = check_import e i by_id \<or> r = check_import_partition e pid i by_id"
  proof (cases "i \<in> set (enc_imports e)")
    case True
    then show thesis by (intro that [of "check_import e i by_id"]) (auto simp: import_checks_def)
  next
    case False
    with assms(2) obtain p where "p \<in> set (enc_partitions e)" "i \<in> set (part_imports p)"
      by (auto simp: imports_of_def)
    then show thesis
      by (intro that [of "check_import_partition e (part_id p) i by_id" "part_id p"])
         (auto simp: import_checks_def)
  qed
  from r(1) assms(1) obtain w where "r = Inr w" by (auto simp: errs_of_Nil)
  with r show thesis
    using that check_import_ends check_import_partition_ends by metis
qed

lemma wiring_depends:
  assumes "config_spec encs"
  shows "{(wir_exporter_enclave w, wir_importer_enclave w) |w. w \<in> set (validate_wiring encs) \<and>
           wir_exporter_enclave w \<noteq> wir_importer_enclave w} = depends encs" (is "?L = ?R")
proof
  show "?L \<subseteq> ?R"
    by (force simp: validate_wiring_def set_oks_of depends_def elim!: import_checks_ends)
  show "?R \<subseteq> ?L"
  proof clarify
    fix a b assume "(a, b) \<in> ?R"
    then obtain e i where ei: "e \<in> set encs" "i \<in> set (imports_of e)" "a = imp_from i" "b = enc_id e" "a \<noteq> b"
      by (auto simp: depends_def)
    have "errs_of (import_checks (enclaves_by_id encs) e) = []"
      using assms ei(1) by (auto simp: config_spec_def import_checks_ok)
    then obtain w where "Inr w \<in> set (import_checks (enclaves_by_id encs) e)"
      "wir_importer_enclave w = b" "wir_exporter_enclave w = a"
      using ei by (metis import_checks_complete)
    then show "\<exists>w. (a, b) = (wir_exporter_enclave w, wir_importer_enclave w) \<and>
        w \<in> set (validate_wiring encs) \<and> wir_exporter_enclave w \<noteq> wir_importer_enclave w"
      using ei by (auto simp: validate_wiring_def set_oks_of intro!: exI [of _ w])
  qed
qed

subsection \<open>Edges\<close>

lemma graph_edges_Some:
  "graph_edges nm ws = Some es \<Longrightarrow>
     set es = {(the (hm_get nm (wir_exporter_enclave w)), the (hm_get nm (wir_importer_enclave w))) |w.
       w \<in> set ws \<and> wir_exporter_enclave w \<noteq> wir_importer_enclave w}"
proof (induction nm ws arbitrary: es rule: graph_edges.induct)
  case (2 nm w ws)
  show ?case
  proof (cases "wir_exporter_enclave w = wir_importer_enclave w")
    case True
    with 2 have "set es = {(the (hm_get nm (wir_exporter_enclave w)), the (hm_get nm (wir_importer_enclave w))) |w.
       w \<in> set ws \<and> wir_exporter_enclave w \<noteq> wir_importer_enclave w}" by simp
    with True show ?thesis by auto
  next
    case False
    with 2(3) obtain a b es' where ab: "hm_get nm (wir_exporter_enclave w) = Some a"
      "hm_get nm (wir_importer_enclave w) = Some b" and es': "graph_edges nm ws = Some es'" "es = (a, b) # es'"
      by (auto split: option.splits)
    with 2(2) [OF False refl ab es'(1)] show ?thesis using False by force
  qed
qed simp

lemma graph_edges_total:
  "(\<And>w. w \<in> set ws \<Longrightarrow> hm_get nm (wir_exporter_enclave w) \<noteq> None \<and> hm_get nm (wir_importer_enclave w) \<noteq> None) \<Longrightarrow>
     \<exists>es. graph_edges nm ws = Some es"
  by (induction nm ws rule: graph_edges.induct) (fastforce split: option.split)+

lemma depends_known:
  assumes "config_spec encs" "(a, b) \<in> depends encs"
  shows "a \<in> enc_id ` set encs" "b \<in> enc_id ` set encs"
proof -
  obtain e i where ei: "e \<in> set encs" "i \<in> set (imports_of e)" "a = imp_from i" "b = enc_id e"
    using assms(2) by (auto simp: depends_def)
  then have "import_met encs e i" using assms(1) by (simp add: config_spec_def)
  then obtain s where "hm_get (enclaves_by_id encs) a = Some s"
    using ei(3) by (auto simp: import_met_def)
  then show "a \<in> enc_id ` set encs" using hm_get_by_id_Some by fastforce
  show "b \<in> enc_id ` set encs" using ei by simp
qed

text \<open>The edges of a valid configuration are its dependencies, by index.\<close>

lemma edges_of_config:
  assumes "config_spec encs"
  obtains es where "graph_edges (node_map encs) (validate_wiring encs) = Some es"
    "set es = (\<lambda>(a, b). (the (hm_get (node_map encs) a), the (hm_get (node_map encs) b))) ` depends encs"
    "set es \<subseteq> {..<length encs} \<times> {..<length encs}"
    "\<And>m n. (m, n) \<in> set es \<Longrightarrow> (enc_id (encs ! m), enc_id (encs ! n)) \<in> depends encs"
proof -
  let ?nm = "\<lambda>a. the (hm_get (node_map encs) a)"
  have known: "hm_get (node_map encs) a \<noteq> None" "hm_get (node_map encs) b \<noteq> None"
    if "(a, b) \<in> depends encs" for a b
    using depends_known [OF assms that] by (simp_all only: hm_get_node_map_dom)
  have ends: "wir_exporter_enclave w \<in> enc_id ` set encs" "wir_importer_enclave w \<in> enc_id ` set encs"
    if w: "w \<in> set (validate_wiring encs)" for w
  proof -
    obtain e where e: "e \<in> set encs" "Inr w \<in> set (import_checks (enclaves_by_id encs) e)"
      using w by (auto simp: validate_wiring_def set_oks_of)
    then obtain i where i: "i \<in> set (imports_of e)" "wir_importer_enclave w = enc_id e"
      "wir_exporter_enclave w = imp_from i" by (metis import_checks_ends)
    then have "import_met encs e i" using assms e(1) by (simp add: config_spec_def)
    then obtain s where "hm_get (enclaves_by_id encs) (imp_from i) = Some s"
      by (auto simp: import_met_def)
    with i e show "wir_exporter_enclave w \<in> enc_id ` set encs" "wir_importer_enclave w \<in> enc_id ` set encs"
      using hm_get_by_id_Some [of encs "imp_from i" s] by (metis imageI)+
  qed
  then have "hm_get (node_map encs) (wir_exporter_enclave w) \<noteq> None \<and>
      hm_get (node_map encs) (wir_importer_enclave w) \<noteq> None"
    if "w \<in> set (validate_wiring encs)" for w
    using that by (simp only: hm_get_node_map_dom)
  then obtain es where es: "graph_edges (node_map encs) (validate_wiring encs) = Some es"
    using graph_edges_total by blast
  have set_es: "set es = (\<lambda>(a, b). (?nm a, ?nm b)) ` depends encs"
    unfolding graph_edges_Some [OF es] wiring_depends [OF assms, symmetric] by auto
  have nm: "?nm a < length encs \<and> enc_id (encs ! ?nm a) = a" if "hm_get (node_map encs) a \<noteq> None" for a
    using that hm_get_node_map_Some by fastforce
  show thesis
  proof (rule that [OF es set_es])
    show "set es \<subseteq> {..<length encs} \<times> {..<length encs}"
      using set_es known nm by fastforce
    show "(enc_id (encs ! m), enc_id (encs ! n)) \<in> depends encs" if mn: "(m, n) \<in> set es" for m n
    proof -
      obtain a b where "(a, b) \<in> depends encs" "m = ?nm a" "n = ?nm b" using mn set_es by auto
      with nm [OF known(1)] nm [OF known(2)] show ?thesis by auto
    qed
  qed
qed

lemma finite_depends: "config_spec encs \<Longrightarrow> finite (depends encs)"
  by (rule finite_subset [of _ "enc_id ` set encs \<times> enc_id ` set encs"])
     (auto dest: depends_known)

lemma acyclic_edges_iff:
  assumes "config_spec encs" "graph_edges (node_map encs) (validate_wiring encs) = Some es"
  shows "acyclic (set es) \<longleftrightarrow> acyclic (depends encs)"
proof -
  let ?nm = "\<lambda>a. the (hm_get (node_map encs) a)"
  obtain es' where es': "graph_edges (node_map encs) (validate_wiring encs) = Some es'"
    and img: "set es' = (\<lambda>(a, b). (?nm a, ?nm b)) ` depends encs"
    and bwd: "\<And>m n. (m, n) \<in> set es' \<Longrightarrow> (enc_id (encs ! m), enc_id (encs ! n)) \<in> depends encs"
    using edges_of_config [OF assms(1)] by metis
  have eq: "es' = es" using es' assms(2) by simp
  have "depends encs \<subseteq> inv_image (set es) ?nm" using img eq by (auto simp: inv_image_def)
  moreover have "set es \<subseteq> inv_image (depends encs) (\<lambda>n. enc_id (encs ! n))"
    using bwd eq by (auto simp: inv_image_def)
  ultimately show ?thesis
    by (metis finite_acyclic_wf finite_depends [OF assms(1)] finite_set wf_acyclic wf_inv_image wf_subset)
qed

lemma no_panic_in_errors: "GraphPanic \<notin> set (validate_errors encs)"
proof -
  have imp: "check_import_partition e pid i by_id \<noteq> Inl GraphPanic" for e pid i by_id
    by (simp add: check_import_partition_def split: option.split)
  moreover have "check_import e i by_id \<noteq> Inl GraphPanic" for e i by_id
    using imp [of e "PartitionId []" i by_id]
    by (cases "check_import_partition e (PartitionId []) i by_id") (auto simp: check_import_def)
  ultimately show ?thesis
    by (auto simp: validate_errors_def enclave_errors_def set_errs_of import_checks_def missing_outputs_def
        export_mismatch_def dest: sym [of "Inl _"] split: option.splits if_splits)
qed

lemma validate_of_config:
  assumes "config_spec encs"
    and "petgraph_at pg (length encs) (the (graph_edges (node_map encs) (validate_wiring encs)))"
  shows "if acyclic (depends encs)
         then \<exists>es topo. graph_edges (node_map encs) (validate_wiring encs) = Some es \<and>
           distinct topo \<and> set topo = {..<length encs} \<and> (\<forall>(a, b) \<in> set es. before_in topo a b) \<and>
           validate pg encs = Inr \<lparr>res_topo_order = map (\<lambda>i. eid_str (graph_nodes encs ! i)) topo,
                                    res_wiring = validate_wiring encs\<rparr>
         else validate pg encs = Inl CycleDetected"
proof -
  obtain es where es: "graph_edges (node_map encs) (validate_wiring encs) = Some es"
    using edges_of_config [OF assms(1)] by metis
  with assms(2) have pg: "petgraph_at pg (length encs) es" by simp
  have "validate_errors encs = []" using assms(1) by (simp add: validate_errors_Nil)
  then show ?thesis
    using pg acyclic_edges_iff [OF assms(1) es] by (auto simp: validate_def es petgraph_at_def)
qed

subsection \<open>Properties\<close>

lemma before_in_map: "before_in xs a b \<Longrightarrow> before_in (map f xs) (f a) (f b)"
  unfolding before_in_def by (metis list.simps(9) map_append)

text \<open>An enclave with nothing in it, for the examples.\<close>

definition plain_enclave :: "string \<Rightarrow> string \<Rightarrow> enclave" where
  "plain_enclave i n = \<lparr>enc_id = EnclaveId i, enc_name = n, enc_cloud = None, enc_region = ''r'',
     enc_identity = None, enc_network = None, enc_dns = None, enc_imports = [], enc_exports = [],
     enc_partitions = []\<rparr>"

definition sample_export :: export where
  "sample_export = \<lparr>exp_name = ''api'', exp_target_partition = PartitionId ''web'',
     exp_export_type = ExpQueue, exp_to = ToEnclave (EnclaveId ''b''), exp_auth = AuthMtls,
     exp_hostname = None, exp_port = None\<rparr>"

definition sample_partition :: partition where
  "sample_partition = \<lparr>part_id = PartitionId ''web'', part_name = ''web'', part_produces = Some ProdQueue,
     part_imports = [], part_exports = [], part_inputs = [], part_declared_outputs = [''queue_url''],
     part_backend = default_backend\<rparr>"

definition sample_exporter :: enclave where
  "sample_exporter = (plain_enclave ''a'' ''A'')
     \<lparr>enc_exports := [sample_export], enc_partitions := [sample_partition]\<rparr>"

definition sample_import :: import where
  "sample_import = \<lparr>imp_from = EnclaveId ''a'', imp_export_name = ''api'', imp_alias = ''q''\<rparr>"

definition sample_importer :: enclave where
  "sample_importer = (plain_enclave ''b'' ''B'')\<lparr>enc_imports := [sample_import]\<rparr>"

lemmas sample_defs = plain_enclave_def sample_export_def sample_partition_def sample_exporter_def
  sample_import_def sample_importer_def

lemma sample_validate:
  "validate kahn_petgraph [sample_importer, sample_exporter] =
     Inr \<lparr>res_topo_order = [''a'', ''b''],
          res_wiring = [\<lparr>wir_importer_enclave = EnclaveId ''b'', wir_importer_partition = None,
            wir_exporter_enclave = EnclaveId ''a'', wir_export_name = ''api''\<rparr>]\<rparr>"
  by code_simp

lemma sample_edges:
  "graph_edges (node_map [sample_importer, sample_exporter])
     (validate_wiring [sample_importer, sample_exporter]) = Some [(1, 0)]"
  by code_simp

lemma sample_petgraph_at:
  "petgraph_at kahn_petgraph (length [sample_importer, sample_exporter])
     (the (graph_edges (node_map [sample_importer, sample_exporter])
        (validate_wiring [sample_importer, sample_exporter])))"
  unfolding sample_edges by (rule kahn_petgraph_at) simp

lemma validate_accepts_iff:
  assumes "petgraph_at pg (length encs) (the (graph_edges (node_map encs) (validate_wiring encs)))"
  shows "(\<exists>g. validate pg encs = Inr g) \<longleftrightarrow> config_spec encs \<and> acyclic (depends encs)"
proof (cases "config_spec encs")
  case True
  then show ?thesis
    using validate_of_config [OF True assms] by (auto split: if_splits)
next
  case False
  then have "validate_errors encs \<noteq> []" by (simp add: validate_errors_Nil)
  with False show ?thesis by (auto simp: validate_def split: list.splits)
qed

text \<open>
  C5. Validation decides the specification: a configuration passes exactly when every partition
  declares the outputs its produced type requires, every export has the type of its target, every
  import names an existing export that admits the importer, and the dependencies have no cycle.
\<close>
theorem validate_decides_spec:
  assumes "petgraph_at pg (length encs) (the (graph_edges (node_map encs) (validate_wiring encs)))"
  shows "(\<exists>g. validate pg encs = Inr g) \<longleftrightarrow> config_spec encs \<and> acyclic (depends encs)"
  by (rule validate_accepts_iff [OF assms])

theorem validate_decides_spec_witness:
  "config_spec [sample_importer, sample_exporter] \<and> acyclic (depends [sample_importer, sample_exporter])"
  using validate_decides_spec [OF sample_petgraph_at] sample_validate by blast

lemma validate_order:
  assumes "petgraph_at pg (length encs) (the (graph_edges (node_map encs) (validate_wiring encs)))"
    and "validate pg encs = Inr g"
  shows "length (res_topo_order g) = length encs \<and>
    set (res_topo_order g) = (\<lambda>e. eid_str (enc_id e)) ` set encs \<and>
    (\<forall>(a, b) \<in> depends encs. before_in (res_topo_order g) (eid_str a) (eid_str b))"
proof -
  let ?id = "\<lambda>i. eid_str (graph_nodes encs ! i)"
  from assms have spec: "config_spec encs" "acyclic (depends encs)"
    using validate_accepts_iff by blast+
  obtain es topo where es: "graph_edges (node_map encs) (validate_wiring encs) = Some es"
    and topo: "distinct topo" "set topo = {..<length encs}" "\<forall>(a, b) \<in> set es. before_in topo a b"
    and g: "res_topo_order g = map ?id topo"
    using validate_of_config [OF spec(1) assms(1)] spec(2) assms(2) by auto
  have "length topo = length encs" using topo(1,2) distinct_card by fastforce
  moreover have "?id ` {..<length encs} = (\<lambda>e. eid_str (enc_id e)) ` set encs"
    by (auto simp: set_conv_nth image_iff graph_nodes_def)
  moreover have "before_in (map ?id topo) (eid_str a) (eid_str b)" if dep: "(a, b) \<in> depends encs" for a b
  proof -
    obtain m n where "(m, n) \<in> set es" "graph_nodes encs ! m = a" "graph_nodes encs ! n = b"
    proof -
      have "hm_get (node_map encs) a \<noteq> None" "hm_get (node_map encs) b \<noteq> None"
        using depends_known [OF spec(1) dep] by (simp_all only: hm_get_node_map_dom)
      then obtain m n where mn: "hm_get (node_map encs) a = Some m" "hm_get (node_map encs) b = Some n"
        by blast
      moreover have "(m, n) \<in> set es"
        using edges_of_config [OF spec(1)] es dep mn
        by (metis (no_types, lifting) case_prod_conv imageI option.inject option.sel)
      moreover have "graph_nodes encs ! m = a" "graph_nodes encs ! n = b"
        using mn [THEN hm_get_node_map_Some] by (simp_all add: graph_nodes_def)
      ultimately show thesis using that by blast
    qed
    with topo(3) show ?thesis by (auto intro: before_in_map [where f = ?id])
  qed
  ultimately show ?thesis using topo(2) g by auto
qed

text \<open>
  C17. The order of a validated configuration lists exactly its enclaves, and whoever exports
  something comes before whoever imports it.
\<close>
theorem validate_topo_order:
  assumes "petgraph_at pg (length encs) (the (graph_edges (node_map encs) (validate_wiring encs)))"
    and "validate pg encs = Inr g"
  shows "length (res_topo_order g) = length encs \<and>
    set (res_topo_order g) = (\<lambda>e. eid_str (enc_id e)) ` set encs \<and>
    (\<forall>(a, b) \<in> depends encs. before_in (res_topo_order g) (eid_str a) (eid_str b))"
  by (rule validate_order [OF assms])

theorem validate_topo_order_witness:
  "before_in (res_topo_order \<lparr>res_topo_order = [''a'', ''b''],
          res_wiring = [\<lparr>wir_importer_enclave = EnclaveId ''b'', wir_importer_partition = None,
            wir_exporter_enclave = EnclaveId ''a'', wir_export_name = ''api''\<rparr>]\<rparr>) ''a'' ''b''"
proof -
  have "(EnclaveId ''a'', EnclaveId ''b'') \<in> depends [sample_importer, sample_exporter]"
    by (force simp: depends_def imports_of_def sample_defs)
  then show ?thesis
    using validate_topo_order [OF sample_petgraph_at sample_validate] by fastforce
qed

lemma validate_import_permitted:
  assumes "validate pg encs = Inr g" "e \<in> set encs" "i \<in> set (imports_of e)"
  shows "\<exists>s \<in> set encs. enc_id s = imp_from i \<and> (\<exists>x \<in> set (enc_exports s).
    exp_name x = imp_export_name i \<and>
    exp_to x \<in> {ToPublic, ToAnyEnclave, ToVpn, ToEnclave (enc_id e)})"
proof -
  have "validate_errors encs = []"
    using assms(1) by (auto simp: validate_def split: list.splits)
  with assms(2,3) have "import_met encs e i"
    by (simp add: validate_errors_Nil config_spec_def)
  then obtain s x where s: "hm_get (enclaves_by_id encs) (imp_from i) = Some s"
    and x: "find (\<lambda>x. exp_name x = imp_export_name i) (enc_exports s) = Some x"
    and to: "access_permitted (exp_to x) (enc_id e)"
    by (auto simp: import_met_def)
  have "x \<in> set (enc_exports s)" "exp_name x = imp_export_name i"
    using x by (auto simp: find_Some_iff)
  moreover have "exp_to x \<in> {ToPublic, ToAnyEnclave, ToVpn, ToEnclave (enc_id e)}"
    using to by (auto simp: access_permitted_def split: export_target.splits)
  ultimately show ?thesis using hm_get_by_id_Some [OF s] by metis
qed

text \<open>
  C18. No access without permission: when validation passes, every import of an enclave, its own or
  one of its partitions', names an export of a loaded enclave, and that export is public, open to
  every enclave, open to the VPN, or made out to the importer.
\<close>
theorem validate_access_control:
  assumes "validate pg encs = Inr g" "e \<in> set encs" "i \<in> set (imports_of e)"
  shows "\<exists>s \<in> set encs. enc_id s = imp_from i \<and> (\<exists>x \<in> set (enc_exports s).
    exp_name x = imp_export_name i \<and>
    exp_to x \<in> {ToPublic, ToAnyEnclave, ToVpn, ToEnclave (enc_id e)})"
  by (rule validate_import_permitted [OF assms])

theorem validate_access_control_witness:
  "\<exists>s \<in> {sample_importer, sample_exporter}. enc_id s = EnclaveId ''a'' \<and> (\<exists>x \<in> set (enc_exports s).
    exp_name x = ''api'' \<and> exp_to x \<in> {ToPublic, ToAnyEnclave, ToVpn, ToEnclave (EnclaveId ''b'')})"
  using validate_access_control [OF sample_validate, of sample_importer sample_import]
  by (simp add: imports_of_def sample_importer_def sample_import_def plain_enclave_def)

text \<open>
  What a failed validation reports: the one error found, all errors found when there are
  several, or the cycle; indexing the node map never panics.
\<close>
theorem validate_error_report:
  "case validate pg encs of
     Inr g \<Rightarrow> validate_errors encs = []
   | Inl e \<Rightarrow> e \<noteq> GraphPanic \<and>
       (if validate_errors encs = [] then e = CycleDetected
        else if length (validate_errors encs) = 1 then validate_errors encs = [e]
        else e = MultipleErrors (validate_errors encs))"
proof (cases "validate_errors encs")
  case Nil
  then obtain es where "graph_edges (node_map encs) (validate_wiring encs) = Some es"
    using edges_of_config validate_errors_Nil by metis
  with Nil show ?thesis by (auto simp: validate_def split: option.split)
next
  case (Cons e es)
  then have "e \<noteq> GraphPanic" using no_panic_in_errors [of encs] by auto
  with Cons show ?thesis by (cases es) (auto simp: validate_def)
qed

text \<open>
  Duplicate enclave ids pass validation: two enclaves with the same id and different contents
  give an order that holds the id twice, so the reconciler's map from ids to enclaves keeps one of
  them and visits it twice.
\<close>
theorem validate_accepts_duplicate_ids:
  "validate kahn_petgraph [plain_enclave i m, plain_enclave i n] =
     Inr \<lparr>res_topo_order = [i, i], res_wiring = []\<rparr> \<and>
   hm_get (enclaves_by_id [plain_enclave i m, plain_enclave i n]) (EnclaveId i) = Some (plain_enclave i n)"
proof -
  have "kahn 2 [0, 1] [] = Some [0, 1]" by code_simp
  then show ?thesis
    by (simp add: validate_def validate_errors_def enclave_errors_def import_checks_def errs_of_def
        oks_of_def validate_wiring_def kahn_petgraph_def upt_rec enclaves_by_id_def hm_get_collect
        graph_nodes_def plain_enclave_def numeral_2_eq_2)
qed

text \<open>Giving every export of an enclave the auth type \<open>a\<close>.\<close>

definition set_auth :: "auth_type \<Rightarrow> enclave \<Rightarrow> enclave" where
  "set_auth a e = e\<lparr>enc_exports := map (\<lambda>x. x\<lparr>exp_auth := a\<rparr>) (enc_exports e)\<rparr>"

lemma set_auth_simps [simp]:
  "enc_id (set_auth a e) = enc_id e" "enc_partitions (set_auth a e) = enc_partitions e"
  "enc_imports (set_auth a e) = enc_imports e"
  by (simp_all add: set_auth_def)

lemma enc_exports_set_auth: "enc_exports (set_auth a e) = map (\<lambda>x. x\<lparr>exp_auth := a\<rparr>) (enc_exports e)"
  by (simp add: set_auth_def)

lemma find_map: "find P (map f xs) = map_option f (find (P \<circ> f) xs)"
  by (induction xs) simp_all

lemma by_id_set_auth:
  "hm_get (enclaves_by_id (map (set_auth a) encs)) i = map_option (set_auth a) (hm_get (enclaves_by_id encs) i)"
proof -
  have "map_of (rev (map (\<lambda>e. (enc_id e, set_auth a e)) encs)) i =
      map_option (set_auth a) (map_of (rev (map (\<lambda>e. (enc_id e, e)) encs)) i)"
    by (induction encs rule: rev_induct) auto
  then show ?thesis by (simp add: enclaves_by_id_def hm_get_collect comp_def)
qed

lemma import_checks_set_auth:
  "import_checks (enclaves_by_id (map (set_auth a) encs)) (set_auth a e) = import_checks (enclaves_by_id encs) e"
proof -
  have "check_import_partition (set_auth a e) pid i (enclaves_by_id (map (set_auth a) encs)) =
      check_import_partition e pid i (enclaves_by_id encs)" for pid i
    by (simp add: check_import_partition_def by_id_set_auth set_auth_def find_map comp_def split: option.split)
  then show ?thesis by (simp add: import_checks_def check_import_def)
qed

lemma validate_errors_set_auth: "validate_errors (map (set_auth a) encs) = validate_errors encs"
proof -
  have "export_mismatch (set_auth a e) (x\<lparr>exp_auth := a\<rparr>) = export_mismatch e x" for e x
    by (simp add: export_mismatch_def split: option.split)
  then have "concat (map (export_mismatch (set_auth a e)) (enc_exports (set_auth a e))) =
      concat (map (export_mismatch e) (enc_exports e))" for e
    by (simp add: enc_exports_set_auth comp_def)
  then have "enclave_errors (enclaves_by_id (map (set_auth a) encs)) (set_auth a e) =
      enclave_errors (enclaves_by_id encs) e" for e
    by (simp add: enclave_errors_def import_checks_set_auth)
  then show ?thesis by (simp add: validate_errors_def comp_def)
qed

text \<open>
  Validation does not look at the auth type of an export: giving every export another auth type
  changes nothing of the result, so a pair that \<open>is_auth_compatible\<close> rejects passes.
\<close>
theorem validate_ignores_auth:
  "validate pg (map (set_auth a) encs) = validate pg encs \<and>
   \<not> is_auth_compatible ExpTcp AuthOauth"
proof -
  have eqs: "validate_wiring (map (set_auth a) encs) = validate_wiring encs"
    "node_map (map (set_auth a) encs) = node_map encs"
    "graph_nodes (map (set_auth a) encs) = graph_nodes encs"
    by (simp_all add: validate_wiring_def import_checks_set_auth node_map_def graph_nodes_def comp_def)
  have "validate pg (map (set_auth a) encs) = validate pg encs"
    unfolding validate_def validate_errors_set_auth eqs length_map ..
  then show ?thesis by (simp add: is_auth_compatible_def compatible_auth_types_def)
qed

end
