(* ===== verification/File_System.thy ===== *)
theory File_System
  imports Rust_Strings Effect_Monad
begin

section \<open>Files and paths\<close>

text \<open>
  The part of \<open>std::fs\<close> and \<open>std::path\<close> that the program uses. A path is the string that Rust
  holds, \<open>join\<close> is the one of Unix. A file system maps paths to regular files, directories and
  symbolic links, and has a function that says on which paths the operating system refuses to
  work, with its message: so every \<open>io::Error\<close> branch of the program can be taken. Paths are compared
  as strings (the program only builds them with \<open>join\<close>), a symbolic link is followed at the last
  component only, at most 40 times as Linux does.
\<close>

type_synonym io_error = string

definition path_join :: "path \<Rightarrow> string \<Rightarrow> path" where
  "path_join p s =
     (if starts_with ''/'' s then s
      else if p = [] then s
      else if ends_with ''/'' p then p @ s
      else p @ ''/'' @ s)"

text \<open>\<open>p.parent().unwrap_or(p)\<close> for a path with a file name.\<close>

definition path_parent :: "path \<Rightarrow> path" where
  "path_parent p =
     (let up = rev (dropWhile (\<lambda>c. c \<noteq> CHR ''/'') (rev p))
      in if up = ''/'' then up else trim_end_matches (CHR ''/'') up)"

datatype fs_node = FsFile string | FsDir | FsLink path

record file_system =
  fs_nodes :: "(path, fs_node) hashmap"
  fs_refused :: "path \<Rightarrow> io_error option"

type_synonym 'a fs_act = "(file_system, io_error, 'a) act"

definition fs_lookup :: "file_system \<Rightarrow> path \<Rightarrow> fs_node option" where
  "fs_lookup fs p = hm_get (fs_nodes fs) p"

text \<open>The path that \<open>p\<close> stands for, and what is there.\<close>

primrec follow :: "nat \<Rightarrow> file_system \<Rightarrow> path \<Rightarrow> path option" where
  "follow 0 fs p = None"
| "follow (Suc n) fs p = (case fs_lookup fs p of
     None \<Rightarrow> None
   | Some (FsLink t) \<Rightarrow> follow n fs t
   | Some _ \<Rightarrow> Some p)"

definition canonical :: "file_system \<Rightarrow> path \<Rightarrow> path option" where
  "canonical fs p = follow 41 fs p"

definition fs_exists :: "file_system \<Rightarrow> path \<Rightarrow> bool" where
  "fs_exists fs p \<longleftrightarrow> canonical fs p \<noteq> None"

definition fs_is_dir :: "file_system \<Rightarrow> path \<Rightarrow> bool" where
  "fs_is_dir fs p \<longleftrightarrow> (case canonical fs p of None \<Rightarrow> False | Some q \<Rightarrow> fs_lookup fs q = Some FsDir)"

definition fs_is_symlink :: "file_system \<Rightarrow> path \<Rightarrow> bool" where
  "fs_is_symlink fs p = (case fs_lookup fs p of Some (FsLink _) \<Rightarrow> True | _ \<Rightarrow> False)"

definition os_error :: "string \<Rightarrow> path \<Rightarrow> io_error" where
  "os_error what p = what @ '': '' @ p"

definition guarded :: "path \<Rightarrow> 'a fs_act \<Rightarrow> 'a fs_act" where
  "guarded p m = (\<lambda>fs. case fs_refused fs p of Some e \<Rightarrow> (Inl e, fs) | None \<Rightarrow> m fs)"

definition fs_read_to_string :: "path \<Rightarrow> string fs_act" where
  "fs_read_to_string p = guarded p (\<lambda>fs. case canonical fs p of
     None \<Rightarrow> (Inl (os_error ''No such file or directory'' p), fs)
   | Some q \<Rightarrow> (case fs_lookup fs q of
       Some (FsFile c) \<Rightarrow> (Inr c, fs)
     | _ \<Rightarrow> (Inl (os_error ''Is a directory'' p), fs)))"

text \<open>Writing goes through a symbolic link.\<close>

definition fs_write :: "path \<Rightarrow> string \<Rightarrow> unit fs_act" where
  "fs_write p content = guarded p (\<lambda>fs.
     case fs_lookup fs p of
       None \<Rightarrow> (Inr (), fs\<lparr>fs_nodes := hm_insert p (FsFile content) (fs_nodes fs)\<rparr>)
     | Some FsDir \<Rightarrow> (Inl (os_error ''Is a directory'' p), fs)
     | Some (FsFile _) \<Rightarrow> (Inr (), fs\<lparr>fs_nodes := hm_insert p (FsFile content) (fs_nodes fs)\<rparr>)
     | Some (FsLink _) \<Rightarrow> (case canonical fs p of
         None \<Rightarrow> (Inl (os_error ''No such file or directory'' p), fs)
       | Some q \<Rightarrow> if fs_lookup fs q = Some FsDir then (Inl (os_error ''Is a directory'' p), fs)
                   else (Inr (), fs\<lparr>fs_nodes := hm_insert q (FsFile content) (fs_nodes fs)\<rparr>)))"

definition fs_remove_file :: "path \<Rightarrow> unit fs_act" where
  "fs_remove_file p = guarded p (\<lambda>fs. case fs_lookup fs p of
     None \<Rightarrow> (Inl (os_error ''No such file or directory'' p), fs)
   | Some FsDir \<Rightarrow> (Inl (os_error ''Is a directory'' p), fs)
   | Some _ \<Rightarrow> (Inr (), fs\<lparr>fs_nodes := hm_remove p (fs_nodes fs)\<rparr>))"

definition fs_symlink :: "path \<Rightarrow> path \<Rightarrow> unit fs_act" where
  "fs_symlink target link = guarded link (\<lambda>fs. case fs_lookup fs link of
     Some _ \<Rightarrow> (Inl (os_error ''File exists'' link), fs)
   | None \<Rightarrow> (Inr (), fs\<lparr>fs_nodes := hm_insert link (FsLink target) (fs_nodes fs)\<rparr>))"

definition fs_canonicalize :: "path \<Rightarrow> path fs_act" where
  "fs_canonicalize p = guarded p (\<lambda>fs. case canonical fs p of
     None \<Rightarrow> (Inl (os_error ''No such file or directory'' p), fs)
   | Some q \<Rightarrow> (Inr q, fs))"

text \<open>The names in a directory, in the order of the map, which stands for an arbitrary order.\<close>

definition child_name :: "path \<Rightarrow> path \<Rightarrow> string option" where
  "child_name dir p = (case strip_prefix (dir @ ''/'') p of
     None \<Rightarrow> None
   | Some name \<Rightarrow> if name = [] \<or> CHR ''/'' \<in> set name then None else Some name)"

definition dir_entries :: "file_system \<Rightarrow> path \<Rightarrow> string list" where
  "dir_entries fs dir = List.map_filter (child_name dir) (hm_keys (fs_nodes fs))"

definition fs_read_dir :: "path \<Rightarrow> string list fs_act" where
  "fs_read_dir p = guarded p (\<lambda>fs. case canonical fs p of
     None \<Rightarrow> (Inl (os_error ''No such file or directory'' p), fs)
   | Some q \<Rightarrow> if fs_lookup fs q = Some FsDir then (Inr (dir_entries fs q), fs)
                else (Inl (os_error ''Not a directory'' p), fs))"

text \<open>\<open>create_dir_all\<close>: the directory and its missing ancestors.\<close>

definition path_ancestors :: "path \<Rightarrow> path list" where
  "path_ancestors p = filter (\<lambda>q. q \<noteq> []) (map (\<lambda>n. take n p)
     (filter (\<lambda>n. n = length p \<or> p ! n = CHR ''/'') [0..<Suc (length p)]))"

primrec make_dirs :: "path list \<Rightarrow> unit fs_act" where
  "make_dirs [] = ret ()"
| "make_dirs (q # qs) = (\<lambda>fs.
     if fs_is_dir fs q then make_dirs qs fs
     else if fs_lookup fs q \<noteq> None then (Inl (os_error ''File exists'' q), fs)
     else make_dirs qs (fs\<lparr>fs_nodes := hm_insert q FsDir (fs_nodes fs)\<rparr>))"

definition fs_create_dir_all :: "path \<Rightarrow> unit fs_act" where
  "fs_create_dir_all p = guarded p (make_dirs (path_ancestors p))"

subsection \<open>Facts\<close>

lemma fs_lookup_insert:
  "fs_lookup (fs\<lparr>fs_nodes := hm_insert p n (fs_nodes fs)\<rparr>) q = (if q = p then Some n else fs_lookup fs q)"
  by (simp add: fs_lookup_def hm_get_insert)

lemma fs_lookup_remove:
  "fs_lookup (fs\<lparr>fs_nodes := hm_remove p (fs_nodes fs)\<rparr>) q = (if q = p then None else fs_lookup fs q)"
  by (simp add: fs_lookup_def hm_get_remove)

lemma fs_is_symlink_iff: "fs_is_symlink fs p \<longleftrightarrow> (\<exists>t. fs_lookup fs p = Some (FsLink t))"
  by (auto simp: fs_is_symlink_def split: option.splits fs_node.splits)

lemma path_join_neq [simp]: "CHR ''/'' \<notin> set s \<Longrightarrow> p \<noteq> [] \<Longrightarrow> \<not> ends_with ''/'' p \<Longrightarrow> path_join p s = p @ ''/'' @ s"
  by (auto simp: path_join_def starts_with_iff)

lemma canonical_file: "fs_lookup fs p = Some (FsFile c) \<Longrightarrow> canonical fs p = Some p"
  by (simp add: canonical_def eval_nat_numeral)

lemma canonical_dir: "fs_lookup fs p = Some FsDir \<Longrightarrow> canonical fs p = Some p"
  by (simp add: canonical_def eval_nat_numeral)

lemma canonical_missing: "fs_lookup fs p = None \<Longrightarrow> canonical fs p = None"
  by (simp add: canonical_def eval_nat_numeral)

lemma canonical_link_file:
  "fs_lookup fs p = Some (FsLink t) \<Longrightarrow> fs_lookup fs t = Some (FsFile c) \<Longrightarrow> canonical fs p = Some t"
  by (simp add: canonical_def eval_nat_numeral)

lemma follow_lookup: "follow n fs p = Some q \<Longrightarrow> \<exists>x. fs_lookup fs q = Some x \<and> (\<forall>t. x \<noteq> FsLink t)"
  by (induction n arbitrary: p) (auto split: option.splits fs_node.splits)

lemma canonical_lookup: "canonical fs p = Some q \<Longrightarrow> \<exists>x. fs_lookup fs q = Some x \<and> (\<forall>t. x \<noteq> FsLink t)"
  unfolding canonical_def by (rule follow_lookup)

lemma child_name_Some: "child_name dir p = Some name \<longleftrightarrow> p = dir @ ''/'' @ name \<and> name \<noteq> [] \<and> CHR ''/'' \<notin> set name"
  by (auto simp: child_name_def strip_prefix_eq_Some split: option.splits if_splits)
     (metis append.assoc append_Cons append_Nil option.distinct(1) strip_prefix_eq_Some)+

lemma dir_entries_iff:
  "name \<in> set (dir_entries fs dir) \<longleftrightarrow>
     name \<noteq> [] \<and> CHR ''/'' \<notin> set name \<and> fs_lookup fs (dir @ ''/'' @ name) \<noteq> None"
  by (auto simp: dir_entries_def in_map_filter child_name_Some hm_keys_iff fs_lookup_def)

end
