(* ===== verification/Config_Loader.thy ===== *)
theory Config_Loader
  imports Graph_Validate File_System
begin

section \<open>Loading the configuration\<close>

text \<open>
  \<open>crates/nclav-config/src\<close>: the raw structs that YAML is read into (\<open>raw.rs\<close>) and the walk over the
  directories that converts them (\<open>loader.rs\<close>). The two YAML decoders that \<open>serde\<close> derives for
  \<open>RawEnclave\<close> and \<open>RawPartition\<close> are a parameter (\<open>yaml_parsers\<close>). Loading reads the file
  system and changes nothing, so it is a function of it. A \<open>RawPartition\<close> that the decoder returns
  has \<open>imports\<close>, \<open>exports\<close>, \<open>inputs\<close>, \<open>declared_outputs\<close> and \<open>backend\<close> filled in by its defaults.
\<close>

subsection \<open>Raw structs\<close>

record raw_import =
  ri_from :: string
  ri_export_name :: string
  ri_alias :: string

datatype raw_export_target = RawSimple string | RawToEnclave string | RawToPartition string

record raw_export =
  rx_name :: string
  rx_target_partition :: string
  rx_type :: string
  rx_to :: raw_export_target
  rx_auth :: string
  rx_hostname :: "string option"
  rx_port :: "16 word option"

record raw_terraform =
  rt_tool :: "string option"
  rt_source :: "string option"

record raw_partition =
  rp_id :: string
  rp_name :: string
  rp_produces :: "string option"
  rp_imports :: "raw_import list"
  rp_exports :: "raw_export list"
  rp_inputs :: "(string, string) hashmap"
  rp_declared_outputs :: "string list"
  rp_backend :: string
  rp_terraform :: "raw_terraform option"

record raw_network =
  rn_vpc_cidr :: "string option"
  rn_subnets :: "string list"

record raw_enclave =
  re_id :: string
  re_name :: string
  re_cloud :: "string option"
  re_region :: string
  re_identity :: "string option"
  re_network :: "raw_network option"
  re_dns :: "string option option"
  re_imports :: "raw_import list"
  re_exports :: "raw_export list"
  re_partitions :: "string list"

record yaml_parsers =
  yp_enclave :: "string \<Rightarrow> (string, raw_enclave) result"
  yp_partition :: "string \<Rightarrow> (string, raw_partition) result"

subsection \<open>Errors\<close>

datatype config_error =
    ConfIo path io_error
  | ConfYamlParse path string
  | ConfConversion path string

definition config_error_str :: "config_error \<Rightarrow> string" where
  "config_error_str e = (case e of
     ConfIo p s \<Rightarrow> ''io error reading '' @ p @ '': '' @ s
   | ConfYamlParse p s \<Rightarrow> ''yaml parse error in '' @ p @ '': '' @ s
   | ConfConversion p m \<Rightarrow> ''conversion error in '' @ p @ '': '' @ m)"

definition unknown :: "string \<Rightarrow> string \<Rightarrow> string" where
  "unknown what s = ''unknown '' @ what @ '' '' @ [CHR 0x27] @ s @ [CHR 0x27]"

subsection \<open>Conversions\<close>

definition parse_cloud :: "string \<Rightarrow> path \<Rightarrow> (config_error, cloud_target) result" where
  "parse_cloud s p =
     (if s = ''local'' then Inr Local
      else if s = ''gcp'' then Inr Gcp
      else if s = ''azure'' then Inr Azure
      else if s = ''aws'' then Inr Aws
      else Inl (ConfConversion p (unknown ''cloud target'' s)))"

definition parse_produces :: "string \<Rightarrow> path \<Rightarrow> (config_error, produces_type) result" where
  "parse_produces s p =
     (if s = ''http'' then Inr ProdHttp
      else if s = ''tcp'' then Inr ProdTcp
      else if s = ''queue'' then Inr ProdQueue
      else Inl (ConfConversion p (unknown ''produces type'' s)))"

definition parse_export_type :: "string \<Rightarrow> path \<Rightarrow> (config_error, export_type) result" where
  "parse_export_type s p =
     (if s = ''http'' then Inr ExpHttp
      else if s = ''tcp'' then Inr ExpTcp
      else if s = ''queue'' then Inr ExpQueue
      else Inl (ConfConversion p (unknown ''export type'' s)))"

definition parse_auth :: "string \<Rightarrow> path \<Rightarrow> (config_error, auth_type) result" where
  "parse_auth s p =
     (if s = ''none'' then Inr AuthNone
      else if s = ''token'' then Inr AuthToken
      else if s = ''oauth'' then Inr AuthOauth
      else if s = ''mtls'' then Inr AuthMtls
      else if s = ''native'' then Inr AuthNative
      else Inl (ConfConversion p (unknown ''auth type'' s)))"

definition convert_export_target :: "raw_export_target \<Rightarrow> path \<Rightarrow> (config_error, export_target) result" where
  "convert_export_target raw p = (case raw of
     RawSimple s \<Rightarrow>
       if s = ''public'' then Inr ToPublic
       else if s = ''any_enclave'' \<or> s = ''any-enclave'' then Inr ToAnyEnclave
       else if s = ''vpn'' then Inr ToVpn
       else Inl (ConfConversion p (unknown ''export target'' s))
   | RawToEnclave e \<Rightarrow> Inr (ToEnclave (EnclaveId e))
   | RawToPartition q \<Rightarrow> Inr (ToPartition (PartitionId q)))"

definition convert_import :: "raw_import \<Rightarrow> (config_error, import) result" where
  "convert_import raw = Inr \<lparr>imp_from = EnclaveId (ri_from raw),
     imp_export_name = ri_export_name raw, imp_alias = ri_alias raw\<rparr>"

definition convert_export :: "path \<Rightarrow> raw_export \<Rightarrow> (config_error, export) result" where
  "convert_export p raw =
     bindR (parse_export_type (rx_type raw) p) (\<lambda>t.
     bindR (parse_auth (rx_auth raw) p) (\<lambda>a.
     bindR (convert_export_target (rx_to raw) p) (\<lambda>to.
     Inr \<lparr>exp_name = rx_name raw, exp_target_partition = PartitionId (rx_target_partition raw),
          exp_export_type = t, exp_to = to, exp_auth = a, exp_hostname = rx_hostname raw,
          exp_port = rx_port raw\<rparr>)))"

text \<open>\<open>x.map(f).transpose()?\<close>.\<close>

definition transposeR :: "('a \<Rightarrow> ('e, 'b) result) \<Rightarrow> 'a option \<Rightarrow> ('e, 'b option) result" where
  "transposeR f x = (case x of None \<Rightarrow> Inr None | Some a \<Rightarrow> bindR (f a) (\<lambda>b. Inr (Some b)))"

definition convert_backend :: "path \<Rightarrow> raw_partition \<Rightarrow> (config_error, partition_backend) result" where
  "convert_backend p raw =
     (let cfg = \<lparr>tfc_tool = Option.bind (rp_terraform raw) rt_tool,
                 tfc_source = Option.bind (rp_terraform raw) rt_source,
                 tfc_dir = path_parent p\<rparr> in
      if rp_backend raw = [] \<or> rp_backend raw = ''terraform'' then Inr (Terraform cfg)
      else if rp_backend raw = ''opentofu'' then Inr (OpenTofu cfg)
      else if rp_backend raw = ''managed'' then
        Inl (ConfConversion p (''backend '' @ [CHR 0x27] @ ''managed'' @ [CHR 0x27] @
          '' is no longer supported; use '' @ [CHR 0x27] @ ''terraform'' @ [CHR 0x27] @ '' or '' @
          [CHR 0x27] @ ''opentofu'' @ [CHR 0x27] @ '' with a main.tf in the partition directory''))
      else Inl (ConfConversion p
        (unknown ''backend'' (rp_backend raw) @ ''; expected terraform or opentofu'')))"

definition convert_partition :: "raw_partition \<Rightarrow> path \<Rightarrow> (config_error, partition) result" where
  "convert_partition raw p =
     bindR (transposeR (\<lambda>s. parse_produces s p) (rp_produces raw)) (\<lambda>produces.
     bindR (mapR convert_import (rp_imports raw)) (\<lambda>imps.
     bindR (mapR (convert_export p) (rp_exports raw)) (\<lambda>exps.
     bindR (convert_backend p raw) (\<lambda>backend.
     Inr \<lparr>part_id = PartitionId (rp_id raw), part_name = rp_name raw, part_produces = produces,
          part_imports = imps, part_exports = exps, part_inputs = rp_inputs raw,
          part_declared_outputs = rp_declared_outputs raw, part_backend = backend\<rparr>))))"

subsection \<open>Partitions of an enclave\<close>

definition fs_read :: "file_system \<Rightarrow> 'a fs_act \<Rightarrow> (io_error, 'a) result" where
  "fs_read fs m = fst (m fs)"

definition read_config :: "file_system \<Rightarrow> path \<Rightarrow> (config_error, string) result" where
  "read_config fs p = (case fs_read fs (fs_read_to_string p) of Inl e \<Rightarrow> Inl (ConfIo p e) | Inr c \<Rightarrow> Inr c)"

definition load_listed_partition ::
  "yaml_parsers \<Rightarrow> file_system \<Rightarrow> path \<Rightarrow> string \<Rightarrow> (config_error, partition) result" where
  "load_listed_partition yp fs dir pname =
     (let part_config = path_join (path_join dir pname) ''config.yml'' in
      if \<not> fs_exists fs part_config
      then Inl (ConfConversion part_config
        (''partition config not found for '' @ [CHR 0x27] @ pname @ [CHR 0x27]))
      else bindR (read_config fs part_config) (\<lambda>content.
        case yp_partition yp content of
          Inl e \<Rightarrow> Inl (ConfYamlParse part_config e)
        | Inr raw \<Rightarrow> convert_partition raw part_config))"

definition scan_partition ::
  "yaml_parsers \<Rightarrow> file_system \<Rightarrow> path \<Rightarrow> string \<Rightarrow> partition list \<Rightarrow> (config_error, partition list) result" where
  "scan_partition yp fs dir name acc =
     (let p = path_join dir name; part_config = path_join p ''config.yml'' in
      if \<not> fs_is_dir fs p then Inr acc
      else if \<not> fs_exists fs part_config then Inr acc
      else bindR (read_config fs part_config) (\<lambda>content.
        case yp_partition yp content of
          Inl _ \<Rightarrow> Inr acc
        | Inr raw \<Rightarrow>
            if rp_produces raw \<noteq> None \<or> rp_imports raw \<noteq> [] \<or> rp_exports raw \<noteq> [] \<or>
               rp_declared_outputs raw \<noteq> []
            then bindR (convert_partition raw part_config) (\<lambda>part. Inr (acc @ [part]))
            else Inr acc))"

definition load_partitions ::
  "yaml_parsers \<Rightarrow> file_system \<Rightarrow> path \<Rightarrow> string list \<Rightarrow> (config_error, partition list) result" where
  "load_partitions yp fs dir listed =
     bindR (mapR (load_listed_partition yp fs dir) listed) (\<lambda>parts.
     if listed \<noteq> [] then Inr parts
     else (case fs_read fs (fs_read_dir dir) of
         Inl _ \<Rightarrow> Inr parts
       | Inr names \<Rightarrow> foldR (scan_partition yp fs dir) names parts))"

definition convert_enclave ::
  "yaml_parsers \<Rightarrow> file_system \<Rightarrow> raw_enclave \<Rightarrow> path \<Rightarrow> path \<Rightarrow> (config_error, enclave) result" where
  "convert_enclave yp fs raw dir config_path =
     bindR (transposeR (\<lambda>s. parse_cloud s config_path) (re_cloud raw)) (\<lambda>cloud.
     bindR (mapR convert_import (re_imports raw)) (\<lambda>imps.
     bindR (mapR (convert_export config_path) (re_exports raw)) (\<lambda>exps.
     bindR (load_partitions yp fs dir (re_partitions raw)) (\<lambda>parts.
     Inr \<lparr>enc_id = EnclaveId (re_id raw), enc_name = re_name raw, enc_cloud = cloud,
          enc_region = re_region raw, enc_identity = re_identity raw,
          enc_network = map_option (\<lambda>n. \<lparr>net_vpc_cidr = rn_vpc_cidr n, net_subnets = rn_subnets n\<rparr>)
            (re_network raw),
          enc_dns = map_option (\<lambda>z. \<lparr>dns_zone = z\<rparr>) (re_dns raw),
          enc_imports = imps, enc_exports = exps, enc_partitions = parts\<rparr>))))"

subsection \<open>The walk over the directories\<close>

lemma child_longer:
  assumes "fs_read fs (fs_read_dir dir) = Inr names" "name \<in> set names"
  shows "length dir < length (path_join dir name)"
proof -
  obtain q where "names = dir_entries fs q"
    using assms(1) by (auto simp: fs_read_def fs_read_dir_def guarded_def split: option.splits if_splits)
  with assms(2) have "name \<noteq> []" "CHR ''/'' \<notin> set name" by (simp_all add: dir_entries_iff)
  then show ?thesis by (auto simp: path_join_def starts_with_iff)
qed

function collect_enclaves ::
  "yaml_parsers \<Rightarrow> file_system \<Rightarrow> path \<Rightarrow> enclave list \<Rightarrow> (config_error, enclave list) result" where
  "collect_enclaves yp fs dir out =
     (let config_path = path_join dir ''config.yml'';
          subdirs = (case fs_read fs (fs_read_dir dir) of
              Inl _ \<Rightarrow> Inr out
            | Inr names \<Rightarrow> foldR (\<lambda>name acc.
                if fs_is_dir fs (path_join dir name)
                then collect_enclaves yp fs (path_join dir name) acc else Inr acc) names out)
      in if fs_exists fs config_path
         then bindR (read_config fs config_path) (\<lambda>content.
           case yp_enclave yp content of
             Inr raw \<Rightarrow> bindR (convert_enclave yp fs raw dir config_path) (\<lambda>enc. Inr (out @ [enc]))
           | Inl _ \<Rightarrow> subdirs)
         else subdirs)"
  by pat_completeness auto
termination
proof (relation "measure (\<lambda>(yp, fs, dir, out). card {k \<in> set (hm_keys (fs_nodes fs)). length dir < length k})",
    goal_cases)
  case 1
  show ?case by simp
next
  case (2 yp fs dir out config_path names name acc)
  let ?p = "path_join dir name"
  have longer: "length dir < length ?p" using 2 child_longer by blast
  have "?p \<in> set (hm_keys (fs_nodes fs))"
    using 2 by (auto simp: fs_is_dir_def canonical_missing hm_keys_iff fs_lookup_def split: option.splits
        intro: ccontr dest: canonical_missing [unfolded fs_lookup_def])
  then have "{k \<in> set (hm_keys (fs_nodes fs)). length ?p < length k} \<subset>
      {k \<in> set (hm_keys (fs_nodes fs)). length dir < length k}"
    using longer by auto
  then show ?case by (simp add: psubset_card_mono)
qed

declare collect_enclaves.simps [simp del]

definition load_enclaves ::
  "yaml_parsers \<Rightarrow> file_system \<Rightarrow> path \<Rightarrow> (config_error, enclave list) result" where
  "load_enclaves yp fs dir = (case fs_read fs (fs_read_dir dir) of
     Inl e \<Rightarrow> Inl (ConfIo dir e)
   | Inr names \<Rightarrow> foldR (\<lambda>name acc.
       if fs_is_dir fs (path_join dir name) then collect_enclaves yp fs (path_join dir name) acc
       else Inr acc) names [])"

subsection \<open>Properties\<close>

lemma parse_cloud_iff: "parse_cloud s p = Inr c \<longleftrightarrow> s = cloud_str c"
  by (cases c) (auto simp: parse_cloud_def cloud_str_def)

lemma parse_produces_iff: "parse_produces s p = Inr pt \<longleftrightarrow> s = produces_str pt"
  by (cases pt) (auto simp: parse_produces_def produces_str_def)

lemma parse_export_type_iff: "parse_export_type s p = Inr xt \<longleftrightarrow> s = export_type_str xt"
  by (cases xt) (auto simp: parse_export_type_def export_type_str_def)

lemma parse_auth_iff: "parse_auth s p = Inr a \<longleftrightarrow> s = auth_type_str a"
  by (cases a) (auto simp: parse_auth_def auth_type_str_def)

lemmas parse_iffs = parse_cloud_iff parse_produces_iff parse_export_type_iff parse_auth_iff

text \<open>
  The four word parsers accept exactly the words that the \<open>Display\<close> of the type prints, and
  read each back as the value it was printed for.
\<close>
lemma parsers_invert_display:
  "(parse_cloud s p = Inr c \<longleftrightarrow> s = cloud_str c) \<and>
   (parse_produces s p = Inr pt \<longleftrightarrow> s = produces_str pt) \<and>
   (parse_export_type s p = Inr xt \<longleftrightarrow> s = export_type_str xt) \<and>
   (parse_auth s p = Inr a \<longleftrightarrow> s = auth_type_str a)"
  by (simp add: parse_iffs)

text \<open>The YAML that stands for a domain value.\<close>

definition raw_of_import :: "import \<Rightarrow> raw_import" where
  "raw_of_import i = \<lparr>ri_from = eid_str (imp_from i), ri_export_name = imp_export_name i,
     ri_alias = imp_alias i\<rparr>"

definition raw_of_target :: "export_target \<Rightarrow> raw_export_target" where
  "raw_of_target t = (case t of
     ToPublic \<Rightarrow> RawSimple ''public'' | ToAnyEnclave \<Rightarrow> RawSimple ''any_enclave''
   | ToEnclave e \<Rightarrow> RawToEnclave (eid_str e) | ToVpn \<Rightarrow> RawSimple ''vpn''
   | ToPartition q \<Rightarrow> RawToPartition (pid_str q))"

definition raw_of_export :: "export \<Rightarrow> raw_export" where
  "raw_of_export x = \<lparr>rx_name = exp_name x, rx_target_partition = pid_str (exp_target_partition x),
     rx_type = export_type_str (exp_export_type x), rx_to = raw_of_target (exp_to x),
     rx_auth = auth_type_str (exp_auth x), rx_hostname = exp_hostname x, rx_port = exp_port x\<rparr>"

definition backend_config :: "partition_backend \<Rightarrow> terraform_config" where
  "backend_config b = (case b of Terraform c \<Rightarrow> c | OpenTofu c \<Rightarrow> c)"

definition raw_of_partition :: "partition \<Rightarrow> raw_partition" where
  "raw_of_partition p = \<lparr>rp_id = pid_str (part_id p), rp_name = part_name p,
     rp_produces = map_option produces_str (part_produces p),
     rp_imports = map raw_of_import (part_imports p), rp_exports = map raw_of_export (part_exports p),
     rp_inputs = part_inputs p, rp_declared_outputs = part_declared_outputs p,
     rp_backend = (case part_backend p of Terraform _ \<Rightarrow> ''terraform'' | OpenTofu _ \<Rightarrow> ''opentofu''),
     rp_terraform = Some \<lparr>rt_tool = tfc_tool (backend_config (part_backend p)),
       rt_source = tfc_source (backend_config (part_backend p))\<rparr>\<rparr>"

lemma parse_display [simp]:
  "parse_cloud (cloud_str c) p = Inr c" "parse_produces (produces_str pt) p = Inr pt"
  "parse_export_type (export_type_str xt) p = Inr xt" "parse_auth (auth_type_str a) p = Inr a"
  by (simp_all add: parse_iffs)

lemma convert_raw_of_export [simp]: "convert_export p (raw_of_export x) = Inr x"
proof -
  have "convert_export_target (raw_of_target t) p = Inr t" for t
    by (cases t) (simp_all add: raw_of_target_def convert_export_target_def)
  then show ?thesis by (cases x) (simp add: convert_export_def raw_of_export_def)
qed

lemma mapR_raw: "(\<And>x. f (g x) = Inr x) \<Longrightarrow> mapR f (map g xs) = Inr xs"
  by (induction xs) simp_all



text \<open>Where a loaded enclave comes from.\<close>

definition loaded_from :: "yaml_parsers \<Rightarrow> file_system \<Rightarrow> enclave \<Rightarrow> bool" where
  "loaded_from yp fs e \<longleftrightarrow> (\<exists>dir content raw.
     read_config fs (path_join dir ''config.yml'') = Inr content \<and> yp_enclave yp content = Inr raw \<and>
     convert_enclave yp fs raw dir (path_join dir ''config.yml'') = Inr e)"

lemma collect_enclaves_sound:
  assumes "collect_enclaves yp fs dir out = Inr out'"
  shows "\<exists>es. out' = out @ es \<and> (\<forall>e \<in> set es. loaded_from yp fs e)"
  using assms
proof (induction yp fs dir out arbitrary: out' rule: collect_enclaves.induct)
  case (1 yp fs dir out)
  let ?sub = "case fs_read fs (fs_read_dir dir) of Inl _ \<Rightarrow> Inr out
      | Inr names \<Rightarrow> foldR (\<lambda>name acc. if fs_is_dir fs (path_join dir name)
          then collect_enclaves yp fs (path_join dir name) acc else Inr acc) names out"
  have sub: "\<exists>es. out' = out @ es \<and> (\<forall>e \<in> set es. loaded_from yp fs e)" if s: "?sub = Inr out'"
  proof (cases "fs_read fs (fs_read_dir dir)")
    case (Inr names)
    show ?thesis
    proof (rule foldR_invariant [where I = "\<lambda>acc. \<exists>es. acc = out @ es \<and> (\<forall>e \<in> set es. loaded_from yp fs e)"])
      show "foldR (\<lambda>name acc. if fs_is_dir fs (path_join dir name)
          then collect_enclaves yp fs (path_join dir name) acc else Inr acc) names out = Inr out'"
        using s Inr by simp
      show "\<exists>es. out = out @ es \<and> (\<forall>e \<in> set es. loaded_from yp fs e)" by simp
      fix name acc acc'
      assume a: "name \<in> set names" "\<exists>es. acc = out @ es \<and> (\<forall>e \<in> set es. loaded_from yp fs e)"
        "(if fs_is_dir fs (path_join dir name) then collect_enclaves yp fs (path_join dir name) acc else Inr acc) = Inr acc'"
      show "\<exists>es. acc' = out @ es \<and> (\<forall>e \<in> set es. loaded_from yp fs e)"
      proof (cases "fs_is_dir fs (path_join dir name)")
        case True
        then have "\<exists>es. acc' = acc @ es \<and> (\<forall>e \<in> set es. loaded_from yp fs e)"
          using "1.IH" [OF refl Inr a(1) True] a(3) by simp
        with a(2) show ?thesis by (metis append.assoc Un_iff set_append)
      qed (use a in simp)
    qed
  qed (use s in simp)
  show ?case
  proof (cases "fs_exists fs (path_join dir ''config.yml'')")
    case True
    with 1(2) obtain content where c: "read_config fs (path_join dir ''config.yml'') = Inr content"
      and r: "(case yp_enclave yp content of
         Inr raw \<Rightarrow> bindR (convert_enclave yp fs raw dir (path_join dir ''config.yml'')) (\<lambda>enc. Inr (out @ [enc]))
       | Inl _ \<Rightarrow> ?sub) = Inr out'"
      by (auto simp: collect_enclaves.simps [of yp fs dir out] bindR_Inr_iff Let_def)
    show ?thesis
    proof (cases "yp_enclave yp content")
      case (Inr raw)
      with r obtain enc where "convert_enclave yp fs raw dir (path_join dir ''config.yml'') = Inr enc"
        "out' = out @ [enc]" by (auto simp: bindR_Inr_iff)
      with c Inr show ?thesis by (auto simp: loaded_from_def)
    qed (use r sub in simp)
  next
    case False
    with 1(2) have "?sub = Inr out'" by (simp add: collect_enclaves.simps [of yp fs dir out] Let_def)
    then show ?thesis by (rule sub)
  qed
qed

text \<open>
  Loading invents nothing: every enclave that \<open>load_enclaves\<close> returns is the conversion of a
  \<open>config.yml\<close> that exists, could be read and was decoded as an enclave.
\<close>
theorem load_enclaves_sound:
  assumes "load_enclaves yp fs dir = Inr encs" "e \<in> set encs"
  shows "loaded_from yp fs e"
proof -
  obtain names where names: "foldR (\<lambda>name acc. if fs_is_dir fs (path_join dir name)
      then collect_enclaves yp fs (path_join dir name) acc else Inr acc) names [] = Inr encs"
    using assms(1) by (auto simp: load_enclaves_def split: sum.splits)
  have "\<forall>e \<in> set encs. loaded_from yp fs e"
    by (rule foldR_invariant [OF names, where I = "\<lambda>acc. \<forall>e \<in> set acc. loaded_from yp fs e"])
       (auto split: if_splits dest!: collect_enclaves_sound)
  with assms(2) show ?thesis by blast
qed

text \<open>A directory with one enclave, for the examples.\<close>

definition sample_yaml :: yaml_parsers where
  "sample_yaml = \<lparr>yp_enclave = (\<lambda>c. if c = ''E'' then Inr \<lparr>re_id = ''a'', re_name = ''A'', re_cloud = None,
      re_region = ''r'', re_identity = None, re_network = None, re_dns = None, re_imports = [],
      re_exports = [], re_partitions = []\<rparr> else Inl ''no enclave''),
    yp_partition = (\<lambda>c. Inl ''no partition'')\<rparr>"

definition sample_config_fs :: file_system where
  "sample_config_fs = \<lparr>fs_nodes = [(''/c'', FsDir), (''/c/x'', FsDir), (''/c/x/y'', FsDir),
     (''/c/x/y/config.yml'', FsFile ''E''), (''/c/x/config.yml'', FsFile ''?'')], fs_refused = (\<lambda>_. None)\<rparr>"

lemma sample_load: "load_enclaves sample_yaml sample_config_fs ''/c'' = Inr [plain_enclave ''a'' ''A'']"
  by code_simp

theorem load_enclaves_sound_witness: "loaded_from sample_yaml sample_config_fs (plain_enclave ''a'' ''A'')"
  by (rule load_enclaves_sound [OF sample_load]) simp

end
