(* ===== verification/Store_State.thy ===== *)
theory Store_State
  imports Domain_Types
begin

section \<open>The persisted state\<close>

text \<open>
  \<open>crates/nclav-store/src/state.rs\<close>: the lifecycle metadata of a resource and its transitions, the
  hash of a desired configuration, the state of partitions and enclaves, the log of IaC runs and
  the audit events. A \<open>DateTime<Utc>\<close> is an integer, a \<open>Uuid\<close> a 128-bit word, \<open>generation\<close> a
  64-bit word whose addition wraps as in a release build. Of SHA-256 over the serialised bytes the
  program uses only that it is a function of the JSON value: it is the parameter \<open>digest\<close>.
\<close>

type_synonym datetime = int
type_synonym uuid = "128 word"

subsection \<open>Lifecycle metadata\<close>

datatype provisioning_status =
    Pending
  | Provisioning
  | Active
  | Updating
  | Degraded
  | InError
  | Deleting
  | Deleted

definition status_str :: "provisioning_status \<Rightarrow> string" where
  "status_str s = (case s of
     Pending \<Rightarrow> ''pending'' | Provisioning \<Rightarrow> ''provisioning'' | Active \<Rightarrow> ''active''
   | Updating \<Rightarrow> ''updating'' | Degraded \<Rightarrow> ''degraded'' | InError \<Rightarrow> ''error''
   | Deleting \<Rightarrow> ''deleting'' | Deleted \<Rightarrow> ''deleted'')"

record resource_error =
  rerr_message :: string
  rerr_occurred_at :: datetime

record resource_meta =
  meta_status :: provisioning_status
  meta_created_at :: "datetime option"
  meta_updated_at :: "datetime option"
  meta_last_seen_at :: "datetime option"
  meta_last_error :: "resource_error option"
  meta_desired_hash :: "string option"
  meta_generation :: "64 word"

definition default_meta :: resource_meta where
  "default_meta = \<lparr>meta_status = Pending, meta_created_at = None, meta_updated_at = None,
     meta_last_seen_at = None, meta_last_error = None, meta_desired_hash = None, meta_generation = 0\<rparr>"

definition mark_active :: "datetime \<Rightarrow> string \<Rightarrow> resource_meta \<Rightarrow> resource_meta" where
  "mark_active now h m = m
     \<lparr>meta_created_at := (case meta_created_at m of None \<Rightarrow> Some now | Some t \<Rightarrow> Some t),
      meta_updated_at := Some now,
      meta_status := Active,
      meta_last_error := None,
      meta_desired_hash := Some h,
      meta_generation := meta_generation m + 1\<rparr>"

definition mark_error :: "datetime \<Rightarrow> string \<Rightarrow> resource_meta \<Rightarrow> resource_meta" where
  "mark_error now msg m = m
     \<lparr>meta_status := InError,
      meta_last_error := Some \<lparr>rerr_message = msg, rerr_occurred_at = now\<rparr>,
      meta_generation := meta_generation m + 1\<rparr>"

definition mark_seen :: "datetime \<Rightarrow> bool \<Rightarrow> resource_meta \<Rightarrow> resource_meta" where
  "mark_seen now healthy m =
     (let m' = m\<lparr>meta_last_seen_at := Some now\<rparr> in
      if meta_status m' = Active \<and> \<not> healthy then m'\<lparr>meta_status := Degraded\<rparr>
      else if meta_status m' = Degraded \<and> healthy then m'\<lparr>meta_status := Active\<rparr>
      else m')"

subsection \<open>The hash of a desired configuration\<close>

primrec sort_json_keys :: "json \<Rightarrow> json" where
  "sort_json_keys (JObject m) = JObject (bt_collect (map (map_prod id sort_json_keys) m))"
| "sort_json_keys (JArray vs) = JArray (map sort_json_keys vs)"
| "sort_json_keys JNull = JNull"
| "sort_json_keys (JBool b) = JBool b"
| "sort_json_keys (JNumber n) = JNumber n"
| "sort_json_keys (JString s) = JString s"

definition compute_desired_hash :: "(json \<Rightarrow> string) \<Rightarrow> json \<Rightarrow> string" where
  "compute_desired_hash digest v = digest (sort_json_keys v)"

abbreviation enclave_hash :: "(json \<Rightarrow> string) \<Rightarrow> enclave \<Rightarrow> string" where
  "enclave_hash digest e \<equiv> compute_desired_hash digest (enclave_to_json e)"

abbreviation partition_hash :: "(json \<Rightarrow> string) \<Rightarrow> partition \<Rightarrow> string" where
  "partition_hash digest p \<equiv> compute_desired_hash digest (partition_to_json p)"

subsection \<open>The state of partitions and enclaves\<close>

record partition_state =
  ps_desired :: partition
  ps_handle :: "handle option"
  ps_outputs :: "(string, string) hashmap"
  ps_meta :: resource_meta

definition new_partition_state :: "partition \<Rightarrow> partition_state" where
  "new_partition_state p = \<lparr>ps_desired = p, ps_handle = None, ps_outputs = [], ps_meta = default_meta\<rparr>"

record enclave_state =
  es_desired :: enclave
  es_handle :: "handle option"
  es_partitions :: "(partition_id, partition_state) hashmap"
  es_exports :: "(string, handle) hashmap"
  es_imports :: "(string, handle) hashmap"
  es_meta :: resource_meta
  es_resolved_cloud :: "cloud_target option"

definition new_enclave_state :: "enclave \<Rightarrow> enclave_state" where
  "new_enclave_state e = \<lparr>es_desired = e, es_handle = None, es_partitions = [], es_exports = [],
     es_imports = [], es_meta = default_meta, es_resolved_cloud = None\<rparr>"

abbreviation es_id :: "enclave_state \<Rightarrow> enclave_id" where
  "es_id s \<equiv> enc_id (es_desired s)"

subsection \<open>The log of IaC runs\<close>

datatype iac_operation = IacProvision | IacUpdate | IacTeardown

definition iac_operation_str :: "iac_operation \<Rightarrow> string" where
  "iac_operation_str op = (case op of
     IacProvision \<Rightarrow> ''provision'' | IacUpdate \<Rightarrow> ''update'' | IacTeardown \<Rightarrow> ''teardown'')"

datatype iac_run_status = IacRunning | IacSucceeded | IacFailed

definition iac_run_status_str :: "iac_run_status \<Rightarrow> string" where
  "iac_run_status_str s = (case s of
     IacRunning \<Rightarrow> ''running'' | IacSucceeded \<Rightarrow> ''succeeded'' | IacFailed \<Rightarrow> ''failed'')"

record iac_run =
  run_id :: uuid
  run_enclave_id :: enclave_id
  run_partition_id :: partition_id
  run_operation :: iac_operation
  run_started_at :: datetime
  run_finished_at :: "datetime option"
  run_status :: iac_run_status
  run_exit_code :: "32 word option"
  run_log :: string
  run_reconcile_run_id :: "uuid option"

subsection \<open>Audit events\<close>

datatype audit_event =
    ReconcileStarted uuid datetime bool
  | ReconcileCompleted uuid datetime nat bool
  | EnclaveProvisioned uuid datetime enclave_id
  | PartitionProvisioned uuid datetime enclave_id partition_id
  | ExportWired uuid datetime enclave_id string
  | ImportWired uuid datetime enclave_id string
  | EnclaveError uuid datetime enclave_id string
  | PartitionError uuid datetime enclave_id partition_id string

definition event_enclave :: "audit_event \<Rightarrow> enclave_id option" where
  "event_enclave ev = (case ev of
     EnclaveProvisioned _ _ e \<Rightarrow> Some e
   | PartitionProvisioned _ _ e _ \<Rightarrow> Some e
   | ExportWired _ _ e _ \<Rightarrow> Some e
   | ImportWired _ _ e _ \<Rightarrow> Some e
   | EnclaveError _ _ e _ \<Rightarrow> Some e
   | PartitionError _ _ e _ _ \<Rightarrow> Some e
   | _ \<Rightarrow> None)"

subsection \<open>Facts about the hash\<close>

lemma sort_json_keys_wf: "json_wf v \<Longrightarrow> sort_json_keys v = v"
proof (induction v rule: json_wf.induct)
  case (wf_array vs)
  then show ?case by (simp add: map_idI)
next
  case (wf_object m)
  have "map_prod id sort_json_keys x = x" if "x \<in> set m" for x
    using wf_object(3) [of "snd x"] imageI [OF that, of snd] by (cases x) simp
  then have "map (map_prod id sort_json_keys) m = m" by (intro map_idI)
  with wf_object show ?case by (simp add: bt_collect_id)
qed simp_all

lemma json_wf_sorted: "json_wf (sort_json_keys v)"
proof (induction v)
  case (JObject m)
  show ?case unfolding sort_json_keys.simps
    by (rule json_wf_collect) (use JObject in \<open>auto simp: snds.simps\<close>)
qed auto

lemma partition_hash_eq: "partition_hash digest p = digest (partition_to_json p)"
  by (simp add: compute_desired_hash_def sort_json_keys_wf)

lemma enclave_hash_eq: "enclave_hash digest e = digest (enclave_to_json e)"
  by (simp add: compute_desired_hash_def sort_json_keys_wf)

text \<open>
  The hash sees through the order of a hash map and through nothing else: for configurations
  whose \<open>inputs\<close> are maps, two enclaves have the same hash under every digest exactly when
  they are equal up to the order in which the inputs of their partitions are walked.
\<close>
theorem enclave_hash_detects_changes:
  assumes "enclave_ok d" "enclave_ok e"
  shows "(\<forall>digest. enclave_hash digest d = enclave_hash digest e) \<longleftrightarrow> enclave_eqv d e"
proof
  assume "\<forall>digest. enclave_hash digest d = enclave_hash digest e"
  then have "digest (enclave_to_json d) = digest (enclave_to_json e)" for digest :: "json \<Rightarrow> string"
    by (simp only: enclave_hash_eq)
  from this [of "\<lambda>v. if v = enclave_to_json d then ''a'' else ''b''"]
  have "enclave_to_json d = enclave_to_json e" by (simp split: if_splits)
  then show "enclave_eqv d e" using assms by (simp add: enclave_to_json_eq_iff)
next
  assume "enclave_eqv d e"
  then have "enclave_to_json d = enclave_to_json e" using assms by (simp add: enclave_to_json_eq_iff)
  then show "\<forall>digest. enclave_hash digest d = enclave_hash digest e" by (simp add: enclave_hash_eq)
qed

definition hashed_enclave :: "(string, string) hashmap \<Rightarrow> enclave" where
  "hashed_enclave inputs = \<lparr>enc_id = EnclaveId ''e'', enc_name = ''E'', enc_cloud = None, enc_region = [],
     enc_identity = None, enc_network = None, enc_dns = None, enc_imports = [], enc_exports = [],
     enc_partitions = [\<lparr>part_id = PartitionId ''p'', part_name = ''P'', part_produces = None, part_imports = [],
       part_exports = [], part_inputs = inputs, part_declared_outputs = [], part_backend = default_backend\<rparr>]\<rparr>"

theorem enclave_hash_detects_changes_witness:
  "(\<forall>digest. enclave_hash digest (hashed_enclave [(''a'', ''1''), (''b'', ''2'')]) =
      enclave_hash digest (hashed_enclave [(''b'', ''2''), (''a'', ''1'')])) \<and>
   \<not> (\<forall>digest. enclave_hash digest (hashed_enclave [(''a'', ''1'')]) = enclave_hash digest (hashed_enclave [(''a'', ''2'')]))"
proof -
  have ok: "enclave_ok (hashed_enclave [(''a'', ''1''), (''b'', ''2'')])" "enclave_ok (hashed_enclave [(''b'', ''2''), (''a'', ''1'')])"
    "enclave_ok (hashed_enclave [(''a'', v)])" for v
    by (simp_all add: enclave_ok_def partition_ok_def hashed_enclave_def hm_ok_def)
  have "enclave_eqv (hashed_enclave [(''a'', ''1''), (''b'', ''2'')]) (hashed_enclave [(''b'', ''2''), (''a'', ''1'')])"
    by (auto simp: enclave_eqv_def partition_eqv_def hashed_enclave_def hm_get_def fun_eq_iff)
  moreover have "\<not> enclave_eqv (hashed_enclave [(''a'', ''1'')]) (hashed_enclave [(''a'', ''2'')])"
    by (auto simp: enclave_eqv_def partition_eqv_def hashed_enclave_def hm_get_def fun_eq_iff)
  ultimately show ?thesis
    using enclave_hash_detects_changes [OF ok(1,2)] enclave_hash_detects_changes [OF ok(3) ok(3)] by blast
qed

text \<open>
  Sorting the keys gives a canonical value: every object of the result is sorted, sorting again
  changes nothing, and a value whose objects are sorted is left as it is.
\<close>
lemma sort_json_keys_canonical:
  "json_wf (sort_json_keys v) \<and> sort_json_keys (sort_json_keys v) = sort_json_keys v \<and>
   (json_wf v \<longleftrightarrow> sort_json_keys v = v)"
  by (metis json_wf_sorted sort_json_keys_wf)

subsection \<open>The lifecycle as a state machine\<close>

text \<open>The ways in which the program changes the metadata of a resource.\<close>

inductive meta_step :: "resource_meta \<Rightarrow> resource_meta \<Rightarrow> bool" where
  begin_provision: "meta_step m (m\<lparr>meta_status := Provisioning\<rparr>)"
| begin_update: "meta_step m (m\<lparr>meta_status := Updating\<rparr>)"
| provisioned: "meta_step m (mark_active now h m)"
| failed: "meta_step m (mark_error now msg m)"
| seen: "meta_step m (mark_seen now healthy m)"

inductive meta_reachable :: "resource_meta \<Rightarrow> bool" where
  initial: "meta_reachable default_meta"
| step: "meta_reachable m \<Longrightarrow> meta_step m m' \<Longrightarrow> meta_reachable m'"

inductive_cases meta_stepE: "meta_step m m'"

definition meta_inv :: "resource_meta \<Rightarrow> bool" where
  "meta_inv m \<longleftrightarrow>
     (meta_created_at m = None \<longleftrightarrow> meta_desired_hash m = None) \<and>
     (meta_created_at m = None \<longleftrightarrow> meta_updated_at m = None) \<and>
     (meta_status m \<in> {Active, Degraded} \<longrightarrow> meta_created_at m \<noteq> None \<and> meta_last_error m = None) \<and>
     (meta_status m = InError \<longrightarrow> meta_last_error m \<noteq> None) \<and>
     meta_status m \<notin> {Deleting, Deleted}"

lemma meta_inv_default: "meta_inv default_meta"
  by (simp add: meta_inv_def default_meta_def)

lemma meta_inv_step: "meta_step m m' \<Longrightarrow> meta_inv m \<Longrightarrow> meta_inv m'"
  by (erule meta_stepE)
     (auto simp: meta_inv_def mark_active_def mark_error_def mark_seen_def Let_def split: option.split)



lemma fold_mark_error:
  "\<exists>s l. fold (\<lambda>(t, msg). mark_error t msg) fs m = m\<lparr>meta_status := s, meta_last_error := l,
     meta_generation := meta_generation m + of_nat (length fs)\<rparr>"
proof (induction fs arbitrary: m)
  case Nil
  have "m = m\<lparr>meta_status := meta_status m, meta_last_error := meta_last_error m,
      meta_generation := meta_generation m + of_nat 0\<rparr>" by simp
  then show ?case by (simp only: fold.simps list.size id_apply) blast
next
  case (Cons f fs)
  obtain t msg where f: "f = (t, msg)" by (cases f)
  obtain s l where "fold (\<lambda>(t, msg). mark_error t msg) fs (mark_error t msg m) =
      (mark_error t msg m)\<lparr>meta_status := s, meta_last_error := l,
        meta_generation := meta_generation (mark_error t msg m) + of_nat (length fs)\<rparr>"
    using Cons by blast
  then show ?case
    by (intro exI [of _ s] exI [of _ l]) (simp add: f mark_error_def [of t msg m] add.assoc)
qed

text \<open>
  A failure keeps what was known of the last success (its times and its hash), and a success
  after any number of failures keeps the first creation time and clears the error.
\<close>
lemma mark_error_then_active:
  "let e = fold (\<lambda>(t, msg). mark_error t msg) fs m in
     meta_created_at e = meta_created_at m \<and> meta_updated_at e = meta_updated_at m \<and>
     meta_desired_hash e = meta_desired_hash m \<and>
     meta_generation e = meta_generation m + of_nat (length fs) \<and>
     mark_active now h e = m\<lparr>meta_status := Active,
       meta_created_at := Some (case meta_created_at m of None \<Rightarrow> now | Some t \<Rightarrow> t),
       meta_updated_at := Some now, meta_last_error := None, meta_desired_hash := Some h,
       meta_generation := meta_generation m + of_nat (length fs) + 1\<rparr>"
proof -
  obtain s l where e: "fold (\<lambda>(t, msg). mark_error t msg) fs m = m\<lparr>meta_status := s,
      meta_last_error := l, meta_generation := meta_generation m + of_nat (length fs)\<rparr>"
    using fold_mark_error by blast
  show ?thesis
    unfolding e Let_def by (simp add: mark_active_def split: option.split)
qed

end
