(* ===== verification/Driver_Interface.thy ===== *)
theory Driver_Interface
  imports Domain_Types Effect_Monad
begin

section \<open>Drivers and their registry\<close>

text \<open>
  \<open>crates/nclav-driver/src/driver.rs\<close>, \<open>error.rs\<close> and \<open>registry.rs\<close>. A trait object
  \<open>Arc<dyn Driver>\<close> is the record \<open>driver\<close> of its operations over the outside world \<open>'c\<close> (cloud,
  file system, processes). The registry maps a cloud target to its driver.
\<close>

datatype driver_error =
    ProvisionFailed string
  | TeardownFailed string
  | DriverInternal string
  | DriverNotConfigured cloud_target
  | TfFilesWithModuleSource path string

definition driver_error_str :: "driver_error \<Rightarrow> string" where
  "driver_error_str e = (case e of
     ProvisionFailed s \<Rightarrow> ''provision failed: '' @ s
   | TeardownFailed s \<Rightarrow> ''teardown failed: '' @ s
   | DriverInternal s \<Rightarrow> ''internal driver error: '' @ s
   | DriverNotConfigured c \<Rightarrow> ''driver not configured for cloud: '' @ cloud_str c
   | TfFilesWithModuleSource p f \<Rightarrow>
       ''.tf file '' @ [CHR 0x27] @ f @ [CHR 0x27] @ '' found in partition at '' @ p @
       '' which uses terraform.source; remove the .tf file or remove terraform.source'')"

record orphaned_resource =
  orph_resource_name :: string
  orph_resource_type :: string
  orph_nclav_partition :: string
  orph_nclav_enclave :: string

record provision_result =
  pr_handle :: handle
  pr_outputs :: "(string, string) hashmap"

record observed_state =
  obs_exists :: bool
  obs_healthy :: bool
  obs_outputs :: "(string, string) hashmap"
  obs_raw :: handle

record 'c driver =
  drv_name :: string
  drv_provision_enclave :: "enclave \<Rightarrow> handle option \<Rightarrow> ('c, driver_error, provision_result) act"
  drv_teardown_enclave :: "enclave \<Rightarrow> handle \<Rightarrow> ('c, driver_error, unit) act"
  drv_provision_partition :: "enclave \<Rightarrow> partition \<Rightarrow> (string, string) hashmap \<Rightarrow> handle option \<Rightarrow>
    ('c, driver_error, provision_result) act"
  drv_teardown_partition :: "enclave \<Rightarrow> partition \<Rightarrow> handle \<Rightarrow> ('c, driver_error, unit) act"
  drv_provision_export :: "enclave \<Rightarrow> export \<Rightarrow> (string, string) hashmap \<Rightarrow> handle option \<Rightarrow>
    ('c, driver_error, provision_result) act"
  drv_provision_import :: "enclave \<Rightarrow> import \<Rightarrow> handle \<Rightarrow> handle option \<Rightarrow>
    ('c, driver_error, provision_result) act"
  drv_observe_enclave :: "enclave \<Rightarrow> handle \<Rightarrow> ('c, driver_error, observed_state) act"
  drv_observe_partition :: "enclave \<Rightarrow> partition \<Rightarrow> handle \<Rightarrow> ('c, driver_error, observed_state) act"
  drv_context_vars :: "enclave \<Rightarrow> handle \<Rightarrow> (string, string) hashmap"
  drv_auth_env :: "enclave \<Rightarrow> handle \<Rightarrow> (string, string) hashmap"
  drv_list_partition_resources :: "enclave \<Rightarrow> handle \<Rightarrow> partition \<Rightarrow> ('c, driver_error, string list) act"
  drv_list_orphaned_resources :: "enclave \<Rightarrow> handle \<Rightarrow> string list \<Rightarrow>
    ('c, driver_error, orphaned_resource list) act"

text \<open>The default bodies of the two listing methods.\<close>

definition default_list_partition_resources ::
  "enclave \<Rightarrow> handle \<Rightarrow> partition \<Rightarrow> ('c, driver_error, string list) act" where
  "default_list_partition_resources enc h p = ret []"

definition default_list_orphaned_resources ::
  "enclave \<Rightarrow> handle \<Rightarrow> string list \<Rightarrow> ('c, driver_error, orphaned_resource list) act" where
  "default_list_orphaned_resources enc h known = ret []"

subsection \<open>The registry\<close>

record 'c driver_registry =
  reg_default_cloud :: cloud_target
  reg_drivers :: "(cloud_target, 'c driver) hashmap"

definition registry_new :: "cloud_target \<Rightarrow> 'c driver_registry" where
  "registry_new c = \<lparr>reg_default_cloud = c, reg_drivers = []\<rparr>"

definition register :: "cloud_target \<Rightarrow> 'c driver \<Rightarrow> 'c driver_registry \<Rightarrow> 'c driver_registry" where
  "register c d r = r\<lparr>reg_drivers := hm_insert c d (reg_drivers r)\<rparr>"

definition for_cloud :: "'c driver_registry \<Rightarrow> cloud_target \<Rightarrow> (driver_error, 'c driver) result" where
  "for_cloud r c = (case hm_get (reg_drivers r) c of
     None \<Rightarrow> Inl (DriverNotConfigured c) | Some d \<Rightarrow> Inr d)"

definition resolved_cloud :: "'c driver_registry \<Rightarrow> enclave \<Rightarrow> cloud_target" where
  "resolved_cloud r e = (case enc_cloud e of None \<Rightarrow> reg_default_cloud r | Some c \<Rightarrow> c)"

definition for_enclave :: "'c driver_registry \<Rightarrow> enclave \<Rightarrow> (driver_error, 'c driver) result" where
  "for_enclave r e = for_cloud r (resolved_cloud r e)"

definition active_clouds :: "'c driver_registry \<Rightarrow> cloud_target list" where
  "active_clouds r = hm_keys (reg_drivers r)"

lemma for_cloud_Inr: "for_cloud r c = Inr d \<longleftrightarrow> hm_get (reg_drivers r) c = Some d"
  by (simp add: for_cloud_def split: option.split)

text \<open>
  Dispatch: after a driver is registered for a cloud, an enclave gets it exactly when its own
  \<open>cloud\<close>, or the default where it names none, is that cloud; every other enclave gets what it got
  before, and an enclave whose cloud has no driver gets the error that names this cloud.
\<close>
lemma registry_dispatch:
  "for_enclave (register c d r) e =
     (if resolved_cloud r e = c then Inr d else for_enclave r e) \<and>
   for_enclave (registry_new c) e = Inl (DriverNotConfigured (resolved_cloud (registry_new c) e)) \<and>
   set (active_clouds (register c d r)) = insert c (set (active_clouds r))"
  by (auto simp: for_enclave_def for_cloud_def register_def registry_new_def resolved_cloud_def
      hm_get_insert active_clouds_def set_hm_keys split: option.split)

end
