(* ===== verification/Local_Driver.thy ===== *)
theory Local_Driver
  imports Driver_Interface
begin

section \<open>The local driver\<close>

text \<open>
  \<open>crates/nclav-driver/src/local.rs\<close>. The driver that simulates infrastructure: it changes
  nothing outside, for any outside world \<open>'c\<close>, and never fails.
\<close>

definition local_provision_enclave ::
  "enclave \<Rightarrow> handle option \<Rightarrow> ('c, driver_error, provision_result) act" where
  "local_provision_enclave enc existing = ret \<lparr>
     pr_handle = json_object [
       (''driver'', JString ''local''), (''kind'', JString ''enclave''),
       (''id'', JString (eid_str (enc_id enc))), (''cloud'', JString ''local'')],
     pr_outputs = []\<rparr>"

definition local_teardown_enclave :: "enclave \<Rightarrow> handle \<Rightarrow> ('c, driver_error, unit) act" where
  "local_teardown_enclave enc h = ret ()"

definition local_outputs :: "partition \<Rightarrow> (string, string) hashmap" where
  "local_outputs p = (case part_produces p of
     None \<Rightarrow> []
   | Some pt \<Rightarrow> fold (\<lambda>k. hm_insert k (''local://'' @ pid_str (part_id p) @ ''/'' @ k))
       (required_outputs pt) [])"

definition local_provision_partition ::
  "enclave \<Rightarrow> partition \<Rightarrow> (string, string) hashmap \<Rightarrow> handle option \<Rightarrow>
     ('c, driver_error, provision_result) act" where
  "local_provision_partition enc p inputs existing = ret \<lparr>
     pr_handle = json_object [
       (''driver'', JString ''local''), (''kind'', JString ''partition''),
       (''enclave_id'', JString (eid_str (enc_id enc))),
       (''partition_id'', JString (pid_str (part_id p)))],
     pr_outputs = local_outputs p\<rparr>"

definition local_teardown_partition ::
  "enclave \<Rightarrow> partition \<Rightarrow> handle \<Rightarrow> ('c, driver_error, unit) act" where
  "local_teardown_partition enc p h = ret ()"

definition local_provision_export ::
  "enclave \<Rightarrow> export \<Rightarrow> (string, string) hashmap \<Rightarrow> handle option \<Rightarrow>
     ('c, driver_error, provision_result) act" where
  "local_provision_export enc x outputs existing = ret \<lparr>
     pr_handle = json_object [
       (''driver'', JString ''local''), (''kind'', JString ''export''),
       (''enclave_id'', JString (eid_str (enc_id enc))),
       (''export_name'', JString (exp_name x)),
       (''outputs'', json_string_map outputs)],
     pr_outputs = outputs\<rparr>"

text \<open>The outputs of an import are the string entries of the object \<open>outputs\<close> of the export handle.\<close>

definition string_entries :: "(string \<times> json) list \<Rightarrow> (string, string) hashmap" where
  "string_entries m = hm_collect (List.map_filter
     (\<lambda>(k, v). map_option (\<lambda>s. (k, s)) (json_as_str v)) m)"

definition local_provision_import ::
  "enclave \<Rightarrow> import \<Rightarrow> handle \<Rightarrow> handle option \<Rightarrow> ('c, driver_error, provision_result) act" where
  "local_provision_import importer i export_handle existing = ret \<lparr>
     pr_handle = json_object [
       (''driver'', JString ''local''), (''kind'', JString ''import''),
       (''importer_enclave'', JString (eid_str (enc_id importer))),
       (''alias'', JString (imp_alias i)),
       (''export_handle'', export_handle)],
     pr_outputs = (case json_get export_handle ''outputs'' of
         None \<Rightarrow> []
       | Some obj \<Rightarrow> (case json_as_object obj of None \<Rightarrow> [] | Some m \<Rightarrow> string_entries m))\<rparr>"

definition local_observe_enclave :: "enclave \<Rightarrow> handle \<Rightarrow> ('c, driver_error, observed_state) act" where
  "local_observe_enclave enc h =
     ret \<lparr>obs_exists = True, obs_healthy = True, obs_outputs = [], obs_raw = h\<rparr>"

definition local_observe_partition ::
  "enclave \<Rightarrow> partition \<Rightarrow> handle \<Rightarrow> ('c, driver_error, observed_state) act" where
  "local_observe_partition enc p h =
     ret \<lparr>obs_exists = True, obs_healthy = True, obs_outputs = local_outputs p, obs_raw = h\<rparr>"

definition local_context_vars :: "enclave \<Rightarrow> handle \<Rightarrow> (string, string) hashmap" where
  "local_context_vars enc h = []"

definition local_auth_env :: "enclave \<Rightarrow> handle \<Rightarrow> (string, string) hashmap" where
  "local_auth_env enc h = []"

definition local_driver :: "'c driver" where
  "local_driver = \<lparr>
     drv_name = ''local'',
     drv_provision_enclave = local_provision_enclave,
     drv_teardown_enclave = local_teardown_enclave,
     drv_provision_partition = local_provision_partition,
     drv_teardown_partition = local_teardown_partition,
     drv_provision_export = local_provision_export,
     drv_provision_import = local_provision_import,
     drv_observe_enclave = local_observe_enclave,
     drv_observe_partition = local_observe_partition,
     drv_context_vars = local_context_vars,
     drv_auth_env = local_auth_env,
     drv_list_partition_resources = default_list_partition_resources,
     drv_list_orphaned_resources = default_list_orphaned_resources\<rparr>"

lemmas local_defs = local_provision_enclave_def local_teardown_enclave_def
  local_provision_partition_def local_teardown_partition_def local_provision_export_def
  local_provision_import_def local_observe_enclave_def local_observe_partition_def
  local_context_vars_def local_auth_env_def

subsection \<open>Properties\<close>

lemma map_of_json_strings:
  "map_of (map (\<lambda>(k, v). (k, JString v)) m) k = map_option JString (map_of m k)"
  by (induction m) auto

lemma hm_get_local_outputs:
  "hm_get (local_outputs p) k =
     (case part_produces p of
        None \<Rightarrow> None
      | Some pt \<Rightarrow> if k \<in> set (required_outputs pt)
          then Some (''local://'' @ pid_str (part_id p) @ ''/'' @ k) else None)"
proof -
  have "hm_get (fold (\<lambda>k. hm_insert k (f k)) ks m) k =
      (if k \<in> set ks then Some (f k) else hm_get m k)" for ks m and f :: "string \<Rightarrow> string"
    by (induction ks arbitrary: m) (auto simp: hm_get_insert)
  then show ?thesis by (simp add: local_outputs_def split: option.split)
qed

text \<open>
  The output contract holds for what the local driver makes: a provisioned partition has
  exactly the outputs that its type requires, and observing it afterwards reports it as existing
  and healthy, with the same outputs and the given handle, for every outside world and state of it.
\<close>
theorem local_outputs_contract:
  "case local_provision_partition enc p inputs ex w of
     (Inr r, w') \<Rightarrow> w' = w \<and>
       dom (hm_get (pr_outputs r)) =
         (case part_produces p of None \<Rightarrow> {} | Some pt \<Rightarrow> set (required_outputs pt)) \<and>
       local_observe_partition enc p (pr_handle r) w =
         (Inr \<lparr>obs_exists = True, obs_healthy = True, obs_outputs = pr_outputs r, obs_raw = pr_handle r\<rparr>, w)
   | (Inl _, _) \<Rightarrow> False"
  by (auto simp: local_provision_partition_def local_observe_partition_def ret_def dom_def
      hm_get_local_outputs split: option.splits if_splits)

lemma map_of_filter_strings:
  "bt_sorted m \<Longrightarrow>
     map_of (List.map_filter (\<lambda>(k, v). map_option (\<lambda>s. (k, s)) (json_as_str v)) m) k =
       (case map_of m k of None \<Rightarrow> None | Some v \<Rightarrow> json_as_str v)"
proof (induction m)
  case (Cons kv m)
  obtain k' v where kv: "kv = (k', v)" by (cases kv)
  with Cons.prems have "k' \<notin> fst ` set m" by (auto simp: bt_sorted_Cons)
  then have "map_of m k' = None" by (simp add: map_of_eq_None_iff)
  with Cons kv show ?case
    by (cases "json_as_str v") (auto simp: map_filter_simps bt_sorted_Cons)
qed (simp add: map_filter_simps)

lemma distinct_filter_strings:
  "bt_sorted m \<Longrightarrow>
     distinct (map fst (List.map_filter (\<lambda>(k, v). map_option (\<lambda>s. (k, s)) (json_as_str v)) m))"
proof (induction m)
  case (Cons kv m)
  have "\<exists>x \<in> set m. fst x = k"
    if "(k, s) \<in> set (List.map_filter (\<lambda>(k, v). map_option (\<lambda>s. (k, s)) (json_as_str v)) m)" for k s
    using that by (force simp: map_filter_def)
  with Cons show ?case
    by (cases kv; cases "json_as_str (snd kv)") (fastforce simp: map_filter_simps bt_sorted_Cons)+
qed (simp add: map_filter_simps)

text \<open>
  Outputs travel over an export: what the local driver returns for an import of an export that
  it made of a set of outputs are these outputs again, as a map.
\<close>
theorem local_export_import_roundtrip:
  assumes "hm_ok outputs"
    and "local_provision_export enc x outputs ex w = (Inr r, w1)"
    and "local_provision_import importer i (pr_handle r) ex' w1 = (Inr r', w2)"
  shows "hm_get (pr_outputs r') = hm_get outputs"
proof -
  let ?m = "bt_collect (map (\<lambda>(k, v). (k, JString v)) outputs)"
  have "json_get (pr_handle r) ''outputs'' = Some (JObject ?m)"
    using assms(2)
    by (auto simp: local_provision_export_def ret_def json_get_object json_string_map_def)
  then have out: "pr_outputs r' = string_entries ?m"
    using assms(3) by (auto simp: local_provision_import_def ret_def json_as_object_def)
  have keys: "distinct (map fst (map (\<lambda>(k, v). (k, JString v)) outputs))"
    using assms(1) by (simp add: hm_ok_def comp_def case_prod_unfold)
  have "hm_get (pr_outputs r') k = hm_get outputs k" for k
  proof -
    have "hm_get (pr_outputs r') k = (case map_of ?m k of None \<Rightarrow> None | Some v \<Rightarrow> json_as_str v)"
      unfolding out string_entries_def
      by (simp add: hm_get_collect_distinct distinct_filter_strings bt_sorted_collect map_of_filter_strings)
    also have "map_of ?m k = map_option JString (map_of outputs k)"
      using keys by (simp add: map_of_bt_collect map_of_rev map_of_json_strings)
    finally show ?thesis by (simp add: hm_get_def split: option.split)
  qed
  then show ?thesis by (rule ext)
qed

theorem local_export_import_roundtrip_witness:
  "hm_get (pr_outputs \<lparr>pr_handle = json_object [
       (''driver'', JString ''local''), (''kind'', JString ''import''),
       (''importer_enclave'', JString ''b''), (''alias'', JString ''q''),
       (''export_handle'', json_object [
         (''driver'', JString ''local''), (''kind'', JString ''export''),
         (''enclave_id'', JString ''a''), (''export_name'', JString ''api''),
         (''outputs'', json_string_map [(''queue_url'', ''u'')])])],
     pr_outputs = [(''queue_url'', ''u'')]\<rparr>) = hm_get [(''queue_url'', ''u'')]"
proof (rule local_export_import_roundtrip)
  let ?enc = "\<lparr>enc_id = EnclaveId ''a'', enc_name = [], enc_cloud = None, enc_region = [],
     enc_identity = None, enc_network = None, enc_dns = None, enc_imports = [], enc_exports = [],
     enc_partitions = []\<rparr>"
  show "hm_ok [(''queue_url'', ''u'')]" by (simp add: hm_ok_def)
  show "local_provision_export ?enc
      \<lparr>exp_name = ''api'', exp_target_partition = PartitionId ''web'', exp_export_type = ExpQueue,
       exp_to = ToPublic, exp_auth = AuthNone, exp_hostname = None, exp_port = None\<rparr>
      [(''queue_url'', ''u'')] None () =
    (Inr \<lparr>pr_handle = json_object [
         (''driver'', JString ''local''), (''kind'', JString ''export''),
         (''enclave_id'', JString ''a''), (''export_name'', JString ''api''),
         (''outputs'', json_string_map [(''queue_url'', ''u'')])],
       pr_outputs = [(''queue_url'', ''u'')]\<rparr>, ())"
    by (simp add: local_provision_export_def ret_def)
  show "local_provision_import (?enc\<lparr>enc_id := EnclaveId ''b''\<rparr>)
      \<lparr>imp_from = EnclaveId ''a'', imp_export_name = ''api'', imp_alias = ''q''\<rparr>
      (pr_handle \<lparr>pr_handle = json_object [
         (''driver'', JString ''local''), (''kind'', JString ''export''),
         (''enclave_id'', JString ''a''), (''export_name'', JString ''api''),
         (''outputs'', json_string_map [(''queue_url'', ''u'')])],
       pr_outputs = [(''queue_url'', ''u'')]\<rparr>) None () =
    (Inr \<lparr>pr_handle = json_object [
       (''driver'', JString ''local''), (''kind'', JString ''import''),
       (''importer_enclave'', JString ''b''), (''alias'', JString ''q''),
       (''export_handle'', json_object [
         (''driver'', JString ''local''), (''kind'', JString ''export''),
         (''enclave_id'', JString ''a''), (''export_name'', JString ''api''),
         (''outputs'', json_string_map [(''queue_url'', ''u'')])])],
     pr_outputs = [(''queue_url'', ''u'')]\<rparr>, ())"
    by (simp add: local_provision_import_def ret_def json_get_object json_string_map_def
        json_as_object_def string_entries_def bt_collect_def map_filter_simps hm_collect_def hm_insert_def)
qed

end
