(* ===== verification/Template_Resolve.thy ===== *)
theory Template_Resolve
  imports Store_State Local_Driver
begin

section \<open>Templates in partition inputs\<close>

text \<open>
  \<open>resolve_inputs\<close> and \<open>resolve_template\<close> of \<open>crates/nclav-reconciler/src/reconcile.rs\<close>. The
  loop of the source works on one string and a position in it, and replaces a placeholder in place;
  it is \<open>resolve_loop\<close>, whose termination is proved with the number of bytes behind the position.
  \<open>expand\<close> is what it is meant to do: one pass over the template from left to right, in which
  a substituted value is not looked at again.
\<close>

abbreviation open_braces :: string where "open_braces \<equiv> ''{{''"
abbreviation close_braces :: string where "close_braces \<equiv> ''}}''"

text \<open>The value of a placeholder, by the text between the braces; \<open>None\<close> leaves it as it is.\<close>

definition placeholder_value ::
  "enclave_state \<Rightarrow> (string, string) hashmap \<Rightarrow> string \<Rightarrow> string option" where
  "placeholder_value es context_vars raw =
     (let inner = trim raw in
      case splitn2 (CHR ''.'') inner of
        [a, k] \<Rightarrow> (case hm_get (es_imports es) a of
            None \<Rightarrow> None
          | Some h \<Rightarrow> (case json_get h ''outputs'' of
              None \<Rightarrow> None
            | Some outs \<Rightarrow> (case json_get outs k of
                None \<Rightarrow> None
              | Some v \<Rightarrow> json_as_str v)))
      | _ \<Rightarrow> hm_get context_vars inner)"

lemma find_braces_bound:
  assumes "str_find open_braces (drop start r) = Some i" "str_find close_braces (drop (start + i) r) = Some e"
  shows "start + i + e + 2 \<le> length r" "2 \<le> e"
proof -
  have i: "start + i + 2 \<le> length r" using str_find_bound [OF assms(1)] by auto
  show "start + i + e + 2 \<le> length r" using str_find_bound [OF assms(2)] i by auto
  have "starts_with open_braces (drop (start + i) r)"
    using str_find_Some [OF assms(1)] by (simp add: add.commute)
  then obtain t where t: "drop (start + i) r = open_braces @ t" by (auto simp: starts_with_iff)
  show "2 \<le> e"
  proof (rule ccontr)
    assume "\<not> 2 \<le> e"
    then have "e = 0 \<or> e = 1" by auto
    then show False
      using str_find_Some [OF assms(2)] unfolding t by (auto simp: starts_with_def)
  qed
qed

function resolve_loop ::
  "enclave_state \<Rightarrow> (string, string) hashmap \<Rightarrow> string \<Rightarrow> nat \<Rightarrow> string" where
  "resolve_loop es ctx result search_start =
     (case str_find open_braces (drop search_start result) of
        None \<Rightarrow> result
      | Some start \<Rightarrow>
          (let abs_start = search_start + start in
           case str_find close_braces (drop abs_start result) of
             None \<Rightarrow> result
           | Some end_pos \<Rightarrow>
               (let abs_end = abs_start + end_pos + 2;
                    raw = take (end_pos - 2) (drop (abs_start + 2) result)
                in case placeholder_value es ctx raw of
                     Some val \<Rightarrow>
                       resolve_loop es ctx (take abs_start result @ val @ drop abs_end result)
                         (abs_start + length val)
                   | None \<Rightarrow> resolve_loop es ctx result abs_end)))"
  by pat_completeness auto
termination
  by (relation "measure (\<lambda>(es, ctx, result, search_start). length result - search_start)")
     (auto dest: find_braces_bound)

declare resolve_loop.simps [simp del]

definition resolve_template ::
  "string \<Rightarrow> enclave_state \<Rightarrow> (string, string) hashmap \<Rightarrow> string" where
  "resolve_template template es context_vars = resolve_loop es context_vars template 0"

definition resolve_inputs ::
  "(string, string) hashmap \<Rightarrow> enclave_state \<Rightarrow> (string, string) hashmap \<Rightarrow> (string, string) hashmap" where
  "resolve_inputs inputs es context_vars =
     hm_collect (map (\<lambda>(k, v). (k, resolve_template v es context_vars)) inputs)"

subsection \<open>One pass over the template\<close>

function expand :: "(string \<Rightarrow> string option) \<Rightarrow> string \<Rightarrow> string" where
  "expand f s =
     (case str_find open_braces s of
        None \<Rightarrow> s
      | Some i \<Rightarrow>
          (case str_find close_braces (drop i s) of
             None \<Rightarrow> s
           | Some e \<Rightarrow>
               take i s @
               (case f (take (e - 2) (drop (i + 2) s)) of
                  Some v \<Rightarrow> v
                | None \<Rightarrow> take (e + 2) (drop i s)) @
               expand f (drop (i + e + 2) s)))"
  by pat_completeness auto
termination
  by (relation "measure (\<lambda>(f, s). length s)")
     (use find_braces_bound [where start = 0] in fastforce)+

declare expand.simps [simp del]

lemma resolve_loop_expand:
  "search_start \<le> length result \<Longrightarrow>
     resolve_loop es ctx result search_start =
       take search_start result @ expand (placeholder_value es ctx) (drop search_start result)"
proof (induction es ctx result search_start rule: resolve_loop.induct)
  case (1 es ctx r p)
  let ?f = "placeholder_value es ctx"
  show ?case
  proof (cases "str_find open_braces (drop p r)")
    case None
    then show ?thesis by (simp add: resolve_loop.simps expand.simps [of _ "drop p r"])
  next
    case (Some i)
    note i = Some
    show ?thesis
    proof (cases "str_find close_braces (drop (p + i) r)")
      case None
      then show ?thesis
        by (simp add: resolve_loop.simps [of _ _ r] expand.simps [of _ "drop p r"] i add.commute)
    next
      case (Some e)
      note b = find_braces_bound [OF i Some]
      have ex: "expand ?f (drop p r) = take i (drop p r) @
          (case ?f (take (e - 2) (drop (p + i + 2) r)) of Some v \<Rightarrow> v | None \<Rightarrow> take (e + 2) (drop (p + i) r)) @
          expand ?f (drop (p + i + e + 2) r)"
        using Some by (subst expand.simps) (simp add: i add.commute add.left_commute split: option.split)
      have pre: "take (p + i) r = take p r @ take i (drop p r)" by (simp add: take_add)
      show ?thesis
      proof (cases "?f (take (e - 2) (drop (p + i + 2) r))")
        case None
        have "resolve_loop es ctx r p = resolve_loop es ctx r (p + i + e + 2)"
          using Some None by (simp add: resolve_loop.simps [of _ _ r p] i Let_def)
        also have "\<dots> = take (p + i + e + 2) r @ expand ?f (drop (p + i + e + 2) r)"
          using "1.IH"(1) [OF i refl Some refl refl None] b by (simp add: add.assoc)
        also have "take (p + i + e + 2) r = take p r @ take i (drop p r) @ take (e + 2) (drop (p + i) r)"
          by (metis pre add.assoc append.assoc take_add)
        finally show ?thesis using ex None by simp
      next
        case (Some v)
        have "resolve_loop es ctx r p =
            resolve_loop es ctx (take (p + i) r @ v @ drop (p + i + e + 2) r) (p + i + length v)"
          using \<open>str_find close_braces _ = Some e\<close> Some
          by (simp add: resolve_loop.simps [of _ _ r p] i Let_def)
        also have "\<dots> = (take (p + i) r @ v) @ expand ?f (drop (p + i + e + 2) r)"
          using "1.IH"(2) [OF i refl \<open>str_find close_braces _ = Some e\<close> refl refl Some] b
          by simp
        finally show ?thesis using ex Some pre by simp
      qed
    qed
  qed
qed

lemma resolve_template_expand:
  "resolve_template template es ctx = expand (placeholder_value es ctx) template"
  by (simp add: resolve_template_def resolve_loop_expand)

text \<open>
  C37. Template resolution is one pass: the in-place loop of the source computes \<open>expand\<close>, for every
  template, state and set of context variables; it terminates on all of them.
\<close>
theorem resolve_template_single_pass:
  "resolve_template template es ctx = expand (placeholder_value es ctx) template"
  by (rule resolve_template_expand)

lemma expand_no_braces: "str_find open_braces s = None \<Longrightarrow> expand f s = s"
  by (simp add: expand.simps)

lemma str_find_first:
  assumes "\<And>j. j < i \<Longrightarrow> \<not> starts_with p (drop j s)" "starts_with p (drop i s)" "i \<le> length s" "p \<noteq> []"
  shows "str_find p s = Some i"
proof (cases "str_find p s")
  case None
  then show ?thesis using assms(2,3) by (simp add: str_find_None)
next
  case (Some j)
  then have "\<not> i < j" "\<not> j < i" using str_find_Some [OF Some] assms(1,2) by auto
  with Some show ?thesis by simp
qed

text \<open>The first occurrence of two equal characters after a text that does not hold the character.\<close>

lemma str_find_double:
  assumes "c \<notin> set pre"
  shows "str_find [c, c] (pre @ [c, c] @ post) = Some (length pre)"
proof (rule str_find_first)
  fix j assume "j < length pre"
  then have "drop j (pre @ [c, c] @ post) = pre ! j # drop (Suc j) pre @ [c, c] @ post"
    by (simp add: Cons_nth_drop_Suc [symmetric])
  moreover have "pre ! j \<noteq> c" using assms \<open>j < length pre\<close> nth_mem by blast
  ultimately show "\<not> starts_with [c, c] (drop j (pre @ [c, c] @ post))"
    by (simp add: starts_with_def)
qed (simp_all add: starts_with_def)

text \<open>
  A placeholder is replaced and the rest kept: for texts without braces around and inside it,
  the placeholder becomes its value when it has one and stays as written when it has none, and
  the value is not expanded again, whatever braces it holds.
\<close>
theorem resolve_template_placeholder:
  assumes "CHR ''{'' \<notin> set pre" "CHR ''}'' \<notin> set raw"
  shows "resolve_template (pre @ open_braces @ raw @ close_braces @ post) es ctx =
    pre @ (case placeholder_value es ctx raw of Some v \<Rightarrow> v | None \<Rightarrow> open_braces @ raw @ close_braces) @
    resolve_template post es ctx"
proof -
  let ?s = "pre @ open_braces @ raw @ close_braces @ post"
  have o: "str_find open_braces ?s = Some (length pre)"
    using str_find_double [OF assms(1), of "raw @ close_braces @ post"] by simp
  have c: "str_find close_braces (drop (length pre) ?s) = Some (length raw + 2)"
    using str_find_double [of "CHR ''}''" "open_braces @ raw" post] assms(2) by simp
  have "length (pre @ open_braces @ raw @ close_braces) = length pre + (length raw + 2) + 2" by simp
  then have "drop (length pre + (length raw + 2) + 2) ?s = post"
    by (metis append.assoc append_eq_conv_conj)
  moreover have "take (length pre) ?s = pre"
    "take (length raw + 2 - 2) (drop (length pre + 2) ?s) = raw"
    "take (length raw + 2 + 2) (drop (length pre) ?s) = open_braces @ raw @ close_braces"
    by simp_all
  ultimately show ?thesis
    unfolding resolve_template_expand
    by (subst expand.simps) (simp only: o c option.case)
qed

theorem resolve_template_placeholder_witness:
  "resolve_template ''a{{ nclav_project_id }}b'' (new_enclave_state
     \<lparr>enc_id = EnclaveId ''e'', enc_name = [], enc_cloud = None, enc_region = [], enc_identity = None,
      enc_network = None, enc_dns = None, enc_imports = [], enc_exports = [], enc_partitions = []\<rparr>)
     [(''nclav_project_id'', ''{{p}}'')] = ''a{{p}}b''"
proof -
  let ?es = "new_enclave_state
     \<lparr>enc_id = EnclaveId ''e'', enc_name = [], enc_cloud = None, enc_region = [], enc_identity = None,
      enc_network = None, enc_dns = None, enc_imports = [], enc_exports = [], enc_partitions = []\<rparr>"
  have "placeholder_value ?es [(''nclav_project_id'', ''{{p}}'')] '' nclav_project_id '' = Some ''{{p}}''"
    by (simp add: placeholder_value_def trim_def is_ws_def splitn2_def split_once_def hm_get_def Let_def)
  moreover have "resolve_template ''b'' es ctx = ''b''" for es ctx
    by (simp add: resolve_template_expand expand.simps starts_with_def)
  ultimately show ?thesis
    using resolve_template_placeholder [of "''a''" "'' nclav_project_id ''" "''b''" ?es
        "[(''nclav_project_id'', ''{{p}}'')]"] by simp
qed

lemma hm_get_resolve_inputs:
  assumes "hm_ok inputs"
  shows "hm_get (resolve_inputs inputs es ctx) k = map_option (\<lambda>v. resolve_template v es ctx) (hm_get inputs k)"
proof -
  have "map fst (map (\<lambda>(k, v). (k, resolve_template v es ctx)) inputs) = map fst inputs" by (induction inputs) auto
  moreover have "map_of (map (\<lambda>(k, v). (k, resolve_template v es ctx)) inputs) k =
      map_option (\<lambda>v. resolve_template v es ctx) (map_of inputs k)" by (induction inputs) auto
  ultimately show ?thesis
    using assms unfolding resolve_inputs_def hm_ok_def
    by (subst hm_get_collect_distinct) (simp_all add: hm_get_def del: map_map)
qed

text \<open>
  The handle that the local driver makes for an import has no \<open>outputs\<close>, so a placeholder
  \<open>{{ alias.key }}\<close> over it has no value: it stays in the input as written, although the
  driver did return the outputs of the export.
\<close>
theorem local_import_never_resolves:
  assumes "local_provision_import importer i h ex w = (Inr r, w')"
    and "hm_get (es_imports es) a = Some (pr_handle r)"
    and "split_once (CHR ''.'') (trim raw) = Some (a, k)"
  shows "placeholder_value es ctx raw = None"
proof -
  have "json_get (pr_handle r) ''outputs'' = None"
    using assms(1) by (auto simp: local_provision_import_def ret_def json_get_object)
  with assms(2,3) show ?thesis by (simp add: placeholder_value_def splitn2_def)
qed

theorem local_import_never_resolves_witness:
  "\<exists>es. hm_get (es_imports es) ''q'' \<noteq> None \<and> placeholder_value es [] '' q.queue_url '' = None"
proof -
  let ?enc = "\<lparr>enc_id = EnclaveId ''e'', enc_name = [], enc_cloud = None, enc_region = [], enc_identity = None,
      enc_network = None, enc_dns = None, enc_imports = [], enc_exports = [], enc_partitions = []\<rparr>"
  obtain r where r: "local_provision_import ?enc
      \<lparr>imp_from = EnclaveId ''a'', imp_export_name = ''api'', imp_alias = ''q''\<rparr> JNull None () = (Inr r, ())"
    by (simp add: local_provision_import_def ret_def)
  let ?es = "(new_enclave_state ?enc)\<lparr>es_imports := [(''q'', pr_handle r)]\<rparr>"
  have "split_once (CHR ''.'') (trim '' q.queue_url '') = Some (''q'', ''queue_url'')"
    by (simp add: trim_def is_ws_def split_once_def)
  then have "placeholder_value ?es [] '' q.queue_url '' = None"
    by (intro local_import_never_resolves [OF r]) (simp_all add: hm_get_def)
  then show ?thesis by (intro exI [of _ ?es]) (simp add: hm_get_def)
qed

end
