(* ===== verification/Store_Interface.thy ===== *)
theory Store_Interface
  imports Store_State Effect_Monad
begin

section \<open>The state store\<close>

text \<open>
  \<open>crates/nclav-store/src/store.rs\<close> and \<open>error.rs\<close>. The trait object \<open>Arc<dyn StateStore>\<close> is the
  record \<open>store_ops\<close> of its operations over the state \<open>'s\<close> of the store. What the callers rely on
  is the locale \<open>state_store\<close>: every operation acts on an abstract view of the store as the trait
  documents, and an operation that fails leaves the view as it was.
\<close>

datatype store_error =
    EnclaveNotFound string
  | Serialization json_error
  | StoreInternal string
  | LockConflict json

definition store_error_str :: "(json_error \<Rightarrow> string) \<Rightarrow> store_error \<Rightarrow> string" where
  "store_error_str show_json e = (case e of
     EnclaveNotFound s \<Rightarrow> ''enclave not found: '' @ s
   | Serialization j \<Rightarrow> ''serialization error: '' @ show_json j
   | StoreInternal s \<Rightarrow> ''internal store error: '' @ s
   | LockConflict _ \<Rightarrow> ''state lock conflict'')"

type_synonym bytes = "8 word list"

record 's store_ops =
  so_get_enclave :: "enclave_id \<Rightarrow> ('s, store_error, enclave_state option) act"
  so_list_enclaves :: "('s, store_error, enclave_state list) act"
  so_upsert_enclave :: "enclave_state \<Rightarrow> ('s, store_error, unit) act"
  so_delete_enclave :: "enclave_id \<Rightarrow> ('s, store_error, unit) act"
  so_upsert_partition :: "enclave_id \<Rightarrow> partition_state \<Rightarrow> ('s, store_error, unit) act"
  so_delete_partition :: "enclave_id \<Rightarrow> partition_id \<Rightarrow> ('s, store_error, unit) act"
  so_append_event :: "audit_event \<Rightarrow> ('s, store_error, unit) act"
  so_list_events :: "enclave_id option \<Rightarrow> 32 word \<Rightarrow> ('s, store_error, audit_event list) act"
  so_get_tf_state :: "string \<Rightarrow> ('s, store_error, bytes option) act"
  so_put_tf_state :: "string \<Rightarrow> bytes \<Rightarrow> ('s, store_error, unit) act"
  so_delete_tf_state :: "string \<Rightarrow> ('s, store_error, unit) act"
  so_lock_tf_state :: "string \<Rightarrow> json \<Rightarrow> ('s, store_error, unit) act"
  so_unlock_tf_state :: "string \<Rightarrow> string \<Rightarrow> ('s, store_error, unit) act"
  so_upsert_iac_run :: "iac_run \<Rightarrow> ('s, store_error, unit) act"
  so_list_iac_runs :: "enclave_id \<Rightarrow> partition_id \<Rightarrow> ('s, store_error, iac_run list) act"
  so_get_iac_run :: "uuid \<Rightarrow> ('s, store_error, iac_run option) act"

subsection \<open>The abstract view\<close>

record store_view =
  sv_enclaves :: "enclave_id \<Rightarrow> enclave_state option"
  sv_events :: "audit_event list"
  sv_tf_state :: "string \<Rightarrow> bytes option"
  sv_tf_locks :: "string \<Rightarrow> json option"
  sv_runs :: "uuid \<Rightarrow> iac_run option"

text \<open>An enclave is stored under its own id.\<close>

definition view_ok :: "store_view \<Rightarrow> bool" where
  "view_ok v \<longleftrightarrow> (\<forall>i st. sv_enclaves v i = Some st \<longrightarrow> es_id st = i)"

text \<open>The most recent \<open>limit\<close> events, of one enclave when one is given, oldest first.\<close>

definition recent_events :: "enclave_id option \<Rightarrow> nat \<Rightarrow> audit_event list \<Rightarrow> audit_event list" where
  "recent_events eid limit evs =
     (let sel = filter (\<lambda>ev. case eid of None \<Rightarrow> True | Some i \<Rightarrow> event_enclave ev = Some i) evs
      in drop (length sel - limit) sel)"

lemma event_filter_eq:
  "(\<lambda>ev. case eid of Some i \<Rightarrow> (case event_enclave ev of None \<Rightarrow> False | Some j \<Rightarrow> j = i) | None \<Rightarrow> True) =
   (\<lambda>ev. case eid of None \<Rightarrow> True | Some i \<Rightarrow> event_enclave ev = Some i)"
  by (rule ext) (auto split: option.splits)

text \<open>The test of \<open>unlock_tf_state\<close>: no id, or the id of the holder.\<close>

definition unlock_matches :: "string \<Rightarrow> json \<Rightarrow> bool" where
  "unlock_matches lock_id holder \<longleftrightarrow>
     lock_id = [] \<or> (case json_as_str (json_index holder ''ID'') of None \<Rightarrow> [] | Some s \<Rightarrow> s) = lock_id"

definition unlocked :: "string \<Rightarrow> string \<Rightarrow> (string \<Rightarrow> json option) \<Rightarrow> (string \<Rightarrow> json option)" where
  "unlocked k lock_id locks = (case locks k of
     None \<Rightarrow> locks
   | Some holder \<Rightarrow> if unlock_matches lock_id holder then locks(k := None) else locks)"

subsection \<open>What a store promises\<close>

locale state_store =
  fixes ops :: "'s store_ops" and abs :: "'s \<Rightarrow> store_view" and inv :: "'s \<Rightarrow> bool"
  assumes inv_ok: "inv s \<Longrightarrow> view_ok (abs s)"
    and get_law: "inv s \<Longrightarrow> wp (so_get_enclave ops i)
          (\<lambda>r s'. inv s' \<and> abs s' = abs s \<and> r = sv_enclaves (abs s) i) (\<lambda>_ s'. inv s' \<and> abs s' = abs s) s"
    and list_law: "inv s \<Longrightarrow> wp (so_list_enclaves ops)
          (\<lambda>r s'. inv s' \<and> abs s' = abs s \<and> distinct (map es_id r) \<and> set r = ran (sv_enclaves (abs s)))
          (\<lambda>_ s'. inv s' \<and> abs s' = abs s) s"
    and upsert_law: "inv s \<Longrightarrow> wp (so_upsert_enclave ops st)
          (\<lambda>_ s'. inv s' \<and> abs s' = (abs s)\<lparr>sv_enclaves := (sv_enclaves (abs s))(es_id st \<mapsto> st)\<rparr>)
          (\<lambda>_ s'. inv s' \<and> abs s' = abs s) s"
    and delete_law: "inv s \<Longrightarrow> wp (so_delete_enclave ops i)
          (\<lambda>_ s'. inv s' \<and> abs s' = (abs s)\<lparr>sv_enclaves := (sv_enclaves (abs s))(i := None)\<rparr>)
          (\<lambda>_ s'. inv s' \<and> abs s' = abs s) s"
    and append_law: "inv s \<Longrightarrow> wp (so_append_event ops ev)
          (\<lambda>_ s'. inv s' \<and> abs s' = (abs s)\<lparr>sv_events := sv_events (abs s) @ [ev]\<rparr>)
          (\<lambda>_ s'. inv s' \<and> abs s' = abs s) s"
    and events_law: "inv s \<Longrightarrow> wp (so_list_events ops eid limit)
          (\<lambda>r s'. inv s' \<and> abs s' = abs s \<and> r = recent_events eid (unat limit) (sv_events (abs s)))
          (\<lambda>_ s'. inv s' \<and> abs s' = abs s) s"
    and run_law: "inv s \<Longrightarrow> wp (so_upsert_iac_run ops r)
          (\<lambda>_ s'. inv s' \<and> abs s' = (abs s)\<lparr>sv_runs := (sv_runs (abs s))(run_id r \<mapsto> r)\<rparr>)
          (\<lambda>_ s'. inv s' \<and> abs s' = abs s) s"

text \<open>
  The part of the interface that Terraform's HTTP backend uses. Deleting the state of a key may
  also release its lock: the stores differ there.
\<close>

locale tf_state_store = state_store +
  assumes tf_get_law: "inv s \<Longrightarrow> wp (so_get_tf_state ops k)
          (\<lambda>r s'. inv s' \<and> abs s' = abs s \<and> r = sv_tf_state (abs s) k) (\<lambda>_ s'. inv s' \<and> abs s' = abs s) s"
    and tf_put_law: "inv s \<Longrightarrow> wp (so_put_tf_state ops k b)
          (\<lambda>_ s'. inv s' \<and> abs s' = (abs s)\<lparr>sv_tf_state := (sv_tf_state (abs s))(k \<mapsto> b)\<rparr>)
          (\<lambda>_ s'. inv s' \<and> abs s' = abs s) s"
    and tf_delete_law: "inv s \<Longrightarrow> wp (so_delete_tf_state ops k)
          (\<lambda>_ s'. inv s' \<and> (\<exists>locks \<in> {sv_tf_locks (abs s), (sv_tf_locks (abs s))(k := None)}.
             abs s' = (abs s)\<lparr>sv_tf_state := (sv_tf_state (abs s))(k := None), sv_tf_locks := locks\<rparr>))
          (\<lambda>_ s'. inv s' \<and> abs s' = abs s) s"
    and tf_lock_law: "inv s \<Longrightarrow> wp (so_lock_tf_state ops k info)
          (\<lambda>_ s'. inv s' \<and> sv_tf_locks (abs s) k = None \<and>
             abs s' = (abs s)\<lparr>sv_tf_locks := (sv_tf_locks (abs s))(k \<mapsto> info)\<rparr>)
          (\<lambda>e s'. inv s' \<and> abs s' = abs s \<and>
             (\<forall>h. e = LockConflict h \<longrightarrow> sv_tf_locks (abs s) k = Some h)) s"
    and tf_unlock_law: "inv s \<Longrightarrow> wp (so_unlock_tf_state ops k lock_id)
          (\<lambda>_ s'. inv s' \<and> abs s' = (abs s)\<lparr>sv_tf_locks := unlocked k lock_id (sv_tf_locks (abs s))\<rparr>)
          (\<lambda>_ s'. inv s' \<and> abs s' = abs s) s"

text \<open>
  The whole interface. Writing a partition needs its enclave; removing one from an enclave that is
  not stored may succeed or fail, but changes nothing. The runs that are listed are stored runs.
\<close>

locale full_store = tf_state_store +
  assumes part_upsert_law: "inv s \<Longrightarrow> wp (so_upsert_partition ops i ps)
          (\<lambda>_ s'. inv s' \<and> (\<exists>st. sv_enclaves (abs s) i = Some st \<and> abs s' = (abs s)\<lparr>sv_enclaves :=
             (sv_enclaves (abs s))(i \<mapsto> st\<lparr>es_partitions := hm_insert (part_id (ps_desired ps)) ps (es_partitions st)\<rparr>)\<rparr>))
          (\<lambda>e s'. inv s' \<and> abs s' = abs s) s"
    and part_delete_law: "inv s \<Longrightarrow> wp (so_delete_partition ops i p)
          (\<lambda>_ s'. inv s' \<and> abs s' = (case sv_enclaves (abs s) i of None \<Rightarrow> abs s | Some st \<Rightarrow>
             (abs s)\<lparr>sv_enclaves := (sv_enclaves (abs s))(i \<mapsto> st\<lparr>es_partitions := hm_remove p (es_partitions st)\<rparr>)\<rparr>))
          (\<lambda>_ s'. inv s' \<and> abs s' = abs s) s"
    and run_get_law: "inv s \<Longrightarrow> wp (so_get_iac_run ops u)
          (\<lambda>r s'. inv s' \<and> abs s' = abs s \<and> r = sv_runs (abs s) u) (\<lambda>_ s'. inv s' \<and> abs s' = abs s) s"
    and run_list_law: "inv s \<Longrightarrow> wp (so_list_iac_runs ops i p)
          (\<lambda>r s'. inv s' \<and> abs s' = abs s \<and> set r \<subseteq> ran (sv_runs (abs s)) \<and> length r \<le> 100)
          (\<lambda>_ s'. inv s' \<and> abs s' = abs s) s"

subsection \<open>Sequences of requests of the Terraform backend\<close>

datatype tf_request =
    TfGet string
  | TfPut string bytes
  | TfDelete string
  | TfLock string json
  | TfUnlock string string

definition tf_request_act :: "'s store_ops \<Rightarrow> tf_request \<Rightarrow> ('s, store_error, unit) act" where
  "tf_request_act ops r = (case r of
     TfGet k \<Rightarrow> seq (so_get_tf_state ops k) (\<lambda>_. ret ())
   | TfPut k b \<Rightarrow> so_put_tf_state ops k b
   | TfDelete k \<Rightarrow> so_delete_tf_state ops k
   | TfLock k info \<Rightarrow> so_lock_tf_state ops k info
   | TfUnlock k i \<Rightarrow> so_unlock_tf_state ops k i)"

text \<open>Requests arrive one after the other; one that fails does not stop the next.\<close>

definition tf_requests :: "'s store_ops \<Rightarrow> tf_request list \<Rightarrow> 's \<Rightarrow> 's" where
  "tf_requests ops rs s = fold (\<lambda>r s. snd (tf_request_act ops r s)) rs s"

text \<open>Whether a request may take the lock of \<open>k\<close> from the holder \<open>info\<close>.\<close>

definition may_release :: "string \<Rightarrow> json \<Rightarrow> tf_request \<Rightarrow> bool" where
  "may_release k info r = (case r of
     TfDelete k' \<Rightarrow> k' = k
   | TfUnlock k' i \<Rightarrow> k' = k \<and> unlock_matches i info
   | _ \<Rightarrow> False)"

context tf_state_store
begin

lemma request_keeps_lock:
  assumes "inv s" "sv_tf_locks (abs s) k = Some info" "\<not> may_release k info r"
  shows "inv (snd (tf_request_act ops r s)) \<and> sv_tf_locks (abs (snd (tf_request_act ops r s))) k = Some info"
proof -
  have "wp (tf_request_act ops r) (\<lambda>_ s'. inv s' \<and> sv_tf_locks (abs s') k = Some info)
      (\<lambda>_ s'. inv s' \<and> sv_tf_locks (abs s') k = Some info) s"
  proof (cases r)
    case (TfGet k')
    then show ?thesis
      using assms by (auto simp: tf_request_act_def wp_simps intro: wp_mono [OF tf_get_law])
  next
    case (TfPut k' b)
    then show ?thesis
      using assms by (auto simp: tf_request_act_def intro: wp_mono [OF tf_put_law])
  next
    case (TfDelete k')
    then show ?thesis
      using assms by (auto simp: tf_request_act_def may_release_def intro!: wp_mono [OF tf_delete_law])
  next
    case (TfLock k' i)
    then show ?thesis
      using assms by (auto simp: tf_request_act_def intro!: wp_mono [OF tf_lock_law])
  next
    case (TfUnlock k' i)
    then show ?thesis
      using assms by (auto simp: tf_request_act_def may_release_def unlocked_def split: option.split
          intro!: wp_mono [OF tf_unlock_law])
  qed
  then show ?thesis by (simp add: wp_def split: prod.splits sum.splits)
qed

lemma requests_keep_lock:
  assumes "inv s" "sv_tf_locks (abs s) k = Some info" "list_all (\<lambda>r. \<not> may_release k info r) rs"
  shows "inv (tf_requests ops rs s) \<and> sv_tf_locks (abs (tf_requests ops rs s)) k = Some info"
  using assms
proof (induction rs arbitrary: s)
  case (Cons r rs)
  then show ?case using request_keeps_lock [of s k info r] by (simp add: tf_requests_def)
qed (simp add: tf_requests_def)

text \<open>Between a successful lock and a request that may release it, no other lock succeeds.\<close>

lemma lock_exclusive:
  assumes "inv s" "so_lock_tf_state ops k info s = (Inr (), s1)"
    and "list_all (\<lambda>r. \<not> may_release k info r) rs"
    and "so_lock_tf_state ops k other (tf_requests ops rs s1) = (res, s2)"
  shows "\<exists>e. res = Inl e \<and> (\<forall>h. e = LockConflict h \<longrightarrow> h = info) \<and> sv_tf_locks (abs s2) k = Some info"
proof -
  have s1: "inv s1" "sv_tf_locks (abs s1) k = Some info"
    using wp_InrD [OF tf_lock_law [OF assms(1)] assms(2)] by auto
  let ?t = "tf_requests ops rs s1"
  have t: "inv ?t" "sv_tf_locks (abs ?t) k = Some info"
    using requests_keep_lock [OF s1 assms(3)] by auto
  show ?thesis
  proof (cases res)
    case (Inl e)
    then show ?thesis
      using wp_InlD [OF tf_lock_law [OF t(1)], of k other e s2] assms(4) t(2) by auto
  next
    case (Inr u)
    then show ?thesis
      using wp_InrD [OF tf_lock_law [OF t(1)], of k other u s2] assms(4) t(2) by auto
  qed
qed

end

end
