(* ===== verification/Memory_Store.thy ===== *)
theory Memory_Store
  imports Store_Interface
begin

section \<open>The in-memory store\<close>

text \<open>
  \<open>crates/nclav-store/src/memory.rs\<close>. The state is the struct \<open>Inner\<close> behind the \<open>RwLock\<close>: every
  operation holds the lock for its whole body, so an operation is one atomic step. \<open>memory_ops\<close> is
  the trait object; it is a \<open>full_store\<close> (interpretation \<open>mem\<close>).
\<close>

record mem_store =
  ms_enclaves :: "(enclave_id, enclave_state) hashmap"
  ms_events :: "audit_event list"
  ms_tf_state :: "(string, bytes) hashmap"
  ms_tf_locks :: "(string, json) hashmap"
  ms_iac_runs :: "(uuid, iac_run) hashmap"

definition mem_new :: mem_store where
  "mem_new = \<lparr>ms_enclaves = [], ms_events = [], ms_tf_state = [], ms_tf_locks = [], ms_iac_runs = []\<rparr>"

definition mem_get_enclave :: "enclave_id \<Rightarrow> (mem_store, store_error, enclave_state option) act" where
  "mem_get_enclave i = (\<lambda>s. (Inr (hm_get (ms_enclaves s) i), s))"

definition mem_list_enclaves :: "(mem_store, store_error, enclave_state list) act" where
  "mem_list_enclaves = (\<lambda>s. (Inr (hm_values (ms_enclaves s)), s))"

definition mem_upsert_enclave :: "enclave_state \<Rightarrow> (mem_store, store_error, unit) act" where
  "mem_upsert_enclave st =
     (\<lambda>s. (Inr (), s\<lparr>ms_enclaves := hm_insert (enc_id (es_desired st)) st (ms_enclaves s)\<rparr>))"

definition mem_delete_enclave :: "enclave_id \<Rightarrow> (mem_store, store_error, unit) act" where
  "mem_delete_enclave i = (\<lambda>s. (Inr (), s\<lparr>ms_enclaves := hm_remove i (ms_enclaves s)\<rparr>))"

definition mem_upsert_partition ::
  "enclave_id \<Rightarrow> partition_state \<Rightarrow> (mem_store, store_error, unit) act" where
  "mem_upsert_partition i ps = (\<lambda>s. case hm_get (ms_enclaves s) i of
     None \<Rightarrow> (Inl (EnclaveNotFound (eid_str i)), s)
   | Some e \<Rightarrow> (Inr (), s\<lparr>ms_enclaves := hm_insert i
       (e\<lparr>es_partitions := hm_insert (part_id (ps_desired ps)) ps (es_partitions e)\<rparr>) (ms_enclaves s)\<rparr>))"

definition mem_delete_partition ::
  "enclave_id \<Rightarrow> partition_id \<Rightarrow> (mem_store, store_error, unit) act" where
  "mem_delete_partition i p = (\<lambda>s. case hm_get (ms_enclaves s) i of
     None \<Rightarrow> (Inr (), s)
   | Some e \<Rightarrow> (Inr (), s\<lparr>ms_enclaves := hm_insert i
       (e\<lparr>es_partitions := hm_remove p (es_partitions e)\<rparr>) (ms_enclaves s)\<rparr>))"

definition mem_append_event :: "audit_event \<Rightarrow> (mem_store, store_error, unit) act" where
  "mem_append_event ev = (\<lambda>s. (Inr (), s\<lparr>ms_events := ms_events s @ [ev]\<rparr>))"

definition mem_list_events ::
  "enclave_id option \<Rightarrow> 32 word \<Rightarrow> (mem_store, store_error, audit_event list) act" where
  "mem_list_events eid limit = (\<lambda>s.
     let filtered = filter (\<lambda>ev. case eid of
           Some i \<Rightarrow> (case event_enclave ev of None \<Rightarrow> False | Some j \<Rightarrow> j = i)
         | None \<Rightarrow> True) (ms_events s);
         start = length filtered - unat limit
     in (Inr (drop start filtered), s))"

definition mem_get_tf_state :: "string \<Rightarrow> (mem_store, store_error, bytes option) act" where
  "mem_get_tf_state k = (\<lambda>s. (Inr (hm_get (ms_tf_state s) k), s))"

definition mem_put_tf_state :: "string \<Rightarrow> bytes \<Rightarrow> (mem_store, store_error, unit) act" where
  "mem_put_tf_state k b = (\<lambda>s. (Inr (), s\<lparr>ms_tf_state := hm_insert k b (ms_tf_state s)\<rparr>))"

definition mem_delete_tf_state :: "string \<Rightarrow> (mem_store, store_error, unit) act" where
  "mem_delete_tf_state k = (\<lambda>s. (Inr (), s
     \<lparr>ms_tf_state := hm_remove k (ms_tf_state s), ms_tf_locks := hm_remove k (ms_tf_locks s)\<rparr>))"

definition mem_lock_tf_state :: "string \<Rightarrow> json \<Rightarrow> (mem_store, store_error, unit) act" where
  "mem_lock_tf_state k info = (\<lambda>s. case hm_get (ms_tf_locks s) k of
     Some existing \<Rightarrow> (Inl (LockConflict existing), s)
   | None \<Rightarrow> (Inr (), s\<lparr>ms_tf_locks := hm_insert k info (ms_tf_locks s)\<rparr>))"

definition mem_unlock_tf_state :: "string \<Rightarrow> string \<Rightarrow> (mem_store, store_error, unit) act" where
  "mem_unlock_tf_state k lock_id = (\<lambda>s. case hm_get (ms_tf_locks s) k of
     None \<Rightarrow> (Inr (), s)
   | Some existing \<Rightarrow>
       if lock_id = [] \<or>
          (case json_as_str (json_index existing ''ID'') of None \<Rightarrow> [] | Some i \<Rightarrow> i) = lock_id
       then (Inr (), s\<lparr>ms_tf_locks := hm_remove k (ms_tf_locks s)\<rparr>)
       else (Inr (), s))"

definition mem_upsert_iac_run :: "iac_run \<Rightarrow> (mem_store, store_error, unit) act" where
  "mem_upsert_iac_run r = (\<lambda>s. (Inr (), s\<lparr>ms_iac_runs := hm_insert (run_id r) r (ms_iac_runs s)\<rparr>))"

text \<open>\<open>sort_by\<close> is stable; comparing \<open>b\<close> with \<open>a\<close> puts the newest first.\<close>

definition mem_list_iac_runs ::
  "enclave_id \<Rightarrow> partition_id \<Rightarrow> (mem_store, store_error, iac_run list) act" where
  "mem_list_iac_runs i p = (\<lambda>s.
     let runs = filter (\<lambda>r. run_enclave_id r = i \<and> run_partition_id r = p) (hm_values (ms_iac_runs s))
     in (Inr (take 100 (sort_key (\<lambda>r. - run_started_at r) runs)), s))"

definition mem_get_iac_run :: "uuid \<Rightarrow> (mem_store, store_error, iac_run option) act" where
  "mem_get_iac_run u = (\<lambda>s. (Inr (hm_get (ms_iac_runs s) u), s))"

definition memory_ops :: "mem_store store_ops" where
  "memory_ops = \<lparr>
     so_get_enclave = mem_get_enclave, so_list_enclaves = mem_list_enclaves,
     so_upsert_enclave = mem_upsert_enclave, so_delete_enclave = mem_delete_enclave,
     so_upsert_partition = mem_upsert_partition, so_delete_partition = mem_delete_partition,
     so_append_event = mem_append_event, so_list_events = mem_list_events,
     so_get_tf_state = mem_get_tf_state, so_put_tf_state = mem_put_tf_state,
     so_delete_tf_state = mem_delete_tf_state, so_lock_tf_state = mem_lock_tf_state,
     so_unlock_tf_state = mem_unlock_tf_state, so_upsert_iac_run = mem_upsert_iac_run,
     so_list_iac_runs = mem_list_iac_runs, so_get_iac_run = mem_get_iac_run\<rparr>"

lemmas mem_op_defs = mem_get_enclave_def mem_list_enclaves_def mem_upsert_enclave_def
  mem_delete_enclave_def mem_upsert_partition_def mem_delete_partition_def mem_append_event_def
  mem_list_events_def mem_get_tf_state_def mem_put_tf_state_def mem_delete_tf_state_def
  mem_lock_tf_state_def mem_unlock_tf_state_def mem_upsert_iac_run_def mem_list_iac_runs_def
  mem_get_iac_run_def

subsection \<open>The store keeps its promises\<close>

definition mem_abs :: "mem_store \<Rightarrow> store_view" where
  "mem_abs s = \<lparr>sv_enclaves = hm_get (ms_enclaves s), sv_events = ms_events s,
     sv_tf_state = hm_get (ms_tf_state s), sv_tf_locks = hm_get (ms_tf_locks s),
     sv_runs = hm_get (ms_iac_runs s)\<rparr>"

definition mem_inv :: "mem_store \<Rightarrow> bool" where
  "mem_inv s \<longleftrightarrow> hm_ok (ms_enclaves s) \<and> hm_ok (ms_tf_state s) \<and> hm_ok (ms_tf_locks s) \<and>
     hm_ok (ms_iac_runs s) \<and> (\<forall>i st. hm_get (ms_enclaves s) i = Some st \<longrightarrow> es_id st = i)"

lemma mem_inv_new: "mem_inv mem_new"
  by (simp add: mem_inv_def mem_new_def)

lemma mem_ids_of_values:
  assumes "mem_inv s"
  shows "map es_id (hm_values (ms_enclaves s)) = hm_keys (ms_enclaves s)"
proof -
  have "es_id (snd kv) = fst kv" if "kv \<in> set (ms_enclaves s)" for kv
    using assms that hm_get_iff_mem [of "ms_enclaves s" "fst kv" "snd kv"] by (simp add: mem_inv_def)
  then show ?thesis by (simp add: hm_values_def hm_keys_def)
qed

lemma mem_ids_kept:
  assumes "mem_inv s" "hm_get (ms_enclaves s) i = Some e" "es_desired e' = es_desired e"
  shows "mem_inv (s\<lparr>ms_enclaves := hm_insert i e' (ms_enclaves s)\<rparr>)"
  using assms by (auto simp: mem_inv_def hm_get_insert)

interpretation mem: full_store memory_ops mem_abs mem_inv
proof unfold_locales
  fix s assume s: "mem_inv s"
  show "wp (so_list_enclaves memory_ops) (\<lambda>r s'. mem_inv s' \<and> mem_abs s' = mem_abs s \<and>
      distinct (map es_id r) \<and> set r = ran (sv_enclaves (mem_abs s))) (\<lambda>_ s'. mem_inv s' \<and> mem_abs s' = mem_abs s) s"
    using s mem_ids_of_values [OF s]
    by (simp add: wp_def memory_ops_def mem_list_enclaves_def mem_abs_def mem_inv_def
        distinct_hm_keys set_hm_values)
next
  fix s i ps assume s: "mem_inv s"
  show "wp (so_upsert_partition memory_ops i ps)
      (\<lambda>_ s'. mem_inv s' \<and> (\<exists>st. sv_enclaves (mem_abs s) i = Some st \<and> mem_abs s' = (mem_abs s)\<lparr>sv_enclaves :=
         (sv_enclaves (mem_abs s))(i \<mapsto> st\<lparr>es_partitions := hm_insert (part_id (ps_desired ps)) ps (es_partitions st)\<rparr>)\<rparr>))
      (\<lambda>_ s'. mem_inv s' \<and> mem_abs s' = mem_abs s) s"
    using mem_ids_kept [OF s] s
    by (auto simp: wp_def memory_ops_def mem_upsert_partition_def mem_abs_def hm_get_insert split: option.split)
next
  fix s i p assume s: "mem_inv s"
  show "wp (so_delete_partition memory_ops i p)
      (\<lambda>_ s'. mem_inv s' \<and> mem_abs s' = (case sv_enclaves (mem_abs s) i of None \<Rightarrow> mem_abs s | Some st \<Rightarrow>
         (mem_abs s)\<lparr>sv_enclaves := (sv_enclaves (mem_abs s))(i \<mapsto> st\<lparr>es_partitions := hm_remove p (es_partitions st)\<rparr>)\<rparr>))
      (\<lambda>_ s'. mem_inv s' \<and> mem_abs s' = mem_abs s) s"
    using mem_ids_kept [OF s] s
    by (auto simp: wp_def memory_ops_def mem_delete_partition_def mem_abs_def hm_get_insert split: option.split)
next
  fix s i p assume s: "mem_inv s"
  then show "wp (so_list_iac_runs memory_ops i p)
      (\<lambda>r s'. mem_inv s' \<and> mem_abs s' = mem_abs s \<and> set r \<subseteq> ran (sv_runs (mem_abs s)) \<and> length r \<le> 100)
      (\<lambda>_ s'. mem_inv s' \<and> mem_abs s' = mem_abs s) s"
    by (auto simp: wp_def memory_ops_def mem_list_iac_runs_def mem_abs_def mem_inv_def Let_def set_hm_values [symmetric]
        dest: in_set_takeD)
qed (auto simp: wp_def memory_ops_def mem_op_defs mem_abs_def mem_inv_def view_ok_def hm_get_insert
  hm_get_remove recent_events_def event_filter_eq unlocked_def unlock_matches_def Let_def
  split: option.splits)

text \<open>
  Mutual exclusion of Terraform runs: once a lock request for a key succeeded, then after
  any sequence of other requests, none of which deletes the key's state or unlocks it with no id
  or with the holder's id, a further lock request for the key fails, with the first lock info as
  the conflict that it reports, and the first holder keeps the lock.
\<close>
theorem memory_lock_exclusive:
  assumes "mem_inv s" "mem_lock_tf_state k info s = (Inr (), s1)"
    and "list_all (\<lambda>r. \<not> may_release k info r) rs"
  shows "mem_lock_tf_state k other (tf_requests memory_ops rs s1) =
           (Inl (LockConflict info), tf_requests memory_ops rs s1)"
proof -
  have lock: "so_lock_tf_state memory_ops = mem_lock_tf_state" by (simp add: memory_ops_def)
  have "\<exists>e. fst (mem_lock_tf_state k other (tf_requests memory_ops rs s1)) = Inl e \<and>
      (\<forall>h. e = LockConflict h \<longrightarrow> h = info)"
    using mem.lock_exclusive [OF assms(1) _ assms(3), of s1 other "fst (mem_lock_tf_state k other (tf_requests memory_ops rs s1))"
        "snd (mem_lock_tf_state k other (tf_requests memory_ops rs s1))"] assms(2)
    by (auto simp: lock)
  then show ?thesis
    by (auto simp: mem_lock_tf_state_def split: option.splits)
qed

definition lock_info :: "string \<Rightarrow> json" where
  "lock_info i = json_object [(''ID'', JString i), (''Operation'', JString ''apply'')]"

theorem memory_lock_exclusive_witness:
  "\<exists>s. mem_lock_tf_state ''e/p'' (lock_info ''2'')
         (tf_requests memory_ops [TfPut ''e/p'' [1], TfUnlock ''e/p'' ''3'', TfUnlock ''e/q'' []] s) =
       (Inl (LockConflict (lock_info ''1'')),
        tf_requests memory_ops [TfPut ''e/p'' [1], TfUnlock ''e/p'' ''3'', TfUnlock ''e/q'' []] s)"
proof -
  have "mem_lock_tf_state ''e/p'' (lock_info ''1'') mem_new =
      (Inr (), mem_new\<lparr>ms_tf_locks := [(''e/p'', lock_info ''1'')]\<rparr>)"
    by (simp add: mem_lock_tf_state_def mem_new_def hm_insert_def)
  moreover have "list_all (\<lambda>r. \<not> may_release ''e/p'' (lock_info ''1'') r)
      [TfPut ''e/p'' [1], TfUnlock ''e/p'' ''3'', TfUnlock ''e/q'' []]"
    by (simp add: may_release_def unlock_matches_def lock_info_def json_index_def json_get_object)
  ultimately show ?thesis using memory_lock_exclusive [OF mem_inv_new] by blast
qed

subsection \<open>Queries\<close>

lemma sort_key_take_le:
  assumes "x \<in> set (drop n (sort_key f xs))" "r \<in> set (take n (sort_key f xs))"
  shows "f r \<le> (f x :: 'a :: linorder)"
proof -
  have "sorted (map f (take n (sort_key f xs)) @ map f (drop n (sort_key f xs)))"
    by (metis append_take_drop_id map_append sorted_sort_key)
  with assms show ?thesis by (auto simp: sorted_append)
qed

lemma mem_runs_listed:
  assumes "mem_inv s" "mem_list_iac_runs i p s = (Inr rs, s')"
  shows "s' = s \<and> length rs \<le> 100 \<and> sorted_wrt (\<lambda>a b. run_started_at b \<le> run_started_at a) rs \<and>
    (\<forall>r \<in> set rs. r \<in> ran (hm_get (ms_iac_runs s)) \<and> run_enclave_id r = i \<and> run_partition_id r = p) \<and>
    (\<forall>u x. hm_get (ms_iac_runs s) u = Some x \<longrightarrow> run_enclave_id x = i \<longrightarrow> run_partition_id x = p \<longrightarrow>
       x \<in> set rs \<or> length rs = 100 \<and> (\<forall>r \<in> set rs. run_started_at x \<le> run_started_at r))"
proof -
  let ?all = "filter (\<lambda>r. run_enclave_id r = i \<and> run_partition_id r = p) (hm_values (ms_iac_runs s))"
  let ?srt = "sort_key (\<lambda>r. - run_started_at r) ?all"
  have rs: "rs = take 100 ?srt" and s': "s' = s"
    using assms(2) by (auto simp: mem_list_iac_runs_def)
  have "sorted (map (\<lambda>r. - run_started_at r) rs)"
    unfolding rs take_map [symmetric] by (rule sorted_wrt_take) simp
  then have "sorted_wrt (\<lambda>a b. run_started_at b \<le> run_started_at a) rs"
    by (simp add: sorted_map)
  moreover have "x \<in> set rs \<or> length rs = 100 \<and> (\<forall>r \<in> set rs. run_started_at x \<le> run_started_at r)"
    if "hm_get (ms_iac_runs s) u = Some x" "run_enclave_id x = i" "run_partition_id x = p" for u x
  proof (cases "x \<in> set rs")
    case False
    have "x \<in> set ?all"
      using that hm_get_SomeD [OF that(1)] by (force simp: hm_values_def)
    then have "x \<in> set ?srt" by simp
    then have "x \<in> set (take 100 ?srt) \<union> set (drop 100 ?srt)"
      by (metis append_take_drop_id set_append)
    with False rs have x: "x \<in> set (drop 100 ?srt)" by auto
    then have "length rs = 100" unfolding rs by (auto dest!: length_pos_if_in_set)
    with x show ?thesis
      unfolding rs using sort_key_take_le [of x 100 "\<lambda>r. - run_started_at r" ?all] by auto
  qed simp
  moreover have "r \<in> ran (hm_get (ms_iac_runs s)) \<and> run_enclave_id r = i \<and> run_partition_id r = p"
    if "r \<in> set rs" for r
    using that assms(1) set_hm_values [of "ms_iac_runs s"] unfolding rs mem_inv_def by (auto dest!: in_set_takeD)
  moreover have "length rs \<le> 100" by (simp add: rs)
  ultimately show ?thesis using s' by blast
qed

text \<open>
  The IaC log of a partition: the runs listed belong to the partition and are stored, they come
  newest first, there are at most 100 of them, and a stored run of the partition that is not
  listed is no newer than any listed one, and is left out only when 100 are listed.
\<close>
theorem memory_list_iac_runs:
  assumes "mem_inv s" "mem_list_iac_runs i p s = (Inr rs, s')"
  shows "s' = s \<and> length rs \<le> 100 \<and> sorted_wrt (\<lambda>a b. run_started_at b \<le> run_started_at a) rs \<and>
    (\<forall>r \<in> set rs. r \<in> ran (hm_get (ms_iac_runs s)) \<and> run_enclave_id r = i \<and> run_partition_id r = p) \<and>
    (\<forall>u x. hm_get (ms_iac_runs s) u = Some x \<longrightarrow> run_enclave_id x = i \<longrightarrow> run_partition_id x = p \<longrightarrow>
       x \<in> set rs \<or> length rs = 100 \<and> (\<forall>r \<in> set rs. run_started_at x \<le> run_started_at r))"
  by (rule mem_runs_listed [OF assms])

definition sample_run :: "uuid \<Rightarrow> datetime \<Rightarrow> iac_run" where
  "sample_run u t = \<lparr>run_id = u, run_enclave_id = EnclaveId ''e'', run_partition_id = PartitionId ''p'',
     run_operation = IacProvision, run_started_at = t, run_finished_at = Some t,
     run_status = IacSucceeded, run_exit_code = Some 0, run_log = [], run_reconcile_run_id = None\<rparr>"

theorem memory_list_iac_runs_witness:
  "sorted_wrt (\<lambda>a b. run_started_at b \<le> run_started_at a) [sample_run 2 9, sample_run 1 5]"
proof -
  let ?s = "mem_new\<lparr>ms_iac_runs := [(1, sample_run 1 5), (2, sample_run 2 9)]\<rparr>"
  have "mem_inv ?s" by (simp add: mem_inv_def mem_new_def hm_ok_def)
  moreover have "mem_list_iac_runs (EnclaveId ''e'') (PartitionId ''p'') ?s =
      (Inr [sample_run 2 9, sample_run 1 5], ?s)"
    by (simp add: mem_list_iac_runs_def mem_new_def hm_values_def sample_run_def)
  ultimately show ?thesis using memory_list_iac_runs by blast
qed

end
