(* ===== verification/Terraform_Files.thy ===== *)
theory Terraform_Files
  imports File_System Driver_Interface
begin

section \<open>The files of a Terraform workspace\<close>

text \<open>
  The file helpers of \<open>crates/nclav-driver/src/terraform.rs\<close>: the text of the generated files, the
  symbolic links to the user's \<open>.tf\<close> files and the removal of what an earlier set-up left behind.
\<close>

text \<open>The em dash and the arrow of the source, as UTF-8 bytes.\<close>

definition em_dash :: string where "em_dash = [CHR 0xE2, CHR 0x80, CHR 0x94]"
definition arrow :: string where "arrow = [CHR 0xE2, CHR 0x86, CHR 0x92]"

definition extract_tf_config :: "partition \<Rightarrow> string \<times> terraform_config" where
  "extract_tf_config p = (case part_backend p of
     Terraform cfg \<Rightarrow> ((case tfc_tool cfg of None \<Rightarrow> ''terraform'' | Some t \<Rightarrow> t), cfg)
   | OpenTofu cfg \<Rightarrow> ((case tfc_tool cfg of None \<Rightarrow> ''tofu'' | Some t \<Rightarrow> t), cfg))"

subsection \<open>Texts\<close>

definition hcl_escape :: "string \<Rightarrow> string" where
  "hcl_escape v = replace_char (CHR 0x22) [bs, CHR 0x22] (replace_char bs [bs, bs] v)"

definition tfvar :: "string \<Rightarrow> string \<Rightarrow> string" where
  "tfvar k v = k @ '' = '' @ dq @ hcl_escape v @ dq @ nl"

definition sorted_entries :: "(string, string) hashmap \<Rightarrow> (string \<times> string) list" where
  "sorted_entries m = map (\<lambda>k. (k, the (hm_get m k))) (sort (hm_keys m))"

definition tfvars_text :: "string \<Rightarrow> string \<Rightarrow> (string, string) hashmap \<Rightarrow> string" where
  "tfvars_text enclave_id partition_id resolved_inputs =
     ''# Generated by nclav '' @ em_dash @ '' do not edit'' @ nl @ nl @
     ''# nclav metadata '' @ em_dash @ '' always injected. Declare these as optional variables'' @ nl @
     ''# and apply via local.nclav_labels on all resources you create.'' @ nl @
     tfvar ''nclav_enclave'' enclave_id @
     tfvar ''nclav_partition'' partition_id @
     (if resolved_inputs = [] then []
      else nl @ ''# Partition inputs (from inputs: in config.yml)'' @ nl @
        concat (map (\<lambda>(k, v). tfvar k v) (sorted_entries resolved_inputs)))"

definition module_text :: "string \<Rightarrow> (string, string) hashmap \<Rightarrow> string" where
  "module_text source resolved_inputs =
     ''# Generated by nclav '' @ em_dash @ '' do not edit'' @ nl @
     ''module '' @ dq @ ''nclav_partition'' @ dq @ '' {'' @ nl @
     ''  source = '' @ str_debug source @ nl @
     (if resolved_inputs = [] then []
      else nl @ concat (map (\<lambda>(k, v). ''  '' @ k @ '' = '' @ dq @ hcl_escape v @ dq @ nl)
        (sorted_entries resolved_inputs))) @
     ''}'' @ nl"

definition outputs_text :: "string list \<Rightarrow> string" where
  "outputs_text declared =
     ''# Generated by nclav '' @ em_dash @ '' do not edit'' @ nl @
     concat (map (\<lambda>k. ''output '' @ str_debug k @ '' { value = module.nclav_partition.'' @ k @ '' }'' @ nl)
       declared)"

definition backend_text :: string where
  "backend_text = ''# Generated by nclav '' @ em_dash @ '' do not edit'' @ nl @
     ''terraform {'' @ nl @ ''  backend '' @ dq @ ''http'' @ dq @ '' {}'' @ nl @ ''}'' @ nl"

subsection \<open>Writing and cleaning up\<close>

type_synonym 'a tf_act = "(file_system, driver_error, 'a) act"

definition io_internal :: "string \<Rightarrow> 'a fs_act \<Rightarrow> 'a tf_act" where
  "io_internal what m = map_err (\<lambda>e. DriverInternal (what @ '': '' @ e)) m"

definition write_tfvars :: "path \<Rightarrow> string \<Rightarrow> string \<Rightarrow> (string, string) hashmap \<Rightarrow> unit tf_act" where
  "write_tfvars workspace enclave_id partition_id resolved_inputs =
     io_internal ''write nclav_context.auto.tfvars''
       (fs_write (path_join workspace ''nclav_context.auto.tfvars'')
          (tfvars_text enclave_id partition_id resolved_inputs))"

definition write_module_tf :: "path \<Rightarrow> string \<Rightarrow> (string, string) hashmap \<Rightarrow> unit tf_act" where
  "write_module_tf workspace source resolved_inputs =
     io_internal ''write nclav_module.tf''
       (fs_write (path_join workspace ''nclav_module.tf'') (module_text source resolved_inputs))"

definition write_outputs_tf :: "path \<Rightarrow> string list \<Rightarrow> unit tf_act" where
  "write_outputs_tf workspace declared =
     io_internal ''write nclav_outputs.tf''
       (fs_write (path_join workspace ''nclav_outputs.tf'') (outputs_text declared))"

definition write_backend_tf :: "path \<Rightarrow> unit tf_act" where
  "write_backend_tf workspace =
     io_internal ''write nclav_backend.tf''
       (fs_write (path_join workspace ''nclav_backend.tf'') backend_text)"

definition check_no_tf_files :: "path \<Rightarrow> unit tf_act" where
  "check_no_tf_files dir =
     seq (attempt (fs_read_dir dir)) (\<lambda>r. case r of
       Inl _ \<Rightarrow> ret ()
     | Inr names \<Rightarrow> (case find (ends_with ''.tf'') names of
         None \<Rightarrow> ret ()
       | Some name \<Rightarrow> throw (TfFilesWithModuleSource dir name)))"

definition cleanup_raw_entry :: "path \<Rightarrow> string \<Rightarrow> unit \<Rightarrow> unit tf_act" where
  "cleanup_raw_entry workspace name _ =
     seq (\<lambda>fs. if ends_with ''.tf'' name \<and> fs_is_symlink fs (path_join workspace name)
              then io_internal ''remove stale symlink'' (fs_remove_file (path_join workspace name)) fs
              else ret () fs)
       (\<lambda>_. if name = ''nclav_context.auto.tfvars''
            then io_internal ''remove stale tfvars'' (fs_remove_file (path_join workspace name))
            else ret ())"

definition cleanup_raw_tf_artifacts :: "path \<Rightarrow> unit tf_act" where
  "cleanup_raw_tf_artifacts workspace =
     seq (attempt (fs_read_dir workspace)) (\<lambda>r. case r of
       Inl _ \<Rightarrow> ret ()
     | Inr names \<Rightarrow> foldM (cleanup_raw_entry workspace) names ())"

definition cleanup_module_artifacts :: "path \<Rightarrow> unit tf_act" where
  "cleanup_module_artifacts workspace =
     foldM (\<lambda>name _ fs.
         if fs_exists fs (path_join workspace name)
         then io_internal (''remove stale '' @ name) (fs_remove_file (path_join workspace name)) fs
         else ret () fs)
       [''nclav_module.tf'', ''nclav_outputs.tf''] ()"

definition symlink_entry :: "path \<Rightarrow> path \<Rightarrow> string \<Rightarrow> unit \<Rightarrow> unit tf_act" where
  "symlink_entry workspace source_dir name _ =
     (if \<not> ends_with ''.tf'' name then ret ()
      else
        let link = path_join workspace name; entry = path_join source_dir name in
        seq (map_err (\<lambda>e. DriverInternal (''canonicalize '' @ str_debug entry @ '': '' @ e))
              (fs_canonicalize entry)) (\<lambda>target.
        seq (\<lambda>fs. if fs_exists fs link \<or> fs_lookup fs link \<noteq> None
                 then io_internal ''remove stale symlink'' (fs_remove_file link) fs
                 else ret () fs) (\<lambda>_.
        map_err (\<lambda>e. DriverInternal (''symlink '' @ str_debug link @ '' '' @ arrow @ '' '' @ str_debug target @ '': '' @ e))
          (fs_symlink target link))))"

definition symlink_tf_files :: "path \<Rightarrow> path \<Rightarrow> unit tf_act" where
  "symlink_tf_files workspace source_dir =
     seq (map_err (\<lambda>e. DriverInternal (''read source dir '' @ str_debug source_dir @ '': '' @ e))
           (fs_read_dir source_dir))
       (\<lambda>names. foldM (symlink_entry workspace source_dir) names ())"

text \<open>\<open>workspace_dir\<close>; \<open>home\<close> is the environment variable \<open>HOME\<close>.\<close>

definition workspace_dir :: "path option \<Rightarrow> string option \<Rightarrow> string \<Rightarrow> string \<Rightarrow> path" where
  "workspace_dir workspace_root home enclave_id partition_id =
     (let base = (case workspace_root of
        Some r \<Rightarrow> r
      | None \<Rightarrow> path_join (case home of None \<Rightarrow> ''.'' | Some h \<Rightarrow> h) ''.nclav'')
      in path_join (path_join (path_join base ''workspaces'') enclave_id) partition_id)"

subsection \<open>Quoting\<close>

text \<open>A reader of a quoted literal: the text up to the first quote that no backslash precedes.\<close>

fun scan_quoted :: "string \<Rightarrow> (string \<times> string) option" where
  "scan_quoted [] = None"
| "scan_quoted (c # cs) =
     (if c = CHR 0x22 then Some ([], cs)
      else if c = bs then (case cs of
          [] \<Rightarrow> None
        | d # ds \<Rightarrow> map_option (map_prod (Cons d) id) (scan_quoted ds))
      else map_option (map_prod (Cons c) id) (scan_quoted cs))"

lemma hcl_escape_simps [simp]:
  "hcl_escape [] = []"
  "hcl_escape (c # v) = (if c = bs then [bs, bs] else if c = CHR 0x22 then [bs, CHR 0x22] else [c]) @ hcl_escape v"
  by (simp_all add: hcl_escape_def replace_char_def)


text \<open>
  The generated variable file does not depend on the order of the hash map: for two maps with
  the same entries the text is the same.
\<close>
theorem tfvars_text_deterministic:
  assumes "hm_ok m" "hm_ok m'" "hm_get m = hm_get m'"
  shows "tfvars_text e p m = tfvars_text e p m' \<and> module_text src m = module_text src m'"
proof -
  have "set (hm_keys m) = set (hm_keys m')" using assms(3) by (simp add: set_hm_keys)
  then have "sort (hm_keys m) = sort (hm_keys m')"
    using assms(1,2) by (simp add: distinct_hm_keys sorted_distinct_set_unique)
  moreover have "m = [] \<longleftrightarrow> m' = []"
    using \<open>set (hm_keys m) = set (hm_keys m')\<close> by (auto simp: hm_keys_def)
  ultimately show ?thesis
    using assms(3) by (simp add: tfvars_text_def module_text_def sorted_entries_def)
qed

theorem tfvars_text_deterministic_witness:
  "tfvars_text ''e'' ''p'' [(''a'', ''1''), (''b'', ''2'')] = tfvars_text ''e'' ''p'' [(''b'', ''2''), (''a'', ''1'')]"
  using tfvars_text_deterministic [of "[(''a'', ''1''), (''b'', ''2'')]" "[(''b'', ''2''), (''a'', ''1'')]"]
  by (simp add: hm_ok_def hm_get_conv fun_upd_twist)

text \<open>
  A file of the user is overwritten through its link: in the raw set-up the links are made
  before \<open>nclav_backend.tf\<close> is written, so when the partition directory holds a file of this
  name, the generated text goes into the user's file.
\<close>
theorem backend_overwrites_source:
  assumes "fs_lookup fs ''/src'' = Some FsDir" "fs_lookup fs ''/src/nclav_backend.tf'' = Some (FsFile user)"
    and "dir_entries fs ''/src'' = [''nclav_backend.tf'']"
    and "fs_lookup fs ''/ws/nclav_backend.tf'' = None" "\<And>p. fs_refused fs p = None"
  shows "\<exists>fs'. seq (symlink_tf_files ''/ws'' ''/src'') (\<lambda>_. write_backend_tf ''/ws'') fs = (Inr (), fs') \<and>
    fs_lookup fs' ''/src/nclav_backend.tf'' = Some (FsFile backend_text)"
proof -
  have join: "path_join ''/ws'' ''nclav_backend.tf'' = ''/ws/nclav_backend.tf''"
    "path_join ''/src'' ''nclav_backend.tf'' = ''/src/nclav_backend.tf''"
    by (simp_all add: path_join_def starts_with_def ends_with_def)
  let ?fs1 = "fs\<lparr>fs_nodes := hm_insert ''/ws/nclav_backend.tf'' (FsLink ''/src/nclav_backend.tf'') (fs_nodes fs)\<rparr>"
  let ?fs2 = "?fs1\<lparr>fs_nodes := hm_insert ''/src/nclav_backend.tf'' (FsFile backend_text) (fs_nodes ?fs1)\<rparr>"
  have "symlink_tf_files ''/ws'' ''/src'' fs = (Inr (), ?fs1)"
    using assms
    by (simp add: symlink_tf_files_def fs_read_dir_def guarded_def canonical_dir seq_def map_err_def
        symlink_entry_def join ends_with_def fs_canonicalize_def canonical_file Let_def fs_exists_def
        canonical_missing ret_def fs_symlink_def)
  moreover have "write_backend_tf ''/ws'' ?fs1 = (Inr (), ?fs2)"
  proof -
    have l: "fs_lookup ?fs1 ''/ws/nclav_backend.tf'' = Some (FsLink ''/src/nclav_backend.tf'')"
      "fs_lookup ?fs1 ''/src/nclav_backend.tf'' = Some (FsFile user)"
      using assms(2) by (simp_all add: fs_lookup_insert)
    then have "canonical ?fs1 ''/ws/nclav_backend.tf'' = Some ''/src/nclav_backend.tf''"
      by (rule canonical_link_file)
    with l assms(5) show ?thesis
      by (simp add: write_backend_tf_def io_internal_def map_err_def join fs_write_def guarded_def)
  qed
  moreover have "fs_lookup ?fs2 ''/src/nclav_backend.tf'' = Some (FsFile backend_text)"
    by (simp add: fs_lookup_def hm_get_insert)
  ultimately show ?thesis by (simp add: seq_def)
qed

theorem backend_overwrites_source_witness:
  "\<exists>fs'. fs_lookup fs' ''/src/nclav_backend.tf'' = Some (FsFile backend_text)"
proof -
  let ?fs = "\<lparr>fs_nodes = [(''/src'', FsDir), (''/ws'', FsDir), (''/src/nclav_backend.tf'', FsFile ''mine'')],
    fs_refused = (\<lambda>_. None)\<rparr>"
  have "dir_entries ?fs ''/src'' = [''nclav_backend.tf'']"
    by (simp add: dir_entries_def hm_keys_def map_filter_simps child_name_def strip_prefix_def starts_with_def)
  then show ?thesis
    using backend_overwrites_source [of ?fs "''mine''"] by (auto simp: fs_lookup_def hm_get_def)
qed

subsection \<open>Switching a workspace between the two set-ups\<close>

text \<open>What a link or a variable file of the raw set-up is.\<close>

definition raw_artifact :: "file_system \<Rightarrow> path \<Rightarrow> string \<Rightarrow> bool" where
  "raw_artifact fs workspace name \<longleftrightarrow>
     ends_with ''.tf'' name \<and> fs_is_symlink fs (path_join workspace name) \<or>
     name = ''nclav_context.auto.tfvars'' \<and> fs_lookup fs (path_join workspace name) \<noteq> None"

definition only_removed :: "file_system \<Rightarrow> file_system \<Rightarrow> bool" where
  "only_removed fs fs' \<longleftrightarrow> (\<forall>p. fs_lookup fs' p = fs_lookup fs p \<or> fs_lookup fs' p = None)"

lemma wp_remove_file:
  "wp (fs_remove_file p) (\<lambda>_ fs'. fs_lookup fs' p = None \<and> only_removed fs fs') (\<lambda>_ _. True) fs"
  by (auto simp: wp_def fs_remove_file_def guarded_def only_removed_def fs_lookup_remove
      split: option.split fs_node.split)

lemma raw_artifact_removed: "only_removed fs fs' \<Longrightarrow> raw_artifact fs' ws n \<Longrightarrow> raw_artifact fs ws n"
  by (auto simp: raw_artifact_def only_removed_def fs_is_symlink_iff) (metis option.distinct(1))+

lemma only_removed_trans: "only_removed a b \<Longrightarrow> only_removed b c \<Longrightarrow> only_removed a c"
  unfolding only_removed_def by metis

lemma wp_cleanup_raw_entry:
  "wp (cleanup_raw_entry ws name u) (\<lambda>_ fs'. only_removed fs fs' \<and> \<not> raw_artifact fs' ws name) (\<lambda>_ _. True) fs"
proof -
  let ?p = "path_join ws name"
  have second: "wp (if name = ''nclav_context.auto.tfvars''
        then io_internal ''remove stale tfvars'' (fs_remove_file ?p) else ret ())
      (\<lambda>_ fs'. only_removed fs fs' \<and> \<not> raw_artifact fs' ws name) (\<lambda>_ _. True) fs1"
    if fs1: "only_removed fs fs1" "\<not> (ends_with ''.tf'' name \<and> fs_is_symlink fs1 ?p)" for fs1
  proof (cases "name = ''nclav_context.auto.tfvars''")
    case True
    have "\<not> ends_with ''.tf'' name" unfolding True by (simp add: ends_with_def)
    with True show ?thesis
      using fs1 by (auto simp: io_internal_def wp_simps raw_artifact_def
          intro!: wp_mono [OF wp_remove_file] elim: only_removed_trans)
  qed (use fs1 in \<open>simp add: wp_simps raw_artifact_def\<close>)
  have first: "wp (\<lambda>fs. if ends_with ''.tf'' name \<and> fs_is_symlink fs ?p
        then io_internal ''remove stale symlink'' (fs_remove_file ?p) fs else ret () fs)
      (\<lambda>_ fs1. only_removed fs fs1 \<and> \<not> (ends_with ''.tf'' name \<and> fs_is_symlink fs1 ?p)) (\<lambda>_ _. True) fs"
    by (auto simp: wp_simps io_internal_def fs_is_symlink_iff only_removed_def [of fs fs]
        intro!: wp_mono [OF wp_remove_file])
  show ?thesis
    unfolding cleanup_raw_entry_def wp_seq by (rule wp_mono [OF first]) (use second in auto)
qed

text \<open>
  Switching to the module set-up leaves nothing of the raw one: when the clean-up succeeds on
  a readable workspace, no link to a \<open>.tf\<close> file and no variable file is left in it, and the
  clean-up has changed nothing but by removing files.
\<close>
theorem cleanup_raw_complete:
  assumes "fs_lookup fs ws = Some FsDir" "fs_refused fs ws = None" "ws \<noteq> []" "\<not> ends_with ''/'' ws"
    and "cleanup_raw_tf_artifacts ws fs = (Inr (), fs')" "name \<noteq> []" "CHR ''/'' \<notin> set name"
  shows "\<not> raw_artifact fs' ws name \<and> only_removed fs fs'"
proof -
  let ?names = "dir_entries fs ws"
  have run: "foldM (cleanup_raw_entry ws) ?names () fs = (Inr (), fs')"
    using assms(1,2,5)
    by (simp add: cleanup_raw_tf_artifacts_def seq_def attempt_def fs_read_dir_def guarded_def canonical_dir)
  have "wp (foldM (cleanup_raw_entry ws) ?names ())
      (\<lambda>_ g. only_removed fs g \<and> (\<forall>n \<in> set ?names. \<not> raw_artifact g ws n)) (\<lambda>_ _. True) fs"
  proof (rule wp_foldM_prefix [where I = "\<lambda>us _ g. only_removed fs g \<and> (\<forall>n \<in> set us. \<not> raw_artifact g ws n)"])
    show "only_removed fs fs \<and> (\<forall>n \<in> set []. \<not> raw_artifact fs ws n)" by (simp add: only_removed_def)
    fix us x vs u g assume "only_removed fs g \<and> (\<forall>n \<in> set us. \<not> raw_artifact g ws n)"
    then show "wp (cleanup_raw_entry ws x u)
        (\<lambda>_ g'. only_removed fs g' \<and> (\<forall>n \<in> set (us @ [x]). \<not> raw_artifact g' ws n)) (\<lambda>_ _. True) g"
      by (auto intro!: wp_mono [OF wp_cleanup_raw_entry] elim: only_removed_trans dest: raw_artifact_removed)
  qed
  from wp_InrD [OF this run] have removed: "only_removed fs fs'"
    and clean: "\<forall>n \<in> set ?names. \<not> raw_artifact fs' ws n" by auto
  have "\<not> raw_artifact fs' ws name"
  proof (cases "name \<in> set ?names")
    case False
    then have "fs_lookup fs (path_join ws name) = None"
      using assms(3,4,6,7) by (simp add: dir_entries_iff)
    then have "fs_lookup fs' (path_join ws name) = None" using removed by (metis only_removed_def)
    then show ?thesis by (simp add: raw_artifact_def fs_is_symlink_iff)
  qed (use clean in blast)
  with removed show ?thesis by blast
qed

theorem cleanup_raw_complete_witness:
  "\<exists>fs'. \<not> raw_artifact fs' ''/ws'' ''main.tf''"
proof -
  let ?fs = "\<lparr>fs_nodes = [(''/ws'', FsDir), (''/ws/main.tf'', FsLink ''/src/main.tf'')], fs_refused = (\<lambda>_. None)\<rparr>"
  have "cleanup_raw_tf_artifacts ''/ws'' ?fs =
      (Inr (), \<lparr>fs_nodes = [(''/ws'', FsDir)], fs_refused = (\<lambda>_. None)\<rparr>)"
    by (simp add: cleanup_raw_tf_artifacts_def seq_def attempt_def fs_read_dir_def guarded_def
        canonical_dir fs_lookup_def hm_get_def dir_entries_def hm_keys_def map_filter_simps child_name_def
        strip_prefix_def starts_with_def cleanup_raw_entry_def ends_with_def fs_is_symlink_def
        path_join_def io_internal_def map_err_def fs_remove_file_def ret_def hm_remove_def)
  then have "\<not> raw_artifact \<lparr>fs_nodes = [(''/ws'', FsDir)], fs_refused = (\<lambda>_. None)\<rparr> ''/ws'' ''main.tf''"
    using cleanup_raw_complete [of ?fs "''/ws''" _ "''main.tf''"]
    by (auto simp: fs_lookup_def hm_get_def ends_with_def)
  then show ?thesis by blast
qed

end
