(* ===== verification/System_World.thy ===== *)
theory System_World
  imports Graph_Validate Memory_Store Terraform_Files
begin

section \<open>The world in which the program runs\<close>

text \<open>
  The state that the asynchronous functions share: the store, the file system, everything else
  outside (clouds and processes, \<open>'x\<close>), and a tick that counts the readings of the clock and the
  random identifiers drawn. \<open>system\<close> collects what the program is given: the store and the registry
  of drivers, and the third-party code it calls, as functions: the clock, the UUID generator, the
  digest of a JSON value, the graph algorithms, the parsers, and the processes it starts. A driver
  acts on the outside world, a process on it and on the files.
\<close>

record ('s, 'x) world =
  w_store :: 's
  w_fs :: file_system
  w_ext :: 'x
  w_tick :: nat

record proc_cmd =
  cmd_binary :: string
  cmd_args :: "string list"
  cmd_dir :: path
  cmd_env :: "(string, string) hashmap"

text \<open>
  How a process that is started ends: it cannot be spawned, its output does not end within the
  time limit, waiting for it fails, or it ends with an exit code (none after a signal). The lines
  are those of its two output streams, in the order in which they arrive.
\<close>

datatype proc_outcome =
    SpawnFailed string
  | TimedOut "string list"
  | WaitFailed string
  | Exited "32 word option" "string list"

record ('s, 'x) system =
  sys_store :: "'s store_ops"
  sys_registry :: "'x driver_registry"
  sys_now :: "nat \<Rightarrow> datetime"
  sys_uuid :: "nat \<Rightarrow> uuid"
  sys_digest :: "json \<Rightarrow> string"
  sys_petgraph :: petgraph
  sys_parse_json :: "string \<Rightarrow> (string, json) result"
  sys_home :: "string option"
  sys_proc :: "proc_cmd \<Rightarrow> file_system \<times> 'x \<Rightarrow> proc_outcome \<times> file_system \<times> 'x"

subsection \<open>Lifting the parts\<close>

definition store_do :: "('s, store_error, 'a) act \<Rightarrow> (('s, 'x) world, store_error, 'a) act" where
  "store_do m = (\<lambda>w. case m (w_store w) of (r, s) \<Rightarrow> (r, w\<lparr>w_store := s\<rparr>))"

definition fs_do :: "(file_system, 'e, 'a) act \<Rightarrow> (('s, 'x) world, 'e, 'a) act" where
  "fs_do m = (\<lambda>w. case m (w_fs w) of (r, fs) \<Rightarrow> (r, w\<lparr>w_fs := fs\<rparr>))"

definition ext_do :: "('x, 'e, 'a) act \<Rightarrow> (('s, 'x) world, 'e, 'a) act" where
  "ext_do m = (\<lambda>w. case m (w_ext w) of (r, x) \<Rightarrow> (r, w\<lparr>w_ext := x\<rparr>))"

text \<open>\<open>Utc::now()\<close> and \<open>Uuid::new_v4()\<close>.\<close>

definition utc_now :: "('s, 'x) system \<Rightarrow> (('s, 'x) world, 'e, datetime) act" where
  "utc_now sys = (\<lambda>w. (Inr (sys_now sys (w_tick w)), w\<lparr>w_tick := Suc (w_tick w)\<rparr>))"

definition new_v4 :: "('s, 'x) system \<Rightarrow> (('s, 'x) world, 'e, uuid) act" where
  "new_v4 sys = (\<lambda>w. (Inr (sys_uuid sys (w_tick w)), w\<lparr>w_tick := Suc (w_tick w)\<rparr>))"

definition start_process ::
  "('s, 'x) system \<Rightarrow> proc_cmd \<Rightarrow> (('s, 'x) world, 'e, proc_outcome) act" where
  "start_process sys cmd = (\<lambda>w. case sys_proc sys cmd (w_fs w, w_ext w) of
     (out, fs, x) \<Rightarrow> (Inr out, w\<lparr>w_fs := fs, w_ext := x\<rparr>))"

lemma wp_store_do [wp_simps]:
  "wp (store_do m) Q E w = wp m (\<lambda>a s. Q a (w\<lparr>w_store := s\<rparr>)) (\<lambda>e s. E e (w\<lparr>w_store := s\<rparr>)) (w_store w)"
  by (simp add: wp_def store_do_def split: prod.split sum.split)

lemma wp_fs_do [wp_simps]:
  "wp (fs_do m) Q E w = wp m (\<lambda>a s. Q a (w\<lparr>w_fs := s\<rparr>)) (\<lambda>e s. E e (w\<lparr>w_fs := s\<rparr>)) (w_fs w)"
  by (simp add: wp_def fs_do_def split: prod.split sum.split)

lemma wp_ext_do [wp_simps]:
  "wp (ext_do m) Q E w = wp m (\<lambda>a s. Q a (w\<lparr>w_ext := s\<rparr>)) (\<lambda>e s. E e (w\<lparr>w_ext := s\<rparr>)) (w_ext w)"
  by (simp add: wp_def ext_do_def split: prod.split sum.split)

lemma wp_utc_now [wp_simps]:
  "wp (utc_now sys) Q E w = Q (sys_now sys (w_tick w)) (w\<lparr>w_tick := Suc (w_tick w)\<rparr>)"
  by (simp add: wp_def utc_now_def)

lemma wp_new_v4 [wp_simps]:
  "wp (new_v4 sys) Q E w = Q (sys_uuid sys (w_tick w)) (w\<lparr>w_tick := Suc (w_tick w)\<rparr>)"
  by (simp add: wp_def new_v4_def)

text \<open>A predicate on the store is preserved by everything that does not touch the store.\<close>

abbreviation on_store :: "('s \<Rightarrow> bool) \<Rightarrow> ('s, 'x) world \<Rightarrow> bool" where
  "on_store P \<equiv> (\<lambda>w. P (w_store w))"

lemma preserves_on_store [preserves_intros]:
  "preserves (on_store P) (fs_do f)" "preserves (on_store P) (ext_do x)"
  "preserves (on_store P) (utc_now sys)" "preserves (on_store P) (new_v4 sys)"
  "preserves (on_store P) (start_process sys cmd)"
  by (simp_all add: preserves_def fs_do_def ext_do_def utc_now_def new_v4_def start_process_def
      split: prod.split)

lemma preserves_store_do: "preserves P m \<Longrightarrow> preserves (on_store P) (store_do m)"
  by (simp add: preserves_def store_do_def split: prod.split) (metis snd_conv)

lemma raises_clock [raises_intros]: "raises E (utc_now sys)" "raises E (new_v4 sys)"
  by (simp_all add: raises_def wp_simps)

end
