(* ===== verification/Terraform_Backend.thy ===== *)
theory Terraform_Backend
  imports System_World Local_Driver
begin

section \<open>The Terraform backend\<close>

text \<open>
  \<open>TerraformBackend\<close> of \<open>crates/nclav-driver/src/terraform.rs\<close>: \<open>provision\<close>, \<open>teardown\<close>, \<open>observe\<close>,
  the run of a sub-command, the reading of outputs and the log of IaC runs. A sub-command is started
  by \<open>start_process\<close>; the concurrent reading of its two output streams is in the lines of the outcome.
  The store of the backend is the store of the system.
\<close>

record tf_backend =
  tfb_api_base :: string
  tfb_auth_token :: string
  tfb_test_mode :: bool
  tfb_workspace_root :: "path option"

definition tf_workspace :: "('s, 'x) system \<Rightarrow> tf_backend \<Rightarrow> enclave \<Rightarrow> partition \<Rightarrow> path" where
  "tf_workspace sys b enc p =
     workspace_dir (tfb_workspace_root b) (sys_home sys) (eid_str (enc_id enc)) (pid_str (part_id p))"

definition run_tf ::
  "('s, 'x) system \<Rightarrow> tf_backend \<Rightarrow> string \<Rightarrow> path \<Rightarrow> string list \<Rightarrow> (string, string) hashmap \<Rightarrow>
     (('s, 'x) world, driver_error, 32 word \<times> string) act" where
  "run_tf sys b binary workspace args auth_env =
     seq (start_process sys \<lparr>cmd_binary = binary, cmd_args = args, cmd_dir = workspace,
            cmd_env = hm_collect ([(''TF_HTTP_PASSWORD'', tfb_auth_token b), (''TF_IN_AUTOMATION'', ''1''),
              (''TF_INPUT'', ''0'')] @ auth_env)\<rparr>) (\<lambda>out.
     case out of
       SpawnFailed e \<Rightarrow> throw (DriverInternal (''spawn '' @ binary @ '': '' @ e))
     | TimedOut _ \<Rightarrow> throw (ProvisionFailed (binary @ '' '' @ (case args of [] \<Rightarrow> [] | a # _ \<Rightarrow> a) @
         '' timed out after '' @ nat_str (1800 div 60) @ '' minutes''))
     | WaitFailed e \<Rightarrow> throw (DriverInternal (''wait '' @ binary @ '': '' @ e))
     | Exited code ls \<Rightarrow>
         ret ((case code of None \<Rightarrow> -1 | Some c \<Rightarrow> c), concat (map (\<lambda>l. l @ nl) ls)))"

definition pick_output :: "json \<Rightarrow> string \<Rightarrow> (string, string) hashmap \<Rightarrow>
    (driver_error, (string, string) hashmap) result" where
  "pick_output m key outputs =
     (case Option.bind (Option.bind (json_get m key) (\<lambda>v. json_get v ''value'')) json_as_str of
        Some v \<Rightarrow> Inr (hm_insert key v outputs)
      | None \<Rightarrow> Inl (ProvisionFailed
          (''declared output '' @ [CHR 0x27] @ key @ [CHR 0x27] @ '' missing from terraform output'')))"

definition read_outputs ::
  "('s, 'x) system \<Rightarrow> tf_backend \<Rightarrow> string \<Rightarrow> path \<Rightarrow> string list \<Rightarrow> (string, string) hashmap \<Rightarrow>
     (('s, 'x) world, driver_error, (string, string) hashmap) act" where
  "read_outputs sys b binary workspace declared auth_env =
     seq (run_tf sys b binary workspace [''output'', ''-json'', ''-no-color''] auth_env) (\<lambda>(exit_code, out).
     if exit_code \<noteq> 0
     then throw (ProvisionFailed (''terraform output exited with code '' @ i32_str exit_code))
     else (case sys_parse_json sys (trim out) of
         Inl e \<Rightarrow> throw (ProvisionFailed (''parse terraform output: '' @ e))
       | Inr m \<Rightarrow> foldM (\<lambda>key outputs. lift_result (pick_output m key outputs)) declared []))"

definition write_run ::
  "('s, 'x) system \<Rightarrow> enclave \<Rightarrow> partition \<Rightarrow> iac_operation \<Rightarrow> uuid option \<Rightarrow> string \<Rightarrow> 32 word option \<Rightarrow>
     (('s, 'x) world, 'e, unit) act" where
  "write_run sys enc p op rid log exit_code =
     seq (new_v4 sys) (\<lambda>u.
     seq (utc_now sys) (\<lambda>started.
     seq (utc_now sys) (\<lambda>finished.
     seq (attempt (store_do (so_upsert_iac_run (sys_store sys)
        \<lparr>run_id = u, run_enclave_id = enc_id enc, run_partition_id = part_id p, run_operation = op,
         run_started_at = started, run_finished_at = Some finished,
         run_status = (if exit_code = Some 0 then IacSucceeded else IacFailed),
         run_exit_code = exit_code, run_log = log, run_reconcile_run_id = rid\<rparr>))) (\<lambda>_.
     ret ()))))"

text \<open>The workspace before \<open>init\<close>: module set-up with a \<open>source\<close>, raw set-up without.\<close>

definition tf_prepare ::
  "path \<Rightarrow> terraform_config \<Rightarrow> enclave \<Rightarrow> partition \<Rightarrow> (string, string) hashmap \<Rightarrow> unit tf_act" where
  "tf_prepare workspace cfg enc p inputs =
     seq (io_internal ''create workspace dir'' (fs_create_dir_all workspace)) (\<lambda>_.
     case tfc_source cfg of
       Some source \<Rightarrow>
         seq (check_no_tf_files (tfc_dir cfg)) (\<lambda>_.
         seq (cleanup_raw_tf_artifacts workspace) (\<lambda>_.
         seq (write_backend_tf workspace) (\<lambda>_.
         seq (write_module_tf workspace source inputs) (\<lambda>_.
         write_outputs_tf workspace (part_declared_outputs p)))))
     | None \<Rightarrow>
         seq (cleanup_module_artifacts workspace) (\<lambda>_.
         seq (symlink_tf_files workspace (tfc_dir cfg)) (\<lambda>_.
         seq (write_backend_tf workspace) (\<lambda>_.
         write_tfvars workspace (eid_str (enc_id enc)) (pid_str (part_id p)) inputs))))"

definition tf_init_args :: "tf_backend \<Rightarrow> enclave \<Rightarrow> partition \<Rightarrow> string list" where
  "tf_init_args b enc p =
     (let addr = trim_end_matches (CHR ''/'') (tfb_api_base b) @ ''/terraform/state/'' @
            eid_str (enc_id enc) @ ''/'' @ pid_str (part_id p)
      in [''init'', ''-reconfigure'', ''-no-color'',
          ''-backend-config=address='' @ addr,
          ''-backend-config=lock_address='' @ addr @ ''/lock'',
          ''-backend-config=unlock_address='' @ addr @ ''/lock'',
          ''-backend-config=lock_method=POST'',
          ''-backend-config=unlock_method=DELETE'',
          ''-backend-config=username=nclav''])"

definition log_section :: "string \<Rightarrow> string" where
  "log_section what = ''=== terraform '' @ what @ '' ==='' @ nl"

definition tf_test_result :: "enclave \<Rightarrow> partition \<Rightarrow> provision_result" where
  "tf_test_result enc p = \<lparr>
     pr_handle = json_object [(''backend'', JString ''test''),
       (''enclave_id'', JString (eid_str (enc_id enc))), (''partition_id'', JString (pid_str (part_id p)))],
     pr_outputs = hm_collect (map (\<lambda>k. (k, ''test://'' @ k)) (part_declared_outputs p))\<rparr>"

definition tf_handle :: "string \<Rightarrow> path \<Rightarrow> enclave \<Rightarrow> partition \<Rightarrow> handle" where
  "tf_handle binary workspace enc p = json_object [(''backend'', JString binary),
     (''workspace'', JString workspace), (''enclave_id'', JString (eid_str (enc_id enc))),
     (''partition_id'', JString (pid_str (part_id p)))]"

text \<open>From \<open>terraform apply\<close> on, after an \<open>init\<close> that ended with 0 and logged \<open>log\<close>.\<close>

definition tf_apply ::
  "('s, 'x) system \<Rightarrow> tf_backend \<Rightarrow> string \<Rightarrow> path \<Rightarrow> enclave \<Rightarrow> partition \<Rightarrow> (string, string) hashmap \<Rightarrow>
     uuid option \<Rightarrow> string \<Rightarrow> (('s, 'x) world, driver_error, provision_result) act" where
  "tf_apply sys b binary workspace enc p auth_env rid log =
     seq (attempt (run_tf sys b binary workspace [''apply'', ''-auto-approve'', ''-no-color''] auth_env)) (\<lambda>r.
     case r of
       Inl e \<Rightarrow>
         seq (write_run sys enc p IacProvision rid
           (log @ nl @ log_section ''apply'' @ driver_error_str e) (Some 1)) (\<lambda>_.
         throw (ProvisionFailed (''terraform apply: '' @ driver_error_str e)))
     | Inr (apply_exit, apply_out) \<Rightarrow>
         let log2 = log @ nl @ log_section ''apply'' @ apply_out in
         if apply_exit \<noteq> 0
         then seq (write_run sys enc p IacProvision rid log2 (Some apply_exit)) (\<lambda>_.
           throw (ProvisionFailed (''terraform apply exited with code '' @ i32_str apply_exit)))
         else
           seq (read_outputs sys b binary workspace (part_declared_outputs p) auth_env) (\<lambda>outputs.
           seq (write_run sys enc p IacProvision rid log2 (Some 0)) (\<lambda>_.
           ret \<lparr>pr_handle = tf_handle binary workspace enc p, pr_outputs = outputs\<rparr>)))"

definition tf_provision ::
  "('s, 'x) system \<Rightarrow> tf_backend \<Rightarrow> enclave \<Rightarrow> partition \<Rightarrow> (string, string) hashmap \<Rightarrow>
     (string, string) hashmap \<Rightarrow> uuid option \<Rightarrow> (('s, 'x) world, driver_error, provision_result) act" where
  "tf_provision sys b enc p inputs auth_env rid =
     (if tfb_test_mode b then ret (tf_test_result enc p)
      else
        let (binary, cfg) = extract_tf_config p; workspace = tf_workspace sys b enc p in
        seq (fs_do (tf_prepare workspace cfg enc p inputs)) (\<lambda>_.
        seq (attempt (run_tf sys b binary workspace (tf_init_args b enc p) auth_env)) (\<lambda>r.
        case r of
          Inl e \<Rightarrow>
            seq (write_run sys enc p IacProvision rid (driver_error_str e) (Some 1)) (\<lambda>_.
            throw (ProvisionFailed (''terraform init: '' @ driver_error_str e)))
        | Inr (init_exit, init_out) \<Rightarrow>
            let log = log_section ''init'' @ init_out in
            if init_exit \<noteq> 0
            then seq (write_run sys enc p IacProvision rid log (Some init_exit)) (\<lambda>_.
              throw (ProvisionFailed (''terraform init exited with code '' @ i32_str init_exit)))
            else tf_apply sys b binary workspace enc p auth_env rid log)))"

definition tf_teardown ::
  "('s, 'x) system \<Rightarrow> tf_backend \<Rightarrow> enclave \<Rightarrow> partition \<Rightarrow> (string, string) hashmap \<Rightarrow> uuid option \<Rightarrow>
     (('s, 'x) world, driver_error, unit) act" where
  "tf_teardown sys b enc p auth_env rid =
     (if tfb_test_mode b then ret ()
      else
        let binary = fst (extract_tf_config p); workspace = tf_workspace sys b enc p in
        (\<lambda>w. if \<not> fs_exists (w_fs w) workspace then ret () w else
          seq (attempt (run_tf sys b binary workspace [''destroy'', ''-auto-approve'', ''-no-color''] auth_env)) (\<lambda>r.
          case r of
            Inl e \<Rightarrow>
              seq (write_run sys enc p IacTeardown rid (driver_error_str e) (Some 1)) (\<lambda>_.
              throw (TeardownFailed (''terraform destroy: '' @ driver_error_str e)))
          | Inr (exit_code, out) \<Rightarrow>
              let log = log_section ''destroy'' @ out in
              if exit_code \<noteq> 0
              then seq (write_run sys enc p IacTeardown rid log (Some exit_code)) (\<lambda>_.
                throw (TeardownFailed (''terraform destroy exited with code '' @ i32_str exit_code)))
              else seq (write_run sys enc p IacTeardown rid log (Some 0)) (\<lambda>_. ret ())) w))"

definition tf_observe ::
  "('s, 'x) system \<Rightarrow> tf_backend \<Rightarrow> enclave \<Rightarrow> partition \<Rightarrow> (string, string) hashmap \<Rightarrow> handle \<Rightarrow>
     (('s, 'x) world, driver_error, observed_state) act" where
  "tf_observe sys b enc p auth_env h =
     (let binary = fst (extract_tf_config p); workspace = tf_workspace sys b enc p;
          gone = \<lparr>obs_exists = False, obs_healthy = False, obs_outputs = [], obs_raw = h\<rparr> in
      (\<lambda>w. if \<not> fs_exists (w_fs w) workspace then ret gone w else
        seq (attempt (read_outputs sys b binary workspace (part_declared_outputs p) auth_env)) (\<lambda>r.
        case r of
          Inr outputs \<Rightarrow> ret \<lparr>obs_exists = True, obs_healthy = True, obs_outputs = outputs, obs_raw = h\<rparr>
        | Inl _ \<Rightarrow> ret gone) w))"

subsection \<open>What the backend does to the store\<close>

lemma run_tf_store [preserves_intros]: "preserves (on_store P) (run_tf sys b binary ws args env)"
  unfolding run_tf_def
  by (intro preserves_intros) (auto intro!: preserves_intros split: proc_outcome.split)

lemma read_outputs_store [preserves_intros]: "preserves (on_store P) (read_outputs sys b binary ws declared env)"
  unfolding read_outputs_def by (intro preserves_intros)

text \<open>Only the log of runs is written: whatever holds of the store and survives a logged run is kept.\<close>

lemma write_run_preserves [preserves_intros]:
  assumes "\<And>r. preserves P (so_upsert_iac_run (sys_store sys) r)"
  shows "preserves (on_store P) (write_run sys enc p op rid log ec)"
  unfolding write_run_def by (intro preserves_intros preserves_store_do assms)

lemma tf_provision_preserves [preserves_intros]:
  assumes "\<And>r. preserves P (so_upsert_iac_run (sys_store sys) r)"
  shows "preserves (on_store P) (tf_provision sys b enc p inputs env rid)"
  unfolding tf_provision_def tf_apply_def by (intro preserves_intros assms)

lemma tf_teardown_preserves [preserves_intros]:
  assumes "\<And>r. preserves P (so_upsert_iac_run (sys_store sys) r)"
  shows "preserves (on_store P) (tf_teardown sys b enc p env rid)"
  unfolding tf_teardown_def by (intro preserves_intros assms)

subsection \<open>The run log\<close>

text \<open>The store after one run was logged.\<close>

definition run_logged ::
  "enclave \<Rightarrow> partition \<Rightarrow> uuid option \<Rightarrow> iac_run_status \<Rightarrow> mem_store \<Rightarrow> mem_store \<Rightarrow> bool" where
  "run_logged enc p rid st s s' \<longleftrightarrow>
     (\<exists>r. s' = s\<lparr>ms_iac_runs := hm_insert (run_id r) r (ms_iac_runs s)\<rparr> \<and>
       run_enclave_id r = enc_id enc \<and> run_partition_id r = part_id p \<and>
       run_reconcile_run_id r = rid \<and> run_status r = st)"

lemma wp_write_run_mem:
  fixes E :: "'e \<Rightarrow> (mem_store, 'x) world \<Rightarrow> bool"
  assumes "sys_store sys = memory_ops" "w_store w = s"
  shows "wp (write_run sys enc p op rid log ec)
    (\<lambda>_ w'. run_logged enc p rid (if ec = Some 0 then IacSucceeded else IacFailed) s (w_store w')) E w"
proof -
  define r where "r = \<lparr>run_id = sys_uuid sys (w_tick w), run_enclave_id = enc_id enc,
     run_partition_id = part_id p, run_operation = op, run_started_at = sys_now sys (Suc (w_tick w)),
     run_finished_at = Some (sys_now sys (Suc (Suc (w_tick w)))),
     run_status = (if ec = Some 0 then IacSucceeded else IacFailed), run_exit_code = ec, run_log = log,
     run_reconcile_run_id = rid\<rparr>"
  have "write_run sys enc p op rid log ec w = (Inr () :: ('e, unit) result, w
     \<lparr>w_store := s\<lparr>ms_iac_runs := hm_insert (run_id r) r (ms_iac_runs s)\<rparr>,
      w_tick := Suc (Suc (Suc (w_tick w)))\<rparr>)"
    using assms
    by (simp add: write_run_def seq_def new_v4_def utc_now_def attempt_def store_do_def ret_def
        memory_ops_def mem_upsert_iac_run_def r_def)
  moreover have "run_logged enc p rid (if ec = Some 0 then IacSucceeded else IacFailed) s
      (s\<lparr>ms_iac_runs := hm_insert (run_id r) r (ms_iac_runs s)\<rparr>)"
    unfolding run_logged_def by (rule exI [of _ r]) (simp add: r_def)
  ultimately show ?thesis by (simp add: wp_def)
qed

lemma wp_run_tf_store:
  "w_store w = s \<Longrightarrow>
     wp (run_tf sys b binary ws args env) (\<lambda>_ w'. w_store w' = s) (\<lambda>_ w'. w_store w' = s) w"
  by (rule preserves_wp [OF run_tf_store [where P = "\<lambda>t. t = s"]])

lemma wp_read_outputs_store:
  "w_store w = s \<Longrightarrow>
     wp (read_outputs sys b binary ws declared env) (\<lambda>_ w'. w_store w' = s) (\<lambda>_ w'. w_store w' = s) w"
  by (rule preserves_wp [OF read_outputs_store [where P = "\<lambda>t. t = s"]])

lemma wp_attempt_run_tf:
  "w_store w = s \<Longrightarrow> wp (attempt (run_tf sys b binary ws args env)) (\<lambda>_ w'. w_store w' = s) E w"
  unfolding wp_attempt by (rule wp_run_tf_store)

lemma wp_log_and_fail:
  assumes "sys_store sys = memory_ops" "w_store w = s" "ec \<noteq> Some 0"
  shows "wp (seq (write_run sys enc p op rid log ec) (\<lambda>_. throw e)) Q
    (\<lambda>_ w'. w_store w' = s \<or> run_logged enc p rid IacFailed s (w_store w')) w"
  unfolding wp_seq wp_throw by (rule wp_mono [OF wp_write_run_mem [OF assms(1,2)]]) (use assms(3) in auto)

lemma wp_tf_apply_log:
  assumes "sys_store sys = memory_ops" "w_store w = s"
  shows "wp (tf_apply sys b binary ws enc p env rid log)
    (\<lambda>_ w'. run_logged enc p rid IacSucceeded s (w_store w'))
    (\<lambda>_ w'. w_store w' = s \<or> run_logged enc p rid IacFailed s (w_store w')) w" (is "wp _ ?Q ?E _")
  unfolding tf_apply_def
proof (rule wp_seqI [OF wp_attempt_run_tf [OF assms(2)]], goal_cases)
  case (1 r w1)
  then have "w_store w1 = s" by simp
  show ?case
  proof (cases r)
    case (Inl e)
    then show ?thesis using 1 by (simp add: wp_log_and_fail [OF assms(1)])
  next
    case (Inr eo)
    obtain ec out where eo: "eo = (ec, out)" by (cases eo)
    show ?thesis
    proof (cases "ec = 0")
      case True
      have "wp (seq (read_outputs sys b binary ws (part_declared_outputs p) env) (\<lambda>outputs.
          seq (write_run sys enc p IacProvision rid l (Some 0)) (\<lambda>_.
          ret \<lparr>pr_handle = tf_handle binary ws enc p, pr_outputs = outputs\<rparr>))) ?Q ?E w1" for l
      proof (rule wp_seqI [where R = "\<lambda>_ w'. w_store w' = s"], goal_cases)
        case 1
        show ?case by (rule wp_mono [OF wp_read_outputs_store]) (use \<open>w_store w1 = s\<close> in auto)
      next
        case (2 outputs w2)
        then show ?case
          unfolding wp_seq wp_ret by (intro wp_mono [OF wp_write_run_mem [OF assms(1)]]) auto
      qed
      then show ?thesis using Inr eo True by (simp add: Let_def)
    next
      case False
      then show ?thesis using 1 Inr eo by (simp add: Let_def wp_log_and_fail [OF assms(1)])
    qed
  qed
qed


text \<open>A small system for the examples: in-memory store, local driver, processes that all succeed.\<close>

definition sample_system :: "(mem_store, unit) system" where
  "sample_system = \<lparr>sys_store = memory_ops,
     sys_registry = register Local local_driver (registry_new Local),
     sys_now = int, sys_uuid = of_nat, sys_digest = (\<lambda>_. ''h''), sys_petgraph = kahn_petgraph,
     sys_parse_json = (\<lambda>_. Inr (JObject [])), sys_home = Some ''/root'',
     sys_proc = (\<lambda>cmd x. (Exited (Some 0) [], x))\<rparr>"

definition sample_backend :: tf_backend where
  "sample_backend = \<lparr>tfb_api_base = ''http://h/'', tfb_auth_token = ''t'', tfb_test_mode = False,
     tfb_workspace_root = Some ''/w''\<rparr>"

definition sample_tf_partition :: partition where
  "sample_tf_partition = sample_partition\<lparr>part_backend := Terraform
     \<lparr>tfc_tool = None, tfc_source = None, tfc_dir = ''/src''\<rparr>\<rparr>"

definition sample_world :: "(mem_store, unit) world" where
  "sample_world = \<lparr>w_store = mem_new,
     w_fs = \<lparr>fs_nodes = [(''/src'', FsDir), (''/src/main.tf'', FsFile ''m'')], fs_refused = (\<lambda>_. None)\<rparr>,
     w_ext = (), w_tick = 0\<rparr>"


text \<open>
  An \<open>apply\<close> that succeeded can leave no trace: when \<open>init\<close> and \<open>apply\<close> end with 0 but reading
  the outputs fails, the call returns an error and the store is unchanged, so the run that made
  the resources is not in the log.
\<close>
theorem unlogged_apply:
  assumes "\<not> tfb_test_mode b" "extract_tf_config p = (binary, cfg)"
    and "tf_prepare (tf_workspace sys b enc p) cfg enc p inputs (w_fs w) = (Inr (), fs1)"
    and "\<And>cmd x. sys_proc sys cmd x =
      (Exited (Some (if cmd_args cmd = [''output'', ''-json'', ''-no-color''] then 1 else 0)) [], x)"
  shows "tf_provision sys b enc p inputs env rid w =
    (Inl (ProvisionFailed (''terraform output exited with code '' @ i32_str 1)), w\<lparr>w_fs := fs1\<rparr>)"
proof -
  have run: "run_tf sys b binary ws args env w1 =
      (Inr (if args = [''output'', ''-json'', ''-no-color''] then 1 else 0, []), w1)" for ws args w1
    using assms(4) by (simp add: run_tf_def seq_def start_process_def ret_def)
  show ?thesis
    by (simp add: tf_provision_def assms(1,2) seq_def fs_do_def assms(3) attempt_def run
        tf_init_args_def Let_def tf_apply_def read_outputs_def throw_def)
qed

theorem unlogged_apply_witness:
  "\<exists>sys w'. tf_provision sys sample_backend sample_exporter sample_tf_partition [] [] None sample_world =
     (Inl (ProvisionFailed (''terraform output exited with code '' @ i32_str 1)), w') \<and>
     w_store w' = (mem_new :: mem_store)"
proof -
  let ?sys = "sample_system\<lparr>sys_proc := (\<lambda>cmd x.
    (Exited (Some (if cmd_args cmd = [''output'', ''-json'', ''-no-color''] then 1 else 0)) [], x))\<rparr>"
  let ?cfg = "\<lparr>tfc_tool = None, tfc_source = None, tfc_dir = ''/src''\<rparr>"
  have ok: "case tf_prepare (tf_workspace ?sys sample_backend sample_exporter sample_tf_partition) ?cfg
      sample_exporter sample_tf_partition [] (w_fs sample_world) of (Inr u, _) \<Rightarrow> True | _ \<Rightarrow> False"
    by code_simp
  then obtain fs1 where prep: "tf_prepare (tf_workspace ?sys sample_backend sample_exporter sample_tf_partition)
      ?cfg sample_exporter sample_tf_partition [] (w_fs sample_world) = (Inr (), fs1)"
    by (auto split: prod.splits sum.splits)
  have "tf_provision ?sys sample_backend sample_exporter sample_tf_partition [] [] None sample_world =
     (Inl (ProvisionFailed (''terraform output exited with code '' @ i32_str 1)), sample_world\<lparr>w_fs := fs1\<rparr>)"
    by (rule unlogged_apply [OF _ _ prep])
       (simp_all add: sample_backend_def extract_tf_config_def sample_tf_partition_def)
  then show ?thesis by (intro exI conjI) (auto simp: sample_world_def)
qed

text \<open>
  Without its workspace directory a partition counts as torn down: \<open>teardown\<close> succeeds at once,
  starts no process and changes nothing, although the state of the partition is kept by the API
  server and its resources may exist.
\<close>
theorem teardown_without_workspace:
  assumes "\<not> fs_exists (w_fs w) (tf_workspace sys b enc p)"
  shows "tf_teardown sys b enc p env rid w = (Inr (), w)"
  using assms by (simp add: tf_teardown_def Let_def ret_def)

theorem teardown_without_workspace_witness:
  "tf_teardown sample_system sample_backend sample_exporter sample_tf_partition [] None sample_world =
     (Inr (), sample_world)"
  by (rule teardown_without_workspace) code_simp

lemma wp_pick_outputs:
  "wp (foldM (\<lambda>key outputs. lift_result (pick_output m key outputs)) declared [])
     (\<lambda>outputs _. dom (hm_get outputs) = set declared) (\<lambda>_ _. True) w"
  by (rule wp_foldM_prefix [where I = "\<lambda>us outputs _. dom (hm_get outputs) = set us"])
     (auto simp: wp_simps pick_output_def hm_get_insert split: option.split)

text \<open>
  The declared outputs are delivered: whenever \<open>provision\<close> succeeds, in test mode or for real,
  the keys of the outputs it returns are exactly the declared outputs of the partition.
\<close>
theorem tf_provision_outputs:
  assumes "tf_provision sys b enc p inputs env rid w = (Inr r, w')"
  shows "dom (hm_get (pr_outputs r)) = set (part_declared_outputs p)"
proof (cases "tfb_test_mode b")
  case True
  then have "r = tf_test_result enc p" using assms by (simp add: tf_provision_def ret_def)
  moreover have "dom (hm_get (hm_collect (map (\<lambda>k. (k, f k)) ks))) = set ks" for f :: "string \<Rightarrow> string" and ks
    by (simp add: dom_hm_collect image_image)
  ultimately show ?thesis by (simp add: tf_test_result_def)
next
  case False
  let ?Q = "\<lambda>r _. dom (hm_get (pr_outputs r)) = set (part_declared_outputs p)"
  have out: "wp (read_outputs sys b binary ws declared env) (\<lambda>outputs _. dom (hm_get outputs) = set declared)
      (\<lambda>_ _. True) w" for binary ws declared w
    unfolding read_outputs_def
    by (rule wp_seqI [OF wp_True]) (auto simp: wp_simps wp_pick_outputs split: sum.split)
  have app: "wp (tf_apply sys b binary ws enc p env rid log) ?Q (\<lambda>_ _. True) w" for binary ws log w
    unfolding tf_apply_def
  proof (rule wp_seqI [OF wp_True], goal_cases)
    case (1 r w1)
    have "wp (seq (read_outputs sys b binary ws (part_declared_outputs p) env) (\<lambda>outputs.
        seq (write_run sys enc p IacProvision rid l (Some 0)) (\<lambda>_.
        ret \<lparr>pr_handle = tf_handle binary ws enc p, pr_outputs = outputs\<rparr>))) ?Q (\<lambda>_ _. True) w1" for l
      by (rule wp_seqI [OF out], rule wp_seqI [OF wp_True]) (simp add: wp_ret)
    then show ?case by (cases r) (auto simp: Let_def wp_fail_after)
  qed
  obtain binary cfg where ex: "extract_tf_config p = (binary, cfg)" by (cases "extract_tf_config p")
  have "wp (tf_provision sys b enc p inputs env rid) ?Q (\<lambda>_ _. True) w"
    unfolding tf_provision_def ex Let_def using False
  proof (simp, intro wp_seqI [OF wp_True], goal_cases)
    case (1 u w1 r w2)
    then show ?case by (cases r) (auto simp: wp_fail_after app)
  qed
  from wp_InrD [OF this assms] show ?thesis .
qed

theorem tf_provision_outputs_witness:
  "dom (hm_get (pr_outputs (tf_test_result sample_exporter sample_tf_partition))) = {''queue_url''}"
proof -
  have "tf_provision sample_system (sample_backend\<lparr>tfb_test_mode := True\<rparr>) sample_exporter sample_tf_partition
      [] [] None sample_world = (Inr (tf_test_result sample_exporter sample_tf_partition), sample_world)"
    by (simp add: tf_provision_def ret_def)
  from tf_provision_outputs [OF this] show ?thesis
    by (simp add: sample_tf_partition_def sample_partition_def)
qed

end
