(* ===== verification/Reconcile.thy ===== *)
theory Reconcile
  imports Config_Loader Template_Resolve Terraform_Backend
begin

section \<open>The reconciler\<close>

text \<open>
  \<open>crates/nclav-reconciler/src\<close>: the request, the changes and the report (\<open>report.rs\<close>), the errors
  (\<open>error.rs\<close>) and the function \<open>reconcile\<close> (\<open>reconcile.rs\<close>), cut into its numbered steps. A loop of
  the source is a fold over the mutable locals of its body: the error list of the report, and the
  enclave state that is being built. The \<open>?\<close> after a store call is \<open>st_do\<close>, a failed store call whose
  result is dropped (\<open>.ok()\<close>) is an \<open>attempt\<close>.
\<close>

subsection \<open>Requests and reports\<close>

record reconcile_request =
  rq_enclaves_dir :: path
  rq_dry_run :: bool
  rq_api_base :: string
  rq_auth_token :: string
  rq_test_mode :: bool
  rq_resources_only :: bool

definition default_request :: reconcile_request where
  "default_request = \<lparr>rq_enclaves_dir = [], rq_dry_run = False, rq_api_base = ''http://127.0.0.1:8080'',
     rq_auth_token = [], rq_test_mode = False, rq_resources_only = False\<rparr>"

datatype change =
    ChEnclaveCreated enclave_id
  | ChEnclaveUpdated enclave_id
  | ChEnclaveDeleted enclave_id
  | ChPartitionCreated enclave_id partition_id
  | ChPartitionUpdated enclave_id partition_id
  | ChPartitionDeleted enclave_id partition_id
  | ChExportWired enclave_id string
  | ChImportWired enclave_id string

record reconcile_report =
  rep_dry_run :: bool
  rep_changes :: "change list"
  rep_errors :: "string list"

definition new_report :: "bool \<Rightarrow> reconcile_report" where
  "new_report dry = \<lparr>rep_dry_run = dry, rep_changes = [], rep_errors = []\<rparr>"

datatype reconcile_error =
    RConfig config_error
  | RGraph graph_error
  | RStore store_error
  | RDriver driver_error
  | RInternal string
  | RPanic \<comment> \<open>not in the source: the panic of assigning a key of a JSON value that is no object\<close>

definition reconcile_error_str :: "(json_error \<Rightarrow> string) \<Rightarrow> reconcile_error \<Rightarrow> string" where
  "reconcile_error_str show_json e = (case e of
     RConfig c \<Rightarrow> ''config error: '' @ config_error_str c
   | RGraph g \<Rightarrow> ''graph validation error: '' @ graph_error_str g
   | RStore s \<Rightarrow> ''store error: '' @ store_error_str show_json s
   | RDriver d \<Rightarrow> ''driver error: '' @ driver_error_str d
   | RInternal s \<Rightarrow> ''internal error: '' @ s
   | RPanic \<Rightarrow> ''panic'')"

type_synonym ('s, 'x, 'a) rec_act = "(('s, 'x) world, reconcile_error, 'a) act"

subsection \<open>Steps 3 and 4: the actual states and the diff\<close>

type_synonym actual = "(enclave_id, enclave_state) hashmap"

definition actual_states :: "enclave_state list \<Rightarrow> actual" where
  "actual_states ss = hm_collect (map (\<lambda>s. (enc_id (es_desired s), s)) ss)"

definition ordered_desired :: "resolved_graph \<Rightarrow> enclave list \<Rightarrow> enclave list" where
  "ordered_desired resolved desired =
     (let topo_ids = map EnclaveId (res_topo_order resolved);
          desired_map = enclaves_by_id desired
      in List.map_filter (hm_get desired_map) topo_ids @
         filter (\<lambda>e. enc_id e \<notin> set topo_ids) desired)"

definition removed_ids :: "actual \<Rightarrow> enclave list \<Rightarrow> enclave_id list" where
  "removed_ids act desired = filter (\<lambda>i. i \<notin> set (map enc_id desired)) (hm_keys act)"

definition hash_matches :: "resource_meta option \<Rightarrow> string \<Rightarrow> bool" where
  "hash_matches m h = (case Option.bind m meta_desired_hash of None \<Rightarrow> False | Some g \<Rightarrow> g = h)"

definition diff_partition :: "(json \<Rightarrow> string) \<Rightarrow> enclave_state option \<Rightarrow> enclave \<Rightarrow> partition \<Rightarrow> change list" where
  "diff_partition digest existing enc part =
     (let part_existing = Option.bind existing (\<lambda>s. hm_get (es_partitions s) (part_id part)) in
      if part_existing = None then [ChPartitionCreated (enc_id enc) (part_id part)]
      else if \<not> hash_matches (map_option ps_meta part_existing) (partition_hash digest part)
      then [ChPartitionUpdated (enc_id enc) (part_id part)]
      else [])"

definition diff_export :: "enclave_state option \<Rightarrow> enclave \<Rightarrow> export \<Rightarrow> change list" where
  "diff_export existing enc x =
     (if Option.bind existing (\<lambda>s. hm_get (es_exports s) (exp_name x)) = None
      then [ChExportWired (enc_id enc) (exp_name x)] else [])"

definition diff_enclave :: "(json \<Rightarrow> string) \<Rightarrow> actual \<Rightarrow> enclave \<Rightarrow> change list" where
  "diff_enclave digest act enc =
     (let existing = hm_get act (enc_id enc) in
      (if existing = None then [ChEnclaveCreated (enc_id enc)]
       else if \<not> hash_matches (map_option es_meta existing) (enclave_hash digest enc)
       then [ChEnclaveUpdated (enc_id enc)] else []) @
      concat (map (diff_partition digest existing enc) (enc_partitions enc)) @
      concat (map (diff_export existing enc) (enc_exports enc)))"

definition diff_imports :: "actual \<Rightarrow> enclave \<Rightarrow> change list" where
  "diff_imports act enc =
     concat (map (\<lambda>i.
       if Option.bind (hm_get act (enc_id enc)) (\<lambda>s. hm_get (es_imports s) (imp_alias i)) = None
       then [ChImportWired (enc_id enc) (imp_alias i)] else []) (imports_of enc))"

definition diff_changes ::
  "(json \<Rightarrow> string) \<Rightarrow> actual \<Rightarrow> enclave list \<Rightarrow> enclave list \<Rightarrow> change list" where
  "diff_changes digest act desired ordered =
     map ChEnclaveDeleted (removed_ids act desired) @
     concat (map (diff_enclave digest act) ordered) @
     concat (map (diff_imports act) ordered)"

subsection \<open>Store calls and events\<close>

definition st_do :: "('s, store_error, 'a) act \<Rightarrow> ('s, 'x, 'a) rec_act" where
  "st_do m = map_err RStore (store_do m)"

text \<open>An event is built, its id and time drawn in this order, and appended.\<close>

definition emit :: "('s, 'x) system \<Rightarrow> (uuid \<Rightarrow> datetime \<Rightarrow> audit_event) \<Rightarrow> ('s, 'x, unit) rec_act" where
  "emit sys ev = seq (new_v4 sys) (\<lambda>u. seq (utc_now sys) (\<lambda>t.
     st_do (so_append_event (sys_store sys) (ev u t))))"

definition slash :: "string \<Rightarrow> string \<Rightarrow> string" where
  "slash a b = a @ ''/'' @ b"

subsection \<open>Step 6: teardown of removed enclaves\<close>

definition teardown_partition_step ::
  "('s, 'x) system \<Rightarrow> tf_backend \<Rightarrow> 'x driver \<Rightarrow> (string, string) hashmap \<Rightarrow> enclave_state \<Rightarrow> uuid \<Rightarrow>
     enclave_id \<Rightarrow> partition_id \<times> partition_state \<Rightarrow> string list \<Rightarrow> ('s, 'x, string list) rec_act" where
  "teardown_partition_step sys b driver auth_env existing rid eid = (\<lambda>(pid, ps) errs.
     seq (attempt (tf_teardown sys b (es_desired existing) (ps_desired ps) auth_env (Some rid))) (\<lambda>r.
     let errs' = (case r of
           Inl e \<Rightarrow> errs @ [''teardown '' @ slash (eid_str eid) (pid_str pid) @ '': '' @ driver_error_str e]
         | Inr _ \<Rightarrow> errs)
     in case ps_handle ps of
          None \<Rightarrow> ret errs'
        | Some h \<Rightarrow>
            seq (attempt (ext_do (drv_teardown_partition driver (es_desired existing) (ps_desired ps) h)))
              (\<lambda>_. ret errs')))"

definition teardown_enclave_step ::
  "('s, 'x) system \<Rightarrow> tf_backend \<Rightarrow> reconcile_request \<Rightarrow> uuid \<Rightarrow> actual \<Rightarrow> enclave_id \<Rightarrow> string list \<Rightarrow>
     ('s, 'x, string list) rec_act" where
  "teardown_enclave_step sys b req rid act eid errs =
     (case hm_get act eid of
        None \<Rightarrow> ret errs
      | Some existing \<Rightarrow>
          let cloud = (case es_resolved_cloud existing of
                None \<Rightarrow> reg_default_cloud (sys_registry sys) | Some c \<Rightarrow> c)
          in seq (case for_cloud (sys_registry sys) cloud of
                Inl _ \<Rightarrow> ret errs
              | Inr driver \<Rightarrow> (case es_handle existing of
                  None \<Rightarrow> ret errs
                | Some h \<Rightarrow>
                    let auth_env = drv_auth_env driver (es_desired existing) h in
                    seq (foldM (teardown_partition_step sys b driver auth_env existing rid eid)
                          (es_partitions existing) errs) (\<lambda>errs'.
                    if rq_resources_only req then ret errs'
                    else seq (map_err RDriver (ext_do (drv_teardown_enclave driver (es_desired existing) h)))
                      (\<lambda>_. ret errs')))) (\<lambda>errs'.
             seq (st_do (so_delete_enclave (sys_store sys) eid)) (\<lambda>_. ret errs')))"

subsection \<open>Step 7: provisioning\<close>

definition partition_entry :: "enclave_state \<Rightarrow> partition \<Rightarrow> partition_state" where
  "partition_entry es part = (case hm_get (es_partitions es) (part_id part) of
     None \<Rightarrow> new_partition_state part | Some ps \<Rightarrow> ps)"

definition put_partition :: "partition_id \<Rightarrow> partition_state \<Rightarrow> enclave_state \<Rightarrow> enclave_state" where
  "put_partition pid ps es = es\<lparr>es_partitions := hm_insert pid ps (es_partitions es)\<rparr>"

text \<open>The environment of Terraform: in key mode it runs under the identity of the partition.\<close>

definition partition_auth_env :: "'x driver \<Rightarrow> enclave \<Rightarrow> enclave_state \<Rightarrow> handle \<Rightarrow> (string, string) hashmap" where
  "partition_auth_env driver enc es sa_handle =
     (let auth_env = (case es_handle es of None \<Rightarrow> [] | Some h \<Rightarrow> drv_auth_env driver enc h) in
      if hm_contains auth_env ''GOOGLE_APPLICATION_CREDENTIALS''
      then (case json_as_str (json_index sa_handle ''partition_sa'') of
          Some sa \<Rightarrow> hm_insert ''GOOGLE_IMPERSONATE_SERVICE_ACCOUNT'' sa auth_env
        | None \<Rightarrow> auth_env)
      else auth_env)"

text \<open>The handle of the partition identity, merged into the one of Terraform.\<close>

definition merge_sa :: "handle \<Rightarrow> provision_result \<Rightarrow> ('s, 'x, provision_result) rec_act" where
  "merge_sa sa_handle r = (case json_as_str (json_index sa_handle ''partition_sa'') of
     None \<Rightarrow> ret r
   | Some sa \<Rightarrow> (case json_index_set (pr_handle r) ''partition_sa'' (JString sa) of
       None \<Rightarrow> throw RPanic
     | Some h \<Rightarrow> ret (r\<lparr>pr_handle := h\<rparr>)))"

definition provision_with_identity ::
  "('s, 'x) system \<Rightarrow> tf_backend \<Rightarrow> 'x driver \<Rightarrow> enclave \<Rightarrow> uuid \<Rightarrow> partition \<Rightarrow> (string, string) hashmap \<Rightarrow>
     enclave_state \<Rightarrow> provision_result \<Rightarrow> ('s, 'x, (string, provision_result) result \<times> enclave_state) rec_act" where
  "provision_with_identity sys b driver enc rid part inputs es sa =
     (let es' = put_partition (part_id part) ((partition_entry es part)\<lparr>ps_handle := Some (pr_handle sa)\<rparr>) es in
      seq (attempt (st_do (so_upsert_enclave (sys_store sys) es'))) (\<lambda>_ :: (reconcile_error, unit) result.
      seq (attempt (tf_provision sys b enc part inputs
            (partition_auth_env driver enc es' (pr_handle sa)) (Some rid))) (\<lambda>r. case r of
        Inl e \<Rightarrow> ret (Inl (driver_error_str e), es')
      | Inr tf_result \<Rightarrow> seq (merge_sa (pr_handle sa) tf_result) (\<lambda>m. ret (Inr m, es')))))"

text \<open>What is recorded of a partition once its provisioning is over.\<close>

definition record_partition ::
  "('s, 'x) system \<Rightarrow> enclave \<Rightarrow> partition \<Rightarrow> (string, provision_result) result \<Rightarrow> enclave_state \<Rightarrow>
     string list \<Rightarrow> ('s, 'x, enclave_state \<times> string list) rec_act" where
  "record_partition sys enc part res es errs =
     seq (utc_now sys) (\<lambda>now. case res of
       Inr r \<Rightarrow>
         let ps = partition_entry es part;
             es' = put_partition (part_id part) (ps\<lparr>ps_handle := Some (pr_handle r), ps_outputs := pr_outputs r,
               ps_meta := mark_active now (partition_hash (sys_digest sys) part) (ps_meta ps)\<rparr>) es
         in seq (emit sys (\<lambda>u t. PartitionProvisioned u t (enc_id enc) (part_id part))) (\<lambda>_. ret (es', errs))
     | Inl msg \<Rightarrow>
         let ps = partition_entry es part;
             es' = put_partition (part_id part) (ps\<lparr>ps_meta := mark_error now msg (ps_meta ps)\<rparr>) es
         in seq (emit sys (\<lambda>u t. PartitionError u t (enc_id enc) (part_id part) msg)) (\<lambda>_.
            ret (es', errs @ [''partition '' @ slash (eid_str (enc_id enc)) (pid_str (part_id part)) @ '': '' @ msg])))"

text \<open>The state of a partition that is marked as in flight before the driver is called.\<close>

definition in_flight_partition :: "partition_state option \<Rightarrow> partition \<Rightarrow> partition_state" where
  "in_flight_partition existing part =
     (let ps = (case existing of None \<Rightarrow> new_partition_state part | Some ps \<Rightarrow> ps)\<lparr>ps_desired := part\<rparr>
      in ps\<lparr>ps_meta := (ps_meta ps)\<lparr>meta_status :=
           (if ps_handle ps \<noteq> None then Updating else Provisioning)\<rparr>\<rparr>)"

definition provision_partition_step ::
  "('s, 'x) system \<Rightarrow> tf_backend \<Rightarrow> 'x driver \<Rightarrow> enclave \<Rightarrow> uuid \<Rightarrow> partition \<Rightarrow>
     enclave_state \<times> string list \<Rightarrow> ('s, 'x, enclave_state \<times> string list) rec_act" where
  "provision_partition_step sys b driver enc rid part = (\<lambda>(es, errs).
     let part_existing = hm_get (es_partitions es) (part_id part) in
     if hash_matches (map_option ps_meta part_existing) (partition_hash (sys_digest sys) part)
     then ret (es, errs)
     else
       let context_vars = (case es_handle es of None \<Rightarrow> [] | Some h \<Rightarrow> drv_context_vars driver enc h);
           inputs = resolve_inputs (part_inputs part) es context_vars;
           ps = in_flight_partition part_existing part;
           es1 = put_partition (part_id part) ps es
       in seq (st_do (so_upsert_enclave (sys_store sys) es1)) (\<lambda>_.
          seq (attempt (ext_do (drv_provision_partition driver enc part inputs (ps_handle ps)))) (\<lambda>sa_result.
          seq (case sa_result of
                 Inl e \<Rightarrow> ret (Inl (driver_error_str e), es1)
               | Inr sa \<Rightarrow> provision_with_identity sys b driver enc rid part inputs es1 sa) (\<lambda>(res, es2).
          record_partition sys enc part res es2 errs))))"

definition provision_export_step ::
  "('s, 'x) system \<Rightarrow> 'x driver \<Rightarrow> enclave \<Rightarrow> export \<Rightarrow> enclave_state \<times> string list \<Rightarrow>
     ('s, 'x, enclave_state \<times> string list) rec_act" where
  "provision_export_step sys driver enc x = (\<lambda>(es, errs).
     let outputs = (case hm_get (es_partitions es) (exp_target_partition x) of
           None \<Rightarrow> [] | Some ps \<Rightarrow> ps_outputs ps)
     in seq (attempt (ext_do (drv_provision_export driver enc x outputs (hm_get (es_exports es) (exp_name x))))) (\<lambda>r.
        case r of
          Inr result \<Rightarrow>
            seq (emit sys (\<lambda>u t. ExportWired u t (enc_id enc) (exp_name x))) (\<lambda>_.
            ret (es\<lparr>es_exports := hm_insert (exp_name x) (pr_handle result) (es_exports es)\<rparr>, errs))
        | Inl e \<Rightarrow>
            ret (es, errs @ [''export '' @ slash (eid_str (enc_id enc)) (exp_name x) @ '': '' @ driver_error_str e])))"

text \<open>The state of an enclave that is marked as in flight before the driver is called.\<close>

definition in_flight_enclave :: "'x driver_registry \<Rightarrow> enclave_state option \<Rightarrow> enclave \<Rightarrow> enclave_state" where
  "in_flight_enclave reg existing enc =
     (let es = (case existing of None \<Rightarrow> new_enclave_state enc | Some s \<Rightarrow> s)
           \<lparr>es_desired := enc, es_resolved_cloud := Some (resolved_cloud reg enc)\<rparr>
      in es\<lparr>es_meta := (es_meta es)\<lparr>meta_status :=
           (if existing \<noteq> None then Updating else Provisioning)\<rparr>\<rparr>)"

definition provision_enclave_step ::
  "('s, 'x) system \<Rightarrow> tf_backend \<Rightarrow> uuid \<Rightarrow> actual \<Rightarrow> enclave \<Rightarrow> string list \<Rightarrow> ('s, 'x, string list) rec_act" where
  "provision_enclave_step sys b rid act enc errs =
     (case for_enclave (sys_registry sys) enc of
        Inl e \<Rightarrow> ret (errs @ [''enclave '' @ eid_str (enc_id enc) @ '': '' @ driver_error_str e])
      | Inr driver \<Rightarrow>
          let existing = hm_get act (enc_id enc);
              es1 = in_flight_enclave (sys_registry sys) existing enc
          in seq (st_do (so_upsert_enclave (sys_store sys) es1)) (\<lambda>_.
             seq (attempt (ext_do (drv_provision_enclave driver enc (Option.bind existing es_handle)))) (\<lambda>r.
             case r of
               Inl e \<Rightarrow>
                 let msg = driver_error_str e in
                 seq (utc_now sys) (\<lambda>now.
                 seq (st_do (so_upsert_enclave (sys_store sys)
                   (es1\<lparr>es_meta := mark_error now msg (es_meta es1)\<rparr>))) (\<lambda>_.
                 seq (emit sys (\<lambda>u t. EnclaveError u t (enc_id enc) msg)) (\<lambda>_.
                 ret (errs @ [''enclave '' @ eid_str (enc_id enc) @ '': '' @ msg]))))
             | Inr result \<Rightarrow>
                 seq (utc_now sys) (\<lambda>now.
                 let es2 = es1\<lparr>es_handle := Some (pr_handle result),
                       es_meta := mark_active now (enclave_hash (sys_digest sys) enc) (es_meta es1)\<rparr>
                 in seq (foldM (provision_partition_step sys b driver enc rid) (enc_partitions enc) (es2, errs)) (\<lambda>acc.
                    seq (foldM (provision_export_step sys driver enc) (enc_exports enc) acc) (\<lambda>(es4, errs').
                    seq (emit sys (\<lambda>u t. EnclaveProvisioned u t (enc_id enc))) (\<lambda>_.
                    seq (st_do (so_upsert_enclave (sys_store sys) es4)) (\<lambda>_.
                    ret errs'))))))))"

subsection \<open>Step 8: wiring of imports\<close>

definition wire_import_step ::
  "('s, 'x) system \<Rightarrow> 'x driver \<Rightarrow> enclave \<Rightarrow> import \<Rightarrow> enclave_state \<times> bool \<times> string list \<Rightarrow>
     ('s, 'x, enclave_state \<times> bool \<times> string list) rec_act" where
  "wire_import_step sys driver enc i = (\<lambda>(es, changed, errs).
     if hm_contains (es_imports es) (imp_alias i) then ret (es, changed, errs)
     else seq (st_do (so_get_enclave (sys_store sys) (imp_from i))) (\<lambda>exporter.
       case Option.bind exporter (\<lambda>s. hm_get (es_exports s) (imp_export_name i)) of
         None \<Rightarrow> ret (es, changed, errs)
       | Some export_handle \<Rightarrow>
           seq (attempt (ext_do (drv_provision_import driver enc i export_handle
             (hm_get (es_imports es) (imp_alias i))))) (\<lambda>r. case r of
             Inr result \<Rightarrow>
               seq (emit sys (\<lambda>u t. ImportWired u t (enc_id enc) (imp_export_name i))) (\<lambda>_.
               ret (es\<lparr>es_imports := hm_insert (imp_alias i) (pr_handle result) (es_imports es)\<rparr>, True, errs))
           | Inl e \<Rightarrow>
               ret (es, changed, errs @ [''import '' @ slash (eid_str (enc_id enc)) (imp_alias i) @ '': '' @
                 driver_error_str e]))))"

definition wire_enclave_step ::
  "('s, 'x) system \<Rightarrow> enclave \<Rightarrow> string list \<Rightarrow> ('s, 'x, string list) rec_act" where
  "wire_enclave_step sys enc errs =
     (case for_enclave (sys_registry sys) enc of
        Inl _ \<Rightarrow> ret errs
      | Inr driver \<Rightarrow>
          seq (st_do (so_get_enclave (sys_store sys) (enc_id enc))) (\<lambda>o_es. case o_es of
            None \<Rightarrow> ret errs
          | Some es \<Rightarrow>
              seq (foldM (wire_import_step sys driver enc) (imports_of enc) (es, False, errs)) (\<lambda>(es', changed, errs').
              if changed then seq (st_do (so_upsert_enclave (sys_store sys) es')) (\<lambda>_. ret errs')
              else ret errs')))"

subsection \<open>The whole function\<close>

definition request_backend :: "reconcile_request \<Rightarrow> tf_backend" where
  "request_backend req = \<lparr>tfb_api_base = rq_api_base req, tfb_auth_token = rq_auth_token req,
     tfb_test_mode = rq_test_mode req, tfb_workspace_root = None\<rparr>"

text \<open>Steps 6 to 9, after the dry-run gate; \<open>report\<close> holds the changes.\<close>

definition apply_changes ::
  "('s, 'x) system \<Rightarrow> reconcile_request \<Rightarrow> actual \<Rightarrow> enclave list \<Rightarrow> enclave list \<Rightarrow> reconcile_report \<Rightarrow>
     ('s, 'x, reconcile_report) rec_act" where
  "apply_changes sys req act desired ordered report =
     (let b = request_backend req in
      seq (new_v4 sys) (\<lambda>rid.
      seq (utc_now sys) (\<lambda>t0.
      seq (st_do (so_append_event (sys_store sys) (ReconcileStarted rid t0 False))) (\<lambda>_.
      seq (foldM (teardown_enclave_step sys b req rid act) (removed_ids act desired) (rep_errors report)) (\<lambda>errs6.
      seq (foldM (provision_enclave_step sys b rid act) ordered errs6) (\<lambda>errs7.
      seq (foldM (wire_enclave_step sys) ordered errs7) (\<lambda>errs8.
      seq (utc_now sys) (\<lambda>t1.
      seq (st_do (so_append_event (sys_store sys)
            (ReconcileCompleted rid t1 (length (rep_changes report)) False))) (\<lambda>_.
      ret (report\<lparr>rep_errors := errs8\<rparr>))))))))))"

definition load_step :: "yaml_parsers \<Rightarrow> path \<Rightarrow> ('s, 'x, enclave list) rec_act" where
  "load_step yp dir = (\<lambda>w. (map_sum RConfig id (load_enclaves yp (w_fs w) dir), w))"

definition reconcile ::
  "yaml_parsers \<Rightarrow> ('s, 'x) system \<Rightarrow> reconcile_request \<Rightarrow> ('s, 'x, reconcile_report) rec_act" where
  "reconcile yp sys req =
     seq (load_step yp (rq_enclaves_dir req)) (\<lambda>desired.
     seq (lift_result (map_sum RGraph id (validate (sys_petgraph sys) desired))) (\<lambda>resolved.
     seq (st_do (so_list_enclaves (sys_store sys))) (\<lambda>states.
     let act = actual_states states;
         ordered = ordered_desired resolved desired;
         report = (new_report (rq_dry_run req))
           \<lparr>rep_changes := diff_changes (sys_digest sys) act desired ordered\<rparr>
     in if rq_dry_run req then ret report
        else apply_changes sys req act desired ordered report)))"

end
