(* ===== verification/Reconcile_Steps.thy ===== *)
theory Reconcile_Steps
  imports Reconcile
begin

section \<open>What the steps of a reconcile leave behind\<close>

text \<open>
  Lemmas about the loops of \<open>reconcile\<close>: which error list and which enclave state an iteration
  returns, and what it leaves in the store. They are proved for every \<open>state_store\<close>, inside its
  locale, and used by the theories that follow through the interpretation for the in-memory store.
\<close>

lemma wp_seq_keep:
  assumes "preserves P m" "P w" "\<And>a w'. P w' \<Longrightarrow> wp (f a) Q (\<lambda>_ _. True) w'"
  shows "wp (seq m f) Q (\<lambda>_ _. True) w"
  by (rule wp_seqI [where R = "\<lambda>_. P"]) (use assms in \<open>auto intro: wp_mono [OF preserves_wp]\<close>)

lemma wp_attempt_keep:
  assumes "preserves P m" "P w" "\<And>a w'. P w' \<Longrightarrow> wp (f a) Q (\<lambda>_ _. True) w'"
  shows "wp (seq (attempt m) f) Q (\<lambda>_ _. True) w"
  by (rule wp_seq_keep [where P = P]) (use assms in \<open>auto intro: preserves_attempt\<close>)

subsection \<open>When a stored resource is up to date\<close>

definition partition_current :: "(json \<Rightarrow> string) \<Rightarrow> enclave_state \<Rightarrow> partition \<Rightarrow> bool" where
  "partition_current digest st part \<longleftrightarrow>
     hash_matches (map_option ps_meta (hm_get (es_partitions st) (part_id part))) (partition_hash digest part)"

definition enclave_current :: "(json \<Rightarrow> string) \<Rightarrow> enclave_state \<Rightarrow> enclave \<Rightarrow> bool" where
  "enclave_current digest st enc \<longleftrightarrow>
     hash_matches (Some (es_meta st)) (enclave_hash digest enc) \<and>
     (\<forall>part \<in> set (enc_partitions enc). partition_current digest st part) \<and>
     (\<forall>x \<in> set (enc_exports enc). hm_get (es_exports st) (exp_name x) \<noteq> None)"

definition imports_wired :: "enclave_state \<Rightarrow> enclave \<Rightarrow> bool" where
  "imports_wired st enc \<longleftrightarrow> (\<forall>i \<in> set (imports_of enc). hm_get (es_imports st) (imp_alias i) \<noteq> None)"

lemma hash_matches_None [simp]: "\<not> hash_matches None h"
  by (simp add: hash_matches_def)

lemma hash_matches_mark_active [simp]: "hash_matches (Some (mark_active now h m)) h"
  by (simp add: hash_matches_def mark_active_def)

lemma partition_current_get: "partition_current digest st part \<Longrightarrow> hm_get (es_partitions st) (part_id part) \<noteq> None"
  by (cases "hm_get (es_partitions st) (part_id part)") (simp_all add: partition_current_def)

lemma concat_map_Nil: "concat (map f xs) = [] \<longleftrightarrow> (\<forall>x \<in> set xs. f x = [])"
  by auto

lemma partition_current_updates [simp]:
  "partition_current digest (st\<lparr>es_exports := xs\<rparr>) part = partition_current digest st part"
  "partition_current digest (st\<lparr>es_imports := is\<rparr>) part = partition_current digest st part"
  by (simp_all add: partition_current_def)

lemma diff_partition_Nil: "diff_partition digest (Some st) enc part = [] \<longleftrightarrow> partition_current digest st part"
  by (cases "hm_get (es_partitions st) (part_id part)")
    (simp_all add: diff_partition_def partition_current_def)

lemma diff_export_Nil: "diff_export (Some st) enc x = [] \<longleftrightarrow> hm_get (es_exports st) (exp_name x) \<noteq> None"
  by (simp add: diff_export_def)

lemma diff_enclave_Nil:
  "diff_enclave digest act enc = [] \<longleftrightarrow> (\<exists>st. hm_get act (enc_id enc) = Some st \<and> enclave_current digest st enc)"
  by (cases "hm_get act (enc_id enc)")
    (simp_all add: diff_enclave_def enclave_current_def Let_def concat_map_Nil diff_partition_Nil
      diff_export_Nil del: concat_eq_Nil_conv)

lemma diff_imports_Nil:
  "diff_imports act enc = [] \<longleftrightarrow> imports_of enc = [] \<or>
     (\<exists>st. hm_get act (enc_id enc) = Some st \<and> imports_wired st enc)"
  by (cases "hm_get act (enc_id enc)"; cases "imports_of enc")
    (simp_all add: diff_imports_def imports_wired_def concat_map_Nil del: concat_eq_Nil_conv)

subsection \<open>What an iteration over a partition may change\<close>

definition es_keeps :: "enclave_state \<Rightarrow> enclave_state \<Rightarrow> bool" where
  "es_keeps es es' \<longleftrightarrow> (\<exists>ps. es' = es\<lparr>es_partitions := ps\<rparr>)"

lemma es_keeps_refl [simp, intro]: "es_keeps es es"
  by (auto simp: es_keeps_def intro!: exI [of _ "es_partitions es"])

lemma es_keeps_trans: "es_keeps a b \<Longrightarrow> es_keeps b c \<Longrightarrow> es_keeps a c"
  by (auto simp: es_keeps_def)

lemma es_keepsD: "es_keeps es es' \<Longrightarrow> es_desired es' = es_desired es \<and> es_handle es' = es_handle es \<and>
    es_exports es' = es_exports es \<and> es_imports es' = es_imports es \<and> es_meta es' = es_meta es \<and>
    es_resolved_cloud es' = es_resolved_cloud es"
  by (auto simp: es_keeps_def)

lemma put_partition_simps [simp]:
  "hm_get (es_partitions (put_partition p ps es)) q = (if q = p then Some ps else hm_get (es_partitions es) q)"
  "es_keeps es (put_partition p ps es)" "es_desired (put_partition p ps es) = es_desired es"
  by (auto simp: put_partition_def hm_simps es_keeps_def)

definition other_partitions :: "partition_id \<Rightarrow> enclave_state \<Rightarrow> enclave_state \<Rightarrow> bool" where
  "other_partitions p es es' \<longleftrightarrow>
     es_keeps es es' \<and> (\<forall>q. q \<noteq> p \<longrightarrow> hm_get (es_partitions es') q = hm_get (es_partitions es) q)"

lemma other_partitions_trans:
  "other_partitions p a b \<Longrightarrow> other_partitions p b c \<Longrightarrow> other_partitions p a c"
  by (auto simp: other_partitions_def intro: es_keeps_trans)

lemma other_partitions_put [simp]:
  "other_partitions p es (put_partition p ps es)" "other_partitions p es es"
  by (auto simp: other_partitions_def)

text \<open>What is recorded of a partition: its configuration, the hash last applied and its outputs.\<close>

definition applied_hash :: "partition \<Rightarrow> enclave_state \<Rightarrow> string option" where
  "applied_hash part es = Option.bind (hm_get (es_partitions es) (part_id part)) (\<lambda>ps. meta_desired_hash (ps_meta ps))"

definition recorded_outputs :: "partition \<Rightarrow> enclave_state \<Rightarrow> (string, string) hashmap" where
  "recorded_outputs part es = (case hm_get (es_partitions es) (part_id part) of None \<Rightarrow> [] | Some ps \<Rightarrow> ps_outputs ps)"

text \<open>A partition that is being provisioned: nothing but its handle and its status has changed.\<close>

definition in_progress :: "partition \<Rightarrow> enclave_state \<Rightarrow> enclave_state \<Rightarrow> bool" where
  "in_progress part es es' \<longleftrightarrow> other_partitions (part_id part) es es' \<and>
     applied_hash part es' = applied_hash part es \<and> recorded_outputs part es' = recorded_outputs part es \<and>
     (\<exists>ps. hm_get (es_partitions es') (part_id part) = Some ps \<and> ps_desired ps = part)"

definition partition_failed :: "partition \<Rightarrow> string \<Rightarrow> enclave_state \<Rightarrow> enclave_state \<Rightarrow> bool" where
  "partition_failed part msg es es' \<longleftrightarrow> in_progress part es es' \<and>
     (\<exists>ps now. hm_get (es_partitions es') (part_id part) = Some ps \<and> meta_status (ps_meta ps) = InError \<and>
        meta_last_error (ps_meta ps) = Some \<lparr>rerr_message = msg, rerr_occurred_at = now\<rparr>)"

definition partition_message :: "enclave \<Rightarrow> partition \<Rightarrow> string \<Rightarrow> string" where
  "partition_message enc part msg =
     ''partition '' @ slash (eid_str (enc_id enc)) (pid_str (part_id part)) @ '': '' @ msg"

text \<open>
  The outcome of an iteration: the partition was up to date and nothing happens, or it is now
  active under its new hash, or its error is in the list and in its state.
\<close>

definition partition_outcome ::
  "(json \<Rightarrow> string) \<Rightarrow> enclave \<Rightarrow> partition \<Rightarrow> enclave_state \<Rightarrow> string list \<Rightarrow> enclave_state \<Rightarrow> string list \<Rightarrow> bool" where
  "partition_outcome digest enc part es errs es' errs' \<longleftrightarrow>
     partition_current digest es part \<and> es' = es \<and> errs' = errs \<or>
     \<not> partition_current digest es part \<and> errs' = errs \<and> other_partitions (part_id part) es es' \<and>
       partition_current digest es' part \<and>
       (\<exists>ps. hm_get (es_partitions es') (part_id part) = Some ps \<and> ps_desired ps = part \<and>
          meta_status (ps_meta ps) = Active \<and> ps_handle ps \<noteq> None) \<or>
     \<not> partition_current digest es part \<and>
       (\<exists>msg. errs' = errs @ [partition_message enc part msg] \<and> partition_failed part msg es es')"

lemma in_progress_flight:
  "in_progress part es (put_partition (part_id part) (in_flight_partition (hm_get (es_partitions es) (part_id part)) part) es)"
  by (auto simp: in_progress_def applied_hash_def recorded_outputs_def in_flight_partition_def
      new_partition_state_def default_meta_def Let_def split: option.split)

lemma in_progress_handle:
  assumes "in_progress part es es1"
  shows "in_progress part es (put_partition (part_id part) ((partition_entry es1 part)\<lparr>ps_handle := h\<rparr>) es1)"
  using assms
  by (auto simp: in_progress_def applied_hash_def recorded_outputs_def partition_entry_def
      intro: other_partitions_trans)

text \<open>A partition after the loop: as before when it was up to date, else under its new configuration.\<close>

definition partition_settled :: "(json \<Rightarrow> string) \<Rightarrow> partition \<Rightarrow> enclave_state \<Rightarrow> enclave_state \<Rightarrow> bool" where
  "partition_settled digest part es es' \<longleftrightarrow>
     (if partition_current digest es part
      then hm_get (es_partitions es') (part_id part) = hm_get (es_partitions es) (part_id part)
      else \<exists>ps. hm_get (es_partitions es') (part_id part) = Some ps \<and> ps_desired ps = part \<and>
        (if partition_current digest es' part then meta_status (ps_meta ps) = Active \<and> ps_handle ps \<noteq> None
         else meta_status (ps_meta ps) = InError \<and> meta_last_error (ps_meta ps) \<noteq> None))"

lemma partition_current_cong:
  "hm_get (es_partitions es') (part_id part) = hm_get (es_partitions es) (part_id part) \<Longrightarrow>
   partition_current digest es' part = partition_current digest es part"
  by (simp add: partition_current_def)

lemma partition_settled_cong:
  "hm_get (es_partitions es'') (part_id part) = hm_get (es_partitions es') (part_id part) \<Longrightarrow>
   partition_settled digest part es es'' = partition_settled digest part es es'"
  by (simp add: partition_settled_def partition_current_def)

lemma current_applied_hash:
  "partition_current digest es part \<longleftrightarrow> applied_hash part es = Some (partition_hash digest part)"
  by (cases "hm_get (es_partitions es) (part_id part)")
    (auto simp: partition_current_def hash_matches_def applied_hash_def split: option.split)

lemma outcome_settled:
  assumes "partition_outcome digest enc part es errs es' errs'"
  shows "other_partitions (part_id part) es es' \<and> partition_settled digest part es es' \<and>
    (\<exists>new. errs' = errs @ new \<and> (new = [] \<longleftrightarrow> partition_current digest es' part))"
proof (cases "partition_current digest es part \<or> errs' = errs")
  case True
  then show ?thesis using assms by (auto simp: partition_outcome_def partition_settled_def)
next
  case False
  then obtain msg where msg: "errs' = errs @ [partition_message enc part msg]" "partition_failed part msg es es'"
    and not_cur: "\<not> partition_current digest es part"
    using assms by (auto simp: partition_outcome_def)
  moreover have "\<not> partition_current digest es' part"
    using not_cur msg(2) by (simp add: current_applied_hash partition_failed_def in_progress_def)
  ultimately show ?thesis
    by (auto simp: partition_settled_def partition_failed_def in_progress_def)
qed

text \<open>What the loops over the partitions and over the exports of an enclave leave.\<close>

definition partitions_settled ::
  "(json \<Rightarrow> string) \<Rightarrow> partition list \<Rightarrow> enclave_state \<Rightarrow> string list \<Rightarrow> enclave_state \<Rightarrow> string list \<Rightarrow> bool" where
  "partitions_settled digest parts es errs es' errs' \<longleftrightarrow> es_keeps es es' \<and>
     (\<forall>q. q \<notin> part_id ` set parts \<longrightarrow> hm_get (es_partitions es') q = hm_get (es_partitions es) q) \<and>
     (\<forall>part \<in> set parts. partition_settled digest part es es') \<and>
     (\<exists>new. errs' = errs @ new \<and> (new = [] \<longleftrightarrow> (\<forall>part \<in> set parts. partition_current digest es' part)))"

lemma partitions_settled_Nil: "partitions_settled digest [] es errs es errs"
  by (simp add: partitions_settled_def)

lemma partitions_settled_snoc:
  assumes "partitions_settled digest ps es errs es1 errs1" "partition_outcome digest enc p es1 errs1 es2 errs2"
    and "part_id p \<notin> part_id ` set ps"
  shows "partitions_settled digest (ps @ [p]) es errs es2 errs2"
proof -
  note out = outcome_settled [OF assms(2)]
  have same: "hm_get (es_partitions es2) q = hm_get (es_partitions es1) q" if "q \<noteq> part_id p" for q
    using out that by (auto simp: other_partitions_def)
  have ne: "part_id x \<noteq> part_id p" if "x \<in> set ps" for x using assms(3) imageI [OF that, of part_id] by auto
  have p1: "hm_get (es_partitions es1) (part_id p) = hm_get (es_partitions es) (part_id p)"
    using assms(1,3) by (simp add: partitions_settled_def)
  have "partition_settled digest p es es2"
    using out unfolding partition_settled_def partition_current_cong [OF p1] p1 by blast
  moreover have "partition_settled digest x es es2" if "x \<in> set ps" for x
    using assms(1) that partition_settled_cong [OF same [OF ne [OF that]]] by (auto simp: partitions_settled_def)
  moreover have "partition_current digest es2 x = partition_current digest es1 x" if "x \<in> set ps" for x
    by (rule partition_current_cong) (rule same [OF ne [OF that]])
  moreover have "es_keeps es es2"
    using assms(1) out by (auto simp: partitions_settled_def other_partitions_def intro: es_keeps_trans)
  moreover obtain new1 where "errs1 = errs @ new1" "new1 = [] \<longleftrightarrow> (\<forall>x \<in> set ps. partition_current digest es1 x)"
    using assms(1) unfolding partitions_settled_def by blast
  moreover obtain new2 where "errs2 = errs1 @ new2" "new2 = [] \<longleftrightarrow> partition_current digest es2 p"
    using out by blast
  ultimately show ?thesis
    using assms(1) same by (auto simp: partitions_settled_def)
qed

definition exports_settled :: "export list \<Rightarrow> enclave_state \<Rightarrow> string list \<Rightarrow> enclave_state \<Rightarrow> string list \<Rightarrow> bool" where
  "exports_settled xs es errs es' errs' \<longleftrightarrow> (\<exists>m new. es' = es\<lparr>es_exports := m\<rparr> \<and> errs' = errs @ new \<and>
     (\<forall>k. hm_get (es_exports es) k \<noteq> None \<longrightarrow> hm_get m k \<noteq> None) \<and>
     (new = [] \<longrightarrow> (\<forall>x \<in> set xs. hm_get m (exp_name x) \<noteq> None)))"

lemma exports_settled_Nil: "exports_settled [] es errs es errs"
  by (auto simp: exports_settled_def intro!: exI [of _ "es_exports es"])

lemma exports_settled_snoc:
  assumes "exports_settled xs es errs es1 errs1"
    and "es2 = es1\<lparr>es_exports := hm_insert (exp_name x) h (es_exports es1)\<rparr> \<and> errs2 = errs1 \<or>
      es2 = es1 \<and> errs2 = errs1 @ [msg]"
  shows "exports_settled (xs @ [x]) es errs es2 errs2"
  using assms
  by (elim disjE) (force simp: exports_settled_def hm_simps)+

text \<open>The state of a desired enclave after its provisioning, from the state \<open>old\<close> that was stored.\<close>

definition prior_state :: "enclave_state option \<Rightarrow> enclave \<Rightarrow> enclave_state" where
  "prior_state old enc = (case old of None \<Rightarrow> new_enclave_state enc | Some s \<Rightarrow> s)"

definition enclave_outcome ::
  "(json \<Rightarrow> string) \<Rightarrow> cloud_target \<Rightarrow> enclave_state option \<Rightarrow> enclave \<Rightarrow> enclave_state \<Rightarrow> string list \<Rightarrow> bool" where
  "enclave_outcome digest cloud old enc st new \<longleftrightarrow>
     es_desired st = enc \<and> es_resolved_cloud st = Some cloud \<and> es_imports st = es_imports (prior_state old enc) \<and>
     (\<forall>q. q \<notin> part_id ` set (enc_partitions enc) \<longrightarrow>
        hm_get (es_partitions st) q = hm_get (es_partitions (prior_state old enc)) q) \<and>
     (meta_status (es_meta st) = InError \<and> meta_last_error (es_meta st) \<noteq> None \<and> new \<noteq> [] \<or>
      meta_status (es_meta st) = Active \<and> hash_matches (Some (es_meta st)) (enclave_hash digest enc) \<and>
      es_handle st \<noteq> None \<and>
      (\<forall>part \<in> set (enc_partitions enc). partition_settled digest part (prior_state old enc) st) \<and>
      (new = [] \<longrightarrow> enclave_current digest st enc))"

lemma in_flight_enclave_simps [simp]:
  "es_desired (in_flight_enclave reg old enc) = enc"
  "es_partitions (in_flight_enclave reg old enc) = es_partitions (prior_state old enc)"
  "es_exports (in_flight_enclave reg old enc) = es_exports (prior_state old enc)"
  "es_imports (in_flight_enclave reg old enc) = es_imports (prior_state old enc)"
  "es_resolved_cloud (in_flight_enclave reg old enc) = Some (resolved_cloud reg enc)"
  by (simp_all add: in_flight_enclave_def prior_state_def Let_def)

lemma partition_settled_from:
  "es_partitions es = es_partitions es0 \<Longrightarrow> partition_settled digest part es st = partition_settled digest part es0 st"
  by (simp add: partition_settled_def partition_current_def)

lemma enclave_outcome_provisioned:
  assumes "partitions_settled digest (enc_partitions enc) es2 errs es3 errs3"
    and "exports_settled (enc_exports enc) es3 errs3 es4 errs4"
    and "es2 = (in_flight_enclave reg old enc)\<lparr>es_handle := Some h,
      es_meta := mark_active now (enclave_hash digest enc) m\<rparr>"
  shows "\<exists>new. errs4 = errs @ new \<and> enclave_outcome digest (resolved_cloud reg enc) old enc es4 new"
proof -
  obtain n3 where n3: "errs3 = errs @ n3"
    "n3 = [] \<longleftrightarrow> (\<forall>part \<in> set (enc_partitions enc). partition_current digest es3 part)"
    using assms(1) unfolding partitions_settled_def by blast
  obtain xs n4 where n4: "es4 = es3\<lparr>es_exports := xs\<rparr>" "errs4 = errs3 @ n4"
    "n4 = [] \<longrightarrow> (\<forall>x \<in> set (enc_exports enc). hm_get xs (exp_name x) \<noteq> None)"
    using assms(2) unfolding exports_settled_def by blast
  have cur: "partition_current digest es4 part = partition_current digest es3 part" for part
    using n4(1) by (simp add: partition_current_def)
  have sett: "partition_settled digest part (prior_state old enc) es4" if "part \<in> set (enc_partitions enc)" for part
  proof -
    have "partition_settled digest part es2 es3" using assms(1) that unfolding partitions_settled_def by blast
    then have "partition_settled digest part (prior_state old enc) es3"
      using partition_settled_from [of es2 "prior_state old enc"] assms(3) by simp
    then show ?thesis using n4(1) partition_settled_cong [of es4 part es3] by simp
  qed
  have keeps: "es_keeps es2 es3" using assms(1) by (simp add: partitions_settled_def)
  have parts: "hm_get (es_partitions es4) q = hm_get (es_partitions (prior_state old enc)) q"
    if "q \<notin> part_id ` set (enc_partitions enc)" for q
    using assms(1,3) n4(1) that by (simp add: partitions_settled_def)
  have "enclave_outcome digest (resolved_cloud reg enc) old enc es4 (n3 @ n4)"
    using es_keepsD [OF keeps] n4(1,3) n3(2) assms(3) parts sett
    by (auto simp: enclave_outcome_def enclave_current_def cur mark_active_def hash_matches_def)
  then show ?thesis using n3(1) n4(2) by (intro exI [of _ "n3 @ n4"]) simp
qed

text \<open>The wiring of the imports of an enclave; \<open>E\<close> is what the store holds meanwhile.\<close>

definition import_available :: "(enclave_id \<Rightarrow> enclave_state option) \<Rightarrow> import \<Rightarrow> bool" where
  "import_available E i \<longleftrightarrow> (\<exists>s. E (imp_from i) = Some s \<and> hm_get (es_exports s) (imp_export_name i) \<noteq> None)"

definition wiring_outcome ::
  "(enclave_id \<Rightarrow> enclave_state option) \<Rightarrow> import list \<Rightarrow> enclave_state \<Rightarrow> string list \<Rightarrow> enclave_state \<Rightarrow> string list \<Rightarrow> bool"
where
  "wiring_outcome E is es errs es' errs' \<longleftrightarrow> (\<exists>m new. es' = es\<lparr>es_imports := m\<rparr> \<and> errs' = errs @ new \<and>
     (\<forall>k. hm_get (es_imports es) k \<noteq> None \<longrightarrow> hm_get m k \<noteq> None) \<and>
     (new = [] \<longrightarrow> (\<forall>i \<in> set is. import_available E i \<longrightarrow> hm_get m (imp_alias i) \<noteq> None)))"

lemma wiring_outcome_Nil: "wiring_outcome E [] es errs es errs"
  by (auto simp: wiring_outcome_def intro!: exI [of _ "es_imports es"])

lemma wiring_outcome_snoc:
  assumes "wiring_outcome E is es errs es1 errs1"
    and "es2 = es1\<lparr>es_imports := hm_insert (imp_alias i) h (es_imports es1)\<rparr> \<and> errs2 = errs1 \<or>
      es2 = es1 \<and> errs2 = errs1 @ [msg] \<or>
      es2 = es1 \<and> errs2 = errs1 \<and> (import_available E i \<longrightarrow> hm_get (es_imports es1) (imp_alias i) \<noteq> None)"
  shows "wiring_outcome E (is @ [i]) es errs es2 errs2"
  using assms by (elim disjE) (force simp: wiring_outcome_def hm_simps)+

text \<open>The states of the desired enclaves after provisioning, before their imports are wired.\<close>

definition enclave_settled ::
  "(json \<Rightarrow> string) \<Rightarrow> 'x driver_registry \<Rightarrow> enclave_state option \<Rightarrow> enclave \<Rightarrow> enclave_state option \<Rightarrow> bool" where
  "enclave_settled digest reg old enc now \<longleftrightarrow> (case for_enclave reg enc of
     Inl _ \<Rightarrow> now = old
   | Inr _ \<Rightarrow> \<exists>st new. now = Some st \<and> enclave_outcome digest (resolved_cloud reg enc) old enc st new)"

definition all_current :: "(json \<Rightarrow> string) \<Rightarrow> 'x driver_registry \<Rightarrow> (enclave_id \<Rightarrow> enclave_state option) \<Rightarrow> enclave list \<Rightarrow> bool" where
  "all_current digest reg E encs \<longleftrightarrow> (\<forall>enc \<in> set encs. (\<exists>d. for_enclave reg enc = Inr d) \<and>
     (\<exists>st. E (enc_id enc) = Some st \<and> enclave_current digest st enc \<and> meta_status (es_meta st) = Active))"

text \<open>The wiring changes the imports of stored enclaves only, and forgets none.\<close>

definition only_imports :: "(enclave_id \<Rightarrow> enclave_state option) \<Rightarrow> (enclave_id \<Rightarrow> enclave_state option) \<Rightarrow> bool" where
  "only_imports E E' \<longleftrightarrow> (\<forall>i. case E i of None \<Rightarrow> E' i = None
     | Some es \<Rightarrow> \<exists>m. E' i = Some (es\<lparr>es_imports := m\<rparr>) \<and> (\<forall>k. hm_get (es_imports es) k \<noteq> None \<longrightarrow> hm_get m k \<noteq> None))"

lemma only_imports_refl [simp]: "only_imports E E"
  by (auto simp: only_imports_def split: option.split) (metis enclave_state.surjective enclave_state.update_convs(5))

lemma only_imports_Some:
  "only_imports E E' \<Longrightarrow> E i = Some es \<Longrightarrow> \<exists>m. E' i = Some (es\<lparr>es_imports := m\<rparr>) \<and>
     (\<forall>k. hm_get (es_imports es) k \<noteq> None \<longrightarrow> hm_get m k \<noteq> None)"
  unfolding only_imports_def by (drule spec [of _ i]) simp

lemma only_imports_None: "only_imports E E' \<Longrightarrow> E i = None \<Longrightarrow> E' i = None"
  unfolding only_imports_def by (drule spec [of _ i]) simp

lemma only_imports_step:
  assumes "only_imports E E1" "E1 i = Some es" "es' = es\<lparr>es_imports := m\<rparr>"
    and "\<forall>k. hm_get (es_imports es) k \<noteq> None \<longrightarrow> hm_get m k \<noteq> None"
  shows "only_imports E (E1(i \<mapsto> es'))"
  unfolding only_imports_def
proof
  fix j
  show "case E j of None \<Rightarrow> (E1(i \<mapsto> es')) j = None | Some x \<Rightarrow> \<exists>m. (E1(i \<mapsto> es')) j = Some (x\<lparr>es_imports := m\<rparr>) \<and>
      (\<forall>k. hm_get (es_imports x) k \<noteq> None \<longrightarrow> hm_get m k \<noteq> None)"
  proof (cases "E j")
    case None
    then show ?thesis using assms(2) only_imports_None [OF assms(1)] by auto
  next
    case (Some x)
    then obtain n where n: "E1 j = Some (x\<lparr>es_imports := n\<rparr>)"
      "\<forall>k. hm_get (es_imports x) k \<noteq> None \<longrightarrow> hm_get n k \<noteq> None"
      using only_imports_Some [OF assms(1)] by blast
    then show ?thesis using Some assms(2-4) by (cases "j = i") auto
  qed
qed

lemma import_available_only: "only_imports E E' \<Longrightarrow> import_available E' i = import_available E i"
  by (auto simp: import_available_def only_imports_def split: option.splits dest!: spec [of _ "imp_from i"])

lemma enclave_current_imports [simp]:
  "enclave_current digest (st\<lparr>es_imports := m\<rparr>) enc = enclave_current digest st enc"
  by (simp add: enclave_current_def)

definition others_same :: "enclave_id \<Rightarrow> store_view \<Rightarrow> store_view \<Rightarrow> bool" where
  "others_same i v v' \<longleftrightarrow> (\<forall>j. j \<noteq> i \<longrightarrow> sv_enclaves v' j = sv_enclaves v j)"

lemma others_same_refl [simp, intro]: "others_same i v v"
  by (simp add: others_same_def)

lemma others_same_updates [simp]:
  "others_same i v (v'\<lparr>sv_events := evs\<rparr>) = others_same i v v'"
  "others_same i v (v'\<lparr>sv_runs := rs\<rparr>) = others_same i v v'"
  "others_same i v (v'\<lparr>sv_enclaves := (sv_enclaves v')(i := x)\<rparr>) = others_same i v v'"
  by (auto simp: others_same_def)

context state_store
begin

abbreviation frame :: "enclave_id \<Rightarrow> store_view \<Rightarrow> 's \<Rightarrow> bool" where
  "frame i v \<equiv> (\<lambda>s. inv s \<and> others_same i v (abs s))"

lemma frame_upsert:
  assumes "es_id st = i"
  shows "preserves (frame i v) (so_upsert_enclave ops st)"
  by (rule preservesI_wp) (use assms in \<open>auto intro: wp_mono [OF upsert_law]\<close>)

lemma frame_append: "preserves (frame i v) (so_append_event ops ev)"
  by (rule preservesI_wp) (auto intro: wp_mono [OF append_law])

lemma frame_run: "preserves (frame i v) (so_upsert_iac_run ops r)"
  by (rule preservesI_wp) (auto intro: wp_mono [OF run_law])

lemma frame_st_do: "preserves P m \<Longrightarrow> preserves (on_store P) (st_do m)"
  unfolding st_do_def by (intro preserves_intros preserves_store_do)

lemma frame_emit:
  assumes "sys_store sys = ops"
  shows "preserves (on_store (frame i v)) (emit sys ev)"
  unfolding emit_def assms by (intro preserves_intros frame_st_do frame_append)

lemma frame_tf_provision:
  assumes "sys_store sys = ops"
  shows "preserves (on_store (frame i v)) (tf_provision sys b enc part inputs env rid)"
  by (rule tf_provision_preserves) (simp add: assms frame_run)

lemma provision_with_identity_wp:
  assumes "sys_store sys = ops" "es_id es = i" "on_store (frame i v) w" "in_progress part es0 es"
  shows "wp (provision_with_identity sys b driver enc rid part inputs es sa)
    (\<lambda>(res, es') w'. on_store (frame i v) w' \<and> in_progress part es0 es') (\<lambda>_ _. True) w"
proof -
  let ?es = "put_partition (part_id part) ((partition_entry es part)\<lparr>ps_handle := Some (pr_handle sa)\<rparr>) es"
  note [intro] = in_progress_handle [OF assms(4)]
  show ?thesis
    unfolding provision_with_identity_def Let_def
  proof (rule wp_attempt_keep [where P = "on_store (frame i v)"], goal_cases)
    case 1
    show ?case by (intro frame_st_do) (use assms in \<open>simp add: frame_upsert\<close>)
  next
    case 2
    show ?case by (rule assms(3))
  next
    case (3 a w1)
    show ?case
      by (rule wp_attempt_keep [where P = "on_store (frame i v)"])
        (use 3 in \<open>auto intro!: frame_tf_provision assms(1) simp: merge_sa_def wp_simps
          split: sum.split option.split\<close>)
  qed
qed

lemma record_partition_wp:
  assumes "sys_store sys = ops" "on_store (frame i v) w" "in_progress part es0 es"
    and "\<not> partition_current (sys_digest sys) es0 part"
  shows "wp (record_partition sys enc part res es errs)
    (\<lambda>(es', errs') w'. on_store (frame i v) w' \<and> partition_outcome (sys_digest sys) enc part es0 errs es' errs')
    (\<lambda>_ _. True) w"
proof (cases res)
  case (Inr r)
  note fl = frame_emit [OF assms(1)]
  obtain ps where ps: "hm_get (es_partitions es) (part_id part) = Some ps" "ps_desired ps = part"
    and oth: "other_partitions (part_id part) es0 es"
    using assms(3) by (auto simp: in_progress_def)
  have "wp (seq (emit sys ev) (\<lambda>_. ret (put_partition (part_id part) (ps\<lparr>ps_handle := Some h, ps_outputs := out,
      ps_meta := mark_active now (partition_hash (sys_digest sys) part) m\<rparr>) es, errs)))
    (\<lambda>(es', errs') w'. on_store (frame i v) w' \<and> partition_outcome (sys_digest sys) enc part es0 errs es' errs')
    (\<lambda>_ _. True) w'" if w': "on_store (frame i v) w'" for ev h out now m w'
    using assms(4) ps other_partitions_trans [OF oth other_partitions_put(1)]
    by (intro wp_seq_keep [OF fl w']) (auto simp: wp_ret partition_outcome_def partition_current_def mark_active_def
        hash_matches_def)
  then show ?thesis
    using assms(2) ps(1) Inr by (simp add: record_partition_def wp_simps Let_def partition_entry_def)
next
  case (Inl msg)
  note fl = frame_emit [OF assms(1)]
  obtain ps where ps: "hm_get (es_partitions es) (part_id part) = Some ps" "ps_desired ps = part"
    using assms(3) by (auto simp: in_progress_def)
  have fail: "partition_failed part msg es0 (put_partition (part_id part) (ps\<lparr>ps_meta := mark_error now msg (ps_meta ps)\<rparr>) es)"
    for now
    using assms(3) ps by (auto simp: partition_failed_def in_progress_def mark_error_def applied_hash_def
        recorded_outputs_def intro: other_partitions_trans)
  have "wp (seq (emit sys ev) (\<lambda>_. ret (put_partition (part_id part) (ps\<lparr>ps_meta := mark_error now msg (ps_meta ps)\<rparr>) es,
      errs @ [partition_message enc part msg])))
    (\<lambda>(es', errs') w'. on_store (frame i v) w' \<and> partition_outcome (sys_digest sys) enc part es0 errs es' errs')
    (\<lambda>_ _. True) w'" if w': "on_store (frame i v) w'" for ev now w'
    using assms(4) fail by (intro wp_seq_keep [OF fl w']) (auto simp: wp_ret partition_outcome_def)
  then show ?thesis
    using assms(2) ps(1) Inl
    by (simp add: record_partition_def wp_simps Let_def partition_entry_def partition_message_def)
qed

lemma provision_partition_wp:
  assumes "sys_store sys = ops" "es_id es = i" "on_store (frame i v) w"
  shows "wp (provision_partition_step sys b driver enc rid part (es, errs))
    (\<lambda>(es', errs') w'. on_store (frame i v) w' \<and> partition_outcome (sys_digest sys) enc part es errs es' errs')
    (\<lambda>_ _. True) w"
proof (cases "partition_current (sys_digest sys) es part")
  case True
  then show ?thesis
    using assms(3) by (simp add: provision_partition_step_def partition_current_def wp_ret partition_outcome_def)
next
  case False
  let ?ps = "in_flight_partition (hm_get (es_partitions es) (part_id part)) part"
  let ?es1 = "put_partition (part_id part) ?ps es"
  have id1: "es_id ?es1 = i" using assms(2) by simp
  have up: "preserves (on_store (frame i v)) (st_do (so_upsert_enclave (sys_store sys) ?es1))"
    by (intro frame_st_do) (use assms(1) id1 in \<open>simp add: frame_upsert\<close>)
  show ?thesis
    unfolding provision_partition_step_def Let_def prod.case if_not_P [OF False [unfolded partition_current_def]]
  proof (rule wp_seq_keep [OF up assms(3)], goal_cases)
    case (1 u w1)
    show ?case
    proof (rule wp_attempt_keep [where P = "on_store (frame i v)"], goal_cases)
      case (3 r w2)
      show ?case
      proof (rule wp_seqI [where R = "\<lambda>(res, es'). \<lambda>w'. on_store (frame i v) w' \<and> in_progress part es es'"], goal_cases)
        case 1
        show ?case
        proof (cases r)
          case (Inl e)
          then show ?thesis using 3 in_progress_flight by (simp add: wp_ret)
        next
          case (Inr sa)
          then show ?thesis
            using provision_with_identity_wp [OF assms(1) id1 3 in_progress_flight] by simp
        qed
      next
        case (2 a w3)
        then show ?case
          using record_partition_wp [OF assms(1) _ _ False, where es = "snd a" and res = "fst a" and w = w3
            and i = i and v = v and enc = enc and errs = errs]
          by (cases a) simp
      qed
    qed (use 1 in \<open>auto intro: preserves_intros\<close>)
  qed
qed

lemma provision_partitions_wp:
  assumes "sys_store sys = ops" "es_id es = i" "on_store (frame i v) w" "distinct (map part_id parts)"
  shows "wp (foldM (provision_partition_step sys b driver enc rid) parts (es, errs))
    (\<lambda>(es', errs') w'. on_store (frame i v) w' \<and> partitions_settled (sys_digest sys) parts es errs es' errs')
    (\<lambda>_ _. True) w"
proof (rule wp_foldM_prefix [where I = "\<lambda>ps (es', errs') w'. on_store (frame i v) w' \<and>
      partitions_settled (sys_digest sys) ps es errs es' errs'"], goal_cases)
  case 1
  then show ?case using assms by (simp add: partitions_settled_Nil)
next
  case (2 us x vs acc w1)
  obtain es1 errs1 where acc: "acc = (es1, errs1)" by (cases acc)
  have inv1: "on_store (frame i v) w1" and settled: "partitions_settled (sys_digest sys) us es errs es1 errs1"
    using 2 acc by auto
  have id1: "es_id es1 = i"
    using settled assms(2) es_keepsD [of es es1] by (simp add: partitions_settled_def)
  have new: "part_id x \<notin> part_id ` set us" using assms(4) 2(1) by auto
  show ?case unfolding acc
    by (rule wp_mono [OF provision_partition_wp [OF assms(1) id1 inv1]])
      (auto intro: partitions_settled_snoc [OF settled _ new])
qed

lemma provision_exports_wp:
  assumes "sys_store sys = ops" "on_store (frame i v) w"
  shows "wp (foldM (provision_export_step sys driver enc) xs (es, errs))
    (\<lambda>(es', errs') w'. on_store (frame i v) w' \<and> exports_settled xs es errs es' errs') (\<lambda>_ _. True) w"
proof (rule wp_foldM_prefix [where I = "\<lambda>xs (es', errs') w'. on_store (frame i v) w' \<and>
      exports_settled xs es errs es' errs'"], goal_cases)
  case 1
  then show ?case using assms by (simp add: exports_settled_Nil)
next
  case (2 us x vs acc w1)
  obtain es1 errs1 where acc: "acc = (es1, errs1)" by (cases acc)
  have inv1: "on_store (frame i v) w1" and settled: "exports_settled us es errs es1 errs1"
    using 2 acc by auto
  note snoc = exports_settled_snoc [OF settled]
  show ?case unfolding acc provision_export_step_def prod.case Let_def
  proof (rule wp_attempt_keep [where P = "on_store (frame i v)"], goal_cases)
    case (3 r w2)
    show ?case
    proof (cases r)
      case (Inl e)
      then show ?thesis using 3 snoc by (simp add: wp_ret)
    next
      case (Inr res)
      then show ?thesis
        using 3 snoc by (auto simp: wp_ret intro!: wp_seq_keep [OF frame_emit [OF assms(1)]])
    qed
  qed (use inv1 in \<open>auto intro: preserves_intros\<close>)
qed

lemma upsert_st_do_wp:
  assumes "sys_store sys = ops" "es_id st = i" "on_store (frame i v) w"
  shows "wp (st_do (so_upsert_enclave (sys_store sys) st))
    (\<lambda>_ w'. on_store (frame i v) w' \<and> sv_enclaves (abs (w_store w')) i = Some st) (\<lambda>_ _. True) w"
  unfolding st_do_def assms(1) wp_simps
  by (rule wp_mono [OF upsert_law]) (use assms in auto)

text \<open>An event leaves the enclaves alone.\<close>

lemma emit_enclaves_wp:
  assumes "sys_store sys = ops" "on_store (\<lambda>s. inv s \<and> R (sv_enclaves (abs s))) w"
  shows "wp (emit sys ev) (\<lambda>_. on_store (\<lambda>s. inv s \<and> R (sv_enclaves (abs s)))) (\<lambda>_ _. True) w"
  unfolding emit_def st_do_def assms(1) wp_simps
  by (rule wp_mono [OF append_law]) (use assms(2) in auto)

lemma provision_enclave_wp:
  assumes "sys_store sys = ops" "on_store (frame (enc_id enc) v) w"
    and "for_enclave (sys_registry sys) enc = Inr driver" "distinct (map part_id (enc_partitions enc))"
  shows "wp (provision_enclave_step sys b rid act enc errs)
    (\<lambda>errs' w'. on_store (frame (enc_id enc) v) w' \<and> (\<exists>st new. errs' = errs @ new \<and>
       sv_enclaves (abs (w_store w')) (enc_id enc) = Some st \<and>
       enclave_outcome (sys_digest sys) (resolved_cloud (sys_registry sys) enc) (hm_get act (enc_id enc)) enc st new))
    (\<lambda>_ _. True) w"
proof -
  let ?es1 = "in_flight_enclave (sys_registry sys) (hm_get act (enc_id enc)) enc"
  let ?P = "on_store (frame (enc_id enc) v)"
  let ?Q = "\<lambda>errs' w'. ?P w' \<and> (\<exists>st new. errs' = errs @ new \<and>
       sv_enclaves (abs (w_store w')) (enc_id enc) = Some st \<and>
       enclave_outcome (sys_digest sys) (resolved_cloud (sys_registry sys) enc) (hm_get act (enc_id enc)) enc st new)"
  have up: "preserves ?P (st_do (so_upsert_enclave (sys_store sys) ?es1))"
    by (intro frame_st_do) (use assms(1) in \<open>simp add: frame_upsert\<close>)
  have failed: "wp (seq (utc_now sys) (\<lambda>now.
        seq (st_do (so_upsert_enclave (sys_store sys) (?es1\<lparr>es_meta := mark_error now msg (es_meta ?es1)\<rparr>))) (\<lambda>_.
        seq (emit sys (ev now)) (\<lambda>_. ret (errs @ [m]))))) ?Q (\<lambda>_ _. True) w'" if w': "?P w'" for msg ev m w'
  proof -
    let ?st = "\<lambda>now. ?es1\<lparr>es_meta := mark_error now msg (es_meta ?es1)\<rparr>"
    have out: "enclave_outcome (sys_digest sys) (resolved_cloud (sys_registry sys) enc) (hm_get act (enc_id enc)) enc
      (?st now) [m]" for now
      by (simp add: enclave_outcome_def mark_error_def)
    have id: "es_id (?st now) = enc_id enc" for now by simp
    let ?R = "\<lambda>now encs. (\<forall>j. j \<noteq> enc_id enc \<longrightarrow> encs j = sv_enclaves v j) \<and> encs (enc_id enc) = Some (?st now)"
    show ?thesis
    proof (rule wp_seqI [where R = "\<lambda>now. ?P"], goal_cases)
      case 1
      then show ?case using w' by (simp add: wp_simps)
    next
      case (2 now w2)
      show ?case
      proof (rule wp_seqI [OF upsert_st_do_wp [OF assms(1) id 2]], goal_cases)
        case (1 u w3)
        then have R: "on_store (\<lambda>s. inv s \<and> ?R now (sv_enclaves (abs s))) w3" by (simp add: others_same_def)
        show ?case
          by (rule wp_seqI [OF emit_enclaves_wp [OF assms(1), where R = "?R now", OF R]]) (use out in \<open>auto simp: wp_ret others_same_def\<close>)
      qed
    qed
  qed
  have provisioned: "wp (seq (utc_now sys) (\<lambda>now.
        let es2 = ?es1\<lparr>es_handle := Some (pr_handle result),
              es_meta := mark_active now (enclave_hash (sys_digest sys) enc) (es_meta ?es1)\<rparr>
        in seq (foldM (provision_partition_step sys b driver enc rid) (enc_partitions enc) (es2, errs)) (\<lambda>acc.
           seq (foldM (provision_export_step sys driver enc) (enc_exports enc) acc) (\<lambda>(es4, errs').
           seq (emit sys ev) (\<lambda>_.
           seq (st_do (so_upsert_enclave (sys_store sys) es4)) (\<lambda>_. ret errs')))))) ?Q (\<lambda>_ _. True) w'"
    if w': "?P w'" for result ev w'
  proof (rule wp_seqI [where R = "\<lambda>now. ?P"], goal_cases)
    case 1
    then show ?case using w' by (simp add: wp_simps)
  next
    case (2 now w2)
    let ?es2 = "?es1\<lparr>es_handle := Some (pr_handle result),
              es_meta := mark_active now (enclave_hash (sys_digest sys) enc) (es_meta ?es1)\<rparr>"
    have id2: "es_id ?es2 = enc_id enc" by simp
    show ?case unfolding Let_def
    proof (rule wp_seqI [OF provision_partitions_wp [OF assms(1) id2 2 assms(4)]], goal_cases)
      case (1 acc w3)
      obtain es3 errs3 where acc: "acc = (es3, errs3)" by (cases acc)
      with 1 have w3: "?P w3" and ps: "partitions_settled (sys_digest sys) (enc_partitions enc) ?es2 errs es3 errs3"
        by auto
      show ?case unfolding acc
      proof (rule wp_seqI [OF provision_exports_wp [OF assms(1) w3]], goal_cases)
        case (1 a w4)
        obtain es4 errs4 where a: "a = (es4, errs4)" by (cases a)
        with 1 have w4: "?P w4" and xs: "exports_settled (enc_exports enc) es3 errs3 es4 errs4" by auto
        from enclave_outcome_provisioned [OF ps xs refl]
        obtain new where new: "errs4 = errs @ new" "enclave_outcome (sys_digest sys)
            (resolved_cloud (sys_registry sys) enc) (hm_get act (enc_id enc)) enc es4 new" by blast
        have id4: "es_id es4 = enc_id enc" using new(2) by (simp add: enclave_outcome_def)
        show ?case unfolding a prod.case
        proof (rule wp_seq_keep [OF frame_emit [OF assms(1)] w4], goal_cases)
          case (1 u w5)
          show ?case
            by (rule wp_seqI [OF upsert_st_do_wp [OF assms(1) id4 1]]) (use new in \<open>auto simp: wp_ret\<close>)
        qed
      qed
    qed
  qed
  show ?thesis
    unfolding provision_enclave_step_def assms(3) sum.case Let_def
  proof (rule wp_seq_keep [OF up assms(2)], rule wp_attempt_keep [where P = ?P], goal_cases)
    case (3 u w1 r w2)
    then show ?case using failed provisioned by (cases r) (simp_all add: Let_def)
  qed (auto intro: preserves_intros)
qed

text \<open>The wiring of the imports of one enclave, and of all.\<close>

lemma wire_imports_wp:
  assumes "sys_store sys = ops" "on_store (\<lambda>s. inv s \<and> sv_enclaves (abs s) = E) w"
  shows "wp (foldM (wire_import_step sys driver enc) is (es, False, errs))
    (\<lambda>(es', changed, errs') w'. on_store (\<lambda>s. inv s \<and> sv_enclaves (abs s) = E) w' \<and>
       wiring_outcome E is es errs es' errs' \<and> (changed \<or> es' = es)) (\<lambda>_ _. True) w"
proof (rule wp_foldM_prefix [where I = "\<lambda>is (es', changed, errs') w'. on_store (\<lambda>s. inv s \<and> sv_enclaves (abs s) = E) w' \<and>
       wiring_outcome E is es errs es' errs' \<and> (changed \<or> es' = es)"], goal_cases)
  case 1
  then show ?case using assms by (simp add: wiring_outcome_Nil)
next
  case (2 us i vs acc w1)
  let ?P = "on_store (\<lambda>s. inv s \<and> sv_enclaves (abs s) = E)"
  obtain es1 ch errs1 where acc: "acc = (es1, ch, errs1)" by (cases acc)
  have w1: "?P w1" and out: "wiring_outcome E us es errs es1 errs1" "ch \<or> es1 = es"
    using 2 acc by auto
  note snoc = wiring_outcome_snoc [OF out(1)]
  have wired: "wiring_outcome E (us @ [i]) es errs
      (es1\<lparr>es_imports := hm_insert (imp_alias i) h (es_imports es1)\<rparr>) errs1" for h
    by (rule snoc) (rule disjI1, simp)
  let ?Q = "\<lambda>(es', changed, errs') w'. ?P w' \<and> wiring_outcome E (us @ [i]) es errs es' errs' \<and> (changed \<or> es' = es)"
  have inner: "wp (case Option.bind exporter (\<lambda>s. hm_get (es_exports s) (imp_export_name i)) of
      None \<Rightarrow> ret (es1, ch, errs1)
    | Some h \<Rightarrow> seq (attempt (ext_do (drv_provision_import driver enc i h (hm_get (es_imports es1) (imp_alias i))))) (\<lambda>r.
        case r of
          Inr result \<Rightarrow> seq (emit sys (\<lambda>u t. ImportWired u t (enc_id enc) (imp_export_name i))) (\<lambda>_.
            ret (es1\<lparr>es_imports := hm_insert (imp_alias i) (pr_handle result) (es_imports es1)\<rparr>, True, errs1))
        | Inl e \<Rightarrow> ret (es1, ch, errs1 @ [''import '' @ slash (eid_str (enc_id enc)) (imp_alias i) @ '': '' @
            driver_error_str e]))) ?Q (\<lambda>_ _. True) w2"
    if exporter: "exporter = E (imp_from i)" and w2: "?P w2" for exporter w2
  proof (cases "Option.bind exporter (\<lambda>s. hm_get (es_exports s) (imp_export_name i))")
    case None
    then have "\<not> import_available E i" using exporter by (auto simp: import_available_def)
    then show ?thesis using None w2 out(2) snoc by (simp add: wp_ret)
  next
    case (Some h)
    show ?thesis unfolding Some option.case
    proof (rule wp_attempt_keep [where P = ?P], goal_cases)
      case (3 r w3)
      show ?case
      proof (cases r)
        case (Inl e)
        then show ?thesis using 3 out(2) snoc by (simp add: wp_ret)
      next
        case (Inr res)
        show ?thesis unfolding Inr sum.case
          by (rule wp_seqI [OF emit_enclaves_wp [OF assms(1), where R = "\<lambda>e. e = E", OF 3]])
            (use wired in \<open>auto simp: wp_ret\<close>)
      qed
    qed (use w2 in \<open>auto intro: preserves_intros\<close>)
  qed
  show ?case
  proof (cases "hm_contains (es_imports es1) (imp_alias i)")
    case True
    then show ?thesis
      using w1 out(2) snoc by (simp add: acc wire_import_step_def wp_ret hm_contains_def)
  next
    case False
    have "wp (st_do (so_get_enclave (sys_store sys) (imp_from i)))
        (\<lambda>r w'. ?P w' \<and> r = E (imp_from i)) (\<lambda>_ _. True) w1"
      unfolding st_do_def assms(1) wp_simps by (rule wp_mono [OF get_law]) (use w1 in auto)
    from wp_seqI [OF this inner] show ?thesis
      using False by (simp add: acc wire_import_step_def)
  qed
qed

lemma wire_enclave_wp:
  assumes "sys_store sys = ops" "inv (w_store w)" "sv_enclaves (abs (w_store w)) = E"
  shows "wp (wire_enclave_step sys enc errs)
    (\<lambda>errs' w'. inv (w_store w') \<and> (sv_enclaves (abs (w_store w')) = E \<and> errs' = errs \<and>
         (E (enc_id enc) = None \<or> (\<exists>e. for_enclave (sys_registry sys) enc = Inl e)) \<or>
       (\<exists>es es'. E (enc_id enc) = Some es \<and> sv_enclaves (abs (w_store w')) = E(enc_id enc \<mapsto> es') \<and>
          wiring_outcome E (imports_of enc) es errs es' errs')))
    (\<lambda>_ _. True) w"
proof (cases "for_enclave (sys_registry sys) enc")
  case (Inl e)
  then show ?thesis using assms by (simp add: wire_enclave_step_def wp_ret)
next
  case (Inr driver)
  let ?P = "on_store (\<lambda>s. inv s \<and> sv_enclaves (abs s) = E)"
  have w: "?P w" using assms by simp
  have get: "wp (st_do (so_get_enclave (sys_store sys) (enc_id enc)))
      (\<lambda>r w'. ?P w' \<and> r = E (enc_id enc)) (\<lambda>_ _. True) w"
    unfolding st_do_def assms(1) wp_simps by (rule wp_mono [OF get_law]) (use w in auto)
  show ?thesis
    unfolding wire_enclave_step_def Inr sum.case
  proof (rule wp_seqI [OF get], goal_cases)
    case (1 o_es w1)
    show ?case
    proof (cases o_es)
      case None
      then show ?thesis using 1 by (simp add: wp_ret)
    next
      case (Some es)
      have id: "es_id es = enc_id enc"
        using 1 Some inv_ok [of "w_store w1"] by (simp add: view_ok_def)
      have upd: "wp (st_do (so_upsert_enclave (sys_store sys) es'))
          (\<lambda>_ w'. inv (w_store w') \<and> sv_enclaves (abs (w_store w')) = E(enc_id enc \<mapsto> es')) (\<lambda>_ _. True) w2"
        if "?P w2" "es_id es' = enc_id enc" for es' w2
        unfolding st_do_def assms(1) wp_simps by (rule wp_mono [OF upsert_law]) (use that in auto)
      show ?thesis unfolding Some option.case
      proof (rule wp_seqI [OF wire_imports_wp [OF assms(1) conjunct1 [OF 1]]], goal_cases)
        case (1 a w2)
        obtain es' ch errs' where a: "a = (es', ch, errs')" by (cases a)
        then have w2: "?P w2" and out: "wiring_outcome E (imports_of enc) es errs es' errs'" "ch \<or> es' = es"
          using 1 by auto
        have id': "es_id es' = enc_id enc" using out(1) id by (auto simp: wiring_outcome_def)
        have E: "E (enc_id enc) = Some es" using Some \<open>?P w1 \<and> o_es = E (enc_id enc)\<close> by simp
        show ?case
        proof (cases ch)
          case True
          then show ?thesis unfolding a prod.case if_P [OF True]
            by (intro wp_seqI [OF upd [OF w2 id']]) (use out(1) E in \<open>auto simp: wp_ret\<close>)
        next
          case False
          then show ?thesis using a w2 out E by (auto simp: wp_ret intro!: exI [of _ es])
        qed
      qed
    qed
  qed
qed

text \<open>Tearing down removed enclaves: they are gone, every other one is untouched.\<close>

lemma enclaves_kept:
  "preserves (\<lambda>s. inv s \<and> sv_enclaves (abs s) = E) (so_upsert_iac_run ops r)"
  by (rule preservesI_wp) (auto intro: wp_mono [OF run_law])

lemma teardown_partitions_keep:
  assumes "sys_store sys = ops"
  shows "preserves (on_store (\<lambda>s. inv s \<and> sv_enclaves (abs s) = E))
    (foldM (teardown_partition_step sys b driver env existing rid eid) ps errs)"
proof (rule preserves_foldM)
  fix x errs
  show "preserves (on_store (\<lambda>s. inv s \<and> sv_enclaves (abs s) = E))
      (teardown_partition_step sys b driver env existing rid eid x errs)"
    unfolding teardown_partition_step_def
    by (cases x) (simp only: prod.case Let_def, intro preserves_intros tf_teardown_preserves,
        simp add: assms enclaves_kept)
qed

lemma teardown_enclave_wp:
  assumes "sys_store sys = ops" "inv (w_store w)" "hm_get act eid \<noteq> None"
  shows "wp (teardown_enclave_step sys b req rid act eid errs)
    (\<lambda>_ w'. inv (w_store w') \<and> sv_enclaves (abs (w_store w')) = (sv_enclaves (abs (w_store w)))(eid := None))
    (\<lambda>_ _. True) w"
proof -
  let ?P = "on_store (\<lambda>s. inv s \<and> sv_enclaves (abs s) = sv_enclaves (abs (w_store w)))"
  obtain existing where ex: "hm_get act eid = Some existing" using assms(3) by auto
  have del: "wp (st_do (so_delete_enclave (sys_store sys) eid)) (\<lambda>_ w'. inv (w_store w') \<and>
      sv_enclaves (abs (w_store w')) = (sv_enclaves (abs (w_store w)))(eid := None)) (\<lambda>_ _. True) w1" if "?P w1" for w1
    unfolding st_do_def assms(1) wp_simps by (rule wp_mono [OF delete_law]) (use that in auto)
  show ?thesis
    unfolding teardown_enclave_step_def ex option.case Let_def
    by (rule wp_seq_keep [where P = ?P])
      (use assms(2) in \<open>auto intro!: preserves_intros teardown_partitions_keep [OF assms(1)] wp_seqI [OF del] simp: wp_ret\<close>)
qed

lemma teardown_all_wp:
  assumes "sys_store sys = ops" "inv (w_store w)" "sv_enclaves (abs (w_store w)) = hm_get act"
    and "set ids \<subseteq> dom (hm_get act)"
  shows "wp (foldM (teardown_enclave_step sys b req rid act) ids errs)
    (\<lambda>_ w'. inv (w_store w') \<and> sv_enclaves (abs (w_store w')) = (hm_get act) |` (- set ids)) (\<lambda>_ _. True) w"
proof (rule wp_foldM_prefix [where I = "\<lambda>us _ w'. inv (w_store w') \<and>
      sv_enclaves (abs (w_store w')) = (hm_get act) |` (- set us)"], goal_cases)
  case 1
  then show ?case using assms(2,3) by (simp add: restrict_map_def)
next
  case (2 us x vs a w1)
  then have "hm_get act x \<noteq> None" using assms(4) by auto
  from teardown_enclave_wp [OF assms(1) conjunct1 [OF 2(2)] this]
  show ?case
    by (rule wp_mono) (use 2(2) in \<open>auto simp: restrict_map_def fun_eq_iff\<close>)
qed

text \<open>Provisioning all enclaves, from the states \<open>act\<close> that were listed before.\<close>

lemma provision_all_wp:
  assumes "sys_store sys = ops" "inv (w_store w)" "sv_enclaves (abs (w_store w)) = E"
    and "distinct (map enc_id encs)" "\<forall>enc \<in> set encs. distinct (map part_id (enc_partitions enc))"
    and "\<forall>enc \<in> set encs. E (enc_id enc) = hm_get act (enc_id enc)"
  shows "wp (foldM (provision_enclave_step sys b rid act) encs errs)
    (\<lambda>errs' w'. inv (w_store w') \<and>
       (\<forall>i. i \<notin> enc_id ` set encs \<longrightarrow> sv_enclaves (abs (w_store w')) i = E i) \<and>
       (\<forall>enc \<in> set encs. enclave_settled (sys_digest sys) (sys_registry sys) (hm_get act (enc_id enc)) enc
          (sv_enclaves (abs (w_store w')) (enc_id enc))) \<and>
       (errs' = [] \<longrightarrow> all_current (sys_digest sys) (sys_registry sys) (sv_enclaves (abs (w_store w'))) encs))
    (\<lambda>_ _. True) w"
    (is "wp _ (?I encs) _ _")
proof (rule wp_foldM_prefix [where I = ?I], goal_cases)
  case 1
  then show ?case using assms(2,3) by (simp add: all_current_def)
next
  case (2 us x vs errs1 w1)
  let ?V = "\<lambda>w. sv_enclaves (abs (w_store w))"
  have inv1: "inv (w_store w1)"
    and same: "\<And>i. i \<notin> enc_id ` set us \<Longrightarrow> ?V w1 i = E i"
    and settled: "\<And>enc. enc \<in> set us \<Longrightarrow> enclave_settled (sys_digest sys) (sys_registry sys)
        (hm_get act (enc_id enc)) enc (?V w1 (enc_id enc))"
    and cur: "errs1 = [] \<Longrightarrow> all_current (sys_digest sys) (sys_registry sys) (?V w1) us"
    using 2(2) by auto
  have x: "x \<in> set encs" "enc_id x \<notin> enc_id ` set us" using 2(1) assms(4) by auto
  have ne: "enc_id enc \<noteq> enc_id x" if "enc \<in> set us" for enc
    using x(2) imageI [OF that, of enc_id] by auto
  show ?case
  proof (cases "for_enclave (sys_registry sys) x")
    case (Inl e)
    have "enclave_settled (sys_digest sys) (sys_registry sys) (hm_get act (enc_id x)) x (?V w1 (enc_id x))"
      using Inl same [OF x(2)] assms(6) x(1) by (simp add: enclave_settled_def)
    then show ?thesis
      using Inl inv1 same settled by (auto simp: provision_enclave_step_def wp_ret)
  next
    case (Inr driver)
    have fr: "on_store (frame (enc_id x) (abs (w_store w1))) w1" using inv1 by simp
    have dp: "distinct (map part_id (enc_partitions x))" using assms(5) x(1) by auto
    show ?thesis
    proof (rule wp_mono [OF provision_enclave_wp [OF assms(1) fr Inr dp]], goal_cases)
      case (1 errs2 w2)
      then obtain st new where w2: "inv (w_store w2)" "\<And>j. j \<noteq> enc_id x \<Longrightarrow> ?V w2 j = ?V w1 j"
        and st: "errs2 = errs1 @ new" "?V w2 (enc_id x) = Some st" "enclave_outcome (sys_digest sys)
            (resolved_cloud (sys_registry sys) x) (hm_get act (enc_id x)) x st new"
        by (auto simp: others_same_def)
      have settled_x: "enclave_settled (sys_digest sys) (sys_registry sys) (hm_get act (enc_id x)) x (?V w2 (enc_id x))"
        using st(2,3) Inr by (auto simp: enclave_settled_def)
      have "all_current (sys_digest sys) (sys_registry sys) (?V w2) (us @ [x])" if "errs2 = []"
      proof -
        have "new = []" "errs1 = []" using that st(1) by auto
        then show ?thesis
          using cur st(2,3) Inr w2(2) [OF ne] by (auto simp: all_current_def enclave_outcome_def)
      qed
      then show ?case
        using w2 same settled settled_x by (auto simp: w2(2) [OF ne])
    qed simp
  qed
qed

lemma wire_all_wp:
  assumes "sys_store sys = ops" "inv (w_store w)" "sv_enclaves (abs (w_store w)) = E"
  shows "wp (foldM (wire_enclave_step sys) encs errs)
    (\<lambda>errs' w'. inv (w_store w') \<and> only_imports E (sv_enclaves (abs (w_store w'))) \<and>
       (errs' = [] \<longrightarrow> errs = [] \<and> (\<forall>enc \<in> set encs. \<forall>es.
          (\<exists>d. for_enclave (sys_registry sys) enc = Inr d) \<longrightarrow> (\<forall>i \<in> set (imports_of enc). import_available E i) \<longrightarrow>
          sv_enclaves (abs (w_store w')) (enc_id enc) = Some es \<longrightarrow> imports_wired es enc)))
    (\<lambda>_ _. True) w"
    (is "wp _ (?I encs) _ _")
proof (rule wp_foldM_prefix [where I = ?I], goal_cases)
  case 1
  then show ?case using assms(2,3) by simp
next
  case (2 us x vs errs1 w1)
  let ?V = "\<lambda>w. sv_enclaves (abs (w_store w))"
  have inv1: "inv (w_store w1)" and only: "only_imports E (?V w1)"
    and prev: "\<And>enc es d. errs1 = [] \<Longrightarrow> enc \<in> set us \<Longrightarrow> for_enclave (sys_registry sys) enc = Inr d \<Longrightarrow>
        \<forall>i \<in> set (imports_of enc). import_available E i \<Longrightarrow> ?V w1 (enc_id enc) = Some es \<Longrightarrow> imports_wired es enc"
    and errs: "errs1 = [] \<Longrightarrow> errs = []"
    using 2(2) by auto
  show ?case
  proof (rule wp_mono [OF wire_enclave_wp [OF assms(1) inv1 refl]], goal_cases)
    case (1 errs2 w2)
    then have w2: "inv (w_store w2)" by simp
    from 1 consider
        (kept) "?V w2 = ?V w1" "errs2 = errs1" "?V w1 (enc_id x) = None \<or> (\<exists>e. for_enclave (sys_registry sys) x = Inl e)"
      | (step) es es' where "?V w1 (enc_id x) = Some es" "?V w2 = (?V w1)(enc_id x \<mapsto> es')"
          "wiring_outcome (?V w1) (imports_of x) es errs1 es' errs2" by blast
    then show ?case
    proof cases
      case kept
      then show ?thesis using w2 only prev errs by auto
    next
      case step
      obtain m new where m: "es' = es\<lparr>es_imports := m\<rparr>" "errs2 = errs1 @ new"
          "\<forall>k. hm_get (es_imports es) k \<noteq> None \<longrightarrow> hm_get m k \<noteq> None"
          "new = [] \<longrightarrow> (\<forall>i \<in> set (imports_of x). import_available (?V w1) i \<longrightarrow> hm_get m (imp_alias i) \<noteq> None)"
        using step(3) unfolding wiring_outcome_def by blast
      have only2: "only_imports E (?V w2)"
        unfolding step(2) by (rule only_imports_step [OF only step(1) m(1,3)])
      have "imports_wired st enc" if "errs2 = []" and enc: "enc \<in> set (us @ [x])" and
        d: "for_enclave (sys_registry sys) enc = Inr d" and av: "\<forall>i \<in> set (imports_of enc). import_available E i"
        and st: "?V w2 (enc_id enc) = Some st" for enc st d
      proof -
        have nil: "new = []" "errs1 = []" using that(1) m(2) by auto
        have wired_x: "imports_wired es' enc" if "enc = x"
          using nil(1) m(1,4) av that import_available_only [OF only] by (auto simp: imports_wired_def)
        show ?thesis
        proof (cases "enc_id enc = enc_id x")
          case True
          then have [simp]: "st = es'" using st step(2) by simp
          show ?thesis
          proof (cases "enc = x")
            case False
            then have "imports_wired es enc"
              using prev [OF nil(2) _ d av] enc step(1) True by simp
            then show ?thesis using m(1,3) by (simp add: imports_wired_def)
          qed (use wired_x in simp)
        next
          case False
          then have "enc \<in> set us" "?V w1 (enc_id enc) = Some st" using enc st step(2) by auto
          then show ?thesis using prev [OF nil(2) _ d av] by blast
        qed
      qed
      then show ?thesis using w2 only2 errs m(2) by auto
    qed
  qed simp
qed

lemma append_st_do_wp:
  assumes "sys_store sys = ops" "on_store (\<lambda>s. inv s \<and> sv_enclaves (abs s) = E) w"
  shows "wp (st_do (so_append_event (sys_store sys) ev)) (\<lambda>_. on_store (\<lambda>s. inv s \<and> sv_enclaves (abs s) = E))
    (\<lambda>_ _. True) w"
  unfolding st_do_def assms(1) wp_simps by (rule wp_mono [OF append_law]) (use assms(2) in auto)

text \<open>What an apply that returns a report leaves: \<open>E\<close> is the store before the wiring.\<close>

lemma apply_changes_wp:
  assumes "sys_store sys = ops" "inv (w_store w)" "sv_enclaves (abs (w_store w)) = hm_get act"
    and "distinct (map enc_id ordered)" "\<forall>enc \<in> set ordered. distinct (map part_id (enc_partitions enc))"
    and "enc_id ` set desired = enc_id ` set ordered"
  shows "wp (apply_changes sys req act desired ordered report)
    (\<lambda>rep w'. inv (w_store w') \<and> (\<exists>E. (\<forall>i. i \<notin> enc_id ` set desired \<longrightarrow> E i = None) \<and>
       (\<forall>enc \<in> set ordered. enclave_settled (sys_digest sys) (sys_registry sys) (hm_get act (enc_id enc)) enc (E (enc_id enc))) \<and>
       only_imports E (sv_enclaves (abs (w_store w'))) \<and>
       (rep_errors rep = [] \<longrightarrow> all_current (sys_digest sys) (sys_registry sys) E ordered \<and>
          (\<forall>enc \<in> set ordered. (\<forall>i \<in> set (imports_of enc). import_available E i) \<longrightarrow>
            (\<forall>es. sv_enclaves (abs (w_store w')) (enc_id enc) = Some es \<longrightarrow> imports_wired es enc)))))
    (\<lambda>_ _. True) w"
proof -
  let ?V = "\<lambda>w. sv_enclaves (abs (w_store w))"
  let ?K = "\<lambda>E. on_store (\<lambda>s. inv s \<and> sv_enclaves (abs s) = E)"
  have w: "?K (hm_get act) w" using assms(2,3) by simp
  have clock: "preserves (?K E) (new_v4 sys)" "preserves (?K E) (utc_now sys)" for E
    by (intro preserves_intros)+
  have sub: "set (removed_ids act desired) = dom (hm_get act) - enc_id ` set desired"
    by (auto simp: removed_ids_def set_hm_keys)
  show ?thesis
    unfolding apply_changes_def Let_def
  proof (rule wp_seq_keep [OF clock(1) w], rule wp_seq_keep [OF clock(2)], assumption,
      rule wp_seqI [OF append_st_do_wp [OF assms(1)]], assumption, goal_cases)
    case (1 rid w1 t0 w2 u w3)
    then have w3: "inv (w_store w3)" "?V w3 = hm_get act" by auto
    show ?case
    proof (rule wp_seqI [OF teardown_all_wp [OF assms(1) w3]], goal_cases)
      case 1
      then show ?case by (simp add: sub)
    next
      case (2 errs6 w4)
      let ?E6 = "hm_get act |` (- set (removed_ids act desired))"
      have w4: "inv (w_store w4)" "?V w4 = ?E6" using 2 by auto
      have E6: "?E6 i = (if i \<in> enc_id ` set desired then hm_get act i else None)" for i
        unfolding sub by (auto simp: restrict_map_def)
      have E6_ordered: "\<forall>enc \<in> set ordered. ?E6 (enc_id enc) = hm_get act (enc_id enc)"
        unfolding E6 assms(6) by simp
      show ?case
      proof (rule wp_seqI [OF provision_all_wp [OF assms(1) w4 assms(4,5) E6_ordered]], goal_cases)
        case (1 errs7 w5)
        have w5: "inv (w_store w5)" using 1 by simp
        have gone: "?V w5 i = None" if "i \<notin> enc_id ` set desired" for i
          using 1 that unfolding E6 assms(6) by simp
        have settled: "\<forall>enc \<in> set ordered. enclave_settled (sys_digest sys) (sys_registry sys)
            (hm_get act (enc_id enc)) enc (?V w5 (enc_id enc))"
          and cur: "errs7 = [] \<longrightarrow> all_current (sys_digest sys) (sys_registry sys) (?V w5) ordered" using 1 by simp_all
        show ?case
        proof (rule wp_seqI [OF wire_all_wp [OF assms(1) w5 refl]], goal_cases)
          case (1 errs8 w6)
          then have w6: "?K (?V w6) w6" by simp
          show ?case
          proof (rule wp_seq_keep [OF clock(2) w6], rule wp_seqI [OF append_st_do_wp [OF assms(1)]], assumption, goal_cases)
            case (1 t1 w7 u8 w8)
            then have V8: "inv (w_store w8)" "?V w8 = ?V w6" by auto
            have E: "all_current (sys_digest sys) (sys_registry sys) (?V w5) ordered \<and> (\<forall>enc \<in> set ordered.
                (\<forall>i \<in> set (imports_of enc). import_available (?V w5) i) \<longrightarrow>
                (\<forall>es. ?V w8 (enc_id enc) = Some es \<longrightarrow> imports_wired es enc))" if "errs8 = []"
            proof -
              note step = \<open>inv (w_store w6) \<and> only_imports (?V w5) (?V w6) \<and> _\<close>
              from step that have "errs7 = []" by simp
              with cur have "all_current (sys_digest sys) (sys_registry sys) (?V w5) ordered" by simp
              with step that V8(2) show ?thesis unfolding all_current_def by auto
            qed
            show ?case
              unfolding wp_ret
              by (intro conjI exI [of _ "?V w5"])
                (use V8 gone settled E \<open>inv (w_store w6) \<and> only_imports (?V w5) (?V w6) \<and> _\<close> in simp_all)
          qed
        qed
      qed
    qed
  qed
qed

end

end
