(* ===== verification/Reconcile_Props.thy ===== *)
theory Reconcile_Props
  imports Reconcile_Steps
begin

section \<open>Properties of a reconcile\<close>

text \<open>
  What \<open>reconcile\<close> promises: a dry run and a failing configuration have no effect, the changes
  reported are the difference between desired and stored state, and what an apply leaves in the
  store and in the audit log. The store is any \<open>state_store\<close>; the lemmas about the steps are
  proved inside its locale and used through the interpretation for the in-memory store.
\<close>

subsection \<open>Dry runs and early failures\<close>

lemma reconcile_unfold:
  "reconcile yp sys req w =
     (case load_enclaves yp (w_fs w) (rq_enclaves_dir req) of
        Inl e \<Rightarrow> (Inl (RConfig e), w)
      | Inr desired \<Rightarrow> (case validate (sys_petgraph sys) desired of
          Inl e \<Rightarrow> (Inl (RGraph e), w)
        | Inr g \<Rightarrow> (case so_list_enclaves (sys_store sys) (w_store w) of
            (Inl e, s) \<Rightarrow> (Inl (RStore e), w\<lparr>w_store := s\<rparr>)
          | (Inr states, s) \<Rightarrow>
              let act = actual_states states; ordered = ordered_desired g desired;
                  report = (new_report (rq_dry_run req))
                    \<lparr>rep_changes := diff_changes (sys_digest sys) act desired ordered\<rparr>
              in if rq_dry_run req then (Inr report, w\<lparr>w_store := s\<rparr>)
                 else apply_changes sys req act desired ordered report (w\<lparr>w_store := s\<rparr>))))"
  by (simp add: reconcile_def seq_def load_step_def lift_result_def st_do_def map_err_def store_do_def
      ret_def Let_def split: sum.split prod.split)

text \<open>An apply fails only on the store, on tearing down an enclave, or in the panic of \<open>merge_sa\<close>.\<close>

definition apply_error :: "reconcile_error \<Rightarrow> bool" where
  "apply_error e \<longleftrightarrow> (case e of RStore _ \<Rightarrow> True | RDriver _ \<Rightarrow> True | RPanic \<Rightarrow> True | _ \<Rightarrow> False)"

lemma apply_error_simps [simp]: "apply_error (RStore s)" "apply_error (RDriver d)" "apply_error RPanic"
  "\<not> apply_error (RConfig c)" "\<not> apply_error (RGraph g)" "\<not> apply_error (RInternal m)"
  by (simp_all add: apply_error_def)

lemma raises_st_do [raises_intros]: "raises apply_error (st_do m)"
  unfolding st_do_def by (intro raises_intros) simp

lemma raises_emit [raises_intros]: "raises apply_error (emit sys ev)"
  unfolding emit_def by (intro raises_intros)

lemma raises_teardown_partition [raises_intros]:
  "raises apply_error (teardown_partition_step sys b driver auth_env existing rid eid x errs)"
  unfolding teardown_partition_step_def by (cases x) (simp, intro raises_intros)

lemma raises_teardown [raises_intros]: "raises apply_error (teardown_enclave_step sys b req rid act eid errs)"
  unfolding teardown_enclave_step_def by (intro raises_intros) simp_all

lemma raises_merge_sa [raises_intros]: "raises apply_error (merge_sa h r)"
  unfolding merge_sa_def by (intro raises_intros) simp

lemma raises_provision_partition [raises_intros]:
  "raises apply_error (provision_partition_step sys b driver enc rid part acc)"
  unfolding provision_partition_step_def provision_with_identity_def record_partition_def
  by (cases acc) (simp only: prod.case, intro raises_intros)

lemma raises_provision_export [raises_intros]:
  "raises apply_error (provision_export_step sys driver enc x acc)"
  unfolding provision_export_step_def by (cases acc) (simp only: prod.case, intro raises_intros)

lemma raises_wire_import [raises_intros]:
  "raises apply_error (wire_import_step sys driver enc i acc)"
  unfolding wire_import_step_def by (cases acc) (simp only: prod.case, intro raises_intros)

lemma raises_provision [raises_intros]: "raises apply_error (provision_enclave_step sys b rid act enc errs)"
  unfolding provision_enclave_step_def by (intro raises_intros)

lemma raises_wire [raises_intros]: "raises apply_error (wire_enclave_step sys enc errs)"
  unfolding wire_enclave_step_def by (intro raises_intros)

lemma apply_changes_raises: "raises apply_error (apply_changes sys req act desired ordered report)"
  unfolding apply_changes_def by (intro raises_intros)

lemma apply_changes_report:
  assumes "apply_changes sys req act desired ordered report w = (Inr rep, w')"
  shows "rep_dry_run rep = rep_dry_run report \<and> rep_changes rep = rep_changes report"
proof -
  have "wp (apply_changes sys req act desired ordered report)
      (\<lambda>rep _. rep_dry_run rep = rep_dry_run report \<and> rep_changes rep = rep_changes report) (\<lambda>_ _. True) w"
    unfolding apply_changes_def Let_def by (intro wp_seqI [OF wp_True]) (simp add: wp_ret)
  from wp_InrD [OF this assms] show ?thesis .
qed

text \<open>
  C4. A dry run and a failing configuration have no effect: then the files, the outside world and
  the clock are untouched, and the store has at most been listed; a configuration or graph error
  comes before the store is even read.
\<close>
theorem dry_run_no_effect:
  "case reconcile yp sys req w of
     (Inr rep, w') \<Rightarrow> rep_dry_run rep = rq_dry_run req \<and>
       (if rq_dry_run req
        then rep_errors rep = [] \<and> w' = w\<lparr>w_store := snd (so_list_enclaves (sys_store sys) (w_store w))\<rparr>
        else True)
   | (Inl (RConfig e), w') \<Rightarrow> w' = w
   | (Inl (RGraph e), w') \<Rightarrow> w' = w
   | (Inl _, w') \<Rightarrow>
       if rq_dry_run req then w' = w\<lparr>w_store := snd (so_list_enclaves (sys_store sys) (w_store w))\<rparr> else True"
proof (cases "rq_dry_run req")
  case True
  then show ?thesis
    by (auto simp: reconcile_unfold new_report_def Let_def split: sum.split prod.split)
next
  case False
  then show ?thesis
    unfolding reconcile_unfold
    by (auto simp: new_report_def Let_def split: sum.split prod.split reconcile_error.split
        dest!: apply_changes_report raisesD [OF apply_changes_raises])
qed

text \<open>
  An apply reports what a dry run announces: from the same world, when both succeed, the list
  of changes is the same, in the same order.
\<close>
theorem apply_reports_dry_run_changes:
  assumes "reconcile yp sys (req\<lparr>rq_dry_run := True\<rparr>) w = (Inr dry, w1)"
    and "reconcile yp sys (req\<lparr>rq_dry_run := False\<rparr>) w = (Inr rep, w2)"
  shows "rep_changes rep = rep_changes dry"
  using assms
  by (auto simp: reconcile_unfold new_report_def Let_def split: sum.splits prod.splits
      dest!: apply_changes_report)

subsection \<open>The desired enclaves in order\<close>

definition distinct_ids :: "enclave list \<Rightarrow> bool" where
  "distinct_ids encs \<longleftrightarrow> distinct (map enc_id encs) \<and> (\<forall>e \<in> set encs. distinct (map part_id (enc_partitions e)))"

definition graph_of :: "enclave list \<Rightarrow> (nat \<times> nat) list" where
  "graph_of encs = the (graph_edges (node_map encs) (validate_wiring encs))"

lemma EnclaveId_eid_str [simp]: "EnclaveId (eid_str i) = i"
  by (cases i) simp

lemma ordered_desired_perm:
  assumes "petgraph_at pg (length encs) (graph_of encs)" "validate pg encs = Inr g" "distinct (map enc_id encs)"
  shows "distinct (map enc_id (ordered_desired g encs)) \<and> set (ordered_desired g encs) = set encs"
proof -
  let ?ids = "map EnclaveId (res_topo_order g)"
  have topo: "length (res_topo_order g) = length encs"
    "set (res_topo_order g) = (\<lambda>e. eid_str (enc_id e)) ` set encs"
    using validate_order [OF assms(1) [unfolded graph_of_def] assms(2)] by auto
  have "set ?ids = enc_id ` set encs" unfolding set_map topo(2) by (auto simp: image_image)
  moreover have "distinct ?ids"
    using calculation topo(1) assms(3) by (intro card_distinct) (metis distinct_card length_map list.set_map)
  ultimately have ids: "set ?ids = enc_id ` set encs" "distinct ?ids" by blast+
  have some: "hm_get (enclaves_by_id encs) (enc_id e) = Some e" if "e \<in> set encs" for e
    using hm_get_by_id_distinct [OF assms(3) that] .
  have nil: "filter (\<lambda>e. enc_id e \<notin> set ?ids) encs = []" unfolding ids(1) by (simp add: filter_empty_conv)
  have ord: "ordered_desired g encs = List.map_filter (hm_get (enclaves_by_id encs)) ?ids"
    unfolding ordered_desired_def Let_def nil by simp
  have "map enc_id (List.map_filter (hm_get (enclaves_by_id encs)) is) = is" if "set is \<subseteq> enc_id ` set encs" for "is"
    using that
  proof (induction "is")
    case (Cons i "is")
    then obtain e where "e \<in> set encs" "i = enc_id e" by auto
    with some Cons show ?case by (simp add: List.map_filter_def)
  qed (simp add: List.map_filter_def)
  then have "map enc_id (ordered_desired g encs) = ?ids" unfolding ord using ids(1) by simp
  moreover have "set (ordered_desired g encs) = set encs"
    unfolding ord
  proof safe
    fix e assume "e \<in> set (List.map_filter (hm_get (enclaves_by_id encs)) ?ids)"
    then show "e \<in> set encs" using hm_get_by_id_Some by (auto simp: in_map_filter)
  next
    fix e assume e: "e \<in> set encs"
    then have "enc_id e \<in> set ?ids" unfolding ids(1) by simp
    with some [OF e] show "e \<in> set (List.map_filter (hm_get (enclaves_by_id encs)) ?ids)"
      by (auto simp: in_map_filter)
  qed
  ultimately show ?thesis using ids(2) by simp
qed

text \<open>What the store listing gives with the in-memory store.\<close>

lemma mem_list:
  "so_list_enclaves memory_ops s = (Inr (hm_values (ms_enclaves s)), s)"
  by (simp add: memory_ops_def mem_list_enclaves_def)

lemma mem_actual:
  assumes "mem_inv s"
  shows "hm_get (actual_states (hm_values (ms_enclaves s))) = hm_get (ms_enclaves s)"
proof -
  have "(\<lambda>s. (enc_id (es_desired s), s)) (snd kv) = kv" if "kv \<in> set (ms_enclaves s)" for kv
    using assms that hm_get_iff_mem [of "ms_enclaves s" "fst kv" "snd kv"] by (simp add: mem_inv_def prod_eq_iff)
  then have "map ((\<lambda>s. (enc_id (es_desired s), s)) \<circ> snd) (ms_enclaves s) = ms_enclaves s"
    by (intro map_idI) simp
  moreover have "distinct (map fst (ms_enclaves s))" using assms by (simp add: mem_inv_def hm_ok_def)
  ultimately show ?thesis
    by (intro ext) (simp add: actual_states_def hm_values_def hm_get_collect_distinct hm_get_def [of "ms_enclaves s"])
qed

text \<open>The lemma of the steps, for the store in memory and a call of \<open>reconcile\<close> that returns a report.\<close>

lemma reconcile_mem:
  assumes "sys_store sys = memory_ops" "mem_inv (w_store w)"
    and "load_enclaves yp (w_fs w) (rq_enclaves_dir req) = Inr desired"
    and "petgraph_at (sys_petgraph sys) (length desired) (graph_of desired)" "distinct_ids desired"
    and "reconcile yp sys req w = (Inr rep, w')" "\<not> rq_dry_run req"
  obtains E where "mem_inv (w_store w')" "\<And>i. i \<notin> enc_id ` set desired \<Longrightarrow> E i = None"
    and "\<And>enc. enc \<in> set desired \<Longrightarrow> enclave_settled (sys_digest sys) (sys_registry sys)
          (hm_get (ms_enclaves (w_store w)) (enc_id enc)) enc (E (enc_id enc))"
    and "only_imports E (hm_get (ms_enclaves (w_store w')))"
    and "rep_errors rep = [] \<Longrightarrow> all_current (sys_digest sys) (sys_registry sys) E desired"
    and "\<And>enc es. rep_errors rep = [] \<Longrightarrow> enc \<in> set desired \<Longrightarrow> \<forall>i \<in> set (imports_of enc). import_available E i \<Longrightarrow>
          hm_get (ms_enclaves (w_store w')) (enc_id enc) = Some es \<Longrightarrow> imports_wired es enc"
proof -
  let ?act = "actual_states (hm_values (ms_enclaves (w_store w)))"
  obtain g where g: "validate (sys_petgraph sys) desired = Inr g"
    using assms(6) by (auto simp: reconcile_unfold assms(3) split: sum.splits)
  let ?ord = "ordered_desired g desired"
  have ids: "distinct (map enc_id desired)" using assms(5) by (simp add: distinct_ids_def)
  note perm = ordered_desired_perm [OF assms(4) g ids]
  have parts: "\<forall>enc \<in> set ?ord. distinct (map part_id (enc_partitions enc))"
    using assms(5) perm by (simp add: distinct_ids_def)
  have same: "enc_id ` set desired = enc_id ` set ?ord" using perm by simp
  have act: "sv_enclaves (mem_abs (w_store w)) = hm_get ?act"
    by (simp add: mem_actual [OF assms(2)] mem_abs_def)
  let ?rep = "(new_report (rq_dry_run req))\<lparr>rep_changes := diff_changes (sys_digest sys) ?act desired ?ord\<rparr>"
  have run: "apply_changes sys req ?act desired ?ord ?rep w = (Inr rep, w')"
    using assms(6,7) by (simp add: reconcile_unfold assms(1,3) g mem_list Let_def)
  note res = wp_InrD [OF mem.apply_changes_wp [OF assms(1,2) act conjunct1 [OF perm] parts same] run]
  then obtain E where E: "mem_inv (w_store w') \<and> (\<forall>i. i \<notin> enc_id ` set desired \<longrightarrow> E i = None) \<and>
       (\<forall>enc \<in> set ?ord. enclave_settled (sys_digest sys) (sys_registry sys) (hm_get ?act (enc_id enc)) enc (E (enc_id enc))) \<and>
       only_imports E (sv_enclaves (mem_abs (w_store w'))) \<and>
       (rep_errors rep = [] \<longrightarrow> all_current (sys_digest sys) (sys_registry sys) E ?ord \<and>
          (\<forall>enc \<in> set ?ord. (\<forall>i \<in> set (imports_of enc). import_available E i) \<longrightarrow>
            (\<forall>es. sv_enclaves (mem_abs (w_store w')) (enc_id enc) = Some es \<longrightarrow> imports_wired es enc)))" by blast
  have V: "sv_enclaves (mem_abs s) = hm_get (ms_enclaves s)" for s by (simp add: mem_abs_def)
  have "all_current d r e ?ord = all_current d r e desired" for d r e using perm by (simp add: all_current_def)
  with E perm show thesis unfolding V mem_actual [OF assms(2)] by (intro that [of E]) auto
qed

subsection \<open>An example\<close>

text \<open>Two enclaves on disk: \<open>a\<close> exports what its partition \<open>web\<close> produces, \<open>b\<close> imports it.\<close>

definition demo_partition :: partition where
  "demo_partition = sample_partition\<lparr>part_backend := Terraform
     \<lparr>tfc_tool = None, tfc_source = None, tfc_dir = ''/c/a/web''\<rparr>\<rparr>"

definition demo_enclaves :: "enclave list" where
  "demo_enclaves = [sample_exporter\<lparr>enc_region := ''r'', enc_partitions := [demo_partition]\<rparr>,
     sample_importer\<lparr>enc_region := ''r''\<rparr>]"

definition demo_yaml :: yaml_parsers where
  "demo_yaml = (let plain = \<lparr>re_id = ''a'', re_name = ''A'', re_cloud = None,
      re_region = ''r'', re_identity = None, re_network = None, re_dns = None, re_imports = [],
      re_exports = [raw_of_export sample_export], re_partitions = []\<rparr> in
    \<lparr>yp_enclave = (\<lambda>c. if c = ''A'' then Inr plain
       else if c = ''B'' then Inr (plain\<lparr>re_id := ''b'', re_name := ''B'',
         re_exports := [], re_imports := [raw_of_import sample_import]\<rparr>)
       else Inl ''no enclave''),
     yp_partition = (\<lambda>c. if c = ''P'' then Inr (raw_of_partition demo_partition) else Inl ''no partition'')\<rparr>)"

definition demo_world :: "(mem_store, unit) world" where
  "demo_world = \<lparr>w_store = mem_new,
     w_fs = \<lparr>fs_nodes = [(''/c'', FsDir), (''/c/a'', FsDir), (''/c/a/config.yml'', FsFile ''A''),
       (''/c/a/web'', FsDir), (''/c/a/web/config.yml'', FsFile ''P''), (''/c/b'', FsDir),
       (''/c/b/config.yml'', FsFile ''B'')], fs_refused = (\<lambda>_. None)\<rparr>,
     w_ext = (), w_tick = 0\<rparr>"

definition demo_request :: reconcile_request where
  "demo_request = default_request\<lparr>rq_enclaves_dir := ''/c'', rq_test_mode := True\<rparr>"

lemma demo_load: "load_enclaves demo_yaml (w_fs demo_world) ''/c'' = Inr demo_enclaves"
  by code_simp

subsection \<open>Runs that cannot fail\<close>

text \<open>
  \<open>quietly R m\<close>: from every world \<open>m\<close> returns normally, with a result in \<open>R\<close>, and leaves the files
  alone.
\<close>

definition quietly :: "('a \<Rightarrow> bool) \<Rightarrow> (('s, 'x) world, 'e, 'a) act \<Rightarrow> bool" where
  "quietly R m \<longleftrightarrow> (\<forall>w. wp m (\<lambda>a w'. R a \<and> w_fs w' = w_fs w) (\<lambda>_ _. False) w)"

lemma quietly_ret: "R a \<Longrightarrow> quietly R (ret a)"
  by (simp add: quietly_def wp_ret)

lemma quietlyD: "quietly R m \<Longrightarrow> wp m (\<lambda>a w'. R a \<and> w_fs w' = w_fs w) (\<lambda>_ _. False) w"
  by (simp add: quietly_def)

lemma quietly_seq:
  assumes "quietly S m" "\<And>a. S a \<Longrightarrow> quietly R (f a)"
  shows "quietly R (seq m f)"
  unfolding quietly_def
proof
  fix w
  show "wp (seq m f) (\<lambda>a w'. R a \<and> w_fs w' = w_fs w) (\<lambda>_ _. False) w"
  proof (rule wp_seqI [OF quietlyD [OF assms(1)]], goal_cases)
    case (1 a w')
    then show ?case using quietlyD [OF assms(2), of a w'] by simp
  qed
qed

lemma quietly_attempt: "quietly S m \<Longrightarrow> quietly (\<lambda>r. \<exists>a. r = Inr a \<and> S a) (attempt m)"
  unfolding quietly_def wp_attempt by (rule allI, drule spec, erule wp_mono) auto

lemma quietly_attempt_ret: "quietly (\<lambda>r. r = Inr a) (attempt (ret a))"
  by (simp add: quietly_def wp_simps)

lemma quietly_weaken: "quietly S m \<Longrightarrow> (\<And>a. S a \<Longrightarrow> R a) \<Longrightarrow> quietly R m"
  unfolding quietly_def by (blast intro: wp_mono)

lemma quietly_foldM:
  assumes "R a" "\<And>x a. x \<in> set xs \<Longrightarrow> R a \<Longrightarrow> quietly R (f x a)"
  shows "quietly R (foldM f xs a)"
  using assms
proof (induction xs arbitrary: a)
  case (Cons x xs)
  then show ?case by (auto intro!: quietly_seq [where S = R])
qed (simp add: quietly_ret)

lemma quietly_basics:
  "quietly (\<lambda>_. True) (utc_now sys)" "quietly (\<lambda>_. True) (new_v4 sys)"
  "quietly (\<lambda>_. True) (st_do (mem_upsert_enclave st))" "quietly (\<lambda>_. True) (st_do (mem_append_event ev))"
  "quietly (\<lambda>_. True) (st_do (mem_delete_enclave i))" "quietly (\<lambda>_. True) (st_do (mem_get_enclave i))"
  "R a \<Longrightarrow> quietly R (ext_do (ret a))" "quietly S m \<Longrightarrow> quietly S (map_err g m)"
  by (simp_all add: quietly_def wp_simps st_do_def) (simp_all add: wp_def mem_op_defs)

lemma quietly_clock:
  "(\<And>a. quietly R (f a)) \<Longrightarrow> quietly R (seq (utc_now sys) f)"
  "(\<And>b. quietly R (g b)) \<Longrightarrow> quietly R (seq (new_v4 sys) g)"
  by (auto intro: quietly_seq [OF quietly_basics(1)] quietly_seq [OF quietly_basics(2)])

lemma quietly_emit:
  assumes "sys_store sys = memory_ops"
  shows "quietly (\<lambda>_. True) (emit sys ev)"
  unfolding emit_def assms by (intro quietly_clock) (simp add: memory_ops_def quietly_basics)

lemma quietly_store:
  assumes "sys_store sys = memory_ops"
  shows "(\<And>u. quietly R (f u)) \<Longrightarrow> quietly R (seq (st_do (so_upsert_enclave (sys_store sys) st)) f)"
    "(\<And>u. quietly R (f u)) \<Longrightarrow> quietly R (seq (st_do (so_append_event (sys_store sys) ev)) f)"
    "(\<And>u. quietly R (f u)) \<Longrightarrow> quietly R (seq (st_do (so_delete_enclave (sys_store sys) i)) f)"
    "(\<And>x. quietly R (g x)) \<Longrightarrow> quietly R (seq (st_do (so_get_enclave (sys_store sys) i)) g)"
    "(\<And>u. quietly R (f u)) \<Longrightarrow> quietly R (seq (emit sys e) f)"
  using quietly_seq [OF quietly_emit [OF assms]]
  by (auto simp: assms memory_ops_def intro: quietly_seq [OF quietly_basics(3)] quietly_seq [OF quietly_basics(4)]
      quietly_seq [OF quietly_basics(5)] quietly_seq [OF quietly_basics(6)])

definition no_sa :: "provision_result \<Rightarrow> bool" where
  "no_sa r \<longleftrightarrow> json_as_str (json_index (pr_handle r) ''partition_sa'') = None"

abbreviation no_errors :: "'a \<times> string list \<Rightarrow> bool" where
  "no_errors \<equiv> (\<lambda>(_, errs). errs = [])"

lemma quietly_local:
  "quietly no_sa (ext_do (drv_provision_partition local_driver enc part inputs h))"
  "quietly (\<lambda>_. True) (ext_do (drv_provision_enclave local_driver enc h))"
  "quietly (\<lambda>_. True) (ext_do (drv_provision_export local_driver enc x outputs h))"
  "quietly (\<lambda>_. True) (ext_do (drv_provision_import local_driver enc i eh h))"
  "quietly (\<lambda>_. True) (ext_do (drv_teardown_partition local_driver enc part th))"
  "quietly (\<lambda>_. True) (ext_do (drv_teardown_enclave local_driver enc th))"
  by (simp_all add: local_driver_def local_defs quietly_basics(7) no_sa_def json_simps json_index_def json_get_object)

lemma quietly_partition:
  assumes "sys_store sys = memory_ops" "tfb_test_mode b"
  shows "quietly no_errors (provision_partition_step sys b local_driver enc rid part (es, []))"
proof -
  have ident: "quietly (\<lambda>(r, _). \<exists>x. r = Inr x) (provision_with_identity sys b local_driver enc rid part inputs es' sa)"
    if "no_sa sa" for inputs es' sa
    unfolding provision_with_identity_def Let_def
  proof (rule quietly_seq [OF quietly_attempt [where S = "\<lambda>_. True"]], goal_cases)
    case 1
    show ?case by (simp add: assms(1) memory_ops_def quietly_basics(3))
  next
    case (2 a)
    show ?case
      by (rule quietly_seq [where S = "\<lambda>r. \<exists>x. r = Inr x"])
        (use that in \<open>auto simp: tf_provision_def assms(2) attempt_def ret_def quietly_def wp_def merge_sa_def
          no_sa_def seq_def\<close>)
  qed
  have rec: "quietly no_errors (record_partition sys enc part (Inr x) es' [])" for x es'
    unfolding record_partition_def by (simp add: Let_def quietly_clock quietly_store [OF assms(1)] quietly_ret)
  show ?thesis
    unfolding provision_partition_step_def prod.case Let_def
  proof (cases "hash_matches (map_option ps_meta (hm_get (es_partitions es) (part_id part))) (partition_hash (sys_digest sys) part)")
    case True
    then show "quietly no_errors (if hash_matches (map_option ps_meta (hm_get (es_partitions es) (part_id part)))
        (partition_hash (sys_digest sys) part) then ret (es, []) else m)" for m
      by (simp add: quietly_ret)
  qed (auto intro!: quietly_store [OF assms(1)] quietly_seq [OF quietly_attempt [OF quietly_local(1)]]
      quietly_seq [OF ident] rec)
qed

lemma quietly_export:
  assumes "sys_store sys = memory_ops"
  shows "quietly no_errors (provision_export_step sys local_driver enc x (es, []))"
  unfolding provision_export_step_def prod.case Let_def
  by (rule quietly_seq [OF quietly_attempt [OF quietly_local(3)]])
    (auto intro!: quietly_store [OF assms] simp: quietly_ret)

lemma quietly_enclave:
  assumes "sys_store sys = memory_ops" "tfb_test_mode b" "for_enclave (sys_registry sys) enc = Inr local_driver"
  shows "quietly (\<lambda>errs. errs = []) (provision_enclave_step sys b rid act enc [])"
proof -
  have body: "quietly (\<lambda>errs. errs = [])
      (seq (foldM (provision_partition_step sys b local_driver enc rid) (enc_partitions enc) (es2, [])) (\<lambda>acc.
       seq (foldM (provision_export_step sys local_driver enc) (enc_exports enc) acc) (\<lambda>(es4, errs').
       seq (emit sys ev) (\<lambda>_. seq (st_do (so_upsert_enclave (sys_store sys) es4)) (\<lambda>_. ret errs')))))"
    for es2 ev
  proof (rule quietly_seq [OF quietly_foldM [where R = no_errors]], goal_cases)
    case 1
    show ?case by simp
  next
    case (2 part acc)
    then show ?case by (cases acc) (simp add: quietly_partition [OF assms(1,2)])
  next
    case (3 acc)
    show ?case
    proof (rule quietly_seq [OF quietly_foldM [where R = no_errors, OF 3]], goal_cases)
      case (1 x acc')
      then show ?case by (cases acc') (simp add: quietly_export [OF assms(1)])
    next
      case (2 acc')
      then show ?case by (cases acc') (auto intro!: quietly_store [OF assms(1)] simp: quietly_ret)
    qed
  qed
  show ?thesis
    unfolding provision_enclave_step_def assms(3) sum.case Let_def
    by (auto intro!: quietly_store [OF assms(1)] quietly_seq [OF quietly_attempt [OF quietly_local(2)]]
        quietly_clock body)
qed

lemma quietly_wire:
  assumes "sys_store sys = memory_ops" "for_enclave (sys_registry sys) enc = Inr local_driver"
  shows "quietly (\<lambda>errs. errs = []) (wire_enclave_step sys enc [])"
proof -
  have step: "quietly (\<lambda>(_, _, errs). errs = []) (wire_import_step sys local_driver enc i (es, ch, []))" for i es ch
    unfolding wire_import_step_def prod.case
    by (auto intro!: quietly_store [OF assms(1)] quietly_seq [OF quietly_attempt [OF quietly_local(4)]]
        simp: quietly_ret split: option.split)
  have loop: "quietly (\<lambda>(_, _, errs). errs = []) (foldM (wire_import_step sys local_driver enc) is (es, False, []))" for "is" es
    by (rule quietly_foldM) (auto simp: step)
  show ?thesis
    unfolding wire_enclave_step_def assms(2) sum.case
    by (auto intro!: quietly_store [OF assms(1)] quietly_seq [OF loop] simp: quietly_ret split: option.split)
qed

lemma quietly_teardown:
  assumes "sys_store sys = memory_ops" "tfb_test_mode b"
    and "\<And>c d. for_cloud (sys_registry sys) c = Inr d \<Longrightarrow> d = local_driver"
  shows "quietly (\<lambda>errs. errs = []) (teardown_enclave_step sys b req rid act eid [])"
proof -
  have step: "quietly (\<lambda>errs. errs = []) (teardown_partition_step sys b local_driver env ex rid eid x [])" for env ex x
  proof -
    have tf: "tf_teardown sys b enc p env' r = ret ()" for enc p env' r by (simp add: tf_teardown_def assms(2))
    show ?thesis
      unfolding teardown_partition_step_def tf
      by (cases x) (auto intro!: quietly_seq [OF quietly_attempt_ret]
          quietly_seq [OF quietly_attempt [OF quietly_local(5)]] simp: quietly_ret split: option.split)
  qed
  have loop: "quietly (\<lambda>errs. errs = []) (foldM (teardown_partition_step sys b local_driver env ex rid eid) ps [])" for env ex ps
    by (rule quietly_foldM) (auto simp: step)
  have driver: "quietly (\<lambda>errs. errs = []) (case for_cloud (sys_registry sys) c of
      Inl _ \<Rightarrow> ret [] | Inr driver \<Rightarrow> f driver)" if "quietly (\<lambda>errs. errs = []) (f local_driver)" for c f
    using that assms(3) [of c] by (cases "for_cloud (sys_registry sys) c") (auto simp: quietly_ret)
  show ?thesis
    unfolding teardown_enclave_step_def Let_def
    by (cases "hm_get act eid")
      (auto intro!: quietly_seq [where S = "\<lambda>errs. errs = []"] driver quietly_store [OF assms(1)] quietly_seq [OF loop]
        quietly_seq [OF quietly_basics(8) [OF quietly_local(6)]] simp: quietly_ret split: option.split)
qed

lemma reconcile_local_ok:
  assumes "sys_store sys = memory_ops" "rq_test_mode req"
    and "\<And>c d. for_cloud (sys_registry sys) c = Inr d \<Longrightarrow> d = local_driver"
    and "load_enclaves yp (w_fs w) (rq_enclaves_dir req) = Inr desired"
    and "validate (sys_petgraph sys) desired = Inr g"
    and "\<forall>enc \<in> set desired. hm_contains (reg_drivers (sys_registry sys)) (resolved_cloud (sys_registry sys) enc)"
  shows "\<exists>rep w'. reconcile yp sys req w = (Inr rep, w') \<and> rep_errors rep = [] \<and> w_fs w' = w_fs w"
proof -
  have driver: "for_enclave (sys_registry sys) enc = Inr local_driver" if enc: "enc \<in> set desired" for enc
  proof -
    obtain d where "hm_get (reg_drivers (sys_registry sys)) (resolved_cloud (sys_registry sys) enc) = Some d"
      using bspec [OF assms(6) enc] by (auto simp: hm_contains_def)
    then have "for_enclave (sys_registry sys) enc = Inr d" by (simp add: for_enclave_def for_cloud_Inr)
    with assms(3) show ?thesis by (simp add: for_enclave_def)
  qed
  have test: "tfb_test_mode (request_backend req)" using assms(2) by (simp add: request_backend_def)
  have ordered: "set (ordered_desired g desired) \<subseteq> set desired"
    using hm_get_by_id_Some by (fastforce simp: ordered_desired_def Let_def in_map_filter)
  have "quietly (\<lambda>rep. rep_errors rep = []) (apply_changes sys req act desired (ordered_desired g desired) report)"
    if "rep_errors report = []" for act report
    unfolding apply_changes_def Let_def that
    by (intro quietly_clock quietly_store [OF assms(1)] quietly_ret
        quietly_seq [OF quietly_foldM [where R = "\<lambda>errs. errs = []"]])
      (use ordered in \<open>auto simp: driver intro!: quietly_teardown [OF assms(1) test assms(3)] quietly_enclave [OF assms(1) test]
        quietly_wire [OF assms(1)]\<close>)
  note quiet = this [THEN quietlyD]
  show ?thesis
  proof (cases "rq_dry_run req")
    case True
    then show ?thesis by (simp add: reconcile_unfold assms(4,5) mem_list assms(1) new_report_def Let_def)
  next
    case False
    let ?act = "actual_states (hm_values (ms_enclaves (w_store w)))"
    let ?ord = "ordered_desired g desired"
    let ?rep = "(new_report (rq_dry_run req))\<lparr>rep_changes := diff_changes (sys_digest sys) ?act desired ?ord\<rparr>"
    have "reconcile yp sys req w = apply_changes sys req ?act desired ?ord ?rep w"
      using False by (simp add: reconcile_unfold assms(1,4,5) mem_list Let_def)
    moreover have "rep_errors ?rep = []" by (simp add: new_report_def)
    ultimately show ?thesis
      using quiet [of ?rep ?act w] by (auto simp: wp_def split: prod.splits sum.splits)
  qed
qed

text \<open>
  C27. With the in-memory store, the local driver and Terraform in test mode a reconcile cannot fail:
  once the configuration loads and validates and every enclave has the driver, it returns a report,
  without errors, and the files are as before.
\<close>
theorem local_reconcile_succeeds:
  assumes "sys_store sys = memory_ops" "rq_test_mode req"
    and "\<And>c d. for_cloud (sys_registry sys) c = Inr d \<Longrightarrow> d = local_driver"
    and "load_enclaves yp (w_fs w) (rq_enclaves_dir req) = Inr desired"
    and "validate (sys_petgraph sys) desired = Inr g"
    and "\<forall>enc \<in> set desired. hm_contains (reg_drivers (sys_registry sys)) (resolved_cloud (sys_registry sys) enc)"
  shows "\<exists>rep w'. reconcile yp sys req w = (Inr rep, w') \<and> rep_errors rep = [] \<and> w_fs w' = w_fs w"
  by (rule reconcile_local_ok [OF assms])

lemma demo_graph: "graph_edges (node_map demo_enclaves) (validate_wiring demo_enclaves) = Some [(0, 1)]"
  by code_simp

lemma demo_validate: "validate kahn_petgraph demo_enclaves = Inr
   \<lparr>res_topo_order = [''a'', ''b''], res_wiring = validate_wiring demo_enclaves\<rparr>"
  by code_simp

lemma demo_system: "sys_store sample_system = memory_ops" "sys_petgraph sample_system = kahn_petgraph"
  "sys_registry sample_system = register Local local_driver (registry_new Local)"
  "for_cloud (sys_registry sample_system) c = Inr d \<Longrightarrow> d = local_driver"
  by (simp_all add: sample_system_def for_cloud_Inr register_def registry_new_def hm_get_insert split: if_splits)

lemma demo_drivers:
  "enc \<in> set demo_enclaves \<Longrightarrow>
     hm_contains (reg_drivers (sys_registry sample_system)) (resolved_cloud (sys_registry sample_system) enc)"
  "enc \<in> set demo_enclaves \<Longrightarrow> for_enclave (sys_registry sample_system) enc = Inr local_driver"
  by (auto simp: demo_enclaves_def sample_defs demo_system(3) resolved_cloud_def register_def registry_new_def
      hm_contains_def hm_get_insert for_enclave_def for_cloud_def)

theorem local_reconcile_succeeds_witness:
  "\<exists>rep w'. reconcile demo_yaml sample_system demo_request demo_world = (Inr rep, w') \<and> rep_errors rep = [] \<and>
     w_fs w' = w_fs demo_world"
  by (rule local_reconcile_succeeds [where desired = demo_enclaves])
    (auto dest: demo_system(4) simp: demo_system(1,2) demo_validate demo_load demo_drivers demo_request_def default_request_def)

subsection \<open>What an apply leaves in the store\<close>

lemma imports_available:
  assumes "validate pg desired = Inr g" "all_current digest reg E desired" "enc \<in> set desired"
  shows "\<forall>i \<in> set (imports_of enc). import_available E i"
proof
  fix i assume "i \<in> set (imports_of enc)"
  from validate_import_permitted [OF assms(1,3) this]
  obtain s x where "s \<in> set desired" "enc_id s = imp_from i" "x \<in> set (enc_exports s)" "exp_name x = imp_export_name i"
    by blast
  then show "import_available E i"
    using assms(2) by (fastforce simp: all_current_def import_available_def enclave_current_def)
qed

text \<open>
  C1. Reconciling is idempotent: after an apply that reported no errors, a dry run over the same
  configuration finds nothing to change, whatever the store held before. Ids are distinct, as the
  loader does not check.
\<close>
theorem reconcile_idempotent:
  assumes "sys_store sys = memory_ops" "mem_inv (w_store w)" "\<not> rq_dry_run req"
    and "load_enclaves yp (w_fs w) (rq_enclaves_dir req) = Inr desired" "distinct_ids desired"
    and "petgraph_at (sys_petgraph sys) (length desired) (graph_of desired)"
    and "reconcile yp sys req w = (Inr rep, w')" "rep_errors rep = []"
    and "load_enclaves yp (w_fs w') (rq_enclaves_dir req) = Inr desired"
  shows "reconcile yp sys (req\<lparr>rq_dry_run := True\<rparr>) w' = (Inr (new_report True), w')"
proof -
  obtain E where inv: "mem_inv (w_store w')" and gone: "\<And>i. i \<notin> enc_id ` set desired \<Longrightarrow> E i = None"
    and only: "only_imports E (hm_get (ms_enclaves (w_store w')))"
    and cur: "all_current (sys_digest sys) (sys_registry sys) E desired"
    and wired: "\<And>enc es. enc \<in> set desired \<Longrightarrow> \<forall>i \<in> set (imports_of enc). import_available E i \<Longrightarrow>
          hm_get (ms_enclaves (w_store w')) (enc_id enc) = Some es \<Longrightarrow> imports_wired es enc"
    using reconcile_mem [OF assms(1,2,4,6,5,7,3)] assms(8) by metis
  obtain g where g: "validate (sys_petgraph sys) desired = Inr g"
    using assms(7) by (auto simp: reconcile_unfold assms(4) split: sum.splits)
  let ?act = "actual_states (hm_values (ms_enclaves (w_store w')))"
  note act = mem_actual [OF inv]
  have ids: "distinct (map enc_id desired)" using assms(5) by (simp add: distinct_ids_def)
  have ord: "set (ordered_desired g desired) = set desired"
    using ordered_desired_perm [OF assms(6) g ids] by blast
  have "removed_ids ?act desired = []"
    unfolding removed_ids_def filter_empty_conv
  proof
    fix i assume "i \<in> set (hm_keys ?act)"
    then have "hm_get (ms_enclaves (w_store w')) i \<noteq> None" by (simp add: hm_keys_iff act)
    then have "E i \<noteq> None" using only_imports_None [OF only, of i] by (cases "E i") simp_all
    then show "\<not> i \<notin> set (map enc_id desired)" using gone [of i] by (cases "i \<in> enc_id ` set desired") simp_all
  qed
  moreover have "diff_enclave (sys_digest sys) ?act enc = [] \<and> diff_imports ?act enc = []" if enc: "enc \<in> set desired" for enc
  proof -
    obtain st where st: "E (enc_id enc) = Some st" "enclave_current (sys_digest sys) st enc"
      using cur enc by (auto simp: all_current_def)
    obtain m where m: "hm_get ?act (enc_id enc) = Some (st\<lparr>es_imports := m\<rparr>)"
      using only_imports_Some [OF only st(1)] by (auto simp: act)
    have "imports_wired (st\<lparr>es_imports := m\<rparr>) enc"
      using wired [OF enc imports_available [OF g cur enc]] m by (simp add: act)
    then show ?thesis unfolding diff_enclave_Nil diff_imports_Nil using m st(2) by auto
  qed
  ultimately have "diff_changes (sys_digest sys) ?act desired (ordered_desired g desired) = []"
    by (simp add: diff_changes_def ord)
  then show ?thesis
    by (simp add: reconcile_unfold assms(1,9) g mem_list new_report_def Let_def)
qed

text \<open>The example satisfies what the theorems assume.\<close>

lemma demo_ids: "distinct_ids demo_enclaves"
  by (simp add: distinct_ids_def demo_enclaves_def demo_partition_def sample_defs)

lemma demo_petgraph: "petgraph_at (sys_petgraph sample_system) (length demo_enclaves) (graph_of demo_enclaves)"
  unfolding graph_of_def demo_graph demo_system(2)
  by (simp, rule kahn_petgraph_at) (simp add: demo_enclaves_def)

lemma demo_mem: "mem_inv (w_store demo_world)"
  by (simp add: demo_world_def mem_inv_new)

lemma demo_req: "\<not> rq_dry_run demo_request" "rq_test_mode demo_request" "rq_enclaves_dir demo_request = ''/c''"
  by (simp_all add: demo_request_def default_request_def)

lemma demo_run:
  obtains rep w where "reconcile demo_yaml sample_system demo_request (demo_world\<lparr>w_store := s\<rparr>) = (Inr rep, w)"
    "rep_errors rep = []" "w_fs w = w_fs demo_world"
proof -
  let ?w = "demo_world\<lparr>w_store := s\<rparr>"
  have "\<exists>rep w'. reconcile demo_yaml sample_system demo_request ?w = (Inr rep, w') \<and> rep_errors rep = [] \<and>
     w_fs w' = w_fs ?w"
    by (rule reconcile_local_ok [where desired = demo_enclaves])
      (auto dest: demo_system(4) simp: demo_system(1,2) demo_validate demo_load demo_drivers demo_req)
  then show thesis using that by auto
qed

lemma demo_new: "demo_world\<lparr>w_store := mem_new\<rparr> = demo_world"
  by (simp add: demo_world_def)

theorem apply_reports_dry_run_changes_witness:
  "\<exists>dry rep w1 w2. reconcile demo_yaml sample_system (demo_request\<lparr>rq_dry_run := True\<rparr>) demo_world = (Inr dry, w1) \<and>
     reconcile demo_yaml sample_system demo_request demo_world = (Inr rep, w2) \<and> rep_changes rep = rep_changes dry"
proof -
  obtain rep w2 where run: "reconcile demo_yaml sample_system demo_request demo_world = (Inr rep, w2)"
    by (rule demo_run [of mem_new, unfolded demo_new])
  have req: "demo_request\<lparr>rq_dry_run := False\<rparr> = demo_request" by (simp add: demo_request_def default_request_def)
  have "\<exists>dry w'. reconcile demo_yaml sample_system (demo_request\<lparr>rq_dry_run := True\<rparr>) demo_world = (Inr dry, w') \<and>
      rep_errors dry = [] \<and> w_fs w' = w_fs demo_world"
    by (rule reconcile_local_ok [where desired = demo_enclaves])
      (auto dest: demo_system(4) simp: demo_system(1,2) demo_validate demo_load demo_drivers demo_req)
  then obtain dry w1 where dry: "reconcile demo_yaml sample_system (demo_request\<lparr>rq_dry_run := True\<rparr>) demo_world = (Inr dry, w1)"
    by blast
  show ?thesis
    using apply_reports_dry_run_changes [OF dry, of rep w2] dry run unfolding req by blast
qed

theorem reconcile_idempotent_witness:
  "\<exists>rep w. reconcile demo_yaml sample_system demo_request demo_world = (Inr rep, w) \<and>
     reconcile demo_yaml sample_system (demo_request\<lparr>rq_dry_run := True\<rparr>) w = (Inr (new_report True), w)"
proof -
  obtain rep w where run: "reconcile demo_yaml sample_system demo_request demo_world = (Inr rep, w)" "rep_errors rep = []"
    "w_fs w = w_fs demo_world" by (rule demo_run [of mem_new, unfolded demo_new])
  have "load_enclaves demo_yaml (w_fs demo_world) (rq_enclaves_dir demo_request) = Inr demo_enclaves"
    by (simp add: demo_load demo_req)
  from reconcile_idempotent [OF demo_system(1) demo_mem demo_req(1) this demo_ids demo_petgraph run(1,2)] this run
  show ?thesis by auto
qed

text \<open>
  C2. What an apply leaves, even one that reports errors: an enclave that is not in the
  configuration is gone; one whose driver is configured is stored under its new configuration and
  cloud, in error with the reason, or active under its new hash, and then every partition that
  was up to date is untouched and every other one is active under its new hash with a handle, or
  in error with the reason.
\<close>
theorem reconcile_converges:
  assumes "sys_store sys = memory_ops" "mem_inv (w_store w)" "\<not> rq_dry_run req"
    and "load_enclaves yp (w_fs w) (rq_enclaves_dir req) = Inr desired" "distinct_ids desired"
    and "petgraph_at (sys_petgraph sys) (length desired) (graph_of desired)"
    and "reconcile yp sys req w = (Inr rep, w')"
  shows "dom (hm_get (ms_enclaves (w_store w'))) \<subseteq> enc_id ` set desired \<and>
    (\<forall>enc \<in> set desired. hm_contains (reg_drivers (sys_registry sys)) (resolved_cloud (sys_registry sys) enc) \<longrightarrow>
      (\<exists>st. hm_get (ms_enclaves (w_store w')) (enc_id enc) = Some st \<and> es_desired st = enc \<and>
         es_resolved_cloud st = Some (resolved_cloud (sys_registry sys) enc) \<and>
         (meta_status (es_meta st) = InError \<and> meta_last_error (es_meta st) \<noteq> None \<and> rep_errors rep \<noteq> [] \<or>
          meta_status (es_meta st) = Active \<and> es_handle st \<noteq> None \<and>
          hash_matches (Some (es_meta st)) (enclave_hash (sys_digest sys) enc) \<and>
          (\<forall>part \<in> set (enc_partitions enc). partition_settled (sys_digest sys) part
             (prior_state (hm_get (ms_enclaves (w_store w)) (enc_id enc)) enc) st))))"
proof -
  obtain E where gone: "\<And>i. i \<notin> enc_id ` set desired \<Longrightarrow> E i = None"
    and settled: "\<And>enc. enc \<in> set desired \<Longrightarrow> enclave_settled (sys_digest sys) (sys_registry sys)
          (hm_get (ms_enclaves (w_store w)) (enc_id enc)) enc (E (enc_id enc))"
    and only: "only_imports E (hm_get (ms_enclaves (w_store w')))"
    and cur: "rep_errors rep = [] \<Longrightarrow> all_current (sys_digest sys) (sys_registry sys) E desired"
    using reconcile_mem [OF assms(1,2,4,6,5,7,3)] by metis
  show ?thesis
  proof (intro conjI ballI impI)
    show "dom (hm_get (ms_enclaves (w_store w'))) \<subseteq> enc_id ` set desired"
      using only_imports_None [OF only gone] by (auto intro: ccontr)
  next
    fix enc assume enc: "enc \<in> set desired"
      and driver: "hm_contains (reg_drivers (sys_registry sys)) (resolved_cloud (sys_registry sys) enc)"
    then obtain d where "for_enclave (sys_registry sys) enc = Inr d"
      by (auto simp: hm_contains_def for_enclave_def for_cloud_def)
    with settled [OF enc] obtain st new where st: "E (enc_id enc) = Some st" "enclave_outcome (sys_digest sys)
        (resolved_cloud (sys_registry sys) enc) (hm_get (ms_enclaves (w_store w)) (enc_id enc)) enc st new"
      by (auto simp: enclave_settled_def)
    obtain m where m: "hm_get (ms_enclaves (w_store w')) (enc_id enc) = Some (st\<lparr>es_imports := m\<rparr>)"
      using only_imports_Some [OF only st(1)] by blast
    have same: "partition_settled (sys_digest sys) part old (st\<lparr>es_imports := m\<rparr>) =
        partition_settled (sys_digest sys) part old st" for part old
      by (rule partition_settled_cong) simp
    have "meta_status (es_meta st) = Active" if "rep_errors rep = []"
      using cur [OF that] enc st by (auto simp: all_current_def enclave_outcome_def)
    then show "\<exists>st. hm_get (ms_enclaves (w_store w')) (enc_id enc) = Some st \<and> es_desired st = enc \<and>
         es_resolved_cloud st = Some (resolved_cloud (sys_registry sys) enc) \<and>
         (meta_status (es_meta st) = InError \<and> meta_last_error (es_meta st) \<noteq> None \<and> rep_errors rep \<noteq> [] \<or>
          meta_status (es_meta st) = Active \<and> es_handle st \<noteq> None \<and>
          hash_matches (Some (es_meta st)) (enclave_hash (sys_digest sys) enc) \<and>
          (\<forall>part \<in> set (enc_partitions enc). partition_settled (sys_digest sys) part
             (prior_state (hm_get (ms_enclaves (w_store w)) (enc_id enc)) enc) st))"
      using st(2) m by (intro exI [of _ "st\<lparr>es_imports := m\<rparr>"]) (auto simp: enclave_outcome_def same)
  qed
qed

theorem reconcile_converges_witness:
  "\<exists>rep w st. reconcile demo_yaml sample_system demo_request demo_world = (Inr rep, w) \<and>
     hm_get (ms_enclaves (w_store w)) (EnclaveId ''b'') = Some st \<and> meta_status (es_meta st) = Active"
proof -
  obtain rep w where run: "reconcile demo_yaml sample_system demo_request demo_world = (Inr rep, w)" "rep_errors rep = []"
    by (rule demo_run [of mem_new, unfolded demo_new])
  have load: "load_enclaves demo_yaml (w_fs demo_world) (rq_enclaves_dir demo_request) = Inr demo_enclaves"
    by (simp add: demo_load demo_req)
  let ?b = "sample_importer\<lparr>enc_region := ''r''\<rparr>"
  have b: "?b \<in> set demo_enclaves" "enc_id ?b = EnclaveId ''b''" by (simp_all add: demo_enclaves_def sample_defs)
  from reconcile_converges [OF demo_system(1) demo_mem demo_req(1) load demo_ids demo_petgraph run(1), THEN conjunct2,
      rule_format, OF b(1) demo_drivers(1) [OF b(1)]] run b(2)
  show ?thesis by metis
qed

text \<open>
  C32. A partition that is removed from the configuration of an enclave that stays is never torn
  down: an apply keeps its stored state, handle and status included, and no reconcile ever reports
  that a partition is deleted.
\<close>
theorem removed_partition_stays:
  assumes "sys_store sys = memory_ops" "mem_inv (w_store w)" "\<not> rq_dry_run req"
    and "load_enclaves yp (w_fs w) (rq_enclaves_dir req) = Inr desired" "distinct_ids desired"
    and "petgraph_at (sys_petgraph sys) (length desired) (graph_of desired)"
    and "reconcile yp sys req w = (Inr rep, w')"
    and "enc \<in> set desired" "hm_get (ms_enclaves (w_store w)) (enc_id enc) = Some old"
    and "q \<notin> part_id ` set (enc_partitions enc)" "hm_get (es_partitions old) q = Some ps"
  shows "(\<exists>st. hm_get (ms_enclaves (w_store w')) (enc_id enc) = Some st \<and> hm_get (es_partitions st) q = Some ps) \<and>
    (\<forall>e p. ChPartitionDeleted e p \<notin> set (rep_changes rep))"
proof -
  obtain E where settled: "\<And>enc. enc \<in> set desired \<Longrightarrow> enclave_settled (sys_digest sys) (sys_registry sys)
          (hm_get (ms_enclaves (w_store w)) (enc_id enc)) enc (E (enc_id enc))"
    and only: "only_imports E (hm_get (ms_enclaves (w_store w')))"
    using reconcile_mem [OF assms(1,2,4,6,5,7,3)] by metis
  have "\<exists>st. E (enc_id enc) = Some st \<and> hm_get (es_partitions st) q = Some ps"
    using settled [OF assms(8)] assms(9-11)
    by (auto simp: enclave_settled_def enclave_outcome_def prior_state_def split: sum.splits)
  then obtain st where st: "E (enc_id enc) = Some st" "hm_get (es_partitions st) q = Some ps" by blast
  obtain m where "hm_get (ms_enclaves (w_store w')) (enc_id enc) = Some (st\<lparr>es_imports := m\<rparr>)"
    using only_imports_Some [OF only st(1)] by blast
  moreover have "ChPartitionDeleted e p \<notin> set (rep_changes rep)" for e p
  proof -
    obtain g states where "rep_changes rep = diff_changes (sys_digest sys) (actual_states states) desired (ordered_desired g desired)"
      using assms(3,7) by (auto simp: reconcile_unfold assms(1,4) mem_list Let_def split: sum.splits
          dest!: apply_changes_report)
    then show ?thesis
      by (auto simp: diff_changes_def diff_enclave_def diff_partition_def diff_export_def diff_imports_def Let_def
          split: if_splits)
  qed
  ultimately show ?thesis using st(2) by auto
qed

definition stale_state :: enclave_state where
  "stale_state = (new_enclave_state (sample_exporter\<lparr>enc_region := ''r''\<rparr>))
     \<lparr>es_partitions := [(PartitionId ''db'', (new_partition_state sample_partition)\<lparr>ps_handle := Some JNull\<rparr>)]\<rparr>"

definition stale_store :: mem_store where
  "stale_store = mem_new\<lparr>ms_enclaves := [(EnclaveId ''a'', stale_state)]\<rparr>"

theorem removed_partition_stays_witness:
  "\<exists>rep w st. reconcile demo_yaml sample_system demo_request (demo_world\<lparr>w_store := stale_store\<rparr>) = (Inr rep, w) \<and>
     rep_errors rep = [] \<and> hm_get (ms_enclaves (w_store w)) (EnclaveId ''a'') = Some st \<and>
     hm_get (es_partitions st) (PartitionId ''db'') = Some ((new_partition_state sample_partition)\<lparr>ps_handle := Some JNull\<rparr>)"
proof -
  let ?w = "demo_world\<lparr>w_store := stale_store\<rparr>" and ?a = "sample_exporter\<lparr>enc_region := ''r'', enc_partitions := [demo_partition]\<rparr>"
  obtain rep w where run: "reconcile demo_yaml sample_system demo_request ?w = (Inr rep, w)" "rep_errors rep = []"
    by (rule demo_run [of stale_store])
  have mem: "mem_inv (w_store ?w)"
    by (simp add: mem_inv_def mem_inv_new stale_store_def mem_new_def hm_ok_def hm_get_def stale_state_def
        new_enclave_state_def sample_defs)
  have load: "load_enclaves demo_yaml (w_fs ?w) (rq_enclaves_dir demo_request) = Inr demo_enclaves"
    by (simp add: demo_load demo_req)
  have a: "?a \<in> set demo_enclaves" "enc_id ?a = EnclaveId ''a''" by (simp_all add: demo_enclaves_def sample_defs)
  have "hm_get (ms_enclaves (w_store ?w)) (enc_id ?a) = Some stale_state"
    "PartitionId ''db'' \<notin> part_id ` set (enc_partitions ?a)"
    "hm_get (es_partitions stale_state) (PartitionId ''db'') = Some ((new_partition_state sample_partition)\<lparr>ps_handle := Some JNull\<rparr>)"
    by (simp_all add: a(2) stale_store_def stale_state_def hm_get_def demo_partition_def sample_defs)
  from removed_partition_stays [OF demo_system(1) mem demo_req(1) load demo_ids demo_petgraph run(1) a(1) this] run
  show ?thesis unfolding a(2) by metis
qed

text \<open>
  C36. A partition that fails to update keeps the hash and the outputs of what was applied last,
  besides its error; so going back to the configuration of that hash does nothing: the step is
  skipped, for every error list and world, and the partition stays in error.
\<close>
theorem failed_update_keeps_hash:
  assumes "sys_store sys = memory_ops" "mem_inv (w_store w)"
    and "provision_partition_step sys b driver enc rid part (es, errs) w = (Inr (es', errs'), w')" "errs' \<noteq> errs"
  shows "(\<exists>msg. errs' = errs @ [partition_message enc part msg] \<and> partition_failed part msg es es') \<and>
    (\<forall>old errs2 w2. part_id old = part_id part \<longrightarrow> applied_hash part es = Some (partition_hash (sys_digest sys) old) \<longrightarrow>
       provision_partition_step sys b driver enc rid old (es', errs2) w2 = (Inr (es', errs2), w2))"
proof -
  have "partition_outcome (sys_digest sys) enc part es errs es' errs'"
    using wp_InrD [OF mem.provision_partition_wp [OF assms(1) refl, where v = "mem_abs (w_store w)"] assms(3)] assms(2) by simp
  then obtain msg where msg: "errs' = errs @ [partition_message enc part msg]" "partition_failed part msg es es'"
    using assms(4) by (auto simp: partition_outcome_def)
  have "applied_hash old es' = applied_hash part es" if "part_id old = part_id part" for old
    using msg(2) that by (simp add: partition_failed_def in_progress_def applied_hash_def)
  then have "hash_matches (map_option ps_meta (hm_get (es_partitions es') (part_id old))) (partition_hash (sys_digest sys) old)"
    if "part_id old = part_id part" "applied_hash part es = Some (partition_hash (sys_digest sys) old)" for old
    using that current_applied_hash [of "sys_digest sys" es' old] by (simp add: partition_current_def)
  with msg show ?thesis by (auto simp: provision_partition_step_def ret_def)
qed

definition failing_driver :: "'x driver" where
  "failing_driver = local_driver\<lparr>drv_provision_partition := (\<lambda>_ _ _ _. throw (ProvisionFailed ''quota''))\<rparr>"

definition name_digest :: "json \<Rightarrow> string" where
  "name_digest j = (case json_as_str (json_index j ''name'') of None \<Rightarrow> [] | Some s \<Rightarrow> s)"

text \<open>The partition \<open>web\<close> is active, its new name cannot be applied, its old name is then not applied again.\<close>

definition web_state :: enclave_state where
  "web_state = (new_enclave_state sample_exporter)\<lparr>es_partitions := [(PartitionId ''web'',
     (new_partition_state sample_partition)\<lparr>ps_meta := mark_active 0 ''web'' default_meta\<rparr>)]\<rparr>"

lemma name_digest_partition: "partition_hash name_digest p = part_name p"
  unfolding partition_hash_eq
  by (simp add: name_digest_def partition_to_json_def json_index_def json_get_object)

lemma web_step:
  "\<exists>es' w'. provision_partition_step (sample_system\<lparr>sys_digest := name_digest\<rparr>) sample_backend failing_driver
     sample_exporter 0 (sample_partition\<lparr>part_name := ''new''\<rparr>) (web_state, []) demo_world =
   (Inr (es', [partition_message sample_exporter (sample_partition\<lparr>part_name := ''new''\<rparr>) ''provision failed: quota'']), w')"
  by (simp add: provision_partition_step_def name_digest_partition Let_def seq_def attempt_def ext_do_def st_do_def
      map_err_def store_do_def sample_system_def memory_ops_def mem_upsert_enclave_def failing_driver_def throw_def ret_def
      record_partition_def utc_now_def new_v4_def emit_def mem_append_event_def partition_message_def web_state_def hm_get_def
      hash_matches_def new_partition_state_def default_meta_def driver_error_str_def mark_active_def new_enclave_state_def)

theorem failed_update_keeps_hash_witness:
  "\<exists>es' w' msg. provision_partition_step (sample_system\<lparr>sys_digest := name_digest\<rparr>) sample_backend failing_driver
     sample_exporter 0 (sample_partition\<lparr>part_name := ''new''\<rparr>) (web_state, []) demo_world = (Inr (es', [msg]), w') \<and>
   provision_partition_step (sample_system\<lparr>sys_digest := name_digest\<rparr>) sample_backend failing_driver
     sample_exporter 0 sample_partition (es', []) w' = (Inr (es', []), w')"
proof -
  let ?sys = "sample_system\<lparr>sys_digest := name_digest\<rparr>" and ?new = "sample_partition\<lparr>part_name := ''new''\<rparr>"
  obtain es' w' msg where step: "provision_partition_step ?sys sample_backend failing_driver sample_exporter 0 ?new
      (web_state, []) demo_world = (Inr (es', [msg]), w')"
    using web_step by blast
  have "applied_hash ?new web_state = Some (partition_hash (sys_digest ?sys) sample_partition)"
    by (simp add: name_digest_partition applied_hash_def web_state_def hm_get_def sample_partition_def mark_active_def)
  moreover have "sys_store ?sys = memory_ops" by (simp add: sample_system_def)
  ultimately show ?thesis
    using failed_update_keeps_hash [OF _ demo_mem step] step by auto
qed

end
