(* ===== verification/Reconcile_Audit.thy ===== *)
theory Reconcile_Audit
  imports Reconcile_Props
begin

section \<open>The audit log of a reconcile\<close>

text \<open>
  Every event is appended: the log of a reconcile starts where the log was, its first event is
  \<open>ReconcileStarted\<close>, its last one \<open>ReconcileCompleted\<close>, and in between there are only events of
  desired enclaves. Proved for every \<open>state_store\<close>, used for the one in memory.
\<close>

definition log_grown :: "audit_event list \<Rightarrow> enclave_id set \<Rightarrow> audit_event list \<Rightarrow> bool" where
  "log_grown pre ids evs \<longleftrightarrow> (\<exists>mid. evs = pre @ mid \<and> (\<forall>ev \<in> set mid. \<exists>i \<in> ids. event_enclave ev = Some i))"

lemma log_grown_refl [simp]: "log_grown pre ids pre"
  by (simp add: log_grown_def)

lemma log_grown_snoc: "log_grown pre ids evs \<Longrightarrow> event_enclave ev = Some i \<Longrightarrow> i \<in> ids \<Longrightarrow> log_grown pre ids (evs @ [ev])"
  by (auto simp: log_grown_def)

text \<open>The whole apply: the log it leaves, on success and on an error.\<close>

definition bracketed :: "audit_event list \<Rightarrow> enclave_id set \<Rightarrow> nat \<Rightarrow> audit_event list \<Rightarrow> bool" where
  "bracketed pre ids n evs \<longleftrightarrow> (\<exists>rid t0 mid t1. evs = pre @ [ReconcileStarted rid t0 False] @ mid @
     [ReconcileCompleted rid t1 n False] \<and> (\<forall>ev \<in> set mid. \<exists>i \<in> ids. event_enclave ev = Some i))"

context state_store
begin

abbreviation logged :: "audit_event list \<Rightarrow> enclave_id set \<Rightarrow> 's \<Rightarrow> bool" where
  "logged pre ids \<equiv> (\<lambda>s. inv s \<and> log_grown pre ids (sv_events (abs s)))"

lemma logged_store:
  "preserves (logged pre ids) (so_upsert_enclave ops st)" "preserves (logged pre ids) (so_delete_enclave ops i)"
  "preserves (logged pre ids) (so_get_enclave ops i)" "preserves (logged pre ids) (so_upsert_iac_run ops r)"
  by (rule preservesI_wp, auto intro: wp_mono [OF upsert_law] wp_mono [OF delete_law] wp_mono [OF get_law] wp_mono [OF run_law])+

lemma logged_append:
  "event_enclave ev = Some i \<Longrightarrow> i \<in> ids \<Longrightarrow> preserves (logged pre ids) (so_append_event ops ev)"
  by (rule preservesI_wp) (auto intro!: wp_mono [OF append_law] log_grown_snoc)

lemma logged_emit:
  assumes "sys_store sys = ops" "\<And>u t. event_enclave (ev u t) = Some i" "i \<in> ids"
  shows "preserves (on_store (logged pre ids)) (emit sys ev)"
  unfolding emit_def assms(1) by (intro preserves_intros frame_st_do logged_append [OF assms(2,3)])

lemmas logged_intros = frame_st_do logged_store tf_provision_preserves tf_teardown_preserves

lemma logged_teardown:
  assumes "sys_store sys = ops"
  shows "preserves (on_store (logged pre ids)) (teardown_enclave_step sys b req rid act eid errs)"
proof -
  have "preserves (on_store (logged pre ids)) (teardown_partition_step sys b driver env ex rid eid x errs)" for driver env ex x errs
    unfolding teardown_partition_step_def assms
    by (cases x) (simp only: prod.case Let_def, intro preserves_intros tf_teardown_preserves, simp add: assms logged_store)
  then show ?thesis
    unfolding teardown_enclave_step_def assms Let_def by (intro preserves_intros logged_intros)
qed

lemma logged_provision:
  assumes "sys_store sys = ops" "enc_id enc \<in> ids"
  shows "preserves (on_store (logged pre ids)) (provision_enclave_step sys b rid act enc errs)"
proof -
  note ev = logged_emit [OF assms(1) _ assms(2)]
  have tf: "preserves (on_store (logged pre ids)) (tf_provision sys b enc part inputs env r)" for part inputs env r
    by (rule tf_provision_preserves) (simp add: assms(1) logged_store)
  have part: "preserves (on_store (logged pre ids)) (provision_partition_step sys b driver enc rid part acc)" for driver part acc
    unfolding provision_partition_step_def provision_with_identity_def record_partition_def merge_sa_def assms(1) Let_def
    by (cases acc) (simp only: prod.case, intro preserves_intros logged_intros ev tf, simp_all add: event_enclave_def)
  have x: "preserves (on_store (logged pre ids)) (provision_export_step sys driver enc y acc)" for driver y acc
    unfolding provision_export_step_def Let_def
    by (cases acc) (simp only: prod.case, intro preserves_intros ev, simp_all add: event_enclave_def)
  show ?thesis
    unfolding provision_enclave_step_def assms(1) Let_def
    by (intro preserves_intros logged_intros ev part x) (simp_all add: event_enclave_def)
qed

lemma logged_wire:
  assumes "sys_store sys = ops" "enc_id enc \<in> ids"
  shows "preserves (on_store (logged pre ids)) (wire_enclave_step sys enc errs)"
proof -
  note ev = logged_emit [OF assms(1) _ assms(2)]
  have "preserves (on_store (logged pre ids)) (wire_import_step sys driver enc i acc)" for driver i acc
    unfolding wire_import_step_def assms(1)
    by (cases acc) (simp only: prod.case, intro preserves_intros logged_intros ev, simp_all add: event_enclave_def)
  then show ?thesis
    unfolding wire_enclave_step_def assms(1) by (intro preserves_intros logged_intros)
qed

lemma append_event_wp:
  assumes "sys_store sys = ops" "inv (w_store w)"
  shows "wp (st_do (so_append_event (sys_store sys) ev))
    (\<lambda>_ w'. inv (w_store w') \<and> sv_events (abs (w_store w')) = sv_events (abs (w_store w)) @ [ev])
    (\<lambda>_ w'. sv_events (abs (w_store w')) = sv_events (abs (w_store w))) w"
  unfolding st_do_def assms(1) wp_simps by (rule wp_mono [OF append_law]) (use assms in auto)

lemma apply_changes_log:
  assumes "sys_store sys = ops" "inv (w_store w)" "set ordered \<subseteq> set desired" "pre = sv_events (abs (w_store w))"
  shows "wp (apply_changes sys req act desired ordered report)
    (\<lambda>_ w'. bracketed pre (enc_id ` set desired) (length (rep_changes report)) (sv_events (abs (w_store w'))))
    (\<lambda>_ w'. \<exists>evs. sv_events (abs (w_store w')) = pre @ evs) w"
proof -
  let ?ids = "enc_id ` set desired"
  let ?L = "\<lambda>p. on_store (logged p ?ids)"
  have steps: "preserves (?L p) (foldM (teardown_enclave_step sys b req rid act) xs errs)"
    "preserves (?L p) (foldM (wire_enclave_step sys) ordered errs)"
    "preserves (?L p) (foldM (provision_enclave_step sys b rid act) ordered errs)" for p b rid xs errs
  proof -
    show "preserves (?L p) (foldM (teardown_enclave_step sys b req rid act) xs errs)"
      by (intro preserves_foldM logged_teardown assms(1))
    have in_ids: "enc_id enc \<in> ?ids" if "enc \<in> set ordered" for enc using that assms(3) by auto
    show "preserves (?L p) (foldM (wire_enclave_step sys) ordered errs)"
      by (rule preservesI_wp, rule wp_mono [OF wp_foldM [where I = "\<lambda>_. ?L p" and E = "\<lambda>_. ?L p"]])
        (auto intro: preserves_wp logged_wire [OF assms(1) in_ids])
    show "preserves (?L p) (foldM (provision_enclave_step sys b rid act) ordered errs)"
      by (rule preservesI_wp, rule wp_mono [OF wp_foldM [where I = "\<lambda>_. ?L p" and E = "\<lambda>_. ?L p"]])
        (auto intro: preserves_wp logged_provision [OF assms(1) in_ids])
  qed
  have err: "\<exists>evs. sv_events (abs (w_store w')) = pre @ evs" if "?L (pre @ [s]) w'" for s w'
    using that by (auto simp: log_grown_def)
  show ?thesis
    unfolding apply_changes_def Let_def wp_seq wp_new_v4 wp_utc_now
  proof (rule wp_mono [OF append_event_wp [OF assms(1)]], goal_cases)
    case 1
    then show ?case using assms(2) by simp
  next
    case (2 u w1)
    let ?s = "ReconcileStarted (sys_uuid sys (w_tick w)) (sys_now sys (w_tick (w\<lparr>w_tick := Suc (w_tick w)\<rparr>))) False"
    let ?p = "pre @ [?s]"
    from 2 have w1: "?L ?p w1" using assms(4) by simp
    show ?case
    proof (rule wp_mono [OF preserves_wp [OF steps(1) w1]], goal_cases)
      case (1 errs6 w2)
      show ?case
      proof (rule wp_mono [OF preserves_wp [OF steps(3) 1]], goal_cases)
        case (1 errs7 w3)
        show ?case
        proof (rule wp_mono [OF preserves_wp [OF steps(2) 1]], goal_cases)
          case (1 errs8 w4)
          obtain mid where mid: "inv (w_store w4)" "sv_events (abs (w_store w4)) = ?p @ mid"
            "\<forall>ev \<in> set mid. \<exists>i \<in> ?ids. event_enclave ev = Some i"
            using 1 by (auto simp: log_grown_def)
          show ?case
            by (rule wp_mono [OF append_event_wp [OF assms(1)]])
              (use mid in \<open>auto simp: wp_ret bracketed_def\<close>)
        qed (rule err)
      qed (rule err)
    qed (rule err)
  next
    case (3 e w1)
    then show ?case using assms(4) by simp
  qed
qed

end

text \<open>
  C3. The audit log is append-only and tells the whole run: whatever the outcome, the earlier log is
  a prefix of the new one; a dry run and a rejected configuration add nothing; an apply that
  returns a report adds one \<open>ReconcileStarted\<close>, then only events of desired enclaves, then one
  \<open>ReconcileCompleted\<close> with the number of changes.
\<close>
theorem reconcile_audit_log:
  assumes "sys_store sys = memory_ops" "mem_inv (w_store w)"
  shows "let pre = ms_events (w_store w) in case reconcile yp sys req w of
     (Inr rep, w') \<Rightarrow>
       (if rq_dry_run req then ms_events (w_store w') = pre
        else \<exists>desired. load_enclaves yp (w_fs w) (rq_enclaves_dir req) = Inr desired \<and>
          bracketed pre (enc_id ` set desired) (length (rep_changes rep)) (ms_events (w_store w')))
   | (Inl e, w') \<Rightarrow> (\<exists>evs. ms_events (w_store w') = pre @ evs \<and> (evs \<noteq> [] \<longrightarrow> apply_error e))"
proof -
  have V: "sv_events (mem_abs s) = ms_events s" for s by (simp add: mem_abs_def)
  show ?thesis
  proof (cases "load_enclaves yp (w_fs w) (rq_enclaves_dir req)")
    case (Inr desired)
    show ?thesis
    proof (cases "validate (sys_petgraph sys) desired")
      case (Inl e)
      then show ?thesis using Inr by (simp add: reconcile_unfold)
    next
      case (Inr g)
      let ?act = "actual_states (hm_values (ms_enclaves (w_store w)))" and ?ord = "ordered_desired g desired"
      let ?rep = "(new_report (rq_dry_run req))\<lparr>rep_changes := diff_changes (sys_digest sys) ?act desired ?ord\<rparr>"
      have run: "reconcile yp sys req w = (if rq_dry_run req then (Inr ?rep, w) else apply_changes sys req ?act desired ?ord ?rep w)"
        using \<open>load_enclaves _ _ _ = _\<close> Inr by (simp add: reconcile_unfold assms(1) mem_list Let_def)
      have "set ?ord \<subseteq> set desired"
        using hm_get_by_id_Some by (fastforce simp: ordered_desired_def Let_def in_map_filter)
      note log = mem.apply_changes_log [OF assms this refl, of req ?act ?rep, unfolded V]
      show ?thesis
        using run log \<open>load_enclaves _ _ _ = _\<close>
        by (auto simp: wp_def Let_def split: prod.splits sum.splits if_splits
            dest: apply_changes_report raisesD [OF apply_changes_raises])
    qed
  qed (simp add: reconcile_unfold)
qed

theorem reconcile_audit_log_witness:
  "\<exists>rep w. reconcile demo_yaml sample_system demo_request demo_world = (Inr rep, w) \<and>
     bracketed [] {EnclaveId ''a'', EnclaveId ''b''} (length (rep_changes rep)) (ms_events (w_store w))"
proof -
  obtain rep w where run: "reconcile demo_yaml sample_system demo_request demo_world = (Inr rep, w)"
    by (rule demo_run [of mem_new, unfolded demo_new])
  have ids: "enc_id ` set demo_enclaves = {EnclaveId ''a'', EnclaveId ''b''}"
    by (simp add: demo_enclaves_def sample_defs)
  show ?thesis
    using reconcile_audit_log [OF demo_system(1) demo_mem, where yp = demo_yaml and req = demo_request] run ids
    by (simp add: demo_req demo_load Let_def) (simp add: demo_world_def mem_new_def)
qed

end
