(* ===== verification/Utf8.thy ===== *)
theory Utf8
  imports Rust_Strings
begin

section \<open>UTF-8\<close>

text \<open>
  The encoding of the strings: which sequences of bytes are one, the characters of a string, each as
  the string of its bytes, and the operations that work on characters. What the standard library
  says about characters outside ASCII is the parameter \<open>unicode\<close>. \<open>to_lowercase\<close> is taken character by
  character, so the final form of sigma is left out.
\<close>

text \<open>\<open>std::str::from_utf8\<close>: the sequences of one to four bytes that encode a scalar value.\<close>

abbreviation between :: "8 word \<Rightarrow> 8 word \<Rightarrow> 8 word \<Rightarrow> bool" where
  "between a b c \<equiv> a \<le> b \<and> b \<le> c"

abbreviation cont_byte :: "8 word \<Rightarrow> bool" where
  "cont_byte b \<equiv> between 0x80 b 0xBF"

definition utf8_second :: "8 word \<Rightarrow> 8 word \<Rightarrow> bool" where
  "utf8_second a b \<longleftrightarrow>
     (if a = 0xE0 then between 0xA0 b 0xBF
      else if a = 0xED then between 0x80 b 0x9F
      else if a = 0xF0 then between 0x90 b 0xBF
      else if a = 0xF4 then between 0x80 b 0x8F
      else cont_byte b)"

fun utf8_valid :: "8 word list \<Rightarrow> bool" where
  "utf8_valid [] \<longleftrightarrow> True"
| "utf8_valid (a # xs) \<longleftrightarrow>
     (if a < 0x80 then utf8_valid xs
      else if between 0xC2 a 0xDF then
        (case xs of b # cs \<Rightarrow> cont_byte b \<and> utf8_valid cs | _ \<Rightarrow> False)
      else if between 0xE0 a 0xEF then
        (case xs of b # c # ds \<Rightarrow> utf8_second a b \<and> cont_byte c \<and> utf8_valid ds | _ \<Rightarrow> False)
      else if between 0xF0 a 0xF4 then
        (case xs of b # c # d # es \<Rightarrow> utf8_second a b \<and> cont_byte c \<and> cont_byte d \<and> utf8_valid es | _ \<Rightarrow> False)
      else False)"

definition from_utf8 :: "8 word list \<Rightarrow> string option" where
  "from_utf8 xs = (if utf8_valid xs then Some (map (\<lambda>b. char_of (unat b)) xs) else None)"

definition to_bytes :: "string \<Rightarrow> 8 word list" where
  "to_bytes s = map (\<lambda>c. of_nat (of_char c)) s"

lemma byte_of_char: "char_of (unat (of_nat (of_char c) :: 8 word)) = c"
proof -
  have "of_char c < (256 :: nat)" by (rule nat_of_char_less_256)
  then have "unat (of_nat (of_char c) :: 8 word) = of_char c" by (simp add: unat_of_nat)
  then show ?thesis by simp
qed

lemma from_utf8_to_bytes: "utf8_valid (to_bytes s) \<Longrightarrow> from_utf8 (to_bytes s) = Some s"
  by (simp add: from_utf8_def to_bytes_def comp_def byte_of_char)

lemma utf8_valid_ascii: "(\<And>b. b \<in> set xs \<Longrightarrow> b < 0x80) \<Longrightarrow> utf8_valid xs"
  by (induction xs) auto

text \<open>
  \<open>Utf8Error\<close>: the index of the first byte that is not part of a valid sequence, and how many bytes are
  wrong there, none when the input ends inside a sequence. Its \<open>Display\<close> is \<open>utf8_error_str\<close>.
\<close>

fun utf8_fault :: "nat \<Rightarrow> 8 word list \<Rightarrow> (nat \<times> nat option) option" where
  "utf8_fault i [] = None"
| "utf8_fault i (a # xs) =
     (if a < 0x80 then utf8_fault (i + 1) xs
      else if between 0xC2 a 0xDF then
        (case xs of [] \<Rightarrow> Some (i, None)
         | b # cs \<Rightarrow> if cont_byte b then utf8_fault (i + 2) cs else Some (i, Some 1))
      else if between 0xE0 a 0xEF then
        (case xs of [] \<Rightarrow> Some (i, None)
         | b # cs \<Rightarrow> if \<not> utf8_second a b then Some (i, Some 1) else (case cs of [] \<Rightarrow> Some (i, None)
         | c # ds \<Rightarrow> if cont_byte c then utf8_fault (i + 3) ds else Some (i, Some 2)))
      else if between 0xF0 a 0xF4 then
        (case xs of [] \<Rightarrow> Some (i, None)
         | b # cs \<Rightarrow> if \<not> utf8_second a b then Some (i, Some 1) else (case cs of [] \<Rightarrow> Some (i, None)
         | c # ds \<Rightarrow> if \<not> cont_byte c then Some (i, Some 2) else (case ds of [] \<Rightarrow> Some (i, None)
         | d # es \<Rightarrow> if cont_byte d then utf8_fault (i + 4) es else Some (i, Some 3))))
      else Some (i, Some 1))"

lemma utf8_fault_valid: "utf8_fault i xs = None \<longleftrightarrow> utf8_valid xs"
proof (induction xs arbitrary: i rule: utf8_valid.induct)
  case (2 a xs)
  note eqs = utf8_fault.simps(2) utf8_valid.simps(2) if_True if_False list.case
  consider (ascii) "a < 0x80" | (two) "\<not> a < 0x80" "between 0xC2 a 0xDF"
    | (three) "\<not> a < 0x80" "\<not> between 0xC2 a 0xDF" "between 0xE0 a 0xEF"
    | (four) "\<not> a < 0x80" "\<not> between 0xC2 a 0xDF" "\<not> between 0xE0 a 0xEF" "between 0xF0 a 0xF4"
    | (bad) "\<not> a < 0x80" "\<not> between 0xC2 a 0xDF" "\<not> between 0xE0 a 0xEF" "\<not> between 0xF0 a 0xF4"
    by metis
  then show ?case
  proof cases
    case ascii
    then show ?thesis using 2(1) by (simp only: eqs)
  next
    case two
    note IH = 2(2) [OF two]
    from two show ?thesis
      by (cases xs) (simp_all only: eqs IH refl option.distinct split: if_split, blast+)
  next
    case three
    note IH = 2(3) [OF three]
    show ?thesis
    proof (cases xs)
      case (Cons b cs)
      with IH three show ?thesis
        by (cases cs; cases "utf8_second a b"; cases "cont_byte (hd cs)") (simp_all only: eqs list.sel simp_thms option.distinct)
    qed (simp only: eqs three option.distinct simp_thms)
  next
    case four
    note IH = 2(4) [OF four]
    show ?thesis
    proof (cases xs)
      case (Cons b cs)
      show ?thesis
      proof (cases cs)
        case c: (Cons c ds)
        with Cons IH four show ?thesis
          by (cases ds; cases "utf8_second a b"; cases "cont_byte c"; cases "cont_byte (hd ds)")
             (simp_all only: eqs list.sel simp_thms option.distinct)
      qed (use Cons four in \<open>cases "utf8_second a b"; simp only: eqs simp_thms option.distinct\<close>)
    qed (simp only: eqs four option.distinct simp_thms)
  next
    case bad
    then show ?thesis by (simp only: eqs option.distinct simp_thms)
  qed
qed (simp only: utf8_fault.simps utf8_valid.simps simp_thms)

definition utf8_error_str :: "8 word list \<Rightarrow> string" where
  "utf8_error_str xs = (case utf8_fault 0 xs of
     Some (i, Some n) \<Rightarrow> ''invalid utf-8 sequence of '' @ nat_str n @ '' bytes from index '' @ nat_str i
   | Some (i, None) \<Rightarrow> ''incomplete utf-8 byte sequence from index '' @ nat_str i
   | None \<Rightarrow> [])"

subsection \<open>Characters\<close>

definition is_cont :: "char \<Rightarrow> bool" where
  "is_cont c \<longleftrightarrow> 128 \<le> (of_char c :: nat) \<and> (of_char c :: nat) < 192"

lemma shorter_rest [termination_simp]: "length (dropWhile P cs) < Suc (length cs)"
  by (simp add: length_dropWhile_le le_imp_less_Suc)

fun str_chars :: "string \<Rightarrow> string list" where
  "str_chars [] = []"
| "str_chars (c # cs) = (c # takeWhile is_cont cs) # str_chars (dropWhile is_cont cs)"

record unicode =
  uc_alphanumeric :: "string \<Rightarrow> bool"
  uc_white :: "string \<Rightarrow> bool"
  uc_lower :: "string \<Rightarrow> string"

definition is_lower_ascii :: "char \<Rightarrow> bool" where
  "is_lower_ascii c \<longleftrightarrow> 97 \<le> (of_char c :: nat) \<and> (of_char c :: nat) \<le> 122"

definition is_upper_ascii :: "char \<Rightarrow> bool" where
  "is_upper_ascii c \<longleftrightarrow> 65 \<le> (of_char c :: nat) \<and> (of_char c :: nat) \<le> 90"

definition is_digit :: "char \<Rightarrow> bool" where
  "is_digit c \<longleftrightarrow> 48 \<le> (of_char c :: nat) \<and> (of_char c :: nat) \<le> 57"

definition is_alnum_ascii :: "char \<Rightarrow> bool" where
  "is_alnum_ascii c \<longleftrightarrow> is_lower_ascii c \<or> is_upper_ascii c \<or> is_digit c"

definition lower_ascii :: "char \<Rightarrow> char" where
  "lower_ascii c = (if is_upper_ascii c then char_of (of_char c + 32 :: nat) else c)"

definition char_alphanumeric :: "unicode \<Rightarrow> string \<Rightarrow> bool" where
  "char_alphanumeric uc ch = (case ch of [c] \<Rightarrow> is_alnum_ascii c | _ \<Rightarrow> uc_alphanumeric uc ch)"

definition char_white :: "unicode \<Rightarrow> string \<Rightarrow> bool" where
  "char_white uc ch = (case ch of [c] \<Rightarrow> is_ws c | _ \<Rightarrow> uc_white uc ch)"

definition to_lowercase :: "unicode \<Rightarrow> string \<Rightarrow> string" where
  "to_lowercase uc s =
     concat (map (\<lambda>ch. case ch of [c] \<Rightarrow> [lower_ascii c] | _ \<Rightarrow> uc_lower uc ch) (str_chars s))"

text \<open>\<open>s.split_whitespace()\<close>, collected.\<close>

fun words_of :: "unicode \<Rightarrow> string \<Rightarrow> string list \<Rightarrow> string list" where
  "words_of uc cur [] = (if cur = [] then [] else [cur])"
| "words_of uc cur (ch # chs) =
     (if char_white uc ch then (if cur = [] then words_of uc [] chs else cur # words_of uc [] chs)
      else words_of uc (cur @ ch) chs)"

definition split_whitespace :: "unicode \<Rightarrow> string \<Rightarrow> string list" where
  "split_whitespace uc s = words_of uc [] (str_chars s)"

text \<open>\<open>&s[..n]\<close>: \<open>None\<close> is the panic when \<open>n\<close> is past the end or inside a character.\<close>

definition slice_to :: "nat \<Rightarrow> string \<Rightarrow> string option" where
  "slice_to n s = (if n = length s \<or> n < length s \<and> \<not> is_cont (s ! n) then Some (take n s) else None)"

lemma str_chars_ascii: "list_all (\<lambda>c. \<not> is_cont c) s \<Longrightarrow> str_chars s = map (\<lambda>c. [c]) s"
proof (induction s)
  case (Cons c cs)
  then have "takeWhile is_cont cs = []" "dropWhile is_cont cs = cs" by (cases cs; simp)+
  with Cons show ?case by simp
qed simp

lemma slice_to_length: "slice_to n s = Some t \<Longrightarrow> length t = n \<and> t = take n s"
  by (auto simp: slice_to_def split: if_splits)

end
