(* ===== verification/Api_Auth.thy ===== *)
theory Api_Auth
  imports Store_Interface Utf8
begin

section \<open>Requests, responses and authentication\<close>

text \<open>
  The types of the HTTP interface, and \<open>crates/nclav-api/src/auth.rs\<close>. A request has its method,
  the segments of its path as they are written, its query string, its \<open>Authorization\<close> header and
  its body. What the web framework and the base64 decoder do is in \<open>http_stack\<close>: the text of a header
  value, the decoding of a path parameter and of query strings and bodies, each with the response
  that is sent when it fails, and the response to a request that no route matches.
\<close>

datatype http_method = GET | HEAD | POST | DELETE | OtherMethod string

record http_request =
  hr_method :: http_method
  hr_path :: "string list"
  hr_query :: string
  hr_authorization :: "string option"
  hr_body :: bytes

datatype http_body = NoBody | TextBody string | BytesBody bytes | JsonBody json

record http_response =
  resp_status :: nat
  resp_body :: http_body

definition status_only :: "nat \<Rightarrow> http_response" where
  "status_only n = \<lparr>resp_status = n, resp_body = NoBody\<rparr>"

definition json_response :: "json \<Rightarrow> http_response" where
  "json_response v = \<lparr>resp_status = 200, resp_body = JsonBody v\<rparr>"

record reconcile_body =
  rb_enclaves_dir :: string
  rb_resources_only :: bool

record http_stack =
  hs_to_str :: "string \<Rightarrow> string option"
  hs_base64 :: "string \<Rightarrow> bytes option"
  hs_param :: "string \<Rightarrow> (http_response, string) result"
  hs_reconcile_body :: "http_request \<Rightarrow> (http_response, reconcile_body) result"
  hs_json_body :: "http_request \<Rightarrow> (http_response, json) result"
  hs_delete_query :: "string \<Rightarrow> (http_response, bool) result"
  hs_events_query :: "string \<Rightarrow> (http_response, string option \<times> 32 word option) result"
  hs_from_slice :: "bytes \<Rightarrow> json option"
  hs_unrouted :: "http_request \<Rightarrow> http_response"

subsection \<open>The token of a request\<close>

definition basic_password :: "http_stack \<Rightarrow> string \<Rightarrow> string option" where
  "basic_password hs encoded =
     Option.bind (hs_base64 hs encoded) (\<lambda>decoded.
     Option.bind (from_utf8 decoded) (\<lambda>creds.
     map_option snd (split_once (CHR '':'') creds)))"

text \<open>The token in the text of the header.\<close>

definition header_token :: "http_stack \<Rightarrow> string \<Rightarrow> string option" where
  "header_token hs s =
     (case strip_prefix ''Bearer '' s of
        Some t \<Rightarrow> Some t
      | None \<Rightarrow> (case strip_prefix ''Basic '' s of
          Some encoded \<Rightarrow> basic_password hs encoded
        | None \<Rightarrow> None))"

definition request_token :: "http_stack \<Rightarrow> http_request \<Rightarrow> string option" where
  "request_token hs req =
     Option.bind (Option.bind (hr_authorization req) (hs_to_str hs)) (header_token hs)"

definition unauthorized :: http_response where
  "unauthorized = \<lparr>resp_status = 401, resp_body = TextBody (''Unauthorized'' @ nl)\<rparr>"

definition token_valid :: "http_stack \<Rightarrow> string \<Rightarrow> http_request \<Rightarrow> bool" where
  "token_valid hs auth_token req \<longleftrightarrow> (case request_token hs req of Some t \<Rightarrow> t = auth_token | None \<Rightarrow> False)"

definition require_bearer_token ::
  "http_stack \<Rightarrow> string \<Rightarrow> (http_request \<Rightarrow> 'w \<Rightarrow> http_response option \<times> 'w) \<Rightarrow>
     http_request \<Rightarrow> 'w \<Rightarrow> http_response option \<times> 'w" where
  "require_bearer_token hs auth_token next_fn req w =
     (if token_valid hs auth_token req then next_fn req w else (Some unauthorized, w))"

lemma basic_password_iff:
  "basic_password hs e = Some pw \<longleftrightarrow>
     (\<exists>raw user. hs_base64 hs e = Some raw \<and> from_utf8 raw = Some (user @ '':'' @ pw) \<and> CHR '':'' \<notin> set user)"
  by (auto simp: basic_password_def bind_eq_Some_conv split_once_Some)

lemma strip_prefix_append [simp]: "strip_prefix p (p @ t) = Some t"
  by (simp add: strip_prefix_eq_Some)

lemma strip_prefix_None: "strip_prefix p s = None \<longleftrightarrow> (\<forall>t. s \<noteq> p @ t)"
  by (metis not_None_eq strip_prefix_eq_Some)

lemma header_token_iff:
  "header_token hs s = Some t \<longleftrightarrow>
     s = ''Bearer '' @ t \<or> (\<exists>e. s = ''Basic '' @ e \<and> basic_password hs e = Some t)"
proof (cases "strip_prefix ''Bearer '' s")
  case (Some u)
  then have "s = ''Bearer '' @ u" by (simp only: strip_prefix_eq_Some)
  then show ?thesis using Some by (auto simp: header_token_def)
next
  case None
  then have nb: "s \<noteq> ''Bearer '' @ t" by (simp only: strip_prefix_None) blast
  have h: "header_token hs s = (case strip_prefix ''Basic '' s of Some e \<Rightarrow> basic_password hs e | None \<Rightarrow> None)"
    using None by (simp add: header_token_def)
  show ?thesis
  proof (cases "strip_prefix ''Basic '' s")
    case nobasic: None
    then have "\<forall>e. s \<noteq> ''Basic '' @ e" by (simp only: strip_prefix_None) blast
    then show ?thesis using nb h nobasic by auto
  next
    case (Some e)
    then have "s = ''Basic '' @ e" by (simp only: strip_prefix_eq_Some)
    then show ?thesis using nb h Some by auto
  qed
qed

lemma token_valid_conv:
  "token_valid hs tok req \<longleftrightarrow> (\<exists>raw. hr_authorization req = Some raw \<and>
     (hs_to_str hs raw = Some (''Bearer '' @ tok) \<or>
      (\<exists>e bytes user. hs_to_str hs raw = Some (''Basic '' @ e) \<and> hs_base64 hs e = Some bytes \<and>
         from_utf8 bytes = Some (user @ '':'' @ tok) \<and> CHR '':'' \<notin> set user)))"
proof -
  have "request_token hs req = Some tok \<longleftrightarrow> (\<exists>raw s. hr_authorization req = Some raw \<and> hs_to_str hs raw = Some s \<and>
      header_token hs s = Some tok)"
    unfolding request_token_def bind_eq_Some_conv by blast
  then show ?thesis
    unfolding token_valid_def header_token_iff basic_password_iff
    by (cases "request_token hs req") auto
qed

text \<open>
  C20. Which requests are let through: those whose \<open>Authorization\<close> header reads as the word
  Bearer followed by the server's token, or as the word Basic followed by the base64 form of
  valid UTF-8 text that is a user name without colon, a colon, and the server's token; every
  other request, also one without the header, is not.
\<close>
theorem token_valid_iff:
  "token_valid hs tok req \<longleftrightarrow> (\<exists>raw. hr_authorization req = Some raw \<and>
     (hs_to_str hs raw = Some (''Bearer '' @ tok) \<or>
      (\<exists>e bytes user. hs_to_str hs raw = Some (''Basic '' @ e) \<and> hs_base64 hs e = Some bytes \<and>
         from_utf8 bytes = Some (user @ '':'' @ tok) \<and> CHR '':'' \<notin> set user)))"
  by (rule token_valid_conv)

end
