(* ===== verification/State_Json.thy ===== *)
theory State_Json
  imports Store_State
begin

section \<open>The state as JSON\<close>

text \<open>
  What \<open>serde\<close> derives for the structs of \<open>crates/nclav-store/src/state.rs\<close>: the form in which the
  state leaves the program, in the responses of the HTTP interface and in the rows of PostgreSQL.
  The texts of times, identifiers and decoding errors are made by third-party code, as is the
  parser of identifiers: they are the functions of \<open>text_forms\<close>.
\<close>

record text_forms =
  tx_time :: "datetime \<Rightarrow> string"
  tx_uuid :: "uuid \<Rightarrow> string"
  tx_json_error :: "json_error \<Rightarrow> string"
  tx_parse_uuid :: "string \<Rightarrow> uuid option"

definition json_time :: "text_forms \<Rightarrow> datetime \<Rightarrow> json" where
  "json_time tx t = JString (tx_time tx t)"

definition json_uuid :: "text_forms \<Rightarrow> uuid \<Rightarrow> json" where
  "json_uuid tx u = JString (tx_uuid tx u)"

text \<open>A map whose keys print as strings.\<close>

definition json_map :: "('k \<Rightarrow> string) \<Rightarrow> ('v \<Rightarrow> json) \<Rightarrow> ('k, 'v) hashmap \<Rightarrow> json" where
  "json_map key val m = JObject (bt_collect (map (\<lambda>(k, v). (key k, val v)) m))"

definition resource_error_to_json :: "text_forms \<Rightarrow> resource_error \<Rightarrow> json" where
  "resource_error_to_json tx e = json_object [
     (''message'', JString (rerr_message e)),
     (''occurred_at'', json_time tx (rerr_occurred_at e))]"

definition resource_meta_to_json :: "text_forms \<Rightarrow> resource_meta \<Rightarrow> json" where
  "resource_meta_to_json tx m = json_object [
     (''status'', JString (status_str (meta_status m))),
     (''created_at'', json_option (json_time tx) (meta_created_at m)),
     (''updated_at'', json_option (json_time tx) (meta_updated_at m)),
     (''last_seen_at'', json_option (json_time tx) (meta_last_seen_at m)),
     (''last_error'', json_option (resource_error_to_json tx) (meta_last_error m)),
     (''desired_hash'', json_opt_str (meta_desired_hash m)),
     (''generation'', JNumber (uint (meta_generation m)))]"

definition partition_state_to_json :: "text_forms \<Rightarrow> partition_state \<Rightarrow> json" where
  "partition_state_to_json tx p = json_object [
     (''desired'', partition_to_json (ps_desired p)),
     (''partition_handle'', json_option id (ps_handle p)),
     (''resolved_outputs'', json_string_map (ps_outputs p)),
     (''meta'', resource_meta_to_json tx (ps_meta p))]"

definition enclave_state_to_json :: "text_forms \<Rightarrow> enclave_state \<Rightarrow> json" where
  "enclave_state_to_json tx e = json_object [
     (''desired'', enclave_to_json (es_desired e)),
     (''enclave_handle'', json_option id (es_handle e)),
     (''partitions'', json_map pid_str (partition_state_to_json tx) (es_partitions e)),
     (''export_handles'', json_map id id (es_exports e)),
     (''import_handles'', json_map id id (es_imports e)),
     (''meta'', resource_meta_to_json tx (es_meta e)),
     (''resolved_cloud'', json_option (\<lambda>c. JString (cloud_str c)) (es_resolved_cloud e))]"

definition iac_run_to_json :: "text_forms \<Rightarrow> iac_run \<Rightarrow> json" where
  "iac_run_to_json tx r = json_object [
     (''id'', json_uuid tx (run_id r)),
     (''enclave_id'', JString (eid_str (run_enclave_id r))),
     (''partition_id'', JString (pid_str (run_partition_id r))),
     (''operation'', JString (iac_operation_str (run_operation r))),
     (''started_at'', json_time tx (run_started_at r)),
     (''finished_at'', json_option (json_time tx) (run_finished_at r)),
     (''status'', JString (iac_run_status_str (run_status r))),
     (''exit_code'', json_option (\<lambda>c. JNumber (sint c)) (run_exit_code r)),
     (''log'', JString (run_log r)),
     (''reconcile_run_id'', json_option (json_uuid tx) (run_reconcile_run_id r))]"

text \<open>An event is tagged by its name under the key \<open>kind\<close>.\<close>

definition tagged :: "text_forms \<Rightarrow> string \<Rightarrow> uuid \<Rightarrow> datetime \<Rightarrow> (string \<times> json) list \<Rightarrow> json" where
  "tagged tx kind i t kvs =
     json_object ([(''kind'', JString kind), (''id'', json_uuid tx i), (''at'', json_time tx t)] @ kvs)"

definition audit_event_to_json :: "text_forms \<Rightarrow> audit_event \<Rightarrow> json" where
  "audit_event_to_json tx ev = (case ev of
     ReconcileStarted i t dry \<Rightarrow> tagged tx ''ReconcileStarted'' i t [(''dry_run'', JBool dry)]
   | ReconcileCompleted i t n dry \<Rightarrow> tagged tx ''ReconcileCompleted'' i t
       [(''changes'', JNumber (int n)), (''dry_run'', JBool dry)]
   | EnclaveProvisioned i t e \<Rightarrow> tagged tx ''EnclaveProvisioned'' i t [(''enclave_id'', JString (eid_str e))]
   | PartitionProvisioned i t e p \<Rightarrow> tagged tx ''PartitionProvisioned'' i t
       [(''enclave_id'', JString (eid_str e)), (''partition_id'', JString (pid_str p))]
   | ExportWired i t e x \<Rightarrow> tagged tx ''ExportWired'' i t
       [(''enclave_id'', JString (eid_str e)), (''export_name'', JString x)]
   | ImportWired i t e x \<Rightarrow> tagged tx ''ImportWired'' i t
       [(''importer_enclave'', JString (eid_str e)), (''export_name'', JString x)]
   | EnclaveError i t e msg \<Rightarrow> tagged tx ''EnclaveError'' i t
       [(''enclave_id'', JString (eid_str e)), (''message'', JString msg)]
   | PartitionError i t e p msg \<Rightarrow> tagged tx ''PartitionError'' i t
       [(''enclave_id'', JString (eid_str e)), (''partition_id'', JString (pid_str p)), (''message'', JString msg)])"

subsection \<open>What can be read back\<close>

text \<open>
  An event that is read knows what it was: the encodings of two events are equal only for equal
  events, when the texts of times and identifiers are faithful.
\<close>

definition event_kind :: "audit_event \<Rightarrow> string" where
  "event_kind ev = (case ev of
     ReconcileStarted _ _ _ \<Rightarrow> ''ReconcileStarted'' | ReconcileCompleted _ _ _ _ \<Rightarrow> ''ReconcileCompleted''
   | EnclaveProvisioned _ _ _ \<Rightarrow> ''EnclaveProvisioned'' | PartitionProvisioned _ _ _ _ \<Rightarrow> ''PartitionProvisioned''
   | ExportWired _ _ _ _ \<Rightarrow> ''ExportWired'' | ImportWired _ _ _ _ \<Rightarrow> ''ImportWired''
   | EnclaveError _ _ _ _ \<Rightarrow> ''EnclaveError'' | PartitionError _ _ _ _ _ \<Rightarrow> ''PartitionError'')"

lemma json_event_kind: "json_get (audit_event_to_json tx ev) ''kind'' = Some (JString (event_kind ev))"
  by (cases ev) (simp_all add: audit_event_to_json_def tagged_def json_get_object event_kind_def)

lemma tagged_eq_iff:
  assumes "map fst kvs = map fst kvs'" "distinct ([''kind'', ''id'', ''at''] @ map fst kvs)"
  shows "tagged tx kind i t kvs = tagged tx kind i' t' kvs' \<longleftrightarrow>
    json_uuid tx i = json_uuid tx i' \<and> json_time tx t = json_time tx t' \<and> map snd kvs = map snd kvs'"
  unfolding tagged_def using assms by (subst json_object_eq_iff) auto

lemma audit_event_to_json_inj:
  assumes "inj (tx_time tx)" "inj (tx_uuid tx)"
  shows "audit_event_to_json tx a = audit_event_to_json tx b \<longleftrightarrow> a = b"
proof
  assume eq: "audit_event_to_json tx a = audit_event_to_json tx b"
  then have "event_kind a = event_kind b"
    using json_event_kind [of tx a] json_event_kind [of tx b] by simp
  with eq show "a = b"
    using assms by (cases a; cases b)
      (simp_all add: event_kind_def audit_event_to_json_def tagged_eq_iff json_uuid_def json_time_def inj_eq eid_eq_iff pid_eq_iff)
qed simp

end
