(* ===== verification/Api_Handlers.thy ===== *)
theory Api_Handlers
  imports Api_Auth State_Json Reconcile
begin

section \<open>The handlers of the HTTP interface\<close>

text \<open>
  \<open>crates/nclav-api/src/state.rs\<close>, \<open>error.rs\<close> and \<open>handlers.rs\<close>. A handler is an effect on the world
  of the system that returns a response or fails: with an \<open>ApiError\<close>, with the response of an
  extractor that rejects its input, or by a panic, after which nothing is sent. The store and the
  registry of \<open>AppState\<close> are those of \<open>app_system\<close>, which with \<open>app_yaml\<close>, \<open>app_http\<close> and \<open>app_text\<close>
  also holds the third-party code that the handlers call. Log lines are left out.
\<close>

record ('s, 'x) app_state =
  app_system :: "('s, 'x) system"
  app_yaml :: yaml_parsers
  app_http :: http_stack
  app_text :: text_forms
  app_auth_token :: string
  app_api_base :: string

subsection \<open>Errors\<close>

record api_error =
  ae_status :: nat
  ae_message :: string

definition bad_request :: "string \<Rightarrow> api_error" where
  "bad_request msg = \<lparr>ae_status = 400, ae_message = msg\<rparr>"

definition unprocessable :: "string \<Rightarrow> api_error" where
  "unprocessable msg = \<lparr>ae_status = 422, ae_message = msg\<rparr>"

definition not_found :: "string \<Rightarrow> api_error" where
  "not_found msg = \<lparr>ae_status = 404, ae_message = msg\<rparr>"

definition internal_error :: "string \<Rightarrow> api_error" where
  "internal_error msg = \<lparr>ae_status = 500, ae_message = msg\<rparr>"

definition api_error_response :: "api_error \<Rightarrow> http_response" where
  "api_error_response e =
     \<lparr>resp_status = ae_status e, resp_body = JsonBody (json_object [(''error'', JString (ae_message e))])\<rparr>"

datatype api_failure = ApiFailed api_error | Rejected http_response | ApiPanic

definition from_reconcile_error :: "text_forms \<Rightarrow> reconcile_error \<Rightarrow> api_failure" where
  "from_reconcile_error tx e =
     (let msg = reconcile_error_str (tx_json_error tx) e in
      case e of
        RGraph _ \<Rightarrow> ApiFailed (unprocessable msg)
      | RConfig _ \<Rightarrow> ApiFailed (unprocessable msg)
      | RPanic \<Rightarrow> ApiPanic
      | _ \<Rightarrow> ApiFailed (internal_error msg))"

definition from_store_error :: "text_forms \<Rightarrow> store_error \<Rightarrow> api_failure" where
  "from_store_error tx e = ApiFailed (internal_error (store_error_str (tx_json_error tx) e))"

type_synonym ('s, 'x, 'a) api_act = "(('s, 'x) world, api_failure, 'a) act"

abbreviation app_store :: "('s, 'x) app_state \<Rightarrow> 's store_ops" where
  "app_store app \<equiv> sys_store (app_system app)"

abbreviation app_registry :: "('s, 'x) app_state \<Rightarrow> 'x driver_registry" where
  "app_registry app \<equiv> sys_registry (app_system app)"

text \<open>A store call with \<open>?\<close>.\<close>

definition api_st :: "('s, 'x) app_state \<Rightarrow> ('s, store_error, 'a) act \<Rightarrow> ('s, 'x, 'a) api_act" where
  "api_st app m = map_err (from_store_error (app_text app)) (store_do m)"

definition quoted :: "string \<Rightarrow> string" where
  "quoted s = [CHR 0x27] @ s @ [CHR 0x27]"

text \<open>\<open>ok_or_else(...)?\<close>.\<close>

definition or_fail :: "api_error \<Rightarrow> 'a option \<Rightarrow> ('s, 'x, 'a) api_act" where
  "or_fail e x = (case x of None \<Rightarrow> throw (ApiFailed e) | Some a \<Rightarrow> ret a)"

subsection \<open>Health and reconcile\<close>

definition api_health :: "('s, 'x, http_response) api_act" where
  "api_health = ret (status_only 200)"

definition api_ready :: "('s, 'x) app_state \<Rightarrow> ('s, 'x, http_response) api_act" where
  "api_ready app = seq (api_st app (so_list_enclaves (app_store app))) (\<lambda>_. ret (status_only 200))"

definition change_to_json :: "change \<Rightarrow> json" where
  "change_to_json c =
     (let enclave = (\<lambda>kind e. json_object [(''kind'', JString kind), (''id'', JString (eid_str e))]);
          part = (\<lambda>kind e p. json_object [(''kind'', JString kind), (''enclave_id'', JString (eid_str e)),
            (''partition_id'', JString (pid_str p))])
      in case c of
        ChEnclaveCreated e \<Rightarrow> enclave ''EnclaveCreated'' e
      | ChEnclaveUpdated e \<Rightarrow> enclave ''EnclaveUpdated'' e
      | ChEnclaveDeleted e \<Rightarrow> enclave ''EnclaveDeleted'' e
      | ChPartitionCreated e p \<Rightarrow> part ''PartitionCreated'' e p
      | ChPartitionUpdated e p \<Rightarrow> part ''PartitionUpdated'' e p
      | ChPartitionDeleted e p \<Rightarrow> part ''PartitionDeleted'' e p
      | ChExportWired e x \<Rightarrow> json_object [(''kind'', JString ''ExportWired''),
          (''enclave_id'', JString (eid_str e)), (''export_name'', JString x)]
      | ChImportWired e a \<Rightarrow> json_object [(''kind'', JString ''ImportWired''),
          (''importer_enclave'', JString (eid_str e)), (''alias'', JString a)])"

definition report_to_json :: "reconcile_report \<Rightarrow> json" where
  "report_to_json r = json_object [
     (''dry_run'', JBool (rep_dry_run r)),
     (''changes'', json_list change_to_json (rep_changes r)),
     (''errors'', json_list JString (rep_errors r))]"

definition api_request :: "('s, 'x) app_state \<Rightarrow> bool \<Rightarrow> reconcile_body \<Rightarrow> reconcile_request" where
  "api_request app dry body = \<lparr>rq_enclaves_dir = rb_enclaves_dir body, rq_dry_run = dry,
     rq_api_base = app_api_base app, rq_auth_token = app_auth_token app, rq_test_mode = False,
     rq_resources_only = rb_resources_only body\<rparr>"

definition api_reconcile :: "('s, 'x) app_state \<Rightarrow> bool \<Rightarrow> reconcile_body \<Rightarrow> ('s, 'x, http_response) api_act" where
  "api_reconcile app dry body =
     seq (map_err (from_reconcile_error (app_text app))
           (reconcile (app_yaml app) (app_system app) (api_request app dry body))) (\<lambda>report.
     ret (json_response (report_to_json report)))"

definition api_post_reconcile :: "('s, 'x) app_state \<Rightarrow> reconcile_body \<Rightarrow> ('s, 'x, http_response) api_act" where
  "api_post_reconcile app body = api_reconcile app False body"

definition api_post_reconcile_dry_run :: "('s, 'x) app_state \<Rightarrow> reconcile_body \<Rightarrow> ('s, 'x, http_response) api_act" where
  "api_post_reconcile_dry_run app body = api_reconcile app True body"

subsection \<open>Enclaves\<close>

definition api_list_enclaves :: "('s, 'x) app_state \<Rightarrow> ('s, 'x, http_response) api_act" where
  "api_list_enclaves app = seq (api_st app (so_list_enclaves (app_store app))) (\<lambda>enclaves.
     ret (json_response (json_list (enclave_state_to_json (app_text app)) enclaves)))"

definition find_enclave :: "('s, 'x) app_state \<Rightarrow> string \<Rightarrow> ('s, 'x, enclave_state) api_act" where
  "find_enclave app i = seq (api_st app (so_get_enclave (app_store app) (EnclaveId i))) (\<lambda>e.
     or_fail (not_found (''enclave '' @ quoted i @ '' not found'')) e)"

definition api_get_enclave :: "('s, 'x) app_state \<Rightarrow> string \<Rightarrow> ('s, 'x, http_response) api_act" where
  "api_get_enclave app i = seq (find_enclave app i) (\<lambda>e.
     ret (json_response (enclave_state_to_json (app_text app) e)))"

text \<open>The cloud that the enclave was provisioned on, or the default.\<close>

definition stored_cloud :: "('s, 'x) app_state \<Rightarrow> enclave_state \<Rightarrow> cloud_target" where
  "stored_cloud app e = (case es_resolved_cloud e of
     None \<Rightarrow> reg_default_cloud (app_registry app) | Some c \<Rightarrow> c)"

definition find_driver :: "('s, 'x) app_state \<Rightarrow> enclave_state \<Rightarrow> ('s, 'x, 'x driver) api_act" where
  "find_driver app e = lift_result (map_sum (\<lambda>d. ApiFailed (internal_error (driver_error_str d))) id
     (for_cloud (app_registry app) (stored_cloud app e)))"

definition api_backend :: "('s, 'x) app_state \<Rightarrow> tf_backend" where
  "api_backend app = \<lparr>tfb_api_base = app_api_base app, tfb_auth_token = app_auth_token app,
     tfb_test_mode = False, tfb_workspace_root = None\<rparr>"

text \<open>The body of the loop over the partitions: the messages of what fails are collected.\<close>

definition delete_enclave_partition ::
  "('s, 'x) app_state \<Rightarrow> 'x driver \<Rightarrow> (string, string) hashmap \<Rightarrow> enclave_state \<Rightarrow> string \<Rightarrow>
     partition_id \<times> partition_state \<Rightarrow> string list \<Rightarrow> ('s, 'x, string list) api_act" where
  "delete_enclave_partition app driver auth_env existing i = (\<lambda>(pid, ps) errors.
     seq (attempt (tf_teardown (app_system app) (api_backend app) (es_desired existing) (ps_desired ps) auth_env None)) (\<lambda>r.
     let errors1 = (case r of
           Inl e \<Rightarrow> errors @ [''teardown '' @ slash i (pid_str pid) @ '': '' @ driver_error_str e]
         | Inr _ \<Rightarrow> errors)
     in case ps_handle ps of
          None \<Rightarrow> ret errors1
        | Some h \<Rightarrow>
            seq (attempt (ext_do (drv_teardown_partition driver (es_desired existing) (ps_desired ps) h))) (\<lambda>r.
            ret (case r of
              Inl e \<Rightarrow> errors1 @ [''SA cleanup '' @ slash i (pid_str pid) @ '': '' @ driver_error_str e]
            | Inr _ \<Rightarrow> errors1))))"

definition delete_enclave_resources ::
  "('s, 'x) app_state \<Rightarrow> 'x driver \<Rightarrow> enclave_state \<Rightarrow> string \<Rightarrow> bool \<Rightarrow> ('s, 'x, string list) api_act" where
  "delete_enclave_resources app driver existing i resources_only =
     (case es_handle existing of
        None \<Rightarrow> ret []
      | Some enc_handle \<Rightarrow>
          let auth_env = drv_auth_env driver (es_desired existing) enc_handle in
          seq (foldM (delete_enclave_partition app driver auth_env existing i) (es_partitions existing) []) (\<lambda>errors.
          if resources_only then ret errors
          else seq (attempt (ext_do (drv_teardown_enclave driver (es_desired existing) enc_handle))) (\<lambda>r.
            ret (case r of
              Inl e \<Rightarrow> errors @ [''enclave teardown '' @ i @ '': '' @ driver_error_str e]
            | Inr _ \<Rightarrow> errors))))"

definition api_delete_enclave :: "('s, 'x) app_state \<Rightarrow> string \<Rightarrow> bool \<Rightarrow> ('s, 'x, http_response) api_act" where
  "api_delete_enclave app i resources_only =
     seq (find_enclave app i) (\<lambda>existing.
     seq (find_driver app existing) (\<lambda>driver.
     seq (delete_enclave_resources app driver existing i resources_only) (\<lambda>errors.
     seq (api_st app (so_delete_enclave (app_store app) (EnclaveId i))) (\<lambda>_.
     ret (json_response (json_object [(''destroyed'', JString i), (''errors'', json_list JString errors)]))))))"

definition delete_partition_resources ::
  "('s, 'x) app_state \<Rightarrow> 'x driver \<Rightarrow> enclave_state \<Rightarrow> partition_state \<Rightarrow> ('s, 'x, string list) api_act" where
  "delete_partition_resources app driver existing ps =
     (let auth_env = (case es_handle existing of None \<Rightarrow> [] | Some h \<Rightarrow> drv_auth_env driver (es_desired existing) h) in
      seq (attempt (tf_teardown (app_system app) (api_backend app) (es_desired existing) (ps_desired ps) auth_env None)) (\<lambda>r.
      let errors = (case r of Inl e \<Rightarrow> [driver_error_str e] | Inr _ \<Rightarrow> []) in
      case ps_handle ps of
        None \<Rightarrow> ret errors
      | Some h \<Rightarrow>
          seq (attempt (ext_do (drv_teardown_partition driver (es_desired existing) (ps_desired ps) h))) (\<lambda>r.
          ret (case r of Inl e \<Rightarrow> errors @ [''SA cleanup: '' @ driver_error_str e] | Inr _ \<Rightarrow> errors))))"

definition remaining_resources ::
  "'x driver \<Rightarrow> enclave_state \<Rightarrow> partition_state \<Rightarrow> ('s, 'x, string list) api_act" where
  "remaining_resources driver existing ps = (case es_handle existing of
     None \<Rightarrow> ret []
   | Some h \<Rightarrow>
       seq (attempt (ext_do (drv_list_partition_resources driver (es_desired existing) h (ps_desired ps)))) (\<lambda>r.
       ret (case r of Inl _ \<Rightarrow> [] | Inr xs \<Rightarrow> xs)))"

definition api_delete_partition :: "('s, 'x) app_state \<Rightarrow> string \<Rightarrow> string \<Rightarrow> ('s, 'x, http_response) api_act" where
  "api_delete_partition app enc part =
     seq (find_enclave app enc) (\<lambda>existing.
     seq (or_fail (not_found (''partition '' @ quoted part @ '' not found in enclave '' @ quoted enc))
           (hm_get (es_partitions existing) (PartitionId part))) (\<lambda>ps.
     seq (find_driver app existing) (\<lambda>driver.
     seq (delete_partition_resources app driver existing ps) (\<lambda>errors.
     seq (api_st app (so_delete_partition (app_store app) (EnclaveId enc) (PartitionId part))) (\<lambda>_.
     seq (remaining_resources driver existing ps) (\<lambda>remaining.
     ret (json_response (json_object [(''destroyed'', JString (slash enc part)),
       (''errors'', json_list JString errors), (''remaining_resources'', json_list JString remaining)]))))))))"

subsection \<open>Graphs\<close>

definition partition_node :: "enclave_state \<Rightarrow> partition \<Rightarrow> json" where
  "partition_node s p = json_object [
     (''id'', JString (pid_str (part_id p))),
     (''name'', JString (part_name p)),
     (''produces'', json_option (\<lambda>t. JString (produces_str t)) (part_produces p)),
     (''status'', JString (case hm_get (es_partitions s) (part_id p) of
        None \<Rightarrow> ''pending'' | Some ps \<Rightarrow> status_str (meta_status (ps_meta ps))))]"

definition api_enclave_graph :: "('s, 'x) app_state \<Rightarrow> string \<Rightarrow> ('s, 'x, http_response) api_act" where
  "api_enclave_graph app i = seq (find_enclave app i) (\<lambda>s. ret (json_response (json_object [
     (''enclave'', JString i),
     (''status'', JString (status_str (meta_status (es_meta s)))),
     (''nodes'', json_list (partition_node s) (enc_partitions (es_desired s))),
     (''edges'', json_list (\<lambda>x. json_object [
        (''from'', JString (pid_str (exp_target_partition x))),
        (''export_name'', JString (exp_name x)),
        (''type'', JString (export_type_str (exp_export_type x)))]) (enc_exports (es_desired s)))])))"

definition enclave_node :: "text_forms \<Rightarrow> enclave_state \<Rightarrow> json" where
  "enclave_node tx s = json_object [
     (''id'', JString (eid_str (es_id s))),
     (''name'', JString (enc_name (es_desired s))),
     (''cloud'', json_option (\<lambda>c. JString (cloud_str c)) (enc_cloud (es_desired s))),
     (''status'', JString (status_str (meta_status (es_meta s)))),
     (''created_at'', json_option (json_time tx) (meta_created_at (es_meta s))),
     (''updated_at'', json_option (json_time tx) (meta_updated_at (es_meta s))),
     (''last_error'', json_option (resource_error_to_json tx) (meta_last_error (es_meta s))),
     (''partitions'', json_list (partition_node s) (enc_partitions (es_desired s)))]"

definition enclave_import_edge :: "enclave_state \<Rightarrow> import \<Rightarrow> json" where
  "enclave_import_edge s i = json_object [
     (''from'', JString (eid_str (imp_from i))),
     (''to'', JString (eid_str (es_id s))),
     (''export'', JString (imp_export_name i)),
     (''alias'', JString (imp_alias i))]"

definition partition_import_edge :: "enclave_state \<Rightarrow> partition \<Rightarrow> import \<Rightarrow> json" where
  "partition_import_edge s p i = json_object [
     (''from'', JString (eid_str (imp_from i))),
     (''to'', JString (eid_str (es_id s))),
     (''partition'', JString (pid_str (part_id p))),
     (''export'', JString (imp_export_name i)),
     (''alias'', JString (imp_alias i))]"

definition system_edges :: "enclave_state list \<Rightarrow> json list" where
  "system_edges ss = concat (map (\<lambda>s.
     map (enclave_import_edge s) (enc_imports (es_desired s)) @
     concat (map (\<lambda>p. map (partition_import_edge s p) (part_imports p)) (enc_partitions (es_desired s)))) ss)"

definition api_system_graph :: "('s, 'x) app_state \<Rightarrow> ('s, 'x, http_response) api_act" where
  "api_system_graph app = seq (api_st app (so_list_enclaves (app_store app))) (\<lambda>ss.
     ret (json_response (json_object [
       (''nodes'', json_list (enclave_node (app_text app)) ss),
       (''edges'', JArray (system_edges ss))])))"

subsection \<open>Events\<close>

definition api_list_events ::
  "('s, 'x) app_state \<Rightarrow> string option \<Rightarrow> 32 word option \<Rightarrow> ('s, 'x, http_response) api_act" where
  "api_list_events app enclave limit =
     seq (api_st app (so_list_events (app_store app) (map_option EnclaveId enclave)
           (case limit of None \<Rightarrow> 100 | Some n \<Rightarrow> n))) (\<lambda>events.
     ret (json_response (json_list (audit_event_to_json (app_text app)) events)))"

subsection \<open>The state backend of Terraform\<close>

definition api_get_tf_state :: "('s, 'x) app_state \<Rightarrow> string \<Rightarrow> string \<Rightarrow> ('s, 'x, http_response) api_act" where
  "api_get_tf_state app enc part =
     seq (attempt (store_do (so_get_tf_state (app_store app) (slash enc part)))) (\<lambda>r. ret (case r of
       Inr (Some b) \<Rightarrow> \<lparr>resp_status = 200, resp_body = BytesBody b\<rparr>
     | Inr None \<Rightarrow> status_only 204
     | Inl e \<Rightarrow> api_error_response (internal_error (store_error_str (tx_json_error (app_text app)) e))))"

definition api_put_tf_state :: "('s, 'x) app_state \<Rightarrow> string \<Rightarrow> string \<Rightarrow> bytes \<Rightarrow> ('s, 'x, http_response) api_act" where
  "api_put_tf_state app enc part body =
     seq (api_st app (so_put_tf_state (app_store app) (slash enc part) body)) (\<lambda>_. ret (status_only 200))"

definition api_delete_tf_state :: "('s, 'x) app_state \<Rightarrow> string \<Rightarrow> string \<Rightarrow> ('s, 'x, http_response) api_act" where
  "api_delete_tf_state app enc part =
     seq (api_st app (so_delete_tf_state (app_store app) (slash enc part))) (\<lambda>_. ret (status_only 200))"

definition api_lock_tf_state :: "('s, 'x) app_state \<Rightarrow> string \<Rightarrow> string \<Rightarrow> json \<Rightarrow> ('s, 'x, http_response) api_act" where
  "api_lock_tf_state app enc part info =
     seq (attempt (store_do (so_lock_tf_state (app_store app) (slash enc part) info))) (\<lambda>r. ret (case r of
       Inr _ \<Rightarrow> status_only 200
     | Inl (LockConflict holder) \<Rightarrow> \<lparr>resp_status = 409, resp_body = JsonBody holder\<rparr>
     | Inl e \<Rightarrow> api_error_response (internal_error (store_error_str (tx_json_error (app_text app)) e))))"

text \<open>The lock id in the body of an unlock request, empty where the body has none.\<close>

definition unlock_id :: "http_stack \<Rightarrow> bytes \<Rightarrow> string" where
  "unlock_id hs body =
     (case Option.bind (hs_from_slice hs body) (\<lambda>v. Option.bind (json_get v ''ID'') json_as_str) of
        None \<Rightarrow> [] | Some i \<Rightarrow> i)"

definition api_unlock_tf_state :: "('s, 'x) app_state \<Rightarrow> string \<Rightarrow> string \<Rightarrow> bytes \<Rightarrow> ('s, 'x, http_response) api_act" where
  "api_unlock_tf_state app enc part body =
     seq (api_st app (so_unlock_tf_state (app_store app) (slash enc part) (unlock_id (app_http app) body)))
       (\<lambda>_. ret (status_only 200))"

subsection \<open>IaC run logs\<close>

definition api_list_iac_runs :: "('s, 'x) app_state \<Rightarrow> string \<Rightarrow> string \<Rightarrow> ('s, 'x, http_response) api_act" where
  "api_list_iac_runs app i part =
     seq (api_st app (so_list_iac_runs (app_store app) (EnclaveId i) (PartitionId part))) (\<lambda>runs.
     ret (json_response (json_list (iac_run_to_json (app_text app)) runs)))"

text \<open>\<open>max_by_key\<close> returns the last of several maximal elements.\<close>

definition max_by_key :: "('a \<Rightarrow> 'b :: linorder) \<Rightarrow> 'a list \<Rightarrow> 'a option" where
  "max_by_key f xs = fold (\<lambda>x best. case best of
     None \<Rightarrow> Some x | Some y \<Rightarrow> if f y \<le> f x then Some x else Some y) xs None"

definition api_latest_iac_run :: "('s, 'x) app_state \<Rightarrow> string \<Rightarrow> string \<Rightarrow> ('s, 'x, http_response) api_act" where
  "api_latest_iac_run app i part =
     seq (api_st app (so_list_iac_runs (app_store app) (EnclaveId i) (PartitionId part))) (\<lambda>runs.
     seq (or_fail (not_found ''no IaC runs found for this partition'') (max_by_key run_started_at runs)) (\<lambda>latest.
     ret (json_response (iac_run_to_json (app_text app) latest))))"

definition api_get_iac_run :: "('s, 'x) app_state \<Rightarrow> string \<Rightarrow> ('s, 'x, http_response) api_act" where
  "api_get_iac_run app i =
     seq (or_fail (bad_request (''invalid run ID: '' @ i)) (tx_parse_uuid (app_text app) i)) (\<lambda>u.
     seq (api_st app (so_get_iac_run (app_store app) u)) (\<lambda>r.
     seq (or_fail (not_found (''IaC run '' @ quoted i @ '' not found'')) r) (\<lambda>run.
     ret (json_response (iac_run_to_json (app_text app) run)))))"

subsection \<open>Status\<close>

definition count_status :: "enclave_state list \<Rightarrow> (string, nat) hashmap" where
  "count_status ss = fold (\<lambda>s m.
     let k = status_str (meta_status (es_meta s))
     in hm_insert k (Suc (case hm_get m k of None \<Rightarrow> 0 | Some n \<Rightarrow> n)) m) ss []"

definition status_errors :: "text_forms \<Rightarrow> enclave_state list \<Rightarrow> json list" where
  "status_errors tx ss = concat (map (\<lambda>s.
     (case meta_last_error (es_meta s) of
        None \<Rightarrow> []
      | Some e \<Rightarrow> [json_object [(''enclave_id'', JString (eid_str (es_id s))),
          (''message'', JString (rerr_message e)), (''occurred_at'', json_time tx (rerr_occurred_at e))]]) @
     concat (map (\<lambda>(pid, ps). case meta_last_error (ps_meta ps) of
        None \<Rightarrow> []
      | Some e \<Rightarrow> [json_object [(''enclave_id'', JString (eid_str (es_id s))), (''partition_id'', JString (pid_str pid)),
          (''message'', JString (rerr_message e)), (''occurred_at'', json_time tx (rerr_occurred_at e))]])
       (es_partitions s))) ss)"

definition last_reconciled_at :: "enclave_state list \<Rightarrow> datetime option" where
  "last_reconciled_at ss =
     (case List.map_filter (\<lambda>s. meta_updated_at (es_meta s)) ss of
        [] \<Rightarrow> None | t # ts \<Rightarrow> Some (fold max ts t))"

definition active_driver_names :: "'x driver_registry \<Rightarrow> string list" where
  "active_driver_names reg = map cloud_str (sort_key cloud_str (active_clouds reg))"

definition status_to_json :: "('s, 'x) app_state \<Rightarrow> enclave_state list \<Rightarrow> json" where
  "status_to_json app ss = json_object [
     (''enclave_count'', JNumber (int (length ss))),
     (''by_status'', json_map id (\<lambda>n. JNumber (int n)) (count_status ss)),
     (''last_reconciled_at'', json_option (json_time (app_text app)) (last_reconciled_at ss)),
     (''errors'', JArray (status_errors (app_text app) ss)),
     (''default_cloud'', JString (cloud_str (reg_default_cloud (app_registry app)))),
     (''active_drivers'', json_list JString (active_driver_names (app_registry app)))]"

definition api_status :: "('s, 'x) app_state \<Rightarrow> ('s, 'x, http_response) api_act" where
  "api_status app = seq (api_st app (so_list_enclaves (app_store app))) (\<lambda>ss.
     ret (json_response (status_to_json app ss)))"

subsection \<open>Orphans\<close>

definition orphan_to_json :: "enclave_state \<Rightarrow> orphaned_resource \<Rightarrow> json" where
  "orphan_to_json s r = json_object [
     (''enclave'', JString (eid_str (es_id s))),
     (''nclav_partition'', JString (orph_nclav_partition r)),
     (''resource_type'', JString (orph_resource_type r)),
     (''resource_name'', JString (orph_resource_name r))]"

definition enclave_orphans :: "('s, 'x) app_state \<Rightarrow> enclave_state \<Rightarrow> json list \<Rightarrow> ('s, 'x, json list) api_act" where
  "enclave_orphans app s acc = (case es_handle s of
     None \<Rightarrow> ret acc
   | Some h \<Rightarrow> (case for_cloud (app_registry app) (stored_cloud app s) of
       Inl _ \<Rightarrow> ret acc
     | Inr driver \<Rightarrow>
         seq (attempt (ext_do (drv_list_orphaned_resources driver (es_desired s) h
               (map pid_str (hm_keys (es_partitions s)))))) (\<lambda>r.
         ret (case r of Inl _ \<Rightarrow> acc | Inr orphans \<Rightarrow> acc @ map (orphan_to_json s) orphans))))"

definition api_list_orphans :: "('s, 'x) app_state \<Rightarrow> ('s, 'x, http_response) api_act" where
  "api_list_orphans app = seq (api_st app (so_list_enclaves (app_store app))) (\<lambda>ss.
     seq (foldM (enclave_orphans app) ss []) (\<lambda>all.
     ret (json_response (json_object [(''orphans'', JArray all)]))))"

end
