(* ===== verification/Api_App.thy ===== *)
theory Api_App
  imports Api_Handlers
begin

section \<open>The HTTP application\<close>

text \<open>
  \<open>build_app\<close> of \<open>crates/nclav-api/src/app.rs\<close>: the routing table, the authentication that is put on
  every route, and the extraction of the arguments of a handler, which follows the authentication.
  A \<open>GET\<close> route also answers \<open>HEAD\<close>, without the body. A dynamic segment matches any segment that is
  not empty; a static segment goes before a dynamic one. A path without route, and a method that its
  path does not have, are answered by the framework (\<open>hs_unrouted\<close>), and no handler runs.
\<close>

datatype api_route =
    RtHealth
  | RtReady
  | RtReconcile
  | RtReconcileDryRun
  | RtListEnclaves
  | RtGetEnclave string
  | RtDeleteEnclave string
  | RtEnclaveGraph string
  | RtDeletePartition string string
  | RtListIacRuns string string
  | RtLatestIacRun string string
  | RtGetIacRun string string string
  | RtGetTfState string string
  | RtPutTfState string string
  | RtDeleteTfState string string
  | RtLockTfState string string
  | RtUnlockTfState string string
  | RtSystemGraph
  | RtEvents
  | RtStatus
  | RtOrphans

abbreviation is_get :: "http_method \<Rightarrow> bool" where
  "is_get m \<equiv> m \<in> {GET, HEAD}"

definition select_route :: "(bool \<times> api_route) list \<Rightarrow> api_route option" where
  "select_route rs = (case filter fst rs of [] \<Rightarrow> None | (_, r) # _ \<Rightarrow> Some r)"

definition route :: "http_method \<Rightarrow> string list \<Rightarrow> api_route option" where
  "route m segs = (if [] \<in> set segs then None else case segs of
     [a] \<Rightarrow> select_route
       [(is_get m \<and> a = ''health'', RtHealth), (is_get m \<and> a = ''ready'', RtReady),
        (m = POST \<and> a = ''reconcile'', RtReconcile), (is_get m \<and> a = ''enclaves'', RtListEnclaves),
        (is_get m \<and> a = ''graph'', RtSystemGraph), (is_get m \<and> a = ''events'', RtEvents),
        (is_get m \<and> a = ''status'', RtStatus), (is_get m \<and> a = ''orphans'', RtOrphans)]
   | [a, b] \<Rightarrow> select_route
       [(m = POST \<and> a = ''reconcile'' \<and> b = ''dry-run'', RtReconcileDryRun),
        (is_get m \<and> a = ''enclaves'', RtGetEnclave b), (m = DELETE \<and> a = ''enclaves'', RtDeleteEnclave b)]
   | [a, b, c] \<Rightarrow> select_route [(is_get m \<and> a = ''enclaves'' \<and> c = ''graph'', RtEnclaveGraph b)]
   | [a, b, c, d] \<Rightarrow> select_route
       [(m = DELETE \<and> a = ''enclaves'' \<and> c = ''partitions'', RtDeletePartition b d),
        (is_get m \<and> a = ''terraform'' \<and> b = ''state'', RtGetTfState c d),
        (m = POST \<and> a = ''terraform'' \<and> b = ''state'', RtPutTfState c d),
        (m = DELETE \<and> a = ''terraform'' \<and> b = ''state'', RtDeleteTfState c d)]
   | [a, b, c, d, e] \<Rightarrow> select_route
       [(m = POST \<and> a = ''terraform'' \<and> b = ''state'' \<and> e = ''lock'', RtLockTfState c d),
        (m = DELETE \<and> a = ''terraform'' \<and> b = ''state'' \<and> e = ''lock'', RtUnlockTfState c d)]
   | [a, b, c, d, e, f] \<Rightarrow> select_route
       [(is_get m \<and> a = ''enclaves'' \<and> c = ''partitions'' \<and> e = ''iac'' \<and> f = ''runs'', RtListIacRuns b d)]
   | [a, b, c, d, e, f, g] \<Rightarrow>
       if is_get m \<and> a = ''enclaves'' \<and> c = ''partitions'' \<and> e = ''iac'' \<and> f = ''runs''
       then Some (if g = ''latest'' then RtLatestIacRun b d else RtGetIacRun b d g) else None
   | _ \<Rightarrow> None)"

subsection \<open>Extraction\<close>

text \<open>An extractor that fails answers itself.\<close>

definition extracted :: "(http_response, 'a) result \<Rightarrow> ('s, 'x, 'a) api_act" where
  "extracted r = lift_result (map_sum Rejected id r)"

definition path1 :: "('s, 'x) app_state \<Rightarrow> string \<Rightarrow> (string \<Rightarrow> ('s, 'x, 'a) api_act) \<Rightarrow> ('s, 'x, 'a) api_act" where
  "path1 app a f = seq (extracted (hs_param (app_http app) a)) f"

definition path2 :: "('s, 'x) app_state \<Rightarrow> string \<Rightarrow> string \<Rightarrow> (string \<Rightarrow> string \<Rightarrow> ('s, 'x, 'a) api_act) \<Rightarrow>
    ('s, 'x, 'a) api_act" where
  "path2 app a b f = path1 app a (\<lambda>x. path1 app b (f x))"

definition handle_route :: "('s, 'x) app_state \<Rightarrow> http_request \<Rightarrow> api_route \<Rightarrow> ('s, 'x, http_response) api_act" where
  "handle_route app req r = (let hs = app_http app in case r of
     RtHealth \<Rightarrow> api_health
   | RtReady \<Rightarrow> api_ready app
   | RtReconcile \<Rightarrow> seq (extracted (hs_reconcile_body hs req)) (api_post_reconcile app)
   | RtReconcileDryRun \<Rightarrow> seq (extracted (hs_reconcile_body hs req)) (api_post_reconcile_dry_run app)
   | RtListEnclaves \<Rightarrow> api_list_enclaves app
   | RtGetEnclave i \<Rightarrow> path1 app i (api_get_enclave app)
   | RtDeleteEnclave i \<Rightarrow> path1 app i (\<lambda>i. seq (extracted (hs_delete_query hs (hr_query req))) (api_delete_enclave app i))
   | RtEnclaveGraph i \<Rightarrow> path1 app i (api_enclave_graph app)
   | RtDeletePartition i p \<Rightarrow> path2 app i p (api_delete_partition app)
   | RtListIacRuns i p \<Rightarrow> path2 app i p (api_list_iac_runs app)
   | RtLatestIacRun i p \<Rightarrow> path2 app i p (api_latest_iac_run app)
   | RtGetIacRun i p u \<Rightarrow> path2 app i p (\<lambda>_ _. path1 app u (api_get_iac_run app))
   | RtGetTfState i p \<Rightarrow> path2 app i p (api_get_tf_state app)
   | RtPutTfState i p \<Rightarrow> path2 app i p (\<lambda>i p. api_put_tf_state app i p (hr_body req))
   | RtDeleteTfState i p \<Rightarrow> path2 app i p (api_delete_tf_state app)
   | RtLockTfState i p \<Rightarrow> path2 app i p (\<lambda>i p. seq (extracted (hs_json_body hs req)) (api_lock_tf_state app i p))
   | RtUnlockTfState i p \<Rightarrow> path2 app i p (\<lambda>i p. api_unlock_tf_state app i p (hr_body req))
   | RtSystemGraph \<Rightarrow> api_system_graph app
   | RtEvents \<Rightarrow> seq (extracted (hs_events_query hs (hr_query req))) (\<lambda>(e, n). api_list_events app e n)
   | RtStatus \<Rightarrow> api_status app
   | RtOrphans \<Rightarrow> api_list_orphans app)"

text \<open>What is sent for the result of a handler: nothing after a panic.\<close>

definition into_response :: "(api_failure, http_response) result \<Rightarrow> http_response option" where
  "into_response r = (case r of
     Inr resp \<Rightarrow> Some resp
   | Inl (ApiFailed e) \<Rightarrow> Some (api_error_response e)
   | Inl (Rejected resp) \<Rightarrow> Some resp
   | Inl ApiPanic \<Rightarrow> None)"

definition run_route ::
  "('s, 'x) app_state \<Rightarrow> api_route \<Rightarrow> http_request \<Rightarrow> ('s, 'x) world \<Rightarrow> http_response option \<times> ('s, 'x) world" where
  "run_route app r req w = (case handle_route app req r w of (res, w') \<Rightarrow> (into_response res, w'))"

definition strip_head :: "http_request \<Rightarrow> http_response \<Rightarrow> http_response" where
  "strip_head req resp = (if hr_method req = HEAD then resp\<lparr>resp_body := NoBody\<rparr> else resp)"

definition serve ::
  "('s, 'x) app_state \<Rightarrow> http_request \<Rightarrow> ('s, 'x) world \<Rightarrow> http_response option \<times> ('s, 'x) world" where
  "serve app req w = (case route (hr_method req) (hr_path req) of
     None \<Rightarrow> (Some (hs_unrouted (app_http app) req), w)
   | Some r \<Rightarrow> map_prod (map_option (strip_head req)) id
       (require_bearer_token (app_http app) (app_auth_token app) (run_route app r) req w))"

text \<open>Requests that are handled one after the other, and the responses to them.\<close>

fun serve_all ::
  "('s, 'x) app_state \<Rightarrow> http_request list \<Rightarrow> ('s, 'x) world \<Rightarrow> http_response option list \<times> ('s, 'x) world" where
  "serve_all app [] w = ([], w)"
| "serve_all app (r # rs) w = (case serve app r w of (resp, w') \<Rightarrow>
     (case serve_all app rs w' of (resps, w'') \<Rightarrow> (resp # resps, w'')))"

subsection \<open>Requests without a valid token\<close>

text \<open>
  C9. A request without a valid token changes nothing, whatever it asks for: neither the store nor
  the clouds, the files or the clock. On a path and method that the server has it is answered by
  401, and no handler and no extractor sees it. In every run of requests these can be left out
  without a difference to the state at the end.
\<close>
theorem unauthorized_no_effect:
  assumes "\<not> token_valid (app_http app) (app_auth_token app) req"
  shows "serve app req w = (Some (case route (hr_method req) (hr_path req) of
       None \<Rightarrow> hs_unrouted (app_http app) req | Some _ \<Rightarrow> strip_head req unauthorized), w) \<and>
     snd (serve_all app (before @ req # after) w) = snd (serve_all app (before @ after) w)"
proof -
  have one: "serve app req w = (Some (case route (hr_method req) (hr_path req) of
       None \<Rightarrow> hs_unrouted (app_http app) req | Some _ \<Rightarrow> strip_head req unauthorized), w)" for w
    using assms by (simp add: serve_def require_bearer_token_def split: option.split)
  have "snd (serve_all app (before @ req # after) w) = snd (serve_all app (before @ after) w)"
    by (induction before arbitrary: w) (simp_all add: one split: prod.split, metis snd_conv)
  with one show ?thesis by blast
qed

text \<open>An instance of the framework: parameters as they stand, tokens encoded by the identity, the body as a lock info.\<close>

definition sample_stack :: http_stack where
  "sample_stack = \<lparr>hs_to_str = Some, hs_base64 = (\<lambda>s. Some (to_bytes s)), hs_param = Inr,
     hs_reconcile_body = (\<lambda>_. Inl (status_only 415)),
     hs_json_body = (\<lambda>req. Inr (lock_info (map (\<lambda>b. char_of (unat b)) (hr_body req)))),
     hs_delete_query = (\<lambda>q. Inr (q = ''resources_only=true'')), hs_events_query = (\<lambda>_. Inr (None, None)),
     hs_from_slice = (\<lambda>b. Some (lock_info (map (\<lambda>b. char_of (unat b)) b))),
     hs_unrouted = (\<lambda>_. status_only 404)\<rparr>"

definition sample_text :: text_forms where
  "sample_text = \<lparr>tx_time = int_str, tx_uuid = (\<lambda>u. nat_str (unat u)), tx_json_error = (\<lambda>_. ''json''),
     tx_parse_uuid = (\<lambda>s. if s = ''1'' then Some 1 else None)\<rparr>"

definition sample_app :: "(mem_store, unit) app_state" where
  "sample_app = \<lparr>app_system = sample_system,
     app_yaml = \<lparr>yp_enclave = (\<lambda>_. Inl ''yaml''), yp_partition = (\<lambda>_. Inl ''yaml'')\<rparr>,
     app_http = sample_stack, app_text = sample_text, app_auth_token = ''t'', app_api_base = ''http://h''\<rparr>"

definition sample_world :: "(mem_store, unit) world" where
  "sample_world = \<lparr>w_store = mem_new, w_fs = \<lparr>fs_nodes = [], fs_refused = (\<lambda>_. None)\<rparr>, w_ext = (), w_tick = 0\<rparr>"

definition sample_call :: "http_method \<Rightarrow> string list \<Rightarrow> string \<Rightarrow> http_request" where
  "sample_call m segs b = \<lparr>hr_method = m, hr_path = segs, hr_query = [], hr_authorization = Some ''Bearer t'',
     hr_body = to_bytes b\<rparr>"

lemma sample_app_simps [simp]:
  "app_store sample_app = memory_ops" "app_http sample_app = sample_stack" "w_store sample_world = mem_new"
  "sys_registry (app_system sample_app) = register Local local_driver (registry_new Local)"
  by (simp_all add: sample_app_def sample_system_def sample_world_def)

lemma sample_call_valid: "token_valid (app_http sample_app) (app_auth_token sample_app) (sample_call m segs b)"
  unfolding token_valid_conv by (simp add: sample_app_def sample_stack_def sample_call_def)

theorem unauthorized_no_effect_witness:
  "serve sample_app ((sample_call DELETE [''enclaves'', ''e''] [])\<lparr>hr_authorization := Some ''Basic u:x:t''\<rparr>) sample_world =
     (Some unauthorized, sample_world)"
proof -
  let ?req = "(sample_call DELETE [''enclaves'', ''e''] [])\<lparr>hr_authorization := Some ''Basic u:x:t''\<rparr>"
  have same: "from_utf8 (to_bytes e) = Some s \<Longrightarrow> s = e" for e s
    by (simp add: from_utf8_def to_bytes_def comp_def byte_of_char split: if_splits)
  have "\<not> token_valid (app_http sample_app) (app_auth_token sample_app) ?req"
    unfolding token_valid_conv by (auto simp: sample_app_def sample_stack_def append_eq_Cons_conv dest!: same)
  from unauthorized_no_effect [OF this, of sample_world "[]" "[]"] show ?thesis
    by (simp add: sample_call_def route_def select_route_def strip_head_def)
qed

end
