(* ===== verification/Reconcile_Frame.thy ===== *)
theory Reconcile_Frame
  imports Reconcile
begin

section \<open>What a reconcile does not touch\<close>

text \<open>
  The reconciler reaches the store through six operations, of which the deletions of the HTTP interface
  need all but the one that writes an enclave. A predicate on the store that these keep holds after a
  reconcile whenever it held before, on every path through it.
\<close>

definition base_ops_keep :: "'s store_ops \<Rightarrow> ('s \<Rightarrow> bool) \<Rightarrow> bool" where
  "base_ops_keep ops P \<longleftrightarrow>
     (\<forall>i. preserves P (so_get_enclave ops i)) \<and> preserves P (so_list_enclaves ops) \<and>
     (\<forall>i. preserves P (so_delete_enclave ops i)) \<and>
     (\<forall>ev. preserves P (so_append_event ops ev)) \<and> (\<forall>r. preserves P (so_upsert_iac_run ops r))"

definition enclave_ops_keep :: "'s store_ops \<Rightarrow> ('s \<Rightarrow> bool) \<Rightarrow> bool" where
  "enclave_ops_keep ops P \<longleftrightarrow> base_ops_keep ops P \<and> (\<forall>st. preserves P (so_upsert_enclave ops st))"

lemma base_ops_keepD:
  assumes "base_ops_keep ops P"
  shows "preserves P (so_get_enclave ops i)" "preserves P (so_list_enclaves ops)" "preserves P (so_delete_enclave ops i)"
    "preserves P (so_append_event ops ev)" "preserves P (so_upsert_iac_run ops r)"
  using assms by (simp_all add: base_ops_keep_def)

lemma enclave_ops_keepD:
  assumes "enclave_ops_keep ops P"
  shows "base_ops_keep ops P" "preserves P (so_upsert_enclave ops st)"
  using assms by (simp_all add: enclave_ops_keep_def)

lemma st_do_preserves: "preserves P m \<Longrightarrow> preserves (on_store P) (st_do m)"
  unfolding st_do_def by (intro preserves_intros preserves_store_do)

lemma keep_tf:
  assumes "base_ops_keep (sys_store sys) P"
  shows "preserves (on_store P) (tf_provision sys b enc p inputs env rid)"
    "preserves (on_store P) (tf_teardown sys b enc p env rid)"
  by (intro tf_provision_preserves tf_teardown_preserves base_ops_keepD [OF assms])+

lemma keep_emit:
  assumes "base_ops_keep (sys_store sys) P"
  shows "preserves (on_store P) (emit sys ev)"
  unfolding emit_def by (intro preserves_intros st_do_preserves base_ops_keepD [OF assms])

lemma keep_teardown:
  assumes "base_ops_keep (sys_store sys) P"
  shows "preserves (on_store P) (teardown_enclave_step sys b req rid act eid errs)"
proof -
  have "preserves (on_store P) (teardown_partition_step sys b driver env ex rid eid x errs)" for driver env ex x errs
    unfolding teardown_partition_step_def
    by (cases x) (simp only: prod.case Let_def, intro preserves_intros keep_tf assms)
  then show ?thesis
    unfolding teardown_enclave_step_def Let_def
    by (intro preserves_intros st_do_preserves base_ops_keepD [OF assms])
qed

lemma keep_provision:
  assumes "enclave_ops_keep (sys_store sys) P"
  shows "preserves (on_store P) (provision_enclave_step sys b rid act enc errs)"
proof -
  note base = enclave_ops_keepD(1) [OF assms]
  note keep = st_do_preserves base_ops_keepD [OF base] enclave_ops_keepD(2) [OF assms] keep_emit [OF base] keep_tf [OF base]
  have part: "preserves (on_store P) (provision_partition_step sys b driver enc rid part acc)" for driver part acc
    unfolding provision_partition_step_def provision_with_identity_def record_partition_def merge_sa_def Let_def
    by (cases acc) (simp only: prod.case, intro preserves_intros keep)
  have x: "preserves (on_store P) (provision_export_step sys driver enc y acc)" for driver y acc
    unfolding provision_export_step_def Let_def
    by (cases acc) (simp only: prod.case, intro preserves_intros keep)
  show ?thesis
    unfolding provision_enclave_step_def Let_def by (intro preserves_intros keep part x)
qed

lemma keep_wire:
  assumes "enclave_ops_keep (sys_store sys) P"
  shows "preserves (on_store P) (wire_enclave_step sys enc errs)"
proof -
  note base = enclave_ops_keepD(1) [OF assms]
  note keep = st_do_preserves base_ops_keepD [OF base] enclave_ops_keepD(2) [OF assms] keep_emit [OF base]
  have "preserves (on_store P) (wire_import_step sys driver enc i acc)" for driver i acc
    unfolding wire_import_step_def
    by (cases acc) (simp only: prod.case, intro preserves_intros keep)
  then show ?thesis
    unfolding wire_enclave_step_def by (intro preserves_intros keep)
qed

lemma reconcile_keeps:
  assumes "enclave_ops_keep (sys_store sys) P"
  shows "preserves (on_store P) (reconcile yp sys req)"
proof -
  note base = enclave_ops_keepD(1) [OF assms]
  note keep = st_do_preserves base_ops_keepD [OF base] keep_teardown [OF base] keep_provision [OF assms]
    keep_wire [OF assms]
  have load: "preserves Q (load_step yp dir)" for Q dir
    by (simp add: load_step_def preserves_def)
  show ?thesis
    unfolding reconcile_def apply_changes_def Let_def by (intro preserves_intros load keep)
qed

end
