(* ===== verification/Shared_Store.thy ===== *)
theory Shared_Store
  imports Store_Interface
begin

section \<open>A store that several requests share\<close>

text \<open>
  The server answers its requests at the same time: every handler gets a clone of the one
  \<open>Arc<dyn StateStore>\<close>, and nothing but the store orders them (\<open>handlers.rs\<close>, \<open>state.rs\<close>). What a
  request does is its own code; between two of its calls of the store the others may have made any number of
  theirs. \<open>shared_ops\<close> is the store as one of the requests sees it: before each of its calls the calls of the
  others that come first take place, and everything is logged in the order in which it happens. A call is
  one step: the store in memory holds its lock during a call, the file a transaction. The partition updates of the two
  databases read and write the enclave in two transactions; the model does not put other calls between these.
\<close>

subsection \<open>Calls\<close>

text \<open>The operations of the trait \<open>StateStore\<close> with their arguments.\<close>

datatype store_call =
    CGetEnclave enclave_id
  | CListEnclaves
  | CUpsertEnclave enclave_state
  | CDeleteEnclave enclave_id
  | CUpsertPartition enclave_id partition_state
  | CDeletePartition enclave_id partition_id
  | CAppendEvent audit_event
  | CListEvents "enclave_id option" "32 word"
  | CTf tf_request
  | CUpsertRun iac_run
  | CListRuns enclave_id partition_id
  | CGetRun uuid

definition void :: "('w, 'e, 'a) act \<Rightarrow> ('w, 'e, unit) act" where
  "void m = seq m (\<lambda>_. ret ())"

definition call_act :: "'s store_ops \<Rightarrow> store_call \<Rightarrow> ('s, store_error, unit) act" where
  "call_act ops c = (case c of
     CGetEnclave i \<Rightarrow> void (so_get_enclave ops i)
   | CListEnclaves \<Rightarrow> void (so_list_enclaves ops)
   | CUpsertEnclave st \<Rightarrow> so_upsert_enclave ops st
   | CDeleteEnclave i \<Rightarrow> so_delete_enclave ops i
   | CUpsertPartition i ps \<Rightarrow> so_upsert_partition ops i ps
   | CDeletePartition i p \<Rightarrow> so_delete_partition ops i p
   | CAppendEvent ev \<Rightarrow> so_append_event ops ev
   | CListEvents e n \<Rightarrow> void (so_list_events ops e n)
   | CTf r \<Rightarrow> tf_request_act ops r
   | CUpsertRun r \<Rightarrow> so_upsert_iac_run ops r
   | CListRuns i p \<Rightarrow> void (so_list_iac_runs ops i p)
   | CGetRun u \<Rightarrow> void (so_get_iac_run ops u))"

definition run_calls :: "'s store_ops \<Rightarrow> store_call list \<Rightarrow> 's \<Rightarrow> 's" where
  "run_calls ops cs s = fold (\<lambda>c s. snd (call_act ops c s)) cs s"

lemma run_calls_simps [simp]:
  "run_calls ops [] s = s" "run_calls ops (c # cs) s = run_calls ops cs (snd (call_act ops c s))"
  "run_calls ops (cs @ ds) s = run_calls ops ds (run_calls ops cs s)"
  by (simp_all add: run_calls_def)

lemma snd_void [simp]: "snd (void m s) = snd (m s)"
  by (simp add: void_def seq_def ret_def split: prod.split sum.split)

lemma preserves_void [simp]: "preserves P (void m) \<longleftrightarrow> preserves P m"
  by (simp add: preserves_def)

lemma run_calls_keep:
  assumes "\<And>c. c \<in> set cs \<Longrightarrow> preserves P (call_act ops c)" "P s"
  shows "P (run_calls ops cs s)"
  using assms by (induction cs arbitrary: s) (auto simp: preserves_def)

subsection \<open>The store as one request sees it\<close>

text \<open>
  \<open>sh_sched\<close>: the calls of the others before the next call of the request, before the one after, and so
  on. \<open>sh_log\<close>: the calls so far, those of the request marked with \<open>True\<close>.
\<close>

record 's shared =
  sh_store :: 's
  sh_sched :: "store_call list list"
  sh_log :: "(bool \<times> store_call) list"

definition turn :: "'s store_ops \<Rightarrow> store_call \<Rightarrow> ('s, store_error, 'a) act \<Rightarrow> ('s shared, store_error, 'a) act" where
  "turn ops c m = (\<lambda>sh. let others = concat (take 1 (sh_sched sh)) in
     case m (run_calls ops others (sh_store sh)) of (r, s) \<Rightarrow>
       (r, \<lparr>sh_store = s, sh_sched = tl (sh_sched sh), sh_log = sh_log sh @ map (Pair False) others @ [(True, c)]\<rparr>))"

definition shared_ops :: "'s store_ops \<Rightarrow> 's shared store_ops" where
  "shared_ops ops = \<lparr>
     so_get_enclave = (\<lambda>i. turn ops (CGetEnclave i) (so_get_enclave ops i)),
     so_list_enclaves = turn ops CListEnclaves (so_list_enclaves ops),
     so_upsert_enclave = (\<lambda>st. turn ops (CUpsertEnclave st) (so_upsert_enclave ops st)),
     so_delete_enclave = (\<lambda>i. turn ops (CDeleteEnclave i) (so_delete_enclave ops i)),
     so_upsert_partition = (\<lambda>i ps. turn ops (CUpsertPartition i ps) (so_upsert_partition ops i ps)),
     so_delete_partition = (\<lambda>i p. turn ops (CDeletePartition i p) (so_delete_partition ops i p)),
     so_append_event = (\<lambda>ev. turn ops (CAppendEvent ev) (so_append_event ops ev)),
     so_list_events = (\<lambda>e n. turn ops (CListEvents e n) (so_list_events ops e n)),
     so_get_tf_state = (\<lambda>k. turn ops (CTf (TfGet k)) (so_get_tf_state ops k)),
     so_put_tf_state = (\<lambda>k b. turn ops (CTf (TfPut k b)) (so_put_tf_state ops k b)),
     so_delete_tf_state = (\<lambda>k. turn ops (CTf (TfDelete k)) (so_delete_tf_state ops k)),
     so_lock_tf_state = (\<lambda>k i. turn ops (CTf (TfLock k i)) (so_lock_tf_state ops k i)),
     so_unlock_tf_state = (\<lambda>k i. turn ops (CTf (TfUnlock k i)) (so_unlock_tf_state ops k i)),
     so_upsert_iac_run = (\<lambda>r. turn ops (CUpsertRun r) (so_upsert_iac_run ops r)),
     so_list_iac_runs = (\<lambda>i p. turn ops (CListRuns i p) (so_list_iac_runs ops i p)),
     so_get_iac_run = (\<lambda>u. turn ops (CGetRun u) (so_get_iac_run ops u))\<rparr>"

lemma shared_ops_simps [simp]:
  "so_get_enclave (shared_ops ops) i = turn ops (CGetEnclave i) (so_get_enclave ops i)"
  "so_list_enclaves (shared_ops ops) = turn ops CListEnclaves (so_list_enclaves ops)"
  "so_upsert_enclave (shared_ops ops) st = turn ops (CUpsertEnclave st) (so_upsert_enclave ops st)"
  "so_delete_enclave (shared_ops ops) i = turn ops (CDeleteEnclave i) (so_delete_enclave ops i)"
  "so_upsert_partition (shared_ops ops) i ps = turn ops (CUpsertPartition i ps) (so_upsert_partition ops i ps)"
  "so_delete_partition (shared_ops ops) i p = turn ops (CDeletePartition i p) (so_delete_partition ops i p)"
  "so_append_event (shared_ops ops) ev = turn ops (CAppendEvent ev) (so_append_event ops ev)"
  "so_list_events (shared_ops ops) e n = turn ops (CListEvents e n) (so_list_events ops e n)"
  "so_get_tf_state (shared_ops ops) k = turn ops (CTf (TfGet k)) (so_get_tf_state ops k)"
  "so_put_tf_state (shared_ops ops) k b = turn ops (CTf (TfPut k b)) (so_put_tf_state ops k b)"
  "so_delete_tf_state (shared_ops ops) k = turn ops (CTf (TfDelete k)) (so_delete_tf_state ops k)"
  "so_lock_tf_state (shared_ops ops) k l = turn ops (CTf (TfLock k l)) (so_lock_tf_state ops k l)"
  "so_unlock_tf_state (shared_ops ops) k u = turn ops (CTf (TfUnlock k u)) (so_unlock_tf_state ops k u)"
  "so_upsert_iac_run (shared_ops ops) r = turn ops (CUpsertRun r) (so_upsert_iac_run ops r)"
  "so_list_iac_runs (shared_ops ops) i p = turn ops (CListRuns i p) (so_list_iac_runs ops i p)"
  "so_get_iac_run (shared_ops ops) v = turn ops (CGetRun v) (so_get_iac_run ops v)"
  by (simp_all add: shared_ops_def)

lemma wp_turn [wp_simps]:
  "wp (turn ops c m) Q E sh = (let others = concat (take 1 (sh_sched sh));
       next_sh = (\<lambda>s. \<lparr>sh_store = s, sh_sched = tl (sh_sched sh), sh_log = sh_log sh @ map (Pair False) others @ [(True, c)]\<rparr>)
     in wp m (\<lambda>a s. Q a (next_sh s)) (\<lambda>e s. E e (next_sh s)) (run_calls ops others (sh_store sh)))"
  by (simp add: wp_def turn_def Let_def split: prod.split sum.split)

subsection \<open>Relying on the others\<close>

text \<open>
  A predicate \<open>K\<close> on the store that every call which is \<open>good\<close> keeps: the others make good calls, and the
  request made good calls so far.
\<close>

definition shared_inv :: "(store_call \<Rightarrow> bool) \<Rightarrow> ('s \<Rightarrow> bool) \<Rightarrow> 's shared \<Rightarrow> bool" where
  "shared_inv good K sh \<longleftrightarrow> K (sh_store sh) \<and> list_all (list_all good) (sh_sched sh) \<and>
     list_all (\<lambda>(_, c). good c) (sh_log sh)"

definition calls_keep :: "'s store_ops \<Rightarrow> (store_call \<Rightarrow> bool) \<Rightarrow> ('s \<Rightarrow> bool) \<Rightarrow> bool" where
  "calls_keep ops good K \<longleftrightarrow> (\<forall>c. good c \<longrightarrow> preserves K (call_act ops c))"

lemma calls_keepD: "calls_keep ops good K \<Longrightarrow> good c \<Longrightarrow> preserves K (call_act ops c)"
  by (simp add: calls_keep_def)

lemma run_good_calls: "calls_keep ops good K \<Longrightarrow> list_all good cs \<Longrightarrow> K s \<Longrightarrow> K (run_calls ops cs s)"
  by (rule run_calls_keep) (auto simp: list_all_iff dest: calls_keepD)

lemma wp_turn_inv:
  assumes "calls_keep ops good K" "good c" "shared_inv good K sh"
    and "\<And>s. K s \<Longrightarrow> wp m (\<lambda>a s'. K s' \<and> R a) (\<lambda>_ s'. K s') s"
  shows "wp (turn ops c m) (\<lambda>a sh'. shared_inv good K sh' \<and> R a) (\<lambda>_. shared_inv good K) sh"
proof -
  let ?others = "concat (take 1 (sh_sched sh))"
  have good: "list_all good ?others" "list_all (list_all good) (tl (sh_sched sh))"
    using assms(3) by (cases "sh_sched sh"; simp add: shared_inv_def)+
  then have "K (run_calls ops ?others (sh_store sh))"
    using assms(3) by (intro run_good_calls [OF assms(1)]) (simp_all add: shared_inv_def)
  then show ?thesis
    unfolding wp_turn Let_def
    by (rule wp_mono [OF assms(4)]) (use good assms(2,3) in \<open>auto simp: shared_inv_def list.pred_map comp_def\<close>)
qed

lemma preserves_turn:
  assumes "calls_keep ops good K" "good c" "preserves K m"
  shows "preserves (shared_inv good K) (turn ops c m)"
proof (rule preservesI_wp)
  fix sh assume "shared_inv good K sh"
  from wp_turn_inv [OF assms(1,2) this, of m "\<lambda>_. True"] preserves_wp [OF assms(3)]
  show "wp (turn ops c m) (\<lambda>_. shared_inv good K) (\<lambda>_. shared_inv good K) sh" by simp
qed

text \<open>The log accounts for the store: its calls, in order, take the store from where it was to where it is.\<close>

lemma preserves_accounts:
  assumes "\<And>s. snd (m s) = snd (call_act ops c s)"
  shows "preserves (\<lambda>sh. sh_store sh = run_calls ops (map snd (sh_log sh)) s0) (turn ops c m)"
  using assms by (auto simp: preserves_def turn_def Let_def comp_def split: prod.split) (metis snd_conv)

end
