(* ===== verification/Api_Protocol.thy ===== *)
theory Api_Protocol
  imports Api_App Reconcile_Frame Shared_Store
begin

section \<open>The protocol of the Terraform state backend\<close>

text \<open>
  The handlers composed with the store and the reconciler: which requests leave the Terraform state
  and its locks alone, and what follows for Terraform runs that share a key.
\<close>

subsection \<open>Frames\<close>

definition tf_view :: "store_view \<Rightarrow> (string \<Rightarrow> bytes option) \<times> (string \<Rightarrow> json option)" where
  "tf_view v = (sv_tf_state v, sv_tf_locks v)"

text \<open>The operations that handlers use beside writing enclaves, which only the reconciler does.\<close>

definition handler_ops_keep :: "'s store_ops \<Rightarrow> ('s \<Rightarrow> bool) \<Rightarrow> bool" where
  "handler_ops_keep ops P \<longleftrightarrow> base_ops_keep ops P \<and>
     (\<forall>i p. preserves P (so_delete_partition ops i p)) \<and> (\<forall>i n. preserves P (so_list_events ops i n)) \<and>
     (\<forall>i p. preserves P (so_list_iac_runs ops i p)) \<and> (\<forall>u. preserves P (so_get_iac_run ops u))"

lemma handler_ops_keepD:
  assumes "handler_ops_keep ops P"
  shows "base_ops_keep ops P" "preserves P (so_delete_partition ops i p)" "preserves P (so_list_events ops e n)"
    "preserves P (so_list_iac_runs ops i p)" "preserves P (so_get_iac_run ops u)"
  using assms by (simp_all add: handler_ops_keep_def)

definition server_keeps :: "('s, 'x) app_state \<Rightarrow> ('s \<Rightarrow> bool) \<Rightarrow> bool" where
  "server_keeps app P \<longleftrightarrow> handler_ops_keep (app_store app) P \<and>
     (\<forall>req. preserves (on_store P) (reconcile (app_yaml app) (app_system app) req))"

lemma server_keepsD:
  assumes "server_keeps app P"
  shows "handler_ops_keep (app_store app) P" "preserves (on_store P) (reconcile (app_yaml app) (app_system app) req)"
  using assms by (simp_all add: server_keeps_def)

lemma server_keepsI:
  assumes "handler_ops_keep (app_store app) P" "\<And>st. preserves P (so_upsert_enclave (app_store app) st)"
  shows "server_keeps app P"
  using assms handler_ops_keepD(1) [OF assms(1)]
  by (auto simp: server_keeps_def enclave_ops_keep_def intro!: reconcile_keeps)

text \<open>The routes of the state backend.\<close>

definition tf_route :: "api_route \<Rightarrow> bool" where
  "tf_route r = (case r of
     RtGetTfState _ _ \<Rightarrow> True | RtPutTfState _ _ \<Rightarrow> True | RtDeleteTfState _ _ \<Rightarrow> True
   | RtLockTfState _ _ \<Rightarrow> True | RtUnlockTfState _ _ \<Rightarrow> True | _ \<Rightarrow> False)"

lemma api_st_preserves: "preserves P m \<Longrightarrow> preserves (on_store P) (api_st app m)"
  unfolding api_st_def by (intro preserves_intros preserves_store_do)

lemma extracted_preserves [preserves_intros]: "preserves P (extracted r)"
  unfolding extracted_def by (rule preserves_lift_result)

lemma or_fail_preserves [preserves_intros]: "preserves P (or_fail e x)"
  unfolding or_fail_def by (intro preserves_intros)

lemma path1_preserves: "(\<And>x. preserves P (f x)) \<Longrightarrow> preserves P (path1 app a f)"
  unfolding path1_def by (intro preserves_intros)

lemma path2_preserves: "(\<And>x y. preserves P (f x y)) \<Longrightarrow> preserves P (path2 app a b f)"
  unfolding path2_def by (intro path1_preserves)

lemma find_preserves:
  assumes "handler_ops_keep (app_store app) P"
  shows "preserves (on_store P) (find_enclave app i)" "preserves (on_store P) (find_driver app e)"
  unfolding find_enclave_def find_driver_def
  by (intro preserves_intros api_st_preserves base_ops_keepD [OF handler_ops_keepD(1) [OF assms]])+

lemma delete_resources_preserve:
  assumes "handler_ops_keep (app_store app) P"
  shows "preserves (on_store P) (delete_enclave_resources app driver existing i ro)"
    "preserves (on_store P) (delete_partition_resources app driver existing ps)"
    "preserves (on_store P) (remaining_resources driver existing ps)"
proof -
  note tf = keep_tf(2) [OF handler_ops_keepD(1) [OF assms]]
  have "preserves (on_store P) (delete_enclave_partition app driver env existing i x errs)" for env x errs
    unfolding delete_enclave_partition_def
    by (cases x) (simp only: prod.case Let_def, intro preserves_intros tf)
  then show "preserves (on_store P) (delete_enclave_resources app driver existing i ro)"
    unfolding delete_enclave_resources_def Let_def by (intro preserves_intros)
  show "preserves (on_store P) (delete_partition_resources app driver existing ps)"
    unfolding delete_partition_resources_def Let_def by (intro preserves_intros tf)
  show "preserves (on_store P) (remaining_resources driver existing ps)"
    unfolding remaining_resources_def by (intro preserves_intros)
qed

lemma enclave_handlers_preserve:
  assumes "server_keeps app P"
  shows "preserves (on_store P) api_health" "preserves (on_store P) (api_ready app)"
    "preserves (on_store P) (api_post_reconcile app body)" "preserves (on_store P) (api_post_reconcile_dry_run app body)"
    "preserves (on_store P) (api_list_enclaves app)" "preserves (on_store P) (api_get_enclave app i)"
    "preserves (on_store P) (api_delete_enclave app i ro)" "preserves (on_store P) (api_delete_partition app i p)"
proof -
  note ops = server_keepsD(1) [OF assms]
  note keep = api_st_preserves base_ops_keepD [OF handler_ops_keepD(1) [OF ops]] handler_ops_keepD [OF ops]
    find_preserves [OF ops] delete_resources_preserve [OF ops] server_keepsD(2) [OF assms]
  show "preserves (on_store P) api_health" "preserves (on_store P) (api_ready app)"
    "preserves (on_store P) (api_post_reconcile app body)" "preserves (on_store P) (api_post_reconcile_dry_run app body)"
    "preserves (on_store P) (api_list_enclaves app)" "preserves (on_store P) (api_get_enclave app i)"
    "preserves (on_store P) (api_delete_enclave app i ro)" "preserves (on_store P) (api_delete_partition app i p)"
    unfolding api_health_def api_ready_def api_post_reconcile_def api_post_reconcile_dry_run_def api_reconcile_def
      api_list_enclaves_def api_get_enclave_def api_delete_enclave_def api_delete_partition_def
    by (intro preserves_intros keep)+
qed

lemma query_handlers_preserve:
  assumes "handler_ops_keep (app_store app) P"
  shows "preserves (on_store P) (api_enclave_graph app i)" "preserves (on_store P) (api_system_graph app)"
    "preserves (on_store P) (api_list_events app e n)" "preserves (on_store P) (api_list_iac_runs app i p)"
    "preserves (on_store P) (api_latest_iac_run app i p)" "preserves (on_store P) (api_get_iac_run app i)"
    "preserves (on_store P) (api_status app)" "preserves (on_store P) (api_list_orphans app)"
proof -
  note keep = api_st_preserves base_ops_keepD [OF handler_ops_keepD(1) [OF assms]]
    handler_ops_keepD [OF assms] find_preserves [OF assms]
  have orphans: "preserves (on_store P) (enclave_orphans app s acc)" for s acc
    unfolding enclave_orphans_def by (intro preserves_intros)
  show "preserves (on_store P) (api_enclave_graph app i)" "preserves (on_store P) (api_system_graph app)"
    "preserves (on_store P) (api_list_events app e n)" "preserves (on_store P) (api_list_iac_runs app i p)"
    "preserves (on_store P) (api_latest_iac_run app i p)" "preserves (on_store P) (api_get_iac_run app i)"
    "preserves (on_store P) (api_status app)" "preserves (on_store P) (api_list_orphans app)"
    unfolding api_enclave_graph_def api_system_graph_def api_list_events_def api_list_iac_runs_def
      api_latest_iac_run_def api_get_iac_run_def api_status_def api_list_orphans_def
    by (intro preserves_intros keep orphans)+
qed

lemma handler_preserves:
  assumes "server_keeps app P" "\<not> tf_route r"
  shows "preserves (on_store P) (handle_route app req r)"
  using assms(2)
  by (cases r; simp only: handle_route_def Let_def api_route.case tf_route_def simp_thms)
     (intro preserves_intros path1_preserves path2_preserves
       enclave_handlers_preserve [OF assms(1)] query_handlers_preserve [OF server_keepsD(1) [OF assms(1)]])+

text \<open>A request keeps what every handler without the state backend keeps, and its own handler there.\<close>

definition request_keeps :: "('s, 'x) app_state \<Rightarrow> ('s \<Rightarrow> bool) \<Rightarrow> http_request \<Rightarrow> bool" where
  "request_keeps app P req \<longleftrightarrow> (\<forall>r. route (hr_method req) (hr_path req) = Some r \<longrightarrow>
     token_valid (app_http app) (app_auth_token app) req \<longrightarrow> tf_route r \<longrightarrow>
     preserves (on_store P) (handle_route app req r))"

lemma serve_keeps:
  assumes "server_keeps app P" "request_keeps app P req" "P (w_store w)"
  shows "P (w_store (snd (serve app req w)))"
proof (cases "route (hr_method req) (hr_path req)")
  case None
  then show ?thesis using assms(3) by (simp add: serve_def)
next
  case (Some r)
  show ?thesis
  proof (cases "token_valid (app_http app) (app_auth_token app) req")
    case True
    obtain res w' where h: "handle_route app req r w = (res, w')" by (cases "handle_route app req r w")
    have "preserves (on_store P) (handle_route app req r)"
      using assms(2) handler_preserves [OF assms(1)] Some True unfolding request_keeps_def by blast
    then have "P (w_store w')" using assms(3) h unfolding preserves_def by (metis snd_conv)
    then show ?thesis using Some True by (simp add: serve_def require_bearer_token_def run_route_def h)
  next
    case False
    then show ?thesis using Some assms(3) by (simp add: serve_def require_bearer_token_def)
  qed
qed

lemma serve_all_Cons: "snd (serve_all app (r # rs) w) = snd (serve_all app rs (snd (serve app r w)))"
  by (simp split: prod.split)

lemma serve_all_keeps:
  assumes "server_keeps app P" "list_all (request_keeps app P) rs" "P (w_store w)"
  shows "P (w_store (snd (serve_all app rs w)))"
  using assms(2,3)
proof (induction rs arbitrary: w)
  case (Cons r rs)
  then show ?case using serve_keeps [OF assms(1), of r w] by (simp add: serve_all_Cons del: serve_all.simps)
qed simp

subsection \<open>The protocol of the state backend\<close>

text \<open>The key that a pair of path segments names, when both can be decoded.\<close>

definition tf_key :: "http_stack \<Rightarrow> string \<Rightarrow> string \<Rightarrow> string option" where
  "tf_key hs i p = (case (hs_param hs i, hs_param hs p) of
     (Inr a, Inr b) \<Rightarrow> Some (slash a b) | _ \<Rightarrow> None)"

definition routed :: "('s, 'x) app_state \<Rightarrow> http_request \<Rightarrow> api_route option" where
  "routed app req = (if token_valid (app_http app) (app_auth_token app) req
     then route (hr_method req) (hr_path req) else None)"

definition lock_request :: "('s, 'x) app_state \<Rightarrow> string \<Rightarrow> json \<Rightarrow> http_request \<Rightarrow> bool" where
  "lock_request app k info req \<longleftrightarrow> (\<exists>i p. routed app req = Some (RtLockTfState i p) \<and>
     tf_key (app_http app) i p = Some k \<and> hs_json_body (app_http app) req = Inr info)"

text \<open>The requests that may take the lock of \<open>k\<close> from \<open>info\<close>, and those that may change its state.\<close>

definition releases :: "('s, 'x) app_state \<Rightarrow> string \<Rightarrow> json \<Rightarrow> http_request \<Rightarrow> bool" where
  "releases app k info req \<longleftrightarrow> (case routed app req of
     Some (RtDeleteTfState i p) \<Rightarrow> tf_key (app_http app) i p = Some k
   | Some (RtUnlockTfState i p) \<Rightarrow> tf_key (app_http app) i p = Some k \<and>
       unlock_matches (unlock_id (app_http app) (hr_body req)) info
   | _ \<Rightarrow> False)"

definition changes_state :: "('s, 'x) app_state \<Rightarrow> string \<Rightarrow> http_request \<Rightarrow> bool" where
  "changes_state app k req \<longleftrightarrow> (case routed app req of
     Some (RtPutTfState i p) \<Rightarrow> tf_key (app_http app) i p = Some k
   | Some (RtDeleteTfState i p) \<Rightarrow> tf_key (app_http app) i p = Some k
   | _ \<Rightarrow> False)"

definition put_request :: "('s, 'x) app_state \<Rightarrow> string \<Rightarrow> http_request \<Rightarrow> bool" where
  "put_request app k req \<longleftrightarrow> (\<exists>i p. routed app req = Some (RtPutTfState i p) \<and> tf_key (app_http app) i p = Some k)"

definition get_request :: "('s, 'x) app_state \<Rightarrow> string \<Rightarrow> http_request \<Rightarrow> bool" where
  "get_request app k req \<longleftrightarrow> hr_method req = GET \<and>
     (\<exists>i p. routed app req = Some (RtGetTfState i p) \<and> tf_key (app_http app) i p = Some k)"

lemma serve_routed:
  "routed app req = Some r \<Longrightarrow> serve app req w = map_prod (map_option (strip_head req)) id (run_route app r req w)"
  by (simp add: routed_def serve_def require_bearer_token_def split: if_splits)

lemma select_route_Some: "select_route rs = Some r \<Longrightarrow> \<exists>b. (b, r) \<in> set rs \<and> b"
proof -
  assume "select_route rs = Some r"
  then obtain b ys where "filter fst rs = (b, r) # ys"
    by (auto simp: select_route_def split: list.splits)
  then have "(b, r) \<in> set (filter fst rs)" by simp
  then show ?thesis by auto
qed

lemma route_methods:
  "route m segs = Some (RtLockTfState i p) \<Longrightarrow> m = POST"
  "route m segs = Some (RtPutTfState i p) \<Longrightarrow> m = POST"
  by (auto simp: route_def split: if_splits list.splits dest!: select_route_Some)

lemma not_head: "routed app req = Some (RtLockTfState i p) \<or> routed app req = Some (RtPutTfState i p) \<Longrightarrow> hr_method req \<noteq> HEAD"
  by (auto simp: routed_def split: if_splits dest: route_methods)

lemma path2_key:
  assumes "tf_key (app_http app) i p = Some k"
  obtains a b where "path2 app i p f = f a b" "slash a b = k"
proof -
  from assms obtain a b where ab: "hs_param (app_http app) i = Inr a" "hs_param (app_http app) p = Inr b" "slash a b = k"
    by (auto simp: tf_key_def split: sum.splits)
  then have "path2 app i p f = f a b"
    by (simp add: path2_def path1_def extracted_def seq_def lift_result_def)
  with ab(3) show ?thesis using that by blast
qed

text \<open>What the three requests do.\<close>

lemma serve_lock:
  assumes "lock_request app k info req"
  shows "serve app req w = (case so_lock_tf_state (app_store app) k info (w_store w) of (r, s) \<Rightarrow>
    (Some (case r of
       Inr _ \<Rightarrow> status_only 200
     | Inl (LockConflict holder) \<Rightarrow> \<lparr>resp_status = 409, resp_body = JsonBody holder\<rparr>
     | Inl e \<Rightarrow> api_error_response (internal_error (store_error_str (tx_json_error (app_text app)) e))),
     w\<lparr>w_store := s\<rparr>))"
proof -
  from assms obtain i p where r: "routed app req = Some (RtLockTfState i p)"
      "tf_key (app_http app) i p = Some k" "hs_json_body (app_http app) req = Inr info"
    by (auto simp: lock_request_def)
  have m: "hr_method req \<noteq> HEAD" using not_head r(1) by blast
  show ?thesis
    by (rule path2_key [OF r(2), of "\<lambda>i p. seq (extracted (hs_json_body (app_http app) req)) (api_lock_tf_state app i p)"])
       (simp add: m serve_routed [OF r(1)] run_route_def handle_route_def r(3) extracted_def lift_result_def
         api_lock_tf_state_def seq_def attempt_def store_do_def ret_def into_response_def strip_head_def
         split: prod.split)
qed

lemma serve_put:
  assumes "put_request app k req"
  shows "serve app req w = (case so_put_tf_state (app_store app) k (hr_body req) (w_store w) of (r, s) \<Rightarrow>
    (Some (case r of Inr _ \<Rightarrow> status_only 200
     | Inl e \<Rightarrow> api_error_response (internal_error (store_error_str (tx_json_error (app_text app)) e))),
     w\<lparr>w_store := s\<rparr>))"
proof -
  from assms obtain i p where r: "routed app req = Some (RtPutTfState i p)" "tf_key (app_http app) i p = Some k"
    by (auto simp: put_request_def)
  have m: "hr_method req \<noteq> HEAD" using not_head r(1) by blast
  show ?thesis
    by (rule path2_key [OF r(2), of "\<lambda>i p. api_put_tf_state app i p (hr_body req)"])
       (simp add: m serve_routed [OF r(1)] run_route_def handle_route_def api_put_tf_state_def api_st_def map_err_def
         seq_def store_do_def ret_def into_response_def strip_head_def from_store_error_def
         split: prod.split sum.split)
qed

lemma serve_get:
  assumes "get_request app k req"
  shows "serve app req w = (case so_get_tf_state (app_store app) k (w_store w) of (r, s) \<Rightarrow>
    (Some (case r of
       Inr (Some b) \<Rightarrow> \<lparr>resp_status = 200, resp_body = BytesBody b\<rparr>
     | Inr None \<Rightarrow> status_only 204
     | Inl e \<Rightarrow> api_error_response (internal_error (store_error_str (tx_json_error (app_text app)) e))),
     w\<lparr>w_store := s\<rparr>))"
proof -
  from assms obtain i p where r: "routed app req = Some (RtGetTfState i p)" "tf_key (app_http app) i p = Some k"
    and get: "hr_method req = GET"
    by (auto simp: get_request_def)
  show ?thesis
    by (rule path2_key [OF r(2), of "api_get_tf_state app"])
       (simp add: serve_routed [OF r(1)] run_route_def handle_route_def get
         api_get_tf_state_def seq_def attempt_def store_do_def ret_def into_response_def strip_head_def
         split: prod.split)
qed

subsection \<open>Sample requests\<close>

definition lock_call :: "string \<Rightarrow> http_request" where
  "lock_call i = sample_call POST [''terraform'', ''state'', ''e'', ''p'', ''lock''] i"

definition unlock_call :: "string \<Rightarrow> http_request" where
  "unlock_call i = sample_call DELETE [''terraform'', ''state'', ''e'', ''p'', ''lock''] i"

definition put_call :: "string \<Rightarrow> http_request" where
  "put_call b = sample_call POST [''terraform'', ''state'', ''e'', ''p''] b"

definition get_call :: http_request where
  "get_call = sample_call GET [''terraform'', ''state'', ''e'', ''p''] []"

definition delete_call :: "string \<Rightarrow> http_request" where
  "delete_call p = sample_call DELETE [''terraform'', ''state'', ''e'', p] []"

definition status_call :: http_request where
  "status_call = sample_call GET [''status''] []"

lemmas call_defs = lock_call_def unlock_call_def put_call_def get_call_def delete_call_def status_call_def

lemma routed_call: "routed sample_app (sample_call m segs b) = route m segs"
  using sample_call_valid [of m segs b] by (simp add: routed_def) (simp add: sample_call_def)

lemma route_calls:
  "route (hr_method (lock_call i)) (hr_path (lock_call i)) = Some (RtLockTfState ''e'' ''p'')"
  "routed sample_app (lock_call i) = Some (RtLockTfState ''e'' ''p'')"
  "routed sample_app (unlock_call i) = Some (RtUnlockTfState ''e'' ''p'')"
  "routed sample_app (put_call i) = Some (RtPutTfState ''e'' ''p'')"
  "routed sample_app get_call = Some (RtGetTfState ''e'' ''p'')"
  "routed sample_app (delete_call ''q'') = Some (RtDeleteTfState ''e'' ''q'')"
  "routed sample_app status_call = Some RtStatus"
  unfolding call_defs routed_call by (simp_all add: sample_call_def route_def select_route_def)

lemma bytes_text: "map (\<lambda>b. char_of (unat b)) (to_bytes s) = s"
  by (simp add: to_bytes_def comp_def byte_of_char)

lemma lock_call: "lock_request sample_app ''e/p'' (lock_info i) (lock_call i)"
  unfolding lock_request_def route_calls
  by (simp add: tf_key_def sample_stack_def slash_def lock_call_def sample_call_def bytes_text)

lemma put_call: "put_request sample_app ''e/p'' (put_call i)"
  unfolding put_request_def route_calls
  by (simp add: tf_key_def sample_stack_def slash_def)

lemma get_call: "get_request sample_app ''e/p'' get_call"
  unfolding get_request_def route_calls
  by (simp add: tf_key_def sample_stack_def slash_def get_call_def sample_call_def)

subsection \<open>Requests of the state backend keep what they do not name\<close>

lemma path2_key_preserves:
  assumes "\<And>a b. hs_param (app_http app) i = Inr a \<Longrightarrow> hs_param (app_http app) p = Inr b \<Longrightarrow> preserves P (f a b)"
  shows "preserves P (path2 app i p f)"
  using assms unfolding path2_def path1_def extracted_def
  by (cases "hs_param (app_http app) i"; cases "hs_param (app_http app) p")
     (auto simp: preserves_def seq_def lift_result_def)

lemma tf_handlers_preserve:
  "preserves P (so_get_tf_state (app_store app) (slash a b)) \<Longrightarrow> preserves (on_store P) (api_get_tf_state app a b)"
  "preserves P (so_put_tf_state (app_store app) (slash a b) d) \<Longrightarrow> preserves (on_store P) (api_put_tf_state app a b d)"
  "preserves P (so_delete_tf_state (app_store app) (slash a b)) \<Longrightarrow> preserves (on_store P) (api_delete_tf_state app a b)"
  "preserves P (so_lock_tf_state (app_store app) (slash a b) i) \<Longrightarrow> preserves (on_store P) (api_lock_tf_state app a b i)"
  "preserves P (so_unlock_tf_state (app_store app) (slash a b) (unlock_id (app_http app) d)) \<Longrightarrow>
     preserves (on_store P) (api_unlock_tf_state app a b d)"
  unfolding api_get_tf_state_def api_put_tf_state_def api_delete_tf_state_def api_lock_tf_state_def api_unlock_tf_state_def
  by (intro preserves_intros preserves_store_do api_st_preserves, assumption)+

text \<open>The call of the state backend that a request makes, when it gets that far.\<close>

definition tf_call :: "('s, 'x) app_state \<Rightarrow> http_request \<Rightarrow> tf_request option" where
  "tf_call app req = (let hs = app_http app in case routed app req of
     Some (RtGetTfState i p) \<Rightarrow> map_option TfGet (tf_key hs i p)
   | Some (RtPutTfState i p) \<Rightarrow> map_option (\<lambda>k. TfPut k (hr_body req)) (tf_key hs i p)
   | Some (RtDeleteTfState i p) \<Rightarrow> map_option TfDelete (tf_key hs i p)
   | Some (RtLockTfState i p) \<Rightarrow> (case hs_json_body hs req of
       Inl _ \<Rightarrow> None | Inr info \<Rightarrow> map_option (\<lambda>k. TfLock k info) (tf_key hs i p))
   | Some (RtUnlockTfState i p) \<Rightarrow> map_option (\<lambda>k. TfUnlock k (unlock_id hs (hr_body req))) (tf_key hs i p)
   | _ \<Rightarrow> None)"

lemma extracted_seq_preserves:
  "(\<And>a. r = Inr a \<Longrightarrow> preserves P (f a)) \<Longrightarrow> preserves P (seq (extracted r) f)"
  by (cases r) (auto simp: preserves_def seq_def extracted_def lift_result_def)

lemma request_keepsI:
  assumes "\<And>c. tf_call app req = Some c \<Longrightarrow> preserves P (tf_request_act (app_store app) c)"
  shows "request_keeps app P req"
proof -
  have "preserves (on_store P) (handle_route app req r)" if r: "routed app req = Some r" "tf_route r" for r
  proof -
    note keep = path2_key_preserves tf_handlers_preserve extracted_seq_preserves
    show ?thesis
      using r(2) assms unfolding handle_route_def tf_call_def tf_request_act_def r(1)
      by (cases r) (auto simp: tf_key_def tf_route_def void_def [symmetric] intro!: keep)
  qed
  then show ?thesis by (simp add: request_keeps_def routed_def)
qed

lemma released_by: "tf_call app req = Some c \<Longrightarrow> may_release k info c \<Longrightarrow> releases app k info req"
  by (auto simp: tf_call_def releases_def may_release_def Let_def split: option.splits api_route.splits sum.splits)

definition may_change :: "string \<Rightarrow> tf_request \<Rightarrow> bool" where
  "may_change k r = (case r of TfPut k' _ \<Rightarrow> k' = k | TfDelete k' \<Rightarrow> k' = k | _ \<Rightarrow> False)"

lemma changed_by: "tf_call app req = Some c \<Longrightarrow> may_change k c \<Longrightarrow> changes_state app k req"
  by (auto simp: tf_call_def changes_state_def may_change_def Let_def split: option.splits api_route.splits sum.splits)

context full_store
begin

lemma tf_ops_frame:
  shows "handler_ops_keep ops (\<lambda>s. inv s \<and> Q (tf_view (abs s)))" (is "handler_ops_keep ops ?P")
    and "preserves (\<lambda>s. inv s \<and> Q (tf_view (abs s))) (so_upsert_enclave ops st)"
proof -
  have enclaves: "preserves ?P (so_get_enclave ops i)" "preserves ?P (so_list_enclaves ops)"
    "preserves ?P (so_upsert_enclave ops st)" "preserves ?P (so_delete_enclave ops i)" for i st
    by (rule preservesI_wp, erule conjE, rule wp_mono [OF get_law] wp_mono [OF list_law] wp_mono [OF upsert_law] wp_mono [OF delete_law],
        assumption, simp_all add: tf_view_def)+
  have log: "preserves ?P (so_append_event ops ev)" "preserves ?P (so_list_events ops i n)" for ev i n
    by (rule preservesI_wp, erule conjE, rule wp_mono [OF append_law] wp_mono [OF events_law], assumption, simp_all add: tf_view_def)+
  have runs: "preserves ?P (so_upsert_iac_run ops r)" "preserves ?P (so_list_iac_runs ops i p)" "preserves ?P (so_get_iac_run ops u)" for r i p u
    by (rule preservesI_wp, erule conjE, rule wp_mono [OF run_law] wp_mono [OF run_list_law] wp_mono [OF run_get_law],
        assumption, simp_all add: tf_view_def)+
  have "preserves ?P (so_delete_partition ops i p)" for i p
    by (rule preservesI_wp, erule conjE, rule wp_mono [OF part_delete_law], assumption)
       (simp_all add: tf_view_def split: option.splits)
  with enclaves log runs show "handler_ops_keep ops ?P" unfolding handler_ops_keep_def base_ops_keep_def by blast
  show "preserves ?P (so_upsert_enclave ops st)" by (rule enclaves)
qed

lemma tf_server_frame: "app_store app = ops \<Longrightarrow> server_keeps app (\<lambda>s. inv s \<and> Q (tf_view (abs s)))"
  by (rule server_keepsI) (simp_all only: tf_ops_frame)

abbreviation holds_lock :: "string \<Rightarrow> json \<Rightarrow> 'a \<Rightarrow> bool" where
  "holds_lock k info \<equiv> (\<lambda>s. inv s \<and> snd (tf_view (abs s)) k = Some info)"

abbreviation holds_state :: "string \<Rightarrow> bytes \<Rightarrow> 'a \<Rightarrow> bool" where
  "holds_state k b \<equiv> (\<lambda>s. inv s \<and> fst (tf_view (abs s)) k = Some b)"

lemma keeps_lock: "\<not> may_release k info r \<Longrightarrow> preserves (holds_lock k info) (tf_request_act ops r)"
  unfolding preserves_def tf_view_def using request_keeps_lock [of _ k info r] by simp

lemma keeps_state: "\<not> may_change k r \<Longrightarrow> preserves (holds_state k b) (tf_request_act ops r)"
  by (rule preservesI_wp, cases r)
     (auto simp: tf_view_def tf_request_act_def may_change_def wp_simps
       intro!: wp_mono [OF tf_get_law] wp_mono [OF tf_put_law] wp_mono [OF tf_lock_law] wp_mono [OF tf_delete_law]
         wp_mono [OF tf_unlock_law])

lemma request_keeps_http:
  "app_store app = ops \<Longrightarrow> \<not> releases app k info req \<Longrightarrow> request_keeps app (holds_lock k info) req"
  "app_store app = ops \<Longrightarrow> \<not> changes_state app k req \<Longrightarrow> request_keeps app (holds_state k b) req"
  by (rule request_keepsI, use keeps_lock keeps_state released_by changed_by in blast)+

lemma http_lock_kept:
  assumes "app_store app = ops" "inv (w_store w)" "lock_request app k info req" "serve app req w = (Some r1, w1)"
    and "resp_status r1 = 200" "list_all (\<lambda>r. \<not> releases app k info r) rs"
  shows "holds_lock k info (w_store (snd (serve_all app rs w1)))"
proof -
  obtain res s where l: "so_lock_tf_state ops k info (w_store w) = (res, s)"
    by (cases "so_lock_tf_state ops k info (w_store w)")
  have "\<exists>u. res = Inr u"
    using assms(4,5) unfolding serve_lock [OF assms(3)] assms(1) l
    by (auto simp: api_error_response_def internal_error_def split: sum.splits store_error.splits)
  moreover have "w_store w1 = s"
    using assms(4) unfolding serve_lock [OF assms(3)] assms(1) l by auto
  ultimately have "holds_lock k info (w_store w1)"
    using wp_InrD [OF tf_lock_law [OF assms(2)]] l by (auto simp: tf_view_def)
  moreover have "list_all (request_keeps app (holds_lock k info)) rs"
    using assms(6) request_keeps_http(1) [OF assms(1)] by (simp add: list_all_iff)
  ultimately show ?thesis
    using serve_all_keeps [of app "holds_lock k info"] tf_server_frame [OF assms(1), of "\<lambda>v. snd v k = Some info"] by simp
qed

lemma http_state_kept:
  assumes "app_store app = ops" "inv (w_store w)" "put_request app k req" "serve app req w = (Some r1, w1)"
    and "resp_status r1 = 200" "list_all (\<lambda>r. \<not> changes_state app k r) rs"
  shows "holds_state k (hr_body req) (w_store (snd (serve_all app rs w1)))"
proof -
  obtain res s where l: "so_put_tf_state ops k (hr_body req) (w_store w) = (res, s)"
    by (cases "so_put_tf_state ops k (hr_body req) (w_store w)")
  have "\<exists>u. res = Inr u"
    using assms(4,5) unfolding serve_put [OF assms(3)] assms(1) l
    by (auto simp: api_error_response_def internal_error_def split: sum.splits)
  moreover have "w_store w1 = s"
    using assms(4) unfolding serve_put [OF assms(3)] assms(1) l by auto
  ultimately have "holds_state k (hr_body req) (w_store w1)"
    using wp_InrD [OF tf_put_law [OF assms(2)]] l by (auto simp: tf_view_def)
  moreover have "list_all (request_keeps app (holds_state k (hr_body req))) rs"
    using assms(6) request_keeps_http(2) [OF assms(1)] by (simp add: list_all_iff)
  ultimately show ?thesis
    using serve_all_keeps [of app "holds_state k (hr_body req)"] tf_server_frame [OF assms(1), of "\<lambda>v. fst v k = Some (hr_body req)"]
      assms(1) by simp
qed

end

text \<open>
  Locking through the HTTP interface, with the in-memory store: after a lock request for a key
  was answered by 200, and after any further requests of any kind, reconciles and deletions of
  enclaves included, none of which is an authorized deletion of the key's state or an unlock with
  the holder's id or without one, the next lock request for the key is answered by 409 with the
  lock info of the holder as body, and changes nothing.
\<close>
theorem api_lock_exclusive:
  assumes "app_store app = memory_ops" "mem_inv (w_store w)"
    and "lock_request app k info req1" "serve app req1 w = (Some r1, w1)" "resp_status r1 = 200"
    and "list_all (\<lambda>r. \<not> releases app k info r) rs" "lock_request app k other req2"
  shows "serve app req2 (snd (serve_all app rs w1)) =
    (Some \<lparr>resp_status = 409, resp_body = JsonBody info\<rparr>, snd (serve_all app rs w1))"
proof -
  have "hm_get (ms_tf_locks (w_store (snd (serve_all app rs w1)))) k = Some info"
    using mem.http_lock_kept [OF assms(1-6)] by (simp add: tf_view_def mem_abs_def)
  then show ?thesis
    by (simp add: serve_lock [OF assms(7)] assms(1) memory_ops_def mem_lock_tf_state_def)
qed

theorem api_lock_exclusive_witness:
  "let w1 = snd (serve sample_app (lock_call ''1'') sample_world);
       w2 = snd (serve_all sample_app [status_call, unlock_call ''3'', lock_call ''4'', delete_call ''q''] w1)
   in serve sample_app (lock_call ''2'') w2 = (Some \<lparr>resp_status = 409, resp_body = JsonBody (lock_info ''1'')\<rparr>, w2)"
proof -
  have "\<exists>w1. serve sample_app (lock_call ''1'') sample_world = (Some (status_only 200), w1)"
    unfolding serve_lock [OF lock_call] by (simp add: memory_ops_def mem_lock_tf_state_def mem_new_def)
  then obtain w1 where w1: "serve sample_app (lock_call ''1'') sample_world = (Some (status_only 200), w1)" by blast
  have "list_all (\<lambda>r. \<not> releases sample_app ''e/p'' (lock_info ''1'') r)
      [status_call, unlock_call ''3'', lock_call ''4'', delete_call ''q'']"
    by (simp add: releases_def routed_call route_calls tf_key_def sample_stack_def slash_def)
       (simp add: unlock_call_def sample_call_def unlock_id_def unlock_matches_def lock_info_def json_index_def json_get_object bytes_text)
  then show ?thesis
    unfolding w1 Let_def snd_conv
    by (intro api_lock_exclusive [OF _ _ lock_call w1 _ _ lock_call])
       (simp_all add: mem_inv_new status_only_def)
qed

text \<open>
  C22. The state that Terraform uploads is the state that it gets back: after an upload that was
  answered by 200, and after any further requests that do not upload or delete the state of the
  same key, a GET of the key is answered by 200 with exactly the uploaded bytes.
\<close>
theorem api_state_roundtrip:
  assumes "app_store app = memory_ops" "mem_inv (w_store w)"
    and "put_request app k req1" "serve app req1 w = (Some r1, w1)" "resp_status r1 = 200"
    and "list_all (\<lambda>r. \<not> changes_state app k r) rs" "get_request app k req2"
  shows "serve app req2 (snd (serve_all app rs w1)) =
    (Some \<lparr>resp_status = 200, resp_body = BytesBody (hr_body req1)\<rparr>, snd (serve_all app rs w1))"
proof -
  have "hm_get (ms_tf_state (w_store (snd (serve_all app rs w1)))) k = Some (hr_body req1)"
    using mem.http_state_kept [OF assms(1-6)] by (simp add: tf_view_def mem_abs_def)
  then show ?thesis
    by (simp add: serve_get [OF assms(7)] assms(1) memory_ops_def mem_get_tf_state_def)
qed

theorem api_state_roundtrip_witness:
  "let w1 = snd (serve sample_app (put_call ''state'') sample_world);
       w2 = snd (serve_all sample_app [lock_call ''1'', delete_call ''q'', unlock_call ''1''] w1)
   in serve sample_app get_call w2 = (Some \<lparr>resp_status = 200, resp_body = BytesBody (to_bytes ''state'')\<rparr>, w2)"
proof -
  have "\<exists>w1. serve sample_app (put_call ''state'') sample_world = (Some (status_only 200), w1)"
    unfolding serve_put [OF put_call] by (simp add: memory_ops_def mem_put_tf_state_def)
  then obtain w1 where w1: "serve sample_app (put_call ''state'') sample_world = (Some (status_only 200), w1)" by blast
  have "list_all (\<lambda>r. \<not> changes_state sample_app ''e/p'' r) [lock_call ''1'', delete_call ''q'', unlock_call ''1'']"
    by (simp add: changes_state_def routed_call route_calls tf_key_def sample_stack_def slash_def)
  then have "serve sample_app get_call (snd (serve_all sample_app [lock_call ''1'', delete_call ''q'', unlock_call ''1''] w1)) =
      (Some \<lparr>resp_status = 200, resp_body = BytesBody (hr_body (put_call ''state''))\<rparr>,
       snd (serve_all sample_app [lock_call ''1'', delete_call ''q'', unlock_call ''1''] w1))"
    by (intro api_state_roundtrip [OF _ _ put_call w1 _ _ get_call])
       (simp_all add: mem_inv_new status_only_def)
  then show ?thesis unfolding w1 Let_def snd_conv by (simp add: put_call_def sample_call_def)
qed

end
