(* ===== verification/Api_Props.thy ===== *)
theory Api_Props
  imports Api_Protocol
begin

section \<open>Deletion, run log, events and status over HTTP\<close>

text \<open>What the remaining handlers promise, with the in-memory store.\<close>

subsection \<open>Deletion of an enclave\<close>

lemma api_st_mem:
  "api_st app (so_get_enclave memory_ops i) w = (Inr (hm_get (ms_enclaves (w_store w)) i), w)"
  "api_st app (so_list_enclaves memory_ops) w = (Inr (hm_values (ms_enclaves (w_store w))), w)"
  "api_st app (so_delete_enclave memory_ops i) w =
     (Inr (), w\<lparr>w_store := (w_store w)\<lparr>ms_enclaves := hm_remove i (ms_enclaves (w_store w))\<rparr>\<rparr>)"
  by (simp_all add: api_st_def map_err_def store_do_def memory_ops_def mem_get_enclave_def mem_list_enclaves_def
      mem_delete_enclave_def)

text \<open>Only the run log of the store is touched while the resources are torn down, and nothing is thrown.\<close>

definition log_only :: "mem_store \<Rightarrow> mem_store \<Rightarrow> bool" where
  "log_only s s' \<longleftrightarrow> s'\<lparr>ms_iac_runs := ms_iac_runs s\<rparr> = s"

lemma log_only_tf_teardown:
  assumes "app_store app = memory_ops"
  shows "preserves (on_store (log_only s)) (tf_teardown (app_system app) b enc p env rid)"
  by (rule tf_teardown_preserves) (simp add: assms preserves_def memory_ops_def mem_upsert_iac_run_def log_only_def)

lemma preserves_attempt_wp:
  "preserves P m \<Longrightarrow> P w \<Longrightarrow> (\<And>r w'. P w' \<Longrightarrow> wp (f r) Q E w') \<Longrightarrow> wp (seq (attempt m) f) Q E w"
  unfolding wp_seq wp_attempt by (rule wp_mono [where Q = "\<lambda>_. P" and E = "\<lambda>_. P"]) (simp_all add: preserves_wp)

lemma delete_enclave_partition_wp:
  assumes "app_store app = memory_ops" "log_only s (w_store w)"
  shows "wp (delete_enclave_partition app driver env existing i x errs)
    (\<lambda>errs' w'. log_only s (w_store w') \<and> (\<exists>more. errs' = errs @ more)) (\<lambda>_ _. False) w"
proof -
  obtain pid ps where x: "x = (pid, ps)" by (cases x)
  note tf = log_only_tf_teardown [OF assms(1), of s]
  have ext: "preserves (on_store (log_only s)) (ext_do m)" for m :: "('x, driver_error, unit) act"
    by (intro preserves_intros)
  show ?thesis
    unfolding delete_enclave_partition_def x prod.case
    by (rule preserves_attempt_wp [where P = "on_store (log_only s)", OF tf])
       (auto simp: assms wp_ret Let_def split: option.split sum.split
         intro!: preserves_attempt_wp [where P = "on_store (log_only s)", OF ext])
qed

lemma delete_enclave_resources_wp:
  fixes app :: "(mem_store, 'x) app_state"
  assumes "app_store app = memory_ops"
  shows "wp (delete_enclave_resources app driver existing i ro)
    (\<lambda>errs w'. log_only (w_store w) (w_store w') \<and>
       (\<forall>h e. es_handle existing = Some h \<longrightarrow> \<not> ro \<longrightarrow>
          (\<forall>x. fst (drv_teardown_enclave driver (es_desired existing) h x) = Inl e) \<longrightarrow>
          errs \<noteq> [] \<and> last errs = ''enclave teardown '' @ i @ '': '' @ driver_error_str e)) (\<lambda>_ _. False) w"
proof (cases "es_handle existing")
  case None
  then show ?thesis by (simp add: delete_enclave_resources_def wp_ret log_only_def)
next
  case (Some h)
  let ?s = "w_store w"
  have loop: "wp (foldM (delete_enclave_partition app driver env existing i) (es_partitions existing) [])
      (\<lambda>_ w'. log_only ?s (w_store w')) (\<lambda>_ _. False) w" for env
    by (rule wp_foldM [where I = "\<lambda>_ w'. log_only ?s (w_store w')"])
       (auto simp: log_only_def [of ?s ?s] intro: wp_mono [OF delete_enclave_partition_wp [OF assms]])
  have last_step: "wp (seq (attempt (ext_do (drv_teardown_enclave driver (es_desired existing) h))) (\<lambda>r.
        ret (case r of Inl e \<Rightarrow> errs @ [''enclave teardown '' @ i @ '': '' @ driver_error_str e] | Inr _ \<Rightarrow> errs)))
      (\<lambda>errs' w''. w_store w'' = w_store w' \<and>
         (\<forall>e. (\<forall>x. fst (drv_teardown_enclave driver (es_desired existing) h x) = Inl e) \<longrightarrow>
            errs' = errs @ [''enclave teardown '' @ i @ '': '' @ driver_error_str e])) (\<lambda>_ _. False) w'" for errs w'
  proof -
    obtain r x where d: "drv_teardown_enclave driver (es_desired existing) h (w_ext w') = (r, x)"
      by (cases "drv_teardown_enclave driver (es_desired existing) h (w_ext w')")
    have "r = Inl e" if "\<forall>x. fst (drv_teardown_enclave driver (es_desired existing) h x) = Inl e" for e
      using that d by (metis fst_conv)
    then show ?thesis
      by (cases r) (auto simp: wp_def seq_def attempt_def ext_do_def d ret_def)
  qed
  show ?thesis
    unfolding delete_enclave_resources_def Some option.case Let_def
  proof (rule wp_seqI [OF loop])
    fix errs and w' :: "(mem_store, 'x) world" assume "log_only ?s (w_store w')"
    then show "wp (if ro then ret errs else seq (attempt (ext_do (drv_teardown_enclave driver (es_desired existing) h))) (\<lambda>r.
        ret (case r of Inl e \<Rightarrow> errs @ [''enclave teardown '' @ i @ '': '' @ driver_error_str e] | Inr _ \<Rightarrow> errs)))
      (\<lambda>errs w'. log_only ?s (w_store w') \<and> (\<forall>h' e. Some h = Some h' \<longrightarrow> \<not> ro \<longrightarrow>
          (\<forall>x. fst (drv_teardown_enclave driver (es_desired existing) h' x) = Inl e) \<longrightarrow>
          errs \<noteq> [] \<and> last errs = ''enclave teardown '' @ i @ '': '' @ driver_error_str e)) (\<lambda>_ _. False) w'"
      by (cases ro) (auto simp: wp_ret intro: wp_mono [OF last_step])
  qed
qed


definition stuck_state :: enclave_state where
  "stuck_state = (new_enclave_state (hashed_enclave []))\<lparr>es_handle := Some JNull\<rparr>"

definition stuck_app :: "(mem_store, unit) app_state" where
  "stuck_app = sample_app\<lparr>app_system := sample_system\<lparr>sys_registry := register Local
     (local_driver\<lparr>drv_teardown_enclave := \<lambda>_ _. throw (TeardownFailed ''boom'')\<rparr>) (registry_new Local)\<rparr>\<rparr>"

definition stuck_world :: "(mem_store, unit) world" where
  "stuck_world = sample_world\<lparr>w_store := mem_new\<lparr>ms_enclaves := [(EnclaveId ''e'', stuck_state)]\<rparr>\<rparr>"


subsection \<open>The latest run\<close>

lemma max_by_key_snoc: "max_by_key f (xs @ [x]) = (case max_by_key f xs of
    None \<Rightarrow> Some x | Some y \<Rightarrow> if f y \<le> f x then Some x else Some y)"
  by (simp add: max_by_key_def)

lemma max_by_key_None: "max_by_key f xs = None \<longleftrightarrow> xs = []"
  by (cases xs rule: rev_cases) (simp_all add: max_by_key_snoc max_by_key_def split: option.splits)

lemma max_by_key_Some:
  "max_by_key f xs = Some y \<Longrightarrow> y \<in> set xs \<and> (\<forall>x \<in> set xs. f x \<le> f y)"
proof (induction xs arbitrary: y rule: rev_induct)
  case (snoc x xs)
  show ?case
  proof (cases "max_by_key f xs")
    case None
    then show ?thesis using snoc.prems by (simp add: max_by_key_snoc) (simp add: max_by_key_None)
  next
    case (Some z)
    then show ?thesis
      using snoc.prems snoc.IH [OF Some] by (force simp: max_by_key_snoc split: if_splits)
  qed
qed (simp add: max_by_key_def)

text \<open>
  The latest run of a partition: with the in-memory store the answer is a stored run of the
  partition that no other stored run of the partition starts after, although the list it is
  taken from is cut at 100; exactly when the partition has no stored run the answer is 404.
\<close>
theorem api_latest_iac_run_newest:
  assumes "app_store app = memory_ops" "mem_inv (w_store w)"
  shows "let mine = (\<lambda>r. (\<exists>u. hm_get (ms_iac_runs (w_store w)) u = Some r) \<and>
           run_enclave_id r = EnclaveId i \<and> run_partition_id r = PartitionId p)
    in if (\<exists>r. mine r)
       then (\<exists>r. mine r \<and> (\<forall>x. mine x \<longrightarrow> run_started_at x \<le> run_started_at r) \<and>
         api_latest_iac_run app i p w = (Inr (json_response (iac_run_to_json (app_text app) r)), w))
       else api_latest_iac_run app i p w =
         (Inl (ApiFailed (not_found ''no IaC runs found for this partition'')), w)"
proof -
  define mine where "mine = (\<lambda>r. (\<exists>u. hm_get (ms_iac_runs (w_store w)) u = Some r) \<and>
      run_enclave_id r = EnclaveId i \<and> run_partition_id r = PartitionId p)"
  obtain rs where l: "mem_list_iac_runs (EnclaveId i) (PartitionId p) (w_store w) = (Inr rs, w_store w)"
    by (simp add: mem_list_iac_runs_def)
  have api: "api_latest_iac_run app i p w = (case max_by_key run_started_at rs of
      None \<Rightarrow> (Inl (ApiFailed (not_found ''no IaC runs found for this partition'')), w)
    | Some r \<Rightarrow> (Inr (json_response (iac_run_to_json (app_text app) r)), w))"
    using l by (simp add: api_latest_iac_run_def api_st_def map_err_def store_do_def seq_def or_fail_def
        assms(1) memory_ops_def throw_def ret_def split: option.split)
  note listed = mem_runs_listed [OF assms(2) l]
  have sound: "\<forall>r \<in> set rs. mine r"
    using listed by (auto simp: mine_def ran_def)
  have complete: "x \<in> set rs \<or> length rs = 100 \<and> (\<forall>r \<in> set rs. run_started_at x \<le> run_started_at r)" if "mine x" for x
    using that listed unfolding mine_def by blast
  have goal: "if (\<exists>r. mine r)
       then (\<exists>r. mine r \<and> (\<forall>x. mine x \<longrightarrow> run_started_at x \<le> run_started_at r) \<and>
         api_latest_iac_run app i p w = (Inr (json_response (iac_run_to_json (app_text app) r)), w))
       else api_latest_iac_run app i p w =
         (Inl (ApiFailed (not_found ''no IaC runs found for this partition'')), w)"
  proof (cases "max_by_key run_started_at rs")
    case None
    then have "rs = []" by (simp add: max_by_key_None)
    then have "\<nexists>r. mine r" using complete by fastforce
    then show ?thesis by (simp add: api None)
  next
    case (Some r)
    note r = max_by_key_Some [OF Some]
    have "run_started_at x \<le> run_started_at r" if "mine x" for x
      using complete [OF that] r by auto
    then show ?thesis using r sound by (auto simp: api Some)
  qed
  then show ?thesis unfolding mine_def Let_def .
qed

theorem api_latest_iac_run_newest_witness:
  "\<exists>w. api_latest_iac_run sample_app ''e'' ''p'' w =
     (Inr (json_response (iac_run_to_json sample_text (sample_run 2 9))), w)"
proof -
  let ?s = "mem_new\<lparr>ms_iac_runs := [(1, sample_run 1 5), (2, sample_run 2 9)]\<rparr>"
  let ?w = "sample_world\<lparr>w_store := ?s\<rparr>"
  have inv: "mem_inv (w_store ?w)" by (simp add: mem_inv_def mem_new_def hm_ok_def)
  have runs: "(\<exists>u. hm_get (ms_iac_runs (w_store ?w)) u = Some r) \<longleftrightarrow> r = sample_run 1 5 \<or> r = sample_run 2 9" for r
    by (auto simp: hm_get_def intro: exI [of _ 1] exI [of _ 2])
  have ex: "\<exists>r. (r = sample_run 1 5 \<or> r = sample_run 2 9) \<and> run_enclave_id r = EnclaveId ''e'' \<and> run_partition_id r = PartitionId ''p''"
    by (rule exI [of _ "sample_run 1 5"]) (simp add: sample_run_def)
  obtain r where r: "r = sample_run 1 5 \<or> r = sample_run 2 9"
      "\<forall>x. (x = sample_run 1 5 \<or> x = sample_run 2 9) \<and> run_enclave_id x = EnclaveId ''e'' \<and> run_partition_id x = PartitionId ''p'' \<longrightarrow>
         run_started_at x \<le> run_started_at r"
      "api_latest_iac_run sample_app ''e'' ''p'' ?w = (Inr (json_response (iac_run_to_json (app_text sample_app) r)), ?w)"
    using api_latest_iac_run_newest [OF sample_app_simps(1) inv, of "''e''" "''p''"]
    unfolding runs Let_def if_P [OF ex] by (elim exE conjE) (rule that)
  have "run_started_at (sample_run 2 9) \<le> run_started_at r"
    using r(2) [rule_format, of "sample_run 2 9"] by (simp add: sample_run_def)
  then have "r = sample_run 2 9" using r(1) by (auto simp: sample_run_def)
  then show ?thesis using r(3) by (intro exI [of _ ?w]) (simp add: sample_app_def)
qed

subsection \<open>Events\<close>

text \<open>
  The event list: the answer holds the last events of the log, of one enclave when one is
  named, in the order in which they were written, and at most the requested number, 100 when
  none is given; an older event is left out only when that many newer ones are listed.
\<close>
theorem api_list_events_bounded:
  assumes "app_store app = memory_ops" "n = (case limit of None \<Rightarrow> 100 | Some l \<Rightarrow> unat l)"
  shows "\<exists>older evs. filter (\<lambda>ev. case enclave of None \<Rightarrow> True | Some i \<Rightarrow> event_enclave ev = Some (EnclaveId i))
        (ms_events (w_store w)) = older @ evs \<and>
      length evs \<le> n \<and> (older \<noteq> [] \<longrightarrow> length evs = n) \<and>
      api_list_events app enclave limit w = (Inr (json_response (json_list (audit_event_to_json (app_text app)) evs)), w)"
proof -
  let ?sel = "filter (\<lambda>ev. case enclave of None \<Rightarrow> True | Some i \<Rightarrow> event_enclave ev = Some (EnclaveId i)) (ms_events (w_store w))"
  let ?k = "length ?sel - n"
  have sel: "?sel = filter (\<lambda>ev. case map_option EnclaveId enclave of
        Some i \<Rightarrow> (case event_enclave ev of None \<Rightarrow> False | Some j \<Rightarrow> j = i) | None \<Rightarrow> True) (ms_events (w_store w))"
    by (rule filter_cong) (auto split: option.splits)
  have "unat (case limit of None \<Rightarrow> 100 | Some l \<Rightarrow> l) = n"
    by (simp add: assms(2) split: option.split)
  then have "api_list_events app enclave limit w =
      (Inr (json_response (json_list (audit_event_to_json (app_text app)) (drop ?k ?sel))), w)"
    unfolding sel by (simp add: api_list_events_def api_st_def map_err_def store_do_def seq_def assms(1) memory_ops_def
        mem_list_events_def ret_def Let_def)
  moreover have "length (drop ?k ?sel) \<le> n \<and> (take ?k ?sel \<noteq> [] \<longrightarrow> length (drop ?k ?sel) = n)"
    by auto
  ultimately show ?thesis
    by (intro exI [of _ "take ?k ?sel"] exI [of _ "drop ?k ?sel"]) simp
qed

theorem api_list_events_bounded_witness:
  "\<exists>evs. length evs \<le> 1 \<and> evs \<noteq> [] \<and> api_list_events sample_app (Some ''e'') (Some 1)
     (sample_world\<lparr>w_store := mem_new\<lparr>ms_events := [EnclaveProvisioned 1 2 (EnclaveId ''e''), EnclaveProvisioned 3 4 (EnclaveId ''e'')]\<rparr>\<rparr>) =
     (Inr (json_response (json_list (audit_event_to_json (app_text sample_app)) evs)),
      sample_world\<lparr>w_store := mem_new\<lparr>ms_events := [EnclaveProvisioned 1 2 (EnclaveId ''e''), EnclaveProvisioned 3 4 (EnclaveId ''e'')]\<rparr>\<rparr>)"
  using api_list_events_bounded [OF sample_app_simps(1), of 1 "Some 1" "Some ''e''"
      "sample_world\<lparr>w_store := mem_new\<lparr>ms_events := [EnclaveProvisioned 1 2 (EnclaveId ''e''), EnclaveProvisioned 3 4 (EnclaveId ''e'')]\<rparr>\<rparr>"]
  by (auto simp: event_enclave_def)

subsection \<open>Status\<close>

definition status_count :: "enclave_state list \<Rightarrow> string \<Rightarrow> nat" where
  "status_count ss k = length (filter (\<lambda>s. status_str (meta_status (es_meta s)) = k) ss)"

lemma count_status_snoc: "count_status (ss @ [s]) = (let k = status_str (meta_status (es_meta s)) in
    hm_insert k (Suc (case hm_get (count_status ss) k of None \<Rightarrow> 0 | Some n \<Rightarrow> n)) (count_status ss))"
  by (simp add: count_status_def)

lemma status_count_snoc: "status_count (ss @ [s]) k =
    (if status_str (meta_status (es_meta s)) = k then Suc (status_count ss k) else status_count ss k)"
  by (simp add: status_count_def)

lemma count_status_get:
  "hm_ok (count_status ss) \<and>
   hm_get (count_status ss) k = (if status_count ss k = 0 then None else Some (status_count ss k))"
proof (induction ss arbitrary: k rule: rev_induct)
  case (snoc s ss)
  show ?case
    unfolding count_status_snoc status_count_snoc Let_def
    using snoc [of k] snoc [of "status_str (meta_status (es_meta s))"] by (auto simp: hm_get_insert split: if_splits)
qed (simp add: count_status_def status_count_def)

lemma sum_hm_insert:
  "sum_list (hm_values (hm_insert k v m)) + (case hm_get m k of None \<Rightarrow> 0 | Some n \<Rightarrow> n) = sum_list (hm_values m) + (v :: nat)"
  by (induction m) (auto simp: hm_values_def hm_insert_def hm_get_def)

lemma count_status_sum: "sum_list (hm_values (count_status ss)) = length ss"
proof (induction ss rule: rev_induct)
  case (snoc s ss)
  let ?k = "status_str (meta_status (es_meta s))"
  let ?n = "case hm_get (count_status ss) ?k of None \<Rightarrow> 0 | Some n \<Rightarrow> n"
  have "count_status (ss @ [s]) = hm_insert ?k (Suc ?n) (count_status ss)"
    by (simp add: count_status_snoc Let_def)
  then show ?case
    using sum_hm_insert [of ?k "Suc ?n" "count_status ss"] snoc by (simp split: option.splits)
qed (simp add: count_status_def hm_values_def)

lemma fold_max_spec: "(t = a \<or> t \<in> set ts) \<and> a \<le> t \<and> (\<forall>u \<in> set ts. u \<le> t)" if "t = fold max ts (a :: 'a :: linorder)"
proof -
  have "t = Max (insert a (set ts))" using that by (simp add: Max.set_eq_fold [symmetric])
  then show ?thesis using Max_in [of "insert a (set ts)"] by auto
qed

lemma last_reconciled_at_max:
  assumes "last_reconciled_at ss = Some t"
  shows "(\<exists>s \<in> set ss. meta_updated_at (es_meta s) = Some t) \<and>
    (\<forall>s \<in> set ss. \<forall>u. meta_updated_at (es_meta s) = Some u \<longrightarrow> u \<le> t)"
proof -
  obtain a ts where ts: "List.map_filter (\<lambda>s. meta_updated_at (es_meta s)) ss = a # ts" "t = fold max ts a"
    using assms by (auto simp: last_reconciled_at_def split: list.splits)
  have mem: "u \<in> set (a # ts) \<longleftrightarrow> (\<exists>s \<in> set ss. meta_updated_at (es_meta s) = Some u)" for u
    unfolding ts(1) [symmetric] in_map_filter ..
  have "t \<in> set (a # ts)" "\<forall>u \<in> set (a # ts). u \<le> t" using fold_max_spec [OF ts(2)] by auto
  then show ?thesis unfolding mem using mem by blast
qed

text \<open>
  The status summary: it lists every status that some stored enclave has and no other, each
  with the number of the enclaves in it, so the numbers add up to the enclave count; the time of
  the last reconcile is the latest update of any enclave, and nothing is changed.
\<close>
theorem api_status_counts:
  assumes "app_store app = memory_ops" "ss = hm_values (ms_enclaves (w_store w))"
  shows "api_status app w = (Inr (json_response (status_to_json app ss)), w) \<and>
    hm_ok (count_status ss) \<and> sum_list (hm_values (count_status ss)) = length ss \<and>
    (\<forall>k. hm_get (count_status ss) k = (if status_count ss k = 0 then None else Some (status_count ss k))) \<and>
    (\<forall>t. last_reconciled_at ss = Some t \<longrightarrow>
       (\<exists>s \<in> set ss. meta_updated_at (es_meta s) = Some t) \<and>
       (\<forall>s \<in> set ss. \<forall>u. meta_updated_at (es_meta s) = Some u \<longrightarrow> u \<le> t))"
proof -
  have "api_status app w = (Inr (json_response (status_to_json app ss)), w)"
    by (simp add: api_status_def seq_def assms api_st_mem ret_def)
  then show ?thesis using count_status_get count_status_sum last_reconciled_at_max by blast
qed

theorem api_status_counts_witness:
  "api_status sample_app stuck_world = (Inr (json_response (status_to_json sample_app [stuck_state])), stuck_world) \<and>
   sum_list (hm_values (count_status [stuck_state])) = 1"
  using api_status_counts [OF sample_app_simps(1), of "[stuck_state]" stuck_world]
  by (simp add: stuck_world_def hm_values_def)

end
