(* ===== verification/Redb_Engine.thy ===== *)
theory Redb_Engine
  imports Store_Interface State_Json File_System
begin

section \<open>The embedded database\<close>

text \<open>
  What \<open>crates/nclav-store/src/redb_store.rs\<close> uses of the crate \<open>redb\<close> and of \<open>serde_json\<close>: the
  record \<open>redb\<close> of the engine's operations over a database \<open>'d\<close> and its transactions \<open>'t\<close>, and the
  record \<open>codec\<close> of the encoders and decoders of the stored values. Both are parameters. Every
  operation can fail with a message. \<open>redb_ok\<close> and \<open>codec_ok\<close> state their documented behaviour: a
  transaction starts from the committed content, is seen by nobody until it is committed, commits
  entirely or not at all; a table is a map that is walked in the order of its keys, and a database
  holds fewer than \<open>2 ^ 63\<close> entries; what was encoded is read back.
\<close>

datatype redb_table = ENCLAVES | EVENTS | META | TF_STATE | TF_LOCKS | IAC_RUNS | IAC_RUNS_BY_PART

datatype rkey = KStr string | KNum "64 word"

datatype rval = VBytes bytes | VNum "64 word" | VStr string

record ('d, 't) redb =
  rd_create :: "path \<Rightarrow> (file_system, string, 'd) act"
  rd_begin_read :: "('d, string, 't) act"
  rd_begin_write :: "('d, string, 't) act"
  rd_open_table :: "redb_table \<Rightarrow> ('t, string, unit) act"
  rd_get :: "redb_table \<Rightarrow> rkey \<Rightarrow> ('t, string, rval option) act"
  rd_insert :: "redb_table \<Rightarrow> rkey \<Rightarrow> rval \<Rightarrow> ('t, string, unit) act"
  rd_remove :: "redb_table \<Rightarrow> rkey \<Rightarrow> ('t, string, unit) act"
  rd_range :: "redb_table \<Rightarrow> rkey option \<Rightarrow> ('t, string, (string, rkey \<times> rval) result list) act"
  rd_commit :: "'t \<Rightarrow> ('d, string, unit) act"

record codec =
  cd_enclave :: "enclave_state \<Rightarrow> (json_error, bytes) result"
  cd_enclave_of :: "bytes \<Rightarrow> (json_error, enclave_state) result"
  cd_event :: "audit_event \<Rightarrow> (json_error, bytes) result"
  cd_event_of :: "bytes \<Rightarrow> (json_error, audit_event) result"
  cd_run :: "iac_run \<Rightarrow> (json_error, bytes) result"
  cd_run_of :: "bytes \<Rightarrow> (json_error, iac_run) result"
  cd_value :: "json \<Rightarrow> (json_error, bytes) result"
  cd_value_of :: "bytes \<Rightarrow> (json_error, json) result"

text \<open>The value that is read: the types of the tables fix which form it has.\<close>

definition val_bytes :: "rval \<Rightarrow> bytes" where
  "val_bytes v = (case v of VBytes b \<Rightarrow> b | _ \<Rightarrow> [])"

definition val_num :: "rval \<Rightarrow> 64 word" where
  "val_num v = (case v of VNum n \<Rightarrow> n | _ \<Rightarrow> 0)"

definition val_str :: "rval \<Rightarrow> string" where
  "val_str v = (case v of VStr s \<Rightarrow> s | _ \<Rightarrow> [])"

lemma val_simps [simp]: "val_bytes (VBytes b) = b" "val_num (VNum n) = n" "val_str (VStr s) = s"
  by (simp_all add: val_bytes_def val_num_def val_str_def)

subsection \<open>The order of the keys\<close>

text \<open>The keys of a table are of one form: strings in the order of their bytes, numbers by value.\<close>

fun rkey_less :: "rkey \<Rightarrow> rkey \<Rightarrow> bool" where
  "rkey_less (KStr a) (KStr b) \<longleftrightarrow> a < b"
| "rkey_less (KNum a) (KNum b) \<longleftrightarrow> a < b"
| "rkey_less (KStr a) (KNum b) \<longleftrightarrow> True"
| "rkey_less (KNum a) (KStr b) \<longleftrightarrow> False"

instantiation rkey :: linorder
begin

definition less_rkey :: "rkey \<Rightarrow> rkey \<Rightarrow> bool" where
  "less_rkey = rkey_less"

definition less_eq_rkey :: "rkey \<Rightarrow> rkey \<Rightarrow> bool" where
  "less_eq_rkey a b \<longleftrightarrow> rkey_less a b \<or> a = b"

instance
proof
  fix a b c :: rkey
  show "a < b \<longleftrightarrow> a \<le> b \<and> \<not> b \<le> a"
    by (cases a; cases b) (auto simp: less_rkey_def less_eq_rkey_def)
  show "a \<le> a" by (simp add: less_eq_rkey_def)
  show "a \<le> b \<Longrightarrow> b \<le> c \<Longrightarrow> a \<le> c"
    by (cases a; cases b; cases c) (auto simp: less_eq_rkey_def)
  show "a \<le> b \<Longrightarrow> b \<le> a \<Longrightarrow> a = b"
    by (cases a; cases b) (auto simp: less_eq_rkey_def)
  show "a \<le> b \<or> b \<le> a"
    by (cases a; cases b) (auto simp: less_eq_rkey_def)
qed

end

subsection \<open>What the store relies on\<close>

type_synonym redb_content = "redb_table \<Rightarrow> rkey \<Rightarrow> rval option"

text \<open>A walk over the entries from a key on, in order; each may fail to be read.\<close>

definition walks :: "(rkey \<Rightarrow> rval option) \<Rightarrow> rkey option \<Rightarrow> (string, rkey \<times> rval) result list \<Rightarrow> bool" where
  "walks m lo es \<longleftrightarrow> (\<exists>kvs. sorted_wrt (<) (map fst kvs) \<and>
     map_of kvs = (\<lambda>k. if (case lo of None \<Rightarrow> True | Some l \<Rightarrow> l \<le> k) then m k else None) \<and>
     list_all2 (\<lambda>e kv. case e of Inl _ \<Rightarrow> True | Inr x \<Rightarrow> x = kv) es kvs)"

definition redb_ok :: "('d, 't) redb \<Rightarrow> ('d \<Rightarrow> redb_content) \<Rightarrow> ('t \<Rightarrow> redb_content) \<Rightarrow> bool" where
  "redb_ok db content view \<longleftrightarrow>
     (\<forall>m \<in> {rd_begin_read db, rd_begin_write db}. \<forall>d.
        wp m (\<lambda>t d'. view t = content d \<and> content d' = content d) (\<lambda>_ d'. content d' = content d) d) \<and>
     (\<forall>tbl t. wp (rd_open_table db tbl) (\<lambda>_ t'. view t' = view t) (\<lambda>_ _. True) t) \<and>
     (\<forall>tbl k t. wp (rd_get db tbl k) (\<lambda>r t'. view t' = view t \<and> r = view t tbl k) (\<lambda>_ _. True) t) \<and>
     (\<forall>tbl k v t. wp (rd_insert db tbl k v) (\<lambda>_ t'. view t' = (view t)(tbl := (view t tbl)(k \<mapsto> v))) (\<lambda>_ _. True) t) \<and>
     (\<forall>tbl k t. wp (rd_remove db tbl k) (\<lambda>_ t'. view t' = (view t)(tbl := (view t tbl)(k := None))) (\<lambda>_ _. True) t) \<and>
     (\<forall>tbl lo t. wp (rd_range db tbl lo) (\<lambda>es t'. view t' = view t \<and> walks (view t tbl) lo es) (\<lambda>_ _. True) t) \<and>
     (\<forall>t d. wp (rd_commit db t) (\<lambda>_ d'. content d' = view t) (\<lambda>_ d'. content d' = content d) d) \<and>
     (\<forall>d tbl. finite (dom (content d tbl)) \<and> card (dom (content d tbl)) < 2 ^ 63)"

definition decodes :: "('a \<Rightarrow> (json_error, bytes) result) \<Rightarrow> (bytes \<Rightarrow> (json_error, 'a) result) \<Rightarrow> bool" where
  "decodes enc dec \<longleftrightarrow> (\<forall>x b. enc x = Inr b \<longrightarrow> dec b = Inr x)"

definition codec_ok :: "codec \<Rightarrow> bool" where
  "codec_ok cd \<longleftrightarrow> decodes (cd_enclave cd) (cd_enclave_of cd) \<and> decodes (cd_event cd) (cd_event_of cd) \<and>
     decodes (cd_run cd) (cd_run_of cd) \<and> decodes (cd_value cd) (cd_value_of cd)"

subsection \<open>Transactions\<close>

text \<open>
  A function that only reads begins a transaction and drops it; one that writes commits it at the
  end, and an early return drops it, so that nothing of it is kept.
\<close>

definition engine :: "('w, string, 'a) act \<Rightarrow> ('w, store_error, 'a) act" where
  "engine m = map_err StoreInternal m"

definition decoded :: "(json_error, 'a) result \<Rightarrow> ('w, store_error, 'a) act" where
  "decoded r = lift_result (map_sum Serialization id r)"

definition redb_read :: "('d, 't) redb \<Rightarrow> ('t, store_error, 'a) act \<Rightarrow> ('d, store_error, 'a) act" where
  "redb_read db f = seq (engine (rd_begin_read db)) (\<lambda>t. lift_result (fst (f t)))"

definition redb_write :: "('d, 't) redb \<Rightarrow> ('t, store_error, 'a) act \<Rightarrow> ('d, store_error, 'a) act" where
  "redb_write db f = seq (engine (rd_begin_write db)) (\<lambda>t.
     case f t of
       (Inl e, _) \<Rightarrow> throw e
     | (Inr a, t') \<Rightarrow> seq (engine (rd_commit db t')) (\<lambda>_. ret a))"

lemma wp_engine [wp_simps]: "wp (engine m) Q E w = wp m Q (\<lambda>e. E (StoreInternal e)) w"
  by (simp add: engine_def wp_map_err)

lemma wp_decoded [wp_simps]:
  "wp (decoded r) Q E w = (case r of Inl e \<Rightarrow> E (Serialization e) w | Inr a \<Rightarrow> Q a w)"
  by (simp add: decoded_def wp_lift_result split: sum.split)

lemma redb_read_wp:
  assumes "redb_ok db content view"
    and "\<And>t. view t = content d \<Longrightarrow> wp f (\<lambda>r _. Q r) (\<lambda>e _. True) t"
  shows "wp (redb_read db f) (\<lambda>r d'. content d' = content d \<and> Q r) (\<lambda>_ d'. content d' = content d) d"
proof -
  have b: "wp (engine (rd_begin_read db)) (\<lambda>t d'. view t = content d \<and> content d' = content d)
      (\<lambda>_ d'. content d' = content d) d"
    using assms(1) by (simp add: redb_ok_def wp_engine)
  show ?thesis
    unfolding redb_read_def
  proof (rule wp_seqI [OF b])
    fix t d' assume "view t = content d \<and> content d' = content d"
    then show "wp (lift_result (fst (f t))) (\<lambda>r d'. content d' = content d \<and> Q r) (\<lambda>_ d'. content d' = content d) d'"
      using assms(2) [of t] by (auto simp: wp_def lift_result_def split: prod.splits sum.splits)
  qed
qed

lemma redb_write_wp:
  assumes "redb_ok db content view"
    and "\<And>t. view t = content d \<Longrightarrow> wp f (\<lambda>r t'. Q r (view t')) (\<lambda>e _. E e) t" "\<And>m. E (StoreInternal m)"
  shows "wp (redb_write db f) (\<lambda>r d'. Q r (content d')) (\<lambda>e d'. content d' = content d \<and> E e) d"
proof -
  have b: "wp (engine (rd_begin_write db)) (\<lambda>t d'. view t = content d \<and> content d' = content d)
      (\<lambda>e d'. content d' = content d \<and> E e) d"
    using assms(1,3) by (simp add: redb_ok_def wp_engine)
  have c: "wp (rd_commit db t) (\<lambda>_ d''. content d'' = view t) (\<lambda>_ d''. content d'' = content d') d'" for t d'
    using assms(1) by (simp add: redb_ok_def)
  show ?thesis
    unfolding redb_write_def
  proof (rule wp_seqI [OF b])
    fix t d' assume td: "view t = content d \<and> content d' = content d"
    obtain r t' where ft: "f t = (r, t')" by (cases "f t")
    show "wp (case f t of (Inl e, _) \<Rightarrow> throw e | (Inr a, t') \<Rightarrow> seq (engine (rd_commit db t')) (\<lambda>_. ret a))
        (\<lambda>r d'. Q r (content d')) (\<lambda>e d'. content d' = content d \<and> E e) d'"
    proof (cases r)
      case (Inl e)
      then show ?thesis using assms(2) [of t] td ft by (simp add: wp_def wp_throw throw_def)
    next
      case (Inr a)
      then have "Q a (view t')" using assms(2) [of t] td ft by (simp add: wp_def)
      then show ?thesis
        using td by (auto simp: ft Inr wp_seq wp_engine wp_ret assms(3) intro: wp_mono [OF c [of t' d']])
    qed
  qed
qed

lemma redb_txn_wp:
  assumes "redb_ok db content view" "view t = c"
  shows "wp (rd_open_table db tbl) (\<lambda>_ t'. view t' = c) (\<lambda>_ _. True) t"
    "wp (rd_get db tbl k) (\<lambda>r t'. view t' = c \<and> r = c tbl k) (\<lambda>_ _. True) t"
    "wp (rd_insert db tbl k v) (\<lambda>_ t'. view t' = c(tbl := (c tbl)(k \<mapsto> v))) (\<lambda>_ _. True) t"
    "wp (rd_remove db tbl k) (\<lambda>_ t'. view t' = c(tbl := (c tbl)(k := None))) (\<lambda>_ _. True) t"
    "wp (rd_range db tbl lo) (\<lambda>es t'. view t' = c \<and> walks (c tbl) lo es) (\<lambda>_ _. True) t"
  using assms unfolding redb_ok_def by blast+

lemma redb_capacity:
  assumes "redb_ok db content view"
  shows "finite (dom (content d tbl))" "card (dom (content d tbl)) < 2 ^ 63"
  using assms unfolding redb_ok_def by blast+

end
