(* ===== verification/Redb_Store.thy ===== *)
theory Redb_Store
  imports Redb_Engine
begin

section \<open>The redb store\<close>

text \<open>
  \<open>crates/nclav-store/src/redb_store.rs\<close>. Each operation runs in one transaction, except that a
  partition is written by reading its enclave in one and writing it in another. \<open>redb_store\<close> holds
  the engine and the codec, and the texts of identifiers and times that make up the keys. A stored
  value is bytes; \<open>redb_abs\<close> reads the whole database back as the abstract view.
\<close>

record ('d, 't) redb_store =
  rs_db :: "('d, 't) redb"
  rs_codec :: codec
  rs_uuid :: "uuid \<Rightarrow> string"
  rs_rfc3339 :: "datetime \<Rightarrow> string"

definition all_tables :: "redb_table list" where
  "all_tables = [ENCLAVES, EVENTS, META, TF_STATE, TF_LOCKS, IAC_RUNS, IAC_RUNS_BY_PART]"

text \<open>Opening: the parent directory is made, the database opened or created, every table created.\<close>

definition redb_open :: "('d, 't) redb \<Rightarrow> path \<Rightarrow> (file_system, store_error, 'd) act" where
  "redb_open db p =
     seq (if path_parent p = [] then ret () else map_err StoreInternal (fs_create_dir_all (path_parent p))) (\<lambda>_.
     seq (engine (rd_create db p)) (\<lambda>d.
     case redb_write db (foldM (\<lambda>tbl _. engine (rd_open_table db tbl)) all_tables ()) d of
       (Inl e, _) \<Rightarrow> throw e
     | (Inr _, d') \<Rightarrow> ret d'))"

subsection \<open>Enclaves and partitions\<close>

definition open_get :: "('d, 't) redb \<Rightarrow> redb_table \<Rightarrow> rkey \<Rightarrow> ('t, store_error, rval option) act" where
  "open_get db tbl k = seq (engine (rd_open_table db tbl)) (\<lambda>_. engine (rd_get db tbl k))"

definition open_insert :: "('d, 't) redb \<Rightarrow> redb_table \<Rightarrow> rkey \<Rightarrow> rval \<Rightarrow> ('t, store_error, unit) act" where
  "open_insert db tbl k v = seq (engine (rd_open_table db tbl)) (\<lambda>_. engine (rd_insert db tbl k v))"

definition open_remove :: "('d, 't) redb \<Rightarrow> redb_table \<Rightarrow> rkey \<Rightarrow> ('t, store_error, unit) act" where
  "open_remove db tbl k = seq (engine (rd_open_table db tbl)) (\<lambda>_. engine (rd_remove db tbl k))"

text \<open>\<open>match table.get(..)? { Some(g) => Ok(Some(from_slice(g.value())?)), None => Ok(None) }\<close>.\<close>

definition decode_opt :: "(bytes \<Rightarrow> (json_error, 'a) result) \<Rightarrow> rval option \<Rightarrow> ('t, store_error, 'a option) act" where
  "decode_opt dec g = (case g of
     Some v \<Rightarrow> seq (decoded (dec (val_bytes v))) (\<lambda>x. ret (Some x))
   | None \<Rightarrow> ret None)"

definition redb_get_enclave :: "('d, 't) redb_store \<Rightarrow> enclave_id \<Rightarrow> ('d, store_error, enclave_state option) act" where
  "redb_get_enclave rs i = redb_read (rs_db rs)
     (seq (open_get (rs_db rs) ENCLAVES (KStr (eid_str i))) (decode_opt (cd_enclave_of (rs_codec rs))))"

text \<open>The loop over the entries of a table: what decodes is pushed where it is wanted.\<close>

definition collect_entries ::
  "(bytes \<Rightarrow> (json_error, 'a) result) \<Rightarrow> ('a \<Rightarrow> bool) \<Rightarrow> (string, rkey \<times> rval) result list \<Rightarrow> ('t, store_error, 'a list) act" where
  "collect_entries dec wanted es = foldM (\<lambda>e acc.
     seq (engine (lift_result e)) (\<lambda>(_, v).
     seq (decoded (dec (val_bytes v))) (\<lambda>x.
     ret (if wanted x then acc @ [x] else acc)))) es []"

definition redb_list_enclaves :: "('d, 't) redb_store \<Rightarrow> ('d, store_error, enclave_state list) act" where
  "redb_list_enclaves rs = redb_read (rs_db rs)
     (seq (engine (rd_open_table (rs_db rs) ENCLAVES)) (\<lambda>_.
      seq (engine (rd_range (rs_db rs) ENCLAVES None))
        (collect_entries (cd_enclave_of (rs_codec rs)) (\<lambda>_. True))))"

definition redb_upsert_enclave :: "('d, 't) redb_store \<Rightarrow> enclave_state \<Rightarrow> ('d, store_error, unit) act" where
  "redb_upsert_enclave rs st = seq (decoded (cd_enclave (rs_codec rs) st)) (\<lambda>b.
     redb_write (rs_db rs) (open_insert (rs_db rs) ENCLAVES (KStr (eid_str (enc_id (es_desired st)))) (VBytes b)))"

definition redb_delete_enclave :: "('d, 't) redb_store \<Rightarrow> enclave_id \<Rightarrow> ('d, store_error, unit) act" where
  "redb_delete_enclave rs i = redb_write (rs_db rs) (open_remove (rs_db rs) ENCLAVES (KStr (eid_str i)))"

definition redb_upsert_partition ::
  "('d, 't) redb_store \<Rightarrow> enclave_id \<Rightarrow> partition_state \<Rightarrow> ('d, store_error, unit) act" where
  "redb_upsert_partition rs i ps = seq (redb_get_enclave rs i) (\<lambda>e. case e of
     None \<Rightarrow> throw (EnclaveNotFound (eid_str i))
   | Some st \<Rightarrow> redb_upsert_enclave rs
       (st\<lparr>es_partitions := hm_insert (part_id (ps_desired ps)) ps (es_partitions st)\<rparr>))"

definition redb_delete_partition ::
  "('d, 't) redb_store \<Rightarrow> enclave_id \<Rightarrow> partition_id \<Rightarrow> ('d, store_error, unit) act" where
  "redb_delete_partition rs i p = seq (redb_get_enclave rs i) (\<lambda>e. case e of
     None \<Rightarrow> ret ()
   | Some st \<Rightarrow> redb_upsert_enclave rs (st\<lparr>es_partitions := hm_remove p (es_partitions st)\<rparr>))"

subsection \<open>Events\<close>

definition redb_append_event :: "('d, 't) redb_store \<Rightarrow> audit_event \<Rightarrow> ('d, store_error, unit) act" where
  "redb_append_event rs ev = seq (decoded (cd_event (rs_codec rs) ev)) (\<lambda>b.
     redb_write (rs_db rs)
       (seq (open_get (rs_db rs) META (KStr ''event_seq'')) (\<lambda>g.
        let new_seq = (case g of None \<Rightarrow> 0 | Some v \<Rightarrow> val_num v) + 1 in
        seq (engine (rd_insert (rs_db rs) META (KStr ''event_seq'') (VNum new_seq))) (\<lambda>_.
        open_insert (rs_db rs) EVENTS (KNum new_seq) (VBytes b)))))"

definition redb_list_events ::
  "('d, 't) redb_store \<Rightarrow> enclave_id option \<Rightarrow> 32 word \<Rightarrow> ('d, store_error, audit_event list) act" where
  "redb_list_events rs eid limit = redb_read (rs_db rs)
     (seq (engine (rd_open_table (rs_db rs) EVENTS)) (\<lambda>_.
      seq (engine (rd_range (rs_db rs) EVENTS None)) (\<lambda>es.
      seq (collect_entries (cd_event_of (rs_codec rs)) (\<lambda>ev. case eid of
            Some i \<Rightarrow> (case event_enclave ev of None \<Rightarrow> False | Some j \<Rightarrow> j = i) | None \<Rightarrow> True) es) (\<lambda>all.
      ret (drop (length all - unat limit) all)))))"

subsection \<open>Terraform state and locks\<close>

definition redb_get_tf_state :: "('d, 't) redb_store \<Rightarrow> string \<Rightarrow> ('d, store_error, bytes option) act" where
  "redb_get_tf_state rs k = redb_read (rs_db rs)
     (seq (open_get (rs_db rs) TF_STATE (KStr k)) (\<lambda>g. ret (map_option val_bytes g)))"

definition redb_put_tf_state :: "('d, 't) redb_store \<Rightarrow> string \<Rightarrow> bytes \<Rightarrow> ('d, store_error, unit) act" where
  "redb_put_tf_state rs k b = redb_write (rs_db rs) (open_insert (rs_db rs) TF_STATE (KStr k) (VBytes b))"

definition redb_delete_tf_state :: "('d, 't) redb_store \<Rightarrow> string \<Rightarrow> ('d, store_error, unit) act" where
  "redb_delete_tf_state rs k = redb_write (rs_db rs)
     (seq (open_remove (rs_db rs) TF_STATE (KStr k)) (\<lambda>_. open_remove (rs_db rs) TF_LOCKS (KStr k)))"

definition redb_lock_tf_state :: "('d, 't) redb_store \<Rightarrow> string \<Rightarrow> json \<Rightarrow> ('d, store_error, unit) act" where
  "redb_lock_tf_state rs k info = redb_write (rs_db rs)
     (seq (open_get (rs_db rs) TF_LOCKS (KStr k)) (\<lambda>g. case g of
        Some v \<Rightarrow> seq (decoded (cd_value_of (rs_codec rs) (val_bytes v))) (\<lambda>existing. throw (LockConflict existing))
      | None \<Rightarrow> seq (decoded (cd_value (rs_codec rs) info)) (\<lambda>b.
          engine (rd_insert (rs_db rs) TF_LOCKS (KStr k) (VBytes b)))))"

definition redb_unlock_tf_state :: "('d, 't) redb_store \<Rightarrow> string \<Rightarrow> string \<Rightarrow> ('d, store_error, unit) act" where
  "redb_unlock_tf_state rs k lock_id = redb_write (rs_db rs)
     (seq (open_get (rs_db rs) TF_LOCKS (KStr k)) (\<lambda>g. case g of
        None \<Rightarrow> ret ()
      | Some v \<Rightarrow> seq (decoded (cd_value_of (rs_codec rs) (val_bytes v))) (\<lambda>existing.
          if lock_id = [] \<or> (case json_as_str (json_index existing ''ID'') of None \<Rightarrow> [] | Some i \<Rightarrow> i) = lock_id
          then engine (rd_remove (rs_db rs) TF_LOCKS (KStr k)) else ret ())))"

subsection \<open>The log of IaC runs\<close>

definition index_key :: "('d, 't) redb_store \<Rightarrow> iac_run \<Rightarrow> string" where
  "index_key rs r = eid_str (run_enclave_id r) @ ''/'' @ pid_str (run_partition_id r) @ ''/'' @
     rs_rfc3339 rs (run_started_at r) @ ''/'' @ rs_uuid rs (run_id r)"

definition redb_upsert_iac_run :: "('d, 't) redb_store \<Rightarrow> iac_run \<Rightarrow> ('d, store_error, unit) act" where
  "redb_upsert_iac_run rs r = seq (decoded (cd_run (rs_codec rs) r)) (\<lambda>b.
     redb_write (rs_db rs)
       (seq (open_insert (rs_db rs) IAC_RUNS (KStr (rs_uuid rs (run_id r))) (VBytes b)) (\<lambda>_.
        open_insert (rs_db rs) IAC_RUNS_BY_PART (KStr (index_key rs r)) (VStr (rs_uuid rs (run_id r))))))"

definition run_prefix :: "enclave_id \<Rightarrow> partition_id \<Rightarrow> string" where
  "run_prefix i p = eid_str i @ ''/'' @ pid_str p @ ''/''"

text \<open>The identifiers in the index under a prefix, an entry that cannot be read being left out.\<close>

definition indexed_ids :: "string \<Rightarrow> (string, rkey \<times> rval) result list \<Rightarrow> string list" where
  "indexed_ids prefix es = List.map_filter (\<lambda>e. case e of
     Inr (KStr k, v) \<Rightarrow> if starts_with prefix k then Some (val_str v) else None
   | _ \<Rightarrow> None) es"

definition redb_list_iac_runs ::
  "('d, 't) redb_store \<Rightarrow> enclave_id \<Rightarrow> partition_id \<Rightarrow> ('d, store_error, iac_run list) act" where
  "redb_list_iac_runs rs i p = redb_read (rs_db rs)
     (seq (engine (rd_open_table (rs_db rs) IAC_RUNS_BY_PART)) (\<lambda>_.
      seq (engine (rd_open_table (rs_db rs) IAC_RUNS)) (\<lambda>_.
      seq (engine (rd_range (rs_db rs) IAC_RUNS_BY_PART (Some (KStr (run_prefix i p))))) (\<lambda>es.
      foldM (\<lambda>u acc.
        seq (engine (rd_get (rs_db rs) IAC_RUNS (KStr u))) (\<lambda>g. case g of
          None \<Rightarrow> ret acc
        | Some v \<Rightarrow> seq (decoded (cd_run_of (rs_codec rs) (val_bytes v))) (\<lambda>r. ret (acc @ [r]))))
        (take 100 (rev (indexed_ids (run_prefix i p) es))) []))))"

definition redb_get_iac_run :: "('d, 't) redb_store \<Rightarrow> uuid \<Rightarrow> ('d, store_error, iac_run option) act" where
  "redb_get_iac_run rs u = redb_read (rs_db rs)
     (seq (open_get (rs_db rs) IAC_RUNS (KStr (rs_uuid rs u))) (decode_opt (cd_run_of (rs_codec rs))))"

definition redb_ops :: "('d, 't) redb_store \<Rightarrow> 'd store_ops" where
  "redb_ops rs = \<lparr>
     so_get_enclave = redb_get_enclave rs, so_list_enclaves = redb_list_enclaves rs,
     so_upsert_enclave = redb_upsert_enclave rs, so_delete_enclave = redb_delete_enclave rs,
     so_upsert_partition = redb_upsert_partition rs, so_delete_partition = redb_delete_partition rs,
     so_append_event = redb_append_event rs, so_list_events = redb_list_events rs,
     so_get_tf_state = redb_get_tf_state rs, so_put_tf_state = redb_put_tf_state rs,
     so_delete_tf_state = redb_delete_tf_state rs, so_lock_tf_state = redb_lock_tf_state rs,
     so_unlock_tf_state = redb_unlock_tf_state rs, so_upsert_iac_run = redb_upsert_iac_run rs,
     so_list_iac_runs = redb_list_iac_runs rs, so_get_iac_run = redb_get_iac_run rs\<rparr>"

subsection \<open>The abstract view of a database\<close>

definition stored :: "(bytes \<Rightarrow> (json_error, 'a) result) \<Rightarrow> rval option \<Rightarrow> 'a option" where
  "stored dec g = (case g of
     Some (VBytes b) \<Rightarrow> (case dec b of Inr x \<Rightarrow> Some x | Inl _ \<Rightarrow> None) | _ \<Rightarrow> None)"

definition event_seq :: "redb_content \<Rightarrow> 64 word" where
  "event_seq c = (case c META (KStr ''event_seq'') of None \<Rightarrow> 0 | Some v \<Rightarrow> val_num v)"

definition redb_view :: "('d, 't) redb_store \<Rightarrow> redb_content \<Rightarrow> store_view" where
  "redb_view rs c = \<lparr>
     sv_enclaves = (\<lambda>i. stored (cd_enclave_of (rs_codec rs)) (c ENCLAVES (KStr (eid_str i)))),
     sv_events = map (\<lambda>n. the (stored (cd_event_of (rs_codec rs)) (c EVENTS (KNum (of_nat n)))))
       [1 ..< Suc (unat (event_seq c))],
     sv_tf_state = (\<lambda>k. map_option val_bytes (c TF_STATE (KStr k))),
     sv_tf_locks = (\<lambda>k. stored (cd_value_of (rs_codec rs)) (c TF_LOCKS (KStr k))),
     sv_runs = (\<lambda>u. stored (cd_run_of (rs_codec rs)) (c IAC_RUNS (KStr (rs_uuid rs u))))\<rparr>"

text \<open>
  What every database written by these operations satisfies: values decode, an enclave and a run
  are stored under their own ids, the events have the numbers from 1 to the sequence number.
\<close>

definition redb_wf :: "('d, 't) redb_store \<Rightarrow> redb_content \<Rightarrow> bool" where
  "redb_wf rs c \<longleftrightarrow>
     (\<forall>k v. c ENCLAVES k = Some v \<longrightarrow> (\<exists>st. k = KStr (eid_str (es_id st)) \<and> stored (cd_enclave_of (rs_codec rs)) (Some v) = Some st)) \<and>
     (\<forall>k. c EVENTS k \<noteq> None \<longleftrightarrow> (\<exists>n. 1 \<le> n \<and> n \<le> unat (event_seq c) \<and> k = KNum (of_nat n))) \<and>
     (\<forall>k v. c EVENTS k = Some v \<longrightarrow> stored (cd_event_of (rs_codec rs)) (Some v) \<noteq> None) \<and>
     (\<forall>k v. c TF_LOCKS k = Some v \<longrightarrow> stored (cd_value_of (rs_codec rs)) (Some v) \<noteq> None) \<and>
     (\<forall>k v. c IAC_RUNS k = Some v \<longrightarrow> (\<exists>r. k = KStr (rs_uuid rs (run_id r)) \<and> stored (cd_run_of (rs_codec rs)) (Some v) = Some r))"

definition redb_abs :: "('d, 't) redb_store \<Rightarrow> ('d \<Rightarrow> redb_content) \<Rightarrow> 'd \<Rightarrow> store_view" where
  "redb_abs rs content d = redb_view rs (content d)"

definition redb_inv :: "('d, 't) redb_store \<Rightarrow> ('d \<Rightarrow> redb_content) \<Rightarrow> 'd \<Rightarrow> bool" where
  "redb_inv rs content d \<longleftrightarrow> redb_wf rs (content d)"

text \<open>What is assumed of the crates: the engine, the codec, and different texts of different ids.\<close>

definition redb_env_ok ::
  "('d, 't) redb_store \<Rightarrow> ('d \<Rightarrow> redb_content) \<Rightarrow> ('t \<Rightarrow> redb_content) \<Rightarrow> bool" where
  "redb_env_ok rs content view \<longleftrightarrow> redb_ok (rs_db rs) content view \<and> codec_ok (rs_codec rs) \<and> inj (rs_uuid rs)"

end
