(* ===== verification/Redb_Refine.thy ===== *)
theory Redb_Refine
  imports Redb_Store
begin

section \<open>The redb store keeps the promises of a store\<close>

text \<open>
  Under the documented behaviour of the engine and of the codec, the operations of the redb store
  act on \<open>redb_abs\<close> as the interface promises, an operation that fails changes nothing, and the
  numbers of the events stay dense, so that walking the table gives them in the order of writing.
\<close>

subsection \<open>Steps inside a transaction\<close>

lemma env_okD:
  assumes "redb_env_ok rs content view"
  shows "redb_ok (rs_db rs) content view" "inj (rs_uuid rs)"
    "decodes (cd_enclave (rs_codec rs)) (cd_enclave_of (rs_codec rs))"
    "decodes (cd_event (rs_codec rs)) (cd_event_of (rs_codec rs))"
    "decodes (cd_run (rs_codec rs)) (cd_run_of (rs_codec rs))"
    "decodes (cd_value (rs_codec rs)) (cd_value_of (rs_codec rs))"
  using assms by (simp_all add: redb_env_ok_def codec_ok_def)

lemma stored_encoded: "decodes enc dec \<Longrightarrow> enc x = Inr b \<Longrightarrow> stored dec (Some (VBytes b)) = Some x"
  by (simp add: decodes_def stored_def)

lemma stored_None [simp]: "stored dec None = None"
  by (simp add: stored_def)

lemma stored_SomeD: "stored dec (Some v) = Some x \<Longrightarrow> dec (val_bytes v) = Inr x"
  by (auto simp: stored_def split: rval.splits sum.splits)

lemma open_steps:
  assumes "redb_ok db content view" "view t = c"
  shows open_get_wp: "wp (open_get db tbl k) (\<lambda>r t'. view t' = c \<and> r = c tbl k) (\<lambda>_ _. True) t"
    and open_insert_wp: "wp (open_insert db tbl k v) (\<lambda>_ t'. view t' = c(tbl := (c tbl)(k \<mapsto> v))) (\<lambda>_ _. True) t"
    and open_remove_wp: "wp (open_remove db tbl k) (\<lambda>_ t'. view t' = c(tbl := (c tbl)(k := None))) (\<lambda>_ _. True) t"
  unfolding open_get_def open_insert_def open_remove_def wp_engine wp_seq
  by (rule wp_mono [OF redb_txn_wp(1) [OF assms]], rule redb_txn_wp [OF assms(1)], assumption, simp)+

lemma decode_opt_wp:
  "(\<And>v. g = Some v \<Longrightarrow> stored dec (Some v) \<noteq> None) \<Longrightarrow> wp (decode_opt dec g) (\<lambda>r _. r = stored dec g) (\<lambda>_ _. True) t"
proof (cases g)
  case (Some v)
  assume "\<And>v. g = Some v \<Longrightarrow> stored dec (Some v) \<noteq> None"
  with Some obtain x where "stored dec (Some v) = Some x" by blast
  with Some stored_SomeD [OF this] show ?thesis by (simp add: decode_opt_def wp_simps)
qed (simp add: decode_opt_def wp_simps)

lemma collect_wp:
  assumes "list_all2 (\<lambda>e kv. case e of Inl _ \<Rightarrow> True | Inr x \<Rightarrow> x = kv) es kvs"
    and "\<And>k v. (k, v) \<in> set kvs \<Longrightarrow> stored dec (Some v) \<noteq> None"
  shows "wp (collect_entries dec wanted es) (\<lambda>r _. r = filter wanted (map (\<lambda>kv. the (stored dec (Some (snd kv)))) kvs)) (\<lambda>_ _. True) t"
proof -
  let ?f = "\<lambda>e acc. seq (engine (lift_result e)) (\<lambda>(_, v). seq (decoded (dec (val_bytes v))) (\<lambda>x.
     ret (if wanted x then acc @ [x] else acc)))"
  have "wp (foldM ?f es acc) (\<lambda>r _. r = acc @ filter wanted (map (\<lambda>kv. the (stored dec (Some (snd kv)))) kvs)) (\<lambda>_ _. True) t"
    for acc
    using assms
  proof (induction kvs arbitrary: es acc rule: list.induct)
    case Nil
    from Nil.prems(1) have "es = []" by simp
    then show ?case by (simp add: wp_ret)
  next
    case (Cons kv kvs)
    from Cons.prems(1) obtain e es' where es: "es = e # es'"
        "case e of Inl _ \<Rightarrow> True | Inr x \<Rightarrow> x = kv" "list_all2 (\<lambda>e kv. case e of Inl _ \<Rightarrow> True | Inr x \<Rightarrow> x = kv) es' kvs"
      by (auto simp: list_all2_Cons2)
    obtain k v where kv: "kv = (k, v)" by (cases kv)
    obtain x where x: "stored dec (Some v) = Some x" using Cons.prems(2) [of k v] kv by auto
    have IH: "wp (foldM ?f es' acc) (\<lambda>r _. r = acc @ filter wanted (map (\<lambda>kv. the (stored dec (Some (snd kv)))) kvs)) (\<lambda>_ _. True) t" for acc
      by (rule Cons.IH [OF es(3)]) (use Cons.prems(2) in auto)
    show ?case
    proof (cases e)
      case (Inl m)
      then show ?thesis by (simp add: es(1) wp_seq wp_engine wp_lift_result)
    next
      case (Inr y)
      then have "y = (k, v)" using es(2) kv by simp
      then show ?thesis
        using IH [of "if wanted x then acc @ [x] else acc"] stored_SomeD [OF x]
        by (simp add: Inr es(1) wp_seq wp_engine wp_lift_result wp_decoded wp_ret kv x split: if_splits)
    qed
  qed
  from this [of "[]"] show ?thesis by (simp add: collect_entries_def)
qed

subsection \<open>Enclaves\<close>

lemma wf_enclave:
  "redb_wf rs c \<Longrightarrow> c ENCLAVES k = Some v \<Longrightarrow>
     \<exists>st. k = KStr (eid_str (es_id st)) \<and> stored (cd_enclave_of (rs_codec rs)) (Some v) = Some st"
  by (simp add: redb_wf_def)

lemma get_enclave_wp:
  assumes "redb_env_ok rs content view" "redb_wf rs (content d)"
  shows "wp (redb_get_enclave rs i) (\<lambda>r d'. content d' = content d \<and> r = sv_enclaves (redb_view rs (content d)) i)
    (\<lambda>_ d'. content d' = content d) d"
  unfolding redb_get_enclave_def
proof (rule redb_read_wp [OF env_okD(1) [OF assms(1)]])
  fix t assume t: "view t = content d"
  show "wp (seq (open_get (rs_db rs) ENCLAVES (KStr (eid_str i))) (decode_opt (cd_enclave_of (rs_codec rs))))
      (\<lambda>r _. r = sv_enclaves (redb_view rs (content d)) i) (\<lambda>_ _. True) t"
  proof (rule wp_seqI [OF open_get_wp [OF env_okD(1) [OF assms(1)] t]])
    fix g t' assume "view t' = content d \<and> g = content d ENCLAVES (KStr (eid_str i))"
    then have "wp (decode_opt (cd_enclave_of (rs_codec rs)) g) (\<lambda>r _. r = stored (cd_enclave_of (rs_codec rs)) g) (\<lambda>_ _. True) t'"
      by (intro decode_opt_wp) (metis option.distinct(1) wf_enclave [OF assms(2)])
    with \<open>_ \<and> _\<close> show "wp (decode_opt (cd_enclave_of (rs_codec rs)) g) (\<lambda>r _. r = sv_enclaves (redb_view rs (content d)) i) (\<lambda>_ _. True) t'"
      by (simp add: redb_view_def)
  qed
qed

lemma view_enclaves_ran:
  assumes "redb_wf rs c"
  shows "sv_enclaves (redb_view rs c) i = Some st \<longleftrightarrow>
    es_id st = i \<and> (\<exists>v. c ENCLAVES (KStr (eid_str i)) = Some v \<and> stored (cd_enclave_of (rs_codec rs)) (Some v) = Some st)"
  using wf_enclave [OF assms, of "KStr (eid_str i)"]
  by (cases "c ENCLAVES (KStr (eid_str i))") (auto simp: redb_view_def eid_eq_iff)

lemma list_enclaves_wp:
  assumes "redb_env_ok rs content view" "redb_wf rs (content d)"
  shows "wp (redb_list_enclaves rs) (\<lambda>r d'. content d' = content d \<and> distinct (map es_id r) \<and>
      set r = ran (sv_enclaves (redb_view rs (content d)))) (\<lambda>_ d'. content d' = content d) d"
  unfolding redb_list_enclaves_def
proof (rule redb_read_wp [OF env_okD(1) [OF assms(1)]])
  note ok = env_okD(1) [OF assms(1)]
  let ?dec = "cd_enclave_of (rs_codec rs)"
  fix t assume t: "view t = content d"
  have enc: "wp (collect_entries ?dec (\<lambda>_. True) es)
      (\<lambda>r _. distinct (map es_id r) \<and> set r = ran (sv_enclaves (redb_view rs (content d)))) (\<lambda>_ _. True) t''"
    if "walks (content d ENCLAVES) None es" for es t''
  proof -
    from that obtain kvs where kvs: "sorted_wrt (<) (map fst kvs)" "map_of kvs = content d ENCLAVES"
        "list_all2 (\<lambda>e kv. case e of Inl _ \<Rightarrow> True | Inr x \<Rightarrow> x = kv) es kvs"
      by (auto simp: walks_def)
    have d: "distinct (map fst kvs)" using kvs(1) by (simp add: strict_sorted_iff)
    have mem: "(k, v) \<in> set kvs \<longleftrightarrow> content d ENCLAVES k = Some v" for k v
      using d by (simp add: kvs(2) [symmetric])
    have dec: "\<exists>st. fst kv = KStr (eid_str (es_id st)) \<and> stored ?dec (Some (snd kv)) = Some st" if "kv \<in> set kvs" for kv
      using wf_enclave [OF assms(2), of "fst kv" "snd kv"] that mem [of "fst kv" "snd kv"] by simp
    let ?r = "map (\<lambda>kv. the (stored ?dec (Some (snd kv)))) kvs"
    have "map (\<lambda>st. KStr (eid_str (es_id st))) ?r = map fst kvs"
      unfolding map_map by (rule map_cong [OF refl]) (use dec in force)
    then have "distinct (map (\<lambda>st. KStr (eid_str (es_id st))) ?r)" using d by (simp only:)
    then have dist: "distinct (map es_id ?r)"
      by (auto simp: distinct_map inj_on_def)
    have "st \<in> set ?r \<longleftrightarrow> st \<in> ran (sv_enclaves (redb_view rs (content d)))" for st
    proof
      assume "st \<in> set ?r"
      then obtain kv where kv: "kv \<in> set kvs" "st = the (stored ?dec (Some (snd kv)))" by auto
      with dec [OF kv(1)] have "fst kv = KStr (eid_str (es_id st))" "stored ?dec (Some (snd kv)) = Some st" by auto
      moreover from kv(1) have "content d ENCLAVES (fst kv) = Some (snd kv)" using mem [of "fst kv" "snd kv"] by simp
      ultimately have "sv_enclaves (redb_view rs (content d)) (es_id st) = Some st"
        by (auto simp: view_enclaves_ran [OF assms(2)])
      then show "st \<in> ran (sv_enclaves (redb_view rs (content d)))" by (rule ranI)
    next
      assume "st \<in> ran (sv_enclaves (redb_view rs (content d)))"
      then obtain i v where "content d ENCLAVES (KStr (eid_str i)) = Some v" "stored ?dec (Some v) = Some st"
        by (auto simp: ran_def view_enclaves_ran [OF assms(2)])
      then have "(KStr (eid_str i), v) \<in> set kvs" "st = the (stored ?dec (Some v))" using mem by auto
      then show "st \<in> set ?r" by force
    qed
    then have "set ?r = ran (sv_enclaves (redb_view rs (content d)))" by blast
    moreover have "wp (collect_entries ?dec (\<lambda>_. True) es) (\<lambda>r _. r = filter (\<lambda>_. True) ?r) (\<lambda>_ _. True) t''"
      by (rule collect_wp [OF kvs(3)]) (use dec in fastforce)
    ultimately show ?thesis using dist by (auto elim: wp_mono)
  qed
  show "wp (seq (engine (rd_open_table (rs_db rs) ENCLAVES)) (\<lambda>_.
      seq (engine (rd_range (rs_db rs) ENCLAVES None)) (collect_entries ?dec (\<lambda>_. True))))
      (\<lambda>r _. distinct (map es_id r) \<and> set r = ran (sv_enclaves (redb_view rs (content d)))) (\<lambda>_ _. True) t"
    unfolding wp_seq wp_engine
    by (rule wp_mono [OF redb_txn_wp(1) [OF ok t]], rule wp_mono [OF redb_txn_wp(5) [OF ok]], assumption)
       (simp_all add: enc)
qed

lemma event_seq_upd [simp]: "tbl \<noteq> META \<Longrightarrow> event_seq (c(tbl := m)) = event_seq c"
  by (simp add: event_seq_def)

lemma put_enclave:
  assumes "redb_wf rs c" "stored (cd_enclave_of (rs_codec rs)) (Some v) = Some st"
  shows "redb_wf rs (c(ENCLAVES := (c ENCLAVES)(KStr (eid_str (es_id st)) \<mapsto> v)))"
    "redb_view rs (c(ENCLAVES := (c ENCLAVES)(KStr (eid_str (es_id st)) \<mapsto> v))) =
       (redb_view rs c)\<lparr>sv_enclaves := (sv_enclaves (redb_view rs c))(es_id st \<mapsto> st)\<rparr>"
proof -
  show "redb_wf rs (c(ENCLAVES := (c ENCLAVES)(KStr (eid_str (es_id st)) \<mapsto> v)))"
    unfolding redb_wf_def
    by (intro conjI) (use assms in \<open>auto simp: redb_wf_def\<close>)
  show "redb_view rs (c(ENCLAVES := (c ENCLAVES)(KStr (eid_str (es_id st)) \<mapsto> v))) =
       (redb_view rs c)\<lparr>sv_enclaves := (sv_enclaves (redb_view rs c))(es_id st \<mapsto> st)\<rparr>"
    using assms(2) by (auto simp: redb_view_def fun_eq_iff eid_eq_iff)
qed

lemma upsert_enclave_wp:
  assumes "redb_env_ok rs content view" "redb_wf rs (content d)"
  shows "wp (redb_upsert_enclave rs st)
    (\<lambda>_ d'. redb_wf rs (content d') \<and> redb_view rs (content d') =
       (redb_view rs (content d))\<lparr>sv_enclaves := (sv_enclaves (redb_view rs (content d)))(es_id st \<mapsto> st)\<rparr>)
    (\<lambda>_ d'. content d' = content d) d"
proof (cases "cd_enclave (rs_codec rs) st")
  case (Inl e)
  then show ?thesis by (simp add: redb_upsert_enclave_def wp_seq wp_decoded)
next
  case (Inr b)
  note ok = env_okD(1) [OF assms(1)]
  have st: "stored (cd_enclave_of (rs_codec rs)) (Some (VBytes b)) = Some st"
    by (rule stored_encoded [OF env_okD(3) [OF assms(1)] Inr])
  have "wp (redb_write (rs_db rs) (open_insert (rs_db rs) ENCLAVES (KStr (eid_str (es_id st))) (VBytes b)))
      (\<lambda>_ d'. content d' = (content d)(ENCLAVES := (content d ENCLAVES)(KStr (eid_str (es_id st)) \<mapsto> VBytes b)))
      (\<lambda>_ d'. content d' = content d \<and> True) d"
    by (rule redb_write_wp [OF ok open_insert_wp [OF ok]]) simp_all
  then show ?thesis
    using put_enclave [OF assms(2) st] by (auto simp: redb_upsert_enclave_def wp_seq wp_decoded Inr elim!: wp_mono)
qed

lemma delete_enclave_wp:
  assumes "redb_env_ok rs content view" "redb_wf rs (content d)"
  shows "wp (redb_delete_enclave rs i)
    (\<lambda>_ d'. redb_wf rs (content d') \<and> redb_view rs (content d') =
       (redb_view rs (content d))\<lparr>sv_enclaves := (sv_enclaves (redb_view rs (content d)))(i := None)\<rparr>)
    (\<lambda>_ d'. content d' = content d) d"
proof -
  note ok = env_okD(1) [OF assms(1)]
  let ?c = "(content d)(ENCLAVES := (content d ENCLAVES)(KStr (eid_str i) := None))"
  have "redb_wf rs ?c"
    unfolding redb_wf_def by (intro conjI) (use assms(2) in \<open>auto simp: redb_wf_def\<close>)
  moreover have "redb_view rs ?c = (redb_view rs (content d))\<lparr>sv_enclaves := (sv_enclaves (redb_view rs (content d)))(i := None)\<rparr>"
    by (auto simp: redb_view_def fun_eq_iff eid_eq_iff)
  moreover have "wp (redb_delete_enclave rs i) (\<lambda>_ d'. content d' = ?c) (\<lambda>_ d'. content d' = content d \<and> True) d"
    unfolding redb_delete_enclave_def by (rule redb_write_wp [OF ok open_remove_wp [OF ok]]) simp_all
  ultimately show ?thesis by (auto elim!: wp_mono)
qed

text \<open>A partition is written by two transactions: what the first one reads is what is updated.\<close>

lemma upsert_partition_wp:
  assumes "redb_env_ok rs content view" "redb_wf rs (content d)"
  shows "wp (redb_upsert_partition rs i ps)
    (\<lambda>_ d'. redb_wf rs (content d') \<and> (\<exists>st. sv_enclaves (redb_view rs (content d)) i = Some st \<and>
       redb_view rs (content d') = (redb_view rs (content d))\<lparr>sv_enclaves := (sv_enclaves (redb_view rs (content d)))
         (i \<mapsto> st\<lparr>es_partitions := hm_insert (part_id (ps_desired ps)) ps (es_partitions st)\<rparr>)\<rparr>))
    (\<lambda>_ d'. content d' = content d) d"
  unfolding redb_upsert_partition_def
proof (rule wp_seqI [OF get_enclave_wp [OF assms]])
  fix e d' assume e: "content d' = content d \<and> e = sv_enclaves (redb_view rs (content d)) i"
  show "wp (case e of None \<Rightarrow> throw (EnclaveNotFound (eid_str i))
      | Some st \<Rightarrow> redb_upsert_enclave rs (st\<lparr>es_partitions := hm_insert (part_id (ps_desired ps)) ps (es_partitions st)\<rparr>))
    (\<lambda>_ d'. redb_wf rs (content d') \<and> (\<exists>st. sv_enclaves (redb_view rs (content d)) i = Some st \<and>
       redb_view rs (content d') = (redb_view rs (content d))\<lparr>sv_enclaves := (sv_enclaves (redb_view rs (content d)))
         (i \<mapsto> st\<lparr>es_partitions := hm_insert (part_id (ps_desired ps)) ps (es_partitions st)\<rparr>)\<rparr>))
    (\<lambda>_ d'. content d' = content d) d'"
  proof (cases e)
    case (Some st)
    then have sv: "sv_enclaves (redb_view rs (content d)) i = Some st" "content d' = content d" using e by auto
    then have "es_id st = i" using view_enclaves_ran [OF assms(2)] by simp
    moreover have "redb_wf rs (content d')" using sv assms(2) by simp
    ultimately show ?thesis
      unfolding Some option.case sv(1) by (auto simp: sv(2) intro: wp_mono [OF upsert_enclave_wp [OF assms(1)]])
  qed (use e in \<open>simp add: wp_throw\<close>)
qed

lemma delete_partition_wp:
  assumes "redb_env_ok rs content view" "redb_wf rs (content d)"
  shows "wp (redb_delete_partition rs i p)
    (\<lambda>_ d'. redb_wf rs (content d') \<and> redb_view rs (content d') = (case sv_enclaves (redb_view rs (content d)) i of
       None \<Rightarrow> redb_view rs (content d)
     | Some st \<Rightarrow> (redb_view rs (content d))\<lparr>sv_enclaves := (sv_enclaves (redb_view rs (content d)))
         (i \<mapsto> st\<lparr>es_partitions := hm_remove p (es_partitions st)\<rparr>)\<rparr>))
    (\<lambda>_ d'. content d' = content d) d"
  unfolding redb_delete_partition_def
proof (rule wp_seqI [OF get_enclave_wp [OF assms]])
  fix e d' assume e: "content d' = content d \<and> e = sv_enclaves (redb_view rs (content d)) i"
  show "wp (case e of None \<Rightarrow> ret ()
      | Some st \<Rightarrow> redb_upsert_enclave rs (st\<lparr>es_partitions := hm_remove p (es_partitions st)\<rparr>))
    (\<lambda>_ d'. redb_wf rs (content d') \<and> redb_view rs (content d') = (case sv_enclaves (redb_view rs (content d)) i of
       None \<Rightarrow> redb_view rs (content d)
     | Some st \<Rightarrow> (redb_view rs (content d))\<lparr>sv_enclaves := (sv_enclaves (redb_view rs (content d)))
         (i \<mapsto> st\<lparr>es_partitions := hm_remove p (es_partitions st)\<rparr>)\<rparr>))
    (\<lambda>_ d'. content d' = content d) d'"
  proof (cases e)
    case None
    then show ?thesis using e assms(2) by (simp add: wp_ret)
  next
    case (Some st)
    then have sv: "sv_enclaves (redb_view rs (content d)) i = Some st" "content d' = content d" using e by auto
    then have "es_id st = i" using view_enclaves_ran [OF assms(2)] by simp
    moreover have "redb_wf rs (content d')" using sv assms(2) by simp
    ultimately show ?thesis
      unfolding Some option.case sv(1) by (auto simp: sv(2) intro: wp_mono [OF upsert_enclave_wp [OF assms(1)]])
  qed
qed

subsection \<open>Events\<close>

abbreviation event_key :: "nat \<Rightarrow> rkey" where
  "event_key n \<equiv> KNum (of_nat n)"

lemma event_key_less: "m < n \<Longrightarrow> n < 2 ^ 64 \<Longrightarrow> event_key m < event_key n"
  by (simp add: less_rkey_def word_less_nat_alt unat_of_nat)

lemma event_key_inj: "m < 2 ^ 64 \<Longrightarrow> n < 2 ^ 64 \<Longrightarrow> event_key m = event_key n \<longleftrightarrow> m = n"
  by (simp add: word_unat_eq_iff unat_of_nat)

lemma event_keys_sorted: "N < 2 ^ 64 \<Longrightarrow> sorted_wrt (<) (map event_key [1 ..< Suc N])"
  unfolding sorted_wrt_map
  by (rule sorted_wrt_mono_rel [OF _ sorted_wrt_upt]) (auto intro: event_key_less)

lemma seq_bound: "unat (event_seq c) < 2 ^ 64"
  by (rule order_less_le_trans [OF unsigned_less]) simp

lemma event_dom:
  assumes "redb_wf rs c"
  shows "dom (c EVENTS) = event_key ` {1 .. unat (event_seq c)}"
    "card (dom (c EVENTS)) = unat (event_seq c)"
proof -
  show d: "dom (c EVENTS) = event_key ` {1 .. unat (event_seq c)}"
  proof (rule set_eqI)
    fix k
    have "c EVENTS k \<noteq> None \<longleftrightarrow> (\<exists>n. 1 \<le> n \<and> n \<le> unat (event_seq c) \<and> k = event_key n)"
      using assms unfolding redb_wf_def by (elim conjE) (erule spec)
    then show "k \<in> dom (c EVENTS) \<longleftrightarrow> k \<in> event_key ` {1 .. unat (event_seq c)}"
      by (simp only: domIff image_iff Bex_def atLeastAtMost_iff conj_assoc)
  qed
  have "inj_on event_key {1 .. unat (event_seq c)}"
    using seq_bound [of c] by (intro inj_onI) (metis atLeastAtMost_iff event_key_inj le_less_trans)
  then show "card (dom (c EVENTS)) = unat (event_seq c)"
    unfolding d by (simp add: card_image)
qed

text \<open>The next number of an event never wraps.\<close>

lemma next_seq:
  assumes "redb_ok db content view" "redb_wf rs (content d)"
  shows "unat (event_seq (content d) + 1) = Suc (unat (event_seq (content d)))"
proof -
  have "unat (event_seq (content d)) < 2 ^ 63"
    using redb_capacity(2) [OF assms(1), of d EVENTS] event_dom(2) [OF assms(2)] by simp
  then have "unat (event_seq (content d)) + 1 < 2 ^ LENGTH(64)" by simp
  then show ?thesis by (simp add: unat_word_ariths)
qed

definition event_added :: "redb_content \<Rightarrow> bytes \<Rightarrow> redb_content" where
  "event_added c b = (let n = event_seq c + 1; m = c(META := (c META)(KStr ''event_seq'' \<mapsto> VNum n)) in
     m(EVENTS := (m EVENTS)(KNum n \<mapsto> VBytes b)))"

lemma event_added_simps:
  "tbl \<noteq> META \<Longrightarrow> tbl \<noteq> EVENTS \<Longrightarrow> event_added c b tbl = c tbl"
  "event_added c b EVENTS = (c EVENTS)(KNum (event_seq c + 1) \<mapsto> VBytes b)"
  "event_seq (event_added c b) = event_seq c + 1"
  by (simp_all add: event_added_def Let_def event_seq_def)

lemma put_event:
  assumes "redb_wf rs c" "stored (cd_event_of (rs_codec rs)) (Some (VBytes b)) = Some ev"
    and "unat (event_seq c + 1) = Suc (unat (event_seq c))"
  shows "redb_wf rs (event_added c b)"
    "redb_view rs (event_added c b) = (redb_view rs c)\<lparr>sv_events := sv_events (redb_view rs c) @ [ev]\<rparr>"
proof -
  let ?N = "unat (event_seq c)"
  have key: "KNum (event_seq c + 1) = event_key (Suc ?N)"
    unfolding assms(3) [symmetric] by simp
  have "event_added c b EVENTS k \<noteq> None \<longleftrightarrow> (\<exists>n. 1 \<le> n \<and> n \<le> unat (event_seq (event_added c b)) \<and> k = event_key n)" for k
  proof -
    have "c EVENTS k \<noteq> None \<longleftrightarrow> (\<exists>n. 1 \<le> n \<and> n \<le> ?N \<and> k = event_key n)"
      using assms(1) by (simp add: redb_wf_def)
    then show ?thesis
      unfolding event_added_simps key assms(3) by (auto simp: le_Suc_eq)
  qed
  then show "redb_wf rs (event_added c b)"
    using assms(1,2) unfolding redb_wf_def by (intro conjI) (auto simp: event_added_simps(1,2))
  have old: "event_added c b EVENTS (event_key n) = c EVENTS (event_key n)" if "n \<in> set [1 ..< Suc ?N]" for n
    using that seq_bound [of "event_added c b"] assms(3) event_key_inj [of n "Suc ?N"]
    unfolding event_added_simps key by (auto simp: event_added_simps(3))
  have new: "event_added c b EVENTS (event_key (Suc ?N)) = Some (VBytes b)"
    unfolding event_added_simps key by simp
  have "map (\<lambda>n. the (stored (cd_event_of (rs_codec rs)) (event_added c b EVENTS (event_key n)))) [1 ..< Suc (Suc ?N)] =
      map (\<lambda>n. the (stored (cd_event_of (rs_codec rs)) (c EVENTS (event_key n)))) [1 ..< Suc ?N] @ [ev]"
    using old new assms(2) by (simp del: upt_Suc add: upt_Suc_append)
  then show "redb_view rs (event_added c b) = (redb_view rs c)\<lparr>sv_events := sv_events (redb_view rs c) @ [ev]\<rparr>"
    by (simp add: redb_view_def event_added_simps(1,3) assms(3) del: upt_Suc)
qed

lemma redb_append_event_wp:
  assumes "redb_env_ok rs content view" "redb_wf rs (content d)"
  shows "wp (redb_append_event rs ev)
    (\<lambda>_ d'. redb_wf rs (content d') \<and> redb_view rs (content d') =
       (redb_view rs (content d))\<lparr>sv_events := sv_events (redb_view rs (content d)) @ [ev]\<rparr>)
    (\<lambda>_ d'. content d' = content d) d"
proof (cases "cd_event (rs_codec rs) ev")
  case (Inl e)
  then show ?thesis by (simp add: redb_append_event_def wp_seq wp_decoded)
next
  case (Inr b)
  note ok = env_okD(1) [OF assms(1)]
  let ?f = "seq (open_get (rs_db rs) META (KStr ''event_seq'')) (\<lambda>g.
        let new_seq = (case g of None \<Rightarrow> 0 | Some v \<Rightarrow> val_num v) + 1 in
        seq (engine (rd_insert (rs_db rs) META (KStr ''event_seq'') (VNum new_seq))) (\<lambda>_.
        open_insert (rs_db rs) EVENTS (KNum new_seq) (VBytes b)))"
  have "wp (redb_write (rs_db rs) ?f) (\<lambda>_ d'. content d' = event_added (content d) b) (\<lambda>_ d'. content d' = content d \<and> True) d"
  proof (rule redb_write_wp [OF ok])
    fix t assume t: "view t = content d"
    let ?n = "event_seq (content d) + 1"
    show "wp ?f (\<lambda>_ t'. view t' = event_added (content d) b) (\<lambda>_ _. True) t"
    proof (rule wp_seqI [OF open_get_wp [OF ok t]])
      fix g t' assume g: "view t' = content d \<and> g = content d META (KStr ''event_seq'')"
      then have n: "(case g of None \<Rightarrow> 0 | Some v \<Rightarrow> val_num v) + 1 = ?n" by (simp add: event_seq_def)
      show "wp (let new_seq = (case g of None \<Rightarrow> 0 | Some v \<Rightarrow> val_num v) + 1 in
          seq (engine (rd_insert (rs_db rs) META (KStr ''event_seq'') (VNum new_seq))) (\<lambda>_.
          open_insert (rs_db rs) EVENTS (KNum new_seq) (VBytes b))) (\<lambda>_ t'. view t' = event_added (content d) b) (\<lambda>_ _. True) t'"
        unfolding n Let_def wp_seq wp_engine event_added_def
        by (rule wp_mono [OF redb_txn_wp(3) [OF ok conjunct1 [OF g]]], rule wp_mono [OF open_insert_wp [OF ok]], assumption)
           simp_all
    qed
  qed simp
  then show ?thesis
    using put_event [OF assms(2) stored_encoded [OF env_okD(4) [OF assms(1)] Inr] next_seq [OF ok assms(2)]]
    by (auto simp: redb_append_event_def wp_seq wp_decoded Inr elim!: wp_mono)
qed

lemma walk_events:
  assumes "redb_wf rs c" "walks (c EVENTS) None es"
  obtains kvs where "map (\<lambda>kv. the (stored dec (Some (snd kv)))) kvs =
      map (\<lambda>n. the (stored dec (c EVENTS (event_key n)))) [1 ..< Suc (unat (event_seq c))]"
    "list_all2 (\<lambda>e kv. case e of Inl _ \<Rightarrow> True | Inr x \<Rightarrow> x = kv) es kvs"
    "\<And>k v. (k, v) \<in> set kvs \<Longrightarrow> c EVENTS k = Some v"
proof -
  from assms(2) obtain kvs where kvs: "sorted_wrt (<) (map fst kvs)" "map_of kvs = c EVENTS"
      "list_all2 (\<lambda>e kv. case e of Inl _ \<Rightarrow> True | Inr x \<Rightarrow> x = kv) es kvs"
    by (auto simp: walks_def)
  have d: "distinct (map fst kvs)" using kvs(1) by (simp add: strict_sorted_iff)
  have mem: "(k, v) \<in> set kvs \<longleftrightarrow> c EVENTS k = Some v" for k v
    using d by (simp add: kvs(2) [symmetric])
  have "set (map fst kvs) = set (map event_key [1 ..< Suc (unat (event_seq c))])"
    using event_dom(1) [OF assms(1)] kvs(2) [symmetric] by (simp add: dom_map_of_conv_image_fst atLeastLessThanSuc_atLeastAtMost del: upt_Suc)
  then have keys: "map fst kvs = map event_key [1 ..< Suc (unat (event_seq c))]"
    using kvs(1) event_keys_sorted [OF seq_bound [of c]] strict_sorted_equal by blast
  have "map (\<lambda>kv. the (stored dec (Some (snd kv)))) kvs = map (\<lambda>k. the (stored dec (c EVENTS k))) (map fst kvs)"
    using mem by (auto simp: comp_def)
  also have "\<dots> = map (\<lambda>n. the (stored dec (c EVENTS (event_key n)))) [1 ..< Suc (unat (event_seq c))]"
    unfolding keys by simp
  finally show ?thesis using that kvs(3) mem by blast
qed

lemma list_events_wp:
  assumes "redb_env_ok rs content view" "redb_wf rs (content d)"
  shows "wp (redb_list_events rs eid limit)
    (\<lambda>r d'. content d' = content d \<and> r = recent_events eid (unat limit) (sv_events (redb_view rs (content d))))
    (\<lambda>_ d'. content d' = content d) d"
  unfolding redb_list_events_def event_filter_eq
proof (rule redb_read_wp [OF env_okD(1) [OF assms(1)]])
  note ok = env_okD(1) [OF assms(1)]
  let ?dec = "cd_event_of (rs_codec rs)" and ?p = "\<lambda>ev. case eid of None \<Rightarrow> True | Some i \<Rightarrow> event_enclave ev = Some i"
  let ?r = "recent_events eid (unat limit) (sv_events (redb_view rs (content d)))"
  fix t assume t: "view t = content d"
  have enc: "wp (seq (collect_entries ?dec ?p es) (\<lambda>all. ret (drop (length all - unat limit) all))) (\<lambda>r _. r = ?r) (\<lambda>_ _. True) t''"
    if es: "walks (content d EVENTS) None es" for es t''
  proof -
    obtain kvs where kvs: "map (\<lambda>kv. the (stored ?dec (Some (snd kv)))) kvs = sv_events (redb_view rs (content d))"
        "list_all2 (\<lambda>e kv. case e of Inl _ \<Rightarrow> True | Inr x \<Rightarrow> x = kv) es kvs"
        "\<And>k v. (k, v) \<in> set kvs \<Longrightarrow> content d EVENTS k = Some v"
      by (rule walk_events [OF assms(2) es, of ?dec]) (simp add: redb_view_def del: upt_Suc)
    have "stored ?dec (Some v) \<noteq> None" if "(k, v) \<in> set kvs" for k v
      using assms(2) kvs(3) [OF that] by (simp add: redb_wf_def)
    from collect_wp [OF kvs(2) this, where wanted = ?p and t = t'']
    show ?thesis
      unfolding wp_seq by (rule wp_mono) (auto simp: wp_ret kvs(1) recent_events_def Let_def)
  qed
  show "wp (seq (engine (rd_open_table (rs_db rs) EVENTS)) (\<lambda>_.
      seq (engine (rd_range (rs_db rs) EVENTS None)) (\<lambda>es.
      seq (collect_entries ?dec ?p es) (\<lambda>all. ret (drop (length all - unat limit) all)))))
      (\<lambda>r _. r = ?r) (\<lambda>_ _. True) t"
    unfolding wp_seq [of "engine x" for x] wp_engine
    by (rule wp_mono [OF redb_txn_wp(1) [OF ok t]], rule wp_mono [OF redb_txn_wp(5) [OF ok]], assumption)
       (simp_all only: enc)
qed

subsection \<open>Terraform state and locks\<close>

lemma wf_tf_upd:
  assumes "redb_wf rs c"
  shows "redb_wf rs (c(TF_STATE := m))"
    "(\<And>k v. n k = Some v \<Longrightarrow> stored (cd_value_of (rs_codec rs)) (Some v) \<noteq> None) \<Longrightarrow> redb_wf rs (c(TF_LOCKS := n))"
  using assms by (simp_all add: redb_wf_def)

lemma wf_lock: "redb_wf rs c \<Longrightarrow> c TF_LOCKS k = Some v \<Longrightarrow> \<exists>x. stored (cd_value_of (rs_codec rs)) (Some v) = Some x"
  unfolding redb_wf_def by blast

lemma view_tf_upd:
  "redb_view rs (c(TF_STATE := m)) = (redb_view rs c)\<lparr>sv_tf_state := (\<lambda>k. map_option val_bytes (m (KStr k)))\<rparr>"
  "redb_view rs (c(TF_LOCKS := m)) =
     (redb_view rs c)\<lparr>sv_tf_locks := (\<lambda>k. stored (cd_value_of (rs_codec rs)) (m (KStr k)))\<rparr>"
  by (simp_all add: redb_view_def)

lemma get_tf_wp:
  assumes "redb_env_ok rs content view"
  shows "wp (redb_get_tf_state rs k) (\<lambda>r d'. content d' = content d \<and> r = sv_tf_state (redb_view rs (content d)) k)
    (\<lambda>_ d'. content d' = content d) d"
  unfolding redb_get_tf_state_def
proof (rule redb_read_wp [OF env_okD(1) [OF assms]])
  fix t assume t: "view t = content d"
  show "wp (seq (open_get (rs_db rs) TF_STATE (KStr k)) (\<lambda>g. ret (map_option val_bytes g)))
      (\<lambda>r _. r = sv_tf_state (redb_view rs (content d)) k) (\<lambda>_ _. True) t"
    by (rule wp_seqI [OF open_get_wp [OF env_okD(1) [OF assms] t]]) (simp add: wp_ret redb_view_def)
qed

lemma put_tf_wp:
  assumes "redb_env_ok rs content view" "redb_wf rs (content d)"
  shows "wp (redb_put_tf_state rs k b)
    (\<lambda>_ d'. redb_wf rs (content d') \<and> redb_view rs (content d') =
       (redb_view rs (content d))\<lparr>sv_tf_state := (sv_tf_state (redb_view rs (content d)))(k \<mapsto> b)\<rparr>)
    (\<lambda>_ d'. content d' = content d) d"
proof -
  note ok = env_okD(1) [OF assms(1)]
  have "wp (redb_put_tf_state rs k b)
      (\<lambda>_ d'. content d' = (content d)(TF_STATE := (content d TF_STATE)(KStr k \<mapsto> VBytes b)))
      (\<lambda>_ d'. content d' = content d \<and> True) d"
    unfolding redb_put_tf_state_def by (rule redb_write_wp [OF ok open_insert_wp [OF ok]]) simp_all
  then show ?thesis
    by (rule wp_mono) (auto simp: view_tf_upd wf_tf_upd(1) [OF assms(2)], auto simp: redb_view_def fun_eq_iff)
qed

lemma delete_tf_wp:
  assumes "redb_env_ok rs content view" "redb_wf rs (content d)"
  shows "wp (redb_delete_tf_state rs k)
    (\<lambda>_ d'. redb_wf rs (content d') \<and> redb_view rs (content d') =
       (redb_view rs (content d))\<lparr>sv_tf_state := (sv_tf_state (redb_view rs (content d)))(k := None),
         sv_tf_locks := (sv_tf_locks (redb_view rs (content d)))(k := None)\<rparr>)
    (\<lambda>_ d'. content d' = content d) d"
proof -
  note ok = env_okD(1) [OF assms(1)]
  let ?c = "(content d)(TF_STATE := (content d TF_STATE)(KStr k := None), TF_LOCKS := (content d TF_LOCKS)(KStr k := None))"
  have "wp (redb_delete_tf_state rs k) (\<lambda>_ d'. content d' = ?c) (\<lambda>_ d'. content d' = content d \<and> True) d"
    unfolding redb_delete_tf_state_def
  proof (rule redb_write_wp [OF ok])
    fix t assume t: "view t = content d"
    show "wp (seq (open_remove (rs_db rs) TF_STATE (KStr k)) (\<lambda>_. open_remove (rs_db rs) TF_LOCKS (KStr k)))
        (\<lambda>_ t'. view t' = ?c) (\<lambda>_ _. True) t"
      by (rule wp_seqI [OF open_remove_wp [OF ok t]], rule wp_mono [OF open_remove_wp [OF ok]], assumption) simp_all
  qed simp
  moreover have "redb_wf rs ?c"
    by (rule wf_tf_upd(2) [OF wf_tf_upd(1) [OF assms(2)]]) (use wf_lock [OF assms(2)] in \<open>auto split: if_splits\<close>)
  moreover have "redb_view rs ?c = (redb_view rs (content d))\<lparr>sv_tf_state := (sv_tf_state (redb_view rs (content d)))(k := None),
         sv_tf_locks := (sv_tf_locks (redb_view rs (content d)))(k := None)\<rparr>"
    unfolding view_tf_upd by (auto simp: redb_view_def fun_eq_iff)
  ultimately show ?thesis by (auto elim!: wp_mono)
qed

lemma lock_tf_wp:
  assumes "redb_env_ok rs content view" "redb_wf rs (content d)"
  shows "wp (redb_lock_tf_state rs k info)
    (\<lambda>_ d'. redb_wf rs (content d') \<and> sv_tf_locks (redb_view rs (content d)) k = None \<and> redb_view rs (content d') =
       (redb_view rs (content d))\<lparr>sv_tf_locks := (sv_tf_locks (redb_view rs (content d)))(k \<mapsto> info)\<rparr>)
    (\<lambda>e d'. content d' = content d \<and> (\<forall>h. e = LockConflict h \<longrightarrow> sv_tf_locks (redb_view rs (content d)) k = Some h)) d"
proof -
  note ok = env_okD(1) [OF assms(1)]
  let ?held = "content d TF_LOCKS (KStr k)"
  let ?E = "\<lambda>e. \<forall>h. e = LockConflict h \<longrightarrow> sv_tf_locks (redb_view rs (content d)) k = Some h"
  have "wp (redb_lock_tf_state rs k info)
      (\<lambda>_ d'. ?held = None \<and> (\<exists>b. cd_value (rs_codec rs) info = Inr b \<and>
         content d' = (content d)(TF_LOCKS := (content d TF_LOCKS)(KStr k \<mapsto> VBytes b))))
      (\<lambda>e d'. content d' = content d \<and> ?E e) d"
    unfolding redb_lock_tf_state_def
  proof (rule redb_write_wp [OF ok, where Q = "\<lambda>_ c'. ?held = None \<and> (\<exists>b. cd_value (rs_codec rs) info = Inr b \<and>
         c' = (content d)(TF_LOCKS := (content d TF_LOCKS)(KStr k \<mapsto> VBytes b)))" and E = ?E])
    fix t assume t: "view t = content d"
    have get: "wp (open_get (rs_db rs) TF_LOCKS (KStr k)) (\<lambda>r t'. view t' = content d \<and> r = ?held) (\<lambda>e _. ?E e) t"
      unfolding open_get_def wp_seq wp_engine
      by (rule wp_mono [OF redb_txn_wp(1) [OF ok t]], rule wp_mono [OF redb_txn_wp(2) [OF ok]], assumption) simp_all
    show "wp (seq (open_get (rs_db rs) TF_LOCKS (KStr k)) (\<lambda>g. case g of
          Some v \<Rightarrow> seq (decoded (cd_value_of (rs_codec rs) (val_bytes v))) (\<lambda>existing. throw (LockConflict existing))
        | None \<Rightarrow> seq (decoded (cd_value (rs_codec rs) info)) (\<lambda>b. engine (rd_insert (rs_db rs) TF_LOCKS (KStr k) (VBytes b)))))
      (\<lambda>_ t'. ?held = None \<and> (\<exists>b. cd_value (rs_codec rs) info = Inr b \<and>
         view t' = (content d)(TF_LOCKS := (content d TF_LOCKS)(KStr k \<mapsto> VBytes b)))) (\<lambda>e _. ?E e) t"
    proof (rule wp_seqI [OF get])
      fix g t' assume g: "view t' = content d \<and> g = ?held"
      show "wp (case g of
          Some v \<Rightarrow> seq (decoded (cd_value_of (rs_codec rs) (val_bytes v))) (\<lambda>existing. throw (LockConflict existing))
        | None \<Rightarrow> seq (decoded (cd_value (rs_codec rs) info)) (\<lambda>b. engine (rd_insert (rs_db rs) TF_LOCKS (KStr k) (VBytes b))))
        (\<lambda>_ t'. ?held = None \<and> (\<exists>b. cd_value (rs_codec rs) info = Inr b \<and>
           view t' = (content d)(TF_LOCKS := (content d TF_LOCKS)(KStr k \<mapsto> VBytes b)))) (\<lambda>e _. ?E e) t'"
      proof (cases g)
        case None
        then show ?thesis
          using g by (cases "cd_value (rs_codec rs) info")
            (auto simp: wp_seq wp_decoded wp_engine intro!: wp_mono [OF redb_txn_wp(3) [OF ok]])
      next
        case (Some v)
        then obtain x where x: "stored (cd_value_of (rs_codec rs)) (Some v) = Some x"
          using g wf_lock [OF assms(2)] by metis
        then have "sv_tf_locks (redb_view rs (content d)) k = Some x" using g Some by (simp add: redb_view_def)
        then show ?thesis using stored_SomeD [OF x] by (simp add: Some wp_seq wp_decoded wp_throw)
      qed
    qed
  qed simp
  then show ?thesis
  proof (rule wp_mono)
    fix u d' assume a: "?held = None \<and> (\<exists>b. cd_value (rs_codec rs) info = Inr b \<and>
        content d' = (content d)(TF_LOCKS := (content d TF_LOCKS)(KStr k \<mapsto> VBytes b)))"
    then obtain b where b: "cd_value (rs_codec rs) info = Inr b"
        "content d' = (content d)(TF_LOCKS := (content d TF_LOCKS)(KStr k \<mapsto> VBytes b))" by blast
    note enc = stored_encoded [OF env_okD(6) [OF assms(1)] b(1)]
    have "redb_wf rs (content d')"
      unfolding b(2) by (rule wf_tf_upd(2) [OF assms(2)]) (use enc wf_lock [OF assms(2)] in \<open>auto split: if_splits\<close>)
    moreover have "redb_view rs (content d') =
        (redb_view rs (content d))\<lparr>sv_tf_locks := (sv_tf_locks (redb_view rs (content d)))(k \<mapsto> info)\<rparr>"
      unfolding b(2) view_tf_upd using enc by (auto simp: redb_view_def fun_eq_iff)
    ultimately show "redb_wf rs (content d') \<and> sv_tf_locks (redb_view rs (content d)) k = None \<and> redb_view rs (content d') =
        (redb_view rs (content d))\<lparr>sv_tf_locks := (sv_tf_locks (redb_view rs (content d)))(k \<mapsto> info)\<rparr>"
      using a by (simp add: redb_view_def)
  qed
qed

lemma unlock_tf_wp:
  assumes "redb_env_ok rs content view" "redb_wf rs (content d)"
  shows "wp (redb_unlock_tf_state rs k lock_id)
    (\<lambda>_ d'. redb_wf rs (content d') \<and> redb_view rs (content d') =
       (redb_view rs (content d))\<lparr>sv_tf_locks := unlocked k lock_id (sv_tf_locks (redb_view rs (content d)))\<rparr>)
    (\<lambda>_ d'. content d' = content d) d"
proof -
  note ok = env_okD(1) [OF assms(1)]
  let ?locks = "sv_tf_locks (redb_view rs (content d))"
  let ?c = "if unlocked k lock_id ?locks = ?locks then content d
    else (content d)(TF_LOCKS := (content d TF_LOCKS)(KStr k := None))"
  have held: "?locks k = stored (cd_value_of (rs_codec rs)) (content d TF_LOCKS (KStr k))" by (simp add: redb_view_def)
  have run: "wp (redb_unlock_tf_state rs k lock_id) (\<lambda>_ d'. content d' = ?c) (\<lambda>_ d'. content d' = content d \<and> True) d"
    unfolding redb_unlock_tf_state_def
  proof (rule redb_write_wp [OF ok])
    fix t assume t: "view t = content d"
    show "wp (seq (open_get (rs_db rs) TF_LOCKS (KStr k)) (\<lambda>g. case g of
        None \<Rightarrow> ret ()
      | Some v \<Rightarrow> seq (decoded (cd_value_of (rs_codec rs) (val_bytes v))) (\<lambda>existing.
          if lock_id = [] \<or> (case json_as_str (json_index existing ''ID'') of None \<Rightarrow> [] | Some i \<Rightarrow> i) = lock_id
          then engine (rd_remove (rs_db rs) TF_LOCKS (KStr k)) else ret ())))
      (\<lambda>_ t'. view t' = ?c) (\<lambda>_ _. True) t"
    proof (rule wp_seqI [OF open_get_wp [OF ok t]])
      fix g t' assume g: "view t' = content d \<and> g = content d TF_LOCKS (KStr k)"
      show "wp (case g of
        None \<Rightarrow> ret ()
      | Some v \<Rightarrow> seq (decoded (cd_value_of (rs_codec rs) (val_bytes v))) (\<lambda>existing.
          if lock_id = [] \<or> (case json_as_str (json_index existing ''ID'') of None \<Rightarrow> [] | Some i \<Rightarrow> i) = lock_id
          then engine (rd_remove (rs_db rs) TF_LOCKS (KStr k)) else ret ()))
        (\<lambda>_ t'. view t' = ?c) (\<lambda>_ _. True) t'"
      proof (cases g)
        case None
        then have "?locks k = None" using g held by simp
        then show ?thesis using None g by (simp add: wp_ret unlocked_def)
      next
        case (Some v)
        then obtain x where x: "stored (cd_value_of (rs_codec rs)) (Some v) = Some x"
          using g wf_lock [OF assms(2)] by metis
        then have "?locks k = Some x" using g Some held by simp
        then have c: "?c = (if unlock_matches lock_id x then (content d)(TF_LOCKS := (content d TF_LOCKS)(KStr k := None)) else content d)"
          by (auto simp: unlocked_def fun_eq_iff)
        show ?thesis
          unfolding c Some option.case wp_seq wp_decoded stored_SomeD [OF x] sum.case unlock_matches_def
          using g by (auto simp: wp_ret wp_engine intro: wp_mono [OF redb_txn_wp(4) [OF ok]])
      qed
    qed
  qed simp
  have "redb_wf rs ((content d)(TF_LOCKS := (content d TF_LOCKS)(KStr k := None)))"
    by (rule wf_tf_upd(2) [OF assms(2)]) (use wf_lock [OF assms(2)] in \<open>auto split: if_splits\<close>)
  then have wf: "redb_wf rs ?c" using assms(2) by simp
  moreover have "redb_view rs ?c = (redb_view rs (content d))\<lparr>sv_tf_locks := unlocked k lock_id ?locks\<rparr>"
    unfolding if_distrib [of "redb_view rs"] view_tf_upd
    by (auto simp: redb_view_def unlocked_def fun_eq_iff split: option.splits)
  ultimately show ?thesis using run by (auto elim!: wp_mono)
qed

subsection \<open>The log of IaC runs\<close>

lemma wf_run:
  "redb_wf rs c \<Longrightarrow> c IAC_RUNS k = Some v \<Longrightarrow>
     \<exists>r. k = KStr (rs_uuid rs (run_id r)) \<and> stored (cd_run_of (rs_codec rs)) (Some v) = Some r"
  by (simp add: redb_wf_def)

definition run_added :: "('d, 't) redb_store \<Rightarrow> redb_content \<Rightarrow> iac_run \<Rightarrow> bytes \<Rightarrow> redb_content" where
  "run_added rs c r b = (let m = c(IAC_RUNS := (c IAC_RUNS)(KStr (rs_uuid rs (run_id r)) \<mapsto> VBytes b)) in
     m(IAC_RUNS_BY_PART := (m IAC_RUNS_BY_PART)(KStr (index_key rs r) \<mapsto> VStr (rs_uuid rs (run_id r)))))"

lemma run_added_simps:
  "tbl \<noteq> IAC_RUNS \<Longrightarrow> tbl \<noteq> IAC_RUNS_BY_PART \<Longrightarrow> run_added rs c r b tbl = c tbl"
  "run_added rs c r b IAC_RUNS = (c IAC_RUNS)(KStr (rs_uuid rs (run_id r)) \<mapsto> VBytes b)"
  "run_added rs c r b IAC_RUNS_BY_PART = (c IAC_RUNS_BY_PART)(KStr (index_key rs r) \<mapsto> VStr (rs_uuid rs (run_id r)))"
  "event_seq (run_added rs c r b) = event_seq c"
  by (simp_all add: run_added_def Let_def event_seq_def)

lemma upsert_run_content:
  assumes "redb_env_ok rs content view"
  shows "wp (redb_upsert_iac_run rs r)
    (\<lambda>_ d'. \<exists>b. cd_run (rs_codec rs) r = Inr b \<and> content d' = run_added rs (content d) r b) (\<lambda>_ d'. content d' = content d) d"
proof (cases "cd_run (rs_codec rs) r")
  case (Inl e)
  then show ?thesis by (simp add: redb_upsert_iac_run_def wp_seq wp_decoded)
next
  case (Inr b)
  note ok = env_okD(1) [OF assms(1)]
  have "wp (redb_write (rs_db rs) (seq (open_insert (rs_db rs) IAC_RUNS (KStr (rs_uuid rs (run_id r))) (VBytes b)) (\<lambda>_.
        open_insert (rs_db rs) IAC_RUNS_BY_PART (KStr (index_key rs r)) (VStr (rs_uuid rs (run_id r))))))
      (\<lambda>_ d'. content d' = run_added rs (content d) r b) (\<lambda>_ d'. content d' = content d \<and> True) d"
  proof (rule redb_write_wp [OF ok])
    fix t assume t: "view t = content d"
    show "wp (seq (open_insert (rs_db rs) IAC_RUNS (KStr (rs_uuid rs (run_id r))) (VBytes b)) (\<lambda>_.
        open_insert (rs_db rs) IAC_RUNS_BY_PART (KStr (index_key rs r)) (VStr (rs_uuid rs (run_id r)))))
      (\<lambda>_ t'. view t' = run_added rs (content d) r b) (\<lambda>_ _. True) t"
      unfolding run_added_def Let_def
      by (rule wp_seqI [OF open_insert_wp [OF ok t]], rule wp_mono [OF open_insert_wp [OF ok]], assumption) simp_all
  qed simp
  then show ?thesis by (auto simp: redb_upsert_iac_run_def wp_seq wp_decoded Inr elim!: wp_mono)
qed

lemma upsert_run_wp:
  assumes "redb_env_ok rs content view" "redb_wf rs (content d)"
  shows "wp (redb_upsert_iac_run rs r)
    (\<lambda>_ d'. redb_wf rs (content d') \<and> redb_view rs (content d') =
       (redb_view rs (content d))\<lparr>sv_runs := (sv_runs (redb_view rs (content d)))(run_id r \<mapsto> r)\<rparr>)
    (\<lambda>_ d'. content d' = content d) d"
proof (rule wp_mono [OF upsert_run_content [OF assms(1)]])
  fix u d' assume "\<exists>b. cd_run (rs_codec rs) r = Inr b \<and> content d' = run_added rs (content d) r b"
  then obtain b where b: "cd_run (rs_codec rs) r = Inr b" "content d' = run_added rs (content d) r b" by blast
  note enc = stored_encoded [OF env_okD(5) [OF assms(1)] b(1)]
  have "redb_wf rs (content d')"
    using assms(2) enc unfolding redb_wf_def b(2) by (intro conjI) (auto simp: run_added_simps)
  moreover have "redb_view rs (content d') =
      (redb_view rs (content d))\<lparr>sv_runs := (sv_runs (redb_view rs (content d)))(run_id r \<mapsto> r)\<rparr>"
    using enc injD [OF env_okD(2) [OF assms(1)]] unfolding b(2)
    by (auto simp: redb_view_def run_added_simps fun_eq_iff)
  ultimately show "redb_wf rs (content d') \<and> redb_view rs (content d') =
       (redb_view rs (content d))\<lparr>sv_runs := (sv_runs (redb_view rs (content d)))(run_id r \<mapsto> r)\<rparr>" by blast
qed

lemma get_run_wp:
  assumes "redb_env_ok rs content view" "redb_wf rs (content d)"
  shows "wp (redb_get_iac_run rs u) (\<lambda>r d'. content d' = content d \<and> r = sv_runs (redb_view rs (content d)) u)
    (\<lambda>_ d'. content d' = content d) d"
  unfolding redb_get_iac_run_def
proof (rule redb_read_wp [OF env_okD(1) [OF assms(1)]])
  fix t assume t: "view t = content d"
  show "wp (seq (open_get (rs_db rs) IAC_RUNS (KStr (rs_uuid rs u))) (decode_opt (cd_run_of (rs_codec rs))))
      (\<lambda>r _. r = sv_runs (redb_view rs (content d)) u) (\<lambda>_ _. True) t"
  proof (rule wp_seqI [OF open_get_wp [OF env_okD(1) [OF assms(1)] t]])
    fix g t' assume g: "view t' = content d \<and> g = content d IAC_RUNS (KStr (rs_uuid rs u))"
    then have "wp (decode_opt (cd_run_of (rs_codec rs)) g) (\<lambda>r _. r = stored (cd_run_of (rs_codec rs)) g) (\<lambda>_ _. True) t'"
      by (intro decode_opt_wp) (metis option.distinct(1) wf_run [OF assms(2)])
    with g show "wp (decode_opt (cd_run_of (rs_codec rs)) g) (\<lambda>r _. r = sv_runs (redb_view rs (content d)) u) (\<lambda>_ _. True) t'"
      by (simp add: redb_view_def)
  qed
qed

text \<open>The runs that the listed identifiers name, those that name none being skipped.\<close>

definition named_runs :: "('d, 't) redb_store \<Rightarrow> redb_content \<Rightarrow> string list \<Rightarrow> iac_run list" where
  "named_runs rs c us = List.map_filter (\<lambda>u. stored (cd_run_of (rs_codec rs)) (c IAC_RUNS (KStr u))) us"

lemma list_runs_content:
  assumes "redb_env_ok rs content view" "redb_wf rs (content d)"
  shows "wp (redb_list_iac_runs rs i p)
    (\<lambda>r d'. content d' = content d \<and> (\<exists>es. walks (content d IAC_RUNS_BY_PART) (Some (KStr (run_prefix i p))) es \<and>
       r = named_runs rs (content d) (take 100 (rev (indexed_ids (run_prefix i p) es)))))
    (\<lambda>_ d'. content d' = content d) d"
  unfolding redb_list_iac_runs_def
proof (rule redb_read_wp [OF env_okD(1) [OF assms(1)]])
  note ok = env_okD(1) [OF assms(1)]
  fix t assume t: "view t = content d"
  let ?step = "\<lambda>u acc. seq (engine (rd_get (rs_db rs) IAC_RUNS (KStr u))) (\<lambda>g. case g of
          None \<Rightarrow> ret acc
        | Some v \<Rightarrow> seq (decoded (cd_run_of (rs_codec rs) (val_bytes v))) (\<lambda>r. ret (acc @ [r])))"
  have loop: "wp (foldM ?step us []) (\<lambda>r t'. view t' = content d \<and> r = named_runs rs (content d) us) (\<lambda>_ _. True) t'"
    if "view t' = content d" for us t'
  proof (rule wp_foldM_prefix [where I = "\<lambda>us acc t'. view t' = content d \<and> acc = named_runs rs (content d) us"])
    show "view t' = content d \<and> [] = named_runs rs (content d) []" using that by (simp add: named_runs_def map_filter_simps)
    fix vs u ws acc t'' assume acc: "view t'' = content d \<and> acc = named_runs rs (content d) vs"
    have snoc: "named_runs rs (content d) (vs @ [u]) = named_runs rs (content d) vs @
        (case stored (cd_run_of (rs_codec rs)) (content d IAC_RUNS (KStr u)) of None \<Rightarrow> [] | Some r \<Rightarrow> [r])"
      by (simp add: named_runs_def map_filter_def split: option.split)
    show "wp (?step u acc) (\<lambda>acc' t'. view t' = content d \<and> acc' = named_runs rs (content d) (vs @ [u])) (\<lambda>_ _. True) t''"
      unfolding wp_seq [of "engine x" for x] wp_engine
    proof (rule wp_mono [OF redb_txn_wp(2) [OF ok conjunct1 [OF acc]]])
      fix g t' assume g: "view t' = content d \<and> g = content d IAC_RUNS (KStr u)"
      show "wp (case g of None \<Rightarrow> ret acc
        | Some v \<Rightarrow> seq (decoded (cd_run_of (rs_codec rs) (val_bytes v))) (\<lambda>r. ret (acc @ [r])))
        (\<lambda>acc' t'. view t' = content d \<and> acc' = named_runs rs (content d) (vs @ [u])) (\<lambda>_ _. True) t'"
      proof (cases g)
        case None
        then have "content d IAC_RUNS (KStr u) = None" using g by simp
        then show ?thesis using g acc by (simp add: None wp_ret snoc)
      next
        case (Some v)
        then obtain r where r: "stored (cd_run_of (rs_codec rs)) (Some v) = Some r"
          using g wf_run [OF assms(2)] by metis
        moreover have "content d IAC_RUNS (KStr u) = Some v" using g Some by simp
        ultimately show ?thesis
          using g acc stored_SomeD [OF r] by (simp add: Some wp_seq wp_decoded wp_ret snoc)
      qed
    qed simp
  qed
  let ?R = "\<lambda>r. \<exists>es. walks (content d IAC_RUNS_BY_PART) (Some (KStr (run_prefix i p))) es \<and>
       r = named_runs rs (content d) (take 100 (rev (indexed_ids (run_prefix i p) es)))"
  show "wp (seq (engine (rd_open_table (rs_db rs) IAC_RUNS_BY_PART)) (\<lambda>_.
      seq (engine (rd_open_table (rs_db rs) IAC_RUNS)) (\<lambda>_.
      seq (engine (rd_range (rs_db rs) IAC_RUNS_BY_PART (Some (KStr (run_prefix i p))))) (\<lambda>es.
      foldM ?step (take 100 (rev (indexed_ids (run_prefix i p) es))) [])))) (\<lambda>r _. ?R r) (\<lambda>_ _. True) t"
    unfolding wp_seq [of "engine x" for x] wp_engine
    by (rule wp_mono [OF redb_txn_wp(1) [OF ok t]], rule wp_mono [OF redb_txn_wp(1) [OF ok]], assumption,
        rule wp_mono [OF redb_txn_wp(5) [OF ok]], assumption, rule wp_mono [OF loop]) (blast+)
qed

lemma list_runs_wp:
  assumes "redb_env_ok rs content view" "redb_wf rs (content d)"
  shows "wp (redb_list_iac_runs rs i p)
    (\<lambda>r d'. content d' = content d \<and> set r \<subseteq> ran (sv_runs (redb_view rs (content d))) \<and> length r \<le> 100)
    (\<lambda>_ d'. content d' = content d) d"
proof (rule wp_mono [OF list_runs_content [OF assms]])
  fix r d' assume a: "content d' = content d \<and> (\<exists>es. walks (content d IAC_RUNS_BY_PART) (Some (KStr (run_prefix i p))) es \<and>
       r = named_runs rs (content d) (take 100 (rev (indexed_ids (run_prefix i p) es))))"
  then obtain us where r: "r = named_runs rs (content d) (take 100 us)" by blast
  have "x \<in> ran (sv_runs (redb_view rs (content d)))" if "x \<in> set r" for x
  proof -
    from that obtain u where u: "stored (cd_run_of (rs_codec rs)) (content d IAC_RUNS (KStr u)) = Some x"
      unfolding r named_runs_def in_map_filter by blast
    then obtain v where v: "content d IAC_RUNS (KStr u) = Some v" by (cases "content d IAC_RUNS (KStr u)") auto
    from wf_run [OF assms(2) v] u v have "u = rs_uuid rs (run_id x)" by auto
    with u have "sv_runs (redb_view rs (content d)) (run_id x) = Some x" by (simp add: redb_view_def)
    then show ?thesis by (rule ranI)
  qed
  moreover have "length (List.map_filter f xs) \<le> length xs" for f :: "string \<Rightarrow> iac_run option" and xs
    by (induction xs) (auto simp: map_filter_simps split: option.split)
  then have "length r \<le> 100" unfolding r named_runs_def by (rule order_trans) simp
  ultimately show "content d' = content d \<and> set r \<subseteq> ran (sv_runs (redb_view rs (content d))) \<and> length r \<le> 100"
    using a by blast
qed

subsection \<open>The refinement\<close>

lemma redb_view_ok: "redb_wf rs c \<Longrightarrow> view_ok (redb_view rs c)"
  by (simp add: view_ok_def view_enclaves_ran)

text \<open>Each law of the locale from the lemma on its operation.\<close>

lemma redb_full_store:
  assumes "redb_env_ok rs content view"
  shows "full_store (redb_ops rs) (redb_abs rs content) (redb_inv rs content)"
  unfolding full_store_def full_store_axioms_def tf_state_store_def tf_state_store_axioms_def state_store_def
    redb_inv_def redb_abs_def redb_ops_def store_ops.select_convs
  by (intro conjI allI impI;
      ((rule redb_view_ok, assumption) | (rule wp_mono [OF get_tf_wp [OF assms]]) |
       (rule wp_mono [OF get_enclave_wp [OF assms]], assumption) |
       (rule wp_mono [OF list_enclaves_wp [OF assms]], assumption) |
       (rule wp_mono [OF upsert_enclave_wp [OF assms]], assumption) |
       (rule wp_mono [OF delete_enclave_wp [OF assms]], assumption) |
       (rule wp_mono [OF redb_append_event_wp [OF assms]], assumption) |
       (rule wp_mono [OF list_events_wp [OF assms]], assumption) |
       (rule wp_mono [OF upsert_run_wp [OF assms]], assumption) |
       (rule wp_mono [OF put_tf_wp [OF assms]], assumption) |
       (rule wp_mono [OF delete_tf_wp [OF assms]], assumption) |
       (rule wp_mono [OF lock_tf_wp [OF assms]], assumption) |
       (rule wp_mono [OF unlock_tf_wp [OF assms]], assumption) |
       (rule wp_mono [OF upsert_partition_wp [OF assms]], assumption) |
       (rule wp_mono [OF delete_partition_wp [OF assms]], assumption) |
       (rule wp_mono [OF get_run_wp [OF assms]], assumption) |
       (rule wp_mono [OF list_runs_wp [OF assms]], assumption));
      auto)


end
