(* ===== verification/Redb_Props.thy ===== *)
theory Redb_Props
  imports Redb_Refine Memory_Store
begin

section \<open>An instance of the engine, and the order of the run log\<close>

text \<open>
  A database kept as an association list meets the assumptions on the engine, so they can hold. On
  the index of the runs: the index entries of a partition are walked in the order of the start
  times, as long as no identifier has a slash in it.
\<close>

subsection \<open>A database as an association list\<close>

type_synonym list_db = "((redb_table \<times> rkey) \<times> rval) list"

definition list_content :: "list_db \<Rightarrow> redb_content" where
  "list_content t tbl k = map_of t (tbl, k)"

definition capped :: "list_db \<Rightarrow> list_db" where
  "capped d = (if length d < 2 ^ 63 then d else [])"

definition list_engine :: "(list_db, list_db) redb" where
  "list_engine = \<lparr>
     rd_create = (\<lambda>p fs. (Inr [], fs)),
     rd_begin_read = (\<lambda>d. (Inr (capped d), d)),
     rd_begin_write = (\<lambda>d. (Inr (capped d), d)),
     rd_open_table = (\<lambda>_. ret ()),
     rd_get = (\<lambda>tbl k t. (Inr (map_of t (tbl, k)), t)),
     rd_insert = (\<lambda>tbl k v t. (Inr (), AList.update (tbl, k) v t)),
     rd_remove = (\<lambda>tbl k t. (Inr (), AList.delete (tbl, k) t)),
     rd_range = (\<lambda>tbl lo t. (Inr (map (\<lambda>k. Inr (k, the (map_of t (tbl, k))))
        (sort (remdups (map (snd \<circ> fst) (filter (\<lambda>((tb, k), v). tb = tbl \<and> (case lo of None \<Rightarrow> True | Some l \<Rightarrow> l \<le> k)) t))))), t)),
     rd_commit = (\<lambda>t d. if length t < 2 ^ 63 then (Inr (), t) else (Inl ''full'', d))\<rparr>"

lemma list_walks:
  "walks (list_content t tbl) lo (map (\<lambda>k. Inr (k, the (map_of t (tbl, k))))
     (sort (remdups (map (snd \<circ> fst) (filter (\<lambda>((tb, k), v). tb = tbl \<and> (case lo of None \<Rightarrow> True | Some l \<Rightarrow> l \<le> k)) t)))))"
proof -
  let ?in = "\<lambda>k. case lo of None \<Rightarrow> True | Some l \<Rightarrow> l \<le> k"
  let ?ks = "sort (remdups (map (snd \<circ> fst) (filter (\<lambda>((tb, k), v). tb = tbl \<and> ?in k) t)))"
  let ?kvs = "map (\<lambda>k. (k, the (map_of t (tbl, k)))) ?ks"
  have mem: "k \<in> set ?ks \<longleftrightarrow> ?in k \<and> map_of t (tbl, k) \<noteq> None" for k
  proof -
    have "map_of t (tbl, k) \<noteq> None \<longleftrightarrow> (\<exists>v. ((tbl, k), v) \<in> set t)"
      unfolding map_of_eq_None_iff not_not by force
    moreover have "k \<in> set ?ks \<longleftrightarrow> (\<exists>tb v. ((tb, k), v) \<in> set t \<and> tb = tbl \<and> ?in k)"
      by (auto simp: image_iff Bex_def split: prod.splits)
    ultimately show ?thesis by blast
  qed
  have "sorted_wrt (<) (map fst ?kvs)"
    by (simp add: comp_def strict_sorted_iff)
  moreover have "map_of ?kvs = (\<lambda>k. if ?in k then list_content t tbl k else None)"
  proof (rule ext)
    fix k
    have "map_of ?kvs k = (if k \<in> set ?ks then Some (the (map_of t (tbl, k))) else None)"
      using map_of_map_restrict [of "\<lambda>k. the (map_of t (tbl, k))" ?ks] by (simp only: restrict_map_def comp_def)
    then show "map_of ?kvs k = (if ?in k then list_content t tbl k else None)"
      unfolding mem list_content_def by auto
  qed
  moreover have "list_all2 (\<lambda>e kv. case e of Inl _ \<Rightarrow> True | Inr x \<Rightarrow> x = kv) (map (\<lambda>k. Inr (k, the (map_of t (tbl, k)))) ?ks) ?kvs"
    by (simp add: list_all2_map1 list_all2_map2 list_all2_same)
  ultimately show ?thesis unfolding walks_def by blast
qed

lemma list_capacity: "finite (dom (list_content (capped d) tbl)) \<and> card (dom (list_content (capped d) tbl)) < 2 ^ 63"
proof -
  have sub: "dom (list_content t tbl) \<subseteq> (snd \<circ> fst) ` set t" for t
    by (force simp: list_content_def dest: map_of_SomeD)
  have "finite (dom (list_content t tbl)) \<and> card (dom (list_content t tbl)) \<le> length t" for t
    using finite_subset [OF sub] card_mono [OF _ sub] card_image_le [of "set t" "snd \<circ> fst"] card_length [of t]
    by (meson List.finite_set finite_imageI le_trans)
  then show ?thesis by (metis capped_def le_less_trans list.size(3) zero_less_numeral zero_less_power)
qed

lemma list_engine_ok: "redb_ok list_engine (\<lambda>d. list_content (capped d)) list_content"
proof -
  have upd: "list_content (AList.update (tbl, k) v t) = (list_content t)(tbl := (list_content t tbl)(k \<mapsto> v))" for tbl k v t
    by (auto simp: list_content_def update_conv' fun_eq_iff)
  have del: "list_content (AList.delete (tbl, k) t) = (list_content t)(tbl := (list_content t tbl)(k := None))" for tbl k t
    by (auto simp: list_content_def delete_conv' fun_eq_iff)
  show ?thesis
    unfolding redb_ok_def
    by (intro conjI allI ballI list_capacity [THEN conjunct1] list_capacity [THEN conjunct2])
       (auto simp: list_engine_def wp_def ret_def upd del list_walks, simp_all add: capped_def list_content_def)
qed

text \<open>A codec for a few sample values.\<close>

definition sample_event :: audit_event where
  "sample_event = EnclaveProvisioned 1 2 (EnclaveId ''e'')"

definition sample_codec :: codec where
  "sample_codec = \<lparr>
     cd_enclave = (\<lambda>_. Inl JsonError), cd_enclave_of = (\<lambda>_. Inl JsonError),
     cd_event = (\<lambda>ev. if ev = sample_event then Inr [1] else Inl JsonError), cd_event_of = (\<lambda>_. Inr sample_event),
     cd_run = (\<lambda>r. if r = sample_run 1 5 then Inr [1] else if r = sample_run 2 9 then Inr [2] else Inl JsonError),
     cd_run_of = (\<lambda>b. Inr (if b = [1] then sample_run 1 5 else sample_run 2 9)),
     cd_value = (\<lambda>v. if v = JNull then Inr [] else Inl JsonError), cd_value_of = (\<lambda>_. Inr JNull)\<rparr>"

text \<open>Times before zero and from zero on, in order as texts.\<close>

definition unary_time :: "int \<Rightarrow> string" where
  "unary_time t = (if t < 0 then replicate (nat (- t)) CHR ''A'' @ ''B'' else replicate (Suc (nat t)) CHR ''C'')"

definition list_store :: "(list_db, list_db) redb_store" where
  "list_store = \<lparr>rs_db = list_engine, rs_codec = sample_codec, rs_uuid = (\<lambda>u. replicate (unat u) CHR ''u''),
     rs_rfc3339 = unary_time\<rparr>"

lemma list_env_ok: "redb_env_ok list_store (\<lambda>d. list_content (capped d)) list_content"
proof -
  have "inj (\<lambda>u :: uuid. replicate (unat u) CHR ''u'')"
    by (rule injI) (metis length_replicate word_unat_eq_iff)
  then show ?thesis
    by (auto simp: redb_env_ok_def list_store_def list_engine_ok codec_ok_def decodes_def sample_codec_def
        sample_run_def split: if_splits)
qed

lemma list_store_empty: "redb_wf list_store (list_content (capped []))"
  by (auto simp: redb_wf_def list_content_def capped_def event_seq_def)


subsection \<open>The order of the run log\<close>

text \<open>
  Every stored run is in the index and every index entry is that of a stored run. This holds as
  long as a run that is written again keeps its partition and its start time.
\<close>

definition redb_indexed :: "('d, 't) redb_store \<Rightarrow> redb_content \<Rightarrow> bool" where
  "redb_indexed rs c \<longleftrightarrow> (\<forall>k v. c IAC_RUNS_BY_PART k = Some v \<longleftrightarrow>
     (\<exists>r. sv_runs (redb_view rs c) (run_id r) = Some r \<and> k = KStr (index_key rs r) \<and> v = VStr (rs_uuid rs (run_id r))))"

text \<open>The text of a time, followed by a slash, sorts as the time.\<close>

definition times_ordered :: "(datetime \<Rightarrow> string) \<Rightarrow> bool" where
  "times_ordered f \<longleftrightarrow> (\<forall>t t' u u'. t < t' \<longrightarrow> f t @ ''/'' @ u < f t' @ ''/'' @ u')"

definition slash_free :: "string \<Rightarrow> bool" where
  "slash_free s \<longleftrightarrow> CHR ''/'' \<notin> set s"

lemma less_append_same: "xs @ a < xs @ b \<longleftrightarrow> a < (b :: string)"
  by (induction xs) simp_all

lemma slash_split: "a @ ''/'' @ x = b @ ''/'' @ y \<Longrightarrow> slash_free a \<Longrightarrow> slash_free b \<Longrightarrow> a = b \<and> x = y"
proof (induction a arbitrary: b)
  case Nil
  then show ?case by (cases b) (auto simp: slash_free_def)
next
  case (Cons c a)
  then show ?case by (cases b) (auto simp: slash_free_def)
qed

lemma index_key_prefix:
  assumes "starts_with (run_prefix i p) (index_key rs r)" "slash_free (eid_str i)" "slash_free (pid_str p)"
    and "slash_free (eid_str (run_enclave_id r))" "slash_free (pid_str (run_partition_id r))"
  shows "run_enclave_id r = i \<and> run_partition_id r = p"
proof -
  obtain rest where "index_key rs r = run_prefix i p @ rest" using assms(1) by (auto simp: starts_with_iff)
  then have *: "eid_str (run_enclave_id r) @ ''/'' @ pid_str (run_partition_id r) @ ''/'' @
      rs_rfc3339 rs (run_started_at r) @ ''/'' @ rs_uuid rs (run_id r) = eid_str i @ ''/'' @ pid_str p @ ''/'' @ rest"
    by (simp add: index_key_def run_prefix_def)
  note first = slash_split [OF * assms(4,2)]
  from slash_split [OF conjunct2 [OF first] assms(5,3)] first show ?thesis by (simp add: eid_eq_iff pid_eq_iff)
qed

lemma index_key_order:
  assumes "times_ordered (rs_rfc3339 rs)" "index_key rs a < index_key rs b"
    and "run_enclave_id a = run_enclave_id b" "run_partition_id a = run_partition_id b"
  shows "run_started_at a \<le> run_started_at b"
proof (rule ccontr)
  assume "\<not> run_started_at a \<le> run_started_at b"
  then have "index_key rs b < index_key rs a"
    using assms(1,3,4) by (simp add: index_key_def less_append_same times_ordered_def del: append_Cons)
  with assms(2) show False by simp
qed

text \<open>What is read from a walk of the index: the runs whose keys have the prefix, in the order of their keys.\<close>

lemma indexed_runs:
  assumes "list_all2 (\<lambda>e kv. case e of Inl _ \<Rightarrow> True | Inr x \<Rightarrow> x = kv) es kvs" "sorted_wrt (<) (map fst kvs)"
    and "\<And>k v. (k, v) \<in> set kvs \<Longrightarrow> \<exists>r. S r \<and> k = KStr (key r) \<and> v = VStr (uid r)"
  shows "\<exists>rl. indexed_ids prefix es = map uid rl \<and> sorted_wrt (\<lambda>a b. key a < key b) rl \<and>
    (\<forall>r \<in> set rl. S r \<and> starts_with prefix (key r) \<and> KStr (key r) \<in> fst ` set kvs)"
  using assms
proof (induction kvs arbitrary: es rule: list.induct)
  case Nil
  from Nil.prems(1) have "es = []" by simp
  then show ?case by (intro exI [of _ "[]"]) (simp add: indexed_ids_def map_filter_simps)
next
  case (Cons kv kvs)
  from Cons.prems(1) obtain e es' where es: "es = e # es'"
      "case e of Inl _ \<Rightarrow> True | Inr x \<Rightarrow> x = kv" "list_all2 (\<lambda>e kv. case e of Inl _ \<Rightarrow> True | Inr x \<Rightarrow> x = kv) es' kvs"
    by (auto simp: list_all2_Cons2)
  obtain r where r: "S r" "kv = (KStr (key r), VStr (uid r))"
    using Cons.prems(3) [of "fst kv" "snd kv"] by (cases kv) auto
  have "\<exists>rl. indexed_ids prefix es' = map uid rl \<and> sorted_wrt (\<lambda>a b. key a < key b) rl \<and>
      (\<forall>r \<in> set rl. S r \<and> starts_with prefix (key r) \<and> KStr (key r) \<in> fst ` set kvs)"
    by (rule Cons.IH [OF es(3)]) (use Cons.prems(2,3) in auto)
  then obtain rl where rl: "indexed_ids prefix es' = map uid rl" "sorted_wrt (\<lambda>a b. key a < key b) rl"
      "\<forall>r \<in> set rl. S r \<and> starts_with prefix (key r) \<and> KStr (key r) \<in> fst ` set kvs" by blast
  have less: "key r < key x" if "x \<in> set rl" for x
  proof -
    have "KStr (key x) \<in> fst ` set kvs" using rl(3) that by blast
    then have "KStr (key r) < KStr (key x)" using Cons.prems(2) r(2) by auto
    then show ?thesis by (simp add: less_rkey_def)
  qed
  show ?case
  proof (cases "e = Inr kv \<and> starts_with prefix (key r)")
    case True
    then show ?thesis
      using rl r(1) less
      by (intro exI [of _ "r # rl"]) (auto simp: es(1) r(2) indexed_ids_def map_filter_simps)
  next
    case False
    then have "indexed_ids prefix es = indexed_ids prefix es'"
      using es(2) by (auto simp: es(1) r(2) indexed_ids_def map_filter_simps split: sum.splits)
    then show ?thesis using rl by (intro exI [of _ rl]) auto
  qed
qed

text \<open>
  The run log of the redb store: when no identifier has a slash in it and the text of times
  sorts as the times, every run that is listed for a partition is a stored run of this partition,
  there are at most 100 of them, and the newest come first.
\<close>
theorem redb_runs_newest_first:
  assumes "redb_env_ok rs content view" "redb_wf rs (content d)" "redb_indexed rs (content d)"
    and "times_ordered (rs_rfc3339 rs)" "slash_free (eid_str i)" "slash_free (pid_str p)"
    and "\<And>u r. sv_runs (redb_view rs (content d)) u = Some r \<Longrightarrow>
       slash_free (eid_str (run_enclave_id r)) \<and> slash_free (pid_str (run_partition_id r))"
    and "redb_list_iac_runs rs i p d = (Inr rl, d')"
  shows "length rl \<le> 100 \<and> sorted_wrt (\<lambda>a b. run_started_at b \<le> run_started_at a) rl \<and>
    (\<forall>r \<in> set rl. sv_runs (redb_view rs (content d)) (run_id r) = Some r \<and> run_enclave_id r = i \<and> run_partition_id r = p)"
proof -
  let ?V = "sv_runs (redb_view rs (content d))" and ?pre = "run_prefix i p"
  let ?uid = "\<lambda>r. rs_uuid rs (run_id r)" and ?S = "\<lambda>r. ?V (run_id r) = Some r"
  obtain es where es: "walks (content d IAC_RUNS_BY_PART) (Some (KStr ?pre)) es"
      "rl = named_runs rs (content d) (take 100 (rev (indexed_ids ?pre es)))"
    using wp_InrD [OF list_runs_content [OF assms(1,2)] assms(8)] by blast
  then obtain kvs where kvs: "sorted_wrt (<) (map fst kvs)"
      "map_of kvs = (\<lambda>k. if KStr ?pre \<le> k then content d IAC_RUNS_BY_PART k else None)"
      "list_all2 (\<lambda>e kv. case e of Inl _ \<Rightarrow> True | Inr x \<Rightarrow> x = kv) es kvs"
    by (auto simp: walks_def)
  have "\<exists>r. ?S r \<and> k = KStr (index_key rs r) \<and> v = VStr (?uid r)" if "(k, v) \<in> set kvs" for k v
  proof -
    have "distinct (map fst kvs)" using kvs(1) by (simp add: strict_sorted_iff)
    then have "map_of kvs k = Some v" using that by simp
    then have "content d IAC_RUNS_BY_PART k = Some v" unfolding kvs(2) by (simp split: if_splits)
    then show ?thesis using assms(3) unfolding redb_indexed_def by blast
  qed
  from indexed_runs [where S = ?S and key = "index_key rs" and uid = ?uid and prefix = ?pre, OF kvs(3,1) this]
  obtain xs where xs: "indexed_ids ?pre es = map ?uid xs" "sorted_wrt (\<lambda>a b. index_key rs a < index_key rs b) xs"
      "\<And>r. r \<in> set xs \<Longrightarrow> ?S r \<and> starts_with ?pre (index_key rs r)"
    by blast
  have mine: "run_enclave_id r = i \<and> run_partition_id r = p" if "r \<in> set xs" for r
    using index_key_prefix [OF _ assms(5,6)] xs(3) [OF that] assms(7) by blast
  have named: "named_runs rs (content d) (map ?uid ys) = ys" if "set ys \<subseteq> set xs" for ys
  proof -
    have "stored (cd_run_of (rs_codec rs)) (content d IAC_RUNS (KStr (?uid r))) = Some r" if "r \<in> set xs" for r
      using xs(3) [OF that] by (simp add: redb_view_def)
    then show ?thesis using that
      by (induction ys) (auto simp: named_runs_def map_filter_simps)
  qed
  have rl: "rl = take 100 (rev xs)"
    unfolding es(2) xs(1) rev_map take_map by (rule named) (use set_take_subset [of 100 "rev xs"] in auto)
  have "sorted_wrt (\<lambda>a b. run_started_at a \<le> run_started_at b) xs"
    by (rule sorted_wrt_mono_rel [OF _ xs(2)]) (use index_key_order [OF assms(4)] mine in auto)
  then have "sorted_wrt (\<lambda>a b. run_started_at b \<le> run_started_at a) rl"
    unfolding rl by (intro sorted_wrt_take) (simp add: sorted_wrt_rev)
  moreover have "set rl \<subseteq> set xs" unfolding rl using set_take_subset [of 100 "rev xs"] by simp
  ultimately show ?thesis using rl mine xs(3) by auto
qed

lemma replicate_less:
  assumes "m < n" "c \<noteq> b" "b < c"
  shows "replicate m c @ b # u < replicate n c @ b # (u' :: string)" "replicate n b @ c # u < replicate m b @ c # u'"
proof -
  obtain k where k: "n = m + Suc k" using less_imp_Suc_add [OF assms(1)] by auto
  have split: "replicate n x = replicate m x @ x # replicate k x" for x :: char
    unfolding k by (simp only: replicate_add replicate_Suc)
  show "replicate m c @ b # u < replicate n c @ b # u'"
    unfolding split append_assoc less_append_same using assms(3) by simp
  show "replicate n b @ c # u < replicate m b @ c # u'"
    unfolding split append_assoc less_append_same using assms(3) by simp
qed

lemma times_ordered_unary: "times_ordered unary_time"
  unfolding times_ordered_def
proof (intro allI impI)
  fix t t' :: int and u u' assume less: "t < t'"
  have chars: "CHR ''A'' < CHR ''B''" "CHR ''/'' < CHR ''C''" "CHR ''A'' < CHR ''C''" "CHR ''B'' < CHR ''C''"
    by (simp_all add: less_char_def)
  consider "t' < 0" | "t < 0" "0 \<le> t'" | "0 \<le> t" using less by linarith
  then show "unary_time t @ ''/'' @ u < unary_time t' @ ''/'' @ u'"
  proof cases
    case 1
    then have "nat (- t') < nat (- t)" using less by simp
    from replicate_less(2) [OF this _ chars(1)] show ?thesis using 1 less by (simp add: unary_time_def)
  next
    case 2
    then obtain m where "nat (- t) = Suc m" by (metis not0_implies_Suc less_irrefl neg_0_less_iff_less zero_less_nat_eq)
    then show ?thesis using 2 chars(3) by (simp add: unary_time_def)
  next
    case 3
    then have "Suc (nat t) < Suc (nat t')" using less by simp
    from replicate_less(1) [OF this _ chars(2)] show ?thesis using 3 less by (simp add: unary_time_def del: replicate_Suc)
  qed
qed

definition two_runs :: list_db where
  "two_runs = [((IAC_RUNS, KStr ''u''), VBytes [1]), ((IAC_RUNS, KStr ''uu''), VBytes [2]),
     ((IAC_RUNS_BY_PART, KStr (index_key list_store (sample_run 1 5))), VStr ''u''),
     ((IAC_RUNS_BY_PART, KStr (index_key list_store (sample_run 2 9))), VStr ''uu'')]"

lemma list_store_simps [simp]:
  "rs_db list_store = list_engine" "rs_codec list_store = sample_codec" "rs_uuid list_store 1 = ''u''"
  "rs_uuid list_store 2 = ''uu''" "rs_rfc3339 list_store = unary_time"
proof -
  have "unat (2 :: uuid) = Suc (Suc 0)" by simp
  then show "rs_uuid list_store 2 = ''uu''" unfolding list_store_def by (simp add: numeral_2_eq_2)
qed (simp_all add: list_store_def)

lemma two_runs_ids:
  "index_key list_store (sample_run 1 5) = ''e/p/CCCCCC/u''" "index_key list_store (sample_run 2 9) = ''e/p/CCCCCCCCCC/uu''"
  by (simp_all add: index_key_def sample_run_def unary_time_def eval_nat_numeral)

lemma two_runs_content:
  "list_content (capped two_runs) IAC_RUNS = [KStr ''u'' \<mapsto> VBytes [1], KStr ''uu'' \<mapsto> VBytes [2]]"
  "list_content (capped two_runs) IAC_RUNS_BY_PART =
     [KStr ''e/p/CCCCCC/u'' \<mapsto> VStr ''u'', KStr ''e/p/CCCCCCCCCC/uu'' \<mapsto> VStr ''uu'']"
  "tbl \<noteq> IAC_RUNS \<Longrightarrow> tbl \<noteq> IAC_RUNS_BY_PART \<Longrightarrow> list_content (capped two_runs) tbl = Map.empty"
  by (auto simp: list_content_def capped_def two_runs_def two_runs_ids fun_eq_iff)

lemma two_runs_walk:
  "rd_range list_engine IAC_RUNS_BY_PART (Some (KStr ''e/p/'')) two_runs =
     (Inr [Inr (KStr ''e/p/CCCCCC/u'', VStr ''u''), Inr (KStr ''e/p/CCCCCCCCCC/uu'', VStr ''uu'')], two_runs)"
  unfolding two_runs_def two_runs_ids list_engine_def
  by (simp add: less_eq_rkey_def less_char_def)

lemma two_runs_list:
  "redb_list_iac_runs list_store (EnclaveId ''e'') (PartitionId ''p'') two_runs = (Inr [sample_run 2 9, sample_run 1 5], two_runs)"
proof -
  have get: "rd_get list_engine IAC_RUNS (KStr ''u'') two_runs = (Inr (Some (VBytes [1])), two_runs)"
    "rd_get list_engine IAC_RUNS (KStr ''uu'') two_runs = (Inr (Some (VBytes [2])), two_runs)"
    by (simp_all add: list_engine_def two_runs_def)
  have "rd_begin_read list_engine two_runs = (Inr two_runs, two_runs)" "\<And>tbl. rd_open_table list_engine tbl = ret ()"
    by (simp_all add: list_engine_def capped_def two_runs_def)
  then show ?thesis
    by (simp add: redb_list_iac_runs_def redb_read_def seq_def engine_def map_err_def lift_result_def ret_def run_prefix_def
        two_runs_walk indexed_ids_def map_filter_simps starts_with_def get decoded_def sample_codec_def)
qed

lemma two_runs_view:
  "sv_runs (redb_view list_store (list_content (capped two_runs))) = [1 \<mapsto> sample_run 1 5, 2 \<mapsto> sample_run 2 9]"
proof -
  have "rs_uuid list_store u = ''u'' \<longleftrightarrow> u = 1" "rs_uuid list_store u = ''uu'' \<longleftrightarrow> u = 2" for u
    using injD [OF env_okD(2) [OF list_env_ok], of u 1] injD [OF env_okD(2) [OF list_env_ok], of u 2] by auto
  then show ?thesis
    by (auto simp: redb_view_def two_runs_content stored_def sample_codec_def fun_eq_iff)
qed

lemma two_runs_wf: "redb_wf list_store (list_content (capped two_runs))"
proof -
  have "run_id (sample_run 1 5) = 1" "run_id (sample_run 2 9) = 2" by (simp_all add: sample_run_def)
  then show ?thesis
    unfolding redb_wf_def by (auto simp: two_runs_content event_seq_def stored_def sample_codec_def)
qed

lemma two_runs_indexed: "redb_indexed list_store (list_content (capped two_runs))"
  unfolding redb_indexed_def two_runs_view
proof (intro allI)
  fix k :: rkey and v :: rval
  have id: "run_id (sample_run 1 5) = 1" "run_id (sample_run 2 9) = 2" by (simp_all add: sample_run_def)
  have runs: "[1 \<mapsto> sample_run 1 5, 2 \<mapsto> sample_run 2 9] (run_id r) = Some r \<longleftrightarrow> r = sample_run 1 5 \<or> r = sample_run 2 9" for r
    using id by (auto split: if_splits)
  have two: "(\<exists>r. (r = a \<or> r = b) \<and> k = f r \<and> v = g r) \<longleftrightarrow> k = f a \<and> v = g a \<or> k = f b \<and> v = g b"
    for a b :: iac_run and f g by blast
  show "list_content (capped two_runs) IAC_RUNS_BY_PART k = Some v \<longleftrightarrow>
      (\<exists>r. [1 \<mapsto> sample_run 1 5, 2 \<mapsto> sample_run 2 9] (run_id r) = Some r \<and> k = KStr (index_key list_store r) \<and>
         v = VStr (rs_uuid list_store (run_id r)))"
    unfolding runs two two_runs_content two_runs_ids id list_store_simps by auto
qed

theorem redb_runs_newest_first_witness:
  "sorted_wrt (\<lambda>a b. run_started_at b \<le> run_started_at a) [sample_run 2 9, sample_run 1 5] \<and>
   redb_list_iac_runs list_store (EnclaveId ''e'') (PartitionId ''p'') two_runs = (Inr [sample_run 2 9, sample_run 1 5], two_runs)"
proof -
  have free: "slash_free (eid_str (EnclaveId ''e''))" "slash_free (pid_str (PartitionId ''p''))"
    by (simp_all add: slash_free_def)
  have "slash_free (eid_str (run_enclave_id r)) \<and> slash_free (pid_str (run_partition_id r))"
    if "sv_runs (redb_view list_store (list_content (capped two_runs))) u = Some r" for u r
    using that unfolding two_runs_view by (auto simp: sample_run_def slash_free_def split: if_splits)
  from redb_runs_newest_first [OF list_env_ok two_runs_wf two_runs_indexed _ free this two_runs_list]
  show ?thesis using two_runs_list by (simp add: times_ordered_unary)
qed

end
