(* ===== verification/Postgres_Store.thy ===== *)
theory Postgres_Store
  imports Store_Interface State_Json
begin

section \<open>The PostgreSQL store\<close>

text \<open>
  \<open>crates/nclav-store/src/postgres_store.rs\<close>. The tables of the schema are \<open>pg_tables\<close>, each SQL
  statement of the source is a function \<open>sql_...\<close> on them, and every operation of the store executes
  one or two statements. A statement fails without an effect when the connection does (\<open>pe_link\<close>),
  when a text or a JSON value that is bound to it contains the character NUL, which PostgreSQL
  cannot store, or when the sequence of the events is exhausted. \<open>pg_env\<close> also holds the codec between
  the structs and JSON values, the collation, the rounding of a time to a \<open>TIMESTAMPTZ\<close> and the text of a
  JSON value that is no string. Columns that are never read are left out.
\<close>

record pg_run_row =
  row_enclave_id :: string
  row_partition_id :: string
  row_started_at :: datetime
  row_run :: json

record pg_tables =
  pg_enclaves :: "(string, json) hashmap"
  pg_audit_events :: "(int \<times> string option \<times> json) list"
  pg_audit_seq :: int
  pg_tf_state :: "(string, bytes) hashmap"
  pg_tf_locks :: "(string, json) hashmap"
  pg_iac_runs :: "(uuid, pg_run_row) hashmap"

definition pg_empty :: pg_tables where
  "pg_empty = \<lparr>pg_enclaves = [], pg_audit_events = [], pg_audit_seq = 0, pg_tf_state = [], pg_tf_locks = [],
     pg_iac_runs = []\<rparr>"

record json_codec =
  jc_enclave :: "enclave_state \<Rightarrow> (json_error, json) result"
  jc_enclave_of :: "json \<Rightarrow> (json_error, enclave_state) result"
  jc_event :: "audit_event \<Rightarrow> (json_error, json) result"
  jc_event_of :: "json \<Rightarrow> (json_error, audit_event) result"
  jc_run :: "iac_run \<Rightarrow> (json_error, json) result"
  jc_run_of :: "json \<Rightarrow> (json_error, iac_run) result"

record 'c pg_env =
  pe_link :: "'c \<Rightarrow> string option \<times> 'c"
  pe_nul_error :: string
  pe_seq_error :: string
  pe_collation :: "string \<Rightarrow> string"
  pe_timestamptz :: "datetime \<Rightarrow> datetime"
  pe_json_text :: "json \<Rightarrow> string"
  pe_codec :: json_codec

record 'c pg_server =
  pg_data :: pg_tables
  pg_conn :: 'c

subsection \<open>Connecting\<close>

text \<open>
  \<open>connect\<close> and \<open>migrate\<close> over the pool \<open>'p\<close> and its connections \<open>'x\<close>. The migration is one command:
  it creates the tables that are missing and is serialised by an advisory lock of the session.
\<close>

datatype pg_command = PgAdvisoryLock nat | PgMigrations | PgAdvisoryUnlock nat

record ('w, 'o, 'p, 'x) pg_driver =
  px_parse :: "string \<Rightarrow> (string, 'o) result"
  px_ssl_disable :: "'o \<Rightarrow> 'o"
  px_connect :: "'o \<Rightarrow> ('w, string, 'p) act"
  px_acquire :: "'p \<Rightarrow> ('w, string, 'x) act"
  px_raw_sql :: "'x \<Rightarrow> pg_command \<Rightarrow> ('w, string, unit) act"

definition pg_migrate :: "('w, 'o, 'p, 'x) pg_driver \<Rightarrow> 'p \<Rightarrow> ('w, store_error, unit) act" where
  "pg_migrate px pool =
     seq (map_err (\<lambda>e. StoreInternal (''migration acquire: '' @ e)) (px_acquire px pool)) (\<lambda>conn.
     seq (map_err (\<lambda>e. StoreInternal (''migration lock: '' @ e)) (px_raw_sql px conn (PgAdvisoryLock 8675309))) (\<lambda>_.
     seq (attempt (map_err (\<lambda>e. StoreInternal (''migration: '' @ e)) (px_raw_sql px conn PgMigrations))) (\<lambda>result.
     seq (attempt (px_raw_sql px conn (PgAdvisoryUnlock 8675309))) (\<lambda>_ :: string + unit.
     lift_result result))))"

definition pg_connect :: "('w, 'o, 'p, 'x) pg_driver \<Rightarrow> string \<Rightarrow> ('w, store_error, 'p) act" where
  "pg_connect px url =
     seq (map_err (\<lambda>e. StoreInternal (''postgres URL parse: '' @ e)) (lift_result (px_parse px url))) (\<lambda>opts.
     let opts = if str_contains ''sslmode='' url then opts else px_ssl_disable px opts in
     seq (map_err (\<lambda>e. StoreInternal (''postgres connect: '' @ e)) (px_connect px opts)) (\<lambda>pool.
     seq (pg_migrate px pool) (\<lambda>_. ret pool)))"

subsection \<open>Statements\<close>

type_synonym 'a sql = "pg_tables \<Rightarrow> (string, 'a \<times> pg_tables) result"

definition pg_exec :: "'c pg_env \<Rightarrow> 'a sql \<Rightarrow> ('c pg_server, store_error, 'a) act" where
  "pg_exec env q = (\<lambda>s. case pe_link env (pg_conn s) of
     (Some e, c) \<Rightarrow> (Inl (StoreInternal e), s\<lparr>pg_conn := c\<rparr>)
   | (None, c) \<Rightarrow> (case q (pg_data s) of
       Inl e \<Rightarrow> (Inl (StoreInternal e), s\<lparr>pg_conn := c\<rparr>)
     | Inr (a, d) \<Rightarrow> (Inr a, s\<lparr>pg_data := d, pg_conn := c\<rparr>)))"

definition has_nul :: "string \<Rightarrow> bool" where
  "has_nul s \<longleftrightarrow> CHR 0x00 \<in> set s"

fun json_has_nul :: "json \<Rightarrow> bool" where
  "json_has_nul (JString s) \<longleftrightarrow> has_nul s"
| "json_has_nul (JArray vs) \<longleftrightarrow> (\<exists>v \<in> set vs. json_has_nul v)"
| "json_has_nul (JObject m) \<longleftrightarrow> (\<exists>kv \<in> set m. has_nul (fst kv) \<or> json_has_nul (snd kv))"
| "json_has_nul _ \<longleftrightarrow> False"

text \<open>A statement with its bound texts and JSON values.\<close>

definition bound :: "'c pg_env \<Rightarrow> string list \<Rightarrow> json list \<Rightarrow> 'a sql \<Rightarrow> 'a sql" where
  "bound env texts vals q d =
     (if list_ex has_nul texts \<or> list_ex json_has_nul vals then Inl (pe_nul_error env) else q d)"

definition sql_get_enclave :: "'c pg_env \<Rightarrow> string \<Rightarrow> json option sql" where
  "sql_get_enclave env i = bound env [i] [] (\<lambda>d. Inr (hm_get (pg_enclaves d) i, d))"

definition sql_list_enclaves :: "'c pg_env \<Rightarrow> json list sql" where
  "sql_list_enclaves env d = Inr (map snd (sort_key (\<lambda>row. pe_collation env (fst row)) (pg_enclaves d)), d)"

definition sql_upsert_enclave :: "'c pg_env \<Rightarrow> string \<Rightarrow> json \<Rightarrow> unit sql" where
  "sql_upsert_enclave env i v = bound env [i] [v] (\<lambda>d. Inr ((), d\<lparr>pg_enclaves := hm_insert i v (pg_enclaves d)\<rparr>))"

definition sql_delete_enclave :: "'c pg_env \<Rightarrow> string \<Rightarrow> unit sql" where
  "sql_delete_enclave env i = bound env [i] [] (\<lambda>d. Inr ((), d\<lparr>pg_enclaves := hm_remove i (pg_enclaves d)\<rparr>))"

definition sql_append_event :: "'c pg_env \<Rightarrow> string option \<Rightarrow> json \<Rightarrow> unit sql" where
  "sql_append_event env e v = bound env (case e of None \<Rightarrow> [] | Some i \<Rightarrow> [i]) [v] (\<lambda>d.
     if pg_audit_seq d = 2 ^ 63 - 1 then Inl (pe_seq_error env)
     else Inr ((), d\<lparr>pg_audit_seq := pg_audit_seq d + 1,
       pg_audit_events := pg_audit_events d @ [(pg_audit_seq d + 1, e, v)]\<rparr>))"

definition sql_list_events :: "'c pg_env \<Rightarrow> string option \<Rightarrow> nat \<Rightarrow> json list sql" where
  "sql_list_events env e limit = bound env (case e of None \<Rightarrow> [] | Some i \<Rightarrow> [i]) [] (\<lambda>d.
     Inr (map (\<lambda>(_, _, v). v) (take limit (sort_key (\<lambda>(q, _, _). - q)
       (filter (\<lambda>(_, x, _). case e of None \<Rightarrow> True | Some i \<Rightarrow> x = Some i) (pg_audit_events d)))), d))"

definition sql_get_tf_state :: "'c pg_env \<Rightarrow> string \<Rightarrow> bytes option sql" where
  "sql_get_tf_state env k = bound env [k] [] (\<lambda>d. Inr (hm_get (pg_tf_state d) k, d))"

definition sql_put_tf_state :: "'c pg_env \<Rightarrow> string \<Rightarrow> bytes \<Rightarrow> unit sql" where
  "sql_put_tf_state env k b = bound env [k] [] (\<lambda>d. Inr ((), d\<lparr>pg_tf_state := hm_insert k b (pg_tf_state d)\<rparr>))"

definition sql_delete_tf_state :: "'c pg_env \<Rightarrow> string \<Rightarrow> unit sql" where
  "sql_delete_tf_state env k = bound env [k] [] (\<lambda>d. Inr ((), d\<lparr>pg_tf_state := hm_remove k (pg_tf_state d)\<rparr>))"

text \<open>The insertion of a lock returns the number of rows affected.\<close>

definition sql_insert_lock :: "'c pg_env \<Rightarrow> string \<Rightarrow> json \<Rightarrow> nat sql" where
  "sql_insert_lock env k v = bound env [k] [v] (\<lambda>d. case hm_get (pg_tf_locks d) k of
     Some _ \<Rightarrow> Inr (0, d)
   | None \<Rightarrow> Inr (1, d\<lparr>pg_tf_locks := hm_insert k v (pg_tf_locks d)\<rparr>))"

definition sql_get_lock :: "'c pg_env \<Rightarrow> string \<Rightarrow> json option sql" where
  "sql_get_lock env k = bound env [k] [] (\<lambda>d. Inr (hm_get (pg_tf_locks d) k, d))"

definition sql_delete_lock :: "'c pg_env \<Rightarrow> string \<Rightarrow> unit sql" where
  "sql_delete_lock env k = bound env [k] [] (\<lambda>d. Inr ((), d\<lparr>pg_tf_locks := hm_remove k (pg_tf_locks d)\<rparr>))"

text \<open>\<open>v->>'k'\<close>: the text of a field, \<open>NULL\<close> where there is no such field or it is null.\<close>

definition jsonb_text :: "'c pg_env \<Rightarrow> json \<Rightarrow> string \<Rightarrow> string option" where
  "jsonb_text env v k = (case json_get v k of
     None \<Rightarrow> None
   | Some JNull \<Rightarrow> None
   | Some (JString s) \<Rightarrow> Some s
   | Some x \<Rightarrow> Some (pe_json_text env x))"

definition sql_delete_lock_of :: "'c pg_env \<Rightarrow> string \<Rightarrow> string \<Rightarrow> unit sql" where
  "sql_delete_lock_of env k lock_id = bound env [k, lock_id] [] (\<lambda>d. case hm_get (pg_tf_locks d) k of
     Some v \<Rightarrow> if jsonb_text env v ''ID'' = Some lock_id
       then Inr ((), d\<lparr>pg_tf_locks := hm_remove k (pg_tf_locks d)\<rparr>) else Inr ((), d)
   | None \<Rightarrow> Inr ((), d))"

text \<open>A run that is already there only gets its JSON replaced.\<close>

definition sql_upsert_run :: "'c pg_env \<Rightarrow> iac_run \<Rightarrow> json \<Rightarrow> unit sql" where
  "sql_upsert_run env r v = bound env [eid_str (run_enclave_id r), pid_str (run_partition_id r)] [v] (\<lambda>d.
     Inr ((), d\<lparr>pg_iac_runs := hm_insert (run_id r) (case hm_get (pg_iac_runs d) (run_id r) of
       Some row \<Rightarrow> row\<lparr>row_run := v\<rparr>
     | None \<Rightarrow> \<lparr>row_enclave_id = eid_str (run_enclave_id r), row_partition_id = pid_str (run_partition_id r),
         row_started_at = pe_timestamptz env (run_started_at r), row_run = v\<rparr>) (pg_iac_runs d)\<rparr>))"

definition sql_list_runs :: "'c pg_env \<Rightarrow> string \<Rightarrow> string \<Rightarrow> json list sql" where
  "sql_list_runs env i p = bound env [i, p] [] (\<lambda>d.
     Inr (map row_run (take 100 (sort_key (\<lambda>row. - row_started_at row)
       (filter (\<lambda>row. row_enclave_id row = i \<and> row_partition_id row = p) (hm_values (pg_iac_runs d))))), d))"

definition sql_get_run :: "'c pg_env \<Rightarrow> uuid \<Rightarrow> json option sql" where
  "sql_get_run env u d = Inr (map_option row_run (hm_get (pg_iac_runs d) u), d)"

subsection \<open>The operations\<close>

text \<open>\<open>to_json\<close> and \<open>from_json\<close>, on one value and on an optional row.\<close>

definition json_result :: "(json_error, 'a) result \<Rightarrow> ('w, store_error, 'a) act" where
  "json_result r = lift_result (map_sum Serialization id r)"

definition from_json_opt :: "(json \<Rightarrow> (json_error, 'a) result) \<Rightarrow> json option \<Rightarrow> ('w, store_error, 'a option) act" where
  "from_json_opt dec row = (case row of
     None \<Rightarrow> ret None | Some v \<Rightarrow> seq (json_result (dec v)) (\<lambda>x. ret (Some x)))"

definition from_json_all :: "(json \<Rightarrow> (json_error, 'a) result) \<Rightarrow> json list \<Rightarrow> ('w, store_error, 'a list) act" where
  "from_json_all dec rows = json_result (mapR dec rows)"

definition pg_get_enclave :: "'c pg_env \<Rightarrow> enclave_id \<Rightarrow> ('c pg_server, store_error, enclave_state option) act" where
  "pg_get_enclave env i =
     seq (pg_exec env (sql_get_enclave env (eid_str i))) (from_json_opt (jc_enclave_of (pe_codec env)))"

definition pg_list_enclaves :: "'c pg_env \<Rightarrow> ('c pg_server, store_error, enclave_state list) act" where
  "pg_list_enclaves env = seq (pg_exec env (sql_list_enclaves env)) (from_json_all (jc_enclave_of (pe_codec env)))"

definition pg_upsert_enclave :: "'c pg_env \<Rightarrow> enclave_state \<Rightarrow> ('c pg_server, store_error, unit) act" where
  "pg_upsert_enclave env st = seq (json_result (jc_enclave (pe_codec env) st)) (\<lambda>v.
     pg_exec env (sql_upsert_enclave env (eid_str (enc_id (es_desired st))) v))"

definition pg_delete_enclave :: "'c pg_env \<Rightarrow> enclave_id \<Rightarrow> ('c pg_server, store_error, unit) act" where
  "pg_delete_enclave env i = pg_exec env (sql_delete_enclave env (eid_str i))"

definition pg_stored_enclave :: "'c pg_env \<Rightarrow> enclave_id \<Rightarrow> ('c pg_server, store_error, enclave_state) act" where
  "pg_stored_enclave env i = seq (pg_get_enclave env i) (\<lambda>e. case e of
     None \<Rightarrow> throw (EnclaveNotFound (eid_str i)) | Some st \<Rightarrow> ret st)"

definition pg_upsert_partition ::
  "'c pg_env \<Rightarrow> enclave_id \<Rightarrow> partition_state \<Rightarrow> ('c pg_server, store_error, unit) act" where
  "pg_upsert_partition env i ps = seq (pg_stored_enclave env i) (\<lambda>st.
     pg_upsert_enclave env (st\<lparr>es_partitions := hm_insert (part_id (ps_desired ps)) ps (es_partitions st)\<rparr>))"

definition pg_delete_partition ::
  "'c pg_env \<Rightarrow> enclave_id \<Rightarrow> partition_id \<Rightarrow> ('c pg_server, store_error, unit) act" where
  "pg_delete_partition env i p = seq (pg_stored_enclave env i) (\<lambda>st.
     pg_upsert_enclave env (st\<lparr>es_partitions := hm_remove p (es_partitions st)\<rparr>))"

definition event_enclave_id :: "audit_event \<Rightarrow> string option" where
  "event_enclave_id ev = (case ev of
     EnclaveProvisioned _ _ e \<Rightarrow> Some (eid_str e)
   | PartitionProvisioned _ _ e _ \<Rightarrow> Some (eid_str e)
   | ExportWired _ _ e _ \<Rightarrow> Some (eid_str e)
   | ImportWired _ _ e _ \<Rightarrow> Some (eid_str e)
   | EnclaveError _ _ e _ \<Rightarrow> Some (eid_str e)
   | PartitionError _ _ e _ _ \<Rightarrow> Some (eid_str e)
   | ReconcileStarted _ _ _ \<Rightarrow> None
   | ReconcileCompleted _ _ _ _ \<Rightarrow> None)"

definition pg_append_event :: "'c pg_env \<Rightarrow> audit_event \<Rightarrow> ('c pg_server, store_error, unit) act" where
  "pg_append_event env ev = seq (json_result (jc_event (pe_codec env) ev)) (\<lambda>v.
     pg_exec env (sql_append_event env (event_enclave_id ev) v))"

definition pg_list_events ::
  "'c pg_env \<Rightarrow> enclave_id option \<Rightarrow> 32 word \<Rightarrow> ('c pg_server, store_error, audit_event list) act" where
  "pg_list_events env eid limit =
     seq (pg_exec env (sql_list_events env (map_option eid_str eid) (unat limit))) (\<lambda>rows.
     seq (from_json_all (jc_event_of (pe_codec env)) rows) (\<lambda>events. ret (rev events)))"

definition pg_get_tf_state :: "'c pg_env \<Rightarrow> string \<Rightarrow> ('c pg_server, store_error, bytes option) act" where
  "pg_get_tf_state env k = pg_exec env (sql_get_tf_state env k)"

definition pg_put_tf_state :: "'c pg_env \<Rightarrow> string \<Rightarrow> bytes \<Rightarrow> ('c pg_server, store_error, unit) act" where
  "pg_put_tf_state env k b = pg_exec env (sql_put_tf_state env k b)"

definition pg_delete_tf_state :: "'c pg_env \<Rightarrow> string \<Rightarrow> ('c pg_server, store_error, unit) act" where
  "pg_delete_tf_state env k = pg_exec env (sql_delete_tf_state env k)"

text \<open>\<open>fetch_one\<close> fails when there is no row.\<close>

definition pg_lock_tf_state :: "'c pg_env \<Rightarrow> string \<Rightarrow> json \<Rightarrow> ('c pg_server, store_error, unit) act" where
  "pg_lock_tf_state env k info =
     seq (pg_exec env (sql_insert_lock env k info)) (\<lambda>rows_affected.
     if rows_affected = 0
     then seq (pg_exec env (sql_get_lock env k)) (\<lambda>row. case row of
         None \<Rightarrow> throw (StoreInternal ''no rows returned by a query that expected to return at least one row'')
       | Some holder \<Rightarrow> throw (LockConflict holder))
     else ret ())"

definition pg_unlock_tf_state :: "'c pg_env \<Rightarrow> string \<Rightarrow> string \<Rightarrow> ('c pg_server, store_error, unit) act" where
  "pg_unlock_tf_state env k lock_id =
     (if lock_id = [] then pg_exec env (sql_delete_lock env k) else pg_exec env (sql_delete_lock_of env k lock_id))"

definition pg_upsert_iac_run :: "'c pg_env \<Rightarrow> iac_run \<Rightarrow> ('c pg_server, store_error, unit) act" where
  "pg_upsert_iac_run env r = seq (json_result (jc_run (pe_codec env) r)) (\<lambda>v. pg_exec env (sql_upsert_run env r v))"

definition pg_list_iac_runs ::
  "'c pg_env \<Rightarrow> enclave_id \<Rightarrow> partition_id \<Rightarrow> ('c pg_server, store_error, iac_run list) act" where
  "pg_list_iac_runs env i p =
     seq (pg_exec env (sql_list_runs env (eid_str i) (pid_str p))) (from_json_all (jc_run_of (pe_codec env)))"

definition pg_get_iac_run :: "'c pg_env \<Rightarrow> uuid \<Rightarrow> ('c pg_server, store_error, iac_run option) act" where
  "pg_get_iac_run env u = seq (pg_exec env (sql_get_run env u)) (from_json_opt (jc_run_of (pe_codec env)))"

definition postgres_ops :: "'c pg_env \<Rightarrow> 'c pg_server store_ops" where
  "postgres_ops env = \<lparr>
     so_get_enclave = pg_get_enclave env, so_list_enclaves = pg_list_enclaves env,
     so_upsert_enclave = pg_upsert_enclave env, so_delete_enclave = pg_delete_enclave env,
     so_upsert_partition = pg_upsert_partition env, so_delete_partition = pg_delete_partition env,
     so_append_event = pg_append_event env, so_list_events = pg_list_events env,
     so_get_tf_state = pg_get_tf_state env, so_put_tf_state = pg_put_tf_state env,
     so_delete_tf_state = pg_delete_tf_state env, so_lock_tf_state = pg_lock_tf_state env,
     so_unlock_tf_state = pg_unlock_tf_state env, so_upsert_iac_run = pg_upsert_iac_run env,
     so_list_iac_runs = pg_list_iac_runs env, so_get_iac_run = pg_get_iac_run env\<rparr>"

end
