(* ===== verification/Postgres_Refine.thy ===== *)
theory Postgres_Refine
  imports Postgres_Store Memory_Store "HOL-Library.Multiset"
begin

section \<open>The PostgreSQL store as a state store\<close>

text \<open>
  Under a codec that reads back what it writes, the operations of the PostgreSQL store act on
  \<open>pg_abs\<close> as the interface \<open>state_store\<close> promises, whatever the connection does. The interface of
  Terraform's backend is not met as a whole: the lock of a key outlives the deletion of its state,
  and a lock whose ID is no string is released under the text of its ID.
\<close>

subsection \<open>The abstract view of the tables\<close>

definition json_decodes :: "('a \<Rightarrow> (json_error, json) result) \<Rightarrow> (json \<Rightarrow> (json_error, 'a) result) \<Rightarrow> bool" where
  "json_decodes enc dec \<longleftrightarrow> (\<forall>x v. enc x = Inr v \<longrightarrow> dec v = Inr x)"

definition json_codec_ok :: "json_codec \<Rightarrow> bool" where
  "json_codec_ok jc \<longleftrightarrow> json_decodes (jc_enclave jc) (jc_enclave_of jc) \<and>
     json_decodes (jc_event jc) (jc_event_of jc) \<and> json_decodes (jc_run jc) (jc_run_of jc)"

definition pg_value :: "(json \<Rightarrow> (json_error, 'a) result) \<Rightarrow> json option \<Rightarrow> 'a option" where
  "pg_value dec g = (case g of None \<Rightarrow> None | Some v \<Rightarrow> (case dec v of Inr x \<Rightarrow> Some x | Inl _ \<Rightarrow> None))"

definition event_value :: "'c pg_env \<Rightarrow> int \<times> string option \<times> json \<Rightarrow> audit_event" where
  "event_value env row = the (pg_value (jc_event_of (pe_codec env)) (Some (snd (snd row))))"

definition pg_view :: "'c pg_env \<Rightarrow> pg_tables \<Rightarrow> store_view" where
  "pg_view env d = \<lparr>
     sv_enclaves = (\<lambda>i. pg_value (jc_enclave_of (pe_codec env)) (hm_get (pg_enclaves d) (eid_str i))),
     sv_events = map (event_value env) (pg_audit_events d),
     sv_tf_state = hm_get (pg_tf_state d),
     sv_tf_locks = hm_get (pg_tf_locks d),
     sv_runs = (\<lambda>u. pg_value (jc_run_of (pe_codec env)) (map_option row_run (hm_get (pg_iac_runs d) u)))\<rparr>"

text \<open>The rows decode, carry the ids they are stored under, and the events are in the order of \<open>seq\<close>.\<close>

definition pg_wf :: "'c pg_env \<Rightarrow> pg_tables \<Rightarrow> bool" where
  "pg_wf env d \<longleftrightarrow>
     hm_ok (pg_enclaves d) \<and>
     (\<forall>i v. hm_get (pg_enclaves d) i = Some v \<longrightarrow>
        (\<exists>st. i = eid_str (es_id st) \<and> jc_enclave_of (pe_codec env) v = Inr st)) \<and>
     sorted_wrt (<) (map fst (pg_audit_events d)) \<and>
     (\<forall>(q, e, v) \<in> set (pg_audit_events d). q \<le> pg_audit_seq d \<and>
        (\<exists>ev. jc_event_of (pe_codec env) v = Inr ev \<and> e = event_enclave_id ev)) \<and>
     (\<forall>u row. hm_get (pg_iac_runs d) u = Some row \<longrightarrow>
        (\<exists>r. u = run_id r \<and> jc_run_of (pe_codec env) (row_run row) = Inr r))"

definition pg_abs :: "'c pg_env \<Rightarrow> 'c pg_server \<Rightarrow> store_view" where
  "pg_abs env s = pg_view env (pg_data s)"

definition pg_inv :: "'c pg_env \<Rightarrow> 'c pg_server \<Rightarrow> bool" where
  "pg_inv env s \<longleftrightarrow> pg_wf env (pg_data s)"

subsection \<open>One statement\<close>

text \<open>A statement that fails leaves the tables; one that succeeds has the effect of its function.\<close>

lemma pg_exec_wp:
  assumes "\<And>a d. q (pg_data s) = Inr (a, d) \<Longrightarrow> Q a d"
  shows "wp (pg_exec env q) (\<lambda>a s'. Q a (pg_data s')) (\<lambda>_ s'. pg_data s' = pg_data s) s"
  using assms by (auto simp: wp_def pg_exec_def split: prod.splits option.splits sum.splits)

lemma bound_Inr [simp]:
  "bound env ts vs q d = Inr x \<longleftrightarrow> \<not> list_ex has_nul ts \<and> \<not> list_ex json_has_nul vs \<and> q d = Inr x"
  by (auto simp: bound_def)

lemma wp_json_result [wp_simps]:
  "wp (json_result r) Q E w = (case r of Inl e \<Rightarrow> E (Serialization e) w | Inr a \<Rightarrow> Q a w)"
  by (simp add: json_result_def wp_lift_result split: sum.split)

lemma from_json_opt_wp:
  assumes "\<And>v. row = Some v \<Longrightarrow> \<exists>x. dec v = Inr x"
  shows "wp (from_json_opt dec row) (\<lambda>r s'. r = pg_value dec row \<and> s' = s) (\<lambda>_ s'. s' = s) s"
  using assms by (cases row) (auto simp: from_json_opt_def pg_value_def wp_simps)

lemma mapR_map: "(\<And>x. x \<in> set xs \<Longrightarrow> f x = Inr (g x)) \<Longrightarrow> mapR f xs = Inr (map g xs)"
  by (induction xs) auto

lemma from_json_all_wp:
  assumes "\<And>v. v \<in> set rows \<Longrightarrow> dec v = Inr (g v)"
  shows "wp (from_json_all dec rows) (\<lambda>r s'. r = map g rows \<and> s' = s) (\<lambda>_ s'. s' = s) s"
  using mapR_map [of rows dec g] assms by (simp add: from_json_all_def wp_json_result)

lemma codec_okD:
  assumes "json_codec_ok jc"
  shows "jc_enclave jc st = Inr v \<Longrightarrow> jc_enclave_of jc v = Inr st"
    "jc_event jc ev = Inr v \<Longrightarrow> jc_event_of jc v = Inr ev"
    "jc_run jc r = Inr v \<Longrightarrow> jc_run_of jc v = Inr r"
  using assms by (auto simp: json_codec_ok_def json_decodes_def)

lemma pg_value_simps [simp]:
  "pg_value dec None = None" "dec v = Inr x \<Longrightarrow> pg_value dec (Some v) = Some x"
  by (simp_all add: pg_value_def)

subsection \<open>Enclaves\<close>

lemma wf_enclave_row:
  "pg_wf env d \<Longrightarrow> hm_get (pg_enclaves d) i = Some v \<Longrightarrow>
     \<exists>st. i = eid_str (es_id st) \<and> jc_enclave_of (pe_codec env) v = Inr st"
  by (simp add: pg_wf_def)

lemma view_enclave_iff:
  assumes "pg_wf env d"
  shows "sv_enclaves (pg_view env d) i = Some st \<longleftrightarrow>
    es_id st = i \<and> (\<exists>v. hm_get (pg_enclaves d) (eid_str i) = Some v \<and> jc_enclave_of (pe_codec env) v = Inr st)"
  using wf_enclave_row [OF assms, of "eid_str i"]
  by (cases "hm_get (pg_enclaves d) (eid_str i)") (auto simp: pg_view_def eid_eq_iff)

lemma pg_get_enclave_wp:
  assumes "pg_wf env (pg_data s)"
  shows "wp (pg_get_enclave env i)
    (\<lambda>r s'. pg_data s' = pg_data s \<and> r = sv_enclaves (pg_view env (pg_data s)) i) (\<lambda>_ s'. pg_data s' = pg_data s) s"
  unfolding pg_get_enclave_def
proof (rule wp_seqI [OF pg_exec_wp])
  show "d = pg_data s \<and> a = hm_get (pg_enclaves (pg_data s)) (eid_str i)"
    if "sql_get_enclave env (eid_str i) (pg_data s) = Inr (a, d)" for a d
    using that by (auto simp: sql_get_enclave_def)
  fix a s' assume a: "pg_data s' = pg_data s \<and> a = hm_get (pg_enclaves (pg_data s)) (eid_str i)"
  have dec: "\<exists>st. jc_enclave_of (pe_codec env) v = Inr st" if "a = Some v" for v
    using a that wf_enclave_row [OF assms, of "eid_str i" v] by auto
  show "wp (from_json_opt (jc_enclave_of (pe_codec env)) a)
    (\<lambda>r s'. pg_data s' = pg_data s \<and> r = sv_enclaves (pg_view env (pg_data s)) i) (\<lambda>_ s'. pg_data s' = pg_data s) s'"
  proof (rule wp_mono)
    show "wp (from_json_opt (jc_enclave_of (pe_codec env)) a)
      (\<lambda>r t. r = pg_value (jc_enclave_of (pe_codec env)) a \<and> t = s') (\<lambda>_ t. t = s') s'"
      by (rule from_json_opt_wp) (rule dec)
  qed (use a in \<open>simp_all add: pg_view_def\<close>)
qed

lemma pg_list_enclaves_wp:
  assumes "pg_wf env (pg_data s)"
  shows "wp (pg_list_enclaves env)
    (\<lambda>r s'. pg_data s' = pg_data s \<and> distinct (map es_id r) \<and> set r = ran (sv_enclaves (pg_view env (pg_data s))))
    (\<lambda>_ s'. pg_data s' = pg_data s) s"
  unfolding pg_list_enclaves_def
proof (rule wp_seqI [OF pg_exec_wp])
  let ?tab = "pg_enclaves (pg_data s)" and ?dec = "jc_enclave_of (pe_codec env)"
  let ?rows = "sort_key (\<lambda>row. pe_collation env (fst row)) ?tab"
  let ?g = "\<lambda>v. the (pg_value ?dec (Some v))"
  show "d = pg_data s \<and> a = map snd ?rows" if "sql_list_enclaves env (pg_data s) = Inr (a, d)" for a d
    using that by (auto simp: sql_list_enclaves_def)
  have ok: "hm_ok ?tab" using assms by (simp add: pg_wf_def)
  have row: "\<exists>st. i = eid_str (es_id st) \<and> ?dec v = Inr st" if "(i, v) \<in> set ?tab" for i v
    using wf_enclave_row [OF assms] hm_get_iff_mem [OF ok] that by metis
  have ids: "map (\<lambda>st. eid_str (es_id st)) (map ?g (map snd ?rows)) = map fst ?rows"
    unfolding map_map by (rule map_cong [OF refl]) (use row in force)
  have "distinct (map fst ?tab)" using ok by (simp add: hm_ok_def)
  then have "distinct (map fst ?rows)" by (simp add: distinct_map)
  then have "distinct (map (\<lambda>st. eid_str (es_id st)) (map ?g (map snd ?rows)))" by (simp only: ids)
  then have dist: "distinct (map es_id (map ?g (map snd ?rows)))"
    by (auto simp: distinct_map inj_on_def)
  have mem: "set (map ?g (map snd ?rows)) = ran (sv_enclaves (pg_view env (pg_data s)))"
  proof (intro set_eqI iffI)
    fix st assume "st \<in> set (map ?g (map snd ?rows))"
    then obtain i v where iv: "(i, v) \<in> set ?tab" "st = ?g v" by auto
    with row [OF iv(1)] have "i = eid_str (es_id st)" "?dec v = Inr st" by auto
    then have "sv_enclaves (pg_view env (pg_data s)) (es_id st) = Some st"
      using iv(1) by (auto simp: view_enclave_iff [OF assms] hm_get_iff_mem [OF ok])
    then show "st \<in> ran (sv_enclaves (pg_view env (pg_data s)))" by (rule ranI)
  next
    fix st assume "st \<in> ran (sv_enclaves (pg_view env (pg_data s)))"
    then obtain i v where "(i, v) \<in> set ?tab" "?dec v = Inr st"
      by (auto simp: ran_def view_enclave_iff [OF assms] hm_get_iff_mem [OF ok])
    then show "st \<in> set (map ?g (map snd ?rows))" by (force simp: image_image)
  qed
  fix a s' assume a: "pg_data s' = pg_data s \<and> a = map snd ?rows"
  have "?dec v = Inr (?g v)" if "v \<in> set a" for v
  proof -
    from that a obtain i where "(i, v) \<in> set ?tab" by auto
    from row [OF this] show ?thesis by auto
  qed
  then have "wp (from_json_all ?dec a) (\<lambda>r t. r = map ?g a \<and> t = s') (\<lambda>_ t. t = s') s'"
    by (rule from_json_all_wp)
  then show "wp (from_json_all ?dec a) (\<lambda>r s'. pg_data s' = pg_data s \<and> distinct (map es_id r) \<and>
      set r = ran (sv_enclaves (pg_view env (pg_data s)))) (\<lambda>_ s'. pg_data s' = pg_data s) s'"
    by (rule wp_mono) (use a dist mem in simp_all)
qed

lemma put_enclave_row:
  assumes "pg_wf env d" "jc_enclave_of (pe_codec env) v = Inr st"
  shows "pg_wf env (d\<lparr>pg_enclaves := hm_insert (eid_str (es_id st)) v (pg_enclaves d)\<rparr>)"
    "pg_view env (d\<lparr>pg_enclaves := hm_insert (eid_str (es_id st)) v (pg_enclaves d)\<rparr>) =
       (pg_view env d)\<lparr>sv_enclaves := (sv_enclaves (pg_view env d))(es_id st \<mapsto> st)\<rparr>"
  using assms by (auto simp: pg_wf_def pg_view_def hm_simps fun_eq_iff eid_eq_iff)

lemma pg_upsert_enclave_wp:
  assumes "json_codec_ok (pe_codec env)" "pg_wf env (pg_data s)"
  shows "wp (pg_upsert_enclave env st)
    (\<lambda>_ s'. pg_wf env (pg_data s') \<and> pg_view env (pg_data s') =
       (pg_view env (pg_data s))\<lparr>sv_enclaves := (sv_enclaves (pg_view env (pg_data s)))(es_id st \<mapsto> st)\<rparr>)
    (\<lambda>_ s'. pg_data s' = pg_data s) s"
proof (cases "jc_enclave (pe_codec env) st")
  case (Inr v)
  note row = put_enclave_row [OF assms(2) codec_okD(1) [OF assms(1) Inr]]
  show ?thesis
    unfolding pg_upsert_enclave_def wp_seq wp_json_result Inr sum.case
    by (rule pg_exec_wp) (clarsimp simp only: sql_upsert_enclave_def bound_Inr sum.inject prod.inject, intro conjI row)
qed (simp add: pg_upsert_enclave_def wp_simps)

lemma pg_delete_enclave_wp:
  assumes "pg_wf env (pg_data s)"
  shows "wp (pg_delete_enclave env i)
    (\<lambda>_ s'. pg_wf env (pg_data s') \<and> pg_view env (pg_data s') =
       (pg_view env (pg_data s))\<lparr>sv_enclaves := (sv_enclaves (pg_view env (pg_data s)))(i := None)\<rparr>)
    (\<lambda>_ s'. pg_data s' = pg_data s) s"
  unfolding pg_delete_enclave_def
  by (rule pg_exec_wp)
     (use assms in \<open>auto simp: sql_delete_enclave_def pg_wf_def pg_view_def hm_simps fun_eq_iff eid_eq_iff\<close>)

text \<open>The two statements of a partition update: the enclave that the first one reads is written back.\<close>

lemma pg_stored_enclave_wp:
  assumes "pg_wf env (pg_data s)"
  shows "wp (pg_stored_enclave env i)
    (\<lambda>st s'. pg_data s' = pg_data s \<and> sv_enclaves (pg_view env (pg_data s)) i = Some st \<and> es_id st = i)
    (\<lambda>e s'. pg_data s' = pg_data s) s"
  unfolding pg_stored_enclave_def
  by (rule wp_seqI [OF pg_get_enclave_wp [OF assms]])
     (auto simp: wp_simps view_enclave_iff [OF assms] split: option.split)

lemma pg_upsert_partition_wp:
  assumes "json_codec_ok (pe_codec env)" "pg_wf env (pg_data s)"
  shows "wp (pg_upsert_partition env i ps)
    (\<lambda>_ s'. pg_wf env (pg_data s') \<and> (\<exists>st. sv_enclaves (pg_view env (pg_data s)) i = Some st \<and>
       pg_view env (pg_data s') = (pg_view env (pg_data s))\<lparr>sv_enclaves := (sv_enclaves (pg_view env (pg_data s)))
         (i \<mapsto> st\<lparr>es_partitions := hm_insert (part_id (ps_desired ps)) ps (es_partitions st)\<rparr>)\<rparr>))
    (\<lambda>_ s'. pg_data s' = pg_data s) s"
  unfolding pg_upsert_partition_def
proof (rule wp_seqI [OF pg_stored_enclave_wp [OF assms(2)]], goal_cases)
  case (1 st s')
  then show ?case
    using assms(2) by (intro wp_mono [OF pg_upsert_enclave_wp [OF assms(1)]]) auto
qed

lemma pg_delete_partition_wp:
  assumes "json_codec_ok (pe_codec env)" "pg_wf env (pg_data s)"
  shows "wp (pg_delete_partition env i p)
    (\<lambda>_ s'. pg_wf env (pg_data s') \<and> (\<exists>st. sv_enclaves (pg_view env (pg_data s)) i = Some st \<and>
       pg_view env (pg_data s') = (pg_view env (pg_data s))\<lparr>sv_enclaves := (sv_enclaves (pg_view env (pg_data s)))
         (i \<mapsto> st\<lparr>es_partitions := hm_remove p (es_partitions st)\<rparr>)\<rparr>))
    (\<lambda>_ s'. pg_data s' = pg_data s) s"
  unfolding pg_delete_partition_def
proof (rule wp_seqI [OF pg_stored_enclave_wp [OF assms(2)]], goal_cases)
  case (1 st s')
  then show ?case
    using assms(2) by (intro wp_mono [OF pg_upsert_enclave_wp [OF assms(1)]]) auto
qed

subsection \<open>Events\<close>

lemma event_enclave_id_conv: "event_enclave_id ev = map_option eid_str (event_enclave ev)"
  by (cases ev) (simp_all add: event_enclave_id_def event_enclave_def)

lemma latest_first:
  assumes "sorted_wrt (<) (map fst xs)"
  shows "sort_key (\<lambda>(q, _, _). - q) xs = rev (xs :: (int \<times> 'a \<times> 'b) list)"
proof (rule sort_key_inj_key_eq)
  have "distinct (map fst xs)" using assms by (simp add: strict_sorted_iff)
  then have "inj_on fst (set xs)" by (simp add: distinct_map)
  then show "inj_on (\<lambda>(q, _, _). - q) (set xs)" by (simp add: inj_on_def case_prod_beta)
  show "sorted (map (\<lambda>(q, _, _). - q) (rev xs))"
    using assms by (simp add: rev_map [symmetric] sorted_wrt_rev sorted_wrt_map)
      (rule sorted_wrt_mono_rel, auto)
qed simp

lemma wf_event_row:
  "pg_wf env d \<Longrightarrow> (q, e, v) \<in> set (pg_audit_events d) \<Longrightarrow>
     q \<le> pg_audit_seq d \<and> (\<exists>ev. jc_event_of (pe_codec env) v = Inr ev \<and> e = event_enclave_id ev)"
  by (auto simp: pg_wf_def)

lemma append_row:
  assumes "pg_wf env d" "jc_event_of (pe_codec env) v = Inr ev"
  defines "d' \<equiv> d\<lparr>pg_audit_seq := pg_audit_seq d + 1,
       pg_audit_events := pg_audit_events d @ [(pg_audit_seq d + 1, event_enclave_id ev, v)]\<rparr>"
  shows "pg_wf env d'" "pg_view env d' = (pg_view env d)\<lparr>sv_events := sv_events (pg_view env d) @ [ev]\<rparr>"
proof -
  have "sorted_wrt (<) (map fst (pg_audit_events d'))"
    using assms(1) by (fastforce simp: d'_def pg_wf_def sorted_wrt_append)
  moreover have "\<forall>(q, e, v) \<in> set (pg_audit_events d'). q \<le> pg_audit_seq d' \<and>
      (\<exists>ev. jc_event_of (pe_codec env) v = Inr ev \<and> e = event_enclave_id ev)"
    using assms(2) wf_event_row [OF assms(1)] by (fastforce simp: d'_def)
  ultimately show "pg_wf env d'" using assms(1) by (simp add: pg_wf_def d'_def)
  show "pg_view env d' = (pg_view env d)\<lparr>sv_events := sv_events (pg_view env d) @ [ev]\<rparr>"
    using assms(2) by (simp add: d'_def pg_view_def event_value_def)
qed

lemma pg_append_event_wp:
  assumes "json_codec_ok (pe_codec env)" "pg_wf env (pg_data s)"
  shows "wp (pg_append_event env ev)
    (\<lambda>_ s'. pg_wf env (pg_data s') \<and> pg_view env (pg_data s') =
       (pg_view env (pg_data s))\<lparr>sv_events := sv_events (pg_view env (pg_data s)) @ [ev]\<rparr>)
    (\<lambda>_ s'. pg_data s' = pg_data s) s"
proof (cases "jc_event (pe_codec env) ev")
  case (Inr v)
  note row = append_row [OF assms(2) codec_okD(2) [OF assms(1) Inr]]
  show ?thesis
    unfolding pg_append_event_def wp_seq wp_json_result Inr sum.case
    by (rule pg_exec_wp)
       (clarsimp simp only: sql_append_event_def bound_Inr sum.inject prod.inject sum.distinct if_False split: if_splits, intro conjI row)
qed (simp add: pg_append_event_def wp_simps)

lemma pg_list_events_wp:
  assumes "pg_wf env (pg_data s)"
  shows "wp (pg_list_events env eid limit)
    (\<lambda>r s'. pg_data s' = pg_data s \<and> r = recent_events eid (unat limit) (sv_events (pg_view env (pg_data s))))
    (\<lambda>_ s'. pg_data s' = pg_data s) s"
proof -
  let ?evs = "pg_audit_events (pg_data s)" and ?dec = "jc_event_of (pe_codec env)"
  let ?g = "\<lambda>v. the (pg_value ?dec (Some v))"
  define x where "x = map_option eid_str eid"
  define sel where "sel = filter (\<lambda>(_, e, _). case x of None \<Rightarrow> True | Some i \<Rightarrow> e = Some i) ?evs"
  define rows where "rows = map (\<lambda>(_, _, v). v) (take (unat limit) (rev sel))"
  have "sorted_wrt (<) (map fst ?evs)" using assms by (simp add: pg_wf_def)
  then have "sorted_wrt (<) (map fst sel)"
    by (simp add: sel_def sorted_wrt_map sorted_wrt_filter)
  then have q: "a = rows \<and> d = pg_data s" if "sql_list_events env x (unat limit) (pg_data s) = Inr (a, d)" for a d
    using that by (auto simp: sql_list_events_def sel_def [symmetric] rows_def latest_first)
  have dec: "?dec v = Inr (?g v)" if "v \<in> set rows" for v
  proof -
    from that obtain n e where "(n, e, v) \<in> set ?evs"
      by (auto simp: rows_def sel_def dest!: in_set_takeD)
    from wf_event_row [OF assms this] show ?thesis by auto
  qed
  have sel: "map (\<lambda>row. ?g (snd (snd row))) sel =
      filter (\<lambda>ev. case eid of None \<Rightarrow> True | Some i \<Rightarrow> event_enclave ev = Some i) (map (event_value env) ?evs)"
  proof -
    have "sel = filter (\<lambda>row. case eid of None \<Rightarrow> True | Some i \<Rightarrow> event_enclave (event_value env row) = Some i) ?evs"
      unfolding sel_def
    proof (rule filter_cong [OF refl])
      fix row assume "row \<in> set ?evs"
      moreover obtain n e v where row: "row = (n, e, v)" by (cases row)
      ultimately obtain ev where "?dec v = Inr ev" "e = event_enclave_id ev" using wf_event_row [OF assms] by blast
      then show "(case row of (_, e, _) \<Rightarrow> case x of None \<Rightarrow> True | Some i \<Rightarrow> e = Some i) =
          (case eid of None \<Rightarrow> True | Some i \<Rightarrow> event_enclave (event_value env row) = Some i)"
        by (cases eid; cases "event_enclave ev") (auto simp: row event_value_def event_enclave_id_conv eid_eq_iff x_def)
    qed
    then show ?thesis by (simp add: filter_map comp_def event_value_def)
  qed
  have "rev (map ?g rows) = drop (length sel - unat limit) (map (\<lambda>row. ?g (snd (snd row))) sel)"
    by (simp add: rows_def rev_map [symmetric] take_rev drop_map comp_def case_prod_beta)
  also have "length sel = length (map (\<lambda>row. ?g (snd (snd row))) sel)" by simp
  finally have out: "rev (map ?g rows) = recent_events eid (unat limit) (sv_events (pg_view env (pg_data s)))"
    unfolding sel by (simp add: recent_events_def Let_def pg_view_def)
  show ?thesis
    unfolding pg_list_events_def x_def [symmetric]
  proof (rule wp_seqI [OF pg_exec_wp [OF q]], assumption)
    fix a s' assume a: "a = rows \<and> pg_data s' = pg_data s"
    have "wp (from_json_all ?dec rows) (\<lambda>r t. r = map ?g rows \<and> t = s') (\<lambda>_ t. t = s') s'"
      by (rule from_json_all_wp) (rule dec)
    then show "wp (seq (from_json_all ?dec a) (\<lambda>events. ret (rev events)))
        (\<lambda>r s'. pg_data s' = pg_data s \<and> r = recent_events eid (unat limit) (sv_events (pg_view env (pg_data s))))
        (\<lambda>_ s'. pg_data s' = pg_data s) s'"
      unfolding wp_seq wp_ret using a out by (auto elim!: wp_mono)
  qed
qed

subsection \<open>Runs\<close>

lemma wf_run_row:
  "pg_wf env d \<Longrightarrow> hm_get (pg_iac_runs d) u = Some row \<Longrightarrow>
     \<exists>r. u = run_id r \<and> jc_run_of (pe_codec env) (row_run row) = Inr r"
  by (simp add: pg_wf_def)

lemma pg_upsert_iac_run_wp:
  assumes "json_codec_ok (pe_codec env)" "pg_wf env (pg_data s)"
  shows "wp (pg_upsert_iac_run env r)
    (\<lambda>_ s'. pg_wf env (pg_data s') \<and> pg_view env (pg_data s') =
       (pg_view env (pg_data s))\<lparr>sv_runs := (sv_runs (pg_view env (pg_data s)))(run_id r \<mapsto> r)\<rparr>)
    (\<lambda>_ s'. pg_data s' = pg_data s) s"
proof (cases "jc_run (pe_codec env) r")
  case (Inr v)
  note dec = codec_okD(3) [OF assms(1) Inr]
  let ?d = "\<lambda>row. (pg_data s)\<lparr>pg_iac_runs := hm_insert (run_id r) row (pg_iac_runs (pg_data s))\<rparr>"
  have "pg_wf env (?d row)" "pg_view env (?d row) =
      (pg_view env (pg_data s))\<lparr>sv_runs := (sv_runs (pg_view env (pg_data s)))(run_id r \<mapsto> r)\<rparr>"
    if "row_run row = v" for row
    using assms(2) dec that by (auto simp: pg_wf_def pg_view_def hm_simps fun_eq_iff)
  then show ?thesis
    unfolding pg_upsert_iac_run_def wp_seq wp_json_result Inr sum.case
    by (intro pg_exec_wp) (simp add: sql_upsert_run_def del: fun_upd_apply, safe, simp_all split: option.split)
qed (simp add: pg_upsert_iac_run_def wp_simps)

lemma pg_get_iac_run_wp:
  assumes "pg_wf env (pg_data s)"
  shows "wp (pg_get_iac_run env u) (\<lambda>r s'. pg_data s' = pg_data s \<and> r = sv_runs (pg_view env (pg_data s)) u)
    (\<lambda>_ s'. pg_data s' = pg_data s) s"
  unfolding pg_get_iac_run_def
proof (rule wp_seqI [OF pg_exec_wp])
  show "d = pg_data s \<and> a = map_option row_run (hm_get (pg_iac_runs (pg_data s)) u)"
    if "sql_get_run env u (pg_data s) = Inr (a, d)" for a d
    using that by (auto simp: sql_get_run_def)
  fix a s' assume a: "pg_data s' = pg_data s \<and> a = map_option row_run (hm_get (pg_iac_runs (pg_data s)) u)"
  have dec: "\<exists>r. jc_run_of (pe_codec env) v = Inr r" if "a = Some v" for v
  proof -
    from a that have "map_option row_run (hm_get (pg_iac_runs (pg_data s)) u) = Some v" by simp
    then obtain row where "hm_get (pg_iac_runs (pg_data s)) u = Some row" "row_run row = v" by blast
    with wf_run_row [OF assms this(1)] show ?thesis by auto
  qed
  have "wp (from_json_opt (jc_run_of (pe_codec env)) a)
      (\<lambda>r t. r = pg_value (jc_run_of (pe_codec env)) a \<and> t = s') (\<lambda>_ t. t = s') s'"
    by (rule from_json_opt_wp) (rule dec)
  then show "wp (from_json_opt (jc_run_of (pe_codec env)) a)
      (\<lambda>r s'. pg_data s' = pg_data s \<and> r = sv_runs (pg_view env (pg_data s)) u) (\<lambda>_ s'. pg_data s' = pg_data s) s'"
    by (rule wp_mono) (use a in \<open>simp_all add: pg_view_def\<close>)
qed

subsection \<open>The refinement\<close>

lemma pg_view_ok: "pg_wf env d \<Longrightarrow> view_ok (pg_view env d)"
  by (simp add: view_ok_def view_enclave_iff)

text \<open>Each law of the locale from the lemma on its operation.\<close>

lemma pg_state_store:
  assumes "json_codec_ok (pe_codec env)"
  shows "state_store (postgres_ops env) (pg_abs env) (pg_inv env)"
  unfolding state_store_def pg_inv_def pg_abs_def postgres_ops_def store_ops.select_convs
  by (intro conjI allI impI;
      ((rule pg_view_ok, assumption) |
       (rule wp_mono [OF pg_get_enclave_wp], assumption) |
       (rule wp_mono [OF pg_list_enclaves_wp], assumption) |
       (rule wp_mono [OF pg_upsert_enclave_wp [OF assms]], assumption) |
       (rule wp_mono [OF pg_delete_enclave_wp], assumption) |
       (rule wp_mono [OF pg_append_event_wp [OF assms]], assumption) |
       (rule wp_mono [OF pg_list_events_wp], assumption) |
       (rule wp_mono [OF pg_upsert_iac_run_wp [OF assms]], assumption));
      auto)


subsection \<open>Terraform state\<close>

lemma pg_tf_wp:
  shows pg_get_tf_wp: "wp (pg_get_tf_state env k)
      (\<lambda>r s'. pg_data s' = pg_data s \<and> r = hm_get (pg_tf_state (pg_data s)) k) (\<lambda>_ s'. pg_data s' = pg_data s) s"
    and pg_put_tf_wp: "wp (pg_put_tf_state env k b)
      (\<lambda>_ s'. pg_data s' = (pg_data s)\<lparr>pg_tf_state := hm_insert k b (pg_tf_state (pg_data s))\<rparr>)
      (\<lambda>_ s'. pg_data s' = pg_data s) s"
    and pg_delete_tf_wp: "wp (pg_delete_tf_state env k)
      (\<lambda>_ s'. pg_data s' = (pg_data s)\<lparr>pg_tf_state := hm_remove k (pg_tf_state (pg_data s))\<rparr>)
      (\<lambda>_ s'. pg_data s' = pg_data s) s"
  unfolding pg_get_tf_state_def pg_put_tf_state_def pg_delete_tf_state_def
  by (rule pg_exec_wp; auto simp: sql_get_tf_state_def sql_put_tf_state_def sql_delete_tf_state_def)+

text \<open>The insertion and the reading of the holder are two statements; no other request comes between.\<close>

lemma pg_lock_tf_wp:
  "wp (pg_lock_tf_state env k info)
    (\<lambda>_ s'. hm_get (pg_tf_locks (pg_data s)) k = None \<and>
       pg_data s' = (pg_data s)\<lparr>pg_tf_locks := hm_insert k info (pg_tf_locks (pg_data s))\<rparr>)
    (\<lambda>e s'. pg_data s' = pg_data s \<and> (\<forall>h. e = LockConflict h \<longrightarrow> hm_get (pg_tf_locks (pg_data s)) k = Some h)) s"
proof -
  let ?d = "pg_data s" and ?held = "hm_get (pg_tf_locks (pg_data s)) k"
  have exec: "wp (pg_exec env q) (\<lambda>a s'. Q a (pg_data s')) (\<lambda>e s'. pg_data s' = pg_data t \<and> (\<forall>h. e \<noteq> LockConflict h)) t"
    if "\<And>a d. q (pg_data t) = Inr (a, d) \<Longrightarrow> Q a d" for q :: "'b sql" and Q t
    using that by (auto simp: wp_def pg_exec_def split: prod.splits option.splits sum.splits)
  have ins: "wp (pg_exec env (sql_insert_lock env k info))
      (\<lambda>n s'. if n = 0 then ?held \<noteq> None \<and> pg_data s' = ?d
         else ?held = None \<and> pg_data s' = ?d\<lparr>pg_tf_locks := hm_insert k info (pg_tf_locks ?d)\<rparr>)
      (\<lambda>e s'. pg_data s' = ?d \<and> (\<forall>h. e \<noteq> LockConflict h)) s"
    by (rule exec) (auto simp: sql_insert_lock_def split: option.splits)
  show ?thesis
    unfolding pg_lock_tf_state_def wp_seq
  proof (rule wp_mono [OF ins], goal_cases)
    case (1 n t)
    show ?case
    proof (cases "n = 0")
      case True
      have "wp (pg_exec env (sql_get_lock env k)) (\<lambda>row s'. row = ?held \<and> pg_data s' = ?d)
          (\<lambda>e s'. pg_data s' = pg_data t \<and> (\<forall>h. e \<noteq> LockConflict h)) t"
        by (rule exec) (use 1 True in \<open>auto simp: sql_get_lock_def\<close>)
      then show ?thesis
        unfolding wp_if wp_seq using 1 True by (auto simp: wp_throw split: option.split elim!: wp_mono)
    next
      case False
      then show ?thesis using 1 by (simp add: wp_ret)
    qed
  qed auto
qed

text \<open>What releases a lock here: the empty id, or the text of the ID of the holder.\<close>

definition pg_unlock_matches :: "'c pg_env \<Rightarrow> string \<Rightarrow> json \<Rightarrow> bool" where
  "pg_unlock_matches env lock_id holder \<longleftrightarrow> lock_id = [] \<or> jsonb_text env holder ''ID'' = Some lock_id"

lemma pg_unlock_tf_wp:
  "wp (pg_unlock_tf_state env k lock_id)
    (\<lambda>_ s'. hm_get (pg_tf_locks (pg_data s')) = (case hm_get (pg_tf_locks (pg_data s)) k of
         None \<Rightarrow> hm_get (pg_tf_locks (pg_data s))
       | Some h \<Rightarrow> if pg_unlock_matches env lock_id h
           then (hm_get (pg_tf_locks (pg_data s)))(k := None) else hm_get (pg_tf_locks (pg_data s))))
    (\<lambda>_ s'. pg_data s' = pg_data s) s"
proof (cases "lock_id = []")
  case True
  have "wp (pg_exec env (sql_delete_lock env k))
      (\<lambda>_ s'. hm_get (pg_tf_locks (pg_data s')) = (hm_get (pg_tf_locks (pg_data s)))(k := None))
      (\<lambda>_ s'. pg_data s' = pg_data s) s"
    by (rule pg_exec_wp) (auto simp: sql_delete_lock_def hm_simps simp del: fun_upd_apply)
  then show ?thesis
    using True by (auto simp: pg_unlock_tf_state_def pg_unlock_matches_def fun_upd_idem elim!: wp_mono split: option.split)
next
  case False
  then show ?thesis
    unfolding pg_unlock_tf_state_def
    by (simp only: if_False)
       (rule pg_exec_wp, auto simp: sql_delete_lock_of_def pg_unlock_matches_def hm_simps simp del: fun_upd_apply
          split: option.splits if_splits)
qed

text \<open>Which requests release the lock that \<open>info\<close> holds on \<open>k\<close>: no deletion of the state does.\<close>

definition pg_may_release :: "'c pg_env \<Rightarrow> string \<Rightarrow> json \<Rightarrow> tf_request \<Rightarrow> bool" where
  "pg_may_release env k info r = (case r of
     TfUnlock k' i \<Rightarrow> k' = k \<and> pg_unlock_matches env i info
   | _ \<Rightarrow> False)"

lemma pg_request_keeps_lock:
  assumes "hm_get (pg_tf_locks (pg_data s)) k = Some info" "\<not> pg_may_release env k info r"
  shows "hm_get (pg_tf_locks (pg_data (snd (tf_request_act (postgres_ops env) r s)))) k = Some info"
proof -
  let ?P = "\<lambda>s. hm_get (pg_tf_locks (pg_data s)) k = Some info"
  have "wp (tf_request_act (postgres_ops env) r) (\<lambda>_. ?P) (\<lambda>_. ?P) s"
  proof (cases r)
    case (TfGet k')
    then show ?thesis
      using assms by (auto simp: tf_request_act_def postgres_ops_def wp_simps intro: wp_mono [OF pg_get_tf_wp])
  next
    case (TfPut k' b)
    then show ?thesis
      using assms by (auto simp: tf_request_act_def postgres_ops_def intro: wp_mono [OF pg_put_tf_wp])
  next
    case (TfDelete k')
    then show ?thesis
      using assms by (auto simp: tf_request_act_def postgres_ops_def intro: wp_mono [OF pg_delete_tf_wp])
  next
    case (TfLock k' i)
    then show ?thesis
      using assms by (auto simp: tf_request_act_def postgres_ops_def hm_simps intro!: wp_mono [OF pg_lock_tf_wp])
  next
    case (TfUnlock k' i)
    then show ?thesis
      using assms by (auto simp: tf_request_act_def postgres_ops_def pg_may_release_def split: option.splits
          intro!: wp_mono [OF pg_unlock_tf_wp])
  qed
  then show ?thesis by (simp add: wp_snd)
qed

lemma pg_requests_keep_lock:
  assumes "hm_get (pg_tf_locks (pg_data s)) k = Some info" "list_all (\<lambda>r. \<not> pg_may_release env k info r) rs"
  shows "hm_get (pg_tf_locks (pg_data (tf_requests (postgres_ops env) rs s))) k = Some info"
  using assms
proof (induction rs arbitrary: s)
  case (Cons r rs)
  then show ?case using pg_request_keeps_lock [of s k info env r] by (simp add: tf_requests_def)
qed (simp add: tf_requests_def)

text \<open>
  C24. A lock that the PostgreSQL store has granted stays exclusive until an unlock request presents
  the text of its ID or the empty id: whatever other requests are served between, a later lock of
  the same key fails, naming the first holder when it reports a conflict. Deleting the state of the
  key is among them, and an ID that is a number is released by its decimal text; the in-memory store
  drops the lock with the state, and gives such an ID up only to the empty id.
\<close>
theorem pg_lock_exclusive:
  assumes "pg_lock_tf_state env k info s = (Inr (), s1)"
    and "list_all (\<lambda>r. \<not> pg_may_release env k info r) rs"
    and "pg_lock_tf_state env k other (tf_requests (postgres_ops env) rs s1) = (res, s2)"
  shows "(\<exists>e. res = Inl e \<and> (\<forall>h. e = LockConflict h \<longrightarrow> h = info)) \<and>
    \<not> pg_may_release env k info (TfDelete k) \<and>
    (\<forall>n. json_get info ''ID'' = Some (JNumber n) \<longrightarrow>
       pg_may_release env k info (TfUnlock k (pe_json_text env (JNumber n)))) \<and>
    (\<forall>m. fst (mem_lock_tf_state k other (snd (mem_delete_tf_state k m))) = Inr ()) \<and>
    (\<forall>n i. json_get info ''ID'' = Some (JNumber n) \<longrightarrow> unlock_matches i info \<longrightarrow> i = [])"
proof -
  have "hm_get (pg_tf_locks (pg_data s1)) k = Some info"
    using wp_InrD [OF pg_lock_tf_wp assms(1)] by (simp add: hm_simps)
  then have held: "hm_get (pg_tf_locks (pg_data (tf_requests (postgres_ops env) rs s1))) k = Some info"
    by (rule pg_requests_keep_lock [OF _ assms(2)])
  have "\<exists>e. res = Inl e \<and> (\<forall>h. e = LockConflict h \<longrightarrow> h = info)"
  proof (cases res)
    case (Inl e)
    then show ?thesis using wp_InlD [OF pg_lock_tf_wp, of env k other _ e s2] assms(3) held by auto
  next
    case (Inr u)
    then show ?thesis using wp_InrD [OF pg_lock_tf_wp, of env k other _ u s2] assms(3) held by auto
  qed
  moreover have "fst (mem_lock_tf_state k other (snd (mem_delete_tf_state k m))) = Inr ()" for m
    by (simp add: mem_lock_tf_state_def mem_delete_tf_state_def hm_simps)
  ultimately show ?thesis
    by (auto simp: pg_may_release_def pg_unlock_matches_def jsonb_text_def unlock_matches_def json_index_def json_as_str_def split: if_splits)
qed

subsection \<open>A server\<close>

text \<open>A codec for one event and a connection that never fails.\<close>

definition started_event :: audit_event where
  "started_event = ReconcileStarted 1 0 False"

definition sample_pg :: "unit pg_env" where
  "sample_pg = \<lparr>pe_link = (\<lambda>c. (None, c)), pe_nul_error = ''invalid byte sequence'', pe_seq_error = ''sequence exhausted'',
     pe_collation = id, pe_timestamptz = id, pe_json_text = (\<lambda>_. ''17''), pe_codec = \<lparr>
       jc_enclave = (\<lambda>_. Inl JsonError), jc_enclave_of = (\<lambda>_. Inl JsonError),
       jc_event = (\<lambda>ev. if ev = started_event then Inr (JNumber 1) else Inl JsonError),
       jc_event_of = (\<lambda>v. if v = JNumber 1 then Inr started_event else Inl JsonError),
       jc_run = (\<lambda>_. Inl JsonError), jc_run_of = (\<lambda>_. Inl JsonError)\<rparr>\<rparr>"

definition empty_server :: "unit pg_server" where
  "empty_server = \<lparr>pg_data = pg_empty, pg_conn = ()\<rparr>"

lemma sample_pg_codec: "json_codec_ok (pe_codec sample_pg)"
  by (auto simp: sample_pg_def json_codec_ok_def json_decodes_def split: if_splits)

lemma empty_server_inv: "pg_inv env empty_server"
  by (auto simp: pg_inv_def pg_wf_def empty_server_def pg_empty_def)


definition numbered_lock :: json where
  "numbered_lock = JObject [(''ID'', JNumber 17)]"

theorem pg_lock_exclusive_witness:
  "\<exists>s1 e s2. pg_lock_tf_state sample_pg ''e/p'' numbered_lock empty_server = (Inr (), s1) \<and>
     pg_lock_tf_state sample_pg ''e/p'' JNull
       (tf_requests (postgres_ops sample_pg) [TfDelete ''e/p'', TfUnlock ''e/p'' ''18''] s1) = (Inl e, s2) \<and>
     (\<forall>h. e = LockConflict h \<longrightarrow> h = numbered_lock)"
proof -
  have nul: "\<not> has_nul ''e/p''" "\<not> json_has_nul numbered_lock"
    by (simp_all add: has_nul_def numbered_lock_def)
  let ?s1 = "empty_server\<lparr>pg_data := pg_empty\<lparr>pg_tf_locks := hm_insert ''e/p'' numbered_lock []\<rparr>\<rparr>"
  have lock: "pg_lock_tf_state sample_pg ''e/p'' numbered_lock empty_server = (Inr (), ?s1)"
    by (simp add: pg_lock_tf_state_def seq_def pg_exec_def sample_pg_def empty_server_def pg_empty_def
        sql_insert_lock_def bound_def nul ret_def)
  obtain res s2 where res: "pg_lock_tf_state sample_pg ''e/p'' JNull
      (tf_requests (postgres_ops sample_pg) [TfDelete ''e/p'', TfUnlock ''e/p'' ''18''] ?s1) = (res, s2)" by fastforce
  have "list_all (\<lambda>r. \<not> pg_may_release sample_pg ''e/p'' numbered_lock r) [TfDelete ''e/p'', TfUnlock ''e/p'' ''18'']"
    by (simp add: pg_may_release_def pg_unlock_matches_def jsonb_text_def numbered_lock_def json_get_def sample_pg_def)
  from pg_lock_exclusive [OF lock this res] res lock show ?thesis by blast
qed

end
