(* ===== verification/Cloud_Client.thy ===== *)
theory Cloud_Client
  imports Driver_Interface Utf8
begin

section \<open>Calls to the clouds\<close>

text \<open>
  What the drivers of the three clouds share. \<open>cloud_net\<close> is the HTTP client \<open>reqwest\<close> together with
  the sleeping timer: it sends a call and gets a reply or fails with a message, and time passes.
  A reply has its status, its headers, its body as text, and its body decoded as JSON; reading either
  form of the body can fail. The clouds themselves are in the state \<open>'x\<close> of the outside world.

  A panic of a driver is modelled as the error \<open>driver_panic\<close>.
\<close>

datatype call_body =
    NoContent
  | JsonContent json
  | FormContent "(string \<times> string) list"
  | TextContent string

record http_call =
  call_verb :: string
  call_url :: string
  call_query :: "(string \<times> string) list"
  call_headers :: "(string \<times> string) list"
  call_bearer :: "string option"
  call_body :: call_body

record cloud_reply =
  rp_status :: nat
  rp_headers :: "(string, string) hashmap"
  rp_text :: "(string, string) result"
  rp_json :: "(string, json) result"

record 'x cloud_net =
  cn_send :: "http_call \<Rightarrow> ('x, string, cloud_reply) act"
  cn_sleep :: "nat \<Rightarrow> 'x \<Rightarrow> 'x"

type_synonym ('x, 'a) cloud_act = "('x, driver_error, 'a) act"

definition bearer_call :: "string \<Rightarrow> string \<Rightarrow> string \<Rightarrow> call_body \<Rightarrow> http_call" where
  "bearer_call verb url token b = \<lparr>call_verb = verb, call_url = url, call_query = [], call_headers = [],
     call_bearer = Some token, call_body = b\<rparr>"

text \<open>\<open>send().await.map_err(f)?\<close>, \<open>json().await.map_err(f)?\<close>, and the bodies with a default.\<close>

definition send_call :: "'x cloud_net \<Rightarrow> (string \<Rightarrow> driver_error) \<Rightarrow> http_call \<Rightarrow> ('x, cloud_reply) cloud_act" where
  "send_call net f call = map_err f (cn_send net call)"

definition decode_json :: "(string \<Rightarrow> driver_error) \<Rightarrow> cloud_reply \<Rightarrow> ('x, json) cloud_act" where
  "decode_json f r = lift_result (map_sum f id (rp_json r))"

definition json_or_null :: "cloud_reply \<Rightarrow> json" where
  "json_or_null r = (case rp_json r of Inr v \<Rightarrow> v | Inl _ \<Rightarrow> JNull)"

definition text_or_empty :: "cloud_reply \<Rightarrow> string" where
  "text_or_empty r = (case rp_text r of Inr t \<Rightarrow> t | Inl _ \<Rightarrow> [])"

definition is_success :: "nat \<Rightarrow> bool" where
  "is_success n \<longleftrightarrow> 200 \<le> n \<and> n < 300"

definition sleep_for :: "'x cloud_net \<Rightarrow> nat \<Rightarrow> ('x, unit) cloud_act" where
  "sleep_for net d = (\<lambda>x. (Inr (), cn_sleep net d x))"

definition driver_panic :: "string \<Rightarrow> driver_error" where
  "driver_panic msg = DriverInternal (''panic: '' @ msg)"

definition or_error :: "driver_error \<Rightarrow> 'a option \<Rightarrow> ('x, 'a) cloud_act" where
  "or_error e v = (case v of None \<Rightarrow> throw e | Some a \<Rightarrow> ret a)"

text \<open>A call whose failure is only logged.\<close>

definition ignore_failure :: "('x, 'a) cloud_act \<Rightarrow> ('x, unit) cloud_act" where
  "ignore_failure m = seq (attempt m) (\<lambda>_. ret ())"

subsection \<open>Values in replies and handles\<close>

definition json_str_at :: "json \<Rightarrow> string \<Rightarrow> string option" where
  "json_str_at v k = json_as_str (json_index v k)"

definition str_or :: "string \<Rightarrow> string option \<Rightarrow> string" where
  "str_or d s = (case s of None \<Rightarrow> d | Some t \<Rightarrow> t)"

definition json_array_of :: "json \<Rightarrow> json list option" where
  "json_array_of v = (case v of JArray vs \<Rightarrow> Some vs | _ \<Rightarrow> None)"

definition json_is_true :: "json \<Rightarrow> bool" where
  "json_is_true v \<longleftrightarrow> v = JBool True"

definition json_u64 :: "json \<Rightarrow> nat option" where
  "json_u64 v = (case v of JNumber n \<Rightarrow> if 0 \<le> n \<and> n < 2 ^ 64 then Some (nat n) else None | _ \<Rightarrow> None)"

definition json_first :: "json \<Rightarrow> json option" where
  "json_first v = (case json_array_of v of Some (x # _) \<Rightarrow> Some x | _ \<Rightarrow> None)"

definition first_some :: "'a option list \<Rightarrow> 'a option" where
  "first_some xs = (case dropWhile (\<lambda>x. x = None) xs of [] \<Rightarrow> None | x # _ \<Rightarrow> x)"

definition skip_handle :: "handle \<Rightarrow> provision_result" where
  "skip_handle h = \<lparr>pr_handle = h, pr_outputs = []\<rparr>"

definition driver_kind :: "handle \<Rightarrow> string \<Rightarrow> string \<Rightarrow> bool" where
  "driver_kind h drv kind \<longleftrightarrow> json_str_at h ''driver'' = Some drv \<and> json_str_at h ''kind'' = Some kind"

text \<open>What a finished process leaves.\<close>

record process_result =
  pc_success :: bool
  pc_stdout :: string
  pc_stderr :: string

definition insert_opt :: "string \<Rightarrow> string option \<Rightarrow> (string, string) hashmap \<Rightarrow> (string, string) hashmap" where
  "insert_opt k v m = (case v of None \<Rightarrow> m | Some s \<Rightarrow> hm_insert k s m)"

text \<open>\<open>s.parse()\<close> of an unsigned integer below a bound: digits, a plus sign allowed in front.\<close>

definition digits_value :: "string \<Rightarrow> nat" where
  "digits_value s = foldl (\<lambda>n c. 10 * n + (of_char c - 48)) 0 s"

definition parse_below :: "nat \<Rightarrow> string \<Rightarrow> nat option" where
  "parse_below bound s =
     (let ds = (case strip_prefix ''+'' s of Some r \<Rightarrow> r | None \<Rightarrow> s)
      in if ds \<noteq> [] \<and> list_all is_digit ds \<and> digits_value ds < bound then Some (digits_value ds) else None)"

definition em_dash :: string where
  "em_dash = [CHR '' '', CHR 0xE2, CHR 0x80, CHR 0x94, CHR '' '']"

definition quote1 :: "string \<Rightarrow> string" where
  "quote1 s = [CHR 0x27] @ s @ [CHR 0x27]"

text \<open>The test on the text of an error, and the first six digits of a 64-bit hash.\<close>

definition error_mentions :: "unicode \<Rightarrow> string \<Rightarrow> driver_error \<Rightarrow> bool" where
  "error_mentions uc pat e \<longleftrightarrow> str_contains pat (to_lowercase uc (driver_error_str e))"

definition hex64 :: "64 word \<Rightarrow> string" where
  "hex64 w = map (\<lambda>i. hex_digit (unat (drop_bit (4 * i) w) mod 16)) (rev [0 ..< 16])"

definition short_hash :: "64 word \<Rightarrow> string" where
  "short_hash w = take 6 (hex64 w)"

lemma length_short_hash [simp]: "length (short_hash w) = 6"
  by (simp add: short_hash_def hex64_def)

subsection \<open>Polling\<close>

text \<open>\<open>delays.iter().cycle().take(n)\<close>.\<close>

definition cycle_take :: "nat \<Rightarrow> nat list \<Rightarrow> nat list" where
  "cycle_take n ds = map (\<lambda>i. ds ! (i mod length ds)) [0 ..< n]"

definition poll_delays :: "nat list" where
  "poll_delays = cycle_take 120 [1, 2, 4, 8, 16, 30]"

text \<open>The loop of the three drivers: ask; when there is no answer yet, sleep and ask again.\<close>

primrec poll_loop :: "'x cloud_net \<Rightarrow> ('x, 'a option) cloud_act \<Rightarrow> nat list \<Rightarrow> ('x, 'a option) cloud_act" where
  "poll_loop net check [] = ret None"
| "poll_loop net check (d # ds) = seq check (\<lambda>r. case r of
     Some a \<Rightarrow> ret (Some a)
   | None \<Rightarrow> seq (sleep_for net d) (\<lambda>_. poll_loop net check ds))"

lemma poll_delays_total: "length poll_delays = 120" "sum_list poll_delays = 1220"
  by (simp add: poll_delays_def cycle_take_def) code_simp

text \<open>A meter of the outside world: it counts the calls that were sent and the seconds that were slept.\<close>

definition metered :: "'x cloud_net \<Rightarrow> ('x \<Rightarrow> nat) \<Rightarrow> ('x \<Rightarrow> nat) \<Rightarrow> bool" where
  "metered net sent slept \<longleftrightarrow>
     (\<forall>c x. sent (snd (cn_send net c x)) = Suc (sent x) \<and> slept (snd (cn_send net c x)) = slept x) \<and>
     (\<forall>d x. sent (cn_sleep net d x) = sent x \<and> slept (cn_sleep net d x) = slept x + d)"

lemma wp_sleep_for [wp_simps]: "wp (sleep_for net d) Q E x = Q () (cn_sleep net d x)"
  by (simp add: wp_def sleep_for_def)

lemma wp_send_call [wp_simps]: "wp (send_call net f c) Q E x = wp (cn_send net c) Q (\<lambda>e. E (f e)) x"
  by (simp add: send_call_def wp_map_err)

lemma wp_decode_json [wp_simps]:
  "wp (decode_json f r) Q E x = (case rp_json r of Inl e \<Rightarrow> E (f e) x | Inr v \<Rightarrow> Q v x)"
  by (simp add: decode_json_def wp_lift_result split: sum.split)

lemma wp_or_error [wp_simps]:
  "wp (or_error e v) Q E x = (case v of None \<Rightarrow> E e x | Some a \<Rightarrow> Q a x)"
  by (simp add: or_error_def wp_simps split: option.split)

lemma wp_metered_send:
  assumes "metered net sent slept" "P (Suc (sent x)) (slept x)"
  shows "wp (cn_send net c) (\<lambda>_ x'. P (sent x') (slept x')) (\<lambda>_ x'. P (sent x') (slept x')) x"
  using assms by (simp add: metered_def wp_snd [where P = "\<lambda>x'. P (sent x') (slept x')"])

lemma poll_loop_bounds:
  assumes net: "metered net sent slept"
    and check: "\<And>x. wp check (\<lambda>_ x'. sent x' = Suc (sent x) \<and> slept x' = slept x)
      (\<lambda>e x'. sent x' = Suc (sent x) \<and> slept x' = slept x) x"
  shows "wp (poll_loop net check ds)
    (\<lambda>r x'. sent x' \<le> sent x + length ds \<and> slept x' \<le> slept x + sum_list ds \<and>
       (r = None \<longrightarrow> sent x' = sent x + length ds \<and> slept x' = slept x + sum_list ds))
    (\<lambda>e x'. sent x' \<le> sent x + length ds \<and> slept x' \<le> slept x + sum_list ds) x"
proof (induction ds arbitrary: x)
  case Nil
  then show ?case by (simp add: wp_ret)
next
  case (Cons d ds)
  show ?case
    unfolding poll_loop.simps wp_seq
  proof (rule wp_mono [OF check [of x]], goal_cases)
    case (1 r y)
    show ?case
    proof (cases r)
      case None
      have "sent (cn_sleep net d y) = Suc (sent x)" "slept (cn_sleep net d y) = slept x + d"
        using 1 net by (simp_all add: metered_def)
      then show ?thesis
        unfolding None option.case wp_seq wp_sleep_for
        by (intro wp_mono [OF Cons.IH]) auto
    qed (use 1 in \<open>simp add: wp_ret\<close>)
  qed auto
qed

end
