(* ===== verification/Cloud_Names.thy ===== *)
theory Cloud_Names
  imports Cloud_Client
begin

section \<open>Names in the clouds\<close>

text \<open>
  How the drivers derive the names of cloud resources from the ids of enclaves and partitions:
  \<open>sanitize_project_id\<close> and \<open>partition_sa_id\<close> of \<open>crates/nclav-driver/src/gcp.rs\<close>,
  \<open>sanitize_subscription_alias\<close> and \<open>partition_mi_name\<close> of \<open>azure.rs\<close>, \<open>sanitize_account_name\<close> and
  \<open>partition_role_name\<close> of \<open>aws.rs\<close>. The hash of \<open>DefaultHasher\<close> and SHA-256 are arguments. The theorems
  give the bounds that hold and show where the documented rules of the clouds are not met.
\<close>

subsection \<open>Google Cloud\<close>

text \<open>The loop over the characters, with the result so far and whether its last character was a hyphen.\<close>

fun project_id_loop :: "string list \<Rightarrow> string \<Rightarrow> bool \<Rightarrow> string" where
  "project_id_loop [] out prev_hyphen = out"
| "project_id_loop (ch # chs) out prev_hyphen =
     (if length out = 30 then out
      else if (case ch of [c] \<Rightarrow> is_lower_ascii c \<or> is_digit c | _ \<Rightarrow> False)
        then project_id_loop chs (out @ ch) False
      else if \<not> prev_hyphen \<and> out \<noteq> [] then project_id_loop chs (out @ ''-'') True
      else project_id_loop chs out prev_hyphen)"

definition sanitize_project_id :: "unicode \<Rightarrow> string \<Rightarrow> string" where
  "sanitize_project_id uc raw =
     (let out = project_id_loop (str_chars (to_lowercase uc raw)) [] True
      in if ends_with ''-'' out then butlast out else out)"

definition sanitize_display_name :: "unicode \<Rightarrow> string \<Rightarrow> string" where
  "sanitize_display_name uc name = join_strs '' '' (split_whitespace uc (concat (map (\<lambda>ch.
     if char_alphanumeric uc ch \<or> ch \<in> {'' '', ''-'', [CHR 0x27], [CHR 0x22], ''!''} then ch else '' '') (str_chars name))))"

definition partition_sa_id :: "(string \<Rightarrow> 64 word) \<Rightarrow> string \<Rightarrow> string option" where
  "partition_sa_id hash partition_id =
     (let candidate = ''partition-'' @ partition_id in
      if length candidate \<le> 28 then Some candidate
      else map_option (\<lambda>truncated.
        let name = ''pt-'' @ truncated @ ''-'' @ short_hash (hash partition_id)
        in trim_end_matches (CHR ''-'') (map (\<lambda>ch. case ch of
             [c] \<Rightarrow> if is_alnum_ascii c \<or> c = CHR ''-'' then lower_ascii c else CHR ''-'' | _ \<Rightarrow> CHR ''-'') (str_chars name)))
        (slice_to (min 19 (length partition_id)) partition_id))"

subsection \<open>Azure\<close>

fun alias_loop :: "string list \<Rightarrow> string \<Rightarrow> string" where
  "alias_loop [] out = out"
| "alias_loop (ch # chs) out =
     (if length out = 63 then out
      else if (case ch of [c] \<Rightarrow> is_alnum_ascii c \<or> c \<in> {CHR ''-'', CHR ''_'', CHR ''.''} | _ \<Rightarrow> False)
        then alias_loop chs (out @ ch)
      else if out \<noteq> [] \<and> \<not> ends_with ''-'' out then alias_loop chs (out @ ''-'')
      else alias_loop chs out)"

definition sanitize_subscription_alias :: "string \<Rightarrow> string" where
  "sanitize_subscription_alias raw =
     rev (dropWhile (\<lambda>c. \<not> is_alnum_ascii c) (rev (alias_loop (str_chars raw) [])))"

definition partition_mi_name :: "(string \<Rightarrow> 64 word) \<Rightarrow> string \<Rightarrow> string option" where
  "partition_mi_name hash partition_id =
     (let candidate = ''partition-'' @ partition_id in
      if length candidate \<le> 64 then Some candidate
      else map_option (\<lambda>truncated. ''pt-'' @ truncated @ ''-'' @ short_hash (hash partition_id))
        (slice_to (min 19 (length partition_id)) partition_id))"

subsection \<open>AWS\<close>

definition hex2 :: "8 word \<Rightarrow> string" where
  "hex2 b = [hex_digit (unat b div 16), hex_digit (unat b mod 16)]"

definition sanitize_account_name :: "unicode \<Rightarrow> string \<Rightarrow> string option" where
  "sanitize_account_name uc name =
     (let cleaned = map (\<lambda>ch. if char_alphanumeric uc ch \<or> ch = '' '' \<or> ch = ''-'' then ch else ''-'') (str_chars name);
          front = dropWhile (\<lambda>ch. \<not> char_alphanumeric uc ch) cleaned;
          trimmed = concat (rev (dropWhile (\<lambda>ch. \<not> char_alphanumeric uc ch) (rev front)))
      in if length trimmed > 50 then slice_to 50 trimmed else Some trimmed)"

definition partition_role_name :: "(string \<Rightarrow> 8 word list) \<Rightarrow> string \<Rightarrow> string option" where
  "partition_role_name sha partition_id =
     (let prefix = ''nclav-partition-''; base = prefix @ partition_id in
      if length base \<le> 64 then Some base
      else let hash = concat (map hex2 (take 4 (sha partition_id)))
        in map_option (\<lambda>truncated. prefix @ truncated @ ''-'' @ hash)
             (slice_to (64 - length prefix - 1 - length hash) partition_id))"

subsection \<open>Bounds\<close>

definition project_char :: "char \<Rightarrow> bool" where
  "project_char c \<longleftrightarrow> is_lower_ascii c \<or> is_digit c \<or> c = CHR ''-''"

abbreviation no_hyphens :: "char \<Rightarrow> char \<Rightarrow> bool" where
  "no_hyphens a b \<equiv> \<not> (a = CHR ''-'' \<and> b = CHR ''-'')"

definition project_prefix_ok :: "string \<Rightarrow> bool" where
  "project_prefix_ok s \<longleftrightarrow> length s \<le> 30 \<and> list_all project_char s \<and> (s \<noteq> [] \<longrightarrow> hd s \<noteq> CHR ''-'') \<and>
     successively no_hyphens s"

lemma hyphen_no_letter: "is_lower_ascii c \<or> is_digit c \<Longrightarrow> c \<noteq> CHR ''-''"
  by (auto simp: is_lower_ascii_def is_digit_def)

lemma project_id_loop_ok:
  assumes "project_prefix_ok out" "out \<noteq> [] \<longrightarrow> (prev \<longleftrightarrow> last out = CHR ''-'')"
  shows "project_prefix_ok (project_id_loop chs out prev)"
  using assms
proof (induction chs out prev rule: project_id_loop.induct)
  case (2 ch chs out prev)
  show ?case
  proof (cases "length out = 30")
    case True
    then show ?thesis using 2 by simp
  next
    case False
    show ?thesis
    proof (cases "case ch of [c] \<Rightarrow> is_lower_ascii c \<or> is_digit c | _ \<Rightarrow> False")
      case True
      then obtain c where c: "ch = [c]" "is_lower_ascii c \<or> is_digit c" by (auto split: list.splits)
      have "project_prefix_ok (out @ [c])"
        using 2(4) False c hyphen_no_letter [OF c(2)]
        by (auto simp: project_prefix_ok_def project_char_def successively_append_iff hd_append)
      then show ?thesis
        using 2(1) [OF False True] False True c hyphen_no_letter [OF c(2)] by simp
    next
      case nl: False
      show ?thesis
      proof (cases "\<not> prev \<and> out \<noteq> []")
        case True
        have "project_prefix_ok (out @ ''-'')"
          using 2(4,5) False True by (auto simp: project_prefix_ok_def project_char_def successively_append_iff)
        then show ?thesis using 2(2) [OF False nl True] False nl True by simp
      next
        case no: False
        then show ?thesis using 2(3) [OF False nl no 2(4,5)] False nl by auto
      qed
    qed
  qed
qed simp

lemma project_id_ok:
  shows "project_prefix_ok (sanitize_project_id uc raw)" "sanitize_project_id uc raw \<noteq> [] \<Longrightarrow> last (sanitize_project_id uc raw) \<noteq> CHR ''-''"
proof -
  define out where "out = project_id_loop (str_chars (to_lowercase uc raw)) [] True"
  have ok: "project_prefix_ok out"
    unfolding out_def by (rule project_id_loop_ok) (simp_all add: project_prefix_ok_def)
  have s: "sanitize_project_id uc raw = (if ends_with ''-'' out then butlast out else out)"
    by (simp add: sanitize_project_id_def out_def Let_def)
  have "project_prefix_ok (sanitize_project_id uc raw) \<and>
      (sanitize_project_id uc raw \<noteq> [] \<longrightarrow> last (sanitize_project_id uc raw) \<noteq> CHR ''-'')"
  proof (cases "ends_with ''-'' out")
    case True
    then obtain t where t: "out = t @ ''-''" by (auto simp: ends_with_iff)
    then have "sanitize_project_id uc raw = t" by (simp add: s)
    then show ?thesis
      using ok t by (cases t rule: rev_cases) (auto simp: project_prefix_ok_def successively_append_iff hd_append split: if_splits)
  next
    case False
    then have "out \<noteq> [] \<longrightarrow> last out \<noteq> CHR ''-''"
      by (cases out rule: rev_cases) (auto simp: ends_with_iff)
    then show ?thesis using ok False by (simp add: s)
  qed
  then show "project_prefix_ok (sanitize_project_id uc raw)"
      "sanitize_project_id uc raw \<noteq> [] \<Longrightarrow> last (sanitize_project_id uc raw) \<noteq> CHR ''-''" by auto
qed

lemma sanitize_simple:
  "sanitize_project_id uc ''9'' = ''9''" "sanitize_project_id uc ''!'' = []"
  "sanitize_project_id uc ''team.a'' = ''team-a''" "sanitize_project_id uc ''Team-A'' = ''team-a''"
  by code_simp+

text \<open>
  C35. The project id of an enclave: at most thirty characters, all of them lower-case letters, digits
  and hyphens, none of the hyphens first, last or doubled, whatever the enclave is called. The other
  two rules that the comment claims, at least six characters and a letter first, are not enforced,
  and different enclaves get the same project: those whose ids differ in case or in a special
  character, and those that agree on thirty good characters.
\<close>
theorem project_id_rules:
  "(let s = sanitize_project_id uc raw in
      length s \<le> 30 \<and> list_all project_char s \<and> successively no_hyphens s \<and>
      (s \<noteq> [] \<longrightarrow> hd s \<noteq> CHR ''-'' \<and> last s \<noteq> CHR ''-'')) \<and>
   sanitize_project_id uc ''9'' = ''9'' \<and> sanitize_project_id uc ''!'' = [] \<and>
   sanitize_project_id uc ''team.a'' = sanitize_project_id uc ''Team-A''"
  using project_id_ok [of uc raw] sanitize_simple by (simp add: Let_def project_prefix_ok_def)

theorem project_id_rules_witness:
  "let uc = \<lparr>uc_alphanumeric = (\<lambda>_. False), uc_white = (\<lambda>_. False), uc_lower = id\<rparr>;
       s = sanitize_project_id uc ''-My  App! (dev)'' in
     s = ''my-app-dev'' \<and> successively no_hyphens s \<and> hd s \<noteq> CHR ''-'' \<and> last s \<noteq> CHR ''-''"
proof -
  let ?uc = "\<lparr>uc_alphanumeric = (\<lambda>_. False), uc_white = (\<lambda>_. False), uc_lower = id\<rparr> :: unicode"
  have s: "sanitize_project_id ?uc ''-My  App! (dev)'' = ''my-app-dev''" by code_simp
  show ?thesis using project_id_rules [of ?uc "''-My  App! (dev)''"] by (simp add: Let_def s)
qed

subsection \<open>Accounts, roles and identities\<close>

lemma ascii_not_cont: "is_alnum_ascii c \<Longrightarrow> \<not> is_cont c"
  by (auto simp: is_alnum_ascii_def is_lower_ascii_def is_upper_ascii_def is_digit_def is_cont_def)

definition ascii_id :: "string \<Rightarrow> bool" where
  "ascii_id s \<longleftrightarrow> list_all (\<lambda>c. (of_char c :: nat) < 128) s"

lemma ascii_no_cont: "ascii_id s \<Longrightarrow> list_all (\<lambda>c. \<not> is_cont c) s"
  by (auto simp: ascii_id_def is_cont_def list_all_iff)

lemma ascii_slice: "ascii_id s \<Longrightarrow> n \<le> length s \<Longrightarrow> slice_to n s = Some (take n s)"
  using nth_mem [of n s] by (fastforce simp: slice_to_def ascii_id_def is_cont_def list_all_iff)

lemma hex_digit_range: "n < 16 \<Longrightarrow> (of_char (hex_digit n) :: nat) \<in> {48..57} \<union> {97..102}"
  by (auto simp: hex_digit_def)

lemma short_hash_chars: "c \<in> set (short_hash w) \<Longrightarrow> is_lower_ascii c \<or> is_digit c"
proof -
  assume "c \<in> set (short_hash w)"
  then obtain n where "c = hex_digit n" "n < 16"
    by (auto simp: short_hash_def hex64_def dest!: in_set_takeD)
  with hex_digit_range [of n] show ?thesis by (auto simp: is_lower_ascii_def is_digit_def)
qed

lemma ascii_chars: "ascii_id s \<Longrightarrow> str_chars s = map (\<lambda>c. [c]) s"
  by (rule str_chars_ascii [OF ascii_no_cont])

lemma alnum_ascii: "is_alnum_ascii c \<Longrightarrow> (of_char c :: nat) < 128"
  by (auto simp: is_alnum_ascii_def is_lower_ascii_def is_upper_ascii_def is_digit_def)

lemma short_hash_ascii: "ascii_id (short_hash w)"
  unfolding ascii_id_def list_all_iff
  by (intro ballI alnum_ascii) (use short_hash_chars is_alnum_ascii_def in blast)

text \<open>
  The account id of a partition's service account: a partition id of at most 18 bytes is kept as
  it is, so that capitals and special characters reach the cloud; every longer id in ASCII gives an id
  of 29 characters, of which 28 were to be the limit, that is made of lower-case letters, digits and
  hyphens and ends in six digits of a hash of the whole partition id.
\<close>
lemma partition_sa_id_bounds:
  "(length p \<le> 18 \<longrightarrow> partition_sa_id hash p = Some (''partition-'' @ p)) \<and>
   (18 < length p \<and> ascii_id p \<longrightarrow> (\<exists>s. partition_sa_id hash p = Some (s @ short_hash (hash p)) \<and>
      length (s @ short_hash (hash p)) = 29 \<and> list_all project_char (s @ short_hash (hash p))))"
proof (intro conjI impI)
  assume "length p \<le> 18"
  then show "partition_sa_id hash p = Some (''partition-'' @ p)" by (simp add: partition_sa_id_def Let_def)
next
  assume p: "18 < length p \<and> ascii_id p"
  let ?h = "short_hash (hash p)"
  let ?f = "\<lambda>c. if is_alnum_ascii c \<or> c = CHR ''-'' then lower_ascii c else CHR ''-''"
  let ?s = "''pt-'' @ map ?f (take 19 p) @ ''-''"
  have digit: "is_lower_ascii c \<or> is_digit c" if "c \<in> set ?h" for c using short_hash_chars [OF that] .
  have same: "?f c = c" if "is_lower_ascii c \<or> is_digit c" for c
    using that by (auto simp: is_alnum_ascii_def lower_ascii_def is_lower_ascii_def is_digit_def is_upper_ascii_def)
  have h: "map ?f ?h = ?h" by (rule map_idI) (use digit same in blast)
  define name where "name = ''pt-'' @ take 19 p @ ''-'' @ ?h"
  have "ascii_id name"
    using p short_hash_ascii [of "hash p"]
    by (auto simp: name_def ascii_id_def list_all_iff dest: in_set_takeD)
  then have "map (\<lambda>ch. case ch of [c] \<Rightarrow> ?f c | _ \<Rightarrow> CHR ''-'') (str_chars name) = map ?f name"
    by (simp add: ascii_chars)
  moreover have "map ?f ''pt-'' = ''pt-''" "?f (CHR ''-'') = CHR ''-''" by code_simp+
  then have "map ?f name = ?s @ ?h"
    unfolding name_def map_append h by simp
  moreover have "trim_end_matches (CHR ''-'') (?s @ ?h) = ?s @ ?h"
  proof -
    obtain cs c where h: "?h = cs @ [c]" using length_short_hash [of "hash p"] by (cases ?h rule: rev_cases) auto
    then have "c \<noteq> CHR ''-''" using digit [of c] hyphen_no_letter by auto
    then show ?thesis by (simp add: trim_end_matches_def h)
  qed
  moreover have "slice_to 19 p = Some (take 19 p)" using p by (intro ascii_slice) auto
  moreover have "\<not> length (''partition-'' @ p) \<le> 28" "min 19 (length p) = 19" using p by simp_all
  ultimately have "partition_sa_id hash p = Some (?s @ ?h)"
    unfolding partition_sa_id_def Let_def name_def by (simp only: if_False option.map)
  moreover have "list_all project_char (?s @ ?h)"
  proof -
    have pc: "project_char (?f c)" for c
      by (auto simp: project_char_def is_alnum_ascii_def lower_ascii_def is_lower_ascii_def is_upper_ascii_def is_digit_def)
    have "list_all project_char (map ?f xs)" for xs
      by (induction xs) (simp_all only: list.map list.pred_inject pc simp_thms)
    moreover have "list_all project_char ?h" using digit by (auto simp: list_all_iff project_char_def)
    moreover have "list_all project_char ''pt-''" "list_all project_char ''-''" by code_simp+
    ultimately show ?thesis unfolding list_all_append by (intro conjI)
  qed
  ultimately show "\<exists>s. partition_sa_id hash p = Some (s @ ?h) \<and> length (s @ ?h) = 29 \<and> list_all project_char (s @ ?h)"
    using p by (intro exI [of _ ?s]) simp
qed

end
