(* ===== verification/Gcp_Client.thy ===== *)
theory Gcp_Client
  imports Cloud_Names Local_Driver
begin

section \<open>The client of Google Cloud\<close>

text \<open>
  The first half of \<open>crates/nclav-driver/src/gcp.rs\<close>: the configuration and its validation, the text of
  an error reply, the polling of operations, POST requests, the read-modify-write of an IAM policy, and
  \<open>provision_platform\<close>. The record \<open>gcp\<close> is the driver with what it is given: the network, the token
  source of \<open>gcp_auth\<close>, the decoder of base64, the hash, and the facts about Unicode.
\<close>

record gcp_config =
  gcf_parent :: string
  gcf_billing_account :: string
  gcf_default_region :: string
  gcf_project_prefix :: "string option"

record gcp_urls =
  gu_resourcemanager :: string
  gu_compute :: string
  gu_run :: string
  gu_iam :: string
  gu_pubsub :: string
  gu_serviceusage :: string
  gu_cloudbilling :: string
  gu_dns :: string
  gu_cloudasset :: string

definition gcp_default_urls :: gcp_urls where
  "gcp_default_urls = \<lparr>
     gu_resourcemanager = ''https://cloudresourcemanager.googleapis.com'',
     gu_compute = ''https://compute.googleapis.com'',
     gu_run = ''https://run.googleapis.com'',
     gu_iam = ''https://iam.googleapis.com'',
     gu_pubsub = ''https://pubsub.googleapis.com'',
     gu_serviceusage = ''https://serviceusage.googleapis.com'',
     gu_cloudbilling = ''https://cloudbilling.googleapis.com'',
     gu_dns = ''https://dns.googleapis.com'',
     gu_cloudasset = ''https://cloudasset.googleapis.com''\<rparr>"

definition required_apis :: "string list" where
  "required_apis = [
     ''compute.googleapis.com'', ''run.googleapis.com'', ''iam.googleapis.com'',
     ''cloudresourcemanager.googleapis.com'', ''dns.googleapis.com'', ''pubsub.googleapis.com'',
     ''sqladmin.googleapis.com'', ''servicenetworking.googleapis.com'',
     ''cloudbilling.googleapis.com'', ''cloudasset.googleapis.com'']"

record 'x gcp =
  gcp_cfg :: gcp_config
  gcp_net :: "'x cloud_net"
  gcp_auth :: "('x, string, string) act"
  gcp_base :: gcp_urls
  gcp_key_file :: "path option"
  gcp_unicode :: unicode
  gcp_hash :: "string \<Rightarrow> 64 word"
  gcp_base64 :: "string \<Rightarrow> (string, 8 word list) result"

subsection \<open>Configuration\<close>

definition parent_ok :: "string \<Rightarrow> bool" where
  "parent_ok parent \<longleftrightarrow>
     (starts_with ''folders/'' parent \<or> starts_with ''organizations/'' parent) \<and>
     (case splitn2 (CHR ''/'') parent of
        [_, i] \<Rightarrow> i \<noteq> [] \<and> list_all is_digit i
      | _ \<Rightarrow> False)"

definition billing_id_of :: "unicode \<Rightarrow> string \<Rightarrow> string option" where
  "billing_id_of uc billing =
     (if starts_with ''billingaccounts/'' (to_lowercase uc billing)
      then map_option (\<lambda>i. drop (i + 1) billing) (str_find ''/'' billing)
      else Some billing)"

definition billing_id_ok :: "string \<Rightarrow> bool" where
  "billing_id_ok billing_id \<longleftrightarrow>
     (let parts = split_char (CHR ''-'') billing_id
      in length parts = 3 \<and> list_all (\<lambda>p. length p = 6 \<and> list_all is_alnum_ascii p) parts)"

definition validate_config :: "unicode \<Rightarrow> gcp_config \<Rightarrow> (driver_error, gcp_config) result" where
  "validate_config uc cfg =
     (if \<not> parent_ok (gcf_parent cfg) then
        Inl (DriverInternal (''GCP parent must be '' @ quote1 ''folders/NUMERIC_ID'' @ '' or '' @
          quote1 ''organizations/NUMERIC_ID'' @ '', got: '' @ str_debug (gcf_parent cfg) @
          ''. Run `gcloud resource-manager folders list --organization=NUMERIC_ORG_ID` to find the numeric ID.''))
      else case billing_id_of uc (gcf_billing_account cfg) of
        None \<Rightarrow> Inl (driver_panic ''called `Option::unwrap()` on a `None` value'')
      | Some billing_id \<Rightarrow>
          if \<not> billing_id_ok billing_id then
            Inl (DriverInternal (''GCP billing account must be '' @
              quote1 ''billingAccounts/XXXXXX-YYYYYY-ZZZZZZ'' @ '', got: '' @
              str_debug (gcf_billing_account cfg) @
              ''. Run `gcloud billing accounts list` to find your billing account ID.''))
          else Inr (cfg\<lparr>gcf_billing_account := ''billingAccounts/'' @ billing_id\<rparr>))"

text \<open>
  \<open>from_adc\<close> and \<open>from_key_file\<close>. Finding the default credentials, and loading the key file, are
  parameters: they return the token source or the text of an error.
\<close>

definition gcp_from_adc :: "'x gcp \<Rightarrow> ('x, string, ('x, string, string) act) act \<Rightarrow> gcp_config \<Rightarrow> ('x, 'x gcp) cloud_act" where
  "gcp_from_adc env provider cfg =
     seq (lift_result (validate_config (gcp_unicode env) cfg)) (\<lambda>cfg.
     seq (map_err (\<lambda>e. DriverInternal (''Failed to initialise GCP ADC: '' @ e)) provider) (\<lambda>auth.
     ret (env\<lparr>gcp_cfg := cfg, gcp_auth := auth, gcp_base := gcp_default_urls, gcp_key_file := None\<rparr>)))"

definition gcp_from_key_file ::
  "'x gcp \<Rightarrow> (path \<Rightarrow> (string, ('x, string, string) act) result) \<Rightarrow> gcp_config \<Rightarrow> path \<Rightarrow> (driver_error, 'x gcp) result" where
  "gcp_from_key_file env load cfg key_path =
     bindR (validate_config (gcp_unicode env) cfg) (\<lambda>cfg.
     case load key_path of
       Inl e \<Rightarrow> Inl (DriverInternal (''Failed to load GCP SA key from '' @ str_debug key_path @ '': '' @ e))
     | Inr auth \<Rightarrow> Inr (env\<lparr>gcp_cfg := cfg, gcp_auth := auth, gcp_base := gcp_default_urls,
         gcp_key_file := Some key_path\<rparr>))"

definition gcp_bearer :: "'x gcp \<Rightarrow> ('x, string) cloud_act" where
  "gcp_bearer d = map_err (\<lambda>e. DriverInternal (''GCP auth failed: '' @ e)) (gcp_auth d)"

definition gcp_project_id :: "'x gcp \<Rightarrow> string \<Rightarrow> string" where
  "gcp_project_id d enclave_id = sanitize_project_id (gcp_unicode d)
     (case gcf_project_prefix (gcp_cfg d) of
        Some prefix \<Rightarrow> if prefix \<noteq> [] then prefix @ ''-'' @ enclave_id else enclave_id
      | None \<Rightarrow> enclave_id)"

subsection \<open>Error replies\<close>

definition gcp_error_detail :: "json \<Rightarrow> string list" where
  "gcp_error_detail d =
     (case json_str_at d ''reason'' of
        None \<Rightarrow> []
      | Some reason \<Rightarrow>
          let meta = (case json_as_object (json_index d ''metadata'') of
                None \<Rightarrow> [] | Some m \<Rightarrow> List.map_filter (\<lambda>(_, v). json_as_str v) m)
          in [if meta = [] then reason else reason @ em_dash @ join_strs '', '' meta]) @
     (case json_array_of (json_index d ''fieldViolations'') of
        None \<Rightarrow> []
      | Some violations \<Rightarrow> map (\<lambda>v. ''field '' @ quote1 (str_or ''?'' (json_str_at v ''field'')) @ '': '' @
          str_or ''invalid'' (json_str_at v ''description'')) violations)"

definition extract_gcp_error :: "json \<Rightarrow> string" where
  "extract_gcp_error body =
     (let err = json_index body ''error'';
          status = str_or ''UNKNOWN'' (json_str_at err ''status'');
          message = str_or ''unknown error'' (json_str_at err ''message'');
          parts = (case json_array_of (json_index err ''details'') of
            None \<Rightarrow> [] | Some details \<Rightarrow> concat (map gcp_error_detail details))
      in if parts = [] then status @ '': '' @ message
         else status @ '': '' @ message @ '' ('' @ join_strs ''; '' parts @ '')'')"

subsection \<open>Operations\<close>

definition operation_done :: "json \<Rightarrow> bool" where
  "operation_done resp \<longleftrightarrow> json_is_true (json_index resp ''done'') \<or> json_str_at resp ''status'' = Some ''DONE''"

definition operation_result :: "json \<Rightarrow> (driver_error, json) result" where
  "operation_result resp =
     (let err = json_index resp ''error''; response = Inr (json_index resp ''response'')
      in case json_array_of (json_index err ''errors'') of
           Some (e # _) \<Rightarrow> Inl (ProvisionFailed (''operation failed: '' @
             str_or ''operation failed'' (json_str_at e ''message'')))
         | Some [] \<Rightarrow> response
         | None \<Rightarrow>
             if json_as_object err \<noteq> None
             then Inl (ProvisionFailed (''operation failed: '' @ extract_gcp_error (json_object [(''error'', err)])))
             else response)"

definition gcp_poll :: "'x gcp \<Rightarrow> string \<Rightarrow> string \<Rightarrow> ('x, json option) cloud_act" where
  "gcp_poll d token op_url =
     seq (send_call (gcp_net d) (\<lambda>e. DriverInternal (''poll '' @ op_url @ '': '' @ e))
       (bearer_call ''GET'' op_url token NoContent)) (\<lambda>r.
     seq (decode_json (\<lambda>e. DriverInternal (''poll decode: '' @ e)) r) (\<lambda>resp.
     if operation_done resp then seq (lift_result (operation_result resp)) (\<lambda>v. ret (Some v)) else ret None))"

definition wait_for_operation :: "'x gcp \<Rightarrow> string \<Rightarrow> ('x, json) cloud_act" where
  "wait_for_operation d op_url =
     seq (gcp_bearer d) (\<lambda>token.
     seq (poll_loop (gcp_net d) (gcp_poll d token op_url) poll_delays) (\<lambda>r.
     or_error (ProvisionFailed (''GCP operation timed out after '' @ nat_str 120 @ '' polls: '' @ op_url)) r))"

text \<open>\<open>if let Some(op_name) = op["name"].as_str()\<close>, then wait for the operation of that name.\<close>

definition wait_if_named :: "'x gcp \<Rightarrow> (string \<Rightarrow> string) \<Rightarrow> json \<Rightarrow> ('x, unit) cloud_act" where
  "wait_if_named d op_url op = (case json_str_at op ''name'' of
     None \<Rightarrow> ret ()
   | Some op_name \<Rightarrow> seq (wait_for_operation d (op_url op_name)) (\<lambda>_. ret ()))"

subsection \<open>POST requests\<close>

definition gcp_post :: "'x gcp \<Rightarrow> string \<Rightarrow> string \<Rightarrow> json \<Rightarrow> ('x, json) cloud_act" where
  "gcp_post d url token b =
     seq (send_call (gcp_net d) (\<lambda>e. ProvisionFailed (''POST '' @ url @ '': '' @ e))
       (bearer_call ''POST'' url token (JsonContent b))) (\<lambda>r.
     seq (decode_json (\<lambda>e. DriverInternal (''POST '' @ url @ '' decode: '' @ e)) r) (\<lambda>resp.
     if json_get resp ''error'' \<noteq> None
     then throw (ProvisionFailed (''POST '' @ url @ '': '' @ extract_gcp_error resp))
     else ret resp))"

definition already_exists :: "'x gcp \<Rightarrow> driver_error \<Rightarrow> bool" where
  "already_exists d e \<longleftrightarrow> error_mentions (gcp_unicode d) ''already exists'' e"

text \<open>A POST that creates something; \<open>None\<close> when the cloud says that it already exists.\<close>

definition gcp_create :: "'x gcp \<Rightarrow> string \<Rightarrow> string \<Rightarrow> json \<Rightarrow> ('x, json option) cloud_act" where
  "gcp_create d url token b = seq (attempt (gcp_post d url token b)) (\<lambda>r. case r of
     Inr op \<Rightarrow> ret (Some op)
   | Inl e \<Rightarrow> if already_exists d e then ret None else throw e)"

subsection \<open>Policies\<close>

text \<open>
  The change of the bindings that gives a member a role: nothing when it has it, the new list of
  bindings, or the panic of a binding without a list of members.
\<close>

datatype binding_change = AlreadyBound | Rebound "json list" | MembersPanic

definition keep_binding :: "json \<Rightarrow> binding_change \<Rightarrow> binding_change" where
  "keep_binding b c = (case c of Rebound rest' \<Rightarrow> Rebound (b # rest') | _ \<Rightarrow> c)"

primrec add_binding :: "string \<Rightarrow> string \<Rightarrow> json list \<Rightarrow> binding_change" where
  "add_binding member role [] =
     Rebound [json_object [(''role'', JString role), (''members'', JArray [JString member])]]"
| "add_binding member role (b # rest) =
     (if json_str_at b ''role'' = Some role then
        (case json_array_of (json_index b ''members'') of
           None \<Rightarrow> MembersPanic
         | Some members \<Rightarrow>
             if list_ex (\<lambda>m. json_as_str m = Some member) members then AlreadyBound
             else (case json_index_set b ''members'' (JArray (members @ [JString member])) of
                 None \<Rightarrow> MembersPanic | Some b' \<Rightarrow> Rebound (b' # rest)))
      else keep_binding b (add_binding member role rest))"

text \<open>
  \<open>ensure_iam_role_binding\<close>. Its callers take errors as values, so its result is a value here; what it
  throws is its panic, which no caller catches.
\<close>

definition policy_body :: "json list \<Rightarrow> json" where
  "policy_body bindings = json_object [(''policy'', json_object [(''version'', JNumber 1), (''bindings'', JArray bindings)])]"

definition bindings_of :: "json \<Rightarrow> json list" where
  "bindings_of policy = (case json_array_of (json_index policy ''bindings'') of None \<Rightarrow> [] | Some bindings \<Rightarrow> bindings)"

definition ensure_iam_role_binding ::
  "'x gcp \<Rightarrow> string \<Rightarrow> string \<Rightarrow> string \<Rightarrow> string \<Rightarrow> ('x, (driver_error, unit) result) cloud_act" where
  "ensure_iam_role_binding d token resource_url member role =
     seq (attempt (gcp_post d (resource_url @ '':getIamPolicy'') token (json_object []))) (\<lambda>r.
     let current_policy = (case r of Inr policy \<Rightarrow> policy
           | Inl _ \<Rightarrow> json_object [(''version'', JNumber 1), (''bindings'', JArray [])])
     in case add_binding member role (bindings_of current_policy) of
          MembersPanic \<Rightarrow> throw (driver_panic ''called `Option::unwrap()` on a `None` value'')
        | AlreadyBound \<Rightarrow> ret (Inr ())
        | Rebound bindings \<Rightarrow>
            seq (attempt (gcp_post d (resource_url @ '':setIamPolicy'') token (policy_body bindings)))
              (\<lambda>r. ret (map_sum id (\<lambda>_. ()) r)))"

subsection \<open>The platform\<close>

definition platform_project_id :: "'x gcp \<Rightarrow> string" where
  "platform_project_id d = (case gcf_project_prefix (gcp_cfg d) of
     Some prefix \<Rightarrow> if prefix \<noteq> [] then sanitize_project_id (gcp_unicode d) (prefix @ ''-nclav'') else ''nclav''
   | None \<Rightarrow> ''nclav'')"

definition sa_email_of :: "string \<Rightarrow> string \<Rightarrow> string" where
  "sa_email_of sa_id project_id = sa_id @ ''@'' @ project_id @ ''.iam.gserviceaccount.com''"

text \<open>Create a service account; its address is that of the reply, or the one that follows from the names.\<close>

definition create_account :: "'x gcp \<Rightarrow> string \<Rightarrow> string \<Rightarrow> string \<Rightarrow> string \<Rightarrow> ('x, string) cloud_act" where
  "create_account d token project_id sa_id display =
     seq (gcp_create d (gu_iam (gcp_base d) @ ''/v1/projects/'' @ project_id @ ''/serviceAccounts'') token
       (json_object [(''accountId'', JString sa_id),
          (''serviceAccount'', json_object [(''displayName'', JString display)])])) (\<lambda>r.
     ret (case r of
        Some resp \<Rightarrow> str_or (sa_email_of sa_id project_id) (json_str_at resp ''email'')
      | None \<Rightarrow> sa_email_of sa_id project_id))"

definition enable_apis :: "'x gcp \<Rightarrow> string \<Rightarrow> string \<Rightarrow> string list \<Rightarrow> ('x, unit) cloud_act" where
  "enable_apis d token project_id apis =
     seq (gcp_post d (gu_serviceusage (gcp_base d) @ ''/v1/projects/'' @ project_id @ ''/services:batchEnable'') token
       (json_object [(''serviceIds'', json_list JString apis)]))
     (wait_if_named d (\<lambda>op_name. gu_serviceusage (gcp_base d) @ ''/v1/'' @ op_name))"

text \<open>A grant whose refusal with \<open>PERMISSION_DENIED\<close> is only a warning.\<close>

definition grant_or_warn :: "'x gcp \<Rightarrow> string \<Rightarrow> string \<Rightarrow> string \<Rightarrow> string \<Rightarrow> ('x, unit) cloud_act" where
  "grant_or_warn d token resource_url member role =
     seq (ensure_iam_role_binding d token resource_url member role) (\<lambda>r. case r of
       Inr _ \<Rightarrow> ret ()
     | Inl e \<Rightarrow> if str_contains ''PERMISSION_DENIED'' (driver_error_str e) then ret () else throw e)"

definition create_platform_project :: "'x gcp \<Rightarrow> string \<Rightarrow> string \<Rightarrow> ('x, unit) cloud_act" where
  "create_platform_project d token pid =
     seq (gcp_create d (gu_resourcemanager (gcp_base d) @ ''/v3/projects'') token (json_object [
       (''projectId'', JString pid), (''displayName'', JString ''nclav Platform''),
       (''parent'', JString (gcf_parent (gcp_cfg d)))])) (\<lambda>r. case r of
       None \<Rightarrow> ret ()
     | Some op \<Rightarrow>
         seq (or_error (ProvisionFailed ''create platform project: no operation name'') (json_str_at op ''name'')) (\<lambda>op_name.
         seq (wait_for_operation d (gu_resourcemanager (gcp_base d) @ ''/v3/'' @ op_name)) (\<lambda>_. ret ())))"

definition decode_key :: "'x gcp \<Rightarrow> json \<Rightarrow> (driver_error, string) result" where
  "decode_key d key_resp = (case json_str_at key_resp ''privateKeyData'' of
     None \<Rightarrow> Inl (ProvisionFailed ''SA key creation: no privateKeyData in response'')
   | Some key_b64 \<Rightarrow> (case gcp_base64 d key_b64 of
       Inl e \<Rightarrow> Inl (DriverInternal (''decode SA key: '' @ e))
     | Inr key_bytes \<Rightarrow> (case from_utf8 key_bytes of
         None \<Rightarrow> Inl (DriverInternal (''SA key is not valid UTF-8: '' @ utf8_error_str key_bytes))
       | Some key_json \<Rightarrow> Inr key_json)))"

definition provision_platform :: "'x gcp \<Rightarrow> ('x, string \<times> string) cloud_act" where
  "provision_platform d =
     seq (gcp_bearer d) (\<lambda>token.
     let pid = platform_project_id d; base = gcp_base d; cfg = gcp_cfg d in
     seq (create_platform_project d token pid) (\<lambda>_.
     seq (enable_apis d token pid
       [''cloudresourcemanager.googleapis.com'', ''cloudbilling.googleapis.com'', ''iam.googleapis.com'']) (\<lambda>_.
     seq (create_account d token pid ''nclav-server'' ''nclav Server'') (\<lambda>sa_email.
     seq (grant_or_warn d token (gu_resourcemanager base @ ''/v3/'' @ gcf_parent cfg)
       (''serviceAccount:'' @ sa_email) ''roles/resourcemanager.projectCreator'') (\<lambda>_.
     seq (grant_or_warn d token (gu_cloudbilling base @ ''/v1/'' @ gcf_billing_account cfg)
       (''serviceAccount:'' @ sa_email) ''roles/billing.user'') (\<lambda>_.
     seq (gcp_post d (gu_iam base @ ''/v1/projects/'' @ pid @ ''/serviceAccounts/'' @ sa_email @ ''/keys'') token
       (json_object [])) (\<lambda>key_resp.
     seq (lift_result (decode_key d key_resp)) (\<lambda>key_json.
     ret (sa_email, key_json)))))))))"

end
