(* ===== verification/Gcp_Driver.thy ===== *)
theory Gcp_Driver
  imports Gcp_Client
begin

section \<open>The driver of Google Cloud\<close>

text \<open>
  The second half of \<open>crates/nclav-driver/src/gcp.rs\<close>: the operations of the trait \<open>Driver\<close>. The steps of
  \<open>provision_enclave\<close> are definitions of their own, in the order of the source.
\<close>

abbreviation gcp_get :: "'x gcp \<Rightarrow> (string \<Rightarrow> driver_error) \<Rightarrow> string \<Rightarrow> string \<Rightarrow> ('x, cloud_reply) cloud_act" where
  "gcp_get d f token url \<equiv> send_call (gcp_net d) f (bearer_call ''GET'' url token NoContent)"

definition project_url :: "'x gcp \<Rightarrow> string \<Rightarrow> string" where
  "project_url d pid = gu_resourcemanager (gcp_base d) @ ''/v3/projects/'' @ pid"

definition rm_operation :: "'x gcp \<Rightarrow> string \<Rightarrow> string" where
  "rm_operation d op_name = gu_resourcemanager (gcp_base d) @ ''/v3/'' @ op_name"

definition compute_url :: "'x gcp \<Rightarrow> string \<Rightarrow> string \<Rightarrow> string" where
  "compute_url d pid path = gu_compute (gcp_base d) @ ''/compute/v1/projects/'' @ pid @ path"

subsection \<open>Provisioning an enclave\<close>

definition handle_complete :: "handle \<Rightarrow> string option" where
  "handle_complete h =
     (if json_is_true (json_index h ''provisioning_complete'') then json_str_at h ''project_id'' else None)"

text \<open>The result when the handle is complete and its project answers.\<close>

definition gcp_skip :: "'x gcp \<Rightarrow> string \<Rightarrow> handle option \<Rightarrow> ('x, provision_result option) cloud_act" where
  "gcp_skip d token existing = (case existing of
     None \<Rightarrow> ret None
   | Some h \<Rightarrow> (case handle_complete h of
       None \<Rightarrow> ret None
     | Some pid \<Rightarrow>
         seq (gcp_get d DriverInternal token (project_url d pid)) (\<lambda>resp.
         ret (if is_success (rp_status resp) then Some \<lparr>pr_handle = h, pr_outputs = []\<rparr> else None))))"

definition gcp_adopt_project :: "'x gcp \<Rightarrow> string \<Rightarrow> string \<Rightarrow> ('x, string) cloud_act" where
  "gcp_adopt_project d token pid =
     seq (gcp_get d DriverInternal token (project_url d pid)) (\<lambda>r.
     seq (decode_json DriverInternal r) (\<lambda>project.
     seq (if json_str_at project ''lifecycleState'' = Some ''DELETE_REQUESTED'' then
            seq (gcp_post d (project_url d pid @ '':undelete'') token (json_object []))
              (wait_if_named d (rm_operation d))
          else ret ()) (\<lambda>_.
     ret (str_or [] (json_str_at project ''projectNumber'')))))"

definition gcp_create_project :: "'x gcp \<Rightarrow> string \<Rightarrow> enclave \<Rightarrow> string \<Rightarrow> ('x, string) cloud_act" where
  "gcp_create_project d token enc pid =
     seq (gcp_create d (gu_resourcemanager (gcp_base d) @ ''/v3/projects'') token (json_object [
       (''projectId'', JString pid),
       (''displayName'', JString (sanitize_display_name (gcp_unicode d) (enc_name enc))),
       (''parent'', JString (gcf_parent (gcp_cfg d)))])) (\<lambda>r. case r of
       Some op \<Rightarrow>
         seq (or_error (ProvisionFailed ''create project: no operation name'') (json_str_at op ''name'')) (\<lambda>op_name.
         seq (wait_for_operation d (rm_operation d op_name)) (\<lambda>project_resp.
         ret (str_or [] (json_str_at project_resp ''projectNumber''))))
     | None \<Rightarrow> gcp_adopt_project d token pid)"

definition gcp_label_project :: "'x gcp \<Rightarrow> string \<Rightarrow> enclave \<Rightarrow> string \<Rightarrow> ('x, unit) cloud_act" where
  "gcp_label_project d token enc pid =
     (let label_url = project_url d pid in
      seq (send_call (gcp_net d) (\<lambda>e. ProvisionFailed (''PATCH project labels '' @ label_url @ '': '' @ e))
        ((bearer_call ''PATCH'' label_url token (JsonContent (json_object [(''labels'', json_object [
            (''nclav-managed'', JString ''true''), (''nclav-enclave'', JString (eid_str (enc_id enc)))])])))
          \<lparr>call_query := [(''updateMask'', ''labels'')]\<rparr>)) (\<lambda>label_op.
      if is_success (rp_status label_op) then
        (case json_str_at (json_or_null label_op) ''name'' of
           None \<Rightarrow> ret ()
         | Some op_name \<Rightarrow> ignore_failure (wait_for_operation d (rm_operation d op_name)))
      else ret ()))"

definition gcp_link_billing :: "'x gcp \<Rightarrow> string \<Rightarrow> string \<Rightarrow> ('x, unit) cloud_act" where
  "gcp_link_billing d token pid =
     (let billing_url = gu_cloudbilling (gcp_base d) @ ''/v1/projects/'' @ pid @ ''/billingInfo'' in
      seq (send_call (gcp_net d) (\<lambda>e. ProvisionFailed (''PUT '' @ billing_url @ '': '' @ e))
        (bearer_call ''PUT'' billing_url token (JsonContent (json_object [
          (''billingAccountName'', JString (gcf_billing_account (gcp_cfg d)))])))) (\<lambda>resp.
      if \<not> is_success (rp_status resp)
      then throw (ProvisionFailed (''PUT '' @ billing_url @ '': '' @ extract_gcp_error (json_or_null resp)))
      else ret ()))"

definition enclave_sa_id :: "enclave \<Rightarrow> string \<Rightarrow> string" where
  "enclave_sa_id enc pid = str_or pid (enc_identity enc)"

definition vpc_link :: "string \<Rightarrow> string" where
  "vpc_link pid = ''https://www.googleapis.com/compute/v1/projects/'' @ pid @ ''/global/networks/nclav-vpc''"

text \<open>Create a compute resource and wait for the operation; nothing to wait for when it exists.\<close>

definition compute_create :: "'x gcp \<Rightarrow> string \<Rightarrow> string \<Rightarrow> (string \<Rightarrow> string) \<Rightarrow> json \<Rightarrow> ('x, unit) cloud_act" where
  "compute_create d token url op_url b =
     seq (gcp_create d url token b) (\<lambda>r. case r of
       None \<Rightarrow> ret ()
     | Some op \<Rightarrow> wait_if_named d op_url op)"

definition gcp_create_vpc :: "'x gcp \<Rightarrow> string \<Rightarrow> enclave \<Rightarrow> string \<Rightarrow> ('x, string) cloud_act" where
  "gcp_create_vpc d token enc pid =
     (if enc_network enc \<noteq> None then
        seq (compute_create d token (compute_url d pid ''/global/networks'')
          (\<lambda>op_name. compute_url d pid (''/global/operations/'' @ op_name))
          (json_object [(''name'', JString ''nclav-vpc''), (''autoCreateSubnetworks'', JBool False)])) (\<lambda>_.
        ret (vpc_link pid))
      else ret [])"

definition gcp_create_subnet ::
  "'x gcp \<Rightarrow> string \<Rightarrow> string \<Rightarrow> string \<Rightarrow> string \<Rightarrow> nat \<times> string \<Rightarrow> ('x, unit) cloud_act" where
  "gcp_create_subnet d token pid region vpc = (\<lambda>(i, cidr).
     compute_create d token (compute_url d pid (''/regions/'' @ region @ ''/subnetworks''))
       (\<lambda>op_name. compute_url d pid (''/regions/'' @ region @ ''/operations/'' @ op_name))
       (json_object [
         (''name'', JString (''subnet-'' @ nat_str i)), (''network'', JString vpc),
         (''ipCidrRange'', JString cidr), (''region'', JString region),
         (''privateIpGoogleAccess'', JBool True)]))"

definition gcp_create_subnets :: "'x gcp \<Rightarrow> string \<Rightarrow> enclave \<Rightarrow> string \<Rightarrow> string \<Rightarrow> ('x, unit) cloud_act" where
  "gcp_create_subnets d token enc pid vpc = (case enc_network enc of
     None \<Rightarrow> ret ()
   | Some network \<Rightarrow>
       foldM (\<lambda>s _. gcp_create_subnet d token pid (enc_region enc) vpc s) (List.enumerate 0 (net_subnets network)) ())"

definition gcp_create_zone :: "'x gcp \<Rightarrow> string \<Rightarrow> enclave \<Rightarrow> string \<Rightarrow> string \<Rightarrow> ('x, string) cloud_act" where
  "gcp_create_zone d token enc pid vpc = (case Option.bind (enc_dns enc) dns_zone of
     None \<Rightarrow> ret []
   | Some zone \<Rightarrow>
       seq (gcp_create d (gu_dns (gcp_base d) @ ''/dns/v1/projects/'' @ pid @ ''/managedZones'') token (json_object [
         (''name'', JString ''nclav-zone''), (''dnsName'', JString (zone @ ''.'')),
         (''description'', JString ''nclav managed private DNS zone''), (''visibility'', JString ''private''),
         (''privateVisibilityConfig'', json_object [
            (''networks'', JArray [json_object [(''networkUrl'', JString vpc)]])])])) (\<lambda>_.
       ret ''nclav-zone''))"

definition gcp_provision_enclave :: "'x gcp \<Rightarrow> enclave \<Rightarrow> handle option \<Rightarrow> ('x, provision_result) cloud_act" where
  "gcp_provision_enclave d enc existing =
     seq (gcp_bearer d) (\<lambda>token.
     let pid = gcp_project_id d (eid_str (enc_id enc)) in
     seq (gcp_skip d token existing) (\<lambda>skip. case skip of Some r \<Rightarrow> ret r | None \<Rightarrow>
     seq (gcp_create_project d token enc pid) (\<lambda>project_number.
     seq (gcp_label_project d token enc pid) (\<lambda>_.
     seq (gcp_link_billing d token pid) (\<lambda>_.
     seq (enable_apis d token pid required_apis) (\<lambda>_.
     seq (create_account d token pid (enclave_sa_id enc pid) (enc_name enc)) (\<lambda>sa_email.
     seq (gcp_create_vpc d token enc pid) (\<lambda>vpc_self_link.
     seq (gcp_create_subnets d token enc pid vpc_self_link) (\<lambda>_.
     seq (gcp_create_zone d token enc pid vpc_self_link) (\<lambda>dns_zone_name.
     ret \<lparr>pr_handle = json_object [
         (''driver'', JString ''gcp''), (''kind'', JString ''enclave''), (''project_id'', JString pid),
         (''project_number'', JString project_number), (''service_account_email'', JString sa_email),
         (''vpc_self_link'', JString vpc_self_link), (''dns_zone_name'', JString dns_zone_name),
         (''region'', JString (enc_region enc)), (''provisioning_complete'', JBool True)],
       pr_outputs = []\<rparr>))))))))))"

definition gcp_teardown_enclave :: "'x gcp \<Rightarrow> enclave \<Rightarrow> handle \<Rightarrow> ('x, unit) cloud_act" where
  "gcp_teardown_enclave d enc h =
     seq (gcp_bearer d) (\<lambda>token.
     seq (send_call (gcp_net d) TeardownFailed
       (bearer_call ''DELETE'' (project_url d (gcp_project_id d (eid_str (enc_id enc)))) token NoContent)) (\<lambda>resp.
     if \<not> is_success (rp_status resp) \<and> rp_status resp \<noteq> 404
     then throw (TeardownFailed (extract_gcp_error (json_or_null resp)))
     else ret ()))"

subsection \<open>Partitions\<close>

text \<open>A grant whose failure is only a warning.\<close>

definition grant_or_ignore :: "'x gcp \<Rightarrow> string \<Rightarrow> string \<Rightarrow> string \<Rightarrow> string \<Rightarrow> ('x, unit) cloud_act" where
  "grant_or_ignore d token resource_url member role =
     seq (ensure_iam_role_binding d token resource_url member role) (\<lambda>_. ret ())"

definition gcp_provision_partition ::
  "'x gcp \<Rightarrow> enclave \<Rightarrow> partition \<Rightarrow> (string, string) hashmap \<Rightarrow> handle option \<Rightarrow> ('x, provision_result) cloud_act" where
  "gcp_provision_partition d enc p inputs existing =
     seq (gcp_bearer d) (\<lambda>token.
     let pid = gcp_project_id d (eid_str (enc_id enc)); partition_id = pid_str (part_id p);
         accounts = gu_iam (gcp_base d) @ ''/v1/projects/'' @ pid @ ''/serviceAccounts'' in
     seq (or_error (driver_panic ''byte index 19 is not a char boundary'') (partition_sa_id (gcp_hash d) partition_id)) (\<lambda>sa_id.
     let partition_sa = sa_email_of sa_id pid in
     seq (gcp_create d accounts token (json_object [
       (''accountId'', JString sa_id),
       (''serviceAccount'', json_object [
          (''displayName'', JString (''nclav '' @ eid_str (enc_id enc) @ ''/'' @ partition_id))])])) (\<lambda>_.
     seq (grant_or_ignore d token (accounts @ ''/'' @ partition_sa)
       (''serviceAccount:'' @ sa_email_of (enclave_sa_id enc pid) pid) ''roles/iam.serviceAccountTokenCreator'') (\<lambda>_.
     seq (grant_or_ignore d token (project_url d pid) (''serviceAccount:'' @ partition_sa) ''roles/editor'') (\<lambda>_.
     ret \<lparr>pr_handle = json_object [
         (''driver'', JString ''gcp''), (''kind'', JString ''partition''), (''type'', JString ''iac''),
         (''project_id'', JString pid), (''partition_sa'', JString partition_sa)],
       pr_outputs = []\<rparr>)))))"

definition gcp_teardown_partition :: "'x gcp \<Rightarrow> enclave \<Rightarrow> partition \<Rightarrow> handle \<Rightarrow> ('x, unit) cloud_act" where
  "gcp_teardown_partition d enc p h =
     seq (gcp_bearer d) (\<lambda>token. case json_str_at h ''partition_sa'' of
       None \<Rightarrow> ret ()
     | Some sa_email \<Rightarrow>
         seq (send_call (gcp_net d) TeardownFailed (bearer_call ''DELETE''
           (gu_iam (gcp_base d) @ ''/v1/projects/'' @ gcp_project_id d (eid_str (enc_id enc)) @
            ''/serviceAccounts/'' @ sa_email) token NoContent)) (\<lambda>_. ret ()))"

subsection \<open>Exports\<close>

definition gcp_provision_export ::
  "'x gcp \<Rightarrow> enclave \<Rightarrow> export \<Rightarrow> (string, string) hashmap \<Rightarrow> handle option \<Rightarrow> ('x, provision_result) cloud_act" where
  "gcp_provision_export d enc x partition_outputs existing =
     seq (gcp_bearer d) (\<lambda>token.
     let pid = gcp_project_id d (eid_str (enc_id enc));
         finish = (\<lambda>kvs. ret \<lparr>pr_handle = json_object ([(''driver'', JString ''gcp''), (''kind'', JString ''export'')] @ kvs @
            [(''project_id'', JString pid), (''export_name'', JString (exp_name x)), (''outputs'', json_string_map partition_outputs)]),
          pr_outputs = partition_outputs\<rparr>)
     in case exp_export_type x of
       ExpHttp \<Rightarrow>
         let service_name = ''projects/'' @ pid @ ''/locations/'' @ enc_region enc @ ''/services/'' @
               pid_str (exp_target_partition x) in
         seq (if exp_auth x = AuthNone then
                seq (gcp_post d (gu_run (gcp_base d) @ ''/v2/'' @ service_name @ '':setIamPolicy'') token
                  (json_object [(''policy'', json_object [(''bindings'', JArray [json_object [
                     (''role'', JString ''roles/run.invoker''), (''members'', JArray [JString ''allUsers''])]])])]))
                  (\<lambda>_. ret ())
              else ret ()) (\<lambda>_.
         finish [(''type'', JString ''http''), (''cloud_run_service'', JString service_name),
           (''iam_bindings_applied'', if exp_auth x = AuthNone then JArray [JString ''allUsers:roles/run.invoker''] else JArray [])])
     | ExpTcp \<Rightarrow>
         seq (or_error (ProvisionFailed (''tcp export '' @ quote1 (exp_name x) @ '': partition must declare '' @
             quote1 ''psc_service_attachment'' @
             '' in its outputs. Catalog services (Cloud SQL, AlloyDB, Memorystore) support this natively'' @ em_dash @
             ''enable PSC on the service in Terraform and output '' @ quote1 ''psc_service_attachment_link'' @ ''.''))
           (hm_get partition_outputs ''psc_service_attachment'')) (\<lambda>service_attachment.
         finish [(''type'', JString ''tcp''), (''region'', JString (enc_region enc)),
           (''service_attachment'', JString service_attachment)])
     | ExpQueue \<Rightarrow>
         finish [(''type'', JString ''queue''), (''topic'', JString (str_or [] (hm_get partition_outputs ''queue_url'')))])"

subsection \<open>Imports\<close>

text \<open>The entries of the object \<open>outputs\<close> of the export handle that are strings.\<close>

definition exported_outputs :: "handle \<Rightarrow> (string, string) hashmap" where
  "exported_outputs h = (case json_as_object (json_index h ''outputs'') of
     None \<Rightarrow> [] | Some m \<Rightarrow> string_entries m)"

definition gcp_endpoint_address :: "'x gcp \<Rightarrow> string \<Rightarrow> string \<Rightarrow> string \<Rightarrow> string \<Rightarrow> ('x, string \<times> string) cloud_act" where
  "gcp_endpoint_address d token project region ip_name =
     (let get_addr_url = compute_url d project (''/regions/'' @ region @ ''/addresses/'' @ ip_name) in
      seq (gcp_get d (\<lambda>e. ProvisionFailed (''GET '' @ get_addr_url @ '': '' @ e)) token get_addr_url) (\<lambda>r.
      seq (decode_json (\<lambda>e. DriverInternal (''GET '' @ get_addr_url @ '' decode: '' @ e)) r) (\<lambda>addr_resp.
      seq (or_error (ProvisionFailed (''PSC endpoint address GET returned no '' @ quote1 ''address'' @ '' field''))
        (json_str_at addr_resp ''address'')) (\<lambda>endpoint_ip.
      ret (endpoint_ip, str_or (''projects/'' @ project @ ''/regions/'' @ region @ ''/addresses/'' @ ip_name)
        (json_str_at addr_resp ''selfLink''))))))"

definition gcp_import_tcp :: "'x gcp \<Rightarrow> string \<Rightarrow> string \<Rightarrow> enclave \<Rightarrow> import \<Rightarrow> handle \<Rightarrow> ('x, provision_result) cloud_act" where
  "gcp_import_tcp d token project importer i export_handle =
     (let region = enc_region importer; alias = imp_alias i;
          operation = (\<lambda>op_name. compute_url d project (''/regions/'' @ region @ ''/operations/'' @ op_name));
          subnetwork = ''projects/'' @ project @ ''/regions/'' @ region @ ''/subnetworks/subnet-0'';
          needs = (\<lambda>what. ProvisionFailed (''cross-enclave tcp import '' @ quote1 alias @
            '': importer enclave must have '' @ what @ '' configured'')) in
      seq (or_error (ProvisionFailed (''tcp import: export handle missing '' @ quote1 ''service_attachment''))
        (json_str_at export_handle ''service_attachment'')) (\<lambda>service_attachment.
      seq (if enc_network importer = None then throw (needs ''network:'') else ret ()) (\<lambda>_.
      seq (or_error (needs ''dns.zone:'') (Option.bind (enc_dns importer) dns_zone)) (\<lambda>zone.
      let ip_name = ''nclav-ep-ip-'' @ alias; ep_name = ''nclav-ep-'' @ alias; dns_name = alias @ ''.'' @ zone in
      seq (compute_create d token (compute_url d project (''/regions/'' @ region @ ''/addresses'')) operation (json_object [
        (''name'', JString ip_name), (''addressType'', JString ''INTERNAL''),
        (''subnetwork'', JString subnetwork), (''purpose'', JString ''GCE_ENDPOINT'')])) (\<lambda>_.
      seq (gcp_endpoint_address d token project region ip_name) (\<lambda>(endpoint_ip, endpoint_addr_url).
      seq (compute_create d token (compute_url d project (''/regions/'' @ region @ ''/forwardingRules'')) operation (json_object [
        (''name'', JString ep_name), (''loadBalancingScheme'', JString []), (''target'', JString service_attachment),
        (''network'', JString (''projects/'' @ project @ ''/global/networks/nclav-vpc'')),
        (''subnetwork'', JString subnetwork), (''IPAddress'', JString endpoint_addr_url)])) (\<lambda>_.
      seq (gcp_create d (gu_dns (gcp_base d) @ ''/dns/v1/projects/'' @ project @ ''/managedZones/nclav-zone/changes'') token
        (json_object [(''additions'', JArray [json_object [
          (''name'', JString (dns_name @ ''.'')), (''type'', JString ''A''), (''ttl'', JNumber 300),
          (''rrdatas'', JArray [JString endpoint_ip])]])])) (\<lambda>_.
      let outputs = hm_insert ''hostname'' dns_name (exported_outputs export_handle) in
      ret \<lparr>pr_handle = json_object [
          (''driver'', JString ''gcp''), (''kind'', JString ''import''), (''type'', JString ''tcp''),
          (''importer_project'', JString project), (''alias'', JString alias),
          (''endpoint_ip_name'', JString ip_name), (''endpoint_name'', JString ep_name),
          (''endpoint_ip'', JString endpoint_ip), (''dns_name'', JString dns_name),
          (''outputs'', json_string_map outputs)],
        pr_outputs = outputs\<rparr>))))))))"

definition gcp_import_queue :: "'x gcp \<Rightarrow> string \<Rightarrow> string \<Rightarrow> import \<Rightarrow> handle \<Rightarrow> ('x, provision_result) cloud_act" where
  "gcp_import_queue d token project i export_handle =
     (let queue_url = ''projects/'' @ project @ ''/subscriptions/'' @ imp_alias i;
          outputs = hm_insert ''queue_url'' queue_url [] in
      seq (send_call (gcp_net d) ProvisionFailed
        (bearer_call ''PUT'' (gu_pubsub (gcp_base d) @ ''/v1/'' @ queue_url) token (JsonContent (json_object [
          (''topic'', JString (str_or [] (json_str_at export_handle ''topic''))), (''ackDeadlineSeconds'', JNumber 60)])))) (\<lambda>resp.
      if \<not> is_success (rp_status resp) \<and> rp_status resp \<noteq> 409
      then throw (ProvisionFailed (extract_gcp_error (json_or_null resp)))
      else ret \<lparr>pr_handle = json_object [
          (''driver'', JString ''gcp''), (''kind'', JString ''import''), (''type'', JString ''queue''),
          (''importer_project'', JString project), (''alias'', JString (imp_alias i)),
          (''subscription'', JString queue_url), (''outputs'', json_string_map outputs)],
        pr_outputs = outputs\<rparr>))"

definition gcp_provision_import ::
  "'x gcp \<Rightarrow> enclave \<Rightarrow> import \<Rightarrow> handle \<Rightarrow> handle option \<Rightarrow> ('x, provision_result) cloud_act" where
  "gcp_provision_import d importer i export_handle existing =
     seq (gcp_bearer d) (\<lambda>token.
     let project = gcp_project_id d (eid_str (enc_id importer));
         export_type = str_or [] (json_str_at export_handle ''type'')
     in if export_type = ''http'' then
          let outputs = exported_outputs export_handle in
          ret \<lparr>pr_handle = json_object [
              (''driver'', JString ''gcp''), (''kind'', JString ''import''), (''type'', JString ''http''),
              (''importer_project'', JString project), (''alias'', JString (imp_alias i)),
              (''export_handle'', export_handle), (''outputs'', json_string_map outputs)],
            pr_outputs = outputs\<rparr>
        else if export_type = ''tcp'' then gcp_import_tcp d token project importer i export_handle
        else if export_type = ''queue'' then gcp_import_queue d token project i export_handle
        else throw (ProvisionFailed (''provision_import: unknown export type '' @ quote1 export_type @ '' in export handle'')))"

subsection \<open>Observation\<close>

definition absent :: observed_state where
  "absent = \<lparr>obs_exists = False, obs_healthy = False, obs_outputs = [], obs_raw = json_object []\<rparr>"

definition gcp_observe_enclave :: "'x gcp \<Rightarrow> enclave \<Rightarrow> handle \<Rightarrow> ('x, observed_state) cloud_act" where
  "gcp_observe_enclave d enc h =
     seq (gcp_bearer d) (\<lambda>token.
     seq (gcp_get d DriverInternal token
       (project_url d (str_or (eid_str (enc_id enc)) (json_str_at h ''project_id'')))) (\<lambda>resp.
     if rp_status resp = 404 then ret absent
     else if \<not> is_success (rp_status resp) then throw (DriverInternal (extract_gcp_error (json_or_null resp)))
     else seq (decode_json DriverInternal resp) (\<lambda>project.
       ret \<lparr>obs_exists = True, obs_healthy = (json_str_at project ''lifecycleState'' = Some ''ACTIVE''),
         obs_outputs = [], obs_raw = project\<rparr>)))"

definition gcp_observe_partition :: "enclave \<Rightarrow> partition \<Rightarrow> handle \<Rightarrow> ('x, observed_state) cloud_act" where
  "gcp_observe_partition enc p h =
     (if json_str_at h ''type'' = Some ''iac''
      then ret \<lparr>obs_exists = True, obs_healthy = True, obs_outputs = [], obs_raw = json_object []\<rparr>
      else ret absent)"

subsection \<open>Terraform and orphans\<close>

definition handle_project :: "'x gcp \<Rightarrow> enclave \<Rightarrow> handle \<Rightarrow> string" where
  "handle_project d enc h = str_or (gcp_project_id d (eid_str (enc_id enc))) (json_str_at h ''project_id'')"

definition gcp_context_vars :: "'x gcp \<Rightarrow> enclave \<Rightarrow> handle \<Rightarrow> (string, string) hashmap" where
  "gcp_context_vars d enc h = hm_insert ''nclav_region'' (str_or (enc_region enc) (json_str_at h ''region''))
     (hm_insert ''nclav_project_id'' (handle_project d enc h) [])"

definition gcp_auth_env :: "'x gcp \<Rightarrow> enclave \<Rightarrow> handle \<Rightarrow> (string, string) hashmap" where
  "gcp_auth_env d enc h =
     (let project_id = handle_project d enc h;
          env = (case gcp_key_file d of
              None \<Rightarrow> []
            | Some key_path \<Rightarrow>
                let env = hm_insert ''GOOGLE_APPLICATION_CREDENTIALS'' key_path [] in
                (case enc_identity enc of
                   None \<Rightarrow> env
                 | Some identity \<Rightarrow> hm_insert ''GOOGLE_IMPERSONATE_SERVICE_ACCOUNT'' (sa_email_of identity project_id) env))
      in hm_insert ''GOOGLE_PROJECT'' project_id env)"

definition gcp_search :: "'x gcp \<Rightarrow> enclave \<Rightarrow> handle \<Rightarrow> string \<Rightarrow> ('x, json list) cloud_act" where
  "gcp_search d enc enc_handle query =
     seq (gcp_bearer d) (\<lambda>token.
     seq (send_call (gcp_net d) (\<lambda>e. DriverInternal (''CAI searchAllResources: '' @ e))
       (bearer_call ''POST'' (gu_cloudasset (gcp_base d) @ ''/v1/projects/'' @ handle_project d enc enc_handle @ '':searchAllResources'')
          token (JsonContent (json_object [(''query'', JString query)])))) (\<lambda>r.
     seq (decode_json (\<lambda>e. DriverInternal (''CAI decode: '' @ e)) r) (\<lambda>resp.
     ret (case json_array_of (json_index resp ''results'') of None \<Rightarrow> [] | Some rs \<Rightarrow> rs))))"

definition gcp_list_partition_resources :: "'x gcp \<Rightarrow> enclave \<Rightarrow> handle \<Rightarrow> partition \<Rightarrow> ('x, string list) cloud_act" where
  "gcp_list_partition_resources d enc enc_handle p =
     seq (gcp_search d enc enc_handle (''labels.nclav-partition='' @ pid_str (part_id p) @
       '' AND labels.nclav-enclave='' @ eid_str (enc_id enc))) (\<lambda>rs.
     ret (List.map_filter (\<lambda>r. json_str_at r ''name'') rs))"

definition gcp_orphan :: "string list \<Rightarrow> json \<Rightarrow> orphaned_resource option" where
  "gcp_orphan known r =
     (let labels = json_index r ''labels''; nclav_partition = str_or [] (json_str_at labels ''nclav-partition'')
      in if nclav_partition = [] \<or> nclav_partition \<in> set known then None
         else Some \<lparr>orph_resource_name = str_or [] (json_str_at r ''name''),
           orph_resource_type = str_or [] (json_str_at r ''assetType''),
           orph_nclav_partition = nclav_partition,
           orph_nclav_enclave = str_or [] (json_str_at labels ''nclav-enclave'')\<rparr>)"

definition gcp_list_orphaned_resources ::
  "'x gcp \<Rightarrow> enclave \<Rightarrow> handle \<Rightarrow> string list \<Rightarrow> ('x, orphaned_resource list) cloud_act" where
  "gcp_list_orphaned_resources d enc enc_handle known =
     seq (gcp_search d enc enc_handle ''labels.nclav-managed=true'') (\<lambda>rs.
     ret (List.map_filter (gcp_orphan known) rs))"

definition gcp_driver :: "'x gcp \<Rightarrow> 'x driver" where
  "gcp_driver d = \<lparr>
     drv_name = ''gcp'',
     drv_provision_enclave = gcp_provision_enclave d,
     drv_teardown_enclave = gcp_teardown_enclave d,
     drv_provision_partition = gcp_provision_partition d,
     drv_teardown_partition = gcp_teardown_partition d,
     drv_provision_export = gcp_provision_export d,
     drv_provision_import = gcp_provision_import d,
     drv_observe_enclave = gcp_observe_enclave d,
     drv_observe_partition = gcp_observe_partition,
     drv_context_vars = gcp_context_vars d,
     drv_auth_env = gcp_auth_env d,
     drv_list_partition_resources = gcp_list_partition_resources d,
     drv_list_orphaned_resources = gcp_list_orphaned_resources d\<rparr>"

end
