(* ===== verification/Azure_Client.thy ===== *)
theory Azure_Client
  imports Cloud_Names Local_Driver
begin

section \<open>The client of Azure\<close>

text \<open>
  The first half of \<open>crates/nclav-driver/src/azure.rs\<close>: the configuration, the three sources of tokens
  with their cache, the requests to the resource manager with the polling of operations, and the steps
  that the driver is made of. What the host gives is the record \<open>azure_host\<close>: the clock, the cell of
  the token cache (the mutex of the provider), the environment, the \<open>az\<close> binary, random ids, and the
  text and parser of JSON.
\<close>

record azure_config =
  azc_tenant_id :: string
  azc_management_group_id :: string
  azc_billing_account_name :: string
  azc_billing_profile_name :: string
  azc_invoice_section_name :: string
  azc_default_location :: string
  azc_subscription_prefix :: "string option"
  azc_client_id :: "string option"
  azc_client_secret :: "string option"

record azure_urls =
  azu_management :: string
  azu_login :: string
  azu_graph :: string

definition azure_default_urls :: azure_urls where
  "azure_default_urls = \<lparr>
     azu_management = ''https://management.azure.com'',
     azu_login = ''https://login.microsoftonline.com'',
     azu_graph = ''https://management.azure.com''\<rparr>"

record 'x azure_host =
  ah_now :: "'x \<Rightarrow> nat"
  ah_cache :: "'x \<Rightarrow> (string \<times> nat) option"
  ah_set_cache :: "(string \<times> nat) option \<Rightarrow> 'x \<Rightarrow> 'x"
  ah_env :: "string \<Rightarrow> string option"
  ah_az :: "string list \<Rightarrow> ('x, string, process_result) act"
  ah_uuid :: "'x \<Rightarrow> string \<times> 'x"
  ah_json_text :: "json \<Rightarrow> string"
  ah_json_parse :: "string \<Rightarrow> (string, json) result"

record 'x azure =
  az_cfg :: azure_config
  az_net :: "'x cloud_net"
  az_token :: "('x, string) cloud_act"
  az_base :: azure_urls
  az_unicode :: unicode
  az_hash :: "string \<Rightarrow> 64 word"
  az_host :: "'x azure_host"

subsection \<open>Tokens\<close>

text \<open>
  The cache in front of a request for a token: the cached token while it lasts, else a new one, which is
  kept until a minute before it expires. Adding a duration to an instant panics when the seconds
  leave 64 bits.
\<close>

definition refresh_token :: "'x azure_host \<Rightarrow> ('x, string \<times> nat) cloud_act \<Rightarrow> ('x, string) cloud_act" where
  "refresh_token h fetch = seq fetch (\<lambda>(tok, expires_in) x.
     let expiry = ah_now h x + (expires_in - 60) in
     if expiry < 2 ^ 63 then (Inr tok, ah_set_cache h (Some (tok, expiry)) x)
     else (Inl (driver_panic ''overflow when adding duration to instant''), x))"

definition cached_token :: "'x azure_host \<Rightarrow> ('x, string \<times> nat) cloud_act \<Rightarrow> ('x, string) cloud_act" where
  "cached_token h fetch = (\<lambda>x. case ah_cache h x of
     Some (tok, expiry) \<Rightarrow> if ah_now h x < expiry then (Inr tok, x) else refresh_token h fetch x
   | None \<Rightarrow> refresh_token h fetch x)"

definition sp_fetch :: "'x cloud_net \<Rightarrow> 'x azure_host \<Rightarrow> string \<Rightarrow> string \<Rightarrow> string \<Rightarrow> string \<Rightarrow> ('x, string \<times> nat) cloud_act" where
  "sp_fetch net h login_base tenant_id client_id client_secret =
     seq (send_call net (\<lambda>e. DriverInternal (''SP token request: '' @ e))
       \<lparr>call_verb = ''POST'', call_url = login_base @ ''/'' @ tenant_id @ ''/oauth2/v2.0/token'', call_query = [],
        call_headers = [], call_bearer = None, call_body = FormContent [
          (''grant_type'', ''client_credentials''), (''client_id'', client_id),
          (''client_secret'', client_secret), (''scope'', ''https://management.azure.com/.default'')]\<rparr>) (\<lambda>r.
     seq (decode_json (\<lambda>e. DriverInternal (''SP token decode: '' @ e)) r) (\<lambda>resp.
     seq (or_error (DriverInternal (''SP token: no access_token in response: '' @ ah_json_text h resp))
       (json_str_at resp ''access_token'')) (\<lambda>tok.
     ret (tok, case json_u64 (json_index resp ''expires_in'') of Some n \<Rightarrow> n | None \<Rightarrow> 3600))))"

definition msi_fetch :: "'x cloud_net \<Rightarrow> 'x azure_host \<Rightarrow> ('x, string \<times> nat) cloud_act" where
  "msi_fetch net h =
     seq (send_call net (\<lambda>e. DriverInternal (''IMDS token request: '' @ e))
       \<lparr>call_verb = ''GET'', call_url = ''http://169.254.169.254/metadata/identity/oauth2/token'',
        call_query = [(''api-version'', ''2018-02-01''), (''resource'', ''https://management.azure.com/'')],
        call_headers = [(''Metadata'', ''true'')], call_bearer = None, call_body = NoContent\<rparr>) (\<lambda>r.
     seq (decode_json (\<lambda>e. DriverInternal (''IMDS token decode: '' @ e)) r) (\<lambda>resp.
     seq (or_error (DriverInternal (''IMDS token: no access_token: '' @ ah_json_text h resp))
       (json_str_at resp ''access_token'')) (\<lambda>tok.
     ret (tok, case Option.bind (json_str_at resp ''expires_in'') (parse_below (2 ^ 64)) of Some n \<Rightarrow> n | None \<Rightarrow> 3600))))"

definition cli_token :: "'x azure_host \<Rightarrow> string \<Rightarrow> ('x, string) cloud_act" where
  "cli_token h tenant_id =
     seq (map_err (\<lambda>e. DriverInternal (''az CLI not found: '' @ e @
         ''. Install Azure CLI or configure service principal credentials.''))
       (ah_az h [''account'', ''get-access-token'', ''--resource'', ''https://management.azure.com'',
          ''--tenant'', tenant_id, ''--output'', ''json''])) (\<lambda>out.
     if \<not> pc_success out then
       throw (DriverInternal (''az account get-access-token failed: '' @ trim (pc_stderr out) @
         ''. Run '' @ quote1 ''az login'' @ '' first.''))
     else seq (lift_result (map_sum (\<lambda>e. DriverInternal (''az CLI output parse: '' @ e)) id (ah_json_parse h (pc_stdout out)))) (\<lambda>resp.
       or_error (DriverInternal ''az CLI: no accessToken in output'') (json_str_at resp ''accessToken'')))"

definition azure_token_source :: "'x cloud_net \<Rightarrow> 'x azure_host \<Rightarrow> azure_urls \<Rightarrow> azure_config \<Rightarrow> ('x, string) cloud_act" where
  "azure_token_source net h base cfg =
     (let sp = (\<lambda>cid secret. cached_token h (sp_fetch net h (azu_login base) (azc_tenant_id cfg) cid secret))
      in case (azc_client_id cfg, azc_client_secret cfg) of
        (Some cid, Some secret) \<Rightarrow> sp cid secret
      | _ \<Rightarrow> (case (ah_env h ''AZURE_CLIENT_ID'', ah_env h ''AZURE_CLIENT_SECRET'') of
          (Some cid, Some secret) \<Rightarrow> sp cid secret
        | _ \<Rightarrow> if ah_env h ''IDENTITY_ENDPOINT'' \<noteq> None then cached_token h (msi_fetch net h)
             else cli_token h (azc_tenant_id cfg)))"

definition azure_new :: "'x cloud_net \<Rightarrow> 'x azure_host \<Rightarrow> unicode \<Rightarrow> (string \<Rightarrow> 64 word) \<Rightarrow> azure_config \<Rightarrow> 'x azure" where
  "azure_new net h uc hash cfg = \<lparr>az_cfg = cfg, az_net = net,
     az_token = azure_token_source net h azure_default_urls cfg, az_base = azure_default_urls,
     az_unicode = uc, az_hash = hash, az_host = h\<rparr>"

subsection \<open>Names and errors\<close>

definition subscription_alias :: "'x azure \<Rightarrow> string \<Rightarrow> string" where
  "subscription_alias d enclave_id = sanitize_subscription_alias
     (case azc_subscription_prefix (az_cfg d) of
        Some p \<Rightarrow> if p \<noteq> [] then p @ ''-'' @ enclave_id else enclave_id
      | None \<Rightarrow> enclave_id)"

definition billing_scope :: "'x azure \<Rightarrow> string" where
  "billing_scope d = ''/providers/Microsoft.Billing/billingAccounts/'' @ azc_billing_account_name (az_cfg d) @
     ''/billingProfiles/'' @ azc_billing_profile_name (az_cfg d) @
     ''/invoiceSections/'' @ azc_invoice_section_name (az_cfg d)"

definition parse_arm_error :: "json \<Rightarrow> string" where
  "parse_arm_error b =
     (let err = (case json_get b ''error'' of Some e \<Rightarrow> e
         | None \<Rightarrow> (case json_get b ''Error'' of Some e \<Rightarrow> e | None \<Rightarrow> b))
      in str_or ''Unknown'' (json_str_at err ''code'') @ '': '' @ str_or ''unknown error'' (json_str_at err ''message''))"

text \<open>\<open>status N\<close> and the error of the body.\<close>

definition status_error :: "nat \<Rightarrow> json \<Rightarrow> string" where
  "status_error status b = '': status '' @ nat_str status @ em_dash @ parse_arm_error b"

subsection \<open>Operations\<close>

definition arm_poll :: "'x azure \<Rightarrow> string \<Rightarrow> string \<Rightarrow> ('x, json option) cloud_act" where
  "arm_poll d token op_url =
     seq (send_call (az_net d) (\<lambda>e. DriverInternal (''poll '' @ op_url @ '': '' @ e))
       (bearer_call ''GET'' op_url token NoContent)) (\<lambda>r.
     seq (decode_json (\<lambda>e. DriverInternal (''poll decode '' @ op_url @ '': '' @ e)) r) (\<lambda>b.
     let status = str_or ''Unknown'' (json_str_at b ''status'') in
     if status = ''Succeeded'' then ret (Some b)
     else if status = ''Failed'' \<or> status = ''Canceled'' then
       throw (ProvisionFailed (''ARM operation failed ('' @ status @ ''): '' @ parse_arm_error b))
     else ret None))"

definition arm_wait :: "'x azure \<Rightarrow> string \<Rightarrow> ('x, json) cloud_act" where
  "arm_wait d op_url =
     seq (az_token d) (\<lambda>token.
     seq (poll_loop (az_net d) (arm_poll d token op_url) poll_delays) (\<lambda>r.
     or_error (ProvisionFailed (''Azure ARM operation timed out after '' @ nat_str 120 @ '' polls: '' @ op_url)) r))"

subsection \<open>Requests\<close>

text \<open>\<open>Azure-AsyncOperation\<close> or \<open>Location\<close>, when the value is visible ASCII. Header names are case-insensitive.\<close>

definition reply_header :: "cloud_reply \<Rightarrow> string \<Rightarrow> string option" where
  "reply_header r k = hm_get (rp_headers r) (map lower_ascii k)"

definition header_visible :: "string \<Rightarrow> bool" where
  "header_visible v \<longleftrightarrow> list_all (\<lambda>c. 32 \<le> (of_char c :: nat) \<and> (of_char c :: nat) < 127 \<or> c = CHR 0x09) v"

definition async_url :: "cloud_reply \<Rightarrow> string option" where
  "async_url r =
     (let v = (case reply_header r ''Azure-AsyncOperation'' of Some v \<Rightarrow> Some v | None \<Rightarrow> reply_header r ''Location'')
      in case v of None \<Rightarrow> None | Some s \<Rightarrow> if header_visible s then Some s else None)"

definition arm_put :: "'x azure \<Rightarrow> string \<Rightarrow> json \<Rightarrow> ('x, nat \<times> json \<times> string option) cloud_act" where
  "arm_put d url b =
     seq (az_token d) (\<lambda>token.
     seq (send_call (az_net d) (\<lambda>e. ProvisionFailed (''PUT '' @ url @ '': '' @ e))
       (bearer_call ''PUT'' url token (JsonContent b))) (\<lambda>resp.
     ret (rp_status resp, json_or_null resp, async_url resp)))"

definition arm_get :: "'x azure \<Rightarrow> string \<Rightarrow> ('x, nat \<times> json) cloud_act" where
  "arm_get d url =
     seq (az_token d) (\<lambda>token.
     seq (send_call (az_net d) (\<lambda>e. DriverInternal (''GET '' @ url @ '': '' @ e))
       (bearer_call ''GET'' url token NoContent)) (\<lambda>resp.
     ret (rp_status resp, json_or_null resp)))"

definition arm_delete :: "'x azure \<Rightarrow> string \<Rightarrow> ('x, unit) cloud_act" where
  "arm_delete d url =
     seq (az_token d) (\<lambda>token.
     seq (send_call (az_net d) (\<lambda>e. TeardownFailed (''DELETE '' @ url @ '': '' @ e))
       (bearer_call ''DELETE'' url token NoContent)) (\<lambda>resp.
     let status = rp_status resp in
     if status = 404 \<or> status = 204 \<or> is_success status then ret ()
     else if status = 202 then
       (case async_url resp of
          Some op_url \<Rightarrow> seq (arm_wait d op_url) (\<lambda>_. ret ())
        | None \<Rightarrow> ret ())
     else throw (TeardownFailed (''DELETE '' @ url @ status_error status (json_or_null resp)))))"

definition arm_post :: "'x azure \<Rightarrow> string \<Rightarrow> json \<Rightarrow> ('x, json) cloud_act" where
  "arm_post d url b =
     seq (az_token d) (\<lambda>token.
     seq (send_call (az_net d) (\<lambda>e. ProvisionFailed (''POST '' @ url @ '': '' @ e))
       (bearer_call ''POST'' url token (JsonContent b))) (\<lambda>resp.
     if \<not> is_success (rp_status resp) \<and> rp_status resp \<noteq> 202
     then throw (ProvisionFailed (''POST '' @ url @ status_error (rp_status resp) (json_or_null resp)))
     else ret (json_or_null resp)))"

definition arm_put_and_wait :: "'x azure \<Rightarrow> string \<Rightarrow> json \<Rightarrow> ('x, json) cloud_act" where
  "arm_put_and_wait d url b =
     seq (arm_put d url b) (\<lambda>(status, v, async_op).
     if status = 200 \<or> status = 201 then
       (if json_get v ''error'' \<noteq> None
        then throw (ProvisionFailed (''PUT '' @ url @ '': '' @ parse_arm_error v)) else ret v)
     else if status = 202 then (case async_op of Some op_url \<Rightarrow> arm_wait d op_url | None \<Rightarrow> ret v)
     else if status = 409 then
       throw (ProvisionFailed (''PUT '' @ url @ '' conflict (409): '' @ parse_arm_error v))
     else throw (ProvisionFailed (''PUT '' @ url @ status_error status v)))"

subsection \<open>Steps\<close>

definition sub_id_at :: "json \<Rightarrow> string option" where
  "sub_id_at v = json_str_at (json_index v ''properties'') ''subscriptionId''"

definition create_subscription :: "'x azure \<Rightarrow> string \<Rightarrow> string \<Rightarrow> ('x, string) cloud_act" where
  "create_subscription d alias display =
     (let url = azu_management (az_base d) @ ''/providers/Microsoft.Subscription/aliases/'' @ alias @ ''?api-version=2021-10-01'' in
      seq (arm_put d url (json_object [(''properties'', json_object [
        (''displayName'', JString display), (''billingScope'', JString (billing_scope d)),
        (''workload'', JString ''Production'')])])) (\<lambda>(status, v, async_op).
      case (if status = 200 \<or> status = 201 then sub_id_at v else None) of
        Some sub_id \<Rightarrow> ret sub_id
      | None \<Rightarrow>
          if status = 202 then
            seq (or_error (ProvisionFailed ''subscription alias PUT 202: no Azure-AsyncOperation header'') async_op) (\<lambda>op_url.
            seq (arm_wait d op_url) (\<lambda>result.
            seq (arm_get d url) (\<lambda>(_, alias_body).
            case sub_id_at alias_body of
              Some sub_id \<Rightarrow> ret sub_id
            | None \<Rightarrow> or_error (ProvisionFailed ''subscription alias: no subscriptionId in operation result'')
                (case json_str_at result ''subscriptionId'' of Some s \<Rightarrow> Some s | None \<Rightarrow> sub_id_at result))))
          else if status = 409 then
            seq (arm_get d url) (\<lambda>(get_status, get_body).
            or_error (ProvisionFailed (''subscription alias 409 and GET returned '' @ nat_str get_status @ '': '' @ parse_arm_error get_body))
              (if get_status = 200 then sub_id_at get_body else None))
          else throw (ProvisionFailed (''create subscription alias '' @ quote1 alias @ status_error status v))))"

definition move_to_management_group :: "'x azure \<Rightarrow> string \<Rightarrow> ('x, unit) cloud_act" where
  "move_to_management_group d sub_id =
     seq (arm_put d (azu_management (az_base d) @ ''/providers/Microsoft.Management/managementGroups/'' @
       azc_management_group_id (az_cfg d) @ ''/subscriptions/'' @ sub_id @ ''?api-version=2020-05-01'') (json_object []))
     (\<lambda>(status, v, _).
     if is_success status \<or> status = 204 \<or> status = 409 then ret ()
     else throw (ProvisionFailed (''move subscription '' @ sub_id @ '' to MG '' @
       azc_management_group_id (az_cfg d) @ status_error status v)))"

text \<open>A path below the resource group of a subscription.\<close>

definition group_path :: "string \<Rightarrow> string \<Rightarrow> string" where
  "group_path sub_id path = ''/subscriptions/'' @ sub_id @ ''/resourceGroups/nclav-rg/providers/'' @ path"

definition nclav_tags :: "string \<Rightarrow> string option \<Rightarrow> json" where
  "nclav_tags enclave_id partition_id = json_object (
     [(''nclav-managed'', JString ''true''), (''nclav-enclave'', JString enclave_id)] @
     (case partition_id of None \<Rightarrow> [] | Some p \<Rightarrow> [(''nclav-partition'', JString p)]))"

definition create_resource_group :: "'x azure \<Rightarrow> string \<Rightarrow> string \<Rightarrow> string \<Rightarrow> ('x, unit) cloud_act" where
  "create_resource_group d sub_id location enclave_id =
     seq (attempt (arm_put_and_wait d
       (azu_management (az_base d) @ ''/subscriptions/'' @ sub_id @ ''/resourcegroups/nclav-rg?api-version=2021-04-01'')
       (json_object [(''location'', JString location), (''tags'', nclav_tags enclave_id None)]))) (\<lambda>r. case r of
       Inr _ \<Rightarrow> ret ()
     | Inl e \<Rightarrow> if error_mentions (az_unicode d) ''conflict'' e then ret () else throw e)"

definition identity_url :: "'x azure \<Rightarrow> string \<Rightarrow> string \<Rightarrow> string" where
  "identity_url d sub_id name = azu_management (az_base d) @
     group_path sub_id (''Microsoft.ManagedIdentity/userAssignedIdentities/'' @ name @ ''?api-version=2023-01-31'')"

definition create_managed_identity ::
  "'x azure \<Rightarrow> string \<Rightarrow> string \<Rightarrow> string \<Rightarrow> string \<Rightarrow> string option \<Rightarrow> ('x, string \<times> string \<times> string) cloud_act" where
  "create_managed_identity d sub_id name location enclave_id partition_id =
     seq (arm_put d (identity_url d sub_id name)
       (json_object [(''location'', JString location), (''tags'', nclav_tags enclave_id partition_id)])) (\<lambda>(status, v, _).
     if \<not> is_success status
     then throw (ProvisionFailed (''create managed identity '' @ quote1 name @ status_error status v))
     else let properties = json_index v ''properties'' in
       ret (str_or [] (json_str_at v ''id''), str_or [] (json_str_at properties ''principalId''),
         str_or [] (json_str_at properties ''clientId'')))"

definition new_uuid :: "'x azure \<Rightarrow> ('x, string) cloud_act" where
  "new_uuid d = (\<lambda>x. case ah_uuid (az_host d) x of (u, x') \<Rightarrow> (Inr u, x'))"

definition assign_role :: "'x azure \<Rightarrow> string \<Rightarrow> string \<Rightarrow> string \<Rightarrow> ('x, unit) cloud_act" where
  "assign_role d scope role_definition_id principal_id =
     seq (new_uuid d) (\<lambda>assignment_id.
     seq (arm_put d (azu_management (az_base d) @ scope @ ''/providers/Microsoft.Authorization/roleAssignments/'' @
         assignment_id @ ''?api-version=2022-04-01'')
       (json_object [(''properties'', json_object [
          (''roleDefinitionId'', JString role_definition_id), (''principalId'', JString principal_id),
          (''principalType'', JString ''ServicePrincipal'')])])) (\<lambda>(status, v, _).
     if is_success status \<or> status = 409 then ret ()
     else throw (ProvisionFailed (''assign role on '' @ scope @ status_error status v))))"

end
