(* ===== verification/Azure_Driver.thy ===== *)
theory Azure_Driver
  imports Azure_Client
begin

section \<open>The driver of Azure\<close>

text \<open>
  The second half of \<open>crates/nclav-driver/src/azure.rs\<close>: the operations of the trait \<open>Driver\<close>, and the
  helper functions at its end.
\<close>

definition put_step :: "'x azure \<Rightarrow> string \<Rightarrow> string \<Rightarrow> json \<Rightarrow> ('x, json) cloud_act" where
  "put_step d what url b = map_err (\<lambda>e. ProvisionFailed (what @ '': '' @ driver_error_str e)) (arm_put_and_wait d url b)"

definition network_url :: "'x azure \<Rightarrow> string \<Rightarrow> string \<Rightarrow> string" where
  "network_url d sub_id path = azu_management (az_base d) @ group_path sub_id (''Microsoft.Network/'' @ path)"

subsection \<open>Enclaves\<close>

definition azure_create_vnet :: "'x azure \<Rightarrow> enclave \<Rightarrow> string \<Rightarrow> ('x, string) cloud_act" where
  "azure_create_vnet d enc sub_id = (case enc_network enc of
     None \<Rightarrow> ret []
   | Some network \<Rightarrow>
       let vnet_url = network_url d sub_id ''virtualNetworks/nclav-vnet?api-version=2023-11-01'';
           cidr = str_or ''10.0.0.0/16'' (net_vpc_cidr network);
           subnets = map (\<lambda>(i, prefix). json_object [
             (''name'', JString (''subnet-'' @ nat_str i)),
             (''properties'', json_object [(''addressPrefix'', JString prefix)])])
             (List.enumerate 0 (net_subnets network)) in
       seq (put_step d ''create VNet'' vnet_url (json_object [
         (''location'', JString (enc_region enc)), (''tags'', nclav_tags (eid_str (enc_id enc)) None),
         (''properties'', json_object [
            (''addressSpace'', json_object [(''addressPrefixes'', JArray [JString cidr])]),
            (''subnets'', JArray subnets)])])) (\<lambda>vnet_result.
       let vnet_id = str_or [] (json_str_at vnet_result ''id'') in
       if vnet_id = [] then
         seq (arm_get d vnet_url) (\<lambda>(_, vnet_get). ret (str_or [] (json_str_at vnet_get ''id'')))
       else ret vnet_id))"

definition azure_create_zone :: "'x azure \<Rightarrow> enclave \<Rightarrow> string \<Rightarrow> string \<Rightarrow> ('x, string) cloud_act" where
  "azure_create_zone d enc sub_id vnet_id = (case Option.bind (enc_dns enc) dns_zone of
     None \<Rightarrow> ret []
   | Some zone \<Rightarrow>
       seq (put_step d ''create DNS zone'' (network_url d sub_id (''privateDnsZones/'' @ zone @ ''?api-version=2020-06-01''))
         (json_object [(''location'', JString ''global''), (''tags'', nclav_tags (eid_str (enc_id enc)) None)])) (\<lambda>_.
       seq (if vnet_id \<noteq> [] then
         seq (put_step d ''create DNS VNet link''
           (network_url d sub_id (''privateDnsZones/'' @ zone @ ''/virtualNetworkLinks/nclav-link?api-version=2020-06-01''))
           (json_object [(''location'', JString ''global''), (''properties'', json_object [
              (''virtualNetwork'', json_object [(''id'', JString vnet_id)]), (''registrationEnabled'', JBool False)])]))
           (\<lambda>_. ret ())
         else ret ()) (\<lambda>_.
       ret zone)))"

definition azure_provision_enclave :: "'x azure \<Rightarrow> enclave \<Rightarrow> handle option \<Rightarrow> ('x, provision_result) cloud_act" where
  "azure_provision_enclave d enc existing =
     (let enclave_id = eid_str (enc_id enc); alias = subscription_alias d enclave_id; location = enc_region enc;
          create =
            seq (create_subscription d alias (enc_name enc)) (\<lambda>sub_id.
            seq (move_to_management_group d sub_id) (\<lambda>_.
            seq (create_resource_group d sub_id location enclave_id) (\<lambda>_.
            seq (create_managed_identity d sub_id (str_or ''nclav-identity'' (enc_identity enc)) location enclave_id None)
              (\<lambda>(resource_id, principal_id, client_id).
            seq (azure_create_vnet d enc sub_id) (\<lambda>vnet_id.
            seq (azure_create_zone d enc sub_id vnet_id) (\<lambda>zone.
            ret \<lparr>pr_handle = json_object [
                (''driver'', JString ''azure''), (''kind'', JString ''enclave''),
                (''subscription_id'', JString sub_id), (''subscription_alias'', JString alias),
                (''resource_group'', JString ''nclav-rg''), (''location'', JString location),
                (''identity_resource_id'', JString resource_id), (''identity_principal_id'', JString principal_id),
                (''identity_client_id'', JString client_id), (''vnet_resource_id'', JString vnet_id),
                (''dns_zone_name'', JString zone), (''provisioning_complete'', JBool True)],
              pr_outputs = []\<rparr>))))))
      in case existing of
           Some h \<Rightarrow> if json_is_true (json_index h ''provisioning_complete'') then ret (skip_handle h) else create
         | None \<Rightarrow> create)"

definition azure_teardown_enclave :: "'x azure \<Rightarrow> enclave \<Rightarrow> handle \<Rightarrow> ('x, unit) cloud_act" where
  "azure_teardown_enclave d enc h =
     (let sub_id = str_or [] (json_str_at h ''subscription_id'') in
      if sub_id = [] then ret ()
      else seq (attempt (arm_post d (azu_management (az_base d) @ ''/subscriptions/'' @ sub_id @
          ''/providers/Microsoft.Subscription/cancel?api-version=2021-10-01'') (json_object []))) (\<lambda>r. case r of
        Inr _ \<Rightarrow> ret ()
      | Inl e \<Rightarrow>
          if error_mentions (az_unicode d) ''subscriptionnotfound'' e \<or> error_mentions (az_unicode d) ''not found'' e
          then ret ()
          else throw (TeardownFailed (''cancel subscription '' @ sub_id @ '': '' @ driver_error_str e))))"

subsection \<open>Partitions\<close>

definition partition_subscription :: "enclave \<Rightarrow> (string, string) hashmap \<Rightarrow> handle option \<Rightarrow> string" where
  "partition_subscription enc inputs existing = str_or [] (first_some [
     hm_get inputs ''nclav_subscription_id'',
     Option.bind existing (\<lambda>h. json_str_at h ''subscription_id''),
     enc_identity enc])"

definition mi_name_or_panic :: "'x azure \<Rightarrow> string \<Rightarrow> ('x, string) cloud_act" where
  "mi_name_or_panic d pid =
     or_error (driver_panic ''byte index 19 is not a char boundary'') (partition_mi_name (az_hash d) pid)"

definition azure_create_partition ::
  "'x azure \<Rightarrow> enclave \<Rightarrow> partition \<Rightarrow> string \<Rightarrow> string \<Rightarrow> ('x, provision_result) cloud_act" where
  "azure_create_partition d enc p sub_id location =
     (let enclave_id = eid_str (enc_id enc); pid = pid_str (part_id p) in
      seq (mi_name_or_panic d pid) (\<lambda>mi_name.
      seq (create_managed_identity d sub_id mi_name location enclave_id (Some pid))
        (\<lambda>(resource_id, principal_id, client_id).
      seq (ignore_failure (assign_role d (''/subscriptions/'' @ sub_id)
        (''/subscriptions/'' @ sub_id @
         ''/providers/Microsoft.Authorization/roleDefinitions/b24988ac-6180-42a0-ab88-20f7382dd24c'') principal_id)) (\<lambda>_.
      ret \<lparr>pr_handle = json_object [
          (''driver'', JString ''azure''), (''kind'', JString ''partition''), (''type'', JString ''iac''),
          (''subscription_id'', JString sub_id), (''resource_group'', JString ''nclav-rg''),
          (''partition_identity_resource_id'', JString resource_id),
          (''partition_identity_principal_id'', JString principal_id),
          (''partition_identity_client_id'', JString client_id)],
        pr_outputs = []\<rparr>))))"

definition no_subscription :: "enclave \<Rightarrow> driver_error" where
  "no_subscription enc = ProvisionFailed (''provision_partition for enclave '' @ quote1 (eid_str (enc_id enc)) @
     '': cannot determine Azure subscription ID. Ensure provision_enclave has run first '' @
     ''(subscription_id is injected via context_vars '' @ [CHR 0xE2, CHR 0x86, CHR 0x92] @ '' nclav_subscription_id).'')"

definition azure_provision_partition ::
  "'x azure \<Rightarrow> enclave \<Rightarrow> partition \<Rightarrow> (string, string) hashmap \<Rightarrow> handle option \<Rightarrow> ('x, provision_result) cloud_act" where
  "azure_provision_partition d enc p inputs existing =
     (let sub_id = partition_subscription enc inputs existing;
          create = (if sub_id = [] then throw (no_subscription enc)
            else azure_create_partition d enc p sub_id (str_or (enc_region enc) (hm_get inputs ''nclav_location'')))
      in case existing of
           Some h \<Rightarrow> if driver_kind h ''azure'' ''partition'' then ret (skip_handle h) else create
         | None \<Rightarrow> create)"

definition azure_teardown_partition :: "'x azure \<Rightarrow> enclave \<Rightarrow> partition \<Rightarrow> handle \<Rightarrow> ('x, unit) cloud_act" where
  "azure_teardown_partition d enc p h =
     (let sub_id = str_or [] (json_str_at h ''subscription_id'') in
      if sub_id = [] then ret ()
      else seq (mi_name_or_panic d (pid_str (part_id p))) (\<lambda>mi_name.
        ignore_failure (arm_delete d (identity_url d sub_id mi_name))))"

subsection \<open>Exports\<close>

text \<open>\<open>extract_url_hostname\<close>: without the scheme, up to the first slash, up to the first colon.\<close>

definition extract_url_hostname :: "string \<Rightarrow> string" where
  "extract_url_hostname url =
     (let without_proto = str_or url (first_some [strip_prefix ''https://'' url, strip_prefix ''http://'' url])
      in takeWhile (\<lambda>c. c \<noteq> CHR '':'') (takeWhile (\<lambda>c. c \<noteq> CHR ''/'') without_proto))"

definition port_str :: "json \<Rightarrow> (string, string) hashmap \<Rightarrow> (string, string) hashmap" where
  "port_str v outputs = (case json_u64 v of None \<Rightarrow> outputs | Some port \<Rightarrow> hm_insert ''port'' (nat_str port) outputs)"

definition export_outputs_from_handle :: "handle \<Rightarrow> (string, string) hashmap" where
  "export_outputs_from_handle h =
     (let kind = json_str_at h ''type'' in
      if kind = Some ''http'' then port_str (json_index h ''port'') (case json_str_at h ''endpoint_url'' of
          None \<Rightarrow> [] | Some url \<Rightarrow> hm_insert ''hostname'' (extract_url_hostname url) [])
      else if kind = Some ''tcp'' then port_str (json_index h ''port'') (case json_str_at h ''pls_resource_id'' of
          None \<Rightarrow> [] | Some i \<Rightarrow> hm_insert ''pls_resource_id'' i [])
      else if kind = Some ''queue'' then
        (case (json_str_at h ''service_bus_namespace_name'', json_str_at h ''topic_name'') of
           (Some ns, Some topic) \<Rightarrow> hm_insert ''queue_url'' (ns @ ''.servicebus.windows.net/'' @ topic) []
         | _ \<Rightarrow> [])
      else [])"

definition export_port :: "(string, string) hashmap \<Rightarrow> nat \<Rightarrow> nat" where
  "export_port partition_outputs d = (case Option.bind (hm_get partition_outputs ''port'') (parse_below 65536) of
     None \<Rightarrow> d | Some n \<Rightarrow> n)"

definition need_output :: "string \<Rightarrow> (string, string) hashmap \<Rightarrow> string \<Rightarrow> bool \<Rightarrow> ('x, string) cloud_act" where
  "need_output export_name outputs k declare_it = or_error
     (ProvisionFailed (''provision_export '' @ quote1 export_name @ '': missing Terraform output '' @ quote1 k @
        (if declare_it then em_dash @ ''your .tf must declare output '' @ [CHR 0x22] @ k @ [CHR 0x22] else [])))
     (hm_get outputs k)"

definition azure_create_export :: "enclave \<Rightarrow> export \<Rightarrow> (string, string) hashmap \<Rightarrow> ('x, provision_result) cloud_act" where
  "azure_create_export enc x outs =
     (let name = exp_name x;
          handle_of = (\<lambda>kvs. json_object ([(''driver'', JString ''azure''), (''kind'', JString ''export''),
            (''subscription_id'', JString (eid_str (enc_id enc))), (''resource_group'', JString ''nclav-rg''),
            (''export_name'', JString name)] @ kvs))
      in case exp_export_type x of
        ExpHttp \<Rightarrow>
          seq (need_output name outs ''endpoint_url'' True) (\<lambda>endpoint_url.
          let port = export_port outs 443 in
          ret \<lparr>pr_handle = handle_of [(''type'', JString ''http''),
              (''pls_resource_id'', JString (str_or [] (hm_get outs ''pls_id''))),
              (''endpoint_url'', JString endpoint_url), (''port'', JNumber (int port))],
            pr_outputs = hm_insert ''port'' (nat_str port) (hm_insert ''hostname'' (extract_url_hostname endpoint_url) [])\<rparr>)
      | ExpTcp \<Rightarrow>
          seq (need_output name outs ''pls_id'' True) (\<lambda>pls_resource_id.
          let port = export_port outs 0 in
          ret \<lparr>pr_handle = handle_of [(''type'', JString ''tcp''), (''pls_resource_id'', JString pls_resource_id),
              (''port'', JNumber (int port))],
            pr_outputs = hm_insert ''port'' (nat_str port) (hm_insert ''pls_resource_id'' pls_resource_id [])\<rparr>)
      | ExpQueue \<Rightarrow>
          seq (need_output name outs ''service_bus_namespace_name'' False) (\<lambda>ns_name.
          seq (need_output name outs ''topic_name'' False) (\<lambda>topic_name.
          seq (need_output name outs ''service_bus_resource_id'' False) (\<lambda>sb_resource_id.
          ret \<lparr>pr_handle = handle_of [(''type'', JString ''queue''),
              (''service_bus_namespace_name'', JString ns_name), (''topic_name'', JString topic_name),
              (''service_bus_resource_id'', JString sb_resource_id)],
            pr_outputs = hm_insert ''queue_url'' (ns_name @ ''.servicebus.windows.net/'' @ topic_name) []\<rparr>))))"

definition azure_provision_export ::
  "enclave \<Rightarrow> export \<Rightarrow> (string, string) hashmap \<Rightarrow> handle option \<Rightarrow> ('x, provision_result) cloud_act" where
  "azure_provision_export enc x outs existing = (case existing of
     Some h \<Rightarrow> if driver_kind h ''azure'' ''export''
       then ret \<lparr>pr_handle = h, pr_outputs = export_outputs_from_handle h\<rparr> else azure_create_export enc x outs
   | None \<Rightarrow> azure_create_export enc x outs)"

subsection \<open>Imports\<close>

definition import_outputs_from_handle :: "handle \<Rightarrow> (string, string) hashmap" where
  "import_outputs_from_handle h =
     (let kind = json_str_at h ''type'' in
      if kind = Some ''http'' \<or> kind = Some ''tcp'' then
        (case json_str_at h ''private_ip'' of None \<Rightarrow> [] | Some ip \<Rightarrow> hm_insert ''hostname'' ip [])
      else if kind = Some ''queue'' then
        (case json_str_at h ''queue_url'' of None \<Rightarrow> [] | Some url \<Rightarrow> hm_insert ''queue_url'' url [])
      else [])"

definition endpoint_body :: "enclave \<Rightarrow> string \<Rightarrow> string \<Rightarrow> (string \<times> json) list \<Rightarrow> string \<Rightarrow> json" where
  "endpoint_body importer sub connection target alias = json_object [
     (''location'', JString (enc_region importer)),
     (''tags'', nclav_tags (eid_str (enc_id importer)) None),
     (''properties'', json_object [
        (''subnet'', json_object [(''id'', JString
           (group_path sub ''Microsoft.Network/virtualNetworks/nclav-vnet/subnets/subnet-0''))]),
        (''privateLinkServiceConnections'', JArray [json_object [
           (''name'', JString connection),
           (''properties'', json_object (target @ [(''requestMessage'', JString (''nclav import '' @ alias))]))]])])]"

definition endpoint_ip :: "'x azure \<Rightarrow> json \<Rightarrow> ('x, string) cloud_act" where
  "endpoint_ip d pe_result =
     (let nic = str_or [] (Option.bind
        (json_first (json_index (json_index pe_result ''properties'') ''networkInterfaces'')) (\<lambda>n. json_str_at n ''id'')) in
      if nic \<noteq> [] then
        seq (arm_get d (azu_management (az_base d) @ nic @ ''?api-version=2023-11-01'')) (\<lambda>(_, nic_body).
        ret (str_or ''10.0.0.0'' (Option.bind
          (json_first (json_index (json_index nic_body ''properties'') ''ipConfigurations''))
          (\<lambda>cfg. json_str_at (json_index cfg ''properties'') ''privateIPAddress''))))
      else ret ''10.0.0.0'')"

definition import_error :: "string \<Rightarrow> string \<Rightarrow> driver_error" where
  "import_error alias msg = ProvisionFailed (''provision_import '' @ quote1 alias @ '': '' @ msg)"

definition azure_import_link ::
  "'x azure \<Rightarrow> enclave \<Rightarrow> string \<Rightarrow> handle \<Rightarrow> string \<Rightarrow> string \<Rightarrow> ('x, provision_result) cloud_act" where
  "azure_import_link d importer alias export_handle export_type sub =
     seq (or_error (import_error alias (''export handle missing '' @ quote1 ''pls_resource_id'' @
         ''. Ensure the exporter'' @ [CHR 0x27] @ ''s Terraform declares output '' @ [CHR 0x22] @ ''pls_id'' @ [CHR 0x22] @ ''.''))
       (json_str_at export_handle ''pls_resource_id'')) (\<lambda>pls_resource_id.
     let port = unat (of_nat (case json_u64 (json_index export_handle ''port'') of None \<Rightarrow> 443 | Some n \<Rightarrow> n) :: 16 word) in
     seq (if sub = [] then throw (import_error alias (''cannot determine importer subscription ID. Ensure the importer enclave '' @
         quote1 (eid_str (enc_id importer)) @ '' is provisioned first.'')) else ret ()) (\<lambda>_.
     seq (put_step d ''create private endpoint'' (network_url d sub (''privateEndpoints/'' @ alias @ ''-pe?api-version=2023-11-01''))
       (endpoint_body importer sub (alias @ ''-connection'') [(''privateLinkServiceId'', JString pls_resource_id)] alias)) (\<lambda>pe_result.
     seq (endpoint_ip d pe_result) (\<lambda>private_ip.
     let finish = (\<lambda>record_name hostname. ret \<lparr>
         pr_handle = json_object [
           (''driver'', JString ''azure''), (''kind'', JString ''import''), (''type'', JString export_type),
           (''subscription_id'', JString sub), (''resource_group'', JString ''nclav-rg''),
           (''private_endpoint_resource_id'', JString (str_or [] (json_str_at pe_result ''id''))),
           (''private_ip'', JString private_ip), (''dns_record_name'', JString record_name)],
         pr_outputs = hm_insert ''port'' (nat_str port) (hm_insert ''hostname'' hostname [])\<rparr>)
     in case Option.bind (enc_dns importer) dns_zone of
       None \<Rightarrow> finish [] private_ip
     | Some zone \<Rightarrow>
         seq (put_step d ''create DNS A record''
           (network_url d sub (''privateDnsZones/'' @ zone @ ''/A/'' @ alias @ ''?api-version=2020-06-01''))
           (json_object [(''properties'', json_object [(''ttl'', JNumber 300),
              (''aRecords'', JArray [json_object [(''ipv4Address'', JString private_ip)]])])])) (\<lambda>_.
         finish alias (alias @ ''.'' @ zone))))))"

definition azure_import_queue :: "'x azure \<Rightarrow> enclave \<Rightarrow> string \<Rightarrow> handle \<Rightarrow> string \<Rightarrow> ('x, provision_result) cloud_act" where
  "azure_import_queue d importer alias export_handle sub =
     seq (or_error (import_error alias (''export handle missing '' @ quote1 ''service_bus_resource_id''))
       (json_str_at export_handle ''service_bus_resource_id'')) (\<lambda>sb_resource_id.
     seq (if sub = [] then throw (import_error alias ''cannot determine importer subscription ID'') else ret ()) (\<lambda>_.
     let importer_principal_id = [];
         receiver = sb_resource_id @ ''/providers/Microsoft.Authorization/roleDefinitions/4f6d3b9b-027b-4f4c-9142-0e5a2a2247e0'' in
     seq (if importer_principal_id \<noteq> [] then ignore_failure (assign_role d sb_resource_id receiver importer_principal_id)
          else ret ()) (\<lambda>_.
     seq (put_step d ''create SB private endpoint'' (network_url d sub (''privateEndpoints/'' @ alias @ ''-sb-pe?api-version=2023-11-01''))
       (endpoint_body importer sub (alias @ ''-sb-connection'')
          [(''privateLinkServiceId'', JString sb_resource_id), (''groupIds'', JArray [JString ''namespace''])] alias)) (\<lambda>_.
     ret \<lparr>pr_handle = json_object [
         (''driver'', JString ''azure''), (''kind'', JString ''import''), (''type'', JString ''queue''),
         (''subscription_id'', JString sub), (''resource_group'', JString ''nclav-rg''), (''alias'', JString alias)],
       pr_outputs = hm_insert ''queue_url'' (str_or [] (json_str_at export_handle ''service_bus_namespace_name'') @
         ''.servicebus.windows.net/'' @ str_or [] (json_str_at export_handle ''topic_name'')) []\<rparr>))))"

definition azure_provision_import ::
  "'x azure \<Rightarrow> enclave \<Rightarrow> import \<Rightarrow> handle \<Rightarrow> handle option \<Rightarrow> ('x, provision_result) cloud_act" where
  "azure_provision_import d importer i export_handle existing =
     (let alias = imp_alias i;
          export_type = str_or ''http'' (json_str_at export_handle ''type'');
          sub = str_or [] (first_some [Option.bind existing (\<lambda>h. json_str_at h ''subscription_id''), enc_identity importer]);
          create = (if export_type = ''http'' \<or> export_type = ''tcp''
             then azure_import_link d importer alias export_handle export_type sub
             else if export_type = ''queue'' then azure_import_queue d importer alias export_handle sub
             else throw (import_error alias (''unknown export type '' @ quote1 export_type)))
      in case existing of
           Some h \<Rightarrow> if driver_kind h ''azure'' ''import''
             then ret \<lparr>pr_handle = h, pr_outputs = import_outputs_from_handle h\<rparr> else create
         | None \<Rightarrow> create)"

subsection \<open>Observation\<close>

text \<open>Whether a resource of the handle answers; none is expected where the handle names none.\<close>

definition resource_answers :: "'x azure \<Rightarrow> string \<Rightarrow> string \<Rightarrow> ('x, bool) cloud_act" where
  "resource_answers d resource_id version =
     (if resource_id \<noteq> [] then
        seq (attempt (arm_get d (azu_management (az_base d) @ resource_id @ version))) (\<lambda>r.
        ret (case r of Inr (status, _) \<Rightarrow> is_success status | Inl _ \<Rightarrow> False))
      else ret True)"

definition azure_observe_enclave :: "'x azure \<Rightarrow> enclave \<Rightarrow> handle \<Rightarrow> ('x, observed_state) cloud_act" where
  "azure_observe_enclave d enc h =
     (let sub_id = str_or [] (json_str_at h ''subscription_id'') in
      if sub_id = [] then ret \<lparr>obs_exists = False, obs_healthy = False, obs_outputs = [], obs_raw = h\<rparr>
      else seq (arm_get d (azu_management (az_base d) @ ''/subscriptions/'' @ sub_id @ ''?api-version=2022-12-01''))
        (\<lambda>(status, v).
        if status = 404 then ret \<lparr>obs_exists = False, obs_healthy = False, obs_outputs = [], obs_raw = v\<rparr>
        else seq (resource_answers d (str_or [] (json_str_at h ''vnet_resource_id'')) ''?api-version=2023-11-01'') (\<lambda>vnet_healthy.
          seq (resource_answers d (str_or [] (json_str_at h ''identity_resource_id'')) ''?api-version=2023-01-31'') (\<lambda>mi_healthy.
          ret \<lparr>obs_exists = is_success status,
            obs_healthy = (is_success status \<and> json_str_at v ''state'' = Some ''Enabled'' \<and> vnet_healthy \<and> mi_healthy),
            obs_outputs = [], obs_raw = v\<rparr>))))"

definition azure_observe_partition :: "enclave \<Rightarrow> partition \<Rightarrow> handle \<Rightarrow> ('x, observed_state) cloud_act" where
  "azure_observe_partition enc p h =
     (let e = driver_kind h ''azure'' ''partition''
      in ret \<lparr>obs_exists = e, obs_healthy = e, obs_outputs = [], obs_raw = h\<rparr>)"

subsection \<open>Terraform and orphans\<close>

definition azure_context_vars :: "'x azure \<Rightarrow> enclave \<Rightarrow> handle \<Rightarrow> (string, string) hashmap" where
  "azure_context_vars d enc h =
     (let sub_id = str_or [] (json_str_at h ''subscription_id'');
          location = str_or (azc_default_location (az_cfg d)) (json_str_at h ''location'') in
      fold (\<lambda>(k, v). hm_insert k v) [
        (''nclav_project_id'', sub_id), (''nclav_region'', location), (''nclav_subscription_id'', sub_id),
        (''nclav_resource_group'', ''nclav-rg''), (''nclav_location'', location),
        (''nclav_identity_client_id'', str_or [] (json_str_at h ''identity_client_id'')),
        (''nclav_enclave'', eid_str (enc_id enc))] [])"

definition azure_auth_env :: "'x azure \<Rightarrow> enclave \<Rightarrow> handle \<Rightarrow> (string, string) hashmap" where
  "azure_auth_env d enc h =
     (let cfg = az_cfg d;
          env = insert_opt ''ARM_CLIENT_SECRET'' (azc_client_secret cfg)
            (insert_opt ''ARM_CLIENT_ID'' (azc_client_id cfg)
            (hm_insert ''ARM_SUBSCRIPTION_ID'' (str_or [] (json_str_at h ''subscription_id''))
            (hm_insert ''ARM_TENANT_ID'' (azc_tenant_id cfg) [])))
      in if (azc_client_id cfg = None \<or> azc_client_secret cfg = None) \<and> ah_env (az_host d) ''IDENTITY_ENDPOINT'' \<noteq> None
         then hm_insert ''ARM_USE_MSI'' ''true'' env else env)"

fun position :: "('a \<Rightarrow> bool) \<Rightarrow> 'a list \<Rightarrow> nat option" where
  "position P [] = None"
| "position P (x # xs) = (if P x then Some 0 else map_option Suc (position P xs))"

definition column :: "json \<Rightarrow> string \<Rightarrow> nat option" where
  "column resp name = position (\<lambda>c. json_str_at c ''name'' = Some name)
     (case json_array_of (json_index (json_index resp ''data'') ''columns'') of None \<Rightarrow> [] | Some cols \<Rightarrow> cols)"

definition cell :: "json \<Rightarrow> nat option \<Rightarrow> json option" where
  "cell row i = Option.bind (json_array_of row) (\<lambda>r. Option.bind i (\<lambda>i. if i < length r then Some (r ! i) else None))"

definition extract_resource_names :: "json \<Rightarrow> string list" where
  "extract_resource_names resp = (case json_array_of (json_index (json_index resp ''data'') ''rows'') of
     None \<Rightarrow> []
   | Some rows \<Rightarrow>
       let i = first_some [column resp ''id'', column resp ''name'']
       in List.map_filter (\<lambda>row. Option.bind (cell row i) json_as_str) rows)"

definition graph_url :: "'x azure \<Rightarrow> string" where
  "graph_url d = azu_graph (az_base d) @ ''/providers/Microsoft.ResourceGraph/resources?api-version=2021-03-01''"

definition graph_query :: "string \<Rightarrow> string \<Rightarrow> json" where
  "graph_query sub_id q = json_object [(''subscriptions'', JArray [JString sub_id]), (''query'', JString q)]"

definition azure_list_partition_resources :: "'x azure \<Rightarrow> enclave \<Rightarrow> handle \<Rightarrow> partition \<Rightarrow> ('x, string list) cloud_act" where
  "azure_list_partition_resources d enc enc_handle p =
     (let sub_id = str_or [] (json_str_at enc_handle ''subscription_id'') in
      if sub_id = [] then ret []
      else seq (attempt (arm_get d (graph_url d))) (\<lambda>_.
        seq (attempt (arm_post d (graph_url d) (graph_query sub_id
          (''Resources | where tags['' @ quote1 ''nclav-managed'' @ ''] == '' @ quote1 ''true'' @
           '' and tags['' @ quote1 ''nclav-partition'' @ ''] == '' @ quote1 (pid_str (part_id p)))))) (\<lambda>r.
        ret (case r of Inr resp \<Rightarrow> extract_resource_names resp | Inl _ \<Rightarrow> []))))"

definition azure_orphan :: "json \<Rightarrow> string list \<Rightarrow> json \<Rightarrow> orphaned_resource option" where
  "azure_orphan resp known row =
     (let tags = (case cell row (column resp ''tags'') of None \<Rightarrow> JNull | Some t \<Rightarrow> t);
          part_label = str_or [] (json_str_at tags ''nclav-partition'')
      in if part_label = [] \<or> part_label \<in> set known then None
         else Some \<lparr>
           orph_resource_name = str_or [] (Option.bind
             (first_some [cell row (column resp ''id''), cell row (column resp ''name'')]) json_as_str),
           orph_resource_type = str_or [] (Option.bind (cell row (column resp ''type'')) json_as_str),
           orph_nclav_partition = part_label,
           orph_nclav_enclave = str_or [] (json_str_at tags ''nclav-enclave'')\<rparr>)"

definition azure_list_orphaned_resources ::
  "'x azure \<Rightarrow> enclave \<Rightarrow> handle \<Rightarrow> string list \<Rightarrow> ('x, orphaned_resource list) cloud_act" where
  "azure_list_orphaned_resources d enc enc_handle known =
     (let sub_id = str_or [] (json_str_at enc_handle ''subscription_id'') in
      if sub_id = [] then ret []
      else seq (attempt (arm_post d (graph_url d) (graph_query sub_id
          (''Resources | where tags['' @ quote1 ''nclav-managed'' @ ''] == '' @ quote1 ''true'' @
           '' and isnotempty(tags['' @ quote1 ''nclav-partition'' @ ''])'')))) (\<lambda>r.
        ret (case r of
            Inl _ \<Rightarrow> []
          | Inr resp \<Rightarrow> (case json_array_of (json_index (json_index resp ''data'') ''rows'') of
              None \<Rightarrow> [] | Some rows \<Rightarrow> List.map_filter (azure_orphan resp known) rows))))"

definition azure_driver :: "'x azure \<Rightarrow> 'x driver" where
  "azure_driver d = \<lparr>
     drv_name = ''azure'',
     drv_provision_enclave = azure_provision_enclave d,
     drv_teardown_enclave = azure_teardown_enclave d,
     drv_provision_partition = azure_provision_partition d,
     drv_teardown_partition = azure_teardown_partition d,
     drv_provision_export = azure_provision_export,
     drv_provision_import = azure_provision_import d,
     drv_observe_enclave = azure_observe_enclave d,
     drv_observe_partition = azure_observe_partition,
     drv_context_vars = azure_context_vars d,
     drv_auth_env = azure_auth_env d,
     drv_list_partition_resources = azure_list_partition_resources d,
     drv_list_orphaned_resources = azure_list_orphaned_resources d\<rparr>"

end
