(* ===== verification/Aws_Client.thy ===== *)
theory Aws_Client
  imports Cloud_Names Local_Driver
begin

section \<open>The client of AWS\<close>

text \<open>
  The first half of \<open>crates/nclav-driver/src/aws.rs\<close>: the sources of credentials, the signature of a
  request (version 4), the encoding of form bodies, the readers of XML replies, and the calls that the
  driver is made of. The record \<open>aws_host\<close> is what the host gives: clocks, the cell of the
  credentials cache, the environment, the \<open>aws\<close> binary, SHA-256 and HMAC, the events of the XML
  parser \<open>quick_xml\<close>, and the text and parser of JSON.
\<close>

record aws_config =
  awc_org_unit_id :: string
  awc_email_domain :: string
  awc_default_region :: string
  awc_account_prefix :: "string option"
  awc_cross_account_role :: string
  awc_role_arn :: "string option"

record aws_urls =
  awu_organizations :: string
  awu_sts :: string
  awu_ec2 :: string
  awu_iam :: string
  awu_route53 :: string
  awu_tagging :: string

definition aws_urls_for_region :: "string \<Rightarrow> aws_urls" where
  "aws_urls_for_region region = \<lparr>
     awu_organizations = ''https://organizations.us-east-1.amazonaws.com'',
     awu_sts = ''https://sts.amazonaws.com'',
     awu_ec2 = ''https://ec2.'' @ region @ ''.amazonaws.com'',
     awu_iam = ''https://iam.amazonaws.com'',
     awu_route53 = ''https://route53.amazonaws.com'',
     awu_tagging = ''https://tagging.'' @ region @ ''.amazonaws.com''\<rparr>"

record aws_creds =
  cr_access_key_id :: string
  cr_secret_access_key :: string
  cr_session_token :: "string option"

text \<open>The events of an XML document up to its end or the first error; a text is \<open>None\<close> when it cannot be unescaped.\<close>

datatype xml_event = XmlStart string | XmlEnd | XmlText "string option" | XmlOther

record 'x aws_host =
  wh_now :: "'x \<Rightarrow> nat"
  wh_timestamp :: "'x \<Rightarrow> string"
  wh_date :: "'x \<Rightarrow> string"
  wh_millis :: "'x \<Rightarrow> nat"
  wh_cache :: "'x \<Rightarrow> (aws_creds \<times> nat) option"
  wh_set_cache :: "(aws_creds \<times> nat) option \<Rightarrow> 'x \<Rightarrow> 'x"
  wh_env :: "string \<Rightarrow> string option"
  wh_aws :: "string list \<Rightarrow> ('x, string, process_result) act"
  wh_sha256 :: "8 word list \<Rightarrow> 8 word list"
  wh_hmac :: "8 word list \<Rightarrow> 8 word list \<Rightarrow> 8 word list"
  wh_xml :: "string \<Rightarrow> xml_event list"
  wh_json_text :: "json \<Rightarrow> string"
  wh_json_parse :: "string \<Rightarrow> (string, json) result"

record 'x aws =
  aw_cfg :: aws_config
  aw_net :: "'x cloud_net"
  aw_creds :: "('x, aws_creds) cloud_act"
  aw_base :: aws_urls
  aw_unicode :: unicode
  aw_host :: "'x aws_host"

subsection \<open>Credentials\<close>

definition creds_of_reply :: "json \<Rightarrow> string \<Rightarrow> aws_creds" where
  "creds_of_reply v token_key = \<lparr>cr_access_key_id = str_or [] (json_str_at v ''AccessKeyId''),
     cr_secret_access_key = str_or [] (json_str_at v ''SecretAccessKey''),
     cr_session_token = json_str_at v token_key\<rparr>"

definition plain_call :: "string \<Rightarrow> string \<Rightarrow> (string \<times> string) list \<Rightarrow> http_call" where
  "plain_call verb url headers = \<lparr>call_verb = verb, call_url = url, call_query = [], call_headers = headers,
     call_bearer = None, call_body = NoContent\<rparr>"

definition ecs_creds :: "'x cloud_net \<Rightarrow> string \<Rightarrow> ('x, aws_creds) cloud_act" where
  "ecs_creds net uri =
     seq (send_call net (\<lambda>e. DriverInternal (''ECS IMDS request: '' @ e))
       (plain_call ''GET'' (''http://169.254.170.2'' @ uri) [])) (\<lambda>r.
     seq (decode_json (\<lambda>e. DriverInternal (''ECS IMDS decode: '' @ e)) r) (\<lambda>resp.
     ret (creds_of_reply resp ''Token'')))"

text \<open>\<open>s.lines().next().unwrap_or("")\<close>.\<close>

definition first_line :: "string \<Rightarrow> string" where
  "first_line s = (let l = takeWhile (\<lambda>c. c \<noteq> CHR 0x0A) s
     in if length l < length s \<and> ends_with [CHR 0x0D] l then butlast l else l)"

definition imds_roles_url :: string where
  "imds_roles_url = ''http://169.254.169.254/latest/meta-data/iam/security-credentials/''"

definition imds_creds :: "'x cloud_net \<Rightarrow> ('x, aws_creds) cloud_act" where
  "imds_creds net =
     seq (send_call net (\<lambda>e. DriverInternal (''IMDSv2 token request: '' @ e))
       (plain_call ''PUT'' ''http://169.254.169.254/latest/api/token'' [(''X-aws-ec2-metadata-token-ttl-seconds'', ''21600'')])) (\<lambda>token_resp.
     seq (lift_result (map_sum (\<lambda>e. DriverInternal (''IMDSv2 token decode: '' @ e)) id (rp_text token_resp))) (\<lambda>imds_token.
     seq (send_call net (\<lambda>e. DriverInternal (''IMDS roles request: '' @ e))
       (plain_call ''GET'' imds_roles_url [(''X-aws-ec2-metadata-token'', imds_token)])) (\<lambda>roles_resp.
     let role_name = first_line (text_or_empty roles_resp) in
     if role_name = [] then throw (DriverInternal ''IMDS: no IAM role found'')
     else seq (send_call net (\<lambda>e. DriverInternal (''IMDS creds request: '' @ e))
       (plain_call ''GET'' (imds_roles_url @ role_name) [(''X-aws-ec2-metadata-token'', imds_token)])) (\<lambda>r.
     seq (decode_json (\<lambda>e. DriverInternal (''IMDS creds decode: '' @ e)) r) (\<lambda>resp.
     ret (creds_of_reply resp ''Token''))))))"

text \<open>The credentials of the metadata services are kept for ten minutes.\<close>

definition cached_creds :: "'x aws_host \<Rightarrow> ('x, aws_creds) cloud_act \<Rightarrow> ('x, aws_creds) cloud_act" where
  "cached_creds h fetch = (\<lambda>x.
     let renew = seq fetch (\<lambda>creds x'. (Inr creds, wh_set_cache h (Some (creds, wh_now h x' + 600)) x'))
     in case wh_cache h x of
          Some (creds, expiry) \<Rightarrow> if wh_now h x < expiry then (Inr creds, x) else renew x
        | None \<Rightarrow> renew x)"

definition aws_cli_creds :: "'x aws_host \<Rightarrow> ('x, aws_creds) cloud_act" where
  "aws_cli_creds h =
     seq (map_err (\<lambda>e. DriverInternal (''aws CLI not found: '' @ e @
         ''. Install AWS CLI or configure credentials via env vars.''))
       (wh_aws h [''sts'', ''get-session-token'', ''--duration-seconds'', ''3600'', ''--output'', ''json''])) (\<lambda>out.
     if \<not> pc_success out then
       throw (DriverInternal (''aws sts get-session-token failed: '' @ trim (pc_stderr out) @
         ''. Run '' @ quote1 ''aws configure'' @ '' first.''))
     else seq (lift_result (map_sum (\<lambda>e. DriverInternal (''aws CLI output parse: '' @ e)) id (wh_json_parse h (pc_stdout out)))) (\<lambda>resp.
       ret (creds_of_reply (json_index resp ''Credentials'') ''SessionToken'')))"

definition aws_new :: "'x cloud_net \<Rightarrow> 'x aws_host \<Rightarrow> unicode \<Rightarrow> aws_config \<Rightarrow> ('x, 'x aws) cloud_act" where
  "aws_new net h uc cfg =
     seq (case (wh_env h ''AWS_ACCESS_KEY_ID'', wh_env h ''AWS_SECRET_ACCESS_KEY'') of
         (Some key, Some secret) \<Rightarrow>
           ret (ret \<lparr>cr_access_key_id = key, cr_secret_access_key = secret, cr_session_token = wh_env h ''AWS_SESSION_TOKEN''\<rparr>)
       | _ \<Rightarrow> (case wh_env h ''AWS_CONTAINER_CREDENTIALS_RELATIVE_URI'' of
           Some uri \<Rightarrow> ret (cached_creds h (ecs_creds net uri))
         | None \<Rightarrow>
             seq (attempt (cn_send net (plain_call ''GET'' ''http://169.254.169.254/latest/api/token''
               [(''X-aws-ec2-metadata-token-ttl-seconds'', ''10'')]))) (\<lambda>probe.
             ret (case probe of Inr _ \<Rightarrow> cached_creds h (imds_creds net) | Inl _ \<Rightarrow> aws_cli_creds h)))) (\<lambda>creds.
     ret \<lparr>aw_cfg = cfg, aw_net = net, aw_creds = creds, aw_base = aws_urls_for_region (awc_default_region cfg),
       aw_unicode = uc, aw_host = h\<rparr>)"

subsection \<open>Signatures\<close>

definition hex_str :: "8 word list \<Rightarrow> string" where
  "hex_str xs = concat (map hex2 xs)"

definition derive_signing_key :: "'x aws_host \<Rightarrow> string \<Rightarrow> string \<Rightarrow> string \<Rightarrow> string \<Rightarrow> 8 word list" where
  "derive_signing_key h secret date region service =
     (let k_date = wh_hmac h (to_bytes (''AWS4'' @ secret)) (to_bytes date);
          k_region = wh_hmac h k_date (to_bytes region);
          k_service = wh_hmac h k_region (to_bytes service)
      in wh_hmac h k_service (to_bytes ''aws4_request''))"

text \<open>\<open>s.trim_start_matches(p)\<close> for a pattern that is a string.\<close>

function trim_start_str :: "string \<Rightarrow> string \<Rightarrow> string" where
  "trim_start_str p s = (if p \<noteq> [] \<and> starts_with p s then trim_start_str p (drop (length p) s) else s)"
  by pat_completeness auto

termination
  by (relation "measure (\<lambda>(p, s). length s)") (auto simp: starts_with_def intro!: diff_less)

declare trim_start_str.simps [simp del]

definition url_host :: "string \<Rightarrow> string" where
  "url_host url = takeWhile (\<lambda>c. c \<noteq> CHR ''/'') (trim_start_str ''http://'' (trim_start_str ''https://'' url))"

record signed_request =
  sr_method :: string
  sr_path :: string
  sr_query :: string
  sr_content_type :: string
  sr_body :: string
  sr_region :: string
  sr_service :: string
  sr_host :: string

definition canonical_headers :: "'x aws_host \<Rightarrow> signed_request \<Rightarrow> aws_creds \<Rightarrow> string \<Rightarrow> (string \<times> string) list" where
  "canonical_headers h rq creds timestamp = bt_collect (
     [(''content-type'', sr_content_type rq), (''host'', sr_host rq),
      (''x-amz-content-sha256'', hex_str (wh_sha256 h (to_bytes (sr_body rq)))), (''x-amz-date'', timestamp)] @
     (case cr_session_token creds of None \<Rightarrow> [] | Some token \<Rightarrow> [(''x-amz-security-token'', token)]))"

definition signed_names :: "(string \<times> string) list \<Rightarrow> string" where
  "signed_names hdrs = join_strs '';'' (map fst hdrs)"

definition canonical_request :: "'x aws_host \<Rightarrow> signed_request \<Rightarrow> (string \<times> string) list \<Rightarrow> string" where
  "canonical_request h rq hdrs = sr_method rq @ nl @ sr_path rq @ nl @ sr_query rq @ nl @
     concat (map (\<lambda>(k, v). k @ '':'' @ trim v @ nl) hdrs) @ nl @ signed_names hdrs @ nl @
     hex_str (wh_sha256 h (to_bytes (sr_body rq)))"

definition signature_scope :: "signed_request \<Rightarrow> string \<Rightarrow> string" where
  "signature_scope rq date = date @ ''/'' @ sr_region rq @ ''/'' @ sr_service rq @ ''/aws4_request''"

definition sigv4_headers :: "'x aws_host \<Rightarrow> signed_request \<Rightarrow> aws_creds \<Rightarrow> 'x \<Rightarrow> (string \<times> string) list" where
  "sigv4_headers h rq creds x =
     (let timestamp = wh_timestamp h x; date = wh_date h x;
          hdrs = canonical_headers h rq creds timestamp;
          scope = signature_scope rq date;
          string_to_sign = ''AWS4-HMAC-SHA256'' @ nl @ timestamp @ nl @ scope @ nl @
            hex_str (wh_sha256 h (to_bytes (canonical_request h rq hdrs)));
          signature = hex_str (wh_hmac h
            (derive_signing_key h (cr_secret_access_key creds) date (sr_region rq) (sr_service rq)) (to_bytes string_to_sign));
          auth = ''AWS4-HMAC-SHA256 Credential='' @ cr_access_key_id creds @ ''/'' @ scope @
            '',SignedHeaders='' @ signed_names hdrs @ '',Signature='' @ signature
      in bt_collect ([(''Authorization'', auth), (''x-amz-date'', timestamp),
           (''x-amz-content-sha256'', hex_str (wh_sha256 h (to_bytes (sr_body rq))))] @
         (case cr_session_token creds of None \<Rightarrow> [] | Some token \<Rightarrow> [(''x-amz-security-token'', token)])))"

subsection \<open>Form bodies\<close>

text \<open>The module \<open>urlencoding\<close>, and the body that \<open>query_api\<close> builds.\<close>

definition unreserved :: "char \<Rightarrow> bool" where
  "unreserved c \<longleftrightarrow> is_alnum_ascii c \<or> c \<in> {CHR ''-'', CHR ''_'', CHR ''.'', CHR ''~''}"

definition upper_hex :: "nat \<Rightarrow> char" where
  "upper_hex n = (if n < 10 then char_of (48 + n) else char_of (55 + n))"

definition url_encode_byte :: "char \<Rightarrow> string" where
  "url_encode_byte c =
     (if unreserved c then [c] else if c = CHR '' '' then ''+''
      else [CHR 0x25, upper_hex (of_char c div 16), upper_hex (of_char c mod 16)])"

definition url_encode :: "string \<Rightarrow> string" where
  "url_encode s = concat (map url_encode_byte s)"

definition form_body :: "(string \<times> string) list \<Rightarrow> string" where
  "form_body params = join_strs ''&'' (map (\<lambda>(k, v). k @ ''='' @ url_encode v) params)"

subsection \<open>XML replies\<close>

text \<open>\<open>xml_text\<close>: inside the first element of the name, at depth zero, the first text.\<close>

primrec xml_text_loop :: "string \<Rightarrow> xml_event list \<Rightarrow> bool \<Rightarrow> nat \<Rightarrow> string option" where
  "xml_text_loop tag [] in_tag depth = None"
| "xml_text_loop tag (e # es) in_tag depth = (case e of
     XmlStart n \<Rightarrow>
       if \<not> in_tag \<and> n = tag then xml_text_loop tag es True 0
       else if in_tag then xml_text_loop tag es in_tag (depth + 1)
       else xml_text_loop tag es in_tag depth
   | XmlEnd \<Rightarrow>
       if in_tag then (if depth = 0 then None else xml_text_loop tag es in_tag (depth - 1))
       else xml_text_loop tag es in_tag depth
   | XmlText t \<Rightarrow> if in_tag \<and> depth = 0 then t else xml_text_loop tag es in_tag depth
   | XmlOther \<Rightarrow> xml_text_loop tag es in_tag depth)"

definition xml_text :: "'x aws_host \<Rightarrow> string \<Rightarrow> string \<Rightarrow> string option" where
  "xml_text h xml tag = xml_text_loop tag (wh_xml h xml) False 0"

primrec xml_all_loop :: "string \<Rightarrow> xml_event list \<Rightarrow> nat \<Rightarrow> string list" where
  "xml_all_loop tag [] depth = []"
| "xml_all_loop tag (e # es) depth = (case e of
     XmlStart n \<Rightarrow>
       if depth = 0 \<and> n = tag then xml_all_loop tag es 1
       else if depth > 0 then xml_all_loop tag es (depth + 1)
       else xml_all_loop tag es depth
   | XmlEnd \<Rightarrow> xml_all_loop tag es (depth - 1)
   | XmlText t \<Rightarrow> (case t of
       Some s \<Rightarrow> if depth = 1 then s # xml_all_loop tag es depth else xml_all_loop tag es depth
     | None \<Rightarrow> xml_all_loop tag es depth)
   | XmlOther \<Rightarrow> xml_all_loop tag es depth)"

definition xml_all_texts :: "'x aws_host \<Rightarrow> string \<Rightarrow> string \<Rightarrow> string list" where
  "xml_all_texts h xml tag = xml_all_loop tag (wh_xml h xml) 0"

definition xml_error_code :: "'x aws_host \<Rightarrow> string \<Rightarrow> string" where
  "xml_error_code h xml = str_or ''Unknown''
     (case xml_text h xml ''Code'' of Some s \<Rightarrow> Some s | None \<Rightarrow> xml_text h xml ''code'')"

definition xml_error_message :: "'x aws_host \<Rightarrow> string \<Rightarrow> string" where
  "xml_error_message h xml = str_or ''unknown error''
     (case xml_text h xml ''Message'' of Some s \<Rightarrow> Some s | None \<Rightarrow> xml_text h xml ''message'')"

subsection \<open>Requests\<close>

text \<open>A signed POST: the headers of the signature are made from the clock at the time of the call.\<close>

definition signed_post ::
  "'x aws \<Rightarrow> (string \<Rightarrow> driver_error) \<Rightarrow> string \<Rightarrow> (string \<times> string) list \<Rightarrow> (string \<times> string) list \<Rightarrow>
     signed_request \<Rightarrow> aws_creds \<Rightarrow> ('x, cloud_reply) cloud_act" where
  "signed_post d f url first extra rq creds = (\<lambda>x.
     send_call (aw_net d) f \<lparr>call_verb = ''POST'', call_url = url, call_query = [],
       call_headers = (''Content-Type'', sr_content_type rq) # first @
         fold (\<lambda>(k, v). bt_insert k v) extra (sigv4_headers (aw_host d) rq creds x),
       call_bearer = None, call_body = TextContent (sr_body rq)\<rparr> x)"

definition query_api :: "'x aws \<Rightarrow> string \<Rightarrow> string \<Rightarrow> string \<Rightarrow> aws_creds \<Rightarrow> (string \<times> string) list \<Rightarrow> ('x, string) cloud_act" where
  "query_api d base_url region service creds params =
     (let url = trim_end_matches (CHR ''/'') base_url @ ''/'' in
      seq (signed_post d (\<lambda>e. DriverInternal (''POST '' @ url @ '' failed: '' @ e)) url [] []
        \<lparr>sr_method = ''POST'', sr_path = ''/'', sr_query = [],
         sr_content_type = ''application/x-www-form-urlencoded; charset=utf-8'', sr_body = form_body params,
         sr_region = region, sr_service = service, sr_host = url_host base_url\<rparr> creds) (\<lambda>resp.
      let xml = text_or_empty resp in
      if 400 \<le> rp_status resp
      then throw (ProvisionFailed (base_url @ '': '' @ xml_error_code (aw_host d) xml @ em_dash @ xml_error_message (aw_host d) xml))
      else ret xml))"

definition json_api :: "'x aws \<Rightarrow> string \<Rightarrow> string \<Rightarrow> string \<Rightarrow> string \<Rightarrow> aws_creds \<Rightarrow> json \<Rightarrow> ('x, json) cloud_act" where
  "json_api d base_url region service target creds b =
     (let url = trim_end_matches (CHR ''/'') base_url @ ''/'' in
      seq (signed_post d (\<lambda>e. DriverInternal (''POST '' @ url @ '' failed: '' @ e)) url
        [(''X-Amz-Target'', target)] [(''X-Amz-Target'', target)]
        \<lparr>sr_method = ''POST'', sr_path = ''/'', sr_query = [],
         sr_content_type = ''application/x-amz-json-1.1'', sr_body = wh_json_text (aw_host d) b,
         sr_region = region, sr_service = service, sr_host = url_host base_url\<rparr> creds) (\<lambda>resp.
      let v = json_or_null resp in
      if 400 \<le> rp_status resp
      then throw (ProvisionFailed (base_url @ '' ['' @ target @ '']: '' @ str_or ''Unknown'' (json_str_at v ''__type'') @ em_dash @
        str_or ''unknown error'' (case json_str_at v ''message'' of Some s \<Rightarrow> Some s | None \<Rightarrow> json_str_at v ''Message'')))
      else ret v))"

definition route53_post :: "'x aws \<Rightarrow> string \<Rightarrow> aws_creds \<Rightarrow> string \<Rightarrow> ('x, string) cloud_act" where
  "route53_post d path creds xml =
     (let base = awu_route53 (aw_base d) in
      seq (signed_post d (\<lambda>e. DriverInternal (''Route53 POST '' @ path @ '': '' @ e))
        (trim_end_matches (CHR ''/'') base @ path) [] []
        \<lparr>sr_method = ''POST'', sr_path = path, sr_query = [], sr_content_type = ''text/xml; charset=utf-8'',
         sr_body = xml, sr_region = ''us-east-1'', sr_service = ''route53'', sr_host = url_host base\<rparr> creds) (\<lambda>resp.
      let t = text_or_empty resp in
      if 400 \<le> rp_status resp
      then throw (ProvisionFailed (''Route53 '' @ path @ '': '' @ xml_error_code (aw_host d) t @ em_dash @ xml_error_message (aw_host d) t))
      else ret t))"

subsection \<open>Roles and accounts\<close>

definition sts_assume_role :: "'x aws \<Rightarrow> aws_creds \<Rightarrow> string \<Rightarrow> string \<Rightarrow> ('x, aws_creds) cloud_act" where
  "sts_assume_role d creds role_arn session_name =
     seq (query_api d (awu_sts (aw_base d)) ''us-east-1'' ''sts'' creds [
       (''Action'', ''AssumeRole''), (''Version'', ''2011-06-15''), (''RoleArn'', role_arn),
       (''RoleSessionName'', session_name), (''DurationSeconds'', ''3600'')]) (\<lambda>xml.
     seq (or_error (DriverInternal ''STS AssumeRole: no AccessKeyId'') (xml_text (aw_host d) xml ''AccessKeyId'')) (\<lambda>key_id.
     seq (or_error (DriverInternal ''STS AssumeRole: no SecretAccessKey'') (xml_text (aw_host d) xml ''SecretAccessKey'')) (\<lambda>secret.
     ret \<lparr>cr_access_key_id = key_id, cr_secret_access_key = secret,
       cr_session_token = xml_text (aw_host d) xml ''SessionToken''\<rparr>)))"

definition enclave_creds :: "'x aws \<Rightarrow> string \<Rightarrow> ('x, aws_creds) cloud_act" where
  "enclave_creds d account_id =
     seq (aw_creds d) (\<lambda>base_creds.
     sts_assume_role d base_creds
       (''arn:aws:iam::'' @ account_id @ '':role/'' @ awc_cross_account_role (aw_cfg d)) ''nclav-session'')"

definition account_name :: "'x aws \<Rightarrow> string \<Rightarrow> string option" where
  "account_name d enclave_id = sanitize_account_name (aw_unicode d)
     (case awc_account_prefix (aw_cfg d) of
        Some p \<Rightarrow> if p \<noteq> [] then p @ ''-'' @ enclave_id else enclave_id
      | None \<Rightarrow> enclave_id)"

definition account_email :: "'x aws \<Rightarrow> string \<Rightarrow> string" where
  "account_email d name = ''aws+'' @ to_lowercase (aw_unicode d) (replace_char (CHR '' '') [] name) @ ''@'' @
     awc_email_domain (aw_cfg d)"

definition org_api :: "'x aws \<Rightarrow> string \<Rightarrow> aws_creds \<Rightarrow> json \<Rightarrow> ('x, json) cloud_act" where
  "org_api d operation creds b = json_api d (awu_organizations (aw_base d)) ''us-east-1'' ''organizations''
     (''AmazonOrganizationsV20161128.'' @ operation) creds b"

definition org_create_account :: "'x aws \<Rightarrow> aws_creds \<Rightarrow> string \<Rightarrow> string \<Rightarrow> ('x, string) cloud_act" where
  "org_create_account d creds name email =
     seq (attempt (org_api d ''CreateAccount'' creds
       (json_object [(''AccountName'', JString name), (''Email'', JString email)]))) (\<lambda>r. case r of
       Inr v \<Rightarrow> or_error (ProvisionFailed ''CreateAccount: no CreateAccountStatus.Id in response'')
         (json_str_at (json_index v ''CreateAccountStatus'') ''Id'')
     | Inl e \<Rightarrow>
         if str_contains ''DuplicateAccountException'' (driver_error_str e)
         then throw (ProvisionFailed (''Account '' @ quote1 name @ '' already exists but no account ID in state. '' @
           ''Set provisioning_complete in the enclave handle to recover. Original error: '' @ driver_error_str e))
         else throw e)"

definition account_poll :: "'x aws \<Rightarrow> aws_creds \<Rightarrow> string \<Rightarrow> ('x, string option) cloud_act" where
  "account_poll d creds req_id =
     seq (org_api d ''DescribeCreateAccountStatus'' creds (json_object [(''CreateAccountRequestId'', JString req_id)])) (\<lambda>resp.
     let st = json_index resp ''CreateAccountStatus''; status = json_str_at st ''State'' in
     if status = Some ''SUCCEEDED'' then
       seq (or_error (ProvisionFailed ''DescribeCreateAccountStatus: no AccountId in Succeeded response'')
         (json_str_at st ''AccountId'')) (\<lambda>i. ret (Some i))
     else if status = Some ''FAILED'' then
       throw (ProvisionFailed (''CreateAccount failed: '' @ str_or ''unknown'' (json_str_at st ''FailureReason'')))
     else ret None)"

definition org_wait_for_account :: "'x aws \<Rightarrow> aws_creds \<Rightarrow> string \<Rightarrow> ('x, string) cloud_act" where
  "org_wait_for_account d creds req_id =
     seq (poll_loop (aw_net d) (account_poll d creds req_id) poll_delays) (\<lambda>r.
     or_error (ProvisionFailed (''AWS account creation timed out after '' @ nat_str 120 @ '' polls (request: '' @ req_id @ '')'')) r)"

definition org_list_parents :: "'x aws \<Rightarrow> aws_creds \<Rightarrow> string \<Rightarrow> ('x, string) cloud_act" where
  "org_list_parents d creds account_id =
     seq (org_api d ''ListParents'' creds (json_object [(''ChildId'', JString account_id)])) (\<lambda>resp.
     or_error (ProvisionFailed (''ListParents for '' @ account_id @ '': no parent found''))
       (Option.bind (json_first (json_index resp ''Parents'')) (\<lambda>p. json_str_at p ''Id'')))"

definition org_move_account :: "'x aws \<Rightarrow> aws_creds \<Rightarrow> string \<Rightarrow> string \<Rightarrow> string \<Rightarrow> ('x, unit) cloud_act" where
  "org_move_account d creds account_id source dest =
     seq (attempt (org_api d ''MoveAccount'' creds (json_object [(''AccountId'', JString account_id),
       (''SourceParentId'', JString source), (''DestinationParentId'', JString dest)]))) (\<lambda>r. case r of
       Inr _ \<Rightarrow> ret ()
     | Inl e \<Rightarrow>
         if str_contains ''DuplicateAccountException'' (driver_error_str e) \<or>
            str_contains ''AccountAlreadyInOrganizationException'' (driver_error_str e)
         then ret () else throw e)"

subsection \<open>Networks\<close>

text \<open>The tags of a resource: its name, that nclav manages it, and its enclave.\<close>

definition ec2_tags :: "string \<Rightarrow> string \<Rightarrow> string \<Rightarrow> (string \<times> string) list" where
  "ec2_tags kind name eid = [
     (''TagSpecification.1.ResourceType'', kind),
     (''TagSpecification.1.Tag.1.Key'', ''Name''), (''TagSpecification.1.Tag.1.Value'', name),
     (''TagSpecification.1.Tag.2.Key'', ''nclav-managed''), (''TagSpecification.1.Tag.2.Value'', ''true''),
     (''TagSpecification.1.Tag.3.Key'', ''nclav-enclave''), (''TagSpecification.1.Tag.3.Value'', eid)]"

definition ec2_api :: "'x aws \<Rightarrow> string \<Rightarrow> aws_creds \<Rightarrow> string \<Rightarrow> (string \<times> string) list \<Rightarrow> ('x, string) cloud_act" where
  "ec2_api d region creds action params = query_api d (awu_ec2 (aw_base d)) region ''ec2'' creds
     ([(''Action'', action), (''Version'', ''2016-11-15'')] @ params)"

definition ec2_create_vpc :: "'x aws \<Rightarrow> aws_creds \<Rightarrow> string \<Rightarrow> string \<Rightarrow> string \<Rightarrow> ('x, string) cloud_act" where
  "ec2_create_vpc d creds region cidr eid =
     seq (ec2_api d region creds ''CreateVpc'' ((''CidrBlock'', cidr) # ec2_tags ''vpc'' (''nclav-'' @ eid) eid)) (\<lambda>xml.
     or_error (ProvisionFailed ''EC2 CreateVpc: no vpcId in response'') (xml_text (aw_host d) xml ''vpcId''))"

definition ec2_modify_vpc_attribute :: "'x aws \<Rightarrow> aws_creds \<Rightarrow> string \<Rightarrow> string \<Rightarrow> string \<Rightarrow> string \<Rightarrow> ('x, unit) cloud_act" where
  "ec2_modify_vpc_attribute d creds region vpc_id attr v =
     seq (ec2_api d region creds ''ModifyVpcAttribute'' [(''VpcId'', vpc_id), (attr, v)]) (\<lambda>_. ret ())"

definition ec2_create_subnet ::
  "'x aws \<Rightarrow> aws_creds \<Rightarrow> string \<Rightarrow> string \<Rightarrow> string \<Rightarrow> string \<Rightarrow> nat \<Rightarrow> ('x, string) cloud_act" where
  "ec2_create_subnet d creds region vpc_id cidr eid i =
     seq (ec2_api d region creds ''CreateSubnet'' ([(''VpcId'', vpc_id), (''CidrBlock'', cidr)] @
       ec2_tags ''subnet'' (''nclav-'' @ eid @ ''-subnet-'' @ nat_str i) eid)) (\<lambda>xml.
     or_error (ProvisionFailed ''EC2 CreateSubnet: no subnetId'') (xml_text (aw_host d) xml ''subnetId''))"

text \<open>The document that creates a hosted zone; its values are put between the tags as they are.\<close>

definition dquote :: string where
  "dquote = [CHR 0x22]"

definition xml_element :: "string \<Rightarrow> string \<Rightarrow> string" where
  "xml_element tag s = ''<'' @ tag @ ''>'' @ s @ ''</'' @ tag @ ''>''"

definition hosted_zone_xml :: "string \<Rightarrow> string \<Rightarrow> string \<Rightarrow> string \<Rightarrow> string" where
  "hosted_zone_xml name caller_ref region vpc_id =
     ''<?xml version='' @ dquote @ ''1.0'' @ dquote @ '' encoding='' @ dquote @ ''UTF-8'' @ dquote @ ''?>'' @ nl @
     ''<CreateHostedZoneRequest xmlns='' @ dquote @ ''https://route53.amazonaws.com/doc/2013-04-01/'' @ dquote @ ''>'' @ nl @
     ''  '' @ xml_element ''Name'' name @ nl @
     ''  '' @ xml_element ''CallerReference'' caller_ref @ nl @
     ''  <HostedZoneConfig>'' @ nl @
     ''    '' @ xml_element ''Comment'' ''Managed by nclav'' @ nl @
     ''    '' @ xml_element ''PrivateZone'' ''true'' @ nl @
     ''  </HostedZoneConfig>'' @ nl @
     ''  <VPC>'' @ nl @
     ''    '' @ xml_element ''VPCRegion'' region @ nl @
     ''    '' @ xml_element ''VPCId'' vpc_id @ nl @
     ''  </VPC>'' @ nl @
     ''</CreateHostedZoneRequest>''"

definition route53_create_hosted_zone :: "'x aws \<Rightarrow> aws_creds \<Rightarrow> string \<Rightarrow> string \<Rightarrow> string \<Rightarrow> ('x, string) cloud_act" where
  "route53_create_hosted_zone d creds name vpc_id region = (\<lambda>x.
     let caller_ref = ''nclav-'' @ name @ ''-'' @ nat_str (wh_millis (aw_host d) x) in
     seq (route53_post d ''/2013-04-01/hostedzone'' creds (hosted_zone_xml name caller_ref region vpc_id)) (\<lambda>resp_xml.
     or_error (ProvisionFailed ''Route53 CreateHostedZone: no Id'')
       (map_option (trim_start_str ''/hostedzone/'') (xml_text (aw_host d) resp_xml ''Id''))) x)"

subsection \<open>Identity\<close>

definition iam_api :: "'x aws \<Rightarrow> aws_creds \<Rightarrow> string \<Rightarrow> (string \<times> string) list \<Rightarrow> ('x, string) cloud_act" where
  "iam_api d creds action params = query_api d (awu_iam (aw_base d)) ''us-east-1'' ''iam'' creds
     ([(''Action'', action), (''Version'', ''2010-05-08'')] @ params)"

definition iam_get_role_arn :: "'x aws \<Rightarrow> aws_creds \<Rightarrow> string \<Rightarrow> ('x, string) cloud_act" where
  "iam_get_role_arn d creds role_name =
     seq (iam_api d creds ''GetRole'' [(''RoleName'', role_name)]) (\<lambda>xml.
     or_error (ProvisionFailed (''IAM GetRole '' @ role_name @ '': no Arn'')) (xml_text (aw_host d) xml ''Arn''))"

definition iam_create_role ::
  "'x aws \<Rightarrow> aws_creds \<Rightarrow> string \<Rightarrow> string \<Rightarrow> string \<Rightarrow> string option \<Rightarrow> ('x, string) cloud_act" where
  "iam_create_role d creds role_name trust_policy eid pid =
     seq (attempt (iam_api d creds ''CreateRole'' ([(''RoleName'', role_name), (''AssumeRolePolicyDocument'', trust_policy),
       (''Tags.member.1.Key'', ''nclav-managed''), (''Tags.member.1.Value'', ''true''),
       (''Tags.member.2.Key'', ''nclav-enclave''), (''Tags.member.2.Value'', eid)] @
       (case pid of None \<Rightarrow> [] | Some p \<Rightarrow>
          [(''Tags.member.3.Key'', ''nclav-partition''), (''Tags.member.3.Value'', p)])))) (\<lambda>r. case r of
       Inr xml \<Rightarrow> or_error (ProvisionFailed ''IAM CreateRole: no Arn'') (xml_text (aw_host d) xml ''Arn'')
     | Inl e \<Rightarrow> if str_contains ''EntityAlreadyExists'' (driver_error_str e) then iam_get_role_arn d creds role_name else throw e)"

definition iam_attach_role_policy :: "'x aws \<Rightarrow> aws_creds \<Rightarrow> string \<Rightarrow> string \<Rightarrow> ('x, unit) cloud_act" where
  "iam_attach_role_policy d creds role_name policy_arn =
     seq (iam_api d creds ''AttachRolePolicy'' [(''RoleName'', role_name), (''PolicyArn'', policy_arn)]) (\<lambda>_. ret ())"

definition iam_detach_all_policies :: "'x aws \<Rightarrow> aws_creds \<Rightarrow> string \<Rightarrow> ('x, unit) cloud_act" where
  "iam_detach_all_policies d creds role_name =
     seq (iam_api d creds ''ListAttachedRolePolicies'' [(''RoleName'', role_name)]) (\<lambda>xml.
     foldM (\<lambda>arn _. ignore_failure (iam_api d creds ''DetachRolePolicy'' [(''RoleName'', role_name), (''PolicyArn'', arn)]))
       (xml_all_texts (aw_host d) xml ''PolicyArn'') ())"

definition iam_delete_inline_policies :: "'x aws \<Rightarrow> aws_creds \<Rightarrow> string \<Rightarrow> ('x, unit) cloud_act" where
  "iam_delete_inline_policies d creds role_name =
     seq (iam_api d creds ''ListRolePolicies'' [(''RoleName'', role_name)]) (\<lambda>xml.
     foldM (\<lambda>name _. ignore_failure (iam_api d creds ''DeleteRolePolicy'' [(''RoleName'', role_name), (''PolicyName'', name)]))
       (xml_all_texts (aw_host d) xml ''member'') ())"

definition iam_delete_role :: "'x aws \<Rightarrow> aws_creds \<Rightarrow> string \<Rightarrow> ('x, unit) cloud_act" where
  "iam_delete_role d creds role_name =
     seq (attempt (iam_api d creds ''DeleteRole'' [(''RoleName'', role_name)])) (\<lambda>r. case r of
       Inr _ \<Rightarrow> ret ()
     | Inl e \<Rightarrow> if str_contains ''NoSuchEntity'' (driver_error_str e) then ret () else throw e)"

subsection \<open>Tags\<close>

definition tagged_resource :: "json \<Rightarrow> string \<times> string \<times> (string, string) hashmap" where
  "tagged_resource item =
     (let arn = str_or [] (json_str_at item ''ResourceARN''); parts = split_char (CHR '':'') arn in
      (arn, if 2 < length parts then parts ! 2 else [],
       hm_collect (List.map_filter (\<lambda>t. case (json_str_at t ''Key'', json_str_at t ''Value'') of
            (Some k, Some v) \<Rightarrow> Some (k, v) | _ \<Rightarrow> None)
          (case json_array_of (json_index item ''Tags'') of None \<Rightarrow> [] | Some ts \<Rightarrow> ts))))"

definition tagging_get_resources ::
  "'x aws \<Rightarrow> aws_creds \<Rightarrow> string \<Rightarrow> json \<Rightarrow> ('x, (string \<times> string \<times> (string, string) hashmap) list) cloud_act" where
  "tagging_get_resources d creds region tag_filters =
     seq (json_api d (awu_tagging (aw_base d)) region ''tagging'' ''ResourceGroupsTaggingAPI_20170126.GetResources'' creds
       (json_object [(''TagFilters'', tag_filters)])) (\<lambda>resp.
     ret (map tagged_resource
       (case json_array_of (json_index resp ''ResourceTagMappingList'') of None \<Rightarrow> [] | Some items \<Rightarrow> items)))"

end
