(* ===== verification/Aws_Driver.thy ===== *)
theory Aws_Driver
  imports Aws_Client
begin

section \<open>The driver of AWS\<close>

text \<open>
  The second half of \<open>crates/nclav-driver/src/aws.rs\<close>: the operations of the trait \<open>Driver\<close>.
\<close>

definition name_or_panic :: "string option \<Rightarrow> ('x, string) cloud_act" where
  "name_or_panic n = or_error (driver_panic ''byte index is not a char boundary'') n"

text \<open>The policy that lets the role of the server, or any account, assume a role.\<close>

definition trust_policy :: "'x aws \<Rightarrow> string" where
  "trust_policy d = wh_json_text (aw_host d) (json_object [
     (''Version'', JString ''2012-10-17''),
     (''Statement'', JArray [json_object [
        (''Effect'', JString ''Allow''),
        (''Principal'', json_object [(''AWS'', JString (str_or ''arn:aws:iam::*:root'' (awc_role_arn (aw_cfg d))))]),
        (''Action'', JString ''sts:AssumeRole'')]])])"

subsection \<open>Enclaves\<close>

definition aws_new_account :: "'x aws \<Rightarrow> aws_creds \<Rightarrow> string \<Rightarrow> ('x, string) cloud_act" where
  "aws_new_account d creds name =
     seq (org_create_account d creds name (account_email d name)) (\<lambda>req_id.
     seq (org_wait_for_account d creds req_id) (\<lambda>account_id.
     seq (org_list_parents d creds account_id) (\<lambda>root_id.
     seq (org_move_account d creds account_id root_id (awc_org_unit_id (aw_cfg d))) (\<lambda>_.
     ret account_id))))"

definition aws_create_network :: "'x aws \<Rightarrow> aws_creds \<Rightarrow> enclave \<Rightarrow> ('x, string \<times> string list) cloud_act" where
  "aws_create_network d creds enc =
     (let eid = eid_str (enc_id enc); region = enc_region enc;
          cidr = str_or ''10.0.0.0/16'' (Option.bind (enc_network enc) net_vpc_cidr);
          subnets = (case enc_network enc of None \<Rightarrow> [] | Some n \<Rightarrow> net_subnets n) in
      seq (ec2_create_vpc d creds region cidr eid) (\<lambda>vpc_id.
      seq (ignore_failure (ec2_modify_vpc_attribute d creds region vpc_id ''EnableDnsSupport.Value'' ''true'')) (\<lambda>_.
      seq (ignore_failure (ec2_modify_vpc_attribute d creds region vpc_id ''EnableDnsHostnames.Value'' ''true'')) (\<lambda>_.
      seq (foldM (\<lambda>(i, cidr) subnet_ids.
          seq (ec2_create_subnet d creds region vpc_id cidr eid i) (\<lambda>subnet_id. ret (subnet_ids @ [subnet_id])))
        (List.enumerate 0 subnets) []) (\<lambda>subnet_ids.
      ret (vpc_id, subnet_ids))))))"

definition aws_create_zone :: "'x aws \<Rightarrow> aws_creds \<Rightarrow> enclave \<Rightarrow> string \<Rightarrow> ('x, string option) cloud_act" where
  "aws_create_zone d creds enc vpc_id = (case Option.bind (enc_dns enc) dns_zone of
     None \<Rightarrow> ret None
   | Some zone \<Rightarrow> seq (route53_create_hosted_zone d creds zone vpc_id (enc_region enc)) (\<lambda>i. ret (Some i)))"

definition aws_create_identity :: "'x aws \<Rightarrow> aws_creds \<Rightarrow> enclave \<Rightarrow> ('x, string option) cloud_act" where
  "aws_create_identity d creds enc = (case enc_identity enc of
     None \<Rightarrow> ret None
   | Some identity \<Rightarrow>
       seq (iam_create_role d creds identity (trust_policy d) (eid_str (enc_id enc)) None) (\<lambda>arn. ret (Some arn)))"

definition aws_create_enclave :: "'x aws \<Rightarrow> enclave \<Rightarrow> ('x, provision_result) cloud_act" where
  "aws_create_enclave d enc =
     seq (aw_creds d) (\<lambda>base_creds.
     seq (name_or_panic (account_name d (eid_str (enc_id enc)))) (\<lambda>name.
     seq (aws_new_account d base_creds name) (\<lambda>account_id.
     seq (enclave_creds d account_id) (\<lambda>creds.
     seq (aws_create_network d creds enc) (\<lambda>(vpc_id, subnet_ids).
     seq (aws_create_zone d creds enc vpc_id) (\<lambda>zone_id.
     seq (aws_create_identity d creds enc) (\<lambda>role_arn.
     ret \<lparr>pr_handle = json_object (
         [(''driver'', JString ''aws''), (''kind'', JString ''enclave''), (''account_id'', JString account_id),
          (''account_name'', JString name), (''region'', JString (enc_region enc)), (''vpc_id'', JString vpc_id),
          (''subnet_ids'', json_list JString subnet_ids), (''provisioning_complete'', JBool True)] @
         (case zone_id of None \<Rightarrow> [] | Some z \<Rightarrow> [(''route53_zone_id'', JString z)]) @
         (case role_arn of None \<Rightarrow> [] | Some arn \<Rightarrow> [(''identity_role_arn'', JString arn)])),
       pr_outputs = []\<rparr>)))))))"

definition aws_provision_enclave :: "'x aws \<Rightarrow> enclave \<Rightarrow> handle option \<Rightarrow> ('x, provision_result) cloud_act" where
  "aws_provision_enclave d enc existing = (case existing of
     Some h \<Rightarrow> if json_is_true (json_index h ''provisioning_complete'') then ret (skip_handle h) else aws_create_enclave d enc
   | None \<Rightarrow> aws_create_enclave d enc)"

definition account_at :: "handle \<Rightarrow> string" where
  "account_at h = str_or [] (json_str_at h ''account_id'')"

definition aws_teardown_enclave :: "'x aws \<Rightarrow> enclave \<Rightarrow> handle \<Rightarrow> ('x, unit) cloud_act" where
  "aws_teardown_enclave d enc h =
     (if account_at h = [] then ret ()
      else seq (aw_creds d) (\<lambda>creds.
        seq (attempt (org_api d ''CloseAccount'' creds (json_object [(''AccountId'', JString (account_at h))]))) (\<lambda>r. case r of
          Inr _ \<Rightarrow> ret ()
        | Inl e \<Rightarrow> if str_contains ''AccountNotFoundException'' (driver_error_str e) then ret () else throw e)))"

subsection \<open>Partitions\<close>

definition aws_create_partition :: "'x aws \<Rightarrow> enclave \<Rightarrow> partition \<Rightarrow> string \<Rightarrow> ('x, provision_result) cloud_act" where
  "aws_create_partition d enc p account_id =
     seq (enclave_creds d account_id) (\<lambda>creds.
     seq (name_or_panic (partition_role_name (\<lambda>s. wh_sha256 (aw_host d) (to_bytes s)) (pid_str (part_id p)))) (\<lambda>role_name.
     seq (iam_create_role d creds role_name (trust_policy d) (eid_str (enc_id enc)) (Some (pid_str (part_id p)))) (\<lambda>role_arn.
     seq (iam_attach_role_policy d creds role_name ''arn:aws:iam::aws:policy/AdministratorAccess'') (\<lambda>_.
     ret \<lparr>pr_handle = json_object [
         (''driver'', JString ''aws''), (''kind'', JString ''partition''), (''type'', JString ''iac''),
         (''account_id'', JString account_id), (''partition_role_arn'', JString role_arn)],
       pr_outputs = []\<rparr>))))"

definition aws_provision_partition ::
  "'x aws \<Rightarrow> enclave \<Rightarrow> partition \<Rightarrow> (string, string) hashmap \<Rightarrow> handle option \<Rightarrow> ('x, provision_result) cloud_act" where
  "aws_provision_partition d enc p inputs existing =
     (let account_id = str_or [] (hm_get inputs ''nclav_account_id'');
          create = (if account_id = [] then
              throw (ProvisionFailed (''provision_partition for enclave '' @ quote1 (eid_str (enc_id enc)) @
                '': cannot determine AWS account ID. Ensure provision_enclave has run first '' @
                ''(account_id is injected via context_vars '' @ [CHR 0xE2, CHR 0x86, CHR 0x92] @ '' nclav_account_id).''))
            else aws_create_partition d enc p account_id)
      in case existing of
           Some h \<Rightarrow> if driver_kind h ''aws'' ''partition'' then ret (skip_handle h) else create
         | None \<Rightarrow> create)"

definition aws_teardown_partition :: "'x aws \<Rightarrow> enclave \<Rightarrow> partition \<Rightarrow> handle \<Rightarrow> ('x, unit) cloud_act" where
  "aws_teardown_partition d enc p h =
     (if account_at h = [] then ret ()
      else seq (attempt (enclave_creds d (account_at h))) (\<lambda>r. case r of
        Inl _ \<Rightarrow> ret ()
      | Inr creds \<Rightarrow>
          seq (name_or_panic (partition_role_name (\<lambda>s. wh_sha256 (aw_host d) (to_bytes s)) (pid_str (part_id p)))) (\<lambda>role_name.
          seq (iam_detach_all_policies d creds role_name) (\<lambda>_.
          seq (iam_delete_inline_policies d creds role_name) (\<lambda>_.
          iam_delete_role d creds role_name)))))"

subsection \<open>Exports and imports\<close>

definition aws_export_handle :: "export \<Rightarrow> (string, string) hashmap \<Rightarrow> handle" where
  "aws_export_handle x outs = (case exp_export_type x of
     ExpQueue \<Rightarrow> json_object [
       (''driver'', JString ''aws''), (''kind'', JString ''export''), (''type'', JString ''queue''),
       (''export_name'', JString (exp_name x)), (''queue_url'', JString (str_or [] (hm_get outs ''queue_url'')))]
   | t \<Rightarrow> json_object [
       (''driver'', JString ''aws''), (''kind'', JString ''export''), (''type'', JString (export_type_str t)),
       (''export_name'', JString (exp_name x)), (''endpoint_url'', JString (str_or [] (hm_get outs ''endpoint_url''))),
       (''port'', JNumber (int (case Option.bind (hm_get outs ''port'') (parse_below 65536) of
          Some n \<Rightarrow> n | None \<Rightarrow> if t = ExpHttp then 443 else 0)))])"

definition aws_provision_export ::
  "enclave \<Rightarrow> export \<Rightarrow> (string, string) hashmap \<Rightarrow> handle option \<Rightarrow> ('x, provision_result) cloud_act" where
  "aws_provision_export enc x outs existing =
     (let create = ret \<lparr>pr_handle = aws_export_handle x outs,
            pr_outputs = insert_opt ''queue_url'' (hm_get outs ''queue_url'')
              (insert_opt ''endpoint_url'' (hm_get outs ''endpoint_url'') [])\<rparr>
      in case existing of
           Some h \<Rightarrow> if json_str_at h ''driver'' = Some ''aws'' then ret (skip_handle h) else create
         | None \<Rightarrow> create)"

definition aws_import_handle :: "import \<Rightarrow> handle \<Rightarrow> (driver_error, handle) result" where
  "aws_import_handle i export_handle =
     (let t = str_or ''http'' (json_str_at export_handle ''type'');
          base = [(''driver'', JString ''aws''), (''kind'', JString ''import''), (''alias'', JString (imp_alias i))]
      in if t = ''http'' \<or> t = ''tcp'' then Inr (json_object (base @ [
             (''endpoint_url'', JString (str_or [] (json_str_at export_handle ''endpoint_url''))),
             (''port'', JNumber (uint (of_nat (case json_u64 (json_index export_handle ''port'') of
                Some n \<Rightarrow> n | None \<Rightarrow> 443) :: 16 word)))]))
         else if t = ''queue'' then Inr (json_object (base @ [
             (''queue_url'', JString (str_or [] (json_str_at export_handle ''queue_url'')))]))
         else Inl (ProvisionFailed (''provision_import '' @ quote1 (imp_alias i) @ '': unknown export type '' @ quote1 t)))"

definition aws_provision_import ::
  "enclave \<Rightarrow> import \<Rightarrow> handle \<Rightarrow> handle option \<Rightarrow> ('x, provision_result) cloud_act" where
  "aws_provision_import importer i export_handle existing =
     (let create = seq (lift_result (aws_import_handle i export_handle)) (\<lambda>h.
            ret \<lparr>pr_handle = h,
              pr_outputs = insert_opt ''queue_url'' (json_str_at export_handle ''queue_url'')
                (insert_opt ''endpoint_url'' (json_str_at export_handle ''endpoint_url'') [])\<rparr>)
      in case existing of
           Some h \<Rightarrow> if json_str_at h ''driver'' = Some ''aws'' then ret (skip_handle h) else create
         | None \<Rightarrow> create)"

subsection \<open>Observation\<close>

definition aws_observe_enclave :: "'x aws \<Rightarrow> enclave \<Rightarrow> handle \<Rightarrow> ('x, observed_state) cloud_act" where
  "aws_observe_enclave d enc h =
     (let gone = \<lparr>obs_exists = False, obs_healthy = False, obs_outputs = [], obs_raw = h\<rparr> in
      if account_at h = [] then ret gone
      else seq (aw_creds d) (\<lambda>creds.
        seq (attempt (org_api d ''DescribeAccount'' creds (json_object [(''AccountId'', JString (account_at h))]))) (\<lambda>r. case r of
          Inr v \<Rightarrow>
            let status = json_str_at (json_index v ''Account'') ''Status'' in
            ret \<lparr>obs_exists = (status \<noteq> Some ''SUSPENDED''), obs_healthy = (status = Some ''ACTIVE''),
              obs_outputs = [], obs_raw = v\<rparr>
        | Inl e \<Rightarrow> if str_contains ''AccountNotFoundException'' (driver_error_str e) then ret gone else throw e)))"

definition aws_observe_partition :: "enclave \<Rightarrow> partition \<Rightarrow> handle \<Rightarrow> ('x, observed_state) cloud_act" where
  "aws_observe_partition enc p h =
     (let e = driver_kind h ''aws'' ''partition''
      in ret \<lparr>obs_exists = e, obs_healthy = e, obs_outputs = [], obs_raw = h\<rparr>)"

subsection \<open>Terraform and orphans\<close>

definition region_at :: "'x aws \<Rightarrow> handle \<Rightarrow> string" where
  "region_at d h = str_or (awc_default_region (aw_cfg d)) (json_str_at h ''region'')"

definition aws_context_vars :: "'x aws \<Rightarrow> enclave \<Rightarrow> handle \<Rightarrow> (string, string) hashmap" where
  "aws_context_vars d enc h = fold (\<lambda>(k, v). hm_insert k v) [
     (''nclav_project_id'', account_at h), (''nclav_region'', region_at d h), (''nclav_account_id'', account_at h),
     (''nclav_role_arn'', str_or [] (json_str_at h ''partition_role_arn'')), (''nclav_enclave'', eid_str (enc_id enc))] []"

definition aws_auth_env :: "'x aws \<Rightarrow> enclave \<Rightarrow> handle \<Rightarrow> (string, string) hashmap" where
  "aws_auth_env d enc h =
     (let role_arn = str_or [] (json_str_at h ''partition_role_arn'');
          env = hm_insert ''AWS_DEFAULT_REGION'' (region_at d h) []
      in if role_arn \<noteq> [] then hm_insert ''AWS_ROLE_ARN'' role_arn env else env)"

definition tag_filter :: "string \<Rightarrow> string \<Rightarrow> json" where
  "tag_filter k v = json_object [(''Key'', JString k), (''Values'', JArray [JString v])]"

definition aws_list_partition_resources :: "'x aws \<Rightarrow> enclave \<Rightarrow> handle \<Rightarrow> partition \<Rightarrow> ('x, string list) cloud_act" where
  "aws_list_partition_resources d enc enc_handle p =
     (if account_at enc_handle = [] then ret []
      else seq (enclave_creds d (account_at enc_handle)) (\<lambda>creds.
        seq (tagging_get_resources d creds (region_at d enc_handle) (JArray [
          tag_filter ''nclav-managed'' ''true'', tag_filter ''nclav-partition'' (pid_str (part_id p)),
          tag_filter ''nclav-enclave'' (eid_str (enc_id enc))])) (\<lambda>resources.
        ret (map fst resources))))"

definition aws_orphan :: "string list \<Rightarrow> string \<times> string \<times> (string, string) hashmap \<Rightarrow> orphaned_resource option" where
  "aws_orphan known = (\<lambda>(arn, rtype, tags). case hm_get tags ''nclav-partition'' of
     None \<Rightarrow> None
   | Some part \<Rightarrow> if part \<in> set known then None else Some \<lparr>
       orph_resource_name = arn, orph_resource_type = rtype, orph_nclav_partition = part,
       orph_nclav_enclave = str_or [] (hm_get tags ''nclav-enclave'')\<rparr>)"

definition aws_list_orphaned_resources ::
  "'x aws \<Rightarrow> enclave \<Rightarrow> handle \<Rightarrow> string list \<Rightarrow> ('x, orphaned_resource list) cloud_act" where
  "aws_list_orphaned_resources d enc enc_handle known =
     (if account_at enc_handle = [] then ret []
      else seq (enclave_creds d (account_at enc_handle)) (\<lambda>creds.
        seq (tagging_get_resources d creds (region_at d enc_handle) (JArray [
          tag_filter ''nclav-managed'' ''true'', tag_filter ''nclav-enclave'' (eid_str (enc_id enc))])) (\<lambda>resources.
        ret (List.map_filter (aws_orphan known) resources))))"

definition aws_driver :: "'x aws \<Rightarrow> 'x driver" where
  "aws_driver d = \<lparr>
     drv_name = ''aws'',
     drv_provision_enclave = aws_provision_enclave d,
     drv_teardown_enclave = aws_teardown_enclave d,
     drv_provision_partition = aws_provision_partition d,
     drv_teardown_partition = aws_teardown_partition d,
     drv_provision_export = aws_provision_export,
     drv_provision_import = aws_provision_import,
     drv_observe_enclave = aws_observe_enclave d,
     drv_observe_partition = aws_observe_partition,
     drv_context_vars = aws_context_vars d,
     drv_auth_env = aws_auth_env d,
     drv_list_partition_resources = aws_list_partition_resources d,
     drv_list_orphaned_resources = aws_list_orphaned_resources d\<rparr>"

end
