(* ===== verification/Cloud_Examples.thy ===== *)
theory Cloud_Examples
  imports Gcp_Driver Azure_Driver Aws_Driver
begin

section \<open>Clouds for examples\<close>

text \<open>
  A network that gives the same answer to every call, over a meter of the calls and of the seconds slept,
  with the three drivers on it: the instances at which the theorems on the drivers are applied.
\<close>

definition example_net :: "json \<Rightarrow> (nat \<times> nat) cloud_net" where
  "example_net v = \<lparr>
     cn_send = (\<lambda>call (n, t). (Inr \<lparr>rp_status = 200, rp_headers = [], rp_text = Inr [], rp_json = Inr v\<rparr>, (Suc n, t))),
     cn_sleep = (\<lambda>d (n, t). (n, t + d))\<rparr>"

lemma example_net_metered: "metered (example_net v) fst snd"
  by (simp add: metered_def example_net_def)

definition example_unicode :: unicode where
  "example_unicode = \<lparr>uc_alphanumeric = (\<lambda>_. True), uc_white = (\<lambda>_. False), uc_lower = id\<rparr>"

definition example_gcp :: "'x cloud_net \<Rightarrow> 'x gcp" where
  "example_gcp net = \<lparr>
     gcp_cfg = \<lparr>gcf_parent = ''folders/1'', gcf_billing_account = ''billingAccounts/AAAAAA-BBBBBB-CCCCCC'',
       gcf_default_region = ''us-east1'', gcf_project_prefix = None\<rparr>,
     gcp_net = net, gcp_auth = ret ''token'', gcp_base = gcp_default_urls, gcp_key_file = None,
     gcp_unicode = example_unicode, gcp_hash = (\<lambda>_. 0), gcp_base64 = (\<lambda>_. Inl [])\<rparr>"

definition example_azure :: "'x cloud_net \<Rightarrow> 'x azure" where
  "example_azure net = \<lparr>
     az_cfg = \<lparr>azc_tenant_id = ''t'', azc_management_group_id = ''g'', azc_billing_account_name = ''b'',
       azc_billing_profile_name = ''p'', azc_invoice_section_name = ''i'', azc_default_location = ''eastus2'',
       azc_subscription_prefix = None, azc_client_id = None, azc_client_secret = None\<rparr>,
     az_net = net, az_token = ret ''token'', az_base = azure_default_urls, az_unicode = example_unicode,
     az_hash = (\<lambda>_. 0),
     az_host = \<lparr>ah_now = (\<lambda>_. 0), ah_cache = (\<lambda>_. None), ah_set_cache = (\<lambda>_ x. x), ah_env = (\<lambda>_. None),
       ah_az = (\<lambda>_. throw ''no az''), ah_uuid = (\<lambda>x. (''u'', x)), ah_json_text = (\<lambda>_. []),
       ah_json_parse = (\<lambda>_. Inl [])\<rparr>\<rparr>"

text \<open>Every XML reply has one element of each of the names that the driver reads.\<close>

definition example_xml :: "xml_event list" where
  "example_xml = concat (map (\<lambda>tag. [XmlStart tag, XmlText (Some tag), XmlEnd])
     [''AccessKeyId'', ''SecretAccessKey'', ''vpcId'', ''subnetId'', ''Arn'', ''Id''])"

definition example_aws :: "'x cloud_net \<Rightarrow> 'x aws" where
  "example_aws net = \<lparr>
     aw_cfg = \<lparr>awc_org_unit_id = ''ou'', awc_email_domain = ''example.org'', awc_default_region = ''us-east-1'',
       awc_account_prefix = None, awc_cross_account_role = ''role'', awc_role_arn = None\<rparr>,
     aw_net = net,
     aw_creds = ret \<lparr>cr_access_key_id = ''k'', cr_secret_access_key = ''s'', cr_session_token = None\<rparr>,
     aw_base = aws_urls_for_region ''us-east-1'', aw_unicode = example_unicode,
     aw_host = \<lparr>wh_now = (\<lambda>_. 0), wh_timestamp = (\<lambda>_. ''20260101T000000Z''), wh_date = (\<lambda>_. ''20260101''),
       wh_millis = (\<lambda>_. 0), wh_cache = (\<lambda>_. None), wh_set_cache = (\<lambda>_ x. x), wh_env = (\<lambda>_. None),
       wh_aws = (\<lambda>_. throw ''no aws''), wh_sha256 = (\<lambda>_. [0]), wh_hmac = (\<lambda>_ _. [0]), wh_xml = (\<lambda>_. example_xml),
       wh_json_text = (\<lambda>_. []), wh_json_parse = (\<lambda>_. Inl [])\<rparr>\<rparr>"

definition example_enclave :: enclave where
  "example_enclave = \<lparr>enc_id = EnclaveId ''shop'', enc_name = ''Shop'', enc_cloud = None, enc_region = ''r'',
     enc_identity = None, enc_network = None, enc_dns = None, enc_imports = [], enc_exports = [], enc_partitions = []\<rparr>"

definition example_import :: import where
  "example_import = \<lparr>imp_from = EnclaveId ''pay'', imp_export_name = ''api'', imp_alias = ''pay''\<rparr>"

text \<open>An answer that every step of the three drivers takes as a success.\<close>

definition success_reply :: json where
  "success_reply = json_object [
     (''name'', JString ''op''), (''done'', JBool True), (''status'', JString ''Succeeded''), (''id'', JString ''i''),
     (''properties'', json_object [(''subscriptionId'', JString ''s'')]),
     (''CreateAccountStatus'', json_object [
        (''Id'', JString ''c''), (''State'', JString ''SUCCEEDED''), (''AccountId'', JString ''1'')]),
     (''Parents'', JArray [json_object [(''Id'', JString ''p'')]])]"

end
