(* ===== verification/Gcp_Iam.thy ===== *)
theory Gcp_Iam
  imports Cloud_Examples
begin

section \<open>Policies of Google Cloud\<close>

text \<open>
  What \<open>ensure_iam_role_binding\<close> leaves of the policy of a resource. \<open>iam_service\<close> states the documented
  behaviour of the two methods that it calls: \<open>getIamPolicy\<close> answers with the bindings or refuses,
  \<open>setIamPolicy\<close> replaces all bindings by those that it is given or refuses.
\<close>

definition refused :: "(string, cloud_reply) result \<Rightarrow> bool" where
  "refused r \<longleftrightarrow> (case r of Inl _ \<Rightarrow> True
     | Inr reply \<Rightarrow> (case rp_json reply of Inl _ \<Rightarrow> True | Inr v \<Rightarrow> json_get v ''error'' \<noteq> None))"

definition policy_reply :: "(string, cloud_reply) result \<Rightarrow> json list \<Rightarrow> bool" where
  "policy_reply r bindings \<longleftrightarrow> (case r of Inl _ \<Rightarrow> False
     | Inr reply \<Rightarrow> (case rp_json reply of Inl _ \<Rightarrow> False
         | Inr v \<Rightarrow> json_get v ''error'' = None \<and> bindings_of v = bindings))"

definition iam_service ::
  "'x cloud_net \<Rightarrow> ('x \<Rightarrow> bool) \<Rightarrow> ('x \<Rightarrow> json list) \<Rightarrow> string \<Rightarrow> bool" where
  "iam_service net readable policy url \<longleftrightarrow>
     (\<forall>token x r y. cn_send net (bearer_call ''POST'' (url @ '':getIamPolicy'') token (JsonContent (json_object []))) x = (r, y) \<longrightarrow>
        policy y = policy x \<and> (if readable x then policy_reply r (policy x) else refused r)) \<and>
     (\<forall>token bindings x r y. cn_send net (bearer_call ''POST'' (url @ '':setIamPolicy'') token (JsonContent (policy_body bindings))) x = (r, y) \<longrightarrow>
        (if refused r then policy y = policy x else policy y = bindings))"

text \<open>Who holds a role, and the bindings of the other roles.\<close>

definition holders :: "string \<Rightarrow> json list \<Rightarrow> json set" where
  "holders role bindings = {m. \<exists>b \<in> set bindings. \<exists>ms. json_str_at b ''role'' = Some role \<and>
     json_array_of (json_index b ''members'') = Some ms \<and> m \<in> set ms}"

definition other_bindings :: "string \<Rightarrow> json list \<Rightarrow> json list" where
  "other_bindings role = filter (\<lambda>b. json_str_at b ''role'' \<noteq> Some role)"

lemma holders_Cons: "holders role (b # bindings) =
   (if json_str_at b ''role'' = Some role then
      (case json_array_of (json_index b ''members'') of None \<Rightarrow> {} | Some ms \<Rightarrow> set ms) else {}) \<union> holders role bindings"
  by (auto simp: holders_def split: option.split)

lemma holders_Nil [simp]: "holders role [] = {}"
  by (simp add: holders_def)

text \<open>Setting the members of a binding keeps its role.\<close>

lemma set_members:
  assumes "json_index_set b ''members'' v = Some b'" "json_str_at b ''role'' = Some role"
  shows "json_str_at b' ''role'' = Some role \<and> json_index b' ''members'' = v"
proof -
  obtain m where m: "b = JObject m"
    using assms(2) by (cases b) (auto simp: json_str_at_def json_index_def json_get_def)
  then show ?thesis
    using assms by (auto simp: json_index_set_def json_str_at_def json_index_def json_get_def map_of_bt_insert)
qed

lemma new_binding:
  "json_str_at (json_object [(''role'', JString role), (''members'', JArray ms)]) ''role'' = Some role"
  "json_index (json_object [(''role'', JString role), (''members'', JArray ms)]) ''members'' = JArray ms"
  by (simp_all add: json_str_at_def json_index_def json_get_object)

lemma json_array_of_simps [simp]: "json_array_of (JArray vs) = Some vs"
  by (simp add: json_array_of_def)

lemma add_binding_Rebound:
  "add_binding member role bindings = Rebound after \<Longrightarrow>
     holders role after = insert (JString member) (holders role bindings) \<and>
     other_bindings role after = other_bindings role bindings"
proof (induction bindings arbitrary: after)
  case Nil
  then show ?case by (auto simp: holders_Cons new_binding other_bindings_def)
next
  case (Cons b rest)
  show ?case
  proof (cases "json_str_at b ''role'' = Some role")
    case True
    with Cons.prems show ?thesis
      by (auto simp: holders_Cons other_bindings_def split: option.splits if_splits dest!: set_members)
  next
    case False
    with Cons.prems obtain after' where "add_binding member role rest = Rebound after'" "after = b # after'"
      by (auto simp: keep_binding_def split: binding_change.splits)
    with False Cons.IH [of after'] show ?thesis by (simp add: holders_Cons other_bindings_def)
  qed
qed

lemma add_binding_AlreadyBound:
  "add_binding member role bindings = AlreadyBound \<Longrightarrow> JString member \<in> holders role bindings"
proof (induction bindings)
  case (Cons b rest)
  then show ?case
    by (auto simp: holders_Cons keep_binding_def list_ex_iff json_as_str_Some
        split: if_splits option.splits binding_change.splits)
qed simp

subsection \<open>The read and the write\<close>

lemma gcp_post_wp:
  "wp (gcp_post d url token b) Q E x =
     (case cn_send (gcp_net d) (bearer_call ''POST'' url token (JsonContent b)) x of
        (Inl e, y) \<Rightarrow> E (ProvisionFailed (''POST '' @ url @ '': '' @ e)) y
      | (Inr r, y) \<Rightarrow> (case rp_json r of
          Inl e \<Rightarrow> E (DriverInternal (''POST '' @ url @ '' decode: '' @ e)) y
        | Inr v \<Rightarrow> if json_get v ''error'' \<noteq> None
            then E (ProvisionFailed (''POST '' @ url @ '': '' @ extract_gcp_error v)) y else Q v y))"
proof -
  obtain r y where "cn_send (gcp_net d) (bearer_call ''POST'' url token (JsonContent b)) x = (r, y)" by fastforce
  then show ?thesis
    by (cases r) (simp_all add: gcp_post_def wp_simps wp_def [of "cn_send n c" for n c] split: sum.split)
qed

lemma read_policy_wp:
  assumes "iam_service (gcp_net d) readable policy url"
  shows "wp (gcp_post d (url @ '':getIamPolicy'') token (json_object []))
    (\<lambda>v y. policy y = policy x \<and> readable x \<and> bindings_of v = policy x)
    (\<lambda>e y. policy y = policy x \<and> \<not> readable x) x"
proof -
  obtain r y where r: "cn_send (gcp_net d) (bearer_call ''POST'' (url @ '':getIamPolicy'') token (JsonContent (json_object []))) x = (r, y)"
    by fastforce
  then have "policy y = policy x \<and> (if readable x then policy_reply r (policy x) else refused r)"
    using assms unfolding iam_service_def by blast
  then show ?thesis
    unfolding gcp_post_wp r by (auto simp: refused_def policy_reply_def split: sum.splits if_splits)
qed

lemma write_policy_wp:
  assumes "iam_service (gcp_net d) readable policy url"
  shows "wp (gcp_post d (url @ '':setIamPolicy'') token (policy_body bindings))
    (\<lambda>v y. policy y = bindings) (\<lambda>e y. policy y = policy x) x"
proof -
  obtain r y where r: "cn_send (gcp_net d) (bearer_call ''POST'' (url @ '':setIamPolicy'') token (JsonContent (policy_body bindings))) x = (r, y)"
    by fastforce
  then have "if refused r then policy y = policy x else policy y = bindings"
    using assms unfolding iam_service_def by blast
  then show ?thesis
    unfolding gcp_post_wp r by (auto simp: refused_def split: sum.splits if_splits)
qed

text \<open>The bindings that the update starts from.\<close>

definition seen_bindings :: "('x \<Rightarrow> bool) \<Rightarrow> ('x \<Rightarrow> json list) \<Rightarrow> 'x \<Rightarrow> json list" where
  "seen_bindings readable policy x = (if readable x then policy x else [])"

lemma ensure_role_wp:
  assumes iam: "iam_service (gcp_net d) readable policy url"
  shows "wp (ensure_iam_role_binding d token url member role)
    (\<lambda>res y. case res of
        Inl _ \<Rightarrow> policy y = policy x
      | Inr _ \<Rightarrow> holders role (policy y) = insert (JString member) (holders role (seen_bindings readable policy x)) \<and>
          other_bindings role (policy y) = other_bindings role (seen_bindings readable policy x))
    (\<lambda>_ y. policy y = policy x) x"
  unfolding ensure_iam_role_binding_def wp_seq wp_attempt
proof (rule wp_mono [OF read_policy_wp [OF iam]], goal_cases)
  case (1 v y)
  then have y: "policy y = policy x" "bindings_of v = policy x" "seen_bindings readable policy x = policy x"
    by (simp_all add: seen_bindings_def)
  show ?case
  proof (cases "add_binding member role (policy x)")
    case AlreadyBound
    from add_binding_AlreadyBound [OF this] show ?thesis
      by (simp add: y AlreadyBound wp_ret insert_absorb)
  next
    case (Rebound after)
    from add_binding_Rebound [OF this]
    have after: "holders role after = insert (JString member) (holders role (policy x))"
      "other_bindings role after = other_bindings role (policy x)" by simp_all
    show ?thesis
      unfolding y sum.case Let_def Rebound binding_change.case wp_seq wp_attempt wp_ret
      by (rule wp_mono [OF write_policy_wp [OF iam]]) (simp_all add: after y)
  next
    case MembersPanic
    then show ?thesis by (simp add: y wp_throw)
  qed
next
  case (2 e y)
  let ?v = "json_object [(''version'', JNumber 1), (''bindings'', JArray [])]"
  have v: "bindings_of ?v = []" by (simp add: bindings_of_def json_index_def json_get_object)
  obtain after where after: "add_binding member role [] = Rebound after" by simp
  from add_binding_Rebound [OF after]
  have new: "holders role after = insert (JString member) (holders role (seen_bindings readable policy x))"
    "other_bindings role after = other_bindings role (seen_bindings readable policy x)"
    using 2 by (simp_all add: seen_bindings_def)
  show ?case
    unfolding sum.case Let_def v after binding_change.case wp_seq wp_attempt wp_ret
    by (rule wp_mono [OF write_policy_wp [OF iam]]) (use 2 in \<open>simp_all add: new\<close>)
qed


text \<open>A resource with an owner, whose policy the caller may write but not read.\<close>

definition write_only_iam :: "json list cloud_net" where
  "write_only_iam = \<lparr>
     cn_send = (\<lambda>call bindings.
       if call_url call = ''r:setIamPolicy'' then
         (Inr \<lparr>rp_status = 200, rp_headers = [], rp_text = Inr [], rp_json = Inr (json_object [])\<rparr>,
          case call_body call of JsonContent v \<Rightarrow> bindings_of (json_index v ''policy'') | _ \<Rightarrow> bindings)
       else (Inl ''permission denied'', bindings)),
     cn_sleep = (\<lambda>_ x. x)\<rparr>"

lemma bindings_of_policy_body: "bindings_of (json_index (policy_body bindings) ''policy'') = bindings"
  by (simp add: policy_body_def bindings_of_def json_index_def json_get_object)


end
