(* ===== verification/Aws_Form.thy ===== *)
theory Aws_Form
  imports Aws_Driver
begin

section \<open>Form bodies are read back\<close>

text \<open>
  The reader of a form body, as the standard for \<open>application/x-www-form-urlencoded\<close> has it: split at
  the ampersands, split each part at its first equals sign, turn a plus sign into a space and a percent
  sign with two hexadecimal digits into a byte. \<open>query_api\<close> does not encode the names of the parameters,
  which are fixed by the driver, so they have neither sign in them.
\<close>

definition hex_value :: "char \<Rightarrow> nat" where
  "hex_value c = (if is_digit c then of_char c - 48 else of_char c - 55)"

fun percent_decode :: "string \<Rightarrow> string" where
  "percent_decode [] = []"
| "percent_decode (c # cs) =
     (if c = CHR 0x25 then (case cs of
          a # b # r \<Rightarrow> char_of (16 * hex_value a + hex_value b) # percent_decode r
        | _ \<Rightarrow> c # percent_decode cs)
      else (if c = CHR ''+'' then CHR '' '' else c) # percent_decode cs)"

definition form_decode :: "string \<Rightarrow> (string \<times> string) list" where
  "form_decode s = map (\<lambda>p. case split_once (CHR ''='') p of
     Some (k, v) \<Rightarrow> (k, percent_decode v) | None \<Rightarrow> (p, [])) (split_char (CHR ''&'') s)"

lemma hex_value_upper: "n < 16 \<Longrightarrow> hex_value (upper_hex n) = n"
  by (auto simp: hex_value_def upper_hex_def is_digit_def)

lemma char_split: "char_of (16 * (of_char c div 16) + of_char c mod 16 :: nat) = c"
  by (simp add: mult.commute)

lemma of_char_div: "(of_char c :: nat) div 16 < 16"
  using nat_of_char_less_256 [of c] by (simp add: less_mult_imp_div_less)

lemma unreserved_signs:
  "\<not> unreserved (CHR 0x25)" "\<not> unreserved (CHR ''+'')" "\<not> unreserved (CHR ''&'')"
  by code_simp+

lemma percent_decode_byte: "percent_decode (url_encode_byte c @ s) = c # percent_decode s"
proof (cases "unreserved c")
  case True
  then have "c \<noteq> CHR 0x25" "c \<noteq> CHR ''+''" using unreserved_signs by auto
  with True show ?thesis by (simp add: url_encode_byte_def)
next
  case False
  show ?thesis
  proof (cases "c = CHR '' ''")
    case no: False
    then have "percent_decode (url_encode_byte c @ s) =
        char_of (16 * (of_char c div 16) + of_char c mod 16 :: nat) # percent_decode s"
      using False by (simp add: url_encode_byte_def hex_value_upper of_char_div)
    then show ?thesis unfolding char_split .
  qed (use False in \<open>simp add: url_encode_byte_def\<close>)
qed

lemma url_encode_roundtrip: "percent_decode (url_encode v) = v"
proof (induction v)
  case (Cons c v)
  have "percent_decode (url_encode (c # v)) = percent_decode (url_encode_byte c @ url_encode v)"
    by (simp add: url_encode_def)
  then show ?case unfolding percent_decode_byte Cons.IH .
qed (simp add: url_encode_def)

lemma upper_hex_range: "n < 16 \<Longrightarrow> (of_char (upper_hex n) :: nat) \<in> {48..57} \<union> {65..70}"
  by (auto simp: upper_hex_def)

lemma upper_hex_unreserved: "n < 16 \<Longrightarrow> unreserved (upper_hex n)"
  using upper_hex_range [of n] by (auto simp: unreserved_def is_alnum_ascii_def is_digit_def is_upper_ascii_def)

lemma url_encode_no_amp: "CHR ''&'' \<notin> set (url_encode v)"
proof -
  have "CHR ''&'' \<notin> set (url_encode_byte c)" for c
    using upper_hex_unreserved [of "of_char c div 16"] upper_hex_unreserved [of "of_char c mod 16"]
      unreserved_signs(3) of_char_div [of c]
    by (auto simp: url_encode_byte_def)
  then show ?thesis by (auto simp: url_encode_def)
qed

lemma split_char_append: "c \<notin> set p \<Longrightarrow> split_char c (p @ c # s) = p # split_char c s"
  by (induction p) auto

lemma split_char_none: "c \<notin> set p \<Longrightarrow> split_char c p = [p]"
  by (induction p) auto

lemma split_join_char:
  "ps \<noteq> [] \<Longrightarrow> (\<And>p. p \<in> set ps \<Longrightarrow> c \<notin> set p) \<Longrightarrow> split_char c (join_strs [c] ps) = ps"
proof (induction "[c]" ps rule: join_strs.induct)
  case (3 x y xs)
  then show ?case by (simp add: split_char_append)
qed (simp_all add: split_char_none)

text \<open>
  C33. The server that reads a form body that \<open>query_api\<close> built gets exactly the parameters that went into
  it, in their order, whatever bytes the values have: no value (the name of a role, a CIDR block, a policy
  document) can add, drop or change a parameter.
\<close>
theorem form_body_roundtrip:
  assumes "params \<noteq> []"
    and "\<forall>(k, v) \<in> set params. CHR ''='' \<notin> set k \<and> CHR ''&'' \<notin> set k"
  shows "form_decode (form_body params) = params"
proof -
  have split: "split_char (CHR ''&'') (form_body params) = map (\<lambda>(k, v). k @ ''='' @ url_encode v) params"
    unfolding form_body_def
    by (rule split_join_char) (use assms url_encode_no_amp in auto)
  have "(case split_once (CHR ''='') (k @ ''='' @ url_encode v) of
      Some (k, v) \<Rightarrow> (k, percent_decode v) | None \<Rightarrow> (k @ ''='' @ url_encode v, [])) = (k, v)"
    if "(k, v) \<in> set params" for k v
  proof -
    have "split_once (CHR ''='') (k @ ''='' @ url_encode v) = Some (k, url_encode v)"
      using assms(2) that by (auto simp: split_once_Some)
    then show ?thesis by (simp add: url_encode_roundtrip)
  qed
  then show ?thesis
    unfolding form_decode_def split map_map comp_def by (intro map_idI) auto
qed

theorem form_body_roundtrip_witness:
  "form_decode (form_body [(''Action'', ''CreateRole''), (''RoleName'', ''a&Action=DeleteRole +%'')]) =
     [(''Action'', ''CreateRole''), (''RoleName'', ''a&Action=DeleteRole +%'')]"
  by (rule form_body_roundtrip) simp_all

end
