(* ===== verification/Cloud_Polling.thy ===== *)
theory Cloud_Polling
  imports Cloud_Examples
begin

section \<open>How long the drivers wait\<close>

text \<open>
  The loops of the three drivers that poll an operation are bounded: in requests and in the seconds
  that they sleep, whatever the clouds answer. \<open>costs\<close> bounds what a source of tokens adds.
\<close>

definition costs :: "('x \<Rightarrow> nat) \<Rightarrow> ('x \<Rightarrow> nat) \<Rightarrow> nat \<Rightarrow> ('x, 'e, 'a) act \<Rightarrow> bool" where
  "costs sent slept k m \<longleftrightarrow> (\<forall>x. sent (snd (m x)) \<le> sent x + k \<and> slept (snd (m x)) = slept x)"

definition one_request :: "('x \<Rightarrow> nat) \<Rightarrow> ('x \<Rightarrow> nat) \<Rightarrow> ('x, 'e, 'a) act \<Rightarrow> bool" where
  "one_request sent slept m \<longleftrightarrow> (\<forall>x. sent (snd (m x)) = Suc (sent x) \<and> slept (snd (m x)) = slept x)"

lemma one_request_wp:
  "one_request sent slept m \<longleftrightarrow> (\<forall>x. wp m (\<lambda>_ y. sent y = Suc (sent x) \<and> slept y = slept x)
     (\<lambda>_ y. sent y = Suc (sent x) \<and> slept y = slept x) x)"
  by (simp add: one_request_def wp_snd)

lemma one_request_send: "metered net sent slept \<Longrightarrow> one_request sent slept (cn_send net c)"
  by (simp add: metered_def one_request_def)

text \<open>A send, followed by anything that leaves the outside alone.\<close>

lemma one_request_then:
  assumes "one_request sent slept m" "\<And>a x. snd (f a x) = x"
  shows "one_request sent slept (seq m f)"
  using assms by (auto simp: one_request_def seq_def split: prod.split sum.split) (metis snd_conv)+

lemma one_request_map_err: "one_request sent slept m \<Longrightarrow> one_request sent slept (map_err f m)"
  by (auto simp: one_request_def map_err_def split: prod.split sum.split) (metis snd_conv)+

lemma quiet_simps [simp]:
  "snd (ret a x) = x" "snd (throw e x) = x" "snd (lift_result r x) = x" "snd (or_error e v x) = x"
  "snd (decode_json f reply x) = x"
  by (simp_all add: ret_def throw_def lift_result_def or_error_def decode_json_def split: option.split)

lemma quiet_seq: "(\<And>x. snd (m x) = x) \<Longrightarrow> (\<And>a x. snd (f a x) = x) \<Longrightarrow> snd (seq m f x) = x"
  by (auto simp: seq_def split: prod.split sum.split) (metis snd_conv)+

lemma gcp_poll_request: "metered (gcp_net d) sent slept \<Longrightarrow> one_request sent slept (gcp_poll d token u)"
  unfolding gcp_poll_def send_call_def
  by (intro one_request_then one_request_map_err one_request_send quiet_seq) (auto intro!: quiet_seq)

lemma arm_poll_request: "metered (az_net d) sent slept \<Longrightarrow> one_request sent slept (arm_poll d token u)"
  unfolding arm_poll_def send_call_def Let_def
  by (intro one_request_then one_request_map_err one_request_send quiet_seq) (auto intro!: quiet_seq)

lemma snd_map_err: "snd (map_err f m x) = snd (m x)"
  by (simp add: map_err_def split: prod.split sum.split)

lemma signed_post_request:
  "metered (aw_net d) sent slept \<Longrightarrow> one_request sent slept (signed_post d f url first extra rq creds)"
  by (simp add: one_request_def signed_post_def send_call_def snd_map_err metered_def)

lemma json_api_request: "metered (aw_net d) sent slept \<Longrightarrow> one_request sent slept (json_api d b r v t creds j)"
  unfolding json_api_def Let_def by (rule one_request_then [OF signed_post_request]) auto

lemma account_poll_request: "metered (aw_net d) sent slept \<Longrightarrow> one_request sent slept (account_poll d creds i)"
  unfolding account_poll_def org_api_def Let_def
  by (rule one_request_then [OF json_api_request]) (auto intro!: quiet_seq)

subsection \<open>The bound\<close>

lemma poll_loop_costs:
  assumes "metered net sent slept" "one_request sent slept check"
  shows "sent (snd (poll_loop net check poll_delays x)) \<le> sent x + 120 \<and>
         slept (snd (poll_loop net check poll_delays x)) \<le> slept x + 1220"
proof -
  note bounds = poll_loop_bounds [OF assms(1), of check poll_delays x, unfolded poll_delays_total]
  have "wp (poll_loop net check poll_delays) (\<lambda>_ y. sent y \<le> sent x + 120 \<and> slept y \<le> slept x + 1220)
      (\<lambda>_ y. sent y \<le> sent x + 120 \<and> slept y \<le> slept x + 1220) x"
    by (rule wp_mono [OF bounds]) (use assms(2) in \<open>auto simp: one_request_wp\<close>)
  then show ?thesis by (simp add: wp_snd [where P = "\<lambda>y. sent y \<le> sent x + 120 \<and> slept y \<le> slept x + 1220"])
qed

lemma poll_loop_pending:
  assumes "\<And>z. fst (check z) = Inr None"
  shows "fst (poll_loop net check ds x) = Inr None"
proof (induction ds arbitrary: x)
  case (Cons d ds)
  obtain y where "check x = (Inr None, y)" using assms [of x] by (metis prod.collapse)
  then have "poll_loop net check (d # ds) x = seq (sleep_for net d) (\<lambda>_. poll_loop net check ds) y"
    by (simp add: seq_def)
  then show ?case by (simp add: seq_def sleep_for_def Cons.IH)
qed (simp add: ret_def)

lemma poll_loop_timeout:
  assumes "metered net sent slept" "one_request sent slept check" "\<And>z. fst (check z) = Inr None"
  shows "sent (snd (poll_loop net check poll_delays x)) = sent x + 120 \<and>
         slept (snd (poll_loop net check poll_delays x)) = slept x + 1220"
proof -
  have "wp (poll_loop net check poll_delays)
      (\<lambda>r y. sent y \<le> sent x + 120 \<and> slept y \<le> slept x + 1220 \<and>
        (r = None \<longrightarrow> sent y = sent x + 120 \<and> slept y = slept x + 1220))
      (\<lambda>e y. sent y \<le> sent x + 120 \<and> slept y \<le> slept x + 1220) x"
    using poll_loop_bounds [OF assms(1), of check poll_delays x] assms(2)
    unfolding poll_delays_total one_request_wp by blast
  moreover have "fst (poll_loop net check poll_delays x) = Inr None"
    by (rule poll_loop_pending) (rule assms(3))
  ultimately show ?thesis
    by (cases "poll_loop net check poll_delays x") (simp add: wp_def)
qed

lemma seq_costs:
  assumes "costs sent slept k m"
    and "\<And>a x. sent (snd (f a x)) \<le> sent x + n \<and> slept (snd (f a x)) \<le> slept x + t"
  shows "sent (snd (seq m f x)) \<le> sent x + (k + n) \<and> slept (snd (seq m f x)) \<le> slept x + t"
proof (cases "m x")
  case (Pair r y)
  have y: "sent y \<le> sent x + k" "slept y = slept x" using assms(1) Pair unfolding costs_def by (metis snd_conv)+
  show ?thesis
  proof (cases r)
    case (Inr b)
    then have "seq m f x = f b y" using Pair by (simp add: seq_def)
    then show ?thesis using assms(2) [of b y] y by simp
  qed (use Pair y in \<open>simp add: seq_def\<close>)
qed

lemma snd_seq_quiet: "(\<And>a x. snd (f a x) = x) \<Longrightarrow> snd (seq m f x) = snd (m x)"
  by (auto simp: seq_def split: prod.split sum.split)

lemma wait_costs:
  assumes "metered net sent slept" "\<And>t. one_request sent slept (check t)" "costs sent slept k tok"
  shows "sent (snd (seq tok (\<lambda>t. seq (poll_loop net (check t) poll_delays) (or_error e)) x)) \<le> sent x + (k + 120) \<and>
         slept (snd (seq tok (\<lambda>t. seq (poll_loop net (check t) poll_delays) (or_error e)) x)) \<le> slept x + 1220"
  by (rule seq_costs [OF assms(3)]) (simp add: snd_seq_quiet poll_loop_costs [OF assms(1,2)])

subsection \<open>The sources of tokens\<close>

text \<open>A token of a service principal or a managed identity costs one request, or none while it is cached.\<close>

definition unmetered :: "('x \<Rightarrow> nat) \<Rightarrow> ('x \<Rightarrow> nat) \<Rightarrow> ('x \<Rightarrow> 'x) \<Rightarrow> bool" where
  "unmetered sent slept f \<longleftrightarrow> (\<forall>x. sent (f x) = sent x \<and> slept (f x) = slept x)"

lemma cached_token_costs:
  assumes "one_request sent slept fetch" "\<And>c. unmetered sent slept (ah_set_cache h c)"
  shows "costs sent slept 1 (cached_token h fetch)"
proof -
  have "sent (snd (refresh_token h fetch x)) = Suc (sent x) \<and> slept (snd (refresh_token h fetch x)) = slept x" for x
  proof (cases "fetch x")
    case (Pair r y)
    then have y: "sent y = Suc (sent x)" "slept y = slept x"
      using assms(1) unfolding one_request_def by (metis snd_conv)+
    show ?thesis
    proof (cases r)
      case (Inr v)
      with Pair y assms(2) show ?thesis
        by (cases v) (simp add: refresh_token_def seq_def unmetered_def Let_def del: power_numeral)
    qed (use Pair y in \<open>simp add: refresh_token_def seq_def\<close>)
  qed
  then show ?thesis
    by (simp add: costs_def cached_token_def split: option.split prod.split)
qed

lemma sp_fetch_request: "metered net sent slept \<Longrightarrow> one_request sent slept (sp_fetch net h b t c s)"
  unfolding sp_fetch_def send_call_def
  by (intro one_request_then one_request_map_err one_request_send quiet_seq) auto

lemma msi_fetch_request: "metered net sent slept \<Longrightarrow> one_request sent slept (msi_fetch net h)"
  unfolding msi_fetch_def send_call_def
  by (intro one_request_then one_request_map_err one_request_send quiet_seq) auto

lemma cli_token_costs:
  assumes "\<And>args. costs sent slept 0 (ah_az h args)"
  shows "costs sent slept 0 (cli_token h tenant)"
proof -
  have "snd (cli_token h tenant x) = snd (ah_az h [''account'', ''get-access-token'', ''--resource'',
      ''https://management.azure.com'', ''--tenant'', tenant, ''--output'', ''json''] x)" for x
    unfolding cli_token_def by (subst snd_seq_quiet) (auto intro!: quiet_seq simp: map_err_def split: prod.split sum.split)
  with assms show ?thesis by (simp add: costs_def)
qed

lemma costs_mono: "costs sent slept k m \<Longrightarrow> k \<le> n \<Longrightarrow> costs sent slept n m"
  unfolding costs_def by (meson add_left_mono order_trans)

lemma azure_token_costs:
  assumes "metered net sent slept" "\<And>c. unmetered sent slept (ah_set_cache h c)"
    and "\<And>args. costs sent slept 0 (ah_az h args)"
  shows "costs sent slept 1 (azure_token_source net h base cfg)"
  unfolding azure_token_source_def Let_def
  using assms
  by (auto split: option.split
      intro!: cached_token_costs [unfolded One_nat_def] sp_fetch_request msi_fetch_request costs_mono [OF cli_token_costs])



end
