(* ===== verification/Cloud_Props.thy ===== *)
theory Cloud_Props
  imports Cloud_Polling Template_Resolve
begin

section \<open>What the cloud drivers return\<close>

text \<open>
  \<open>returns P m\<close>: whatever \<open>m\<close> returns satisfies \<open>P\<close>, whatever the clouds answer. With it come the
  theorems on the results of the three drivers: their handles are well-formed, a complete enclave is not
  provisioned again, which placeholders over an import resolve, and where the id of the account is missing.
\<close>

definition returns :: "('a \<Rightarrow> bool) \<Rightarrow> ('w, 'e, 'a) act \<Rightarrow> bool" where
  "returns P m \<longleftrightarrow> (\<forall>w. wp m (\<lambda>a _. P a) (\<lambda>_ _. True) w)"

named_theorems returns_intros \<open>what an effect returns\<close>

lemma returnsD: "returns P m \<Longrightarrow> m w = (Inr a, w') \<Longrightarrow> P a"
  unfolding returns_def by (metis wp_InrD)

lemma returns_ret [returns_intros]: "P a \<Longrightarrow> returns P (ret a)"
  by (simp add: returns_def wp_ret)

lemma returns_throw [returns_intros]: "returns P (throw e)"
  by (simp add: returns_def wp_throw)

lemma returns_seq [returns_intros]: "(\<And>a. returns P (f a)) \<Longrightarrow> returns P (seq m f)"
  unfolding returns_def by (blast intro: wp_seqI wp_True)

lemma returns_if [returns_intros]:
  "(b \<Longrightarrow> returns P m) \<Longrightarrow> (\<not> b \<Longrightarrow> returns P n) \<Longrightarrow> returns P (if b then m else n)"
  by simp

lemma returns_case_option [returns_intros]:
  "returns P m \<Longrightarrow> (\<And>y. x = Some y \<Longrightarrow> returns P (f y)) \<Longrightarrow> returns P (case x of None \<Rightarrow> m | Some y \<Rightarrow> f y)"
  by (cases x) simp_all

lemma returns_case_prod [returns_intros]:
  "(\<And>a b. returns P (f a b)) \<Longrightarrow> returns P (case x of (a, b) \<Rightarrow> f a b)"
  by (cases x) simp_all

lemma returns_Let [returns_intros]: "(\<And>a. a = x \<Longrightarrow> returns P (f a)) \<Longrightarrow> returns P (Let x f)"
  by simp

lemma returns_case_export_type [returns_intros]:
  "returns P a \<Longrightarrow> returns P b \<Longrightarrow> returns P c \<Longrightarrow> returns P (case t of ExpHttp \<Rightarrow> a | ExpTcp \<Rightarrow> b | ExpQueue \<Rightarrow> c)"
  by (cases t) simp_all

text \<open>Where the continuation relies on what came before.\<close>

lemma returns_seqI:
  assumes "returns R m" "\<And>a. R a \<Longrightarrow> returns P (f a)"
  shows "returns P (seq m f)"
  unfolding returns_def
proof
  fix w
  show "wp (seq m f) (\<lambda>a _. P a) (\<lambda>_ _. True) w"
    by (rule wp_seqI [of _ "\<lambda>a _. R a"]) (use assms in \<open>auto simp: returns_def\<close>)
qed

lemma returns_or_error: "returns (\<lambda>a. v = Some a) (or_error e v)"
  by (simp add: returns_def wp_or_error split: option.split)

subsection \<open>Handles are well-formed\<close>

lemma json_wf_list_of [simp]: "json_wf (json_list JString ss)"
  by (auto simp: json_list_def)

lemma json_wf_tags [simp]: "json_wf (nclav_tags i p)"
  by (auto simp: nclav_tags_def split: option.split)

definition handle_wf :: "provision_result \<Rightarrow> bool" where
  "handle_wf r \<longleftrightarrow> json_wf (pr_handle r) \<and> hm_ok (pr_outputs r)"

lemma handle_wfI:
  "json_wf h \<Longrightarrow> hm_ok outs \<Longrightarrow> handle_wf \<lparr>pr_handle = h, pr_outputs = outs\<rparr>"
  by (simp add: handle_wf_def)

lemma hm_ok_string_entries [simp]: "hm_ok (string_entries m)"
  by (simp add: string_entries_def)

lemma hm_ok_exported [simp]: "hm_ok (exported_outputs h)"
  by (simp add: exported_outputs_def split: option.split)

lemma hm_ok_port_str [simp]: "hm_ok m \<Longrightarrow> hm_ok (port_str v m)"
  by (simp add: port_str_def split: option.split)

lemma hm_ok_insert_opt [simp]: "hm_ok m \<Longrightarrow> hm_ok (insert_opt k v m)"
  by (simp add: insert_opt_def split: option.split)

lemma hm_ok_handle_outputs [simp]: "hm_ok (export_outputs_from_handle h)" "hm_ok (import_outputs_from_handle h)"
  by (auto simp: export_outputs_from_handle_def import_outputs_from_handle_def Let_def split: option.split)

definition opt_wf :: "handle option \<Rightarrow> bool" where
  "opt_wf ex \<longleftrightarrow> (\<forall>h. ex = Some h \<longrightarrow> json_wf h)"

lemma opt_wf_Some [simp]: "opt_wf (Some h) \<longleftrightarrow> json_wf h" "opt_wf None"
  by (simp_all add: opt_wf_def)

text \<open>The contract of the four operations that return a handle.\<close>

definition driver_wf :: "'c driver \<Rightarrow> bool" where
  "driver_wf d \<longleftrightarrow>
     (\<forall>e ex. opt_wf ex \<longrightarrow> returns handle_wf (drv_provision_enclave d e ex)) \<and>
     (\<forall>e p inputs ex. opt_wf ex \<longrightarrow> returns handle_wf (drv_provision_partition d e p inputs ex)) \<and>
     (\<forall>e x outs ex. opt_wf ex \<and> hm_ok outs \<longrightarrow> returns handle_wf (drv_provision_export d e x outs ex)) \<and>
     (\<forall>e i h ex. opt_wf ex \<and> json_wf h \<longrightarrow> returns handle_wf (drv_provision_import d e i h ex))"

lemma driver_wfI:
  assumes "\<And>e ex. opt_wf ex \<Longrightarrow> returns handle_wf (drv_provision_enclave d e ex)"
    "\<And>e p inputs ex. opt_wf ex \<Longrightarrow> returns handle_wf (drv_provision_partition d e p inputs ex)"
    "\<And>e x outs ex. opt_wf ex \<Longrightarrow> hm_ok outs \<Longrightarrow> returns handle_wf (drv_provision_export d e x outs ex)"
    "\<And>e i h ex. opt_wf ex \<Longrightarrow> json_wf h \<Longrightarrow> returns handle_wf (drv_provision_import d e i h ex)"
  shows "driver_wf d"
  using assms by (simp add: driver_wf_def)

lemma skip_handle_wf [intro]: "json_wf h \<Longrightarrow> handle_wf (skip_handle h)"
  by (simp add: skip_handle_def handle_wfI)

lemma hm_ok_fold_insert: "hm_ok m \<Longrightarrow> hm_ok (fold (\<lambda>k. hm_insert k (f k)) ks m)"
  by (induction ks arbitrary: m) auto

lemma hm_ok_local_outputs [simp]: "hm_ok (local_outputs p)"
  by (simp add: local_outputs_def hm_ok_fold_insert split: option.split)

lemma local_driver_wf: "driver_wf local_driver"
  by (rule driver_wfI)
     (auto simp: local_driver_def local_provision_enclave_def local_provision_partition_def
        local_provision_export_def local_provision_import_def intro!: returns_ret handle_wfI split: option.split)

lemma gcp_skip_wf: "opt_wf ex \<Longrightarrow> returns (\<lambda>s. \<forall>r. s = Some r \<longrightarrow> handle_wf r) (gcp_skip d token ex)"
  by (auto simp: gcp_skip_def handle_wf_def split: option.split if_splits intro!: returns_intros)

lemma gcp_driver_wf: "driver_wf (gcp_driver d)"
proof (rule driver_wfI)
  fix e :: enclave and ex :: "handle option" assume ex: "opt_wf ex"
  show "returns handle_wf (drv_provision_enclave (gcp_driver d) e ex)"
    unfolding gcp_driver_def driver.simps gcp_provision_enclave_def Let_def
    by (rule returns_seq, rule returns_seqI [OF gcp_skip_wf [OF ex]])
       (intro returns_case_option returns_seq returns_ret handle_wfI; auto)
next
  fix e p inputs and ex :: "handle option"
  show "returns handle_wf (drv_provision_partition (gcp_driver d) e p inputs ex)"
    unfolding gcp_driver_def driver.simps gcp_provision_partition_def Let_def
    by (intro returns_seq returns_ret handle_wfI) auto
next
  fix e x ex and outs :: "(string, string) hashmap" assume "hm_ok outs"
  then show "returns handle_wf (drv_provision_export (gcp_driver d) e x outs ex)"
    unfolding gcp_driver_def driver.simps gcp_provision_export_def Let_def
    by (intro returns_seq returns_case_export_type returns_ret handle_wfI) auto
next
  fix e i h ex assume "json_wf h"
  then show "returns handle_wf (drv_provision_import (gcp_driver d) e i h ex)"
    unfolding gcp_driver_def driver.simps gcp_provision_import_def gcp_import_tcp_def gcp_import_queue_def Let_def
    by (intro returns_seq returns_if returns_case_prod returns_ret returns_throw handle_wfI) auto
qed

lemma azure_driver_wf: "driver_wf (azure_driver d)"
proof (rule driver_wfI)
  fix e :: enclave and ex :: "handle option" assume "opt_wf ex"
  then show "returns handle_wf (drv_provision_enclave (azure_driver d) e ex)"
    unfolding azure_driver_def driver.simps azure_provision_enclave_def Let_def
    by (intro returns_seq returns_if returns_case_option returns_case_prod returns_case_export_type returns_ret returns_throw handle_wfI;
      auto intro: handle_wfI)
next
  fix e p inputs and ex :: "handle option" assume "opt_wf ex"
  then show "returns handle_wf (drv_provision_partition (azure_driver d) e p inputs ex)"
    unfolding azure_driver_def driver.simps azure_provision_partition_def azure_create_partition_def Let_def
    by (intro returns_seq returns_if returns_case_option returns_case_prod returns_case_export_type returns_ret returns_throw handle_wfI;
      auto intro: handle_wfI)
next
  fix e x ex and outs :: "(string, string) hashmap" assume "opt_wf ex" "hm_ok outs"
  then show "returns handle_wf (drv_provision_export (azure_driver d) e x outs ex)"
    unfolding azure_driver_def driver.simps azure_provision_export_def azure_create_export_def Let_def
    by (intro returns_seq returns_if returns_case_option returns_case_prod returns_case_export_type returns_ret returns_throw handle_wfI;
      auto intro: handle_wfI)
next
  fix e i h ex assume "opt_wf ex" "json_wf h"
  then show "returns handle_wf (drv_provision_import (azure_driver d) e i h ex)"
    unfolding azure_driver_def driver.simps azure_provision_import_def azure_import_link_def azure_import_queue_def Let_def
    by (intro returns_seq returns_if returns_case_option returns_case_prod returns_case_export_type returns_ret returns_throw handle_wfI;
      auto intro: handle_wfI)
qed

lemma aws_driver_wf: "driver_wf (aws_driver d)"
proof (rule driver_wfI)
  fix e :: enclave and ex :: "handle option" assume "opt_wf ex"
  then show "returns handle_wf (drv_provision_enclave (aws_driver d) e ex)"
    unfolding aws_driver_def driver.simps aws_provision_enclave_def aws_create_enclave_def
    by (auto intro!: returns_intros handle_wfI split: option.split)
next
  fix e p inputs and ex :: "handle option" assume "opt_wf ex"
  then show "returns handle_wf (drv_provision_partition (aws_driver d) e p inputs ex)"
    unfolding aws_driver_def driver.simps aws_provision_partition_def aws_create_partition_def Let_def
    by (auto intro!: returns_intros handle_wfI split: option.split)
next
  fix e x ex and outs :: "(string, string) hashmap" assume "opt_wf ex" "hm_ok outs"
  then show "returns handle_wf (drv_provision_export (aws_driver d) e x outs ex)"
    unfolding aws_driver_def driver.simps aws_provision_export_def aws_export_handle_def Let_def
    by (auto intro!: returns_intros handle_wfI split: option.split export_type.split)
next
  fix e i h ex assume "opt_wf ex" "json_wf h"
  moreover have "returns json_wf (lift_result (aws_import_handle i h))"
    by (auto simp: returns_def wp_lift_result aws_import_handle_def Let_def split: sum.split)
  ultimately show "returns handle_wf (drv_provision_import (aws_driver d) e i h ex)"
    unfolding aws_driver_def driver.simps aws_provision_import_def Let_def
    by (auto intro!: returns_seqI [where R = json_wf] returns_ret handle_wfI returns_case_option returns_if)
qed

text \<open>
  Whatever the clouds answer, every handle that one of the four drivers returns is a well-formed JSON
  value, given that the handles it was given are: the keys of every object in it are sorted and occur
  once, as in the maps of \<open>serde_json\<close>; and no output occurs twice.
\<close>
theorem driver_handles_wf:
  "driver_wf local_driver \<and> driver_wf (gcp_driver g) \<and> driver_wf (azure_driver a) \<and> driver_wf (aws_driver w)"
  by (simp add: local_driver_wf gcp_driver_wf azure_driver_wf aws_driver_wf)

subsection \<open>A complete enclave is not provisioned again\<close>

definition complete_handle :: "provision_result \<Rightarrow> bool" where
  "complete_handle r \<longleftrightarrow> json_is_true (json_index (pr_handle r) ''provisioning_complete'') \<and> pr_outputs r = []"

lemma json_is_true_simps [simp]: "json_is_true (JBool b) = b" "\<not> json_is_true JNull"
  by (simp_all add: json_is_true_def)

lemma azure_enclave_complete: "returns complete_handle (azure_provision_enclave d e ex)"
  unfolding azure_provision_enclave_def Let_def
  by (auto simp: complete_handle_def skip_handle_def json_index_def json_get_object split: option.split intro!: returns_intros)

lemma aws_enclave_complete: "returns complete_handle (aws_provision_enclave d e ex)"
  unfolding aws_provision_enclave_def aws_create_enclave_def
  by (auto simp: complete_handle_def skip_handle_def json_index_def json_get_object split: option.split intro!: returns_intros)

lemma gcp_enclave_complete:
  "returns (\<lambda>r. handle_complete (pr_handle r) \<noteq> None \<and> pr_outputs r = []) (gcp_provision_enclave d e ex)"
proof -
  have skip: "returns (\<lambda>s. \<forall>r. s = Some r \<longrightarrow> handle_complete (pr_handle r) \<noteq> None \<and> pr_outputs r = []) (gcp_skip d token ex)"
    for token
    by (auto simp: gcp_skip_def split: option.split if_splits intro!: returns_intros)
  show ?thesis
    unfolding gcp_provision_enclave_def Let_def
    by (rule returns_seq, rule returns_seqI [OF skip]) (intro returns_case_option returns_seq returns_ret;
       simp add: handle_complete_def json_index_def json_str_at_def json_get_object)
qed

lemma gcp_skip_run:
  assumes "handle_complete h = Some pid"
    and "gcp_auth g u = (Inr token, v)"
    and "cn_send (gcp_net g) (bearer_call ''GET'' (project_url g pid) token NoContent) v = (Inr reply, v')"
    and "is_success (rp_status reply)"
  shows "gcp_provision_enclave g e (Some h) u = (Inr \<lparr>pr_handle = h, pr_outputs = []\<rparr>, v')"
  using assms
  by (simp add: gcp_provision_enclave_def gcp_bearer_def map_err_def seq_def Let_def gcp_skip_def send_call_def ret_def)

text \<open>
  C31. The handle of an enclave that was provisioned makes the next provisioning return at once with the
  same handle: on Azure and AWS without any request, so that a subscription or account that was closed
  since is never noticed; on Google Cloud after one request, the one that asks whether the project of the
  handle is still there.
\<close>
theorem cloud_reprovision_skips:
  assumes "gcp_provision_enclave g e ex x = (Inr r, x')"
    and "azure_provision_enclave a e ey y = (Inr s, y')"
    and "aws_provision_enclave w e ez z = (Inr t, z')"
  shows "azure_provision_enclave a e (Some (pr_handle s)) u = (Inr s, u) \<and>
         aws_provision_enclave w e (Some (pr_handle t)) u' = (Inr t, u') \<and>
         (\<exists>pid. json_str_at (pr_handle r) ''project_id'' = Some pid \<and>
            (\<forall>v token v' reply v''. gcp_auth g v = (Inr token, v') \<and>
               cn_send (gcp_net g) (bearer_call ''GET'' (project_url g pid) token NoContent) v' = (Inr reply, v'') \<and>
               is_success (rp_status reply) \<longrightarrow>
             gcp_provision_enclave g e (Some (pr_handle r)) v = (Inr r, v'')))"
proof -
  from returnsD [OF azure_enclave_complete assms(2)]
  have "azure_provision_enclave a e (Some (pr_handle s)) u = (Inr s, u)"
    by (simp add: complete_handle_def azure_provision_enclave_def Let_def skip_handle_def ret_def)
  moreover from returnsD [OF aws_enclave_complete assms(3)]
  have "aws_provision_enclave w e (Some (pr_handle t)) u' = (Inr t, u')"
    by (simp add: complete_handle_def aws_provision_enclave_def skip_handle_def ret_def)
  moreover obtain pid where pid: "handle_complete (pr_handle r) = Some pid" "pr_outputs r = []"
    using returnsD [OF gcp_enclave_complete assms(1)] by auto
  moreover from pid have "json_str_at (pr_handle r) ''project_id'' = Some pid"
    by (simp add: handle_complete_def split: if_splits)
  moreover have "r = \<lparr>pr_handle = pr_handle r, pr_outputs = []\<rparr>" using pid(2) by (cases r) simp
  ultimately show ?thesis using gcp_skip_run [OF pid(1)] by metis
qed

theorem cloud_reprovision_skips_witness:
  "\<exists>r s t. azure_provision_enclave (example_azure (example_net success_reply)) example_enclave (Some (pr_handle s)) (7, 0) = (Inr s, (7, 0)) \<and>
     aws_provision_enclave (example_aws (example_net success_reply)) example_enclave (Some (pr_handle t)) (7, 0) = (Inr t, (7, 0)) \<and>
     gcp_provision_enclave (example_gcp (example_net success_reply)) example_enclave (Some (pr_handle r)) (7, 0) = (Inr r, (8, 0))"
proof -
  let ?net = "example_net success_reply" and ?e = example_enclave
  let ?h = "json_object [(''provisioning_complete'', JBool True)]"
  let ?k = "json_object [(''provisioning_complete'', JBool True), (''project_id'', JString ''shop'')]"
  have "handle_complete ?k = Some ''shop''"
    by (simp add: handle_complete_def json_str_at_def json_index_def json_get_object)
  then have r: "gcp_provision_enclave (example_gcp ?net) ?e (Some ?k) (0, 0) = (Inr (skip_handle ?k), (1, 0))"
    unfolding skip_handle_def
    by (rule gcp_skip_run [where v = "(0, 0)" and reply = "\<lparr>rp_status = 200, rp_headers = [], rp_text = Inr [], rp_json = Inr success_reply\<rparr>"])
       (simp_all add: example_gcp_def example_net_def ret_def is_success_def)
  have "case azure_provision_enclave (example_azure ?net) ?e None (0, 0) of (Inr r, y) \<Rightarrow> True | _ \<Rightarrow> False" by code_simp
  then obtain s y' where s: "azure_provision_enclave (example_azure ?net) ?e None (0, 0) = (Inr s, y')"
    by (auto split: prod.splits sum.splits)
  have t: "aws_provision_enclave (example_aws ?net) ?e (Some ?h) (0, 0) = (Inr (skip_handle ?h), (0, 0))" by code_simp
  note skips = cloud_reprovision_skips [OF r s t, of "(7, 0)" "(7, 0)"]
  from conjunct2 [OF conjunct2 [OF skips]] obtain pid where gcp: "\<forall>v token v' reply v''.
       gcp_auth (example_gcp ?net) v = (Inr token, v') \<and>
       cn_send (gcp_net (example_gcp ?net)) (bearer_call ''GET'' (project_url (example_gcp ?net) pid) token NoContent) v' = (Inr reply, v'') \<and>
       is_success (rp_status reply) \<longrightarrow>
       gcp_provision_enclave (example_gcp ?net) ?e (Some (pr_handle (skip_handle ?k))) v = (Inr (skip_handle ?k), v'')"
    by (elim exE conjE)
  have "gcp_provision_enclave (example_gcp ?net) ?e (Some (pr_handle (skip_handle ?k))) (7, 0) = (Inr (skip_handle ?k), (8, 0))"
    by (rule gcp [rule_format, of _ "''token''" "(7, 0)" "\<lparr>rp_status = 200, rp_headers = [], rp_text = Inr [], rp_json = Inr success_reply\<rparr>"])
       (simp add: example_gcp_def example_net_def ret_def is_success_def)
  with skips show ?thesis by blast
qed

subsection \<open>Placeholders over imports\<close>

lemma json_get_string_map: "hm_ok m \<Longrightarrow> json_get (json_string_map m) k = map_option JString (hm_get m k)"
proof -
  assume "hm_ok m"
  then have "distinct (map fst (map (\<lambda>(k, v). (k, JString v)) m))"
    by (simp add: hm_ok_def comp_def case_prod_unfold)
  moreover have "map_of (map (\<lambda>(k, v). (k, JString v)) m) k = map_option JString (map_of m k)"
    by (induction m) auto
  ultimately show ?thesis
    by (simp add: json_string_map_def json_get_def map_of_bt_collect map_of_rev hm_get_def)
qed

lemma gcp_import_outputs:
  "returns (\<lambda>r. json_get (pr_handle r) ''outputs'' = Some (json_string_map (pr_outputs r)) \<and> hm_ok (pr_outputs r))
     (gcp_provision_import d e i h ex)"
  unfolding gcp_provision_import_def gcp_import_tcp_def gcp_import_queue_def Let_def
  by (intro returns_seq returns_if returns_case_prod returns_ret returns_throw) (simp_all add: json_get_object)

lemma azure_import_outputs: "returns (\<lambda>r. json_get (pr_handle r) ''outputs'' = None) (azure_provision_import d e i h None)"
  unfolding azure_provision_import_def azure_import_link_def azure_import_queue_def Let_def option.case
  by (intro returns_seq returns_if returns_case_option returns_ret returns_throw) (simp_all add: json_get_object)

lemma aws_import_outputs: "returns (\<lambda>r. json_get (pr_handle r) ''outputs'' = None) (aws_provision_import e i h None)"
proof -
  have "returns (\<lambda>v. json_get v ''outputs'' = None) (lift_result (aws_import_handle i h))"
    by (auto simp: returns_def wp_lift_result aws_import_handle_def Let_def json_get_object split: sum.split)
  then show ?thesis
    unfolding aws_provision_import_def Let_def option.case by (auto intro!: returns_seqI returns_ret)
qed

lemma local_import_outputs: "returns (\<lambda>r. json_get (pr_handle r) ''outputs'' = None) (local_provision_import e i h ex)"
  unfolding local_provision_import_def by (intro returns_ret) (simp add: json_get_object)

text \<open>
  C34. What a placeholder over an import becomes, once the handle that the driver returned is stored under
  the alias: on Google Cloud the output of the import, and nothing else; on Azure, on AWS and with the
  local driver nothing, since their handles have no object \<open>outputs\<close>, so the placeholder stays in the
  input as it was written although the driver did return the output.
\<close>
theorem import_placeholders:
  assumes "hm_get (es_imports es) alias = Some (pr_handle r)"
    and "split_once (CHR ''.'') (trim raw) = Some (alias, k)"
  shows "(gcp_provision_import g e i h ex x = (Inr r, x') \<longrightarrow> placeholder_value es ctx raw = hm_get (pr_outputs r) k) \<and>
         (azure_provision_import a e i h None y = (Inr r, y') \<longrightarrow> placeholder_value es ctx raw = None) \<and>
         (aws_provision_import e i h None z = (Inr r, z') \<longrightarrow> placeholder_value es ctx raw = None) \<and>
         (local_provision_import e i h ex u = (Inr r, u') \<longrightarrow> placeholder_value es ctx raw = None)"
proof -
  have v: "placeholder_value es ctx raw = (case json_get (pr_handle r) ''outputs'' of None \<Rightarrow> None
      | Some outs \<Rightarrow> (case json_get outs k of None \<Rightarrow> None | Some v \<Rightarrow> json_as_str v))"
    by (simp add: placeholder_value_def splitn2_def assms)
  have "placeholder_value es ctx raw = hm_get (pr_outputs r) k"
    if "gcp_provision_import g e i h ex x = (Inr r, x')"
    using returnsD [OF gcp_import_outputs that]
    by (cases "hm_get (pr_outputs r) k") (simp_all add: v json_get_string_map)
  moreover have "placeholder_value es ctx raw = None" if "azure_provision_import a e i h None y = (Inr r, y')"
    using returnsD [OF azure_import_outputs that] by (simp add: v)
  moreover have "placeholder_value es ctx raw = None" if "aws_provision_import e i h None z = (Inr r, z')"
    using returnsD [OF aws_import_outputs that] by (simp add: v)
  moreover have "placeholder_value es ctx raw = None" if "local_provision_import e i h ex u = (Inr r, u')"
    using returnsD [OF local_import_outputs that] by (simp add: v)
  ultimately show ?thesis by blast
qed

theorem import_placeholders_witness:
  "\<exists>es r. gcp_provision_import (example_gcp (example_net JNull)) example_enclave example_import
       (json_object [(''type'', JString ''http''), (''outputs'', json_object [(''url'', JString ''u'')])]) None (0, 0) = (Inr r, (0, 0)) \<and>
     placeholder_value es [] '' pay.url '' = Some ''u''"
proof -
  let ?g = "example_gcp (example_net JNull)"
  let ?h = "json_object [(''type'', JString ''http''), (''outputs'', json_object [(''url'', JString ''u'')])]"
  let ?run = "gcp_provision_import ?g example_enclave example_import ?h None (0, 0)"
  have "case ?run of (Inr r, y) \<Rightarrow> y = (0, 0) \<and> hm_get (pr_outputs r) ''url'' = Some ''u'' | _ \<Rightarrow> False" by code_simp
  then obtain r where r: "?run = (Inr r, (0, 0))" "hm_get (pr_outputs r) ''url'' = Some ''u''"
    by (auto split: prod.splits sum.splits)
  let ?es = "(new_enclave_state example_enclave)\<lparr>es_imports := [(''pay'', pr_handle r)]\<rparr>"
  have "split_once (CHR ''.'') (trim '' pay.url '') = Some (''pay'', ''url'')" by code_simp
  moreover have "hm_get (es_imports ?es) ''pay'' = Some (pr_handle r)" by (simp add: hm_get_def)
  ultimately have "placeholder_value ?es [] '' pay.url '' = hm_get (pr_outputs r) ''url''"
    by (rule import_placeholders [THEN conjunct1, rule_format, OF _ _ r(1), rotated])
  then have "placeholder_value ?es [] '' pay.url '' = Some ''u''" using r(2) by simp
  with r show ?thesis by blast
qed

subsection \<open>The account of a partition\<close>

lemma resolve_inputs_absent: "hm_get inputs k = None \<Longrightarrow> hm_get (resolve_inputs inputs es ctx) k = None"
proof -
  assume "hm_get inputs k = None"
  then have "k \<notin> fst ` set inputs" by (simp add: hm_get_def map_of_eq_None_iff)
  then have "k \<notin> dom (hm_get (resolve_inputs inputs es ctx))"
    by (simp add: resolve_inputs_def dom_hm_collect image_image case_prod_unfold)
  then show ?thesis by (simp add: domIff)
qed

lemma hm_get_insert_other: "k \<noteq> k' \<Longrightarrow> hm_get (hm_insert k v m) k' = hm_get m k'"
  by (simp add: hm_get_insert)

text \<open>
  C30. The first provisioning of a partition on Azure or AWS, with the inputs as the reconciler resolves
  them. The context of the driver has the id of the subscription or account, but the reconciler only
  substitutes it into inputs and never adds it to them. So a partition that does not itself declare the
  input \<open>nclav_account_id\<close> is refused on AWS without a request; one that does not declare
  \<open>nclav_subscription_id\<close> is refused on Azure too when the enclave has no identity, and is otherwise
  provisioned in the subscription whose id is the name of that identity.
\<close>
theorem account_never_injected:
  assumes "hm_get (part_inputs p) ''nclav_account_id'' = None"
    and "hm_get (part_inputs p) ''nclav_subscription_id'' = None"
  shows "(let ctx = aws_context_vars w e h; inputs = resolve_inputs (part_inputs p) es ctx in
           hm_get ctx ''nclav_account_id'' = Some (account_at h) \<and>
           (\<exists>msg. aws_provision_partition w e p inputs None x = (Inl (ProvisionFailed msg), x))) \<and>
         (let ctx = azure_context_vars a e h; inputs = resolve_inputs (part_inputs p) es ctx in
           hm_get ctx ''nclav_subscription_id'' = Some (str_or [] (json_str_at h ''subscription_id'')) \<and>
           azure_provision_partition a e p inputs None y =
             (case enc_identity e of
                None \<Rightarrow> (Inl (no_subscription e), y)
              | Some identity \<Rightarrow>
                  if identity = [] then (Inl (no_subscription e), y)
                  else azure_create_partition a e p identity (str_or (enc_region e) (hm_get inputs ''nclav_location'')) y))"
proof -
  have aws: "hm_get (resolve_inputs (part_inputs p) es ctx) ''nclav_account_id'' = None" for ctx
    by (rule resolve_inputs_absent [OF assms(1)])
  have azure: "hm_get (resolve_inputs (part_inputs p) es ctx) ''nclav_subscription_id'' = None" for ctx
    by (rule resolve_inputs_absent [OF assms(2)])
  have "hm_get (aws_context_vars w e h) ''nclav_account_id'' = Some (account_at h)"
    by (simp add: aws_context_vars_def hm_get_insert)
  moreover have "hm_get (azure_context_vars a e h) ''nclav_subscription_id'' = Some (str_or [] (json_str_at h ''subscription_id''))"
    by (simp add: azure_context_vars_def hm_get_insert Let_def)
  moreover have "\<exists>msg. aws_provision_partition w e p (resolve_inputs (part_inputs p) es ctx) None x = (Inl (ProvisionFailed msg), x)" for ctx
    by (simp add: aws_provision_partition_def aws str_or_def throw_def)
  moreover have "partition_subscription e (resolve_inputs (part_inputs p) es ctx) None = str_or [] (enc_identity e)" for ctx
    by (cases "enc_identity e") (simp_all add: partition_subscription_def azure first_some_def)
  ultimately show ?thesis
    by (simp add: Let_def azure_provision_partition_def str_or_def throw_def split: option.split)
qed

theorem account_never_injected_witness:
  "\<exists>msg p. hm_get (aws_context_vars (example_aws (example_net JNull)) example_enclave
        (json_object [(''account_id'', JString ''1'')])) ''nclav_account_id'' = Some ''1'' \<and>
     aws_provision_partition (example_aws (example_net JNull)) example_enclave p
       (resolve_inputs (part_inputs p) (new_enclave_state example_enclave)
          (aws_context_vars (example_aws (example_net JNull)) example_enclave (json_object [(''account_id'', JString ''1'')])))
       None (0, 0) = (Inl (ProvisionFailed msg), (0, 0))"
proof -
  let ?p = "\<lparr>part_id = PartitionId ''web'', part_name = [], part_produces = None, part_imports = [], part_exports = [],
    part_inputs = [(''region'', ''{{ nclav_region }}'')], part_declared_outputs = [], part_backend = default_backend\<rparr>"
  have "account_at (json_object [(''account_id'', JString ''1'')]) = ''1''" by code_simp
  moreover have "hm_get (part_inputs ?p) ''nclav_account_id'' = None" "hm_get (part_inputs ?p) ''nclav_subscription_id'' = None"
    by (simp_all add: hm_get_def)
  note account_never_injected [OF this, of "example_aws (example_net JNull)" example_enclave
      "json_object [(''account_id'', JString ''1'')]" "new_enclave_state example_enclave" "(0, 0)", unfolded Let_def, THEN conjunct1]
  ultimately show ?thesis by (metis (no_types))
qed

end
