(* ===== verification/Cli_Console.thy ===== *)
theory Cli_Console
  imports Cloud_Client System_World Api_Auth
begin

section \<open>The command line: console, tokens, requests\<close>

text \<open>
  The part of \<open>crates/nclav-cli/src/commands.rs\<close> that all commands share. A command runs in a
  \<open>console\<close>: the files, what was printed on the two output streams, the lines that are still to be
  read from the input, the number of random identifiers drawn, and everything outside, the server
  among it. It fails with the chain of messages that \<open>anyhow\<close> collects, outermost first, or it panics.
  \<open>shell\<close> is what the command line is given: the environment, the HTTP client, which values of a
  header are valid, the texts of status codes, JSON values and random identifiers, the JSON parser and
  its message for a value of the wrong type, the decoder that \<open>serde\<close> derives for stored enclaves, and the refusals of the operating system to
  change the mode of a file. Writing to the terminal always works.
\<close>

record 'x console =
  co_fs :: file_system
  co_out :: string
  co_err :: string
  co_in :: "(string, string) result list"
  co_tick :: nat
  co_ext :: 'x

record 'x shell =
  sh_env :: "string \<Rightarrow> string option"
  sh_net :: "'x cloud_net"
  sh_header_ok :: "string \<Rightarrow> bool"
  sh_status_text :: "nat \<Rightarrow> string"
  sh_json_text :: "json \<Rightarrow> string"
  sh_json_pretty :: "json \<Rightarrow> string"
  sh_json_parse :: "string \<Rightarrow> (string, json) result"
  sh_type_error :: "json \<Rightarrow> string"
  sh_states_of :: "json \<Rightarrow> (string, enclave_state list) result"
  sh_uuid :: "nat \<Rightarrow> string"
  sh_chmod :: "path \<Rightarrow> nat \<Rightarrow> string option"

datatype cli_error = CliError "string list" | CliPanic string

type_synonym ('x, 'a) cli = "('x console, cli_error, 'a) act"

definition bail :: "string \<Rightarrow> ('x, 'a) cli" where
  "bail msg = throw (CliError [msg])"

text \<open>\<open>m?\<close>, and \<open>m.context(msg)?\<close>, for an error of the standard library or of a crate.\<close>

definition plain_error :: "string \<Rightarrow> cli_error" where
  "plain_error e = CliError [e]"

definition context_error :: "string \<Rightarrow> string \<Rightarrow> cli_error" where
  "context_error msg e = CliError [msg, e]"

definition or_bail :: "string \<Rightarrow> 'a option \<Rightarrow> ('x, 'a) cli" where
  "or_bail msg v = (case v of None \<Rightarrow> bail msg | Some a \<Rightarrow> ret a)"

definition in_files :: "(file_system, 'e, 'a) act \<Rightarrow> ('x console, 'e, 'a) act" where
  "in_files m = (\<lambda>c. case m (co_fs c) of (r, fs) \<Rightarrow> (r, c\<lparr>co_fs := fs\<rparr>))"

definition outside :: "('x, 'e, 'a) act \<Rightarrow> ('x console, 'e, 'a) act" where
  "outside m = (\<lambda>c. case m (co_ext c) of (r, x) \<Rightarrow> (r, c\<lparr>co_ext := x\<rparr>))"

definition put_str :: "string \<Rightarrow> ('x, unit) cli" where
  "put_str s = (\<lambda>c. (Inr (), c\<lparr>co_out := co_out c @ s\<rparr>))"

definition put_line :: "string \<Rightarrow> ('x, unit) cli" where
  "put_line s = put_str (s @ nl)"

definition put_err :: "string \<Rightarrow> ('x, unit) cli" where
  "put_err s = (\<lambda>c. (Inr (), c\<lparr>co_err := co_err c @ s @ nl\<rparr>))"

text \<open>\<open>stdin().lock().lines().next()\<close>: nothing at the end of the input.\<close>

definition next_line :: "('x, (string, string) result option) cli" where
  "next_line = (\<lambda>c. case co_in c of [] \<Rightarrow> (Inr None, c) | l # ls \<Rightarrow> (Inr (Some l), c\<lparr>co_in := ls\<rparr>))"

definition fresh_uuid :: "'x shell \<Rightarrow> ('x, string) cli" where
  "fresh_uuid sh = (\<lambda>c. (Inr (sh_uuid sh (co_tick c)), c\<lparr>co_tick := Suc (co_tick c)\<rparr>))"

text \<open>\<open>for\<close> over a list, with early return.\<close>

primrec each :: "('a \<Rightarrow> ('x, unit) cli) \<Rightarrow> 'a list \<Rightarrow> ('x, unit) cli" where
  "each f [] = ret ()"
| "each f (a # as) = seq (f a) (\<lambda>_. each f as)"

subsection \<open>Paths and tokens\<close>

definition home_file :: "'x shell \<Rightarrow> string \<Rightarrow> path" where
  "home_file sh name =
     path_join (path_join (case sh_env sh ''HOME'' of Some h \<Rightarrow> h | None \<Rightarrow> ''.'') ''.nclav'') name"

definition default_token_path :: "'x shell \<Rightarrow> path" where
  "default_token_path sh = home_file sh ''token''"

definition default_gcp_credentials_path :: "'x shell \<Rightarrow> path" where
  "default_gcp_credentials_path sh = home_file sh ''gcp-credentials.json''"

definition resolve_store_path :: "'x shell \<Rightarrow> string option \<Rightarrow> path" where
  "resolve_store_path sh store_path = (case store_path of Some p \<Rightarrow> p | None \<Rightarrow> home_file sh ''state.redb'')"

definition generate_token :: "'x shell \<Rightarrow> ('x, string) cli" where
  "generate_token sh =
     seq (fresh_uuid sh) (\<lambda>a. seq (fresh_uuid sh) (\<lambda>b.
     ret (replace_char (CHR ''-'') [] a @ replace_char (CHR ''-'') [] b)))"

text \<open>The mode \<open>0o600\<close> is set after the token was written. \<open>Path::parent\<close> of a path with a directory is never missing.\<close>

definition write_token :: "'x shell \<Rightarrow> path \<Rightarrow> string \<Rightarrow> ('x, unit) cli" where
  "write_token sh p token =
     seq (map_err (context_error (''Failed to create directory '' @ path_parent p))
       (in_files (fs_create_dir_all (path_parent p)))) (\<lambda>_.
     seq (map_err (context_error (''Failed to write token to '' @ p)) (in_files (fs_write p token))) (\<lambda>_.
     case sh_chmod sh p 384 of
       Some e \<Rightarrow> throw (context_error (''Failed to set permissions on '' @ p) e)
     | None \<Rightarrow> ret ()))"

definition resolve_token :: "'x shell \<Rightarrow> string option \<Rightarrow> ('x, string) cli" where
  "resolve_token sh explicit = (case explicit of
     Some t \<Rightarrow> ret t
   | None \<Rightarrow>
       let p = default_token_path sh in
       seq (map_err (context_error (''No token provided and could not read token file at '' @ p @
           ''. Use --token, NCLAV_TOKEN, or run `nclav serve` first.''))
         (in_files (fs_read_to_string p))) (\<lambda>s.
       ret (trim s)))"

subsection \<open>Requests\<close>

definition server_url :: "string option \<Rightarrow> string" where
  "server_url remote = (case remote of Some u \<Rightarrow> u | None \<Rightarrow> ''http://localhost:8080'')"

definition url_base :: "string \<Rightarrow> string" where
  "url_base url = trim_end_matches (CHR ''/'') url"

text \<open>
  The client carries the header in its defaults, so it is made, or panics, before anything is sent.
\<close>

definition authed_client :: "'x shell \<Rightarrow> string \<Rightarrow> ('x, string) cli" where
  "authed_client sh token =
     (let bearer = ''Bearer '' @ token
      in if sh_header_ok sh bearer then ret bearer else throw (CliPanic ''token contains invalid header characters''))"

definition client_call :: "string \<Rightarrow> string \<Rightarrow> string \<Rightarrow> call_body \<Rightarrow> http_call" where
  "client_call bearer verb url b = \<lparr>call_verb = verb, call_url = url, call_query = [],
     call_headers = [(''authorization'', bearer)], call_bearer = None, call_body = b\<rparr>"

text \<open>\<open>send().await.with_context(...)?\<close>.\<close>

definition send_to :: "'x shell \<Rightarrow> string \<Rightarrow> http_call \<Rightarrow> ('x, cloud_reply) cli" where
  "send_to sh url call = map_err (context_error (''Failed to reach server at '' @ url))
     (outside (cn_send (sh_net sh) call))"

text \<open>
  \<open>expect_success\<close>: the reply when its status is a success, else an error with the text \<open>error\<close> of its
  JSON body, or with the whole body.
\<close>

definition server_message :: "'x shell \<Rightarrow> cloud_reply \<Rightarrow> string" where
  "server_message sh resp =
     (let b = text_or_empty resp
      in case sh_json_parse sh b of
           Inl _ \<Rightarrow> b
         | Inr v \<Rightarrow> (case json_str_at v ''error'' of Some m \<Rightarrow> m | None \<Rightarrow> b))"

definition expect_success :: "'x shell \<Rightarrow> cloud_reply \<Rightarrow> ('x, cloud_reply) cli" where
  "expect_success sh resp =
     (if is_success (rp_status resp) then ret resp
      else bail (''server returned '' @ sh_status_text sh (rp_status resp) @ '': '' @ server_message sh resp))"

text \<open>\<open>resp.json().await?\<close>, with an optional context.\<close>

definition body_json :: "cloud_reply \<Rightarrow> ('x, json) cli" where
  "body_json resp = lift_result (map_sum plain_error id (rp_json resp))"

definition body_json_or :: "string \<Rightarrow> cloud_reply \<Rightarrow> ('x, json) cli" where
  "body_json_or msg resp = lift_result (map_sum (context_error msg) id (rp_json resp))"

text \<open>A GET of a path below the server, its status checked.\<close>

definition get_ok :: "'x shell \<Rightarrow> string option \<Rightarrow> string \<Rightarrow> string \<Rightarrow> ('x, cloud_reply) cli" where
  "get_ok sh remote bearer path =
     (let url = server_url remote in
      seq (send_to sh url (client_call bearer ''GET'' (url_base url @ path) NoContent)) (expect_success sh))"

subsection \<open>Facts\<close>

lemmas console_defs = put_str_def put_line_def put_err_def ret_def seq_def

lemma wp_bail [wp_simps]: "wp (bail msg) Q E c = E (CliError [msg]) c"
  by (simp add: wp_def bail_def throw_def)

lemma wp_or_bail [wp_simps]: "wp (or_bail msg v) Q E c = (case v of None \<Rightarrow> E (CliError [msg]) c | Some a \<Rightarrow> Q a c)"
  by (simp add: or_bail_def wp_simps split: option.split)

lemma wp_cli [wp_simps]:
  "wp (put_str s) Q E c = Q () (c\<lparr>co_out := co_out c @ s\<rparr>)"
  "wp (put_line s) Q E c = Q () (c\<lparr>co_out := co_out c @ s @ nl\<rparr>)"
  "wp (put_err s) Q E c = Q () (c\<lparr>co_err := co_err c @ s @ nl\<rparr>)"
  "wp (fresh_uuid sh) Q' E c = Q' (sh_uuid sh (co_tick c)) (c\<lparr>co_tick := Suc (co_tick c)\<rparr>)"
  by (simp_all add: wp_def put_str_def put_line_def put_err_def fresh_uuid_def)

lemma wp_in_files [wp_simps]:
  "wp (in_files m) Q E c = wp m (\<lambda>a fs. Q a (c\<lparr>co_fs := fs\<rparr>)) (\<lambda>e fs. E e (c\<lparr>co_fs := fs\<rparr>)) (co_fs c)"
  by (simp add: wp_def in_files_def split: prod.split sum.split)

lemma wp_outside [wp_simps]:
  "wp (outside m) Q E c = wp m (\<lambda>a x. Q a (c\<lparr>co_ext := x\<rparr>)) (\<lambda>e x. E e (c\<lparr>co_ext := x\<rparr>)) (co_ext c)"
  by (simp add: wp_def outside_def split: prod.split sum.split)

lemma read_unchanged: "fs_read_to_string p fs = (r, fs') \<Longrightarrow> fs' = fs"
  by (auto simp: fs_read_to_string_def guarded_def split: option.splits fs_node.splits)

lemma resolve_token_same: "resolve_token sh token c = (r, c') \<Longrightarrow> c' = c"
  by (cases "fs_read_to_string (default_token_path sh) (co_fs c)")
     (auto simp: resolve_token_def Let_def seq_def map_err_def in_files_def ret_def
       split: option.splits sum.splits dest: read_unchanged)

lemma authed_client_wp:
  "wp (authed_client sh tok) (\<lambda>b c'. b = ''Bearer '' @ tok \<and> c' = c) (\<lambda>_ c'. c' = c) c"
  by (simp add: authed_client_def Let_def wp_simps)

end
