(* ===== verification/Cli_Output.thy ===== *)
theory Cli_Output
  imports Store_State
begin

section \<open>The command line: graphs\<close>

text \<open>
  \<open>crates/nclav-cli/src/output.rs\<close>: the graph of the stored enclaves as text and in the language of
  Graphviz. The text is built by appending to \<open>out\<close>; a loop of the source is a fold over the list it
  walks. A hash map is walked in the order of its list, which stands for any order.
\<close>

definition label_sanitize :: "string \<Rightarrow> string" where
  "label_sanitize s = replace_char (CHR ''.'') ''_'' (replace_char (CHR ''-'') ''_'' s)"

definition status_color :: "string \<Rightarrow> string" where
  "status_color status =
     (if status = ''active'' then ''#c8e6c9''
      else if status = ''error'' then ''#ffcdd2''
      else if status = ''degraded'' then ''#ffe0b2''
      else if status = ''provisioning'' \<or> status = ''updating'' then ''#fff9c4''
      else if status = ''deleting'' \<or> status = ''deleted'' then ''#f5f5f5''
      else ''#ffffff'')"

text \<open>The loops skip an enclave that is not the one asked for.\<close>

definition filtered_out :: "string option \<Rightarrow> enclave_state \<Rightarrow> bool" where
  "filtered_out filter_enclave s = (case filter_enclave of None \<Rightarrow> False | Some f \<Rightarrow> eid_str (es_id s) \<noteq> f)"

definition cloud_tag :: "enclave_state \<Rightarrow> string" where
  "cloud_tag s = (case es_resolved_cloud s of None \<Rightarrow> [] | Some c \<Rightarrow> '' ['' @ cloud_str c @ '']'')"

definition partition_status :: "enclave_state \<Rightarrow> partition \<Rightarrow> string" where
  "partition_status s p = (case hm_get (es_partitions s) (part_id p) of
     Some ps \<Rightarrow> status_str (meta_status (ps_meta ps)) | None \<Rightarrow> ''pending'')"

subsection \<open>Graphviz\<close>

definition dot_node :: "enclave_state \<Rightarrow> partition \<Rightarrow> string \<Rightarrow> string" where
  "dot_node s p out =
     (let pstatus = partition_status s p in
      out @ ''    '' @ dq @ eid_str (es_id s) @ '':'' @ pid_str (part_id p) @ dq @ '' [label='' @ dq @ part_name p @
      '' ['' @ pstatus @ '']'' @ dq @ '', fillcolor='' @ dq @ status_color pstatus @ dq @ ''];'' @ nl)"

definition dot_cluster :: "enclave_state \<Rightarrow> string \<Rightarrow> string" where
  "dot_cluster s out =
     (let enc = es_desired s;
          out = out @ ''  subgraph cluster_'' @ label_sanitize (eid_str (enc_id enc)) @ '' {'' @ nl @ ''    label='' @ dq @
            enc_name enc @ cloud_tag s @ '' ['' @ status_str (meta_status (es_meta s)) @ '']'' @ dq @ '';'' @ nl
      in fold (dot_node s) (enc_partitions enc) out @ ''  }'' @ nl @ nl)"

definition dot_arrow :: "string \<Rightarrow> import \<Rightarrow> string" where
  "dot_arrow target i = ''  '' @ dq @ eid_str (imp_from i) @ dq @ '' -> '' @ dq @ target @ dq @ '' [label='' @ dq @
     imp_export_name i @ dq @ ''];'' @ nl"

definition dot_arrows :: "enclave_state \<Rightarrow> string \<Rightarrow> string" where
  "dot_arrows s out =
     (let enc = es_desired s;
          out = fold (\<lambda>i out. out @ dot_arrow (eid_str (enc_id enc)) i) (enc_imports enc) out
      in fold (\<lambda>p out. fold (\<lambda>i out. out @ dot_arrow (eid_str (enc_id enc) @ '':'' @ pid_str (part_id p)) i)
           (part_imports p) out) (enc_partitions enc) out)"

definition dot_head :: string where
  "dot_head = ''digraph nclav {'' @ nl @ ''  rankdir=LR;'' @ nl @ ''  node [shape=box, style=filled];'' @ nl @ nl"

definition render_dot_live :: "enclave_state list \<Rightarrow> string option \<Rightarrow> string" where
  "render_dot_live states filter_enclave =
     (let out = fold (\<lambda>s out. if filtered_out filter_enclave s then out else dot_cluster s out) states dot_head
      in fold dot_arrows states out @ ''}'')"

subsection \<open>Text\<close>

text \<open>The derived format \<open>{:?}\<close> of the two enumerations.\<close>

definition export_type_debug :: "export_type \<Rightarrow> string" where
  "export_type_debug t = (case t of ExpHttp \<Rightarrow> ''Http'' | ExpTcp \<Rightarrow> ''Tcp'' | ExpQueue \<Rightarrow> ''Queue'')"

definition export_target_debug :: "export_target \<Rightarrow> string" where
  "export_target_debug t = (case t of
     ToPublic \<Rightarrow> ''Public'' | ToAnyEnclave \<Rightarrow> ''AnyEnclave'' | ToVpn \<Rightarrow> ''Vpn''
   | ToEnclave i \<Rightarrow> ''Enclave(EnclaveId('' @ str_debug (eid_str i) @ ''))''
   | ToPartition p \<Rightarrow> ''Partition(PartitionId('' @ str_debug (pid_str p) @ ''))'')"

definition error_line :: "string \<Rightarrow> resource_meta \<Rightarrow> string" where
  "error_line indent m = (case meta_last_error m of
     None \<Rightarrow> [] | Some err \<Rightarrow> indent @ ''! error: '' @ rerr_message err @ nl)"

definition text_partition :: "enclave_state \<Rightarrow> partition \<Rightarrow> string \<Rightarrow> string" where
  "text_partition s p out =
     (let out = out @ ''  Partition: '' @ part_name p @ '' ('' @ pid_str (part_id p) @ '') ['' @ partition_status s p @ '']'' @ nl;
          out = (case hm_get (es_partitions s) (part_id p) of
             None \<Rightarrow> out
           | Some ps \<Rightarrow>
               fold (\<lambda>(k, v) out. out @ ''    output '' @ k @ '': '' @ v @ nl) (ps_outputs ps)
                 (out @ error_line ''    '' (ps_meta ps) @
                  (case part_produces p of None \<Rightarrow> [] | Some t \<Rightarrow> ''    produces: '' @ produces_str t @ nl)))
      in fold (\<lambda>i out. out @ ''    imports: '' @ eid_str (imp_from i) @ ''.'' @ imp_export_name i @ '' as '' @
           imp_alias i @ nl) (part_imports p) out)"

definition text_export :: "export \<Rightarrow> string \<Rightarrow> string" where
  "text_export x out = out @ ''  Export: '' @ exp_name x @ '' ('' @ export_type_debug (exp_export_type x) @ '') -> '' @
     export_target_debug (exp_to x) @ nl"

definition text_enclave :: "enclave_state \<Rightarrow> string \<Rightarrow> string" where
  "text_enclave s out =
     (let enc = es_desired s;
          out = out @ ''Enclave: '' @ enc_name enc @ cloud_tag s @ '' ('' @ eid_str (enc_id enc) @ '') ['' @
            status_str (meta_status (es_meta s)) @ '']'' @ nl @ error_line ''  '' (es_meta s);
          out = fold (text_partition s) (enc_partitions enc) out
      in fold text_export (enc_exports enc) out @ nl)"

definition render_graph_text_live :: "enclave_state list \<Rightarrow> string option \<Rightarrow> string" where
  "render_graph_text_live states filter_enclave =
     fold (\<lambda>s out. if filtered_out filter_enclave s then out else text_enclave s out) states []"

subsection \<open>What is filtered\<close>

lemma fold_appends:
  "(\<And>x out. f x out = out @ g x) \<Longrightarrow> fold f xs out = out @ concat (map g xs)"
  by (induction xs arbitrary: out) simp_all

lemma dot_cluster_appends: "dot_cluster s out = out @ dot_cluster s []"
proof -
  have node: "dot_node s p out = out @ dot_node s p []" for p out by (simp add: dot_node_def Let_def)
  show ?thesis unfolding dot_cluster_def Let_def by (simp add: fold_appends [of _ "\<lambda>p. dot_node s p []", OF node])
qed

lemma dot_arrows_appends: "dot_arrows s out = out @ dot_arrows s []"
proof -
  have step: "fold (\<lambda>i out. out @ dot_arrow t i) is out = out @ concat (map (dot_arrow t) is)" for t "is" out
    by (rule fold_appends) simp
  show ?thesis
    unfolding dot_arrows_def Let_def step
    by (simp add: fold_appends [where g = "\<lambda>p. concat (map (dot_arrow (t p)) (part_imports p))" for t, OF refl])
qed

lemma text_enclave_appends: "text_enclave s out = out @ text_enclave s []"
proof -
  have part: "text_partition s p out = out @ text_partition s p []" for p out
    unfolding text_partition_def Let_def
    by (simp add: fold_appends [where g = "\<lambda>i. ''    imports: '' @ eid_str (imp_from i) @ ''.'' @ imp_export_name i @
        '' as '' @ imp_alias i @ nl"] fold_appends [where g = "\<lambda>(k, v). ''    output '' @ k @ '': '' @ v @ nl"]
        split: option.split prod.split)
  have ex: "text_export x out = out @ text_export x []" for x out by (simp add: text_export_def)
  show ?thesis
    unfolding text_enclave_def Let_def
    by (simp add: fold_appends [of _ "\<lambda>p. text_partition s p []", OF part] fold_appends [of _ "\<lambda>x. text_export x []", OF ex])
qed

lemma fold_filtered: "fold (\<lambda>s out. if P s then out else f s out) xs out = fold f (filter (\<lambda>s. \<not> P s) xs) out"
  by (induction xs arbitrary: out) simp_all

text \<open>
  The graph of one enclave: as text it is the graph of the states of that enclave alone; in the
  language of Graphviz only the clusters are restricted, and the arrows of all other enclaves stay.
\<close>
lemma render_filter:
  "render_graph_text_live states (Some f) = render_graph_text_live (filter (\<lambda>s. eid_str (es_id s) = f) states) None"
  "\<exists>arrows. (\<forall>flt. \<exists>clusters. render_dot_live states flt = dot_head @ clusters @ arrows @ ''}'') \<and>
     arrows = concat (map (\<lambda>s. dot_arrows s []) states)"
proof -
  show "render_graph_text_live states (Some f) = render_graph_text_live (filter (\<lambda>s. eid_str (es_id s) = f) states) None"
    by (simp add: render_graph_text_live_def fold_filtered filtered_out_def)
  have "render_dot_live states flt = dot_head @
      concat (map (\<lambda>s. dot_cluster s []) (filter (\<lambda>s. \<not> filtered_out flt s) states)) @
      concat (map (\<lambda>s. dot_arrows s []) states) @ ''}''" for flt
    unfolding render_dot_live_def fold_filtered Let_def
    by (simp add: fold_appends [of _ "\<lambda>s. dot_cluster s []", OF dot_cluster_appends]
        fold_appends [of _ "\<lambda>s. dot_arrows s []", OF dot_arrows_appends])
  then show "\<exists>arrows. (\<forall>flt. \<exists>clusters. render_dot_live states flt = dot_head @ clusters @ arrows @ ''}'') \<and>
     arrows = concat (map (\<lambda>s. dot_arrows s []) states)" by blast
qed

end
