(* ===== verification/Cli_Commands.thy ===== *)
theory Cli_Commands
  imports Cli_Console Cli_Output "HOL-Library.Option_ord"
begin

section \<open>The command line: the commands of the client\<close>

text \<open>
  \<open>crates/nclav-cli/src/commands.rs\<close> without \<open>serve\<close>: each command sends its requests to the server and
  prints what it gets. A command that returns an error ends the process with status 1.
\<close>

definition ellipsis :: string where
  "ellipsis = [CHR 0xE2, CHR 0x80, CHR 0xA6, CHR '' '']"

definition rule_line :: "nat \<Rightarrow> string" where
  "rule_line n = concat (replicate n [CHR 0xE2, CHR 0x94, CHR 0x80])"

text \<open>\<open>{:<n}\<close>: padded with blanks to \<open>n\<close> characters.\<close>

definition padded :: "nat \<Rightarrow> string \<Rightarrow> string" where
  "padded n s = s @ replicate (n - length (str_chars s)) (CHR '' '')"

text \<open>\<open>v.get(k).and_then(as_str).unwrap_or("-")\<close>.\<close>

definition field_or_dash :: "json \<Rightarrow> string \<Rightarrow> string" where
  "field_or_dash v k = str_or ''-'' (json_str_at v k)"

definition array_at :: "json \<Rightarrow> string \<Rightarrow> json list option" where
  "array_at v k = json_array_of (json_index v k)"

definition array_or_empty :: "json list option \<Rightarrow> json list" where
  "array_or_empty v = (case v of None \<Rightarrow> [] | Some xs \<Rightarrow> xs)"

subsection \<open>Apply and diff\<close>

definition print_report :: "'x shell \<Rightarrow> bool \<Rightarrow> json \<Rightarrow> ('x, unit) cli" where
  "print_report sh dry_run report =
     seq (each (\<lambda>c. put_line (sh_json_text sh c)) (array_or_empty (array_at report ''changes''))) (\<lambda>_.
     seq (put_line (nat_str (length (array_or_empty (array_at report ''changes''))) @ '' change(s)'' @
       (if dry_run then '' (dry run)'' else '' applied'') @ ''.'')) (\<lambda>_.
     case array_at report ''errors'' of
       None \<Rightarrow> ret ()
     | Some errors \<Rightarrow>
         if errors = [] then ret ()
         else seq (put_err (nl @ nat_str (length errors) @ '' error(s):'')) (\<lambda>_.
           each (\<lambda>e. put_err (''  ! '' @ sh_json_text sh e)) errors)))"

definition cli_reconcile :: "'x shell \<Rightarrow> string \<Rightarrow> path \<Rightarrow> bool \<Rightarrow> bool \<Rightarrow> string \<Rightarrow> ('x, unit) cli" where
  "cli_reconcile sh url enclaves_dir dry_run resources_only token =
     (let endpoint = url_base url @ (if dry_run then ''/reconcile/dry-run'' else ''/reconcile'');
          b = json_object [(''enclaves_dir'', JString enclaves_dir), (''resources_only'', JBool resources_only)] in
      seq (authed_client sh token) (\<lambda>bearer.
      seq (send_to sh url (client_call bearer ''POST'' endpoint (JsonContent b))) (\<lambda>resp.
      seq (expect_success sh resp) (\<lambda>resp.
      seq (body_json resp) (print_report sh dry_run)))))"

definition cli_apply :: "'x shell \<Rightarrow> path \<Rightarrow> bool \<Rightarrow> string option \<Rightarrow> string option \<Rightarrow> ('x, unit) cli" where
  "cli_apply sh enclaves_dir resources_only remote token =
     seq (resolve_token sh token) (cli_reconcile sh (server_url remote) enclaves_dir False resources_only)"

definition cli_diff :: "'x shell \<Rightarrow> path \<Rightarrow> string option \<Rightarrow> string option \<Rightarrow> ('x, unit) cli" where
  "cli_diff sh enclaves_dir remote token =
     seq (resolve_token sh token) (cli_reconcile sh (server_url remote) enclaves_dir True False)"

subsection \<open>Status and graph\<close>

definition cli_status :: "'x shell \<Rightarrow> string option \<Rightarrow> string option \<Rightarrow> ('x, unit) cli" where
  "cli_status sh remote token =
     seq (resolve_token sh token) (\<lambda>token.
     seq (authed_client sh token) (\<lambda>bearer.
     seq (get_ok sh remote bearer ''/status'') (\<lambda>resp.
     seq (body_json resp) (\<lambda>b.
     seq (case json_u64 (json_index b ''enclave_count'') of
            Some count \<Rightarrow> put_line (''Enclaves: '' @ nat_str count) | None \<Rightarrow> ret ()) (\<lambda>_.
     seq (case json_str_at b ''default_cloud'' of
            Some cloud \<Rightarrow> put_line (''Default cloud: '' @ cloud) | None \<Rightarrow> ret ()) (\<lambda>_.
     seq (case array_at b ''active_drivers'' of
            Some drivers \<Rightarrow> put_line (''Active drivers: '' @ join_strs '', '' (List.map_filter json_as_str drivers))
          | None \<Rightarrow> ret ()) (\<lambda>_.
     put_line (sh_json_pretty sh b))))))))"

datatype graph_output = GraphText | GraphJson | GraphDot

definition enclave_states :: "'x shell \<Rightarrow> cloud_reply \<Rightarrow> ('x, enclave_state list) cli" where
  "enclave_states sh resp = lift_result (map_sum (context_error ''Failed to deserialize enclave states'') id
     (bindR (rp_json resp) (sh_states_of sh)))"

definition cli_graph ::
  "'x shell \<Rightarrow> graph_output \<Rightarrow> string option \<Rightarrow> string option \<Rightarrow> string option \<Rightarrow> ('x, unit) cli" where
  "cli_graph sh output_format filter_enclave remote token =
     seq (resolve_token sh token) (\<lambda>token.
     seq (authed_client sh token) (\<lambda>bearer.
     if output_format = GraphJson then
       seq (get_ok sh remote bearer (case filter_enclave of Some enc \<Rightarrow> ''/enclaves/'' @ enc @ ''/graph'' | None \<Rightarrow> ''/graph'')) (\<lambda>resp.
       seq (body_json resp) (\<lambda>b. put_line (sh_json_pretty sh b)))
     else
       seq (get_ok sh remote bearer ''/enclaves'') (\<lambda>resp.
       seq (enclave_states sh resp) (\<lambda>states.
       if output_format = GraphText then put_str (render_graph_text_live states filter_enclave)
       else put_line (render_dot_live states filter_enclave)))))"

subsection \<open>Destroy\<close>

definition confirm_destructive :: "string \<Rightarrow> string \<Rightarrow> ('x, unit) cli" where
  "confirm_destructive label expected =
     seq (put_str (''  Type '' @ quote1 expected @ '' to confirm: '')) (\<lambda>_.
     seq next_line (\<lambda>l. case l of
       None \<Rightarrow> bail ''no input''
     | Some (Inl e) \<Rightarrow> throw (plain_error e)
     | Some (Inr line) \<Rightarrow> if trim line \<noteq> expected then bail (''aborted: '' @ label @ '' not destroyed'') else ret ()))"

text \<open>What a deletion answered: whether it went without errors, and the lines to print.\<close>

definition report_deletion :: "'x shell \<Rightarrow> cloud_reply \<Rightarrow> ('x, bool) cli" where
  "report_deletion sh resp =
     (let b = json_or_null resp in
      if is_success (rp_status resp) then
        (let errors = array_or_empty (array_at b ''errors'') in
         if errors = [] then seq (put_line ''done.'') (\<lambda>_. ret True)
         else seq (put_line ''done (with errors):'') (\<lambda>_.
           seq (each (\<lambda>e. put_line (''  ! '' @ str_or (sh_json_text sh e) (json_as_str e))) errors) (\<lambda>_. ret False)))
      else seq (put_line (''failed: '' @ sh_status_text sh (rp_status resp) @ em_dash @
          str_or ''unknown error'' (json_str_at b ''error''))) (\<lambda>_. ret False))"

definition destroy_partition :: "'x shell \<Rightarrow> string \<Rightarrow> string \<Rightarrow> string list \<Rightarrow> string \<Rightarrow> bool \<Rightarrow> ('x, unit) cli" where
  "destroy_partition sh url bearer enclave_ids part yes = (case enclave_ids of
     [enc] \<Rightarrow>
       (let name = enc @ ''/'' @ part in
        seq (if yes then ret () else
            seq (put_line (''This will destroy partition '' @ quote1 name @ '' and remove it from the server state.'')) (\<lambda>_.
            seq (put_line (''A subsequent '' @ quote1 ''apply'' @ '' will re-provision it from scratch.'')) (\<lambda>_.
            confirm_destructive name part))) (\<lambda>_.
        seq (put_str (''Destroying '' @ name @ ellipsis)) (\<lambda>_.
        seq (send_to sh url (client_call bearer ''DELETE''
          (url_base url @ ''/enclaves/'' @ enc @ ''/partitions/'' @ part) NoContent)) (\<lambda>resp.
        seq (report_deletion sh resp) (\<lambda>clean.
        if clean then ret ()
        else bail (if is_success (rp_status resp) then ''partition destroy completed with errors''
          else ''partition destroy failed''))))))
   | _ \<Rightarrow> bail ''--partition requires exactly one enclave ID'')"

text \<open>The ids of all enclaves that the server has stored.\<close>

definition all_enclave_ids :: "'x shell \<Rightarrow> string option \<Rightarrow> string \<Rightarrow> ('x, string list) cli" where
  "all_enclave_ids sh remote bearer =
     seq (get_ok sh remote bearer ''/enclaves'') (\<lambda>resp.
     seq (body_json_or ''Failed to parse enclave list'' resp) (\<lambda>v. case json_array_of v of
       None \<Rightarrow> throw (context_error ''Failed to parse enclave list'' (sh_type_error sh v))
     | Some states \<Rightarrow> ret (List.map_filter (\<lambda>s. json_str_at (json_index s ''desired'') ''id'') states)))"

definition enclave_call :: "string \<Rightarrow> string \<Rightarrow> bool \<Rightarrow> string \<Rightarrow> http_call" where
  "enclave_call url bearer resources_only i = client_call bearer ''DELETE''
     (url_base url @ ''/enclaves/'' @ i @ (if resources_only then ''?resources_only=true'' else [])) NoContent"

text \<open>The question for one enclave, and what the user said to it.\<close>

definition ask_enclave :: "bool \<Rightarrow> string \<Rightarrow> ('x, (cli_error, unit) result) cli" where
  "ask_enclave resources_only i =
     seq (put_line (if resources_only
       then ''This will destroy resources inside enclave '' @ quote1 i @ '' but keep its cloud project.''
       else ''This will destroy enclave '' @ quote1 i @ '' and delete its cloud project (30-day hold for GCP).'')) (\<lambda>_.
     attempt (confirm_destructive i i))"

definition destroy_enclave ::
  "'x shell \<Rightarrow> string \<Rightarrow> string \<Rightarrow> bool \<Rightarrow> bool \<Rightarrow> string \<Rightarrow> bool \<Rightarrow> ('x, bool) cli" where
  "destroy_enclave sh url bearer ask resources_only i any_error =
     seq (if ask then ask_enclave resources_only i else ret (Inr ())) (\<lambda>confirmed. case confirmed of
       Inl e \<Rightarrow> seq (put_line (case e of CliError (m # _) \<Rightarrow> m | _ \<Rightarrow> [])) (\<lambda>_. ret True)
     | Inr _ \<Rightarrow>
         seq (put_str (''Destroying '' @ i @ ellipsis)) (\<lambda>_.
         seq (send_to sh url (enclave_call url bearer resources_only i)) (\<lambda>resp.
         seq (report_deletion sh resp) (\<lambda>clean. ret (any_error \<or> \<not> clean)))))"

definition destroy_enclaves ::
  "'x shell \<Rightarrow> string \<Rightarrow> string \<Rightarrow> bool \<Rightarrow> bool \<Rightarrow> string list \<Rightarrow> ('x, unit) cli" where
  "destroy_enclaves sh url bearer ask resources_only ids =
     seq (foldM (destroy_enclave sh url bearer ask resources_only) ids False) (\<lambda>any_error.
     if any_error then bail ''one or more enclave destroys failed'' else ret ())"

definition cli_destroy ::
  "'x shell \<Rightarrow> string list \<Rightarrow> bool \<Rightarrow> string option \<Rightarrow> bool \<Rightarrow> bool \<Rightarrow> string option \<Rightarrow> string option \<Rightarrow> ('x, unit) cli" where
  "cli_destroy sh enclave_ids all only_partition yes resources_only remote token =
     (let url = server_url remote in
      seq (resolve_token sh token) (\<lambda>token.
      seq (authed_client sh token) (\<lambda>bearer.
      case only_partition of
        Some part \<Rightarrow> destroy_partition sh url bearer enclave_ids part yes
      | None \<Rightarrow>
          if all then
            seq (all_enclave_ids sh remote bearer) (\<lambda>ids.
            if ids = [] then put_line ''No enclaves to destroy.''
            else destroy_enclaves sh url bearer False resources_only ids)
          else destroy_enclaves sh url bearer (\<not> yes) resources_only enclave_ids)))"

subsection \<open>Runs and logs\<close>

definition started_key :: "json \<Rightarrow> string option" where
  "started_key run = json_str_at run ''started_at''"

text \<open>The stable \<open>sort_by\<close> with the arguments of the comparison swapped: descending, equal ones in their order.\<close>

definition newest_first :: "json list \<Rightarrow> json list" where
  "newest_first runs = rev (sort_key started_key (rev runs))"

definition exit_text :: "'x shell \<Rightarrow> json \<Rightarrow> string" where
  "exit_text sh run = (case json_get run ''exit_code'' of Some v \<Rightarrow> sh_json_text sh v | None \<Rightarrow> ''-'')"

definition run_row :: "'x shell \<Rightarrow> json \<Rightarrow> ('x, unit) cli" where
  "run_row sh run =
     (let started = field_or_dash run ''started_at'' in
      seq (if 19 \<le> length started then
             (case slice_to 19 started of Some s \<Rightarrow> ret s | None \<Rightarrow> throw (CliPanic ''byte index 19 is not a char boundary''))
           else ret started) (\<lambda>started_short.
      put_line (padded 38 (field_or_dash run ''id'') @ '' '' @ padded 12 (field_or_dash run ''operation'') @ '' '' @
        padded 12 (field_or_dash run ''status'') @ '' '' @ padded 22 started_short @ '' '' @ exit_text sh run)))"

definition runs_path :: "string \<Rightarrow> string \<Rightarrow> string" where
  "runs_path enclave_id partition_id = ''/enclaves/'' @ enclave_id @ ''/partitions/'' @ partition_id @ ''/iac/runs''"

definition cli_iac_runs :: "'x shell \<Rightarrow> string \<Rightarrow> string \<Rightarrow> string option \<Rightarrow> string option \<Rightarrow> ('x, unit) cli" where
  "cli_iac_runs sh enclave_id partition_id remote token =
     seq (resolve_token sh token) (\<lambda>token.
     seq (authed_client sh token) (\<lambda>bearer.
     seq (get_ok sh remote bearer (runs_path enclave_id partition_id)) (\<lambda>resp.
     seq (body_json_or ''Failed to parse IaC runs response'' resp) (\<lambda>v.
     let runs = array_or_empty (json_array_of v) in
     if runs = [] then put_line (''No IaC runs found for '' @ enclave_id @ ''/'' @ partition_id)
     else
       seq (put_line (padded 38 ''ID'' @ '' '' @ padded 12 ''OPERATION'' @ '' '' @ padded 12 ''STATUS'' @ '' '' @
         padded 22 ''STARTED'' @ '' '' @ ''EXIT'')) (\<lambda>_.
       seq (put_line (replicate 90 (CHR ''-''))) (\<lambda>_.
       each (run_row sh) (newest_first runs)))))))"

definition cli_iac_logs ::
  "'x shell \<Rightarrow> string \<Rightarrow> string \<Rightarrow> string option \<Rightarrow> string option \<Rightarrow> string option \<Rightarrow> ('x, unit) cli" where
  "cli_iac_logs sh enclave_id partition_id run remote token =
     (let url = server_url remote;
          endpoint = url_base url @ runs_path enclave_id partition_id @ ''/'' @ (case run of Some i \<Rightarrow> i | None \<Rightarrow> ''latest'') in
      seq (resolve_token sh token) (\<lambda>token.
      seq (authed_client sh token) (\<lambda>bearer.
      seq (send_to sh url (client_call bearer ''GET'' endpoint NoContent)) (\<lambda>resp.
      if rp_status resp = 404 then bail (''No IaC run found for '' @ enclave_id @ ''/'' @ partition_id)
      else
        seq (body_json_or ''Failed to parse IaC run'' resp) (\<lambda>run.
        seq (put_line (''Run:       '' @ field_or_dash run ''id'')) (\<lambda>_.
        seq (put_line (''Operation: '' @ field_or_dash run ''operation'' @ ''  Status: '' @ field_or_dash run ''status'' @
          ''  Exit: '' @ exit_text sh run)) (\<lambda>_.
        seq (put_line (''Started:   '' @ field_or_dash run ''started_at'')) (\<lambda>_.
        seq (put_line (rule_line 60)) (\<lambda>_.
        let log = str_or [] (json_str_at run ''log'') in
        seq (put_str log) (\<lambda>_. if ends_with nl log then ret () else put_line [])))))))))) "

subsection \<open>Orphans\<close>

definition orphan_row :: "json \<Rightarrow> ('x, unit) cli" where
  "orphan_row v = put_line (padded 22 (field_or_dash v ''enclave'') @ '' '' @ padded 16 (field_or_dash v ''nclav_partition'') @
     '' '' @ padded 28 (field_or_dash v ''resource_type'') @ '' '' @ field_or_dash v ''resource_name'')"

definition cli_orphans :: "'x shell \<Rightarrow> string option \<Rightarrow> string option \<Rightarrow> string option \<Rightarrow> ('x, unit) cli" where
  "cli_orphans sh filter_enclave remote token =
     seq (resolve_token sh token) (\<lambda>token.
     seq (authed_client sh token) (\<lambda>bearer.
     seq (get_ok sh remote bearer ''/orphans'') (\<lambda>resp.
     seq (body_json_or ''Failed to parse orphans response'' resp) (\<lambda>b.
     let filtered = filter (\<lambda>v. case filter_enclave of None \<Rightarrow> True | Some f \<Rightarrow> json_str_at v ''enclave'' = Some f)
           (array_or_empty (array_at b ''orphans'')) in
     if filtered = [] then put_line ''No orphaned resources found.''
     else
       seq (put_line (padded 22 ''ENCLAVE'' @ '' '' @ padded 16 ''PARTITION'' @ '' '' @ padded 28 ''RESOURCE TYPE'' @ '' '' @
         ''RESOURCE NAME'')) (\<lambda>_.
       seq (put_line (rule_line 100)) (\<lambda>_.
       seq (each orphan_row filtered) (\<lambda>_.
       bail (nat_str (length filtered) @ '' orphaned resource(s) found''))))))))"

end
