(* ===== verification/Cli_Serve.thy ===== *)
theory Cli_Serve
  imports Cli_Commands Api_App Redb_Store Postgres_Store Gcp_Driver Azure_Driver Aws_Driver
begin

section \<open>The command line: the server and the program\<close>

text \<open>
  \<open>crates/nclav-cli/src/cli.rs\<close>, \<open>main.rs\<close> and \<open>serve\<close> of \<open>commands.rs\<close>. The parser \<open>clap\<close> is not modelled;
  the types are what it returns, \<open>clap_accepts\<close> and \<open>serve_defaults\<close> are the attributes that restrict it.
  The store behind \<open>Arc<dyn StateStore>\<close> is one of the three stores, \<open>dyn_ops\<close> dispatches to it.
  \<open>machine\<close> holds what \<open>serve\<close> passes on to the parts it builds. \<open>cli_serve\<close> ends where the server begins to
  listen; from there on it is \<open>serve_all\<close> of \<open>Api_App\<close>.
\<close>

subsection \<open>Arguments\<close>

datatype cloud_arg = ArgLocal | ArgGcp | ArgAzure | ArgAws

definition cloud_arg_to_target :: "cloud_arg \<Rightarrow> cloud_target" where
  "cloud_arg_to_target arg = (case arg of
     ArgLocal \<Rightarrow> Local | ArgGcp \<Rightarrow> Gcp | ArgAzure \<Rightarrow> Azure | ArgAws \<Rightarrow> Aws)"

record serve_args =
  sa_cloud :: cloud_arg
  sa_enable_cloud :: "cloud_arg list"
  sa_ephemeral :: bool
  sa_rotate_token :: bool
  sa_store_path :: "string option"
  sa_postgres_url :: "string option"
  sa_gcp_parent :: "string option"
  sa_gcp_billing_account :: "string option"
  sa_gcp_default_region :: string
  sa_gcp_project_prefix :: "string option"
  sa_azure_tenant_id :: "string option"
  sa_azure_management_group_id :: "string option"
  sa_azure_billing_account_name :: "string option"
  sa_azure_billing_profile_name :: "string option"
  sa_azure_invoice_section_name :: "string option"
  sa_azure_default_location :: string
  sa_azure_subscription_prefix :: "string option"
  sa_azure_client_id :: "string option"
  sa_azure_client_secret :: "string option"
  sa_aws_org_unit_id :: "string option"
  sa_aws_email_domain :: "string option"
  sa_aws_default_region :: string
  sa_aws_account_prefix :: "string option"
  sa_aws_cross_account_role :: string
  sa_aws_role_arn :: "string option"
  sa_port :: "16 word"
  sa_bind :: string

datatype iac_command =
    IacRuns string string
  | IacLogs string string "string option"

datatype command =
    CmdServe serve_args
  | CmdApply path bool
  | CmdDiff path
  | CmdStatus
  | CmdGraph graph_output "string option"
  | CmdIac iac_command
  | CmdOrphans "string option"
  | CmdDestroy "string list" bool "string option" bool bool

record cli_args =
  cl_remote :: "string option"
  cl_token :: "string option"
  cl_command :: command

text \<open>The values of \<open>serve\<close> when neither a flag nor its variable is given.\<close>

definition serve_defaults :: serve_args where
  "serve_defaults = \<lparr>sa_cloud = ArgLocal, sa_enable_cloud = [], sa_ephemeral = False, sa_rotate_token = False,
     sa_store_path = None, sa_postgres_url = None, sa_gcp_parent = None, sa_gcp_billing_account = None,
     sa_gcp_default_region = ''us-central1'', sa_gcp_project_prefix = None, sa_azure_tenant_id = None,
     sa_azure_management_group_id = None, sa_azure_billing_account_name = None,
     sa_azure_billing_profile_name = None, sa_azure_invoice_section_name = None,
     sa_azure_default_location = ''eastus2'', sa_azure_subscription_prefix = None, sa_azure_client_id = None,
     sa_azure_client_secret = None, sa_aws_org_unit_id = None, sa_aws_email_domain = None,
     sa_aws_default_region = ''us-east-1'', sa_aws_account_prefix = None,
     sa_aws_cross_account_role = ''OrganizationAccountAccessRole'', sa_aws_role_arn = None,
     sa_port = 8080, sa_bind = ''127.0.0.1''\<rparr>"

text \<open>\<open>required_unless_present\<close> and \<open>conflicts_with\<close> of \<open>destroy\<close>.\<close>

definition clap_accepts :: "command \<Rightarrow> bool" where
  "clap_accepts cmd = (case cmd of
     CmdDestroy ids all only_partition _ _ \<Rightarrow> (ids \<noteq> [] \<or> all) \<and> \<not> (all \<and> only_partition \<noteq> None)
   | _ \<Rightarrow> True)"

subsection \<open>The store behind the trait object\<close>

datatype ('d, 'c) dyn_store = InMemory mem_store | InFile 'd | InPostgres "'c pg_server"

definition dispatch ::
  "(mem_store, 'e, 'a) act \<Rightarrow> ('d, 'e, 'a) act \<Rightarrow> ('c pg_server, 'e, 'a) act \<Rightarrow> (('d, 'c) dyn_store, 'e, 'a) act" where
  "dispatch m f p = (\<lambda>s. case s of
     InMemory x \<Rightarrow> map_prod id InMemory (m x)
   | InFile x \<Rightarrow> map_prod id InFile (f x)
   | InPostgres x \<Rightarrow> map_prod id InPostgres (p x))"

definition dyn_ops :: "('d, 't) redb_store \<Rightarrow> 'c pg_env \<Rightarrow> ('d, 'c) dyn_store store_ops" where
  "dyn_ops rs env = \<lparr>
     so_get_enclave = (\<lambda>i. dispatch (mem_get_enclave i) (redb_get_enclave rs i) (pg_get_enclave env i)),
     so_list_enclaves = dispatch mem_list_enclaves (redb_list_enclaves rs) (pg_list_enclaves env),
     so_upsert_enclave = (\<lambda>e. dispatch (mem_upsert_enclave e) (redb_upsert_enclave rs e) (pg_upsert_enclave env e)),
     so_delete_enclave = (\<lambda>i. dispatch (mem_delete_enclave i) (redb_delete_enclave rs i) (pg_delete_enclave env i)),
     so_upsert_partition = (\<lambda>i p.
       dispatch (mem_upsert_partition i p) (redb_upsert_partition rs i p) (pg_upsert_partition env i p)),
     so_delete_partition = (\<lambda>i p.
       dispatch (mem_delete_partition i p) (redb_delete_partition rs i p) (pg_delete_partition env i p)),
     so_append_event = (\<lambda>e. dispatch (mem_append_event e) (redb_append_event rs e) (pg_append_event env e)),
     so_list_events = (\<lambda>i n. dispatch (mem_list_events i n) (redb_list_events rs i n) (pg_list_events env i n)),
     so_get_tf_state = (\<lambda>k. dispatch (mem_get_tf_state k) (redb_get_tf_state rs k) (pg_get_tf_state env k)),
     so_put_tf_state = (\<lambda>k b. dispatch (mem_put_tf_state k b) (redb_put_tf_state rs k b) (pg_put_tf_state env k b)),
     so_delete_tf_state = (\<lambda>k. dispatch (mem_delete_tf_state k) (redb_delete_tf_state rs k) (pg_delete_tf_state env k)),
     so_lock_tf_state = (\<lambda>k i. dispatch (mem_lock_tf_state k i) (redb_lock_tf_state rs k i) (pg_lock_tf_state env k i)),
     so_unlock_tf_state = (\<lambda>k i.
       dispatch (mem_unlock_tf_state k i) (redb_unlock_tf_state rs k i) (pg_unlock_tf_state env k i)),
     so_upsert_iac_run = (\<lambda>r. dispatch (mem_upsert_iac_run r) (redb_upsert_iac_run rs r) (pg_upsert_iac_run env r)),
     so_list_iac_runs = (\<lambda>i p. dispatch (mem_list_iac_runs i p) (redb_list_iac_runs rs i p) (pg_list_iac_runs env i p)),
     so_get_iac_run = (\<lambda>u. dispatch (mem_get_iac_run u) (redb_get_iac_run rs u) (pg_get_iac_run env u))\<rparr>"

subsection \<open>What the server is built from\<close>

record ('x, 'd, 't, 'c, 'o, 'p, 'k) machine =
  ma_redb :: "('d, 't) redb_store"
  ma_pg_driver :: "('x, 'o, 'p, 'k) pg_driver"
  ma_pg_env :: "'c pg_env"
  ma_pg_server :: "'p \<Rightarrow> 'x \<Rightarrow> 'c pg_server"
  ma_gcp :: "'x gcp"
  ma_gcp_adc :: "('x, string, ('x, string, string) act) act"
  ma_gcp_key :: "path \<Rightarrow> (string, ('x, string, string) act) result"
  ma_azure_host :: "'x azure_host"
  ma_aws_host :: "'x aws_host"
  ma_unicode :: unicode
  ma_hash :: "string \<Rightarrow> 64 word"
  ma_system :: "(('d, 'c) dyn_store, 'x) system"
  ma_yaml :: yaml_parsers
  ma_http :: http_stack
  ma_text :: text_forms
  ma_bind :: "string \<Rightarrow> ('x, string, unit) act"

subsection \<open>The token of the server\<close>

definition new_token :: "'x shell \<Rightarrow> ('x, string) cli" where
  "new_token sh =
     seq (generate_token sh) (\<lambda>t.
     seq (write_token sh (default_token_path sh) t) (\<lambda>_. ret t))"

definition stored_token :: "'x shell \<Rightarrow> ('x, string option) cli" where
  "stored_token sh =
     seq (attempt (in_files (fs_read_to_string (default_token_path sh)))) (\<lambda>r. case r of
       Inl (_ :: io_error) \<Rightarrow> ret None
     | Inr s \<Rightarrow> ret (if trim s = [] then None else Some (trim s)))"

definition server_token :: "'x shell \<Rightarrow> bool \<Rightarrow> ('x, string) cli" where
  "server_token sh rotate_token = (case sh_env sh ''NCLAV_TOKEN'' of
     Some env_token \<Rightarrow>
       if env_token \<noteq> [] then
         seq (put_line ''Using token from NCLAV_TOKEN environment variable'') (\<lambda>_. ret env_token)
       else bail ''NCLAV_TOKEN is set but empty''
   | None \<Rightarrow>
       if \<not> rotate_token then
         seq (stored_token sh) (\<lambda>existing. case existing of
           Some t \<Rightarrow> seq (put_line (''Reusing existing token from '' @ default_token_path sh)) (\<lambda>_. ret t)
         | None \<Rightarrow>
             seq (new_token sh) (\<lambda>t.
             seq (put_line (''Generated new token (written to '' @ default_token_path sh @ '')'')) (\<lambda>_. ret t)))
       else
         seq (new_token sh) (\<lambda>t.
         seq (put_line (''Rotated token (written to '' @ default_token_path sh @ '')'')) (\<lambda>_.
         seq (put_line (''New token: '' @ t)) (\<lambda>_. ret t))))"

subsection \<open>The store and the drivers of the server\<close>

definition store_context :: "('x, 'd, 't, 'c, 'o, 'p, 'k) machine \<Rightarrow> string \<Rightarrow> store_error \<Rightarrow> cli_error" where
  "store_context ma msg e = context_error msg (store_error_str (tx_json_error (ma_text ma)) e)"

definition open_store ::
  "'x shell \<Rightarrow> ('x, 'd, 't, 'c, 'o, 'p, 'k) machine \<Rightarrow> serve_args \<Rightarrow> ('x, ('d, 'c) dyn_store) cli" where
  "open_store sh ma args = (case sa_postgres_url args of
     Some url \<Rightarrow>
       seq (put_line (''Connecting to PostgreSQL store'' @ butlast ellipsis)) (\<lambda>_.
       seq (map_err (store_context ma ''Failed to connect to PostgreSQL'') (outside (pg_connect (ma_pg_driver ma) url))) (\<lambda>pool c.
       (Inr (InPostgres (ma_pg_server ma pool (co_ext c))), c)))
   | None \<Rightarrow>
       if sa_ephemeral args then
         seq (put_line (''Using in-memory (ephemeral) store'' @ em_dash @ ''state will be lost on server stop'')) (\<lambda>_.
         ret (InMemory mem_new))
       else
         let p = resolve_store_path sh (sa_store_path args) in
         seq (put_line (''Using persistent store at '' @ p)) (\<lambda>_.
         seq (map_err (store_context ma (''Failed to open store at '' @ p)) (in_files (redb_open (rs_db (ma_redb ma)) p))) (\<lambda>d.
         ret (InFile d))))"

text \<open>The clouds in their order, each once.\<close>

definition requested_clouds :: "serve_args \<Rightarrow> cloud_arg list" where
  "requested_clouds args =
     fold (\<lambda>c clouds. if c \<in> set clouds then clouds else clouds @ [c]) (sa_enable_cloud args) [sa_cloud args]"

definition missing_flag :: "string \<Rightarrow> string \<Rightarrow> string \<Rightarrow> string" where
  "missing_flag flag var drv = ''--'' @ flag @ '' (or '' @ var @ '') is required for the '' @ drv @ '' driver''"

definition init_context :: "string \<Rightarrow> driver_error \<Rightarrow> cli_error" where
  "init_context msg e = context_error msg (driver_error_str e)"

text \<open>
  A flag is taken out of its option, so that a second driver of the same cloud would miss it; the
  list of clouds has no cloud twice.
\<close>

definition gcp_of_args ::
  "'x shell \<Rightarrow> ('x, 'd, 't, 'c, 'o, 'p, 'k) machine \<Rightarrow> serve_args \<Rightarrow> ('x, 'x driver \<times> serve_args) cli" where
  "gcp_of_args sh ma args =
     seq (or_bail (missing_flag ''gcp-parent'' ''NCLAV_GCP_PARENT'' ''gcp'') (sa_gcp_parent args)) (\<lambda>parent.
     seq (or_bail (missing_flag ''gcp-billing-account'' ''NCLAV_GCP_BILLING_ACCOUNT'' ''gcp'')
       (sa_gcp_billing_account args)) (\<lambda>billing_account.
     let config = \<lparr>gcf_parent = parent, gcf_billing_account = billing_account,
           gcf_default_region = sa_gcp_default_region args, gcf_project_prefix = sa_gcp_project_prefix args\<rparr>;
         creds_path = default_gcp_credentials_path sh in
     seq (\<lambda>c. if fs_exists (co_fs c) creds_path then
           seq (put_line (''Using GCP service account credentials from '' @ creds_path)) (\<lambda>_.
           lift_result (map_sum (init_context ''Failed to load GCP SA key'') id
             (gcp_from_key_file (ma_gcp ma) (ma_gcp_key ma) config creds_path))) c
         else
           seq (put_line (''Initialising GCP driver (ADC)'' @ butlast ellipsis)) (\<lambda>_.
           map_err (init_context ''Failed to initialise GCP driver'')
             (outside (gcp_from_adc (ma_gcp ma) (ma_gcp_adc ma) config))) c) (\<lambda>driver.
     ret (gcp_driver driver, args\<lparr>sa_gcp_parent := None, sa_gcp_billing_account := None\<rparr>))))"

definition azure_of_args ::
  "'x shell \<Rightarrow> ('x, 'd, 't, 'c, 'o, 'p, 'k) machine \<Rightarrow> serve_args \<Rightarrow> ('x, 'x driver \<times> serve_args) cli" where
  "azure_of_args sh ma args =
     (let need = (\<lambda>flag var v. or_bail (missing_flag flag var ''azure'') v) in
      seq (need ''azure-tenant-id'' ''NCLAV_AZURE_TENANT_ID'' (sa_azure_tenant_id args)) (\<lambda>tenant_id.
      seq (need ''azure-management-group-id'' ''NCLAV_AZURE_MANAGEMENT_GROUP_ID'' (sa_azure_management_group_id args)) (\<lambda>group_id.
      seq (need ''azure-billing-account-name'' ''NCLAV_AZURE_BILLING_ACCOUNT_NAME'' (sa_azure_billing_account_name args)) (\<lambda>account.
      seq (need ''azure-billing-profile-name'' ''NCLAV_AZURE_BILLING_PROFILE_NAME'' (sa_azure_billing_profile_name args)) (\<lambda>profile.
      seq (need ''azure-invoice-section-name'' ''NCLAV_AZURE_INVOICE_SECTION_NAME'' (sa_azure_invoice_section_name args)) (\<lambda>section.
      let config = \<lparr>azc_tenant_id = tenant_id, azc_management_group_id = group_id,
            azc_billing_account_name = account, azc_billing_profile_name = profile,
            azc_invoice_section_name = section, azc_default_location = sa_azure_default_location args,
            azc_subscription_prefix = sa_azure_subscription_prefix args,
            azc_client_id = sa_azure_client_id args, azc_client_secret = sa_azure_client_secret args\<rparr>;
          driver = azure_new (sh_net sh) (ma_azure_host ma) (ma_unicode ma) (ma_hash ma) config in
      seq (put_line (''Initialised Azure driver (tenant: '' @ tenant_id @ '')'')) (\<lambda>_.
      ret (azure_driver driver, args\<lparr>sa_azure_tenant_id := None, sa_azure_management_group_id := None,
        sa_azure_billing_account_name := None, sa_azure_billing_profile_name := None,
        sa_azure_invoice_section_name := None\<rparr>))))))))"

definition aws_of_args ::
  "'x shell \<Rightarrow> ('x, 'd, 't, 'c, 'o, 'p, 'k) machine \<Rightarrow> serve_args \<Rightarrow> ('x, 'x driver \<times> serve_args) cli" where
  "aws_of_args sh ma args =
     seq (or_bail (missing_flag ''aws-org-unit-id'' ''NCLAV_AWS_ORG_UNIT_ID'' ''aws'') (sa_aws_org_unit_id args)) (\<lambda>org_unit_id.
     seq (or_bail (missing_flag ''aws-email-domain'' ''NCLAV_AWS_EMAIL_DOMAIN'' ''aws'') (sa_aws_email_domain args)) (\<lambda>email_domain.
     let config = \<lparr>awc_org_unit_id = org_unit_id, awc_email_domain = email_domain,
           awc_default_region = sa_aws_default_region args, awc_account_prefix = sa_aws_account_prefix args,
           awc_cross_account_role = sa_aws_cross_account_role args, awc_role_arn = sa_aws_role_arn args\<rparr> in
     seq (map_err (init_context ''Failed to initialise AWS driver'')
       (outside (aws_new (sh_net sh) (ma_aws_host ma) (ma_unicode ma) config))) (\<lambda>driver.
     seq (put_line (''Initialised AWS driver (region: '' @ sa_aws_default_region args @ '')'')) (\<lambda>_.
     ret (aws_driver driver, args\<lparr>sa_aws_org_unit_id := None, sa_aws_email_domain := None\<rparr>)))))"

definition register_cloud ::
  "'x shell \<Rightarrow> ('x, 'd, 't, 'c, 'o, 'p, 'k) machine \<Rightarrow> cloud_arg \<Rightarrow> 'x driver_registry \<times> serve_args \<Rightarrow>
     ('x, 'x driver_registry \<times> serve_args) cli" where
  "register_cloud sh ma c = (\<lambda>(reg, args).
     seq (case c of
         ArgLocal \<Rightarrow> ret (local_driver, args)
       | ArgGcp \<Rightarrow> gcp_of_args sh ma args
       | ArgAzure \<Rightarrow> azure_of_args sh ma args
       | ArgAws \<Rightarrow> aws_of_args sh ma args) (\<lambda>(driver, args).
     ret (register (cloud_arg_to_target c) driver reg, args)))"

definition build_registry ::
  "'x shell \<Rightarrow> ('x, 'd, 't, 'c, 'o, 'p, 'k) machine \<Rightarrow> serve_args \<Rightarrow> ('x, 'x driver_registry) cli" where
  "build_registry sh ma args =
     seq (foldM (register_cloud sh ma) (requested_clouds args)
       (registry_new (cloud_arg_to_target (sa_cloud args)), args)) (\<lambda>(reg, _). ret reg)"

subsection \<open>Serving\<close>

definition build_app ::
  "('x, 'd, 't, 'c, 'o, 'p, 'k) machine \<Rightarrow> 'x driver_registry \<Rightarrow> string \<Rightarrow> string \<Rightarrow> (('d, 'c) dyn_store, 'x) app_state" where
  "build_app ma reg token api_base = \<lparr>
     app_system = (ma_system ma)\<lparr>sys_store := dyn_ops (ma_redb ma) (ma_pg_env ma), sys_registry := reg\<rparr>,
     app_yaml = ma_yaml ma, app_http = ma_http ma, app_text = ma_text ma,
     app_auth_token = token, app_api_base = api_base\<rparr>"

definition cli_serve ::
  "'x shell \<Rightarrow> ('x, 'd, 't, 'c, 'o, 'p, 'k) machine \<Rightarrow> string option \<Rightarrow> serve_args \<Rightarrow>
     ('x, (('d, 'c) dyn_store, 'x) app_state \<times> ('d, 'c) dyn_store) cli" where
  "cli_serve sh ma remote args =
     (if remote \<noteq> None then bail ''serve does not support --remote; run the server locally''
      else
        seq (server_token sh (sa_rotate_token args)) (\<lambda>token.
        seq (open_store sh ma args) (\<lambda>store.
        seq (build_registry sh ma args) (\<lambda>reg.
        let addr = sa_bind args @ '':'' @ nat_str (unat (sa_port args)) in
        seq (put_line (''Starting nclav API server on http://'' @ addr @ '' (default: '' @
          cloud_str (cloud_arg_to_target (sa_cloud args)) @ '', drivers: '' @
          join_strs '', '' (map cloud_str (active_clouds reg)) @ '')'')) (\<lambda>_.
        let app = build_app ma reg token (''http://'' @ addr) in
        seq (map_err (context_error (''Failed to bind to '' @ addr)) (outside (ma_bind ma addr))) (\<lambda>_.
        ret (app, store)))))))"

text \<open>The state of the world in which the server starts to handle requests.\<close>

definition served_world :: "('d, 'c) dyn_store \<Rightarrow> 'x console \<Rightarrow> (('d, 'c) dyn_store, 'x) world" where
  "served_world store c = \<lparr>w_store = store, w_fs = co_fs c, w_ext = co_ext c, w_tick = co_tick c\<rparr>"

subsection \<open>The program\<close>

text \<open>A command of the client, and \<open>main\<close>: what it leaves is the exit status, or a server.\<close>

definition run_client :: "'x shell \<Rightarrow> cli_args \<Rightarrow> ('x, unit) cli" where
  "run_client sh cl = (let remote = cl_remote cl; token = cl_token cl in case cl_command cl of
     CmdServe _ \<Rightarrow> ret ()
   | CmdApply dir resources_only \<Rightarrow> cli_apply sh dir resources_only remote token
   | CmdDiff dir \<Rightarrow> cli_diff sh dir remote token
   | CmdStatus \<Rightarrow> cli_status sh remote token
   | CmdGraph output enc \<Rightarrow> cli_graph sh output enc remote token
   | CmdOrphans enc \<Rightarrow> cli_orphans sh enc remote token
   | CmdDestroy ids all only_partition yes resources_only \<Rightarrow>
       cli_destroy sh ids all only_partition yes resources_only remote token
   | CmdIac (IacRuns enc part) \<Rightarrow> cli_iac_runs sh enc part remote token
   | CmdIac (IacLogs enc part run) \<Rightarrow> cli_iac_logs sh enc part run remote token)"

definition run_main ::
  "'x shell \<Rightarrow> ('x, 'd, 't, 'c, 'o, 'p, 'k) machine \<Rightarrow> cli_args \<Rightarrow>
     ('x, ((('d, 'c) dyn_store, 'x) app_state \<times> ('d, 'c) dyn_store) option) cli" where
  "run_main sh ma cl = (case cl_command cl of
     CmdServe args \<Rightarrow> seq (cli_serve sh ma (cl_remote cl) args) (\<lambda>s. ret (Some s))
   | _ \<Rightarrow> seq (run_client sh cl) (\<lambda>_. ret None))"

definition exit_status :: "(cli_error, 'a) result \<Rightarrow> nat" where
  "exit_status r = (case r of Inr _ \<Rightarrow> 0 | Inl (CliError _) \<Rightarrow> 1 | Inl (CliPanic _) \<Rightarrow> 101)"

end
