(* ===== verification/Cli_Examples.thy ===== *)
theory Cli_Examples
  imports Cli_Serve Cloud_Examples Redb_Props Postgres_Refine
begin

section \<open>A machine for examples\<close>

text \<open>
  A shell without environment, whose random identifiers are all the same, and a console without files
  on which nothing was printed: the instances at which the theorems on the command line are applied.
\<close>

definition example_shell :: "'x cloud_net \<Rightarrow> 'x shell" where
  "example_shell net = \<lparr>sh_env = (\<lambda>_. None), sh_net = net, sh_header_ok = (\<lambda>_. True), sh_status_text = nat_str,
     sh_json_text = (\<lambda>_. ''json''), sh_json_pretty = (\<lambda>_. ''json''), sh_json_parse = (\<lambda>_. Inl ''no json''),
     sh_type_error = (\<lambda>_. ''type''), sh_states_of = (\<lambda>_. Inl ''type''),
     sh_uuid = (\<lambda>_. ''01234567-89ab-4def-8123-456789abcdef''), sh_chmod = (\<lambda>_ _. None)\<rparr>"

definition example_console :: "string list \<Rightarrow> 'x \<Rightarrow> 'x console" where
  "example_console input x = \<lparr>co_fs = \<lparr>fs_nodes = [], fs_refused = (\<lambda>_. None)\<rparr>, co_out = [], co_err = [],
     co_in = map Inr input, co_tick = 0, co_ext = x\<rparr>"

text \<open>
  The parts of a server: a database that is an association list, a PostgreSQL server without tables,
  the clouds of the drivers' examples, processes that all succeed, an address that is free.
\<close>

definition example_machine :: "'x cloud_net \<Rightarrow> ('x, list_db, list_db, unit, unit, unit, unit) machine" where
  "example_machine net = \<lparr>ma_redb = list_store,
     ma_pg_driver = \<lparr>px_parse = (\<lambda>_. Inr ()), px_ssl_disable = id, px_connect = (\<lambda>_. ret ()), px_acquire = (\<lambda>_. ret ()),
       px_raw_sql = (\<lambda>_ _. ret ())\<rparr>,
     ma_pg_env = sample_pg, ma_pg_server = (\<lambda>_ _. empty_server),
     ma_gcp = example_gcp net, ma_gcp_adc = throw ''no credentials'', ma_gcp_key = (\<lambda>_. Inl ''no key''),
     ma_azure_host = az_host (example_azure net), ma_aws_host = aw_host (example_aws net),
     ma_unicode = example_unicode, ma_hash = (\<lambda>_. 0),
     ma_system = \<lparr>sys_store = dyn_ops list_store sample_pg, sys_registry = registry_new Local,
       sys_now = int, sys_uuid = of_nat, sys_digest = (\<lambda>_. ''h''), sys_petgraph = kahn_petgraph,
       sys_parse_json = (\<lambda>_. Inr (JObject [])), sys_home = Some ''/root'',
       sys_proc = (\<lambda>cmd x. (Exited (Some 0) [], x))\<rparr>,
     ma_yaml = \<lparr>yp_enclave = (\<lambda>_. Inl ''yaml''), yp_partition = (\<lambda>_. Inl ''yaml'')\<rparr>,
     ma_http = sample_stack, ma_text = sample_text, ma_bind = (\<lambda>_. ret ())\<rparr>"

text \<open>The in-memory store, and the drivers of the machine itself and of Azure; the token comes from the environment.\<close>

definition example_serve :: serve_args where
  "example_serve = serve_defaults\<lparr>sa_ephemeral := True, sa_enable_cloud := [ArgAzure, ArgLocal],
     sa_azure_tenant_id := Some ''t'', sa_azure_management_group_id := Some ''g'',
     sa_azure_billing_account_name := Some ''b'', sa_azure_billing_profile_name := Some ''p'',
     sa_azure_invoice_section_name := Some ''i''\<rparr>"

definition token_shell :: "'x cloud_net \<Rightarrow> 'x shell" where
  "token_shell net = (example_shell net)\<lparr>sh_env := (\<lambda>v. if v = ''NCLAV_TOKEN'' then Some ''t'' else None)\<rparr>"

end
