(* ===== verification/Cli_Tokens.thy ===== *)
theory Cli_Tokens
  imports Cli_Examples
begin

section \<open>The token of the server and of its clients\<close>

text \<open>
  The token that the server keeps in the file system is the one that a client on the same machine
  reads and that the server accepts; restarts keep it.
\<close>

subsection \<open>Files that were written\<close>

lemma follow_written:
  "follow n fs p = Some q \<Longrightarrow> follow n (fs\<lparr>fs_nodes := hm_insert q (FsFile s) (fs_nodes fs)\<rparr>) p = Some q"
proof (induction n arbitrary: p)
  case (Suc n)
  obtain x where x: "fs_lookup fs q = Some x" "\<forall>t. x \<noteq> FsLink t" using follow_lookup [OF Suc.prems] by blast
  then show ?case
    using Suc by (cases "p = q") (auto simp: fs_lookup_insert split: option.splits fs_node.splits)
qed simp

lemma read_back:
  "canonical fs p = Some q \<Longrightarrow> fs_lookup fs q = Some (FsFile s) \<Longrightarrow> fs_refused fs p = None \<Longrightarrow>
     fs_read_to_string p fs = (Inr s, fs)"
  by (simp add: fs_read_to_string_def guarded_def)

lemma read_direct:
  "fs_refused fs p = None \<Longrightarrow>
     fs_read_to_string p (fs\<lparr>fs_nodes := hm_insert p (FsFile s) (fs_nodes fs)\<rparr>) =
       (Inr s, fs\<lparr>fs_nodes := hm_insert p (FsFile s) (fs_nodes fs)\<rparr>)"
  by (rule read_back [of _ p p]) (auto intro!: canonical_file simp: fs_lookup_insert)

lemma read_through:
  "fs_refused fs p = None \<Longrightarrow> canonical fs p = Some q \<Longrightarrow>
     fs_read_to_string p (fs\<lparr>fs_nodes := hm_insert q (FsFile s) (fs_nodes fs)\<rparr>) =
       (Inr s, fs\<lparr>fs_nodes := hm_insert q (FsFile s) (fs_nodes fs)\<rparr>)"
  by (rule read_back [of _ p q]) (auto simp: canonical_def fs_lookup_insert intro: follow_written)

lemma written_read:
  "fs_write p s fs = (Inr (), fs') \<Longrightarrow> fs_read_to_string p fs' = (Inr s, fs')"
  by (auto simp: fs_write_def guarded_def read_direct read_through
      split: option.splits fs_node.splits if_splits)

lemma dropWhile_none: "list_all (\<lambda>c. \<not> is_ws c) s \<Longrightarrow> dropWhile is_ws s = s"
  by (cases s) simp_all

lemma trim_no_space: "list_all (\<lambda>c. \<not> is_ws c) s \<Longrightarrow> trim s = s"
  using dropWhile_none [of s] dropWhile_none [of "rev s"] by (simp add: trim_def list_all_rev)

subsection \<open>New tokens\<close>

text \<open>The text of a random identifier of the crate \<open>uuid\<close>: 32 hexadecimal digits, and hyphens.\<close>

definition uuid_text_ok :: "'x shell \<Rightarrow> bool" where
  "uuid_text_ok sh \<longleftrightarrow> (\<forall>n. length (replace_char (CHR ''-'') [] (sh_uuid sh n)) = 32 \<and>
     list_all (\<lambda>c. c \<in> set ''0123456789abcdef'') (replace_char (CHR ''-'') [] (sh_uuid sh n)))"

lemma generated:
  assumes "uuid_text_ok sh" "generate_token sh c = (Inr t, c')"
  shows "length t = 64" "trim t = t" "co_fs c' = co_fs c"
proof -
  from assms have t: "t = replace_char (CHR ''-'') [] (sh_uuid sh (co_tick c)) @ replace_char (CHR ''-'') [] (sh_uuid sh (Suc (co_tick c)))"
      "co_fs c' = co_fs c"
    by (auto simp: generate_token_def fresh_uuid_def seq_def ret_def)
  then show "co_fs c' = co_fs c" "length t = 64" using assms(1) by (simp_all add: uuid_text_ok_def)
  have "\<not> is_ws c" if "c \<in> set ''0123456789abcdef''" for c using that by (auto simp: is_ws_def)
  then have "list_all (\<lambda>c. \<not> is_ws c) t"
    using assms(1) unfolding t(1) uuid_text_ok_def list_all_append by (meson list.pred_mono_strong)
  then show "trim t = t" by (rule trim_no_space)
qed

lemma written:
  "write_token sh p t c = (Inr (), c') \<Longrightarrow> \<exists>fs. co_fs c' = fs \<and> fs_read_to_string p fs = (Inr t, fs)"
  by (auto simp: write_token_def seq_def map_err_def in_files_def throw_def ret_def
      split: prod.splits sum.splits option.splits dest!: written_read)

lemma new_token_read:
  assumes "uuid_text_ok sh" "new_token sh c = (Inr t, c')"
  shows "fs_read_to_string (default_token_path sh) (co_fs c') = (Inr t, co_fs c') \<and> trim t = t \<and> length t = 64"
proof -
  from assms(2) obtain d where d: "generate_token sh c = (Inr t, d)" "write_token sh (default_token_path sh) t d = (Inr (), c')"
    by (auto simp: new_token_def seq_def ret_def split: prod.splits sum.splits)
  show ?thesis using written [OF d(2)] generated(1,2) [OF assms(1) d(1)] by simp
qed

lemma stored_token_eq:
  "stored_token sh c = (Inr (case fst (fs_read_to_string (default_token_path sh) (co_fs c)) of
     Inl _ \<Rightarrow> None | Inr s \<Rightarrow> if trim s = [] then None else Some (trim s)), c)"
  by (cases "fs_read_to_string (default_token_path sh) (co_fs c)")
     (auto simp: stored_token_def seq_def attempt_def in_files_def ret_def split: sum.split dest: read_unchanged)

text \<open>After the server has its token, the file holds it, up to white space around it.\<close>

lemma server_token_file:
  assumes "uuid_text_ok sh" "sh_env sh ''NCLAV_TOKEN'' = None" "server_token sh rot c = (Inr tok, c')"
  shows "\<exists>s. fs_read_to_string (default_token_path sh) (co_fs c') = (Inr s, co_fs c') \<and> trim s = tok \<and> tok \<noteq> []"
    and "rot \<or> fst (stored_token sh c) = Inr None \<Longrightarrow> length tok = 64"
proof -
  let ?read = "fs_read_to_string (default_token_path sh) (co_fs c)"
  have fs: "snd ?read = co_fs c" using read_unchanged by (metis prod.collapse)
  have new: "(\<exists>s. fs_read_to_string (default_token_path sh) (co_fs c') = (Inr s, co_fs c') \<and> trim s = tok \<and> tok \<noteq> []) \<and>
      length tok = 64" if "new_token sh c = (Inr tok, d)" "co_fs c' = co_fs d" for d
    using new_token_read [OF assms(1) that(1)] that(2) by auto
  have "(\<exists>s. fs_read_to_string (default_token_path sh) (co_fs c') = (Inr s, co_fs c') \<and> trim s = tok \<and> tok \<noteq> []) \<and>
      (rot \<or> fst (stored_token sh c) = Inr None \<longrightarrow> length tok = 64)"
  proof (cases "rot \<or> fst (stored_token sh c) = Inr None")
    case True
    then obtain d where "new_token sh c = (Inr tok, d)" "co_fs c' = co_fs d"
      using assms(3)
      by (auto simp: server_token_def assms(2) seq_def put_line_def put_str_def ret_def stored_token_eq
          split: prod.splits sum.splits if_splits)
    then show ?thesis using new by blast
  next
    case False
    then obtain s where "fst ?read = Inr s" "trim s \<noteq> []"
      by (auto simp: stored_token_eq split: sum.splits if_splits)
    moreover from this have "tok = trim s" "co_fs c' = co_fs c"
      using assms(3) False
      by (auto simp: server_token_def assms(2) seq_def put_line_def put_str_def ret_def stored_token_eq)
    ultimately show ?thesis using fs False by (auto intro!: exI [of _ s] prod_eqI)
  qed
  then show "\<exists>s. fs_read_to_string (default_token_path sh) (co_fs c') = (Inr s, co_fs c') \<and> trim s = tok \<and> tok \<noteq> []"
    "rot \<or> fst (stored_token sh c) = Inr None \<Longrightarrow> length tok = 64" by auto
qed

text \<open>
  C21. The server and a client on the same machine, neither with a token in the environment. The token
  with which the server starts, whether it was read from the file, generated or rotated, is the one
  that the client reads, and a request that carries the client's header is accepted; a restart without
  rotation keeps the token; one that is generated has 64 characters.
\<close>
theorem cli_token_accepted:
  assumes "uuid_text_ok sh" "sh_env sh ''NCLAV_TOKEN'' = None"
    and "server_token sh rotate_token c = (Inr tok, c')"
  shows "resolve_token sh None c' = (Inr tok, c') \<and>
    fst (server_token sh False c') = Inr tok \<and>
    (rotate_token \<or> fst (stored_token sh c) = Inr None \<longrightarrow> length tok = 64) \<and>
    (\<forall>raw hs req. fst (authed_client sh tok c') = Inr raw \<and> hr_authorization req = Some raw \<and>
       hs_to_str hs raw = Some raw \<longrightarrow> token_valid hs tok req)"
proof (intro conjI allI impI)
  obtain s where s: "fs_read_to_string (default_token_path sh) (co_fs c') = (Inr s, co_fs c')" "trim s = tok" "tok \<noteq> []"
    using server_token_file(1) [OF assms] by blast
  show "resolve_token sh None c' = (Inr tok, c')"
    by (simp add: resolve_token_def Let_def seq_def map_err_def in_files_def s ret_def)
  show "fst (server_token sh False c') = Inr tok"
    using s by (simp add: server_token_def assms(2) seq_def stored_token_eq put_line_def put_str_def ret_def)
next
  assume "rotate_token \<or> fst (stored_token sh c) = Inr None"
  then show "length tok = 64" by (rule server_token_file(2) [OF assms])
next
  fix raw and hs :: http_stack and req :: http_request
  assume "fst (authed_client sh tok c') = Inr raw \<and> hr_authorization req = Some raw \<and> hs_to_str hs raw = Some raw"
  then show "token_valid hs tok req"
    by (auto simp: authed_client_def Let_def ret_def throw_def token_valid_conv split: if_splits)
qed

lemma example_uuid_text: "uuid_text_ok (example_shell net)"
  by (simp add: uuid_text_ok_def example_shell_def replace_char_def)

theorem cli_token_accepted_witness:
  "fst (resolve_token (example_shell (example_net JNull)) None
     (snd (server_token (example_shell (example_net JNull)) False (example_console [] (0, 0))))) =
     Inr (concat (replicate 2 ''0123456789ab4def8123456789abcdef''))"
proof -
  let ?sh = "example_shell (example_net JNull)"
  let ?run = "server_token ?sh False (example_console [] (0, 0))"
  have "fst ?run = Inr (concat (replicate 2 ''0123456789ab4def8123456789abcdef''))" by code_simp
  then have "?run = (Inr (concat (replicate 2 ''0123456789ab4def8123456789abcdef'')), snd ?run)"
    by (metis prod.collapse)
  moreover have "sh_env ?sh ''NCLAV_TOKEN'' = None" by (simp add: example_shell_def)
  ultimately show ?thesis using cli_token_accepted [OF example_uuid_text] by (metis fst_conv)
qed

end
