(* ===== verification/Cli_Destroy.thy ===== *)
theory Cli_Destroy
  imports Cli_Examples
begin

section \<open>Destroying asks first\<close>

text \<open>
  What \<open>destroy\<close> sends: without \<open>--yes\<close> only the deletion of what the user confirmed by typing its
  name. The requests are observed in a \<open>log\<close> of the world outside that grows with every call.
\<close>

definition logs_calls :: "'x cloud_net \<Rightarrow> ('x \<Rightarrow> http_call list) \<Rightarrow> bool" where
  "logs_calls net log \<longleftrightarrow> (\<forall>call x. log (snd (cn_send net call x)) = log x @ [call])"

text \<open>The next line of the input is the expected name, up to white space around it.\<close>

definition says_name :: "string \<Rightarrow> (string, string) result list \<Rightarrow> bool" where
  "says_name name inp = (case inp of Inr line # _ \<Rightarrow> trim line = name | _ \<Rightarrow> False)"

text \<open>One line is read for each enclave.\<close>

primrec confirmed_ids :: "string list \<Rightarrow> (string, string) result list \<Rightarrow> string list" where
  "confirmed_ids [] inp = []"
| "confirmed_ids (i # ids) inp = (if says_name i inp then [i] else []) @ confirmed_ids ids (tl inp)"

definition agreed_ids :: "bool \<Rightarrow> string list \<Rightarrow> (string, string) result list \<Rightarrow> string list" where
  "agreed_ids ask ids inp = (if ask then confirmed_ids ids inp else ids)"

lemma agreed_ids_simps [simp]:
  "agreed_ids ask [] inp = []"
  "agreed_ids ask (i # ids) inp = (if ask \<longrightarrow> says_name i inp then [i] else []) @
     agreed_ids ask ids (if ask then tl inp else inp)"
  by (simp_all add: agreed_ids_def)

subsection \<open>The steps\<close>

lemma wp_each_silent:
  "(\<And>a c. a \<in> set as \<Longrightarrow> wp (f a) (\<lambda>_ c'. co_ext c' = co_ext c \<and> co_in c' = co_in c) (\<lambda>_ _. False) c) \<Longrightarrow>
   wp (each f as) (\<lambda>_ c'. co_ext c' = co_ext c \<and> co_in c' = co_in c) (\<lambda>_ _. False) c"
proof (induction as arbitrary: c)
  case (Cons a as)
  have "wp (f a) (\<lambda>_ c'. co_ext c' = co_ext c \<and> co_in c' = co_in c) (\<lambda>_ _. False) c" using Cons.prems by simp
  then show ?case unfolding each.simps
    by (rule wp_seqI) (rule wp_mono [OF Cons.IH [OF Cons.prems]], auto)
qed (simp add: wp_simps)

lemma report_deletion_wp:
  "wp (report_deletion sh resp) (\<lambda>_ c'. co_ext c' = co_ext c \<and> co_in c' = co_in c) (\<lambda>_ _. False) c"
  unfolding report_deletion_def Let_def
  by (auto simp: wp_simps intro!: wp_mono [OF wp_each_silent])

lemma confirm_destructive_wp:
  "wp (confirm_destructive label expected)
     (\<lambda>_ c'. co_ext c' = co_ext c \<and> says_name expected (co_in c) \<and> co_in c' = tl (co_in c))
     (\<lambda>_ c'. co_ext c' = co_ext c \<and> \<not> says_name expected (co_in c) \<and> co_in c' = tl (co_in c)) c"
  unfolding confirm_destructive_def next_line_def
  by (cases "co_in c") (auto simp: wp_simps wp_def says_name_def bail_def ret_def throw_def seq_def put_str_def split: sum.split)

lemma send_to_wp:
  "logs_calls (sh_net sh) log \<Longrightarrow>
   wp (send_to sh url call) (\<lambda>_ c'. log (co_ext c') = log (co_ext c) @ [call] \<and> co_in c' = co_in c)
     (\<lambda>_ c'. log (co_ext c') = log (co_ext c) @ [call] \<and> co_in c' = co_in c) c"
  unfolding send_to_def wp_map_err wp_outside
  by (auto simp: wp_def logs_calls_def split: prod.split sum.split) (metis snd_conv)+

lemma ask_enclave_wp:
  "wp (ask_enclave ro i)
     (\<lambda>r c'. co_ext c' = co_ext c \<and> co_in c' = tl (co_in c) \<and> ((\<exists>u. r = Inr u) \<longleftrightarrow> says_name i (co_in c))) (\<lambda>_ _. False) c"
  unfolding ask_enclave_def by (auto simp: wp_simps intro!: wp_mono [OF confirm_destructive_wp])

text \<open>What one turn of the loop leaves: the calls that were sent and the lines that were read.\<close>

definition turned :: "('x \<Rightarrow> http_call list) \<Rightarrow> http_call list \<Rightarrow> bool \<Rightarrow> 'x console \<Rightarrow> 'x console \<Rightarrow> bool" where
  "turned log calls ask c c' \<longleftrightarrow> log (co_ext c') = log (co_ext c) @ calls \<and>
     co_in c' = (if ask then tl (co_in c) else co_in c)"

lemma destroy_enclave_wp:
  assumes "logs_calls (sh_net sh) log"
  shows "wp (destroy_enclave sh url bearer ask ro i any)
     (\<lambda>any' c'. turned log (map (enclave_call url bearer ro) (if ask \<longrightarrow> says_name i (co_in c) then [i] else [])) ask c c' \<and>
        (\<not> any' \<longrightarrow> \<not> any \<and> (ask \<longrightarrow> says_name i (co_in c))))
     (\<lambda>_ c'. (ask \<longrightarrow> says_name i (co_in c)) \<and> turned log [enclave_call url bearer ro i] ask c c') c"
  unfolding destroy_enclave_def
proof (rule wp_seqI [where R = "\<lambda>r c'. turned log [] ask c c' \<and> ((\<exists>u. r = Inr u) \<longleftrightarrow> (ask \<longrightarrow> says_name i (co_in c)))"])
  show "wp (if ask then ask_enclave ro i else ret (Inr ()))
      (\<lambda>r c'. turned log [] ask c c' \<and> ((\<exists>u. r = Inr u) \<longleftrightarrow> (ask \<longrightarrow> says_name i (co_in c))))
      (\<lambda>_ c'. (ask \<longrightarrow> says_name i (co_in c)) \<and> turned log [enclave_call url bearer ro i] ask c c') c"
    by (auto simp: wp_simps turned_def intro!: wp_mono [OF ask_enclave_wp])
qed (auto simp: wp_simps turned_def split: sum.split
    intro!: wp_mono [OF send_to_wp [OF assms]] wp_mono [OF report_deletion_wp])

text \<open>The calls that were sent are the first ones of a list.\<close>

definition sent_of :: "('x \<Rightarrow> http_call list) \<Rightarrow> http_call list \<Rightarrow> 'x console \<Rightarrow> 'x console \<Rightarrow> bool" where
  "sent_of log calls c c' \<longleftrightarrow> (\<exists>sent rest. calls = sent @ rest \<and> log (co_ext c') = log (co_ext c) @ sent)"

lemma sent_of_append: "log (co_ext d) = log (co_ext c) @ xs \<Longrightarrow> sent_of log calls d c' \<Longrightarrow> sent_of log (xs @ calls) c c'"
  by (force simp: sent_of_def)

lemma sent_of_all: "log (co_ext c') = log (co_ext c) @ xs \<Longrightarrow> sent_of log (xs @ calls) c c'"
  by (auto simp: sent_of_def)

lemma destroy_loop_wp:
  assumes "logs_calls (sh_net sh) log"
  shows "wp (foldM (destroy_enclave sh url bearer ask ro) ids any)
     (\<lambda>any' c'. log (co_ext c') = log (co_ext c) @ map (enclave_call url bearer ro) (agreed_ids ask ids (co_in c)) \<and>
        (\<not> any' \<longrightarrow> \<not> any \<and> agreed_ids ask ids (co_in c) = ids))
     (\<lambda>_. sent_of log (map (enclave_call url bearer ro) (agreed_ids ask ids (co_in c))) c) c"
proof (induction ids arbitrary: any c)
  case Nil
  then show ?case by (simp add: wp_simps)
next
  case (Cons i ids)
  let ?first = "map (enclave_call url bearer ro) (if ask \<longrightarrow> says_name i (co_in c) then [i] else [])"
  show ?case unfolding foldM.simps agreed_ids_simps map_append
  proof (rule wp_seqI [OF wp_mono [OF destroy_enclave_wp [OF assms]]], assumption)
    fix e d assume "(ask \<longrightarrow> says_name i (co_in c)) \<and> turned log [enclave_call url bearer ro i] ask c d"
    then show "sent_of log (?first @ map (enclave_call url bearer ro) (agreed_ids ask ids (if ask then tl (co_in c) else co_in c))) c d"
      using sent_of_all [of log d c ?first] by (simp add: turned_def)
  next
    fix any' d
    assume d: "turned log ?first ask c d \<and> (\<not> any' \<longrightarrow> \<not> any \<and> (ask \<longrightarrow> says_name i (co_in c)))"
    then have inp: "co_in d = (if ask then tl (co_in c) else co_in c)" and log: "log (co_ext d) = log (co_ext c) @ ?first"
      by (simp_all add: turned_def)
    show "wp (foldM (destroy_enclave sh url bearer ask ro) ids any')
     (\<lambda>any' c'. log (co_ext c') = log (co_ext c) @ ?first @
          map (enclave_call url bearer ro) (agreed_ids ask ids (if ask then tl (co_in c) else co_in c)) \<and>
        (\<not> any' \<longrightarrow> \<not> any \<and> (if ask \<longrightarrow> says_name i (co_in c) then [i] else []) @
           agreed_ids ask ids (if ask then tl (co_in c) else co_in c) = i # ids))
     (\<lambda>_. sent_of log (?first @ map (enclave_call url bearer ro)
        (agreed_ids ask ids (if ask then tl (co_in c) else co_in c))) c) d"
      by (rule wp_mono [OF Cons.IH]; use d in \<open>simp only: inp sent_of_append [OF log]\<close>) (auto simp: log)
  qed
qed

subsection \<open>The command\<close>

text \<open>The calls that \<open>destroy\<close> may make, without \<open>--all\<close>.\<close>

definition agreed_calls ::
  "string \<Rightarrow> string \<Rightarrow> string list \<Rightarrow> string option \<Rightarrow> bool \<Rightarrow> bool \<Rightarrow> (string, string) result list \<Rightarrow> http_call list" where
  "agreed_calls url bearer ids only_partition yes ro inp = (case only_partition of
     None \<Rightarrow> map (enclave_call url bearer ro) (agreed_ids (\<not> yes) ids inp)
   | Some part \<Rightarrow> (case ids of
       [enc] \<Rightarrow> if yes \<or> says_name part inp
         then [client_call bearer ''DELETE'' (url_base url @ ''/enclaves/'' @ enc @ ''/partitions/'' @ part) NoContent] else []
     | _ \<Rightarrow> []))"

lemma destroy_partition_wp:
  assumes "logs_calls (sh_net sh) log"
  shows "wp (destroy_partition sh url bearer ids part yes)
     (\<lambda>_ c'. log (co_ext c') = log (co_ext c) @ agreed_calls url bearer ids (Some part) yes ro (co_in c) \<and>
        length (agreed_calls url bearer ids (Some part) yes ro (co_in c)) = length ids)
     (\<lambda>_. sent_of log (agreed_calls url bearer ids (Some part) yes ro (co_in c)) c) c"
proof (cases "\<exists>enc. ids = [enc]")
  case True
  then obtain enc where "ids = [enc]" by blast
  then show ?thesis
    by (auto simp: destroy_partition_def Let_def agreed_calls_def sent_of_def wp_simps
        intro!: wp_mono [OF send_to_wp [OF assms]] wp_mono [OF report_deletion_wp] wp_mono [OF confirm_destructive_wp])
next
  case False
  then have "destroy_partition sh url bearer ids part yes = bail ''--partition requires exactly one enclave ID''"
    by (auto simp: destroy_partition_def split: list.split)
  then show ?thesis by (auto simp: wp_simps sent_of_def)
qed

lemma destroy_enclaves_wp:
  assumes "logs_calls (sh_net sh) log"
  shows "wp (destroy_enclaves sh url bearer (\<not> yes) ro ids)
     (\<lambda>_ c'. log (co_ext c') = log (co_ext c) @ agreed_calls url bearer ids None yes ro (co_in c) \<and>
        length (agreed_calls url bearer ids None yes ro (co_in c)) = length ids)
     (\<lambda>_. sent_of log (agreed_calls url bearer ids None yes ro (co_in c)) c) c"
  unfolding destroy_enclaves_def agreed_calls_def option.case
  by (rule wp_seqI [OF destroy_loop_wp [OF assms]]) (auto simp: wp_simps sent_of_def)

lemma sent_of_nothing: "log (co_ext c') = log (co_ext c) \<Longrightarrow> sent_of log calls c c'"
  by (simp add: sent_of_def)

text \<open>The command after its token was found.\<close>

lemma destroy_agreed_wp:
  fixes ids only_partition yes ro remote tok
  defines "calls \<equiv> \<lambda>c. agreed_calls (server_url remote) (''Bearer '' @ tok) ids only_partition yes ro (co_in c)"
  assumes "logs_calls (sh_net sh) log"
  shows "wp (seq (authed_client sh tok) (\<lambda>bearer. case only_partition of
          Some part \<Rightarrow> destroy_partition sh (server_url remote) bearer ids part yes
        | None \<Rightarrow> destroy_enclaves sh (server_url remote) bearer (\<not> yes) ro ids))
      (\<lambda>_ c'. log (co_ext c') = log (co_ext c) @ calls c \<and> length (calls c) = length ids)
      (\<lambda>_. sent_of log (calls c) c) c"
  unfolding calls_def
  by (rule wp_seqI [OF wp_mono [OF authed_client_wp]], assumption, simp add: sent_of_nothing)
     (auto split: option.split intro: destroy_enclaves_wp [OF assms(2)] destroy_partition_wp [OF assms(2)])

text \<open>
  C19. Without \<open>--all\<close>, \<open>destroy\<close> deletes only what the user agreed to. The requests that it sends are the
  first ones of the agreed deletions, in the order of the arguments: with \<open>--yes\<close> one per enclave,
  otherwise one for each enclave whose own name was typed, one line being read per enclave, and with
  \<open>--partition\<close> at most the one deletion of that partition of a single enclave, whose name was typed. It succeeds
  only when every argument was agreed to and every deletion was sent; without a token nothing is sent.
\<close>
theorem destroy_asks:
  fixes c :: "'x console"
  assumes "logs_calls (sh_net sh) log"
  shows "case cli_destroy sh ids False only_partition yes ro remote token c of (r, c') \<Rightarrow>
    (case fst (resolve_token sh token c) of
       Inl e \<Rightarrow> r = Inl e \<and> log (co_ext c') = log (co_ext c)
     | Inr tok \<Rightarrow>
         let calls = agreed_calls (server_url remote) (''Bearer '' @ tok) ids only_partition yes ro (co_in c)
         in sent_of log calls c c' \<and>
            (r = Inr () \<longrightarrow> log (co_ext c') = log (co_ext c) @ calls \<and> length calls = length ids))"
proof -
  let ?calls = "\<lambda>tok. agreed_calls (server_url remote) (''Bearer '' @ tok) ids only_partition yes ro (co_in c)"
  obtain res c1 where res: "resolve_token sh token c = (res, c1)" by fastforce
  have same: "c1 = c" using res by (rule resolve_token_same)
  show ?thesis
  proof (cases res)
    case (Inl e)
    then show ?thesis by (simp add: cli_destroy_def Let_def seq_def [of "resolve_token sh token"] res same)
  next
    case (Inr tok)
    have run: "cli_destroy sh ids False only_partition yes ro remote token c =
        seq (authed_client sh tok) (\<lambda>bearer. case only_partition of
            Some part \<Rightarrow> destroy_partition sh (server_url remote) bearer ids part yes
          | None \<Rightarrow> destroy_enclaves sh (server_url remote) bearer (\<not> yes) ro ids) c1"
      by (simp add: cli_destroy_def Let_def seq_def [of "resolve_token sh token"] res Inr cong: option.case_cong)
    have "wp (cli_destroy sh ids False only_partition yes ro remote token)
        (\<lambda>_ c'. log (co_ext c') = log (co_ext c) @ ?calls tok \<and> length (?calls tok) = length ids)
        (\<lambda>_. sent_of log (?calls tok) c) c"
      using destroy_agreed_wp [OF assms, where tok = tok and only_partition = only_partition and remote = remote and
          ids = ids and yes = yes and ro = ro and c = c1]
      unfolding wp_def run same .
    then show ?thesis by (auto simp: wp_def res Inr Let_def sent_of_def split: prod.splits sum.splits)
  qed
qed

text \<open>A world that is the list of the calls it got, and answers each with an empty object.\<close>

definition logging_net :: "http_call list cloud_net" where
  "logging_net = \<lparr>cn_send = (\<lambda>call log. (Inr \<lparr>rp_status = 200, rp_headers = [], rp_text = Inr [], rp_json = Inr (json_object [])\<rparr>,
     log @ [call])), cn_sleep = (\<lambda>_ log. log)\<rparr>"

theorem destroy_asks_witness:
  "co_ext (snd (cli_destroy (example_shell logging_net) [''a'', ''b''] False None False True None (Some ''t'')
     (example_console [''a'', '' b''] []))) =
   map (enclave_call ''http://localhost:8080'' ''Bearer t'' True) [''a'', ''b'']"
proof -
  let ?run = "cli_destroy (example_shell logging_net) [''a'', ''b''] False None False True None (Some ''t'')
     (example_console [''a'', '' b''] [])"
  have "fst ?run = Inr ()" by code_simp
  then have run: "?run = (Inr (), snd ?run)" by (metis prod.collapse)
  have net: "logs_calls (sh_net (example_shell logging_net)) (\<lambda>log. log)"
    by (simp add: logs_calls_def example_shell_def logging_net_def)
  have tok: "resolve_token (example_shell logging_net) (Some ''t'') c = (Inr ''t'', c)" for c
    by (simp add: resolve_token_def ret_def)
  have calls: "agreed_calls (server_url None) ''Bearer t'' [''a'', ''b''] None False True [Inr ''a'', Inr '' b''] =
      map (enclave_call ''http://localhost:8080'' ''Bearer t'' True) [''a'', ''b'']" by code_simp
  show ?thesis
    using destroy_asks [OF net, where ids = "[''a'', ''b'']" and only_partition = None and yes = False and ro = True and
        remote = None and token = "Some ''t''" and c = "example_console [''a'', '' b''] []"]
    by (subst (asm) run) (simp add: tok calls example_console_def Let_def)
qed

end
