(* ===== verification/Stored_Handles.thy ===== *)
theory Stored_Handles
  imports Cloud_Props Reconcile Shared_Store
begin

section \<open>The handles in the store\<close>

text \<open>
  The reconciler stores whatever handle a driver returns and passes it back on the next run. What it
  relies on is the locale \<open>handle_driver\<close>, which each of the four drivers interprets; the lemmas here carry
  it from the drivers through every step of a reconcile to the stored states, for any store that keeps the contract
  \<open>handles_store\<close>: every \<open>state_store\<close> does, alone and when it is shared with other requests.
\<close>

subsection \<open>The contract of a driver\<close>

locale handle_driver =
  fixes d :: "'c driver"
  assumes enclave_law: "opt_wf ex \<Longrightarrow> returns handle_wf (drv_provision_enclave d e ex)"
    and partition_law: "opt_wf ex \<Longrightarrow> returns handle_wf (drv_provision_partition d e p inputs ex)"
    and export_law: "opt_wf ex \<Longrightarrow> hm_ok outs \<Longrightarrow> returns handle_wf (drv_provision_export d e x outs ex)"
    and import_law: "opt_wf ex \<Longrightarrow> json_wf h \<Longrightarrow> returns handle_wf (drv_provision_import d e i h ex)"

lemma handle_driver_iff: "handle_driver d \<longleftrightarrow> driver_wf d"
  by (auto simp: handle_driver_def driver_wf_def)

interpretation local_drv: handle_driver local_driver
  by (simp add: handle_driver_iff local_driver_wf)

interpretation gcp_drv: handle_driver "gcp_driver g" for g
  by (simp add: handle_driver_iff gcp_driver_wf)

interpretation azure_drv: handle_driver "azure_driver a" for a
  by (simp add: handle_driver_iff azure_driver_wf)

interpretation aws_drv: handle_driver "aws_driver w" for w
  by (simp add: handle_driver_iff aws_driver_wf)

subsection \<open>What an effect keeps and returns\<close>

definition yields :: "('w \<Rightarrow> bool) \<Rightarrow> ('a \<Rightarrow> bool) \<Rightarrow> ('w, 'e, 'a) act \<Rightarrow> bool" where
  "yields J R m \<longleftrightarrow> (\<forall>w. J w \<longrightarrow> wp m (\<lambda>a w'. J w' \<and> R a) (\<lambda>_. J) w)"

named_theorems yields_intros \<open>what an effect keeps and returns\<close>

lemma yields_preserves: "yields J R m \<Longrightarrow> preserves J m"
  unfolding yields_def by (rule preservesI_wp) (auto elim: wp_mono)

lemma yields_both: "preserves J m \<Longrightarrow> returns R m \<Longrightarrow> yields J R m"
  unfolding yields_def returns_def by (auto intro: wp_mono [OF wp_conj [OF preserves_wp]])

lemma yields_keep: "preserves J m \<Longrightarrow> yields J (\<lambda>_. True) m"
  by (simp add: yields_def preserves_wp)

lemma yields_mono: "yields J R m \<Longrightarrow> (\<And>a. R a \<Longrightarrow> R' a) \<Longrightarrow> yields J R' m"
  unfolding yields_def by (auto elim!: wp_mono)

lemma yields_ret [yields_intros]: "R a \<Longrightarrow> yields J R (ret a)"
  by (simp add: yields_def wp_ret)

lemma yields_throw [yields_intros]: "yields J R (throw e)"
  by (simp add: yields_def wp_throw)

lemma yields_seq: "yields J Q m \<Longrightarrow> (\<And>a. Q a \<Longrightarrow> yields J R (f a)) \<Longrightarrow> yields J R (seq m f)"
  unfolding yields_def by (blast intro: wp_seqI)

lemma yields_seq_keep: "preserves J m \<Longrightarrow> (\<And>a. yields J R (f a)) \<Longrightarrow> yields J R (seq m f)"
  by (rule yields_seq [OF yields_keep])

lemma yields_map_err: "yields J R m \<Longrightarrow> yields J R (map_err g m)"
  by (simp add: yields_def wp_map_err)

lemma yields_attempt: "yields J R m \<Longrightarrow> yields J (\<lambda>r. \<forall>a. r = Inr a \<longrightarrow> R a) (attempt m)"
  unfolding yields_def wp_attempt by (auto elim!: wp_mono)

lemma yields_foldM:
  "R a \<Longrightarrow> (\<And>x a. x \<in> set xs \<Longrightarrow> R a \<Longrightarrow> yields J R (f x a)) \<Longrightarrow> yields J R (foldM f xs a)"
  by (induction xs arbitrary: a) (auto intro: yields_ret yields_seq)

lemma returns_foldM: "R a \<Longrightarrow> (\<And>x a. R a \<Longrightarrow> returns R (f x a)) \<Longrightarrow> returns R (foldM f xs a)"
  by (induction xs arbitrary: a) (auto intro: returns_ret returns_seqI)

lemma returns_ext_do: "returns R m \<Longrightarrow> returns R (ext_do m)"
  unfolding returns_def by (auto simp: wp_simps)

subsection \<open>Terraform\<close>

lemma read_outputs_ok: "returns hm_ok (read_outputs sys b binary ws declared env)"
proof -
  have pick: "hm_ok o' \<Longrightarrow> returns hm_ok (lift_result (pick_output m key o'))" for m key o'
    by (auto simp: returns_def wp_lift_result pick_output_def split: option.split sum.split)
  show ?thesis
    unfolding read_outputs_def
    by (intro returns_seq returns_case_prod returns_if returns_throw)
       (auto split: sum.split intro!: returns_throw returns_foldM pick)
qed

lemma json_wf_tf_handle [simp]: "json_wf (tf_handle binary ws enc p)"
  by (auto simp: tf_handle_def)

lemma tf_apply_wf: "returns handle_wf (tf_apply sys b binary ws enc p env rid log)"
proof -
  have log: "(\<And>u. returns handle_wf (f u)) \<Longrightarrow> returns handle_wf (seq (write_run sys enc p op rid l ec) f)" for f op l ec
    by (rule returns_seq)
  show ?thesis
    unfolding tf_apply_def Let_def
    by (rule returns_seq)
       (auto split: sum.split prod.split intro!: returns_if log returns_seqI [OF read_outputs_ok] returns_throw returns_ret handle_wfI)
qed

lemma tf_provision_wf: "returns handle_wf (tf_provision sys b enc p inputs env rid)"
  unfolding tf_provision_def Let_def
  by (auto simp: tf_test_result_def split: sum.split prod.split if_splits
      intro!: tf_apply_wf returns_if returns_seq returns_throw returns_ret handle_wfI)

lemma json_wf_index_set:
  assumes "json_index_set v k x = Some v'" "json_wf v" "json_wf x"
  shows "json_wf v'"
proof -
  have "(a, y) \<in> set (bt_insert k x m) \<Longrightarrow> y = x \<or> (a, y) \<in> set m" for a y m
    using set_bt_insert [of k x m] by auto
  then show ?thesis
    using assms by (fastforce simp: json_index_set_def bt_sorted_insert bt_sorted_Cons split: json.splits)
qed

lemma merge_sa_wf: "handle_wf r \<Longrightarrow> yields J handle_wf (merge_sa h r)"
  unfolding merge_sa_def
  by (auto simp: handle_wf_def intro!: yields_ret yields_throw dest: json_wf_index_set split: option.split)

subsection \<open>Stored states\<close>

definition ps_wf :: "partition_state \<Rightarrow> bool" where
  "ps_wf ps \<longleftrightarrow> opt_wf (ps_handle ps) \<and> hm_ok (ps_outputs ps)"

definition es_wf :: "enclave_state \<Rightarrow> bool" where
  "es_wf es \<longleftrightarrow> opt_wf (es_handle es) \<and> (\<forall>p. pred_option ps_wf (hm_get (es_partitions es) p)) \<and>
     (\<forall>x. opt_wf (hm_get (es_exports es) x)) \<and> (\<forall>a. opt_wf (hm_get (es_imports es) a))"

lemma es_wf_new [simp]: "es_wf (new_enclave_state enc)" "ps_wf (new_partition_state p)"
  by (simp_all add: es_wf_def ps_wf_def new_enclave_state_def new_partition_state_def)

lemma es_wf_updates [simp]:
  "es_wf (es\<lparr>es_meta := m\<rparr>) = es_wf es" "es_wf (es\<lparr>es_desired := e\<rparr>) = es_wf es"
  "es_wf (es\<lparr>es_resolved_cloud := c\<rparr>) = es_wf es"
  "es_wf es \<Longrightarrow> json_wf h \<Longrightarrow> es_wf (es\<lparr>es_handle := Some h\<rparr>)"
  "es_wf es \<Longrightarrow> json_wf h \<Longrightarrow> es_wf (es\<lparr>es_exports := hm_insert x h (es_exports es)\<rparr>)"
  "es_wf es \<Longrightarrow> json_wf h \<Longrightarrow> es_wf (es\<lparr>es_imports := hm_insert a h (es_imports es)\<rparr>)"
  by (auto simp: es_wf_def hm_get_insert opt_wf_def)

lemma ps_wf_updates [simp]:
  "ps_wf (ps\<lparr>ps_meta := m\<rparr>) = ps_wf ps" "ps_wf (ps\<lparr>ps_desired := p\<rparr>) = ps_wf ps"
  "ps_wf ps \<Longrightarrow> json_wf h \<Longrightarrow> ps_wf (ps\<lparr>ps_handle := Some h\<rparr>)"
  "hm_ok os \<Longrightarrow> json_wf h \<Longrightarrow> ps_wf (ps\<lparr>ps_handle := Some h, ps_outputs := os\<rparr>)"
  by (auto simp: ps_wf_def)

lemma es_wf_put [simp]: "es_wf es \<Longrightarrow> ps_wf ps \<Longrightarrow> es_wf (put_partition p ps es)"
  by (auto simp: es_wf_def put_partition_def hm_get_insert)

lemma es_wf_partition: "es_wf es \<Longrightarrow> hm_get (es_partitions es) p = Some ps \<Longrightarrow> ps_wf ps"
  by (metis es_wf_def option.pred_inject(2))

lemma es_wf_entry [simp]: "es_wf es \<Longrightarrow> ps_wf (partition_entry es part)"
  by (auto simp: partition_entry_def dest: es_wf_partition split: option.split)

lemma es_wf_in_flight [simp]:
  "pred_option ps_wf ps \<Longrightarrow> ps_wf (in_flight_partition ps part)"
  "pred_option es_wf es \<Longrightarrow> es_wf (in_flight_enclave reg es enc)"
  by (auto simp: in_flight_partition_def in_flight_enclave_def Let_def split: option.split)

lemma es_wf_opt [simp]:
  "es_wf es \<Longrightarrow> opt_wf (es_handle es)" "es_wf es \<Longrightarrow> opt_wf (hm_get (es_exports es) x)"
  "es_wf es \<Longrightarrow> opt_wf (hm_get (es_imports es) a)" "es_wf es \<Longrightarrow> pred_option ps_wf (hm_get (es_partitions es) p)"
  by (simp_all add: es_wf_def)

text \<open>A view whose states are all well-formed, and the stores with such a view.\<close>

definition view_wf :: "store_view \<Rightarrow> bool" where
  "view_wf v \<longleftrightarrow> (\<forall>i. pred_option es_wf (sv_enclaves v i))"

definition handles_kept :: "('s \<Rightarrow> store_view) \<Rightarrow> ('s \<Rightarrow> bool) \<Rightarrow> 's \<Rightarrow> bool" where
  "handles_kept view_of good s \<longleftrightarrow> good s \<and> view_wf (view_of s)"

lemma yields_st_do: "yields K R m \<Longrightarrow> yields (on_store K) R (st_do m)"
  unfolding st_do_def yields_def wp_map_err wp_store_do by auto

text \<open>The contract of a store: what it returns is well-formed, and writing what is well-formed keeps that so.\<close>

locale handles_store =
  fixes ops :: "'s store_ops" and K :: "'s \<Rightarrow> bool"
  assumes kept_get: "yields K (pred_option es_wf) (so_get_enclave ops i)"
    and kept_list: "yields K (list_all es_wf) (so_list_enclaves ops)"
    and kept_upsert: "es_wf st \<Longrightarrow> preserves K (so_upsert_enclave ops st)"
    and kept_delete: "preserves K (so_delete_enclave ops i)"
    and kept_append: "preserves K (so_append_event ops ev)"
    and kept_run: "preserves K (so_upsert_iac_run ops r)"

sublocale state_store \<subseteq> handles: handles_store ops "handles_kept abs inv"
proof
  fix i st ev r
  show "yields (handles_kept abs inv) (pred_option es_wf) (so_get_enclave ops i)"
    unfolding yields_def handles_kept_def
    by (auto intro!: wp_mono [OF get_law] simp: view_wf_def)
  show "yields (handles_kept abs inv) (list_all es_wf) (so_list_enclaves ops)"
    unfolding yields_def handles_kept_def
    by (auto intro!: wp_mono [OF list_law] simp: view_wf_def list_all_iff ran_def) (metis option.pred_inject(2))
  show "preserves (handles_kept abs inv) (so_upsert_enclave ops st)" if "es_wf st"
    by (rule preservesI_wp) (auto simp: handles_kept_def view_wf_def that intro!: wp_mono [OF upsert_law])
  show "preserves (handles_kept abs inv) (so_delete_enclave ops i)"
    by (rule preservesI_wp) (auto simp: handles_kept_def view_wf_def intro!: wp_mono [OF delete_law])
  show "preserves (handles_kept abs inv) (so_append_event ops ev)"
    by (rule preservesI_wp) (auto simp: handles_kept_def view_wf_def intro!: wp_mono [OF append_law])
  show "preserves (handles_kept abs inv) (so_upsert_iac_run ops r)"
    by (rule preservesI_wp) (auto simp: handles_kept_def view_wf_def intro!: wp_mono [OF run_law])
qed

context state_store
begin

lemma keeps_handles: "handles_store ops (handles_kept abs inv)"
  by unfold_locales

end

context handles_store
begin

text \<open>The steps, for a system over this store.\<close>

lemma kept_st_do [intro]:
  "preserves K m \<Longrightarrow> preserves (on_store K) (st_do m)"
  unfolding st_do_def by (intro preserves_map_err preserves_store_do)

lemma kept_emit: "sys_store sys = ops \<Longrightarrow> preserves (on_store K) (emit sys ev)"
  unfolding emit_def by (intro preserves_intros kept_st_do) (simp add: kept_append)

lemma kept_terraform:
  assumes "sys_store sys = ops"
  shows "yields (on_store K) handle_wf (tf_provision sys b enc p inputs env rid)"
    and "preserves (on_store K) (tf_teardown sys b enc p env rid)"
  by (auto intro!: yields_both tf_provision_wf tf_provision_preserves tf_teardown_preserves simp: assms kept_run)

lemma kept_teardown:
  assumes "sys_store sys = ops"
  shows "preserves (on_store K) (teardown_enclave_step sys b req rid act eid errs)"
proof -
  let ?K = "on_store K"
  have "preserves ?K (teardown_partition_step sys b driver env ex rid eid x es)" for driver env ex x es
    unfolding teardown_partition_step_def
    by (cases x) (simp only: prod.case Let_def, intro preserves_intros kept_terraform(2) assms)
  then show ?thesis
    unfolding teardown_enclave_step_def Let_def
    by (intro preserves_intros kept_st_do) (simp_all add: assms kept_delete)
qed

lemma kept_record:
  assumes "sys_store sys = ops" "es_wf es" "\<And>r. res = Inr r \<Longrightarrow> handle_wf r"
  shows "yields (on_store K) (\<lambda>(es', _). es_wf es') (record_partition sys enc part res es errs)"
  unfolding record_partition_def Let_def
  by (rule yields_seq_keep, rule preserves_on_store)
     (use assms in \<open>auto simp: handle_wf_def split: sum.split intro!: yields_seq_keep yields_ret kept_emit\<close>)

lemma kept_identity:
  assumes "sys_store sys = ops" "es_wf es" "handle_wf sa"
  shows "yields (on_store K) (\<lambda>(res, es'). es_wf es' \<and> (\<forall>r. res = Inr r \<longrightarrow> handle_wf r))
    (provision_with_identity sys b driver enc rid part inputs es sa)"
  unfolding provision_with_identity_def Let_def
  by (rule yields_seq_keep, (intro preserves_attempt kept_st_do, use assms in \<open>simp add: kept_upsert handle_wf_def\<close>),
      rule yields_seq [OF yields_attempt [OF kept_terraform(1) [OF assms(1)]]])
     (use assms in \<open>auto simp: handle_wf_def [of sa] split: sum.split intro!: yields_ret yields_seq [OF merge_sa_wf]\<close>)

lemma kept_partition:
  assumes "sys_store sys = ops" "handle_driver driver" "es_wf (fst acc)"
  shows "yields (on_store K) (\<lambda>(es', _). es_wf es')
    (provision_partition_step sys b driver enc rid part acc)"
proof -
  let ?K = "on_store K"
  obtain es errs where acc: "acc = (es, errs)" by (cases acc)
  let ?ps = "in_flight_partition (hm_get (es_partitions es) (part_id part)) part"
  let ?es = "put_partition (part_id part) ?ps es"
  have wf: "es_wf es" "es_wf ?es" "opt_wf (ps_handle ?ps)"
    using assms(3) acc es_wf_in_flight(1) [of "hm_get (es_partitions es) (part_id part)" part] by (simp_all add: ps_wf_def)
  have call: "yields ?K (\<lambda>r. \<forall>sa. r = Inr sa \<longrightarrow> handle_wf sa)
      (attempt (ext_do (drv_provision_partition driver enc part inputs (ps_handle ?ps))))" for inputs
    by (intro yields_attempt yields_both preserves_on_store returns_ext_do handle_driver.partition_law [OF assms(2)] wf)
  have outcome: "yields ?K (\<lambda>(res, es'). es_wf es' \<and> (\<forall>r. res = Inr r \<longrightarrow> handle_wf r))
      (case sa of Inl e \<Rightarrow> ret (Inl (driver_error_str e), ?es)
       | Inr s \<Rightarrow> provision_with_identity sys b driver enc rid part inputs ?es s)"
    if "\<forall>s. sa = Inr s \<longrightarrow> handle_wf s" for sa inputs
    using that wf assms(1) by (cases sa) (auto intro: yields_ret kept_identity)
  have up: "preserves ?K (st_do (so_upsert_enclave (sys_store sys) ?es))"
    by (intro kept_st_do) (simp add: assms(1) kept_upsert wf)
  show ?thesis
  proof (cases "hash_matches (map_option ps_meta (hm_get (es_partitions es) (part_id part))) (partition_hash (sys_digest sys) part)")
    case True
    then show ?thesis by (simp add: acc provision_partition_step_def wf yields_ret)
  next
    case False
    show ?thesis
      unfolding acc provision_partition_step_def prod.case Let_def if_not_P [OF False]
      by (rule yields_seq_keep [OF up], rule yields_seq [OF call], rule yields_seq [OF outcome], assumption)
         (auto intro: kept_record [OF assms(1)])
  qed
qed

lemma kept_export:
  assumes "sys_store sys = ops" "handle_driver driver" "es_wf (fst acc)"
  shows "yields (on_store K) (\<lambda>(es', _). es_wf es') (provision_export_step sys driver enc x acc)"
proof -
  let ?K = "on_store K"
  obtain es errs where acc: "acc = (es, errs)" by (cases acc)
  let ?outs = "case hm_get (es_partitions es) (exp_target_partition x) of None \<Rightarrow> [] | Some ps \<Rightarrow> ps_outputs ps"
  have wf: "es_wf es" using assms(3) acc by simp
  have outs: "hm_ok ?outs" using wf by (auto simp: ps_wf_def dest: es_wf_partition split: option.split)
  have call: "yields ?K (\<lambda>r. \<forall>p. r = Inr p \<longrightarrow> handle_wf p)
      (attempt (ext_do (drv_provision_export driver enc x ?outs (hm_get (es_exports es) (exp_name x)))))"
    by (intro yields_attempt yields_both preserves_on_store returns_ext_do handle_driver.export_law [OF assms(2)] outs)
       (simp add: wf)
  show ?thesis
    unfolding acc provision_export_step_def prod.case Let_def
    by (rule yields_seq [OF call])
       (auto simp: wf handle_wf_def split: sum.split intro!: yields_ret yields_seq_keep kept_emit assms(1))
qed

lemma kept_provision:
  assumes "sys_store sys = ops" "\<And>t d. for_cloud (sys_registry sys) t = Inr d \<Longrightarrow> handle_driver d"
    and "\<And>i. pred_option es_wf (hm_get act i)"
  shows "preserves (on_store K) (provision_enclave_step sys b rid act enc errs)"
proof (cases "for_enclave (sys_registry sys) enc")
  case (Inl e)
  then show ?thesis by (simp add: provision_enclave_step_def preserves_ret)
next
  case (Inr driver)
  let ?K = "on_store K"
  have drv: "handle_driver driver" using assms(2) Inr by (simp add: for_enclave_def)
  let ?es = "in_flight_enclave (sys_registry sys) (hm_get act (enc_id enc)) enc"
  have wf: "es_wf ?es" "opt_wf (Option.bind (hm_get act (enc_id enc)) es_handle)"
    using assms(3) [of "enc_id enc"] by (auto split: bind_splits)
  have up: "es_wf st \<Longrightarrow> preserves ?K (st_do (so_upsert_enclave (sys_store sys) st))" for st
    by (intro kept_st_do) (simp add: assms(1) kept_upsert)
  have call: "yields ?K (\<lambda>r. \<forall>p. r = Inr p \<longrightarrow> handle_wf p)
      (attempt (ext_do (drv_provision_enclave driver enc (Option.bind (hm_get act (enc_id enc)) es_handle))))"
    by (intro yields_attempt yields_both preserves_on_store returns_ext_do handle_driver.enclave_law [OF drv] wf)
  have partitions: "yields ?K (\<lambda>(es, _). es_wf es)
      (foldM (provision_partition_step sys b driver enc rid) (enc_partitions enc) (es, er))" if "es_wf es" for es er
    by (rule yields_foldM) (auto simp: that intro!: kept_partition [OF assms(1) drv])
  have exports: "yields ?K (\<lambda>(es, _). es_wf es) (foldM (provision_export_step sys driver enc) (enc_exports enc) acc)"
    if "case acc of (es, _) \<Rightarrow> es_wf es" for acc
    by (rule yields_foldM, rule that) (auto intro!: kept_export [OF assms(1) drv])
  have finish: "yields ?K (\<lambda>_. True) (seq (emit sys ev) (\<lambda>_. seq (st_do (so_upsert_enclave (sys_store sys) es)) (\<lambda>_. ret er)))"
    if "es_wf es" for ev es er
    by (intro yields_seq_keep yields_ret kept_emit assms(1) up that TrueI)
  have done_part: "yields ?K (\<lambda>_. True)
      (seq (foldM (provision_partition_step sys b driver enc rid) (enc_partitions enc) (es, er)) (\<lambda>acc.
       seq (foldM (provision_export_step sys driver enc) (enc_exports enc) acc) (\<lambda>(es4, errs').
       seq (emit sys ev) (\<lambda>_. seq (st_do (so_upsert_enclave (sys_store sys) es4)) (\<lambda>_. ret errs')))))"
    if "es_wf es" for es er ev
    by (rule yields_seq [OF partitions [OF that]], rule yields_seq [OF exports], assumption) (auto intro: finish)
  have failed: "yields ?K (\<lambda>_. True) (seq (utc_now sys) (\<lambda>now.
      seq (st_do (so_upsert_enclave (sys_store sys) (?es\<lparr>es_meta := m now\<rparr>))) (\<lambda>_. seq (emit sys ev) (\<lambda>_. ret er))))" for m ev er
    by (intro yields_seq_keep yields_ret kept_emit assms(1) up preserves_on_store TrueI) (simp add: wf)
  have "yields ?K (\<lambda>_. True) (provision_enclave_step sys b rid act enc errs)"
    unfolding provision_enclave_step_def Inr sum.case Let_def
    by (rule yields_seq_keep [OF up [OF wf(1)]], rule yields_seq [OF call])
       (auto simp: handle_wf_def wf(1) split: sum.split intro!: failed [unfolded Let_def]
         yields_seq_keep [OF preserves_on_store(3)] done_part)
  then show ?thesis by (rule yields_preserves)
qed

lemma kept_import:
  assumes "sys_store sys = ops" "handle_driver driver" "es_wf (fst acc)"
  shows "yields (on_store K) (\<lambda>(es', _). es_wf es') (wire_import_step sys driver enc i acc)"
proof -
  let ?K = "on_store K"
  obtain es ch errs where acc: "acc = (es, ch, errs)" by (cases acc)
  have wf: "es_wf es" using assms(3) acc by simp
  have get: "yields ?K (pred_option es_wf) (st_do (so_get_enclave (sys_store sys) (imp_from i)))"
    unfolding assms(1) by (rule yields_st_do [OF kept_get])
  have call: "yields ?K (\<lambda>r. \<forall>p. r = Inr p \<longrightarrow> handle_wf p)
      (attempt (ext_do (drv_provision_import driver enc i h (hm_get (es_imports es) (imp_alias i)))))" if "json_wf h" for h
    by (intro yields_attempt yields_both preserves_on_store returns_ext_do handle_driver.import_law [OF assms(2)] that)
       (simp add: wf)
  have handle: "json_wf h" if "pred_option es_wf ex" "Option.bind ex (\<lambda>s. hm_get (es_exports s) n) = Some h" for ex n h
    using that by (auto simp: bind_eq_Some_conv es_wf_def opt_wf_def)
  have wired: "yields ?K (\<lambda>(es', _). es_wf es') (case r of
        Inr result \<Rightarrow> seq (emit sys ev) (\<lambda>_.
          ret (es\<lparr>es_imports := hm_insert (imp_alias i) (pr_handle result) (es_imports es)\<rparr>, True, errs))
      | Inl e \<Rightarrow> ret (es, ch, errs @ [m e]))" if "\<forall>p. r = Inr p \<longrightarrow> handle_wf p" for r ev m
    using that by (cases r) (auto simp: wf handle_wf_def intro!: yields_ret yields_seq_keep kept_emit assms(1))
  show ?thesis
  proof (cases "hm_contains (es_imports es) (imp_alias i)")
    case True
    then show ?thesis by (simp add: acc wire_import_step_def wf yields_ret)
  next
    case False
    show ?thesis
      unfolding acc wire_import_step_def prod.case if_not_P [OF False]
      by (rule yields_seq [OF get])
         (auto simp: wf split: option.split intro!: yields_ret yields_seq [OF call [OF handle]] wired)
  qed
qed

lemma kept_wire:
  assumes "sys_store sys = ops" "\<And>t d. for_cloud (sys_registry sys) t = Inr d \<Longrightarrow> handle_driver d"
  shows "preserves (on_store K) (wire_enclave_step sys enc errs)"
proof (cases "for_enclave (sys_registry sys) enc")
  case (Inl e)
  then show ?thesis by (simp add: wire_enclave_step_def preserves_ret)
next
  case (Inr driver)
  let ?K = "on_store K"
  have drv: "handle_driver driver" using assms(2) Inr by (simp add: for_enclave_def)
  have get: "yields ?K (pred_option es_wf) (st_do (so_get_enclave (sys_store sys) (enc_id enc)))"
    unfolding assms(1) by (rule yields_st_do [OF kept_get])
  have up: "es_wf st \<Longrightarrow> preserves ?K (st_do (so_upsert_enclave (sys_store sys) st))" for st
    by (intro kept_st_do) (simp add: assms(1) kept_upsert)
  have wirings: "yields ?K (\<lambda>(es', _). es_wf es') (foldM (wire_import_step sys driver enc) (imports_of enc) (es, False, er))"
    if "es_wf es" for es er
    by (rule yields_foldM) (auto simp: that intro!: kept_import [OF assms(1) drv])
  have "yields ?K (\<lambda>_. True) (wire_enclave_step sys enc errs)"
    unfolding wire_enclave_step_def Inr sum.case
    by (rule yields_seq [OF get])
       (auto split: option.split intro!: yields_ret yields_seq [OF wirings] yields_seq_keep [OF up])
  then show ?thesis by (rule yields_preserves)
qed

lemma actual_wf: "list_all es_wf states \<Longrightarrow> pred_option es_wf (hm_get (actual_states states) i)"
  by (auto simp: actual_states_def hm_get_collect list_all_iff option.pred_set dest!: map_of_SomeD)

lemma reconcile_keeps_handles:
  assumes "sys_store sys = ops" "\<And>t d. for_cloud (sys_registry sys) t = Inr d \<Longrightarrow> handle_driver d"
  shows "preserves (on_store K) (reconcile yp sys req)"
proof -
  let ?K = "on_store K"
  have event: "preserves ?K (st_do (so_append_event (sys_store sys) ev))" for ev
    by (intro kept_st_do) (simp add: assms(1) kept_append)
  have applied: "preserves ?K (apply_changes sys req (actual_states states) desired ordered rep)"
    if "list_all es_wf states" for states desired ordered rep
    unfolding apply_changes_def Let_def
    by (intro preserves_intros event kept_teardown kept_provision kept_wire assms actual_wf that; (assumption | simp add: assms(2))?)
  have "yields ?K (\<lambda>_. True) (reconcile yp sys req)"
    unfolding reconcile_def Let_def
    by (rule yields_seq_keep, simp add: load_step_def preserves_def, rule yields_seq_keep, rule preserves_lift_result,
        rule yields_seq [OF yields_st_do [OF kept_list [folded assms(1)]]])
       (auto intro!: yields_keep preserves_ret applied)
  then show ?thesis by (rule yields_preserves)
qed

end

end
