(* ===== verification/Cli_Start.thy ===== *)
theory Cli_Start
  imports Cli_Examples Stored_Handles
begin

section \<open>What a started server has\<close>

text \<open>The drivers and the store of a server that started, and the flags that it was given.\<close>

text \<open>The flags without which the driver of a cloud is not made.\<close>

definition flags_given :: "serve_args \<Rightarrow> cloud_arg \<Rightarrow> bool" where
  "flags_given args c = (case c of
     ArgLocal \<Rightarrow> True
   | ArgGcp \<Rightarrow> sa_gcp_parent args \<noteq> None \<and> sa_gcp_billing_account args \<noteq> None
   | ArgAzure \<Rightarrow> sa_azure_tenant_id args \<noteq> None \<and> sa_azure_management_group_id args \<noteq> None \<and>
       sa_azure_billing_account_name args \<noteq> None \<and> sa_azure_billing_profile_name args \<noteq> None \<and>
       sa_azure_invoice_section_name args \<noteq> None
   | ArgAws \<Rightarrow> sa_aws_org_unit_id args \<noteq> None \<and> sa_aws_email_domain args \<noteq> None)"

lemma inj_cloud_arg [simp]: "cloud_arg_to_target x = cloud_arg_to_target y \<longleftrightarrow> x = y"
  by (cases x; cases y) (simp_all add: cloud_arg_to_target_def)

lemma wp_any: "(\<And>a w'. Q a w') \<Longrightarrow> (\<And>e w'. E e w') \<Longrightarrow> wp m Q E w"
  by (simp add: wp_def split: prod.split sum.split)

subsection \<open>The drivers\<close>

text \<open>A driver is made only when its flags are there, and only these are used up.\<close>

definition made_driver :: "cloud_arg \<Rightarrow> serve_args \<Rightarrow> 'x driver \<times> serve_args \<Rightarrow> bool" where
  "made_driver c args = (\<lambda>(d, args'). handle_driver d \<and> drv_name d = cloud_str (cloud_arg_to_target c) \<and> flags_given args c \<and>
     (\<forall>b. b \<noteq> c \<longrightarrow> flags_given args' b = flags_given args b))"

lemma driver_names:
  "drv_name local_driver = ''local''" "drv_name (gcp_driver g) = ''gcp''"
  "drv_name (azure_driver a) = ''azure''" "drv_name (aws_driver w) = ''aws''"
  by (simp_all add: local_driver_def gcp_driver_def azure_driver_def aws_driver_def)

lemma made_drivers_wp:
  shows gcp_of_args_wp: "wp (gcp_of_args sh ma args) (\<lambda>r _. made_driver ArgGcp args r) (\<lambda>_ _. True) c"
    and azure_of_args_wp: "wp (azure_of_args sh ma args) (\<lambda>r _. made_driver ArgAzure args r) (\<lambda>_ _. True) c"
    and aws_of_args_wp: "wp (aws_of_args sh ma args) (\<lambda>r _. made_driver ArgAws args r) (\<lambda>_ _. True) c"
  by (auto simp: gcp_of_args_def azure_of_args_def aws_of_args_def Let_def wp_simps made_driver_def flags_given_def
      driver_names gcp_drv.handle_driver_axioms azure_drv.handle_driver_axioms aws_drv.handle_driver_axioms
      cloud_arg_to_target_def cloud_str_def
      intro!: wp_any split: option.split cloud_arg.split sum.split)

lemma local_made: "made_driver ArgLocal args (local_driver, args)"
  by (simp add: made_driver_def driver_names local_drv.handle_driver_axioms flags_given_def
      cloud_arg_to_target_def cloud_str_def)

lemma register_cloud_wp:
  "wp (register_cloud sh ma x (reg, args))
     (\<lambda>(reg', args') _. \<exists>d. reg' = register (cloud_arg_to_target x) d reg \<and> made_driver x args (d, args')) (\<lambda>_ _. True) c"
proof -
  have "wp (case x of ArgLocal \<Rightarrow> ret (local_driver, args) | ArgGcp \<Rightarrow> gcp_of_args sh ma args
      | ArgAzure \<Rightarrow> azure_of_args sh ma args | ArgAws \<Rightarrow> aws_of_args sh ma args)
      (\<lambda>r _. made_driver x args r) (\<lambda>_ _. True) c"
    by (cases x) (simp_all add: made_drivers_wp wp_ret local_made)
  then show ?thesis unfolding register_cloud_def prod.case
    by (rule wp_seqI) (auto simp: wp_simps)
qed

text \<open>The registry that serves the given clouds, with the names of its drivers.\<close>

definition serves_clouds :: "cloud_arg set \<Rightarrow> 'x driver_registry \<Rightarrow> bool" where
  "serves_clouds clouds reg \<longleftrightarrow> set (active_clouds reg) = cloud_arg_to_target ` clouds \<and>
     (\<forall>t d. for_cloud reg t = Inr d \<longrightarrow> drv_name d = cloud_str t \<and> handle_driver d)"

lemma serves_register:
  assumes "serves_clouds clouds reg" "drv_name d = cloud_str (cloud_arg_to_target c)" "handle_driver d"
  shows "serves_clouds (insert c clouds) (register (cloud_arg_to_target c) d reg)"
  unfolding serves_clouds_def
proof (intro conjI allI impI)
  show "set (active_clouds (register (cloud_arg_to_target c) d reg)) = cloud_arg_to_target ` insert c clouds"
    using assms(1) by (simp add: serves_clouds_def active_clouds_def register_def set_hm_keys hm_get_insert)
next
  fix t d' assume "for_cloud (register (cloud_arg_to_target c) d reg) t = Inr d'"
  then show "drv_name d' = cloud_str t" "handle_driver d'"
    using assms unfolding serves_clouds_def for_cloud_Inr register_def
    by (cases "cloud_arg_to_target c = t"; force simp: hm_get_insert)+
qed

definition registered :: "serve_args \<Rightarrow> cloud_target \<Rightarrow> cloud_arg set \<Rightarrow> 'x driver_registry \<times> serve_args \<Rightarrow> bool" where
  "registered args t clouds = (\<lambda>(reg, args'). reg_default_cloud reg = t \<and> serves_clouds clouds reg \<and>
     (\<forall>x \<in> clouds. flags_given args x) \<and> (\<forall>x. x \<notin> clouds \<longrightarrow> flags_given args' x = flags_given args x))"

lemma registered_register:
  assumes "registered args t clouds (reg, args')" "made_driver x args' (d, args2)"
  shows "registered args t (insert x clouds) (register (cloud_arg_to_target x) d reg, args2)"
proof -
  have "flags_given args x" using assms by (cases "x \<in> clouds") (auto simp: registered_def made_driver_def)
  moreover have "reg_default_cloud (register (cloud_arg_to_target x) d reg) = t"
    using assms(1) by (simp add: registered_def register_def)
  moreover have "serves_clouds (insert x clouds) (register (cloud_arg_to_target x) d reg)"
    using assms by (auto simp: registered_def made_driver_def intro: serves_register)
  ultimately show ?thesis using assms by (simp add: registered_def made_driver_def)
qed

lemma register_clouds_wp:
  fixes sh :: "'x shell"
  shows "wp (foldM (register_cloud sh ma) clouds (registry_new t, args)) (\<lambda>r _. registered args t (set clouds) r) (\<lambda>_ _. True) c"
proof (rule wp_foldM_prefix [where I = "\<lambda>us r _. registered args t (set us) r"])
  show "registered args t (set []) (registry_new t, args)"
    by (simp add: registered_def serves_clouds_def registry_new_def active_clouds_def hm_keys_def for_cloud_def)
next
  fix us x vs and r :: "'x driver_registry \<times> serve_args" and c :: "'x console"
  assume "registered args t (set us) r"
  moreover obtain reg args' where "r = (reg, args')" by (cases r)
  ultimately show "wp (register_cloud sh ma x r) (\<lambda>r' _. registered args t (set (us @ [x])) r') (\<lambda>_ _. True) c"
    by (auto intro!: wp_mono [OF register_cloud_wp] registered_register)
qed

lemma requested_clouds: "distinct (requested_clouds args)" "set (requested_clouds args) = insert (sa_cloud args) (set (sa_enable_cloud args))"
proof -
  let ?add = "\<lambda>c clouds. if c \<in> set clouds then clouds else clouds @ [c]"
  have "distinct ds \<Longrightarrow> distinct (fold ?add cs ds) \<and> set (fold ?add cs ds) = set ds \<union> set cs" for cs ds :: "cloud_arg list"
    by (induction cs arbitrary: ds) auto
  from this [of "[sa_cloud args]" "sa_enable_cloud args"]
  show "distinct (requested_clouds args)" "set (requested_clouds args) = insert (sa_cloud args) (set (sa_enable_cloud args))"
    by (simp_all add: requested_clouds_def)
qed

lemma build_registry_wp:
  "wp (build_registry sh ma args)
     (\<lambda>reg _. reg_default_cloud reg = cloud_arg_to_target (sa_cloud args) \<and>
        serves_clouds (insert (sa_cloud args) (set (sa_enable_cloud args))) reg \<and>
        (\<forall>x \<in> insert (sa_cloud args) (set (sa_enable_cloud args)). flags_given args x)) (\<lambda>_ _. True) c"
  unfolding build_registry_def
  by (rule wp_seqI [OF register_clouds_wp])
     (auto simp: requested_clouds registered_def wp_ret split: prod.split)

subsection \<open>The store\<close>

text \<open>\<open>--postgres-url\<close> goes before \<open>--ephemeral\<close>, which goes before the file.\<close>

definition store_choice :: "serve_args \<Rightarrow> ('d, 'c) dyn_store \<Rightarrow> bool" where
  "store_choice args store = (case store of
     InPostgres _ \<Rightarrow> sa_postgres_url args \<noteq> None
   | InMemory s \<Rightarrow> sa_postgres_url args = None \<and> sa_ephemeral args \<and> s = mem_new
   | InFile _ \<Rightarrow> sa_postgres_url args = None \<and> \<not> sa_ephemeral args)"

lemma open_store_wp: "wp (open_store sh ma args) (\<lambda>store _. store_choice args store) (\<lambda>_ _. True) c"
proof (cases "sa_postgres_url args")
  case None
  then show ?thesis
    by (auto simp: open_store_def Let_def wp_simps store_choice_def intro!: wp_any)
next
  case (Some url)
  have "wp (\<lambda>c. (Inr (InPostgres (ma_pg_server ma pool (co_ext c))), c)) (\<lambda>store _. store_choice args store) (\<lambda>_ _. True) d"
    for pool d using Some by (simp add: wp_def store_choice_def)
  then show ?thesis unfolding open_store_def Some option.case by (intro wp_seqI [OF wp_True])
qed

subsection \<open>The server\<close>

lemma cli_serve_started:
  assumes "cli_serve sh ma remote args c = (Inr (app, store), c')"
  defines "clouds \<equiv> insert (sa_cloud args) (set (sa_enable_cloud args))"
  shows "remote = None" "store_choice args store" "app_store app = dyn_ops (ma_redb ma) (ma_pg_env ma)"
    "reg_default_cloud (app_registry app) = cloud_arg_to_target (sa_cloud args)" "serves_clouds clouds (app_registry app)"
    "\<forall>x \<in> clouds. flags_given args x"
proof -
  have "wp (cli_serve sh ma remote args)
      (\<lambda>(app, store) _. remote = None \<and> store_choice args store \<and> app_store app = dyn_ops (ma_redb ma) (ma_pg_env ma) \<and>
         reg_default_cloud (app_registry app) = cloud_arg_to_target (sa_cloud args) \<and>
         serves_clouds clouds (app_registry app) \<and> (\<forall>x \<in> clouds. flags_given args x)) (\<lambda>_ _. True) c"
  proof (cases remote)
    case None
    show ?thesis unfolding cli_serve_def Let_def None clouds_def
      by (simp, rule wp_seqI [OF wp_True], rule wp_seqI [OF open_store_wp], rule wp_seqI [OF build_registry_wp])
        (auto simp: wp_simps build_app_def intro!: wp_any)
  qed (simp add: cli_serve_def wp_simps)
  from wp_InrD [OF this assms(1)] show "remote = None" "store_choice args store"
    "app_store app = dyn_ops (ma_redb ma) (ma_pg_env ma)"
    "reg_default_cloud (app_registry app) = cloud_arg_to_target (sa_cloud args)" "serves_clouds clouds (app_registry app)"
    "\<forall>x \<in> clouds. flags_given args x"
    by simp_all
qed

text \<open>
  C26. A server that starts has exactly the drivers that were asked for. Its clouds are the default one
  and the enabled ones, each driver goes under the cloud whose name it has, and an enclave finds a
  driver when it names no cloud or one of these; the flags that the drivers of these clouds need were all given,
  although the loop that makes the drivers takes the flags out of the options as it goes. PostgreSQL
  goes before the ephemeral store, and that before the file; the ephemeral store is empty. The program is never started with a remote.
\<close>
theorem serve_drivers:
  assumes "cli_serve sh ma remote args c = (Inr (app, store), c')"
  defines "clouds \<equiv> insert (sa_cloud args) (set (sa_enable_cloud args))"
  shows "remote = None \<and> store_choice args store \<and>
    (let reg = sys_registry (app_system app) in
      set (active_clouds reg) = cloud_arg_to_target ` clouds \<and>
      (\<forall>t d. for_cloud reg t = Inr d \<longrightarrow> drv_name d = cloud_str t) \<and>
      (\<forall>e. (\<exists>d. for_enclave reg e = Inr d) \<longleftrightarrow>
        (case enc_cloud e of None \<Rightarrow> True | Some t \<Rightarrow> t \<in> cloud_arg_to_target ` clouds))) \<and>
    (\<forall>x \<in> clouds. flags_given args x)"
proof -
  note started = cli_serve_started [OF assms(1), folded clouds_def]
  have found: "(\<exists>d. for_enclave (sys_registry (app_system app)) e = Inr d) \<longleftrightarrow>
      resolved_cloud (sys_registry (app_system app)) e \<in> set (active_clouds (sys_registry (app_system app)))" for e
    by (auto simp: for_enclave_def for_cloud_Inr active_clouds_def set_hm_keys)
  show ?thesis unfolding Let_def found resolved_cloud_def
    using started by (auto simp: serves_clouds_def clouds_def split: option.split)
qed

lemma example_run:
  obtains app store c' where "cli_serve (token_shell (example_net JNull)) (example_machine (example_net JNull)) None example_serve
    (example_console [] (0, 0)) = (Inr (app, store), c')"
proof -
  have "\<exists>r c'. cli_serve (token_shell (example_net JNull)) (example_machine (example_net JNull)) None example_serve
      (example_console [] (0, 0)) = (Inr r, c')"
    by (simp add: cli_serve_def server_token_def token_shell_def example_serve_def serve_defaults_def open_store_def
        build_registry_def requested_clouds_def register_cloud_def azure_of_args_def or_bail_def outside_def
        map_err_def example_machine_def console_defs Let_def)
  then show thesis using that by auto
qed

lemma example_flags:
  "sa_ephemeral example_serve" "sa_postgres_url example_serve = None"
  "insert (sa_cloud example_serve) (set (sa_enable_cloud example_serve)) = {ArgLocal, ArgAzure}"
  by (auto simp: example_serve_def serve_defaults_def)

theorem serve_drivers_witness:
  "\<exists>app store c'. cli_serve (token_shell (example_net JNull)) (example_machine (example_net JNull)) None example_serve
       (example_console [] (0, 0)) = (Inr (app, store), c') \<and>
     store = InMemory mem_new \<and> set (active_clouds (sys_registry (app_system app))) = {Local, Azure}"
proof -
  obtain app store c' where run: "cli_serve (token_shell (example_net JNull)) (example_machine (example_net JNull)) None
      example_serve (example_console [] (0, 0)) = (Inr (app, store), c')" by (rule example_run)
  have "store = InMemory mem_new \<and> set (active_clouds (sys_registry (app_system app))) = {Local, Azure}"
    using serve_drivers [OF run] example_flags
    by (auto simp: Let_def store_choice_def cloud_arg_to_target_def split: dyn_store.splits)
  with run show ?thesis by blast
qed

end
