(* ===== verification/Cli_Store.thy ===== *)
theory Cli_Store
  imports Cli_Examples
begin

section \<open>The store behind the trait object\<close>

text \<open>
  Whichever of the three stores the server opened, its operations act on one abstract view as the
  interface promises. Only the locale \<open>state_store\<close> is left: the PostgreSQL store has laws of its own for locks.
\<close>

definition dyn_abs ::
  "('d, 't) redb_store \<Rightarrow> ('d \<Rightarrow> redb_content) \<Rightarrow> 'c pg_env \<Rightarrow> ('d, 'c) dyn_store \<Rightarrow> store_view" where
  "dyn_abs rs content env s = (case s of
     InMemory m \<Rightarrow> mem_abs m | InFile d \<Rightarrow> redb_abs rs content d | InPostgres p \<Rightarrow> pg_abs env p)"

definition dyn_inv ::
  "('d, 't) redb_store \<Rightarrow> ('d \<Rightarrow> redb_content) \<Rightarrow> 'c pg_env \<Rightarrow> ('d, 'c) dyn_store \<Rightarrow> bool" where
  "dyn_inv rs content env s = (case s of
     InMemory m \<Rightarrow> mem_inv m | InFile d \<Rightarrow> redb_inv rs content d | InPostgres p \<Rightarrow> pg_inv env p)"

lemma dyn_cases [simp]:
  "dyn_abs rs content env (InMemory m) = mem_abs m" "dyn_inv rs content env (InMemory m) = mem_inv m"
  "dyn_abs rs content env (InFile d) = redb_abs rs content d" "dyn_inv rs content env (InFile d) = redb_inv rs content d"
  "dyn_abs rs content env (InPostgres p) = pg_abs env p" "dyn_inv rs content env (InPostgres p) = pg_inv env p"
  by (simp_all add: dyn_abs_def dyn_inv_def)

lemma wp_dispatch:
  "wp (dispatch m f p) Q E s = (case s of
     InMemory x \<Rightarrow> wp m (\<lambda>a x. Q a (InMemory x)) (\<lambda>e x. E e (InMemory x)) x
   | InFile x \<Rightarrow> wp f (\<lambda>a x. Q a (InFile x)) (\<lambda>e x. E e (InFile x)) x
   | InPostgres x \<Rightarrow> wp p (\<lambda>a x. Q a (InPostgres x)) (\<lambda>e x. E e (InPostgres x)) x)"
  by (cases s) (simp_all add: wp_def dispatch_def split: prod.split sum.split)

lemma dyn_select:
  "so_get_enclave (dyn_ops rs env) i = dispatch (so_get_enclave memory_ops i) (so_get_enclave (redb_ops rs) i)
     (so_get_enclave (postgres_ops env) i)"
  "so_list_enclaves (dyn_ops rs env) = dispatch (so_list_enclaves memory_ops) (so_list_enclaves (redb_ops rs))
     (so_list_enclaves (postgres_ops env))"
  "so_upsert_enclave (dyn_ops rs env) st = dispatch (so_upsert_enclave memory_ops st) (so_upsert_enclave (redb_ops rs) st)
     (so_upsert_enclave (postgres_ops env) st)"
  "so_delete_enclave (dyn_ops rs env) i = dispatch (so_delete_enclave memory_ops i) (so_delete_enclave (redb_ops rs) i)
     (so_delete_enclave (postgres_ops env) i)"
  "so_append_event (dyn_ops rs env) ev = dispatch (so_append_event memory_ops ev) (so_append_event (redb_ops rs) ev)
     (so_append_event (postgres_ops env) ev)"
  "so_list_events (dyn_ops rs env) eid n = dispatch (so_list_events memory_ops eid n) (so_list_events (redb_ops rs) eid n)
     (so_list_events (postgres_ops env) eid n)"
  "so_upsert_iac_run (dyn_ops rs env) r = dispatch (so_upsert_iac_run memory_ops r) (so_upsert_iac_run (redb_ops rs) r)
     (so_upsert_iac_run (postgres_ops env) r)"
  by (simp_all add: dyn_ops_def memory_ops_def redb_ops_def postgres_ops_def)

lemma dyn_state_store:
  assumes "redb_env_ok rs content view" "json_codec_ok (pe_codec env)"
  shows "state_store (dyn_ops rs env) (dyn_abs rs content env) (dyn_inv rs content env)"
proof -
  have redb: "state_store (redb_ops rs) (redb_abs rs content) (redb_inv rs content)"
    using redb_full_store [OF assms(1)] by (simp add: full_store_def tf_state_store_def)
  note pg = pg_state_store [OF assms(2)]
  show ?thesis
  proof (unfold_locales, goal_cases)
    case (1 s)
    then show ?case using mem.inv_ok state_store.inv_ok [OF redb] state_store.inv_ok [OF pg] by (cases s) auto
  next
    case (2 s i)
    then show ?case
      by (cases s) (simp_all add: dyn_select wp_dispatch mem.get_law state_store.get_law [OF redb] state_store.get_law [OF pg])
  next
    case (3 s)
    then show ?case
      by (cases s) (simp_all add: dyn_select wp_dispatch mem.list_law state_store.list_law [OF redb] state_store.list_law [OF pg])
  next
    case (4 s st)
    then show ?case
      by (cases s) (simp_all add: dyn_select wp_dispatch mem.upsert_law state_store.upsert_law [OF redb] state_store.upsert_law [OF pg])
  next
    case (5 s i)
    then show ?case
      by (cases s) (simp_all add: dyn_select wp_dispatch mem.delete_law state_store.delete_law [OF redb] state_store.delete_law [OF pg])
  next
    case (6 s ev)
    then show ?case
      by (cases s) (simp_all add: dyn_select wp_dispatch mem.append_law state_store.append_law [OF redb] state_store.append_law [OF pg])
  next
    case (7 s eid n)
    then show ?case
      by (cases s) (simp_all add: dyn_select wp_dispatch mem.events_law state_store.events_law [OF redb] state_store.events_law [OF pg])
  next
    case (8 s r)
    then show ?case
      by (cases s) (simp_all add: dyn_select wp_dispatch mem.run_law state_store.run_law [OF redb] state_store.run_law [OF pg])
  qed
qed

lemma mem_new_view: "mem_inv mem_new" "sv_enclaves (mem_abs mem_new) = Map.empty"
  by (simp_all add: mem_new_def mem_inv_def mem_abs_def)



end
