(* ===== verification/Cli_Handles.thy ===== *)
theory Cli_Handles
  imports Cli_Start Cli_Store Reconcile_Props
begin

section \<open>The handles of a server\<close>

text \<open>
  The parts together: the drivers that \<open>serve\<close> makes keep the contract \<open>handle_driver\<close>, the store that
  it opens is a \<open>state_store\<close>, so what the reconciler of a running server stores stays well-formed.
\<close>

text \<open>Reconcile requests that a server handles one after the other, whatever becomes of each.\<close>

definition reconciled :: "('s, 'x) app_state \<Rightarrow> reconcile_request list \<Rightarrow> ('s, 'x) world \<Rightarrow> ('s, 'x) world" where
  "reconciled app reqs w = fold (\<lambda>req w. snd (reconcile (app_yaml app) (app_system app) req w)) reqs w"

text \<open>
  Every handle in the store of a running server is a well-formed JSON value. For a server that
  started, with whatever drivers and whichever store, this holds after every sequence of applies and
  dry runs, whatever the clouds, Terraform and the files answer and whether they succeed or
  fail, when it held before: the keys of every object in the handles of enclaves, partitions, exports and imports are
  sorted and occur once, and no output of a partition occurs twice.
\<close>
theorem served_handles_wf:
  assumes "cli_serve sh ma remote args c = (Inr (app, store), c')"
    and "redb_env_ok (ma_redb ma) content view" "json_codec_ok (pe_codec (ma_pg_env ma))"
    and "dyn_inv (ma_redb ma) content (ma_pg_env ma) (w_store w)"
    and "view_wf (dyn_abs (ma_redb ma) content (ma_pg_env ma) (w_store w))"
  shows "view_wf (dyn_abs (ma_redb ma) content (ma_pg_env ma) (w_store (reconciled app reqs w)))"
proof -
  let ?abs = "dyn_abs (ma_redb ma) content (ma_pg_env ma)" and ?inv = "dyn_inv (ma_redb ma) content (ma_pg_env ma)"
  note started = cli_serve_started [OF assms(1)]
  have drivers: "for_cloud (app_registry app) t = Inr d \<Longrightarrow> handle_driver d" for t d
    using started(5) by (simp add: serves_clouds_def)
  have step: "preserves (on_store (handles_kept ?abs ?inv)) (reconcile (app_yaml app) (app_system app) req)" for req
    by (rule handles_store.reconcile_keeps_handles [OF state_store.keeps_handles [OF dyn_state_store [OF assms(2,3)]] started(3) drivers])
  have "handles_kept ?abs ?inv (w_store w)" using assms(4,5) by (simp add: handles_kept_def)
  then have "handles_kept ?abs ?inv (w_store (reconciled app reqs w))"
    unfolding reconciled_def using step by (induction reqs arbitrary: w) (auto simp: preserves_def)
  then show ?thesis by (simp add: handles_kept_def)
qed

theorem served_handles_wf_witness:
  "\<exists>app store c'. cli_serve (token_shell (example_net JNull)) (example_machine (example_net JNull)) None example_serve
       (example_console [] (0, 0)) = (Inr (app, store), c') \<and>
     view_wf (dyn_abs list_store (\<lambda>d. list_content (capped d)) sample_pg
       (w_store (reconciled app [demo_request, demo_request\<lparr>rq_dry_run := True\<rparr>] (served_world store c'))))"
proof -
  obtain app store c' where run: "cli_serve (token_shell (example_net JNull)) (example_machine (example_net JNull)) None
      example_serve (example_console [] (0, 0)) = (Inr (app, store), c')" by (rule example_run)
  have store: "store = InMemory mem_new"
    using cli_serve_started(2) [OF run] example_flags by (auto simp: store_choice_def split: dyn_store.splits)
  have parts: "ma_redb (example_machine net) = list_store" "ma_pg_env (example_machine net) = sample_pg" for net :: "'x cloud_net"
    by (simp_all add: example_machine_def)
  show ?thesis
    using served_handles_wf [OF run, unfolded parts, OF list_env_ok sample_pg_codec, of "served_world store c'"] run
    by (auto simp: served_world_def store mem_new_view view_wf_def)
qed

end
