(* ===== verification/Cli_Wire.thy ===== *)
theory Cli_Wire
  imports Cli_Examples Reconcile_Props
begin

section \<open>The client and the server together\<close>

text \<open>
  \<open>apply\<close> and \<open>diff\<close> against the server of this repository: the network of the client is a wire to
  the application, whose world is the world outside of the client. What the HTTP libraries on both
  sides do to a call and to a response is the \<open>wire\<close>; \<open>wire_ok\<close> is what they document.
\<close>

record wire =
  wr_request :: "http_call \<Rightarrow> http_request"
  wr_reply :: "http_response option \<Rightarrow> (string, cloud_reply) result"

text \<open>The server behind the wire; the client gets an error when the connection closes without a response.\<close>

definition loopback :: "('s, 'x) app_state \<Rightarrow> wire \<Rightarrow> ('s, 'x) world cloud_net" where
  "loopback app wr = \<lparr>
     cn_send = (\<lambda>call w. case serve app (wr_request wr call) w of (resp, w') \<Rightarrow> (wr_reply wr resp, w')),
     cn_sleep = (\<lambda>_ w. w)\<rparr>"

definition reconcile_json :: "path \<Rightarrow> bool \<Rightarrow> json" where
  "reconcile_json dir ro = json_object [(''enclaves_dir'', JString dir), (''resources_only'', JBool ro)]"

text \<open>
  Method, path and header of a call arrive, and the JSON body is decoded into the fields it was made of; a status and a
  JSON body come back.
\<close>

definition wire_ok :: "http_stack \<Rightarrow> wire \<Rightarrow> string \<Rightarrow> bool" where
  "wire_ok hs wr url \<longleftrightarrow>
     (\<forall>bearer dir ro segs. segs \<in> {[''reconcile''], [''reconcile'', ''dry-run'']} \<longrightarrow>
       (let req = wr_request wr (client_call bearer ''POST'' (url_base url @ concat (map ((@) ''/'') segs))
              (JsonContent (reconcile_json dir ro)))
        in hr_method req = POST \<and> hr_path req = segs \<and> hr_authorization req = Some bearer \<and>
           hs_reconcile_body hs req = Inr \<lparr>rb_enclaves_dir = dir, rb_resources_only = ro\<rparr>)) \<and>
     (\<exists>e. wr_reply wr None = Inl e) \<and>
     (\<forall>resp. \<exists>rp. wr_reply wr (Some resp) = Inr rp \<and> rp_status rp = resp_status resp \<and>
        (\<forall>v. resp_body resp = JsonBody v \<longrightarrow> rp_json rp = Inr v))"

subsection \<open>What is printed\<close>

definition change_lines :: "'x shell \<Rightarrow> change list \<Rightarrow> string" where
  "change_lines sh chs = concat (map (\<lambda>ch. sh_json_text sh (change_to_json ch) @ nl) chs)"

lemma each_put_line: "each (\<lambda>a. put_line (f a)) as c = (Inr (), c\<lparr>co_out := co_out c @ concat (map (\<lambda>a. f a @ nl) as)\<rparr>)"
  by (induction as arbitrary: c) (simp_all add: console_defs)

lemma each_put_err: "each (\<lambda>a. put_err (f a)) as c = (Inr (), c\<lparr>co_err := co_err c @ concat (map (\<lambda>a. f a @ nl) as)\<rparr>)"
  by (induction as arbitrary: c) (simp_all add: console_defs)

lemma seq_output:
  "seq (put_line t) f c = f () (c\<lparr>co_out := co_out c @ t @ nl\<rparr>)"
  "seq (put_err t) f c = f () (c\<lparr>co_err := co_err c @ t @ nl\<rparr>)"
  "seq (each (\<lambda>a. put_line (g a)) as) f c = f () (c\<lparr>co_out := co_out c @ concat (map (\<lambda>a. g a @ nl) as)\<rparr>)"
  by (simp_all only: seq_def each_put_line) (simp_all add: put_line_def put_str_def put_err_def)

definition summary_line :: "bool \<Rightarrow> change list \<Rightarrow> string" where
  "summary_line dry chs = nat_str (length chs) @ '' change(s)'' @ (if dry then '' (dry run)'' else '' applied'') @ ''.'' @ nl"

lemma print_report_out:
  "\<exists>err. print_report sh dry (report_to_json rep) c = (Inr (), c\<lparr>
     co_out := co_out c @ change_lines sh (rep_changes rep) @ summary_line dry (rep_changes rep), co_err := err\<rparr>)"
proof -
  have v: "array_at (report_to_json rep) ''changes'' = Some (map change_to_json (rep_changes rep))"
    "array_at (report_to_json rep) ''errors'' = Some (map JString (rep_errors rep))"
    by (simp_all add: array_at_def report_to_json_def json_index_def json_get_object json_list_def json_array_of_def)
  have same: "d = d\<lparr>co_err := co_err d\<rparr>" for d :: "'a console" by simp
  show ?thesis
    unfolding print_report_def v array_or_empty_def option.case seq_output each_put_err
    by (cases "rep_errors rep = []")
       (auto simp: change_lines_def summary_line_def comp_def ret_def seq_output each_put_err intro: same)
qed

subsection \<open>What the server does\<close>

abbreviation rec_body :: "path \<Rightarrow> bool \<Rightarrow> reconcile_body" where
  "rec_body dir ro \<equiv> \<lparr>rb_enclaves_dir = dir, rb_resources_only = ro\<rparr>"

lemma reconcile_routes:
  "route POST [''reconcile''] = Some RtReconcile" "route POST [''reconcile'', ''dry-run''] = Some RtReconcileDryRun"
  by (simp_all add: route_def select_route_def)

lemma from_reconcile_error_refuses:
  "into_response (Inl (from_reconcile_error tx e)) = Some resp \<Longrightarrow> \<not> is_success (resp_status resp)"
  by (auto simp: into_response_def from_reconcile_error_def Let_def api_error_response_def unprocessable_def
      internal_error_def is_success_def split: reconcile_error.splits store_error.splits)

text \<open>The answer to a call of \<open>apply\<close> or \<open>diff\<close>: a failure without effect, or what the reconciler did.\<close>

lemma loopback_reconcile:
  assumes "wire_ok (app_http app) wr url"
    and "cn_send (loopback app wr) (client_call bearer ''POST''
          (url_base url @ (if dry then ''/reconcile/dry-run'' else ''/reconcile'')) (JsonContent (reconcile_json dir ro))) w = (r, w')"
  shows "w' = w \<and> (\<forall>rp. r = Inr rp \<longrightarrow> \<not> is_success (rp_status rp)) \<or>
    (\<exists>res. reconcile (app_yaml app) (app_system app) (api_request app dry (rec_body dir ro)) w = (res, w') \<and>
       (\<forall>rp. r = Inr rp \<longrightarrow> is_success (rp_status rp) \<longrightarrow> (\<exists>rep. res = Inr rep \<and> rp_json rp = Inr (report_to_json rep))))"
proof -
  define req where "req = wr_request wr (client_call bearer ''POST''
    (url_base url @ (if dry then ''/reconcile/dry-run'' else ''/reconcile'')) (JsonContent (reconcile_json dir ro)))"
  have req: "hr_method req = POST" "hr_path req = (if dry then [''reconcile'', ''dry-run''] else [''reconcile''])"
    "hs_reconcile_body (app_http app) req = Inr (rec_body dir ro)"
    using assms(1) unfolding wire_ok_def Let_def req_def
    by (cases dry; force)+
  obtain resp where serve: "serve app req w = (resp, w')" "r = wr_reply wr resp"
    using assms(2) by (auto simp: loopback_def req_def split: prod.splits)
  have lost: "\<not> is_success (rp_status rp)" if "wr_reply wr None = Inr rp" for rp
    using assms(1) that by (auto simp: wire_ok_def)
  have reply: "rp_status rp = resp_status resp \<and> (\<forall>v. resp_body resp = JsonBody v \<longrightarrow> rp_json rp = Inr v)"
    if "wr_reply wr (Some resp) = Inr rp" for resp rp
    using assms(1) that unfolding wire_ok_def by (metis sum.inject(2))
  obtain res w1 where run: "reconcile (app_yaml app) (app_system app) (api_request app dry (rec_body dir ro)) w = (res, w1)"
    by fastforce
  let ?rt = "if dry then RtReconcileDryRun else RtReconcile"
  have "route (hr_method req) (hr_path req) = Some ?rt" using req by (simp add: reconcile_routes)
  moreover have "strip_head req = (\<lambda>resp. resp)" using req(1) by (intro ext) (simp add: strip_head_def)
  moreover have "map_prod (map_option (\<lambda>resp. resp)) (\<lambda>x. x) p = p" for p :: "http_response option \<times> ('a, 'b) world"
    by (cases p) (simp add: option.map_ident)
  ultimately have served: "serve app req w = require_bearer_token (app_http app) (app_auth_token app) (run_route app ?rt) req w"
    by (simp add: serve_def id_def)
  have handled: "run_route app ?rt req w =
      (into_response (map_sum (from_reconcile_error (app_text app)) (\<lambda>rep. json_response (report_to_json rep)) res), w1)"
    using req(3) run
    by (cases res) (auto simp: run_route_def handle_route_def extracted_def api_post_reconcile_def
        api_post_reconcile_dry_run_def api_reconcile_def seq_def lift_result_def map_err_def ret_def)
  show ?thesis
  proof (cases "token_valid (app_http app) (app_auth_token app) req")
    case False
    then have "w' = w" "resp = Some unauthorized" using serve(1) by (simp_all add: served require_bearer_token_def)
    then show ?thesis using serve(2) reply [of unauthorized] by (auto simp: unauthorized_def is_success_def)
  next
    case True
    then have out: "w' = w1" "resp = into_response (map_sum (from_reconcile_error (app_text app)) (\<lambda>rep. json_response (report_to_json rep)) res)"
      using serve(1) by (simp_all add: served require_bearer_token_def handled)
    have "\<exists>rep. res = Inr rep \<and> rp_json rp = Inr (report_to_json rep)" if "r = Inr rp" "is_success (rp_status rp)" for rp
    proof (cases res)
      case (Inl e)
      show ?thesis
      proof (cases resp)
        case None
        then show ?thesis using lost that serve(2) by simp
      next
        case (Some x)
        then show ?thesis
          using reply [of x rp] from_reconcile_error_refuses [of "app_text app" e x] that serve(2) out(2) Inl by simp
      qed
    next
      case (Inr rep)
      then show ?thesis
        using reply [of "json_response (report_to_json rep)" rp] that serve(2) out(2)
        by (simp add: into_response_def json_response_def)
    qed
    then show ?thesis using run out(1) by blast
  qed
qed

text \<open>\<open>apply\<close> and \<open>diff\<close> after their token was found.\<close>

lemma cli_reconcile_wp:
  fixes dry dir ro
  assumes "wire_ok (app_http app) wr url" "sh_net sh = loopback app wr"
  defines "done_by \<equiv> \<lambda>c res c'. co_fs c' = co_fs c \<and>
    reconcile (app_yaml app) (app_system app) (api_request app dry (rec_body dir ro)) (co_ext c) = (res, co_ext c')"
  shows "wp (cli_reconcile sh url dir dry ro tok)
    (\<lambda>_ c'. \<exists>rep. done_by c (Inr rep) c' \<and>
       co_out c' = co_out c @ change_lines sh (rep_changes rep) @ summary_line dry (rep_changes rep))
    (\<lambda>_ c'. co_fs c' = co_fs c \<and> (co_ext c' = co_ext c \<or> (\<exists>res. done_by c res c'))) c"
proof -
  let ?call = "\<lambda>bearer. client_call bearer ''POST'' (url_base url @ (if dry then ''/reconcile/dry-run'' else ''/reconcile''))
    (JsonContent (reconcile_json dir ro))"
  let ?E = "\<lambda>_ c'. co_fs c' = co_fs c \<and> (co_ext c' = co_ext c \<or> (\<exists>res. done_by c res c'))"
  let ?got = "\<lambda>rp d. co_fs d = co_fs c \<and> co_out d = co_out c \<and>
    (if is_success (rp_status rp) then \<exists>rep. done_by c (Inr rep) d \<and> rp_json rp = Inr (report_to_json rep)
     else co_ext d = co_ext c \<or> (\<exists>res. done_by c res d))"
  have send: "wp (send_to sh url (?call bearer)) ?got ?E c" for bearer
  proof -
    obtain r w' where send: "cn_send (sh_net sh) (?call bearer) (co_ext c) = (r, w')" by fastforce
    from loopback_reconcile [OF assms(1) this [unfolded assms(2)]] show ?thesis
      unfolding send_to_def wp_map_err wp_outside by (cases r) (auto simp: wp_def send done_by_def)
  qed
  have print: "wp (print_report sh dry (report_to_json rep))
      (\<lambda>_ c'. \<exists>rep. done_by c (Inr rep) c' \<and>
         co_out c' = co_out c @ change_lines sh (rep_changes rep) @ summary_line dry (rep_changes rep)) ?E d"
    if "done_by c (Inr rep) d" "co_out d = co_out c" for rep d
    using print_report_out [of sh dry rep d] that by (auto simp: wp_def done_by_def)
  have rest: "wp (seq (expect_success sh rp) (\<lambda>resp. seq (body_json resp) (print_report sh dry)))
      (\<lambda>_ c'. \<exists>rep. done_by c (Inr rep) c' \<and>
         co_out c' = co_out c @ change_lines sh (rep_changes rep) @ summary_line dry (rep_changes rep)) ?E d"
    if "?got rp d" for rp d
    using that by (cases "is_success (rp_status rp)") (auto simp: expect_success_def body_json_def wp_simps intro: print)
  show ?thesis
    unfolding cli_reconcile_def Let_def reconcile_json_def [symmetric]
    by (rule wp_seqI [OF wp_mono [OF authed_client_wp]], assumption, simp, elim conjE, hypsubst,
        rule wp_seqI [OF send], rule rest)
qed

lemma token_reconcile:
  assumes "wire_ok (app_http app) wr url" "sh_net sh = loopback app wr"
    and "seq (resolve_token sh token) (cli_reconcile sh url dir dry ro) c = (r, c')"
  defines "rec \<equiv> reconcile (app_yaml app) (app_system app) (api_request app dry (rec_body dir ro)) (co_ext c)"
  shows "co_fs c' = co_fs c" and "\<exists>e. r = Inl e \<Longrightarrow> co_ext c' = co_ext c \<or> (\<exists>res. rec = (res, co_ext c'))"
    and "r = Inr () \<Longrightarrow> \<exists>rep. rec = (Inr rep, co_ext c') \<and>
      co_out c' = co_out c @ change_lines sh (rep_changes rep) @ summary_line dry (rep_changes rep)"
proof -
  obtain res d where token: "resolve_token sh token c = (res, d)" by fastforce
  then have [simp]: "d = c" by (rule resolve_token_same)
  have "co_fs c' = co_fs c \<and> (case r of
      Inr _ \<Rightarrow> \<exists>rep. rec = (Inr rep, co_ext c') \<and>
        co_out c' = co_out c @ change_lines sh (rep_changes rep) @ summary_line dry (rep_changes rep)
    | Inl _ \<Rightarrow> co_ext c' = co_ext c \<or> (\<exists>res. rec = (res, co_ext c')))"
  proof (cases res)
    case (Inl e)
    then show ?thesis using assms(3) token by (simp add: seq_def) auto
  next
    case (Inr tok)
    then have "cli_reconcile sh url dir dry ro tok c = (r, c')" using assms(3) token by (simp add: seq_def)
    then show ?thesis
      using cli_reconcile_wp [OF assms(1,2), where dry = dry and dir = dir and ro = ro and tok = tok and c = c]
      by (cases r) (auto simp: wp_def rec_def)
  qed
  then show "co_fs c' = co_fs c" and "\<exists>e. r = Inl e \<Longrightarrow> co_ext c' = co_ext c \<or> (\<exists>res. rec = (res, co_ext c'))"
    and "r = Inr () \<Longrightarrow> \<exists>rep. rec = (Inr rep, co_ext c') \<and>
      co_out c' = co_out c @ change_lines sh (rep_changes rep) @ summary_line dry (rep_changes rep)" by auto
qed

subsection \<open>The commands\<close>

text \<open>What a dry run leaves of the world, and that an apply reports the changes that a dry run reports.\<close>

lemma dry_run_world:
  "rq_dry_run req \<Longrightarrow> reconcile yp sys req w = (res, w') \<Longrightarrow>
     w' = w \<or> w' = w\<lparr>w_store := snd (so_list_enclaves (sys_store sys) (w_store w))\<rparr>"
  by (auto simp: reconcile_unfold Let_def split: sum.splits prod.splits)

lemma dry_run_changes:
  assumes "reconcile yp sys req w = (Inr dry, w1)" "reconcile yp sys req' w = (Inr rep, w2)"
    and "rq_dry_run req" "\<not> rq_dry_run req'" "rq_enclaves_dir req = rq_enclaves_dir req'"
  shows "rep_changes rep = rep_changes dry"
  using assms
  by (auto simp: reconcile_unfold new_report_def Let_def split: sum.splits prod.splits
      dest!: apply_changes_report)

text \<open>
  C7. \<open>diff\<close> against a server changes nothing and announces what \<open>apply\<close> prints. However it ends, the files of the
  client are as they were, and the world of the server has at most been read from the store. When it
  succeeds and \<open>apply\<close> on the same directory succeeds from the same state, with whatever token, both
  print the same lines, one for each change that the server made; \<open>apply\<close> succeeds although the report has errors.
\<close>
theorem diff_announces_apply:
  assumes "wire_ok (app_http app) wr (server_url remote)" "sh_net sh = loopback app wr"
    and "cli_diff sh dir remote token c = (r, c1)"
  shows "co_fs c1 = co_fs c \<and>
    co_ext c1 \<in> {co_ext c, (co_ext c)\<lparr>w_store := snd (so_list_enclaves (app_store app) (w_store (co_ext c)))\<rparr>} \<and>
    (\<forall>ro token' c2. r = Inr () \<and> cli_apply sh dir ro remote token' c = (Inr (), c2) \<longrightarrow>
      (\<exists>rep. reconcile (app_yaml app) (app_system app) (api_request app False (rec_body dir ro)) (co_ext c) = (Inr rep, co_ext c2) \<and>
         co_out c1 = co_out c @ change_lines sh (rep_changes rep) @ summary_line True (rep_changes rep) \<and>
         co_out c2 = co_out c @ change_lines sh (rep_changes rep) @ summary_line False (rep_changes rep)))"
proof -
  let ?rec = "\<lambda>dry ro. reconcile (app_yaml app) (app_system app) (api_request app dry (rec_body dir ro)) (co_ext c)"
  have dry: "co_ext c1 \<in> {co_ext c, (co_ext c)\<lparr>w_store := snd (so_list_enclaves (app_store app) (w_store (co_ext c)))\<rparr>}"
    if "?rec True False = (res, co_ext c1)" for res
    using dry_run_world [OF _ that] by (simp add: api_request_def)
  note diff = token_reconcile [OF assms(1,2) assms(3) [unfolded cli_diff_def]]
  have "co_ext c1 \<in> {co_ext c, (co_ext c)\<lparr>w_store := snd (so_list_enclaves (app_store app) (w_store (co_ext c)))\<rparr>}"
    using diff(2,3) dry by (cases r) (fastforce, fastforce)
  moreover have "\<exists>rep. ?rec False ro = (Inr rep, co_ext c2) \<and>
      co_out c1 = co_out c @ change_lines sh (rep_changes rep) @ summary_line True (rep_changes rep) \<and>
      co_out c2 = co_out c @ change_lines sh (rep_changes rep) @ summary_line False (rep_changes rep)"
    if ok: "r = Inr ()" and ap: "cli_apply sh dir ro remote token' c = (Inr (), c2)" for ro token' c2
  proof -
    obtain d where d: "?rec True False = (Inr d, co_ext c1)"
      "co_out c1 = co_out c @ change_lines sh (rep_changes d) @ summary_line True (rep_changes d)"
      using diff(3) ok by blast
    obtain rep where rep: "?rec False ro = (Inr rep, co_ext c2)"
      "co_out c2 = co_out c @ change_lines sh (rep_changes rep) @ summary_line False (rep_changes rep)"
      using token_reconcile(3) [OF assms(1,2) ap [unfolded cli_apply_def]] by blast
    have "rep_changes rep = rep_changes d" using dry_run_changes [OF d(1) rep(1)] by (simp add: api_request_def)
    with d rep show ?thesis by simp
  qed
  ultimately show ?thesis using diff(1) by blast
qed

subsection \<open>An example\<close>

text \<open>
  A wire that has two paths; the body of a request is the flag and the directory, one after the other.
\<close>

definition wire_stack :: http_stack where
  "wire_stack = sample_stack\<lparr>hs_reconcile_body := (\<lambda>req. case hr_body req of
     b # dir \<Rightarrow> Inr \<lparr>rb_enclaves_dir = map (\<lambda>b. char_of (unat b)) dir, rb_resources_only = (b = 1)\<rparr>
   | [] \<Rightarrow> Inl (status_only 400))\<rparr>"

definition sample_wire :: wire where
  "sample_wire = \<lparr>
     wr_request = (\<lambda>call. \<lparr>hr_method = POST,
       hr_path = (if ends_with ''dry-run'' (call_url call) then [''reconcile'', ''dry-run''] else [''reconcile'']),
       hr_query = [], hr_authorization = map_of (call_headers call) ''authorization'',
       hr_body = (case call_body call of
           JsonContent v \<Rightarrow> (if json_index v ''resources_only'' = JBool True then 1 else 0) #
             to_bytes (str_or [] (json_str_at v ''enclaves_dir''))
         | _ \<Rightarrow> [])\<rparr>),
     wr_reply = (\<lambda>resp. case resp of
         None \<Rightarrow> Inl ''connection closed''
       | Some r \<Rightarrow> Inr \<lparr>rp_status = resp_status r, rp_headers = [], rp_text = Inr [],
           rp_json = (case resp_body r of JsonBody v \<Rightarrow> Inr v | _ \<Rightarrow> Inl ''no JSON'')\<rparr>)\<rparr>"

text \<open>One enclave on disk, with nothing in it.\<close>

definition wire_yaml :: yaml_parsers where
  "wire_yaml = \<lparr>yp_enclave = (\<lambda>_. Inr \<lparr>re_id = ''a'', re_name = ''A'', re_cloud = None, re_region = ''r'',
       re_identity = None, re_network = None, re_dns = None, re_imports = [], re_exports = [], re_partitions = []\<rparr>),
     yp_partition = (\<lambda>_. Inl ''no partition'')\<rparr>"

definition wire_world :: "(mem_store, unit) world" where
  "wire_world = \<lparr>w_store = mem_new,
     w_fs = \<lparr>fs_nodes = [(''/c'', FsDir), (''/c/a'', FsDir), (''/c/a/config.yml'', FsFile ''A'')], fs_refused = (\<lambda>_. None)\<rparr>,
     w_ext = (), w_tick = 0\<rparr>"

definition wire_app :: "(mem_store, unit) app_state" where
  "wire_app = sample_app\<lparr>app_yaml := wire_yaml, app_http := wire_stack\<rparr>"

lemma sample_wire_ok: "wire_ok (app_http wire_app) sample_wire url"
proof -
  have "ends_with ''dry-run'' (p @ ''/reconcile/dry-run'')" "\<not> ends_with ''dry-run'' (p @ ''/reconcile'')" for p
    by (auto simp: ends_with_iff append_eq_append_conv2 append_eq_Cons_conv Cons_eq_append_conv)
  then show ?thesis
    by (auto simp: wire_ok_def sample_wire_def wire_app_def sample_app_def wire_stack_def client_call_def Let_def
        reconcile_json_def json_index_def json_get_object json_str_at_def str_or_def to_bytes_def comp_def byte_of_char json_as_str_def
        split: http_body.split)
qed

theorem diff_announces_apply_witness:
  "\<exists>chs c1 c2. cli_diff (example_shell (loopback wire_app sample_wire)) ''/c'' None (Some ''t'') (example_console [] wire_world) = (Inr (), c1) \<and>
     cli_apply (example_shell (loopback wire_app sample_wire)) ''/c'' False None (Some ''t'') (example_console [] wire_world) = (Inr (), c2) \<and>
     co_ext c1 = wire_world \<and>
     co_out c1 = change_lines (example_shell (loopback wire_app sample_wire)) chs @ summary_line True chs \<and>
     co_out c2 = change_lines (example_shell (loopback wire_app sample_wire)) chs @ summary_line False chs"
proof -
  let ?sh = "example_shell (loopback wire_app sample_wire)"
  have "fst (cli_diff ?sh ''/c'' None (Some ''t'') (example_console [] wire_world)) = Inr ()" by code_simp
  then obtain c1 where diff: "cli_diff ?sh ''/c'' None (Some ''t'') (example_console [] wire_world) = (Inr (), c1)"
    by (metis prod.collapse)
  have "fst (cli_apply ?sh ''/c'' False None (Some ''t'') (example_console [] wire_world)) = Inr ()" by code_simp
  then obtain c2 where ap: "cli_apply ?sh ''/c'' False None (Some ''t'') (example_console [] wire_world) = (Inr (), c2)"
    by (metis prod.collapse)
  have net: "sh_net ?sh = loopback wire_app sample_wire" by (simp add: example_shell_def)
  have "co_out (example_console [] wire_world) = []" "co_ext (example_console [] wire_world) = wire_world"
    by (simp_all add: example_console_def)
  moreover have "snd (so_list_enclaves (app_store wire_app) (w_store wire_world)) = w_store wire_world"
    by (simp add: wire_app_def sample_app_def sample_system_def memory_ops_def mem_list_enclaves_def)
  ultimately show ?thesis
    using diff_announces_apply [OF sample_wire_ok net diff] diff ap by fastforce
qed

end
