(* ===== verification/Concurrent_Requests.thy ===== *)
theory Concurrent_Requests
  imports Api_Protocol Stored_Handles
begin

section \<open>Requests that are served at the same time\<close>

text \<open>
  \<open>axum::serve\<close> runs every request as a task of its own, over a clone of the \<open>AppState\<close> (\<open>app.rs\<close>). A
  history is the sequence of the calls of the store, each with the number of the request that makes it. It grows by
  the next call of some request, and which call that is follows from running the handler of the
  request against the history so far. So every interleaving of the requests at the calls of the store is a
  history. What a request sees of the files, the clouds and the clock is its own world: the clouds are not
  shared between the requests of a history, each may find any answers there.
\<close>

subsection \<open>The server over a shared store\<close>

definition shared_system :: "('s, 'x) system \<Rightarrow> ('s shared, 'x) system" where
  "shared_system sys = \<lparr>sys_store = shared_ops (sys_store sys), sys_registry = sys_registry sys, sys_now = sys_now sys,
     sys_uuid = sys_uuid sys, sys_digest = sys_digest sys, sys_petgraph = sys_petgraph sys,
     sys_parse_json = sys_parse_json sys, sys_home = sys_home sys, sys_proc = sys_proc sys\<rparr>"

definition shared_app :: "('s, 'x) app_state \<Rightarrow> ('s shared, 'x) app_state" where
  "shared_app app = \<lparr>app_system = shared_system (app_system app), app_yaml = app_yaml app, app_http = app_http app,
     app_text = app_text app, app_auth_token = app_auth_token app, app_api_base = app_api_base app\<rparr>"

definition shared_world :: "'s \<Rightarrow> store_call list list \<Rightarrow> ('s, 'x) world \<Rightarrow> ('s shared, 'x) world" where
  "shared_world s sched w = \<lparr>w_store = \<lparr>sh_store = s, sh_sched = sched, sh_log = []\<rparr>, w_fs = w_fs w, w_ext = w_ext w,
     w_tick = w_tick w\<rparr>"

lemma shared_app_simps [simp]:
  "app_store (shared_app app) = shared_ops (app_store app)" "app_registry (shared_app app) = app_registry app"
  "app_http (shared_app app) = app_http app" "app_auth_token (shared_app app) = app_auth_token app"
  "app_text (shared_app app) = app_text app" "app_yaml (shared_app app) = app_yaml app"
  by (simp_all add: shared_app_def shared_system_def)

lemma shared_requests [simp]:
  "routed (shared_app app) req = routed app req" "tf_call (shared_app app) req = tf_call app req"
  "lock_request (shared_app app) k info req = lock_request app k info req"
  "put_request (shared_app app) k req = put_request app k req"
  by (simp_all add: routed_def tf_call_def lock_request_def put_request_def)

text \<open>A request that is served while the others make the calls of a schedule.\<close>

definition serve_among :: "('s, 'x) app_state \<Rightarrow> http_request \<Rightarrow> 's \<Rightarrow> store_call list list \<Rightarrow> ('s, 'x) world \<Rightarrow>
    http_response option \<times> ('s shared, 'x) world" where
  "serve_among app req s sched w = serve (shared_app app) req (shared_world s sched w)"

definition own_log :: "('s, 'x) app_state \<Rightarrow> http_request \<Rightarrow> 's \<Rightarrow> store_call list list \<Rightarrow> ('s, 'x) world \<Rightarrow> store_call list" where
  "own_log app req s sched w = map snd (filter fst (sh_log (w_store (snd (serve_among app req s sched w)))))"

subsection \<open>Histories\<close>

type_synonym history = "(nat \<times> store_call) list"

definition own_calls :: "nat \<Rightarrow> history \<Rightarrow> store_call list" where
  "own_calls i h = map snd (filter (\<lambda>(j, _). j = i) h)"

text \<open>The calls of the others before each call of a request, and those after its last one.\<close>

fun gaps :: "nat \<Rightarrow> history \<Rightarrow> store_call list list" where
  "gaps i [] = [[]]"
| "gaps i ((j, c) # h) = (if j = i then [] # gaps i h else case gaps i h of
     [] \<Rightarrow> [[c]] | g # gs \<Rightarrow> (c # g) # gs)"

definition next_call :: "('s, 'x) app_state \<Rightarrow> http_request \<Rightarrow> ('s, 'x) world \<Rightarrow> 's \<Rightarrow> nat \<Rightarrow> history \<Rightarrow> store_call option" where
  "next_call app req w s i h = (let own = own_log app req s (gaps i h) w; n = length (own_calls i h) in
     if take n own = own_calls i h \<and> n < length own then Some (own ! n) else None)"

text \<open>The histories of some requests, each with the world that it finds, over a store that is in state \<open>s\<close>.\<close>

inductive served_together :: "('s, 'x) app_state \<Rightarrow> (http_request \<times> ('s, 'x) world) list \<Rightarrow> 's \<Rightarrow> history \<Rightarrow> bool"
  for app reqs s where
  start: "served_together app reqs s []"
| call: "served_together app reqs s (h @ [(i, c)])"
    if "served_together app reqs s h" "i < length reqs" "next_call app (fst (reqs ! i)) (snd (reqs ! i)) s i h = Some c"

inductive_simps served_together_snoc: "served_together app reqs s (h @ [(i, c)])"

definition store_after :: "('s, 'x) app_state \<Rightarrow> 's \<Rightarrow> history \<Rightarrow> 's" where
  "store_after app s h = run_calls (app_store app) (map snd h) s"

lemma set_gaps: "g \<in> set (gaps i h) \<Longrightarrow> set g \<subseteq> snd ` set h"
  by (induction i h arbitrary: g rule: gaps.induct) (auto split: if_splits list.splits, fastforce+)

lemma prefix_served: "served_together app reqs s (h @ vs) \<Longrightarrow> served_together app reqs s h"
proof (induction vs rule: rev_induct)
  case (snoc v vs)
  then show ?case by (cases v) (simp add: served_together_snoc flip: append_assoc)
qed simp

subsection \<open>Rely and guarantee\<close>

text \<open>
  A request guarantees good calls when every run among good calls makes only good calls itself. When all requests do,
  every call of every history is good, and so is the store: each relies only on calls that were made before.
\<close>

definition guarantees ::
  "('s, 'x) app_state \<Rightarrow> (store_call \<Rightarrow> bool) \<Rightarrow> ('s \<Rightarrow> bool) \<Rightarrow> http_request \<Rightarrow> bool" where
  "guarantees app good K req \<longleftrightarrow> (\<forall>s sched w. K s \<longrightarrow> list_all (list_all good) sched \<longrightarrow>
     list_all good (own_log app req s sched w))"

lemma served_good:
  assumes "served_together app reqs s h" "K s" "\<And>req w. (req, w) \<in> set reqs \<Longrightarrow> guarantees app good K req"
  shows "list_all good (map snd h)"
  using assms(1)
proof induction
  case (call h i c)
  let ?req = "fst (reqs ! i)" and ?w = "snd (reqs ! i)"
  have gaps: "list_all (list_all good) (gaps i h)"
    using call.IH set_gaps [of _ i h] by (fastforce simp: list_all_iff)
  have "(?req, ?w) \<in> set reqs" using call.hyps(2) by simp
  from assms(3) [OF this] have "list_all good (own_log app ?req s (gaps i h) ?w)"
    using gaps assms(2) by (simp add: guarantees_def)
  moreover have "c \<in> set (own_log app ?req s (gaps i h) ?w)"
    using call.hyps(3) by (auto simp: next_call_def Let_def split: if_splits)
  ultimately show ?case using call.IH by (simp add: list_all_iff)
qed simp

theorem served_keeps:
  assumes "served_together app reqs s h" "K s" "\<And>req w. (req, w) \<in> set reqs \<Longrightarrow> guarantees app good K req"
    and "calls_keep (app_store app) good K"
  shows "K (store_after app s h)"
  unfolding store_after_def by (rule run_good_calls [OF assms(4) served_good [OF assms(1-3)] assms(2)])

text \<open>A request of the server guarantees what its handlers keep.\<close>

lemma guaranteesI:
  assumes "server_keeps (shared_app app) (shared_inv good K)" "calls_keep (app_store app) good K"
    and "\<And>c. tf_call app req = Some c \<Longrightarrow> good (CTf c)"
  shows "guarantees app good K req"
  unfolding guarantees_def
proof (intro allI impI)
  fix s :: 'a and sched and w :: "('a, 'b) world"
  assume start: "K s" "list_all (list_all good) sched"
  have turn: "preserves (shared_inv good K) (tf_request_act (shared_ops (app_store app)) c)" if "good (CTf c)" for c
  proof -
    have "preserves K (tf_request_act (app_store app) c)"
      using calls_keepD [OF assms(2) that] by (simp add: call_act_def)
    then show ?thesis
      using that by (cases c) (simp_all add: preserves_turn [OF assms(2)] tf_request_act_def flip: void_def)
  qed
  have "request_keeps (shared_app app) (shared_inv good K) req"
    by (rule request_keepsI) (use turn assms(3) in simp)
  from serve_keeps [OF assms(1) this, of "shared_world s sched w"] start
  have "shared_inv good K (w_store (snd (serve_among app req s sched w)))"
    by (simp add: serve_among_def shared_world_def shared_inv_def)
  then show "list_all good (own_log app req s sched w)"
    by (auto simp: own_log_def shared_inv_def list_all_iff)
qed

text \<open>What the operations other than writing enclaves keep in a shared store.\<close>

lemma shared_handler_ops:
  assumes "calls_keep ops good K" "\<And>c. (case c of CUpsertEnclave _ \<Rightarrow> False | CUpsertPartition _ _ \<Rightarrow> False | CTf _ \<Rightarrow> False | _ \<Rightarrow> True) \<Longrightarrow> good c"
  shows "handler_ops_keep (shared_ops ops) (shared_inv good K)"
proof -
  note law = calls_keepD [OF assms(1) assms(2)]
  show ?thesis
    unfolding handler_ops_keep_def base_ops_keep_def
    using law [of "CGetEnclave _"] law [of CListEnclaves] law [of "CDeleteEnclave _"] law [of "CAppendEvent _"]
      law [of "CUpsertRun _"] law [of "CDeletePartition _ _"] law [of "CListEvents _ _"] law [of "CListRuns _ _"] law [of "CGetRun _"]
    by (simp add: call_act_def assms(2) preserves_turn [OF assms(1)])
qed

end
