(* ===== verification/Shared_Handles.thy ===== *)
theory Shared_Handles
  imports Concurrent_Requests Postgres_Refine
begin

section \<open>Handles in a shared store\<close>

text \<open>
  What is stored stays well-formed when requests are served at the same time: the contract
  \<open>handles_server\<close> of a store extends \<open>handles_store\<close> to all its calls, and a store with this contract still has it
  when it is shared with requests that write well-formed states. The stores in memory and in the file have the contract as
  \<open>full_store\<close>s, the one in PostgreSQL by the lemmas on its operations.
\<close>

definition call_wf :: "store_call \<Rightarrow> bool" where
  "call_wf c = (case c of CUpsertEnclave st \<Rightarrow> es_wf st | CUpsertPartition _ ps \<Rightarrow> ps_wf ps | _ \<Rightarrow> True)"

lemma call_wf_simps [simp]:
  "call_wf (CUpsertEnclave st) = es_wf st" "call_wf (CUpsertPartition i ps) = ps_wf ps" "call_wf (CGetEnclave i)"
  "call_wf CListEnclaves" "call_wf (CDeleteEnclave i)" "call_wf (CDeletePartition i p)" "call_wf (CAppendEvent ev)"
  "call_wf (CListEvents e n)" "call_wf (CTf r)" "call_wf (CUpsertRun r')" "call_wf (CListRuns i p)" "call_wf (CGetRun u)"
  by (simp_all add: call_wf_def)

locale handles_server = handles_store +
  assumes kept_calls: "calls_keep ops call_wf K"
begin

lemma kept_turn: "yields K R m \<Longrightarrow> call_wf c \<Longrightarrow> yields (shared_inv call_wf K) R (turn ops c m)"
  unfolding yields_def by (intro allI impI wp_turn_inv [OF kept_calls]) auto

lemma shared_handles: "handles_store (shared_ops ops) (shared_inv call_wf K)"
  by unfold_locales (simp_all add: kept_turn kept_get kept_list preserves_turn [OF kept_calls] kept_upsert kept_delete
    kept_append kept_run)

text \<open>Every request of a server over this store writes well-formed states only.\<close>

lemma request_guarantees:
  assumes "app_store app = ops" "\<And>t d. for_cloud (app_registry app) t = Inr d \<Longrightarrow> handle_driver d"
  shows "guarantees app call_wf K req"
proof (rule guaranteesI)
  show calls: "calls_keep (app_store app) call_wf K" using kept_calls assms(1) by simp
  have "handler_ops_keep (shared_ops (app_store app)) (shared_inv call_wf K)"
    by (rule shared_handler_ops [OF calls]) (auto simp: call_wf_def split: store_call.splits)
  then show "server_keeps (shared_app app) (shared_inv call_wf K)"
    using handles_store.reconcile_keeps_handles [OF shared_handles, of "app_system (shared_app app)"] assms
    by (simp add: server_keeps_def)
qed simp

lemma served_handles:
  assumes "app_store app = ops" "\<And>t d. for_cloud (app_registry app) t = Inr d \<Longrightarrow> handle_driver d"
    and "served_together app reqs s h" "K s"
  shows "K (store_after app s h)"
  by (rule served_keeps [where K = K and good = call_wf, OF assms(3,4) request_guarantees [OF assms(1,2)]])
     (simp_all add: assms(1) kept_calls)

end

subsection \<open>The contract of the stores\<close>

lemma view_wf_simps [simp]:
  "view_wf (v\<lparr>sv_events := es\<rparr>) = view_wf v" "view_wf (v\<lparr>sv_tf_state := t\<rparr>) = view_wf v"
  "view_wf (v\<lparr>sv_tf_locks := l\<rparr>) = view_wf v" "view_wf (v\<lparr>sv_runs := r\<rparr>) = view_wf v"
  "view_wf v \<Longrightarrow> view_wf (v\<lparr>sv_enclaves := (sv_enclaves v)(i := None)\<rparr>)"
  "view_wf v \<Longrightarrow> es_wf st \<Longrightarrow> view_wf (v\<lparr>sv_enclaves := (sv_enclaves v)(i \<mapsto> st)\<rparr>)"
  by (simp_all add: view_wf_def)

lemma es_wf_parts:
  "es_wf st \<Longrightarrow> ps_wf ps \<Longrightarrow> es_wf (st\<lparr>es_partitions := hm_insert p ps (es_partitions st)\<rparr>)"
  "es_wf st \<Longrightarrow> es_wf (st\<lparr>es_partitions := hm_remove p (es_partitions st)\<rparr>)"
proof -
  show "es_wf (st\<lparr>es_partitions := hm_insert p ps (es_partitions st)\<rparr>)" if "es_wf st" "ps_wf ps"
    using es_wf_put [OF that, of p] by (simp add: put_partition_def)
  show "es_wf (st\<lparr>es_partitions := hm_remove p (es_partitions st)\<rparr>)" if "es_wf st"
    using that unfolding es_wf_def by (simp add: hm_get_remove)
qed

lemma view_wf_stored: "view_wf v \<Longrightarrow> sv_enclaves v i = Some st \<Longrightarrow> es_wf st"
  by (metis view_wf_def option.pred_inject(2))

context full_store
begin

lemma calls_keep_handles: "calls_keep ops call_wf (handles_kept abs inv)"
  unfolding calls_keep_def
proof (intro allI impI)
  fix c assume c: "call_wf c"
  let ?P = "handles_kept abs inv"
  have reads: "preserves ?P (so_list_events ops e n)" "preserves ?P (so_list_iac_runs ops i p)" "preserves ?P (so_get_iac_run ops u)" for e n i p u
    by (rule preservesI_wp, auto simp: handles_kept_def intro!: wp_mono [OF events_law] wp_mono [OF run_list_law] wp_mono [OF run_get_law])+
  have parts: "ps_wf ps \<Longrightarrow> preserves ?P (so_upsert_partition ops i ps)" "preserves ?P (so_delete_partition ops i p)" for i ps p
    by (rule preservesI_wp, auto simp: handles_kept_def es_wf_parts view_wf_stored split: option.split
      intro!: wp_mono [OF part_upsert_law] wp_mono [OF part_delete_law])+
  have "preserves ?P (tf_request_act ops r)" for r
    by (rule preservesI_wp, cases r) (auto simp: handles_kept_def tf_request_act_def wp_simps
      intro!: wp_mono [OF tf_get_law] wp_mono [OF tf_put_law] wp_mono [OF tf_lock_law] wp_mono [OF tf_delete_law] wp_mono [OF tf_unlock_law])
  with c reads parts show "preserves ?P (call_act ops c)"
    using yields_preserves [OF handles.kept_get] yields_preserves [OF handles.kept_list] handles.kept_upsert handles.kept_delete
      handles.kept_append handles.kept_run
    by (cases c) (simp_all add: call_act_def)
qed

end

sublocale full_store \<subseteq> server: handles_server ops "handles_kept abs inv"
  by unfold_locales (rule calls_keep_handles)

text \<open>The PostgreSQL store: its statements on the state of Terraform, the locks and the runs keep the enclaves.\<close>

definition rows_wf :: "'c pg_env \<Rightarrow> pg_tables \<Rightarrow> bool" where
  "rows_wf env d \<longleftrightarrow> pg_wf env d \<and> view_wf (pg_view env d)"

lemma rows_wf_updates [simp]:
  "rows_wf env (d\<lparr>pg_tf_state := t\<rparr>) = rows_wf env d" "rows_wf env (d\<lparr>pg_tf_locks := l\<rparr>) = rows_wf env d"
  by (simp_all add: rows_wf_def pg_wf_def view_wf_def pg_view_def)

text \<open>A statement that keeps the rows well-formed, and one that does so whatever they are.\<close>

lemma pg_exec_keeps:
  assumes "\<And>d a d'. q d = Inr (a, d') \<Longrightarrow> rows_wf env d \<Longrightarrow> rows_wf env d'"
  shows "preserves (\<lambda>s. rows_wf env (pg_data s)) (pg_exec env q)"
  using assms by (auto simp: preserves_def pg_exec_def split: prod.splits option.splits sum.splits)

lemma pg_json_keeps:
  "preserves P (json_result r)" "preserves P (from_json_opt dec row)" "preserves P (from_json_all dec rows)"
  unfolding from_json_opt_def from_json_all_def json_result_def by (intro preserves_intros)+

lemma pg_tf_keeps: "preserves (\<lambda>s. rows_wf env (pg_data s)) (tf_request_act (postgres_ops env) r)"
proof -
  let ?P = "\<lambda>s. rows_wf env (pg_data s)"
  have stmts: "preserves ?P (pg_exec env (sql_get_tf_state env k))" "preserves ?P (pg_exec env (sql_put_tf_state env k b))"
    "preserves ?P (pg_exec env (sql_delete_tf_state env k))" "preserves ?P (pg_exec env (sql_insert_lock env k v))"
    "preserves ?P (pg_exec env (sql_get_lock env k))" "preserves ?P (pg_exec env (sql_delete_lock env k))"
    "preserves ?P (pg_exec env (sql_delete_lock_of env k i))" for k b v i
    by (rule pg_exec_keeps, auto simp: sql_get_tf_state_def sql_put_tf_state_def sql_delete_tf_state_def sql_insert_lock_def
      sql_get_lock_def sql_delete_lock_def sql_delete_lock_of_def split: option.splits if_splits)+
  have lock: "preserves ?P (pg_lock_tf_state env k v)" for k v
    unfolding pg_lock_tf_state_def by (intro preserves_intros stmts)
  show ?thesis
    by (cases r) (simp_all add: tf_request_act_def postgres_ops_def lock pg_get_tf_state_def pg_put_tf_state_def
      pg_delete_tf_state_def pg_unlock_tf_state_def stmts flip: void_def)
qed

lemma pg_reads_keep:
  "preserves (\<lambda>s. rows_wf env (pg_data s)) (pg_list_events env e n)"
  "preserves (\<lambda>s. rows_wf env (pg_data s)) (pg_list_iac_runs env i p)"
  "preserves (\<lambda>s. rows_wf env (pg_data s)) (pg_get_iac_run env u)"
proof -
  let ?P = "\<lambda>s. rows_wf env (pg_data s)"
  have stmts: "preserves ?P (pg_exec env (sql_list_events env x m))" "preserves ?P (pg_exec env (sql_list_runs env y z))"
    "preserves ?P (pg_exec env (sql_get_run env u))" for x m y z
    by (rule pg_exec_keeps, auto simp: sql_list_events_def sql_list_runs_def sql_get_run_def)+
  show "preserves ?P (pg_list_events env e n)" "preserves ?P (pg_list_iac_runs env i p)" "preserves ?P (pg_get_iac_run env u)"
    unfolding pg_list_events_def pg_list_iac_runs_def pg_get_iac_run_def by (intro preserves_intros stmts pg_json_keeps)+
qed

lemma pg_parts_keep:
  assumes "json_codec_ok (pe_codec env)"
  shows "ps_wf ps \<Longrightarrow> preserves (\<lambda>s. rows_wf env (pg_data s)) (pg_upsert_partition env i ps)"
    and "preserves (\<lambda>s. rows_wf env (pg_data s)) (pg_delete_partition env i p)"
  by (rule preservesI_wp, unfold rows_wf_def, erule conjE, rule wp_mono [OF pg_upsert_partition_wp [OF assms]],
      assumption, auto simp: es_wf_parts view_wf_stored)
     (rule preservesI_wp, erule conjE, rule wp_mono [OF pg_delete_partition_wp [OF assms]],
      assumption, auto simp: es_wf_parts view_wf_stored)

lemma pg_handles_server:
  assumes "json_codec_ok (pe_codec env)"
  shows "handles_server (postgres_ops env) (handles_kept (pg_abs env) (pg_inv env))"
proof -
  have K: "handles_kept (pg_abs env) (pg_inv env) = (\<lambda>s. rows_wf env (pg_data s))"
    by (auto simp: handles_kept_def pg_abs_def pg_inv_def rows_wf_def)
  have base: "handles_store (postgres_ops env) (\<lambda>s. rows_wf env (pg_data s))"
    using state_store.keeps_handles [OF pg_state_store [OF assms]] by (simp only: K)
  have "preserves (\<lambda>s. rows_wf env (pg_data s)) (call_act (postgres_ops env) c)" if "call_wf c" for c
    using that yields_preserves [OF handles_store.kept_get [OF base]] yields_preserves [OF handles_store.kept_list [OF base]]
      handles_store.kept_upsert [OF base] handles_store.kept_delete [OF base] handles_store.kept_append [OF base]
      handles_store.kept_run [OF base] pg_tf_keeps [of env] pg_reads_keep [of env] pg_parts_keep [OF assms]
    by (cases c) (simp_all add: call_act_def, simp_all add: postgres_ops_def)
  with base show ?thesis by (simp add: handles_server_def handles_server_axioms_def calls_keep_def K)
qed

end
