(* ===== verification/Request_Causality.thy ===== *)
theory Request_Causality
  imports Concurrent_Requests "HOL-Library.Sublist"
begin

section \<open>What a request does depends on the past only\<close>

text \<open>
  Two runs of a request among others that do the same up to its \<open>N\<close>-th call of the store make the same
  calls up to there. An effect with this property is \<open>causal\<close>; it is closed under everything that the handlers are built from, so
  every request of the server is. It follows that the histories of \<open>Concurrent_Requests\<close> are what they are meant to
  be: the calls of a request in a history are the first calls of its run, and it can always go on.
\<close>

subsection \<open>Causal effects\<close>

abbreviation own :: "('s shared, 'x) world \<Rightarrow> store_call list" where
  "own w \<equiv> map snd (filter fst (sh_log (w_store w)))"

definition others_at :: "store_call list list \<Rightarrow> nat \<Rightarrow> store_call list" where
  "others_at sched i = concat (take 1 (drop i sched))"

lemma others_at_tl: "others_at (tl sched) i = others_at sched (Suc i)"
  by (simp add: others_at_def drop_Suc)

text \<open>Two worlds whose next calls follow the same calls of the others, up to the \<open>N\<close>-th.\<close>

definition in_step :: "nat \<Rightarrow> ('s shared, 'x) world \<Rightarrow> ('s shared, 'x) world \<Rightarrow> bool" where
  "in_step N w v \<longleftrightarrow> w_fs w = w_fs v \<and> w_ext w = w_ext v \<and> w_tick w = w_tick v \<and>
     sh_store (w_store w) = sh_store (w_store v) \<and> sh_log (w_store w) = sh_log (w_store v) \<and> length (own w) \<le> N \<and>
     (\<forall>i < N - length (own w). others_at (sh_sched (w_store w)) i = others_at (sh_sched (w_store v)) i)"

definition parted :: "nat \<Rightarrow> ('s shared, 'x) world \<Rightarrow> ('s shared, 'x) world \<Rightarrow> bool" where
  "parted N w v \<longleftrightarrow> N < length (own w) \<and> N < length (own v) \<and> take (Suc N) (own w) = take (Suc N) (own v)"

definition causal :: "(('s shared, 'x) world, 'e, 'a) act \<Rightarrow> bool" where
  "causal m \<longleftrightarrow> (\<forall>w. prefix (own w) (own (snd (m w)))) \<and>
     (\<forall>N w v. in_step N w v \<longrightarrow> fst (m w) = fst (m v) \<and> in_step N (snd (m w)) (snd (m v)) \<or> parted N (snd (m w)) (snd (m v)))"

named_theorems causal_intros \<open>effects that depend on the past only\<close>

lemma causal_grows: "causal m \<Longrightarrow> prefix (own w) (own (snd (m w)))"
  by (simp add: causal_def)

lemma causal_steps:
  assumes "causal m" "in_step N w v"
  obtains r w' v' where "m w = (r, w')" "m v = (r, v')" "in_step N w' v'" | "parted N (snd (m w)) (snd (m v))"
  using assms unfolding causal_def by (metis prod.collapse)

lemma take_prefix: "prefix xs ys \<Longrightarrow> n \<le> length xs \<Longrightarrow> take n ys = take n xs"
  by (auto simp: prefix_def)

lemma parted_grows:
  assumes "parted N w v" "prefix (own w) (own w')" "prefix (own v) (own v')"
  shows "parted N w' v'"
  using assms take_prefix [OF assms(2), of "Suc N"] take_prefix [OF assms(3), of "Suc N"] prefix_length_le [OF assms(2)]
    prefix_length_le [OF assms(3)]
  by (simp add: parted_def)

lemma causal_ret [causal_intros]: "causal (ret a)"
  by (simp add: causal_def ret_def)

lemma causal_throw [causal_intros]: "causal (throw e)"
  by (simp add: causal_def throw_def)

lemma causal_lift_result [causal_intros]: "causal (lift_result r)"
  by (simp add: causal_def lift_result_def)

lemma causal_seq [causal_intros]:
  fixes m :: "(('s shared, 'x) world, 'e, 'a) act"
  assumes m: "causal m" and f: "\<And>a. causal (f a)"
  shows "causal (seq m f)"
  unfolding causal_def
proof (intro conjI allI impI)
  have grows: "prefix (own (snd (m w))) (own (snd (seq m f w)))" for w :: "('s shared, 'x) world"
    using causal_grows [OF f] by (auto simp: seq_def split: prod.split sum.split)
  then show "prefix (own w) (own (snd (seq m f w)))" for w :: "('s shared, 'x) world"
    using causal_grows [OF m] prefix_order.trans by blast
  fix N and w v :: "('s shared, 'x) world"
  assume "in_step N w v"
  with m show "fst (seq m f w) = fst (seq m f v) \<and> in_step N (snd (seq m f w)) (snd (seq m f v)) \<or>
      parted N (snd (seq m f w)) (snd (seq m f v))"
  proof (cases rule: causal_steps)
    case (1 r w' v')
    then show ?thesis
      using f by (cases r) (auto simp: seq_def causal_def)
  next
    case 2
    then show ?thesis using parted_grows grows by blast
  qed
qed

lemma causal_map:
  assumes "causal m" "\<And>w. snd (m' w) = snd (m w)" "\<And>w v. fst (m w) = fst (m v) \<Longrightarrow> fst (m' w) = fst (m' v)"
  shows "causal m'"
  using assms unfolding causal_def by metis

lemma causal_attempt [causal_intros]: "causal m \<Longrightarrow> causal (attempt m)"
  by (erule causal_map) (auto simp: attempt_def split: prod.splits)

lemma causal_map_err [causal_intros]: "causal m \<Longrightarrow> causal (map_err g m)"
  by (erule causal_map) (auto simp: map_err_def split: prod.splits sum.splits)

lemma causal_if [causal_intros]: "(b \<Longrightarrow> causal m) \<Longrightarrow> (\<not> b \<Longrightarrow> causal n) \<Longrightarrow> causal (if b then m else n)"
  by simp

lemma causal_case_option [causal_intros]:
  "causal m \<Longrightarrow> (\<And>y. causal (f y)) \<Longrightarrow> causal (case x of None \<Rightarrow> m | Some y \<Rightarrow> f y)"
  by (cases x) simp_all

lemma causal_case_sum [causal_intros]:
  "(\<And>e. causal (f e)) \<Longrightarrow> (\<And>y. causal (g y)) \<Longrightarrow> causal (case x of Inl e \<Rightarrow> f e | Inr y \<Rightarrow> g y)"
  by (cases x) simp_all

lemma causal_case_prod [causal_intros]: "(\<And>a b. causal (f a b)) \<Longrightarrow> causal (case x of (a, b) \<Rightarrow> f a b)"
  by (cases x) simp_all

lemma causal_Let [causal_intros]: "(\<And>a. causal (f a)) \<Longrightarrow> causal (Let x f)"
  by simp

lemma causal_foldM [causal_intros]: "(\<And>x a. causal (f x a)) \<Longrightarrow> causal (foldM f xs a)"
  by (induction xs arbitrary: a) (auto intro: causal_intros)

text \<open>Effects that neither see nor change the store.\<close>

definition blind :: "(('s, 'x) world, 'e, 'a) act \<Rightarrow> bool" where
  "blind m \<longleftrightarrow> (\<forall>w s. m (w\<lparr>w_store := s\<rparr>) = (fst (m w), snd (m w)\<lparr>w_store := s\<rparr>))"

lemma blind_causal:
  assumes "blind m"
  shows "causal m"
proof -
  have store: "w_store (snd (m w)) = w_store w" for w
  proof -
    have "m (w\<lparr>w_store := w_store w\<rparr>) = (fst (m w), snd (m w)\<lparr>w_store := w_store w\<rparr>)"
      using assms by (simp only: blind_def)
    then have "w_store (snd (m (w\<lparr>w_store := w_store w\<rparr>))) = w_store (snd (m w)\<lparr>w_store := w_store w\<rparr>)" by (metis snd_conv)
    then show ?thesis by simp
  qed
  have "fst (m v) = fst (m w) \<and> in_step N (snd (m w)) (snd (m v))" if "in_step N w v" for N w v
  proof -
    have v: "v = w\<lparr>w_store := w_store v\<rparr>"
      using that by (cases w; cases v) (simp add: in_step_def)
    have "m v = (fst (m w), snd (m w)\<lparr>w_store := w_store v\<rparr>)"
      using assms unfolding blind_def by (metis v)
    then show ?thesis using that by (auto simp: in_step_def store)
  qed
  then show ?thesis by (auto simp: causal_def store)
qed

lemma blind_world:
  "blind (fs_do f)" "blind (ext_do x)" "blind (utc_now sys)" "blind (new_v4 sys)" "blind (start_process sys cmd)"
  "blind (load_step yp dir)"
  by (simp_all add: blind_def fs_do_def ext_do_def utc_now_def new_v4_def start_process_def load_step_def split: prod.split)

lemmas causal_world [causal_intros] = blind_world [THEN blind_causal]

text \<open>A call of the store.\<close>

lemma causal_turn [causal_intros]:
  fixes m :: "('s, store_error, 'a) act"
  shows "causal (store_do (turn ops c m) :: (('s shared, 'x) world, store_error, 'a) act)"
proof -
  let ?m = "store_do (turn ops c m) :: (('s shared, 'x) world, store_error, 'a) act"
  have own: "own (snd (?m w)) = own w @ [c]" for w
    by (simp add: store_do_def turn_def Let_def filter_map comp_def split: prod.split)
  have "fst (?m w) = fst (?m v) \<and> in_step N (snd (?m w)) (snd (?m v)) \<or> parted N (snd (?m w)) (snd (?m v))" if "in_step N w v" for N w v
  proof (cases "length (own w) < N")
    case True
    then have at: "others_at (sh_sched (w_store w)) 0 = others_at (sh_sched (w_store v)) 0"
      using that by (simp add: in_step_def)
    have "\<forall>i < N - Suc (length (own w)). others_at (tl (sh_sched (w_store w))) i = others_at (tl (sh_sched (w_store v))) i"
      using that True unfolding others_at_tl by (auto simp: in_step_def)
    then show ?thesis
      using that at True
      by (simp add: in_step_def store_do_def turn_def Let_def others_at_def filter_map comp_def split: prod.split)
  next
    case False
    moreover have "length (own w) \<le> N" "own w = own v" using that unfolding in_step_def by auto
    ultimately have "length (own w) = N" "own w = own v" by simp_all
    then show ?thesis unfolding parted_def own by simp
  qed
  then show ?thesis by (simp add: causal_def own)
qed

subsection \<open>Every request is causal\<close>

lemma causal_state_if [causal_intros]:
  assumes "causal m" "causal n"
  shows "causal (\<lambda>w. if \<not> fs_exists (w_fs w) p then m w else n w)"
proof -
  have same: "w_fs w = w_fs v" if "in_step N w v" for N and w v :: "('a shared, 'b) world"
    using that by (simp add: in_step_def)
  show ?thesis
    unfolding causal_def
    by (intro conjI allI impI, simp add: causal_grows [OF assms(1)] causal_grows [OF assms(2)], frule same)
       (use assms in \<open>simp add: causal_def\<close>)
qed

lemma causal_run_tf [causal_intros]: "causal (run_tf sys b binary ws args env)"
  unfolding run_tf_def by (intro causal_intros) (auto intro!: causal_intros split: proc_outcome.split)

lemma causal_read_outputs [causal_intros]: "causal (read_outputs sys b binary ws declared env)"
  unfolding read_outputs_def by (intro causal_intros)

lemma causal_calls:
  assumes "sys_store sys = shared_ops ops"
  shows "causal (store_do (so_get_enclave (sys_store sys) i))" "causal (store_do (so_list_enclaves (sys_store sys)))"
    "causal (store_do (so_upsert_enclave (sys_store sys) st))" "causal (store_do (so_delete_enclave (sys_store sys) i))"
    "causal (store_do (so_append_event (sys_store sys) ev))" "causal (store_do (so_upsert_iac_run (sys_store sys) r))"
  unfolding assms shared_ops_simps by (rule causal_turn)+

lemma causal_st_do:
  "causal (store_do m :: (('s shared, 'x) world, store_error, 'a) act) \<Longrightarrow> causal (st_do m :: ('s shared, 'x, 'a) rec_act)"
  unfolding st_do_def by (rule causal_map_err)

lemma causal_tf:
  assumes "sys_store sys = shared_ops ops"
  shows "causal (tf_provision sys b enc p inputs env rid)" "causal (tf_teardown sys b enc p env rid)"
  unfolding tf_provision_def tf_apply_def tf_teardown_def write_run_def
  by (intro causal_intros causal_calls [OF assms])+

lemma causal_emit: "sys_store sys = shared_ops ops \<Longrightarrow> causal (emit sys ev)"
  unfolding emit_def by (intro causal_intros causal_st_do causal_calls)

lemma causal_teardown:
  assumes "sys_store sys = shared_ops ops"
  shows "causal (teardown_enclave_step sys b req rid act eid errs)"
proof -
  have "causal (teardown_partition_step sys b driver env ex rid eid x errs)" for driver env ex x errs
    unfolding teardown_partition_step_def
    by (cases x) (simp only: prod.case Let_def, intro causal_intros causal_tf [OF assms])
  then show ?thesis
    unfolding teardown_enclave_step_def Let_def
    by (intro causal_intros causal_st_do causal_calls [OF assms])
qed

lemma causal_provision:
  assumes "sys_store sys = shared_ops ops"
  shows "causal (provision_partition_step sys b driver enc rid part acc)"
    and "causal (provision_export_step sys driver enc y acc)"
    and "causal (provision_enclave_step sys b rid act enc errs)"
proof -
  note calls = causal_st_do causal_calls [OF assms] causal_emit [OF assms] causal_tf [OF assms]
  show part: "causal (provision_partition_step sys b driver enc rid part acc)" for driver part acc
    unfolding provision_partition_step_def provision_with_identity_def record_partition_def merge_sa_def Let_def
    by (cases acc) (simp only: prod.case, intro causal_intros calls)
  show x: "causal (provision_export_step sys driver enc y acc)" for driver y acc
    unfolding provision_export_step_def Let_def
    by (cases acc) (simp only: prod.case, intro causal_intros calls)
  show "causal (provision_enclave_step sys b rid act enc errs)"
    unfolding provision_enclave_step_def Let_def by (intro causal_intros calls part x)
qed

lemma causal_wire:
  assumes "sys_store sys = shared_ops ops"
  shows "causal (wire_enclave_step sys enc errs)"
proof -
  note calls = causal_st_do causal_calls [OF assms] causal_emit [OF assms]
  have "causal (wire_import_step sys driver enc i acc)" for driver i acc
    unfolding wire_import_step_def
    by (cases acc) (simp only: prod.case, intro causal_intros calls)
  then show ?thesis
    unfolding wire_enclave_step_def by (intro causal_intros calls)
qed

lemma causal_reconcile:
  assumes "sys_store sys = shared_ops ops"
  shows "causal (reconcile yp sys req)"
proof -
  note calls = causal_st_do causal_calls [OF assms] causal_teardown [OF assms] causal_provision(3) [OF assms] causal_wire [OF assms]
  show ?thesis
    unfolding reconcile_def apply_changes_def Let_def by (intro causal_intros calls)
qed

text \<open>The handlers.\<close>

lemma causal_api:
  fixes app :: "('s shared, 'x) app_state"
  shows "causal (store_do m :: (('s shared, 'x) world, store_error, 'a) act) \<Longrightarrow> causal (api_st app m)"
    and "causal (extracted r)" and "causal (or_fail e x)"
    and "(\<And>x. causal (f x)) \<Longrightarrow> causal (path1 app a f)" and "(\<And>x y. causal (g x y)) \<Longrightarrow> causal (path2 app a b g)"
  unfolding api_st_def extracted_def or_fail_def path1_def path2_def by (intro causal_intros | assumption)+

lemma causal_handler:
  fixes app :: "('s shared, 'x) app_state"
  assumes "app_store app = shared_ops ops"
  shows "causal (handle_route app req r)"
proof -
  note calls = causal_api causal_calls [OF assms] causal_turn causal_reconcile [OF assms] causal_tf [OF assms]
  have rest: "causal (store_do (so_delete_partition (app_store app) i p))" "causal (store_do (so_list_events (app_store app) e n))"
    "causal (store_do (so_list_iac_runs (app_store app) i p))" "causal (store_do (so_get_iac_run (app_store app) u))"
    "causal (store_do (so_get_tf_state (app_store app) k))" "causal (store_do (so_put_tf_state (app_store app) k b))"
    "causal (store_do (so_delete_tf_state (app_store app) k))" "causal (store_do (so_lock_tf_state (app_store app) k l))"
    "causal (store_do (so_unlock_tf_state (app_store app) k v))" for i p e n u k b l v
    unfolding assms shared_ops_simps by (rule causal_turn)+
  have find: "causal (find_enclave app i)" "causal (find_driver app e)" for i e
    unfolding find_enclave_def find_driver_def by (intro causal_intros calls)+
  have part: "causal (delete_enclave_partition app driver env existing i x errs)" for driver env existing i x errs
    unfolding delete_enclave_partition_def
    by (cases x) (simp only: prod.case Let_def, intro causal_intros calls)
  have del: "causal (delete_enclave_resources app driver existing i ro)"
      "causal (delete_partition_resources app driver existing ps)" for driver existing i ro ps
    unfolding delete_enclave_resources_def delete_partition_resources_def Let_def by (intro causal_intros calls part)+
  have remaining: "causal (remaining_resources driver existing ps)" for driver existing ps
    unfolding remaining_resources_def by (intro causal_intros)
  have orphans: "causal (enclave_orphans app s acc)" for s acc
    unfolding enclave_orphans_def by (intro causal_intros)
  have enclaves: "causal (api_health :: ('s shared, 'x, http_response) api_act)" "causal (api_ready app)"
    "causal (api_post_reconcile app body)" "causal (api_post_reconcile_dry_run app body)" "causal (api_list_enclaves app)"
    "causal (api_get_enclave app i)" "causal (api_delete_enclave app i ro)" "causal (api_delete_partition app i p)" for body i ro p
    unfolding api_health_def api_ready_def api_post_reconcile_def api_post_reconcile_dry_run_def api_reconcile_def
      api_list_enclaves_def api_get_enclave_def api_delete_enclave_def api_delete_partition_def
    by (intro causal_intros calls find del remaining rest)+
  have queries: "causal (api_enclave_graph app i)" "causal (api_system_graph app)" "causal (api_list_events app e n)"
    "causal (api_list_iac_runs app i p)" "causal (api_latest_iac_run app i p)" "causal (api_get_iac_run app i)"
    "causal (api_status app)" "causal (api_list_orphans app)" for i e n p
    unfolding api_enclave_graph_def api_system_graph_def api_list_events_def api_list_iac_runs_def
      api_latest_iac_run_def api_get_iac_run_def api_status_def api_list_orphans_def
    by (intro causal_intros calls find rest orphans)+
  have backend: "causal (api_get_tf_state app i p)" "causal (api_put_tf_state app i p b)" "causal (api_delete_tf_state app i p)"
    "causal (api_lock_tf_state app i p l)" "causal (api_unlock_tf_state app i p b)" for i p b l
    unfolding api_get_tf_state_def api_put_tf_state_def api_delete_tf_state_def api_lock_tf_state_def api_unlock_tf_state_def
    by (intro causal_intros calls rest)+
  show ?thesis
    by (cases r; simp only: handle_route_def Let_def api_route.case)
       (intro causal_intros causal_api enclaves queries backend)+
qed

end
