(* ===== verification/Concurrent_Progress.thy ===== *)
theory Concurrent_Progress
  imports Request_Causality
begin

section \<open>Histories and runs\<close>

text \<open>
  The calls of a request in a history and the run of its handler among the calls of the others: the
  former are the first calls of the latter, and a request whose run is not over can always make its next call. The server
  never makes one request wait for another between two calls of the store.
\<close>

lemma snd_serve: "snd (serve app req w) = (case routed app req of None \<Rightarrow> w | Some r \<Rightarrow> snd (handle_route app req r w))"
  by (simp add: serve_def routed_def require_bearer_token_def run_route_def split: option.split prod.split)

lemma own_log_agrees:
  assumes "\<And>i. i < N \<Longrightarrow> others_at sched i = others_at sched' i"
  shows "take (Suc N) (own_log app req s sched w) = take (Suc N) (own_log app req s sched' w)"
proof -
  have start: "in_step N (shared_world s sched w) (shared_world s sched' w)"
    using assms by (simp add: in_step_def shared_world_def)
  show ?thesis
  proof (cases "routed app req")
    case None
    then show ?thesis by (simp add: own_log_def serve_among_def snd_serve shared_world_def)
  next
    case (Some r)
    have m: "causal (handle_route (shared_app app) req r)"
      by (rule causal_handler) simp
    from m start show ?thesis
    proof (cases rule: causal_steps)
      case (1 res w' v')
      then show ?thesis using Some by (simp add: own_log_def serve_among_def snd_serve in_step_def)
    next
      case 2
      then show ?thesis using Some by (simp add: own_log_def serve_among_def snd_serve parted_def)
    qed
  qed
qed

lemma own_log_same: "(\<And>i. others_at sched i = others_at sched' i) \<Longrightarrow> own_log app req s sched w = own_log app req s sched' w"
  using own_log_agrees [of "length (own_log app req s sched w) + length (own_log app req s sched' w)" sched sched' app req s w]
  by simp

subsection \<open>The gaps of a history\<close>

lemma length_gaps [simp]: "length (gaps i h) = Suc (length (own_calls i h))"
  by (induction i h rule: gaps.induct) (auto simp: own_calls_def split: list.split)

lemma own_calls_snoc: "own_calls i (h @ [(j, c)]) = own_calls i h @ (if j = i then [c] else [])"
  by (simp add: own_calls_def)

lemma gaps_not_Nil [simp]: "gaps i h \<noteq> []"
  by (metis length_gaps list.size(3) nat.distinct(1))

lemma gaps_snoc:
  "gaps i (h @ [(j, c)]) = (if j = i then gaps i h @ [[]] else butlast (gaps i h) @ [last (gaps i h) @ [c]])"
proof (induction h)
  case (Cons x h)
  show ?case
    by (cases x; cases "gaps i h") (use Cons.IH in \<open>auto split: if_splits\<close>)
qed simp

lemma others_at_nth: "others_at sched k = (if k < length sched then sched ! k else [])"
  by (auto simp: others_at_def take_Suc hd_drop_conv_nth)

lemma gaps_before:
  assumes "k < length (own_calls i h) \<or> j = i"
  shows "others_at (gaps i (h @ [(j, c)])) k = others_at (gaps i h) k"
  using assms by (auto simp: others_at_nth gaps_snoc nth_append nth_butlast)

subsection \<open>Progress\<close>

abbreviation run_of :: "('s, 'x) app_state \<Rightarrow> (http_request \<times> ('s, 'x) world) list \<Rightarrow> 's \<Rightarrow> nat \<Rightarrow> history \<Rightarrow> store_call list" where
  "run_of app reqs s i h \<equiv> own_log app (fst (reqs ! i)) s (gaps i h) (snd (reqs ! i))"

lemma take_shorter: "take m xs = take m ys \<Longrightarrow> n \<le> m \<Longrightarrow> take n xs = take n ys"
  by (drule arg_cong [where f = "take n"]) (simp add: min_absorb1)

lemma served_prefix:
  assumes "served_together app reqs s h"
  shows "take (length (own_calls i h)) (run_of app reqs s i h) = own_calls i h"
  using assms
proof induction
  case start
  then show ?case by (simp add: own_calls_def)
next
  case (call h j c)
  let ?n = "length (own_calls i h)"
  show ?case
  proof (cases "j = i")
    case True
    then have same: "run_of app reqs s i (h @ [(j, c)]) = run_of app reqs s i h"
      by (intro own_log_same gaps_before) simp
    have "take ?n (run_of app reqs s i h) = own_calls i h" "?n < length (run_of app reqs s i h)" "run_of app reqs s i h ! ?n = c"
      using call.hyps(3) True by (auto simp: next_call_def Let_def split: if_splits)
    then show ?thesis using same by (simp add: True own_calls_snoc take_Suc_conv_app_nth)
  next
    case False
    have "take (Suc ?n) (run_of app reqs s i (h @ [(j, c)])) = take (Suc ?n) (run_of app reqs s i h)"
      by (intro own_log_agrees gaps_before) simp
    then have "take ?n (run_of app reqs s i (h @ [(j, c)])) = take ?n (run_of app reqs s i h)"
      by (rule take_shorter) simp
    then show ?thesis using call.IH False by (simp add: own_calls_snoc)
  qed
qed

lemma served_step:
  assumes "served_together app reqs s h" "i < length reqs" "length (own_calls i h) < length (run_of app reqs s i h)"
  shows "served_together app reqs s (h @ [(i, run_of app reqs s i h ! length (own_calls i h))])"
  by (rule served_together.call [OF assms(1,2)])
     (use served_prefix [OF assms(1), of i] assms(3) in \<open>simp only: next_call_def Let_def simp_thms if_True\<close>)

text \<open>A request whose calls are all made while the others are silent.\<close>

lemma served_alone:
  assumes "served_together app reqs s h" "i < length reqs"
  shows "served_together app reqs s (h @ map (Pair i) (drop (length (own_calls i h)) (run_of app reqs s i h)))"
  using assms(1)
proof (induction "length (run_of app reqs s i h) - length (own_calls i h)" arbitrary: h)
  case 0
  then show ?case by simp
next
  case (Suc n)
  let ?run = "run_of app reqs s i h" and ?k = "length (own_calls i h)"
  let ?h = "h @ [(i, ?run ! ?k)]"
  have k: "?k < length ?run" using Suc.hyps(2) by simp
  have same: "run_of app reqs s i ?h = ?run" by (intro own_log_same gaps_before) simp
  have "served_together app reqs s (?h @ map (Pair i) (drop (Suc ?k) ?run))"
    using Suc.hyps(1) [OF _ served_step [OF Suc.prems assms(2) k]] Suc.hyps(2)
    by (simp add: same own_calls_snoc)
  then show ?case by (simp add: Cons_nth_drop_Suc [OF k, symmetric])
qed

end
