(* ===== verification/Concurrent_Locks.thy ===== *)
theory Concurrent_Locks
  imports Concurrent_Progress
begin

section \<open>Terraform locks among concurrent requests\<close>

text \<open>
  A lock request makes one call of the store, so its answer is decided by the store at the moment of that
  call. Between the call that takes a lock and a call that may release it no other lock request
  succeeds, wherever the other requests are.
\<close>

definition response_of :: "('s, 'x) app_state \<Rightarrow> (http_request \<times> ('s, 'x) world) list \<Rightarrow> 's \<Rightarrow> nat \<Rightarrow> history \<Rightarrow>
    http_response option" where
  "response_of app reqs s i h = fst (serve_among app (fst (reqs ! i)) s (gaps i h) (snd (reqs ! i)))"

definition call_releases :: "string \<Rightarrow> json \<Rightarrow> store_call \<Rightarrow> bool" where
  "call_releases k info c = (case c of CTf r \<Rightarrow> may_release k info r | _ \<Rightarrow> False)"

lemma call_releases_simps [simp]:
  "call_releases k info (CTf r) = may_release k info r" "\<not> call_releases k info (CGetEnclave i)"
  "\<not> call_releases k info CListEnclaves" "\<not> call_releases k info (CUpsertEnclave st)"
  "\<not> call_releases k info (CDeleteEnclave i)" "\<not> call_releases k info (CUpsertPartition i ps)"
  "\<not> call_releases k info (CDeletePartition i p)" "\<not> call_releases k info (CAppendEvent ev)"
  "\<not> call_releases k info (CListEvents e n)" "\<not> call_releases k info (CUpsertRun r')"
  "\<not> call_releases k info (CListRuns i p)" "\<not> call_releases k info (CGetRun u)"
  by (simp_all add: call_releases_def)

context full_store
begin

lemma calls_keep_lock: "calls_keep ops (\<lambda>c. \<not> call_releases k info c) (holds_lock k info)"
proof -
  note frame = tf_ops_frame [of "\<lambda>v. snd v k = Some info"]
  note base = handler_ops_keepD [OF frame(1)] base_ops_keepD [OF handler_ops_keepD(1) [OF frame(1)]] frame(2)
  have "preserves (holds_lock k info) (so_upsert_partition ops i ps)" for i ps
    by (rule preservesI_wp, erule conjE, rule wp_mono [OF part_upsert_law], assumption) (auto simp: tf_view_def)
  then have "preserves (holds_lock k info) (call_act ops c)" if "\<not> call_releases k info c" for c
    using that base keeps_lock by (cases c) (simp_all add: call_act_def)
  then show ?thesis by (simp add: calls_keep_def)
qed

lemma calls_keep_inv: "calls_keep ops (\<lambda>_. True) inv"
proof -
  note frame = tf_ops_frame [of "\<lambda>_. True", unfolded simp_thms]
  note base = handler_ops_keepD [OF frame(1)] base_ops_keepD [OF handler_ops_keepD(1) [OF frame(1)]] frame(2)
  have "preserves inv (so_upsert_partition ops i ps)" for i ps
    by (rule preservesI_wp, rule wp_mono [OF part_upsert_law], assumption) auto
  moreover have "preserves inv (tf_request_act ops r)" for r
    by (rule preservesI_wp, cases r) (auto simp: tf_request_act_def wp_simps
      intro!: wp_mono [OF tf_get_law] wp_mono [OF tf_put_law] wp_mono [OF tf_lock_law] wp_mono [OF tf_delete_law] wp_mono [OF tf_unlock_law])
  ultimately have "preserves inv (call_act ops c)" for c
    using base by (cases c) (simp_all add: call_act_def)
  then show ?thesis by (simp add: calls_keep_def)
qed

lemma after_inv: "app_store app = ops \<Longrightarrow> inv s \<Longrightarrow> inv (store_after app s h)"
  unfolding store_after_def by (rule run_good_calls [of _ "\<lambda>_. True"]) (simp_all add: calls_keep_inv list_all_iff)

text \<open>A lock that was free and is taken is held until a call may release it.\<close>

lemma lock_held:
  assumes "app_store app = ops" "inv s" "so_lock_tf_state ops k info (store_after app s us) = (Inr u, s1)"
    and "list_all (\<lambda>(_, c). \<not> call_releases k info c) vs"
  shows "holds_lock k info (store_after app s (us @ (i, CTf (TfLock k info)) # vs))"
proof -
  have "holds_lock k info s1"
    using wp_InrD [OF tf_lock_law [OF after_inv [OF assms(1,2)]] assms(3)] by (auto simp: tf_view_def)
  then have "holds_lock k info (run_calls ops (map snd vs) s1)"
    using assms(4) by (intro run_good_calls [OF calls_keep_lock]) (auto simp: list_all_iff)
  then show ?thesis
    using assms(1,3) by (simp add: store_after_def call_act_def tf_request_act_def)
qed

end

subsection \<open>The call of a lock request\<close>

lemma lock_own_log:
  assumes "lock_request app k info req"
  shows "own_log app req s sched w = [CTf (TfLock k info)]"
  using assms
  by (simp add: own_log_def serve_among_def serve_lock [of "shared_app app"] turn_def Let_def shared_world_def filter_map comp_def
      split: prod.split)

lemma gaps_first: "own_calls i us = [] \<Longrightarrow> \<exists>gs. gaps i (us @ (i, c) # vs) = map snd us # gs"
proof (induction us)
  case (Cons u us)
  then show ?case by (cases u) (fastforce simp: own_calls_def split: if_splits)
qed simp

lemma lock_response:
  assumes "served_together app reqs s (us @ (i, CTf (TfLock k info)) # vs)" "lock_request app k info (fst (reqs ! i))"
  shows "response_of app reqs s i (us @ (i, CTf (TfLock k info)) # vs) =
    Some (case fst (so_lock_tf_state (app_store app) k info (store_after app s us)) of
       Inr _ \<Rightarrow> status_only 200
     | Inl (LockConflict holder) \<Rightarrow> \<lparr>resp_status = 409, resp_body = JsonBody holder\<rparr>
     | Inl e \<Rightarrow> api_error_response (internal_error (store_error_str (tx_json_error (app_text app)) e)))"
proof -
  let ?h = "us @ (i, CTf (TfLock k info)) # vs"
  have "take (length (own_calls i ?h)) [CTf (TfLock k info)] = own_calls i ?h"
    using served_prefix [OF assms(1), of i] by (simp add: lock_own_log [OF assms(2)])
  then have "length (own_calls i ?h) \<le> 1"
    by (metis One_nat_def length_Cons length_take list.size(3) min.cobounded1)
  then have "own_calls i us = []" by (simp add: own_calls_def)
  then obtain gs where "gaps i ?h = map snd us # gs" using gaps_first by blast
  then show ?thesis
    using assms(2)
    by (simp add: response_of_def serve_among_def serve_lock [of "shared_app app"] turn_def Let_def shared_world_def
        store_after_def split: prod.split sum.split store_error.split)
qed

text \<open>
  C12. Mutual exclusion among requests that are served at the same time, with the store in memory: when a
  lock request for a key was answered by 200, then every lock request for the key whose call comes later is
  answered by 409 with the lock info of the first as its body, unless a call in between deletes the state of the key or unlocks it
  with the id of the holder or without one. This holds in every history of any requests, reconciles and deletions
  of enclaves included, wherever each of them is at the time.
\<close>
theorem concurrent_lock_exclusive:
  assumes "app_store app = memory_ops" "mem_inv s" "served_together app reqs s h"
    and "h = us @ (i, CTf (TfLock k info)) # vs @ (j, CTf (TfLock k other)) # ws"
    and "lock_request app k info (fst (reqs ! i))" "lock_request app k other (fst (reqs ! j))"
    and "map_option resp_status (response_of app reqs s i h) = Some 200"
    and "list_all (\<lambda>(_, c). \<not> call_releases k info c) vs"
  shows "response_of app reqs s j h = Some \<lparr>resp_status = 409, resp_body = JsonBody info\<rparr>"
proof -
  let ?vs = "us @ (i, CTf (TfLock k info)) # vs"
  have h: "h = us @ (i, CTf (TfLock k info)) # (vs @ (j, CTf (TfLock k other)) # ws)"
      "h = ?vs @ (j, CTf (TfLock k other)) # ws" using assms(4) by simp_all
  have "\<exists>s1. so_lock_tf_state memory_ops k info (store_after app s us) = (Inr (), s1)"
    using assms(7) lock_response [OF assms(3) [unfolded h(1)] assms(5)]
    by (auto simp: h(1) assms(1) memory_ops_def mem_lock_tf_state_def split: option.splits)
  then obtain s1 where "so_lock_tf_state memory_ops k info (store_after app s us) = (Inr (), s1)" ..
  from mem.lock_held [OF assms(1,2) this assms(8)] have "hm_get (ms_tf_locks (store_after app s ?vs)) k = Some info"
    by (simp add: tf_view_def mem_abs_def)
  then show ?thesis
    using lock_response [OF assms(3) [unfolded h(2)] assms(6)]
    unfolding h(2) by (simp add: assms(1) memory_ops_def mem_lock_tf_state_def)
qed

lemma put_own_log:
  assumes "put_request app k req"
  shows "own_log app req s sched w = [CTf (TfPut k (hr_body req))]"
  using assms
  by (simp add: own_log_def serve_among_def serve_put [of "shared_app app"] turn_def Let_def shared_world_def filter_map comp_def
      split: prod.split)

text \<open>Three requests to one server, and their histories.\<close>

definition terraform_calls :: "(http_request \<times> (mem_store, unit) world) list" where
  "terraform_calls = [(lock_call ''1'', sample_world), (put_call ''x'', sample_world), (lock_call ''2'', sample_world)]"

definition terraform_history :: history where
  "terraform_history = [(0, CTf (TfLock ''e/p'' (lock_info ''1''))), (1, CTf (TfPut ''e/p'' (to_bytes ''x''))),
     (2, CTf (TfLock ''e/p'' (lock_info ''2'')))]"

lemma length_terraform_calls [simp]: "length terraform_calls = 3"
  by (simp add: terraform_calls_def)

lemma terraform_requests:
  "lock_request sample_app ''e/p'' (lock_info ''1'') (fst (terraform_calls ! 0))"
  "put_request sample_app ''e/p'' (fst (terraform_calls ! 1))" "hr_body (fst (terraform_calls ! 1)) = to_bytes ''x''"
  "lock_request sample_app ''e/p'' (lock_info ''2'') (fst (terraform_calls ! 2))"
  using lock_call [of "''1''"] put_call [of "''x''"] lock_call [of "''2''"]
  by (simp_all add: terraform_calls_def) (simp add: put_call_def sample_call_def)

lemma terraform_served: "n \<le> 3 \<Longrightarrow> served_together sample_app terraform_calls mem_new (take n terraform_history)"
proof -
  note logs = lock_own_log [OF terraform_requests(1)] put_own_log [OF terraform_requests(2), unfolded terraform_requests(3)]
    lock_own_log [OF terraform_requests(4)]
  note alone = served_alone [where app = sample_app and s = mem_new and reqs = terraform_calls]
  have "served_together sample_app terraform_calls mem_new [(0, CTf (TfLock ''e/p'' (lock_info ''1'')))]"
    using alone [OF served_together.start, of 0] by (simp add: own_calls_def logs)
  from alone [OF this, of 1] have "served_together sample_app terraform_calls mem_new
      [(0, CTf (TfLock ''e/p'' (lock_info ''1''))), (1, CTf (TfPut ''e/p'' (to_bytes ''x'')))]"
    using logs(2) by (simp add: own_calls_def)
  from alone [OF this, of 2] have h: "served_together sample_app terraform_calls mem_new terraform_history"
    by (simp add: own_calls_def logs terraform_history_def)
  then show ?thesis
    using prefix_served [of sample_app terraform_calls mem_new "take n terraform_history" "drop n terraform_history"] by simp
qed

theorem concurrent_lock_exclusive_witness:
  "response_of sample_app terraform_calls mem_new 2 terraform_history =
     Some \<lparr>resp_status = 409, resp_body = JsonBody (lock_info ''1'')\<rparr>"
proof -
  have h: "served_together sample_app terraform_calls mem_new terraform_history"
    using terraform_served [of 3] by (simp add: terraform_history_def)
  have taken: "map_option resp_status (response_of sample_app terraform_calls mem_new 0 terraform_history) = Some 200"
    unfolding terraform_history_def
    by (subst lock_response [where us = "[]", simplified, OF h [unfolded terraform_history_def] terraform_requests(1)])
       (simp add: memory_ops_def mem_lock_tf_state_def mem_new_def store_after_def status_only_def)
  show ?thesis
    by (rule concurrent_lock_exclusive [where vs = "[(1, CTf (TfPut ''e/p'' (to_bytes ''x'')))]" and us = "[]" and ws = "[]",
          OF sample_app_simps(1) mem_inv_new h _ terraform_requests(1) terraform_requests(4) taken])
       (simp_all add: may_release_def terraform_history_def)
qed



end
