(* ===== verification/Stale_Writes.thy ===== *)
theory Stale_Writes
  imports Request_Causality Reconcile_Props
begin

section \<open>What a reconcile writes of an enclave that others change\<close>

text \<open>
  Step 7 of the reconciler builds the state of an enclave from the list of states that step 3 read, and writes it back as a whole.
  What other requests did to the enclave in between is overwritten: a partition that was deleted over HTTP
  after step 3, with its resources, is in the store again with the status and the hash it had, and
  later reconciles skip it.
\<close>

definition writes :: "(enclave_state \<Rightarrow> bool) \<Rightarrow> 's shared \<Rightarrow> bool" where
  "writes R sh \<longleftrightarrow> (\<forall>st. (True, CUpsertEnclave st) \<in> set (sh_log sh) \<longrightarrow> R st)"

lemma writes_turn:
  assumes "\<And>st. c = CUpsertEnclave st \<Longrightarrow> R st"
  shows "preserves (writes R) (turn ops c m)"
  using assms by (auto simp: preserves_def writes_def turn_def Let_def split: prod.split)

lemma writes_calls:
  assumes "sys_store sys = shared_ops ops"
  shows "R st \<Longrightarrow> preserves (on_store (writes R)) (st_do (so_upsert_enclave (sys_store sys) st))"
    and "preserves (on_store (writes R)) (emit sys ev)"
    and "preserves (on_store (writes R)) (tf_provision sys b enc p inputs env rid)"
proof -
  have call: "preserves (writes R) (so_append_event (sys_store sys) ev)" "preserves (writes R) (so_upsert_iac_run (sys_store sys) r)"
    "R st \<Longrightarrow> preserves (writes R) (so_upsert_enclave (sys_store sys) st)" for ev r st
    unfolding assms shared_ops_simps by (rule writes_turn, simp)+
  show "R st \<Longrightarrow> preserves (on_store (writes R)) (st_do (so_upsert_enclave (sys_store sys) st))"
    "preserves (on_store (writes R)) (emit sys ev)" "preserves (on_store (writes R)) (tf_provision sys b enc p inputs env rid)"
    unfolding st_do_def emit_def by (intro preserves_intros preserves_store_do tf_provision_preserves call, assumption?)+
qed

text \<open>The partition \<open>p\<close> of an enclave, as it was read.\<close>

definition has_partition :: "partition_id \<Rightarrow> partition_state \<Rightarrow> enclave_state \<Rightarrow> bool" where
  "has_partition p ps es \<longleftrightarrow> hm_get (es_partitions es) p = Some ps"

lemma has_partition_updates [simp]:
  "has_partition p ps (es\<lparr>es_meta := m\<rparr>) = has_partition p ps es"
  "has_partition p ps (es\<lparr>es_handle := h\<rparr>) = has_partition p ps es"
  "has_partition p ps (es\<lparr>es_exports := x\<rparr>) = has_partition p ps es"
  "q \<noteq> p \<Longrightarrow> has_partition p ps (put_partition q qs es) = has_partition p ps es"
  by (simp_all add: has_partition_def put_partition_def hm_get_insert)

lemma writes_identity:
  assumes "sys_store sys = shared_ops ops" "has_partition p ps es" "part_id part \<noteq> p"
  shows "yields (on_store (writes (has_partition p ps))) (\<lambda>(_, es'). has_partition p ps es')
    (provision_with_identity sys b driver enc rid part inputs es sa)"
  unfolding provision_with_identity_def Let_def merge_sa_def
  by (rule yields_seq_keep, (intro preserves_attempt writes_calls [OF assms(1)], simp add: assms),
      rule yields_seq_keep, (intro preserves_attempt writes_calls [OF assms(1)]))
     (auto simp: assms split: sum.split option.split intro!: yields_ret yields_throw yields_seq_keep preserves_intros)

lemma writes_record:
  assumes "sys_store sys = shared_ops ops" "has_partition p ps es" "part_id part \<noteq> p"
  shows "yields (on_store (writes (has_partition p ps))) (\<lambda>(es', _). has_partition p ps es')
    (record_partition sys enc part res es errs)"
  unfolding record_partition_def Let_def
  by (rule yields_seq_keep, rule preserves_on_store)
     (auto simp: assms split: sum.split intro!: yields_seq_keep yields_ret writes_calls [OF assms(1)])

lemma writes_partition:
  assumes "sys_store sys = shared_ops ops" "has_partition p ps (fst acc)"
    and "part_id part = p \<Longrightarrow> hash_matches (Some (ps_meta ps)) (partition_hash (sys_digest sys) part)"
  shows "yields (on_store (writes (has_partition p ps))) (\<lambda>(es', _). has_partition p ps es')
    (provision_partition_step sys b driver enc rid part acc)"
proof -
  obtain es errs where acc: "acc = (es, errs)" by (cases acc)
  show ?thesis
  proof (cases "hash_matches (map_option ps_meta (hm_get (es_partitions es) (part_id part))) (partition_hash (sys_digest sys) part)")
    case True
    then show ?thesis using assms(2) by (simp add: acc provision_partition_step_def yields_ret)
  next
    case False
    then have q: "part_id part \<noteq> p" using assms(2,3) by (auto simp: acc has_partition_def)
    let ?es = "put_partition (part_id part) (in_flight_partition (hm_get (es_partitions es) (part_id part)) part) es"
    have es: "has_partition p ps ?es" using assms(2) q by (simp add: acc)
    show ?thesis
      unfolding acc provision_partition_step_def prod.case Let_def if_not_P [OF False]
      by (rule yields_seq_keep, rule writes_calls(1) [OF assms(1)], rule es, rule yields_seq_keep, intro preserves_intros,
          rule yields_seq [where Q = "\<lambda>(_, es'). has_partition p ps es'"])
         (auto simp: es split: sum.split intro!: yields_ret writes_identity [OF assms(1) es q] writes_record [OF assms(1) _ q])
  qed
qed

lemma writes_export:
  assumes "sys_store sys = shared_ops ops" "has_partition p ps (fst acc)"
  shows "yields (on_store (writes (has_partition p ps))) (\<lambda>(es', _). has_partition p ps es')
    (provision_export_step sys driver enc x acc)"
  using assms(2) unfolding provision_export_step_def Let_def
  by (cases acc) (auto split: sum.split intro!: yields_ret yields_seq_keep preserves_intros writes_calls [OF assms(1)])

text \<open>
  C14. Step 7 writes back what step 3 read. While an enclave is provisioned, whatever other requests do to the
  store at the same time, the state of the enclave is written at least once, and every
  time with each partition whose hash agrees with the configuration exactly as it was in the list that the reconcile read
  at its start: also when a request deleted the partition and its resources in the meantime.
\<close>
theorem stale_partition_written:
  assumes "sys_store sys = shared_ops ops" "for_enclave (sys_registry sys) enc = Inr driver"
    and "hm_get act (enc_id enc) = Some es" "hm_get (es_partitions es) p = Some ps"
    and "\<forall>part \<in> set (enc_partitions enc). part_id part = p \<longrightarrow>
           hash_matches (Some (ps_meta ps)) (partition_hash (sys_digest sys) part)"
    and "sh_log (w_store w) = []"
  shows "let log = own (snd (provision_enclave_step sys b rid act enc errs w)) in
    (\<exists>st. CUpsertEnclave st \<in> set log) \<and>
    (\<forall>st. CUpsertEnclave st \<in> set log \<longrightarrow> hm_get (es_partitions st) p = Some ps)"
proof -
  let ?J = "on_store (writes (has_partition p ps))"
  let ?es = "in_flight_enclave (sys_registry sys) (hm_get act (enc_id enc)) enc"
  let ?step = "provision_enclave_step sys b rid act enc errs"
  have es: "has_partition p ps ?es"
    using assms(3,4) by (simp add: in_flight_enclave_def Let_def has_partition_def)
  have up: "has_partition p ps st \<Longrightarrow> preserves ?J (st_do (so_upsert_enclave (sys_store sys) st))" for st
    by (rule writes_calls(1) [OF assms(1)])
  have partitions: "yields ?J (\<lambda>(es', _). has_partition p ps es')
      (foldM (provision_partition_step sys b driver enc rid) (enc_partitions enc) (st, er))" if "has_partition p ps st" for st er
    by (rule yields_foldM) (use that assms(5) in \<open>auto intro!: writes_partition [OF assms(1)]\<close>)
  have exports: "yields ?J (\<lambda>(es', _). has_partition p ps es') (foldM (provision_export_step sys driver enc) (enc_exports enc) acc)"
    if "case acc of (es', _) \<Rightarrow> has_partition p ps es'" for acc
    by (rule yields_foldM, rule that) (auto intro!: writes_export [OF assms(1)])
  have rest: "yields ?J (\<lambda>_. True)
      (seq (foldM (provision_partition_step sys b driver enc rid) (enc_partitions enc) (st, er)) (\<lambda>acc.
       seq (foldM (provision_export_step sys driver enc) (enc_exports enc) acc) (\<lambda>(es4, errs').
       seq (emit sys ev) (\<lambda>_. seq (st_do (so_upsert_enclave (sys_store sys) es4)) (\<lambda>_. ret errs')))))"
    if "has_partition p ps st" for st er ev
    by (rule yields_seq [OF partitions [OF that]], rule yields_seq [OF exports], assumption)
       (auto intro!: yields_seq_keep yields_ret writes_calls(2) [OF assms(1)] up)
  have "yields ?J (\<lambda>_. True) ?step"
    unfolding provision_enclave_step_def assms(2) sum.case Let_def
    by (rule yields_seq_keep [OF up [OF es]], rule yields_seq_keep, intro preserves_intros)
       (auto simp: es split: sum.split intro!: yields_seq_keep [OF preserves_on_store(3)] rest yields_seq_keep yields_ret up
          writes_calls(2) [OF assms(1)])
  then have "preserves ?J ?step" by (rule yields_preserves)
  then have only: "writes (has_partition p ps) (w_store (snd (?step w)))"
  proof -
    have "?J w" using assms(6) by (simp add: writes_def)
    with \<open>preserves ?J ?step\<close> show ?thesis unfolding preserves_def by blast
  qed
  have "CUpsertEnclave ?es \<in> set (own (snd (?step w)))"
  proof -
    note calls = causal_st_do causal_calls [OF assms(1)] causal_emit [OF assms(1)] causal_provision(1,2) [OF assms(1)]
    have "\<exists>f. ?step = seq (st_do (so_upsert_enclave (sys_store sys) ?es)) f \<and> (\<forall>u. causal (f u))"
      unfolding provision_enclave_step_def assms(2) sum.case Let_def
      by (intro exI conjI allI, rule refl) (intro causal_intros calls)
    then obtain f where step: "?step = seq (st_do (so_upsert_enclave (sys_store sys) ?es)) f" and f: "\<And>u. causal (f u)"
      by blast
    let ?up = "st_do (so_upsert_enclave (sys_store sys) ?es)"
    have up: "own (snd (?up w)) = [CUpsertEnclave ?es]"
      using assms(6) by (simp add: st_do_def map_err_def store_do_def turn_def Let_def assms(1) filter_map comp_def split: prod.split sum.split)
    have "prefix (own (snd (?up w))) (own (snd (?step w)))"
      unfolding step using causal_grows [OF f] by (auto simp: seq_def split: prod.split sum.split)
    from set_mono_prefix [OF this] show ?thesis by (simp only: up list.set insert_subset)
  qed
  with only show ?thesis by (auto simp: Let_def writes_def has_partition_def)
qed

text \<open>An enclave with an active partition; while the enclave is provisioned, the partition is deleted.\<close>

definition settled_partition :: partition_state where
  "settled_partition = (let ps = new_partition_state demo_partition in
     ps\<lparr>ps_handle := Some JNull, ps_meta := mark_active 0 (partition_hash (sys_digest sample_system) demo_partition) (ps_meta ps)\<rparr>)"

definition settled_enclave :: enclave where
  "settled_enclave = sample_exporter\<lparr>enc_region := ''r'', enc_partitions := [demo_partition], enc_exports := []\<rparr>"

definition settled_state :: enclave_state where
  "settled_state = (new_enclave_state settled_enclave)\<lparr>es_partitions := [(part_id demo_partition, settled_partition)]\<rparr>"

definition deleting_world :: "(mem_store shared, unit) world" where
  "deleting_world = shared_world (mem_new\<lparr>ms_enclaves := [(enc_id settled_enclave, settled_state)]\<rparr>)
     [[], [CDeletePartition (enc_id settled_enclave) (part_id demo_partition)]] demo_world"

theorem stale_partition_written_witness:
  "let log = own (snd (provision_enclave_step (shared_system sample_system) (request_backend demo_request) 1
       [(enc_id settled_enclave, settled_state)] settled_enclave [] deleting_world))
   in (\<exists>st. CUpsertEnclave st \<in> set log) \<and>
     (\<forall>st. CUpsertEnclave st \<in> set log \<longrightarrow> hm_get (es_partitions st) (part_id demo_partition) = Some settled_partition)"
proof -
  let ?sys = "shared_system sample_system"
  have sys: "sys_store ?sys = shared_ops memory_ops" "sys_digest ?sys = (\<lambda>_. ''h'')"
    "for_enclave (sys_registry ?sys) settled_enclave = Inr local_driver"
    by (simp_all add: shared_system_def sample_system_def settled_enclave_def sample_defs for_enclave_def for_cloud_def
        resolved_cloud_def register_def registry_new_def hm_get_insert)
  have "hash_matches (Some (ps_meta settled_partition)) (partition_hash (sys_digest ?sys) demo_partition)"
    by (simp add: settled_partition_def Let_def hash_matches_def mark_active_def sys(2)) (simp add: sample_system_def)
  then show ?thesis
    by (intro stale_partition_written [OF sys(1,3), of _ settled_state])
       (simp_all add: settled_enclave_def settled_state_def hm_get_def deleting_world_def shared_world_def)
qed

end
