(* ===== verification/Cli_Concurrent.thy ===== *)
theory Cli_Concurrent
  imports Cli_Handles Shared_Handles Concurrent_Locks Stale_Writes
begin

section \<open>A running server and its concurrent requests\<close>

text \<open>
  The store of a server keeps the contract \<open>handles_server\<close> whichever store it is, so the lemmas on requests that are
  served at the same time hold for the server that \<open>serve\<close> starts.
\<close>

lemma dyn_call:
  "call_act (dyn_ops rs env) c = dispatch (call_act memory_ops c) (call_act (redb_ops rs) c) (call_act (postgres_ops env) c)"
proof -
  have void: "void (dispatch m f p) = dispatch (void m) (void f) (void p)" for m f p
    by (rule ext) (simp add: void_def dispatch_def seq_def ret_def split: dyn_store.split prod.split sum.split)
  show ?thesis
  proof (cases c)
    case (CTf r)
    then show ?thesis
      by (cases r) (simp_all add: call_act_def tf_request_act_def void dyn_ops_def memory_ops_def redb_ops_def
        postgres_ops_def flip: void_def)
  qed (simp_all add: call_act_def void dyn_ops_def memory_ops_def redb_ops_def postgres_ops_def)
qed

lemma dyn_handles_server:
  assumes "redb_env_ok rs content view" "json_codec_ok (pe_codec env)"
  shows "handles_server (dyn_ops rs env) (handles_kept (dyn_abs rs content env) (dyn_inv rs content env))"
proof -
  let ?K = "handles_kept (dyn_abs rs content env) (dyn_inv rs content env)"
  have mem: "preserves (handles_kept mem_abs mem_inv) (call_act memory_ops c)" if "call_wf c" for c
    using calls_keepD [OF mem.calls_keep_handles that] .
  have redb: "preserves (handles_kept (redb_abs rs content) (redb_inv rs content)) (call_act (redb_ops rs) c)" if "call_wf c" for c
    using calls_keepD [OF full_store.calls_keep_handles [OF redb_full_store [OF assms(1)]] that] .
  have pg: "preserves (handles_kept (pg_abs env) (pg_inv env)) (call_act (postgres_ops env) c)" if "call_wf c" for c
    using calls_keepD [OF handles_server.kept_calls [OF pg_handles_server [OF assms(2)]] that] .
  have "preserves ?K (call_act (dyn_ops rs env) c)" if "call_wf c" for c
  proof (rule preservesI_wp)
    fix s assume "?K s"
    then show "wp (call_act (dyn_ops rs env) c) (\<lambda>_. ?K) (\<lambda>_. ?K) s"
      using preserves_wp [OF mem [OF that]] preserves_wp [OF redb [OF that]] preserves_wp [OF pg [OF that]]
      unfolding dyn_call wp_dispatch by (cases s) (simp_all add: handles_kept_def [abs_def])
  qed
  then show ?thesis
    using state_store.keeps_handles [OF dyn_state_store [OF assms]]
    by (simp add: handles_server_def handles_server_axioms_def calls_keep_def)
qed


text \<open>The example server over a store with an enclave, and the calls of Terraform to it.\<close>

lemma example_app:
  assumes "cli_serve (token_shell (example_net JNull)) (example_machine (example_net JNull)) None example_serve
      (example_console [] (0, 0)) = (Inr (app, store), c')"
  shows "app_http app = app_http sample_app" "app_auth_token app = app_auth_token sample_app"
proof -
  have "\<exists>app store c'. cli_serve (token_shell (example_net JNull)) (example_machine (example_net JNull)) None example_serve
      (example_console [] (0, 0)) = (Inr (app, store), c') \<and>
      app_http app = app_http sample_app \<and> app_auth_token app = app_auth_token sample_app"
    by (simp add: cli_serve_def server_token_def token_shell_def example_serve_def serve_defaults_def open_store_def
        build_registry_def requested_clouds_def register_cloud_def azure_of_args_def or_bail_def outside_def
        map_err_def example_machine_def console_defs Let_def build_app_def) (simp add: sample_app_def)
  then show "app_http app = app_http sample_app" "app_auth_token app = app_auth_token sample_app"
    using assms by auto
qed

definition settled_store :: "(list_db, unit) dyn_store" where
  "settled_store = InMemory (mem_new\<lparr>ms_enclaves := [(enc_id settled_enclave, settled_state)]\<rparr>)"

lemma settled_wf:
  "dyn_inv list_store (\<lambda>d. list_content (capped d)) sample_pg settled_store"
  "view_wf (dyn_abs list_store (\<lambda>d. list_content (capped d)) sample_pg settled_store)"
proof -
  have id: "es_id settled_state = enc_id settled_enclave"
    by (simp add: settled_state_def new_enclave_state_def)
  show "dyn_inv list_store (\<lambda>d. list_content (capped d)) sample_pg settled_store"
    by (simp add: settled_store_def mem_inv_def mem_new_def hm_ok_def hm_get_def id)
  have "ps_wf settled_partition"
    by (simp add: settled_partition_def Let_def)
  then have "es_wf (put_partition (part_id demo_partition) settled_partition (new_enclave_state settled_enclave))" by simp
  moreover have "put_partition (part_id demo_partition) settled_partition (new_enclave_state settled_enclave) = settled_state"
    by (simp add: settled_state_def put_partition_def new_enclave_state_def hm_insert_def)
  ultimately have "es_wf settled_state" by simp
  then show "view_wf (dyn_abs list_store (\<lambda>d. list_content (capped d)) sample_pg settled_store)"
    by (simp add: settled_store_def view_wf_def mem_abs_def hm_get_def)
qed


end
