(* ===== verification/Serial_Requests.thy ===== *)
theory Serial_Requests
  imports Concurrent_Locks
begin

section \<open>A request that is not disturbed\<close>

text \<open>
  The server over a shared store is the server of \<open>Api_App\<close>, when no call of another request comes between the calls of a
  request. \<open>next_world\<close> is the world as the next call of the store finds it; an effect over the shared
  store and one over the store \<open>agree\<close> when, from a world that is not disturbed any more, they have the same
  result and leave the same world. The relation is closed under everything that the handlers are built from.
\<close>

definition next_world :: "'s store_ops \<Rightarrow> ('s shared, 'x) world \<Rightarrow> ('s, 'x) world" where
  "next_world ops w = \<lparr>w_store = run_calls ops (others_at (sh_sched (w_store w)) 0) (sh_store (w_store w)),
     w_fs = w_fs w, w_ext = w_ext w, w_tick = w_tick w\<rparr>"

text \<open>No call of another request comes after the next one, and the calls so far account for the store.\<close>

definition undisturbed :: "'s store_ops \<Rightarrow> 's \<Rightarrow> ('s shared, 'x) world \<Rightarrow> bool" where
  "undisturbed ops s0 w \<longleftrightarrow> (\<forall>i. others_at (sh_sched (w_store w)) (Suc i) = []) \<and>
     w_store (next_world ops w) = run_calls ops (own w) s0"

definition agree :: "'s store_ops \<Rightarrow> (('s shared, 'x) world, 'e, 'a) act \<Rightarrow> (('s, 'x) world, 'e, 'a) act \<Rightarrow> bool" where
  "agree ops m n \<longleftrightarrow> (\<forall>s0 w. undisturbed ops s0 w \<longrightarrow>
     n (next_world ops w) = (fst (m w), next_world ops (snd (m w))) \<and> undisturbed ops s0 (snd (m w)))"

named_theorems agree_intros \<open>effects over a shared store and a store that agree\<close>

lemma agreeD:
  assumes "agree ops m n" "undisturbed ops s0 w"
  shows "n (next_world ops w) = (fst (m w), next_world ops (snd (m w)))" "undisturbed ops s0 (snd (m w))"
  using assms by (auto simp: agree_def)

lemma agree_ret [agree_intros]: "agree ops (ret a) (ret a)"
  by (simp add: agree_def ret_def)

lemma agree_throw [agree_intros]: "agree ops (throw e) (throw e)"
  by (simp add: agree_def throw_def)

lemma agree_lift_result [agree_intros]: "agree ops (lift_result r) (lift_result r)"
  by (simp add: agree_def lift_result_def)

lemma agree_seq [agree_intros]:
  fixes m :: "(('s shared, 'x) world, 'e, 'a) act"
  assumes "agree ops m n" "\<And>a. agree ops (f a) (g a)"
  shows "agree ops (seq m f) (seq n g)"
  unfolding agree_def
proof (intro allI impI)
  fix s0 :: 's and w :: "('s shared, 'x) world"
  assume "undisturbed ops s0 w"
  note first = agreeD [OF assms(1) this]
  obtain r w' where m: "m w = (r, w')" by (cases "m w")
  show "seq n g (next_world ops w) = (fst (seq m f w), next_world ops (snd (seq m f w))) \<and> undisturbed ops s0 (snd (seq m f w))"
    using first agreeD [OF assms(2), of s0 w'] by (cases r) (simp_all add: seq_def m)
qed

lemma agree_map:
  assumes "agree ops m n" "\<And>w. m' w = (g (fst (m w)), snd (m w))" "\<And>w. n' w = (g (fst (n w)), snd (n w))"
  shows "agree ops m' n'"
  using assms(1) by (simp add: agree_def assms(2,3))

lemma agree_attempt [agree_intros]: "agree ops m n \<Longrightarrow> agree ops (attempt m) (attempt n)"
  by (erule agree_map [where g = Inr]) (simp_all add: attempt_def split: prod.split)

lemma agree_map_err [agree_intros]: "agree ops m n \<Longrightarrow> agree ops (map_err h m) (map_err h n)"
  by (erule agree_map [where g = "map_sum h id"]) (simp_all add: map_err_def split: prod.split sum.split)

lemma agree_if [agree_intros]:
  "(b \<Longrightarrow> agree ops m n) \<Longrightarrow> (\<not> b \<Longrightarrow> agree ops m' n') \<Longrightarrow> agree ops (if b then m else m') (if b then n else n')"
  by simp

lemma agree_case_option [agree_intros]:
  "agree ops m n \<Longrightarrow> (\<And>y. agree ops (f y) (g y)) \<Longrightarrow>
   agree ops (case x of None \<Rightarrow> m | Some y \<Rightarrow> f y) (case x of None \<Rightarrow> n | Some y \<Rightarrow> g y)"
  by (cases x) simp_all

lemma agree_case_sum [agree_intros]:
  "(\<And>e. agree ops (f e) (f' e)) \<Longrightarrow> (\<And>y. agree ops (g y) (g' y)) \<Longrightarrow>
   agree ops (case x of Inl e \<Rightarrow> f e | Inr y \<Rightarrow> g y) (case x of Inl e \<Rightarrow> f' e | Inr y \<Rightarrow> g' y)"
  by (cases x) simp_all

lemma agree_case_prod [agree_intros]:
  "(\<And>a b. agree ops (f a b) (g a b)) \<Longrightarrow> agree ops (case x of (a, b) \<Rightarrow> f a b) (case x of (a, b) \<Rightarrow> g a b)"
  by (cases x) simp_all

lemma agree_foldM [agree_intros]: "(\<And>x a. agree ops (f x a) (g x a)) \<Longrightarrow> agree ops (foldM f xs a) (foldM g xs a)"
  by (induction xs arbitrary: a) (auto intro: agree_intros)

subsection \<open>The parts of the world\<close>

lemma next_world_simps [simp]:
  "w_fs (next_world ops w) = w_fs w" "w_ext (next_world ops w) = w_ext w" "w_tick (next_world ops w) = w_tick w"
  "next_world ops (w\<lparr>w_fs := fs\<rparr>) = (next_world ops w)\<lparr>w_fs := fs\<rparr>"
  "next_world ops (w\<lparr>w_ext := x\<rparr>) = (next_world ops w)\<lparr>w_ext := x\<rparr>"
  "next_world ops (w\<lparr>w_tick := n\<rparr>) = (next_world ops w)\<lparr>w_tick := n\<rparr>"
  by (simp_all add: next_world_def)

lemma undisturbed_simps [simp]:
  "undisturbed ops s0 (w\<lparr>w_fs := fs\<rparr>) = undisturbed ops s0 w" "undisturbed ops s0 (w\<lparr>w_ext := x\<rparr>) = undisturbed ops s0 w"
  "undisturbed ops s0 (w\<lparr>w_tick := n\<rparr>) = undisturbed ops s0 w"
  by (simp_all add: undisturbed_def)

lemma shared_system_simps [simp]:
  "sys_store (shared_system sys) = shared_ops (sys_store sys)" "sys_registry (shared_system sys) = sys_registry sys"
  "sys_now (shared_system sys) = sys_now sys" "sys_uuid (shared_system sys) = sys_uuid sys"
  "sys_digest (shared_system sys) = sys_digest sys" "sys_petgraph (shared_system sys) = sys_petgraph sys"
  "sys_parse_json (shared_system sys) = sys_parse_json sys" "sys_home (shared_system sys) = sys_home sys"
  "sys_proc (shared_system sys) = sys_proc sys"
  "tf_workspace (shared_system sys) b enc p = tf_workspace sys b enc p"
  by (simp_all add: shared_system_def tf_workspace_def)

lemma agree_world [agree_intros]:
  "agree ops (fs_do f) (fs_do f)" "agree ops (ext_do x) (ext_do x)" "agree ops (utc_now (shared_system sys)) (utc_now sys)"
  "agree ops (new_v4 (shared_system sys)) (new_v4 sys)"
  "agree ops (start_process (shared_system sys) cmd) (start_process sys cmd)" "agree ops (load_step yp dir) (load_step yp dir)"
  by (simp_all add: agree_def fs_do_def ext_do_def utc_now_def new_v4_def start_process_def load_step_def split: prod.split)

lemma agree_state_if [agree_intros]:
  assumes "agree ops m n" "agree ops m' n'"
  shows "agree ops (\<lambda>w. if \<not> fs_exists (w_fs w) p then m w else m' w) (\<lambda>w. if \<not> fs_exists (w_fs w) p then n w else n' w)"
  using assms by (simp add: agree_def)

text \<open>A call of the store.\<close>

lemma agree_turn:
  assumes "\<And>s. snd (m s) = snd (call_act ops c s)"
  shows "agree ops (store_do (turn ops c m)) (store_do m)"
  unfolding agree_def
proof (intro allI impI)
  fix s0 and w :: "('a shared, 'c) world"
  assume w: "undisturbed ops s0 w"
  let ?s = "run_calls ops (others_at (sh_sched (w_store w)) 0) (sh_store (w_store w))"
  obtain r s where m: "m ?s = (r, s)" by (cases "m ?s")
  have call: "store_do (turn ops c m) w = (r, w\<lparr>w_store := \<lparr>sh_store = s, sh_sched = tl (sh_sched (w_store w)),
      sh_log = sh_log (w_store w) @ map (Pair False) (others_at (sh_sched (w_store w)) 0) @ [(True, c)]\<rparr>\<rparr>)"
    using m by (simp add: store_do_def turn_def Let_def others_at_def)
  have later: "others_at (tl (sh_sched (w_store w))) i = []" for i
    using w by (simp add: undisturbed_def others_at_tl)
  have "s = snd (call_act ops c ?s)" using m assms [of ?s] by simp
  moreover have "?s = run_calls ops (own w) s0" using w by (simp add: undisturbed_def next_world_def)
  ultimately show "store_do m (next_world ops w) = (fst (store_do (turn ops c m) w), next_world ops (snd (store_do (turn ops c m) w))) \<and>
      undisturbed ops s0 (snd (store_do (turn ops c m) w))"
    using m later unfolding call
    by (simp add: store_do_def next_world_def undisturbed_def filter_map comp_def)
qed

subsection \<open>Every request agrees\<close>

lemma call_store:
  "snd (call_act ops (CGetEnclave i) s) = snd (so_get_enclave ops i s)"
  "snd (call_act ops CListEnclaves s) = snd (so_list_enclaves ops s)"
  "snd (call_act ops (CListEvents e n) s) = snd (so_list_events ops e n s)"
  "snd (call_act ops (CListRuns i p) s) = snd (so_list_iac_runs ops i p s)"
  "snd (call_act ops (CGetRun u) s) = snd (so_get_iac_run ops u s)"
  "snd (call_act ops (CTf (TfGet k)) s) = snd (so_get_tf_state ops k s)"
  "snd (call_act ops (CUpsertEnclave st) s) = snd (so_upsert_enclave ops st s)"
  "snd (call_act ops (CDeleteEnclave i) s) = snd (so_delete_enclave ops i s)"
  "snd (call_act ops (CDeletePartition i p) s) = snd (so_delete_partition ops i p s)"
  "snd (call_act ops (CAppendEvent ev) s) = snd (so_append_event ops ev s)"
  "snd (call_act ops (CUpsertRun r) s) = snd (so_upsert_iac_run ops r s)"
  "snd (call_act ops (CTf (TfPut k b)) s) = snd (so_put_tf_state ops k b s)"
  "snd (call_act ops (CTf (TfDelete k)) s) = snd (so_delete_tf_state ops k s)"
  "snd (call_act ops (CTf (TfLock k l)) s) = snd (so_lock_tf_state ops k l s)"
  "snd (call_act ops (CTf (TfUnlock k v)) s) = snd (so_unlock_tf_state ops k v s)"
  by (simp_all add: call_act_def tf_request_act_def flip: void_def)

lemma agree_calls [agree_intros]:
  "agree ops (store_do (so_get_enclave (shared_ops ops) i)) (store_do (so_get_enclave ops i))"
  "agree ops (store_do (so_list_enclaves (shared_ops ops))) (store_do (so_list_enclaves ops))"
  "agree ops (store_do (so_upsert_enclave (shared_ops ops) st)) (store_do (so_upsert_enclave ops st))"
  "agree ops (store_do (so_delete_enclave (shared_ops ops) i)) (store_do (so_delete_enclave ops i))"
  "agree ops (store_do (so_delete_partition (shared_ops ops) i p)) (store_do (so_delete_partition ops i p))"
  "agree ops (store_do (so_append_event (shared_ops ops) ev)) (store_do (so_append_event ops ev))"
  "agree ops (store_do (so_list_events (shared_ops ops) e n)) (store_do (so_list_events ops e n))"
  "agree ops (store_do (so_upsert_iac_run (shared_ops ops) r)) (store_do (so_upsert_iac_run ops r))"
  "agree ops (store_do (so_list_iac_runs (shared_ops ops) i p)) (store_do (so_list_iac_runs ops i p))"
  "agree ops (store_do (so_get_iac_run (shared_ops ops) u)) (store_do (so_get_iac_run ops u))"
  "agree ops (store_do (so_get_tf_state (shared_ops ops) k)) (store_do (so_get_tf_state ops k))"
  "agree ops (store_do (so_put_tf_state (shared_ops ops) k b)) (store_do (so_put_tf_state ops k b))"
  "agree ops (store_do (so_delete_tf_state (shared_ops ops) k)) (store_do (so_delete_tf_state ops k))"
  "agree ops (store_do (so_lock_tf_state (shared_ops ops) k l)) (store_do (so_lock_tf_state ops k l))"
  "agree ops (store_do (so_unlock_tf_state (shared_ops ops) k v)) (store_do (so_unlock_tf_state ops k v))"
  unfolding shared_ops_simps
  by (rule agree_turn, simp only: call_store)+

lemma agree_tf [agree_intros]:
  "agree (sys_store sys) (tf_provision (shared_system sys) b enc p inputs env rid) (tf_provision sys b enc p inputs env rid)"
  "agree (sys_store sys) (tf_teardown (shared_system sys) b enc p env rid) (tf_teardown sys b enc p env rid)"
proof -
  have run: "agree (sys_store sys) (run_tf (shared_system sys) b binary ws args env) (run_tf sys b binary ws args env)" for binary ws args env
    unfolding run_tf_def by (intro agree_intros) (auto intro!: agree_intros split: proc_outcome.split)
  have outputs: "agree (sys_store sys) (read_outputs (shared_system sys) b binary ws declared env) (read_outputs sys b binary ws declared env)"
    for binary ws declared env
    unfolding read_outputs_def shared_system_simps by (intro agree_intros run)
  have log: "agree (sys_store sys) (write_run (shared_system sys) enc p op rid log code) (write_run sys enc p op rid log code)"
    for enc p op rid log code
    unfolding write_run_def shared_system_simps by (intro agree_intros)
  show "agree (sys_store sys) (tf_provision (shared_system sys) b enc p inputs env rid) (tf_provision sys b enc p inputs env rid)"
    "agree (sys_store sys) (tf_teardown (shared_system sys) b enc p env rid) (tf_teardown sys b enc p env rid)"
    unfolding tf_provision_def tf_apply_def tf_teardown_def shared_system_simps Let_def by (intro agree_intros run outputs log)+
qed

lemma agree_st_do [agree_intros]:
  "agree ops (store_do m :: (('s shared, 'x) world, store_error, 'a) act) (store_do n) \<Longrightarrow>
   agree ops (st_do m :: ('s shared, 'x, 'a) rec_act) (st_do n)"
  unfolding st_do_def by (rule agree_map_err)

lemma agree_emit [agree_intros]: "agree (sys_store sys) (emit (shared_system sys) ev) (emit sys ev)"
  unfolding emit_def shared_system_simps by (intro agree_intros)

lemma agree_teardown:
  "agree (sys_store sys) (teardown_enclave_step (shared_system sys) b req rid act eid errs) (teardown_enclave_step sys b req rid act eid errs)"
proof -
  have "agree (sys_store sys) (teardown_partition_step (shared_system sys) b driver env ex rid eid x errs)
      (teardown_partition_step sys b driver env ex rid eid x errs)" for driver env ex x errs
    unfolding teardown_partition_step_def shared_system_simps
    by (cases x) (simp only: prod.case Let_def, intro agree_intros)
  then show ?thesis
    unfolding teardown_enclave_step_def shared_system_simps Let_def by (intro agree_intros)
qed

lemma agree_provision:
  "agree (sys_store sys) (provision_enclave_step (shared_system sys) b rid act enc errs) (provision_enclave_step sys b rid act enc errs)"
proof -
  have part: "agree (sys_store sys) (provision_partition_step (shared_system sys) b driver enc rid p acc)
      (provision_partition_step sys b driver enc rid p acc)" for driver p acc
    unfolding provision_partition_step_def provision_with_identity_def record_partition_def merge_sa_def shared_system_simps Let_def
    by (cases acc) (simp only: prod.case, intro agree_intros)
  have export: "agree (sys_store sys) (provision_export_step (shared_system sys) driver enc y acc)
      (provision_export_step sys driver enc y acc)" for driver y acc
    unfolding provision_export_step_def shared_system_simps Let_def
    by (cases acc) (simp only: prod.case, intro agree_intros)
  show ?thesis
    unfolding provision_enclave_step_def shared_system_simps Let_def by (intro agree_intros part export)
qed

lemma agree_wire:
  "agree (sys_store sys) (wire_enclave_step (shared_system sys) enc errs) (wire_enclave_step sys enc errs)"
proof -
  have "agree (sys_store sys) (wire_import_step (shared_system sys) driver enc i acc) (wire_import_step sys driver enc i acc)"
    for driver i acc
    unfolding wire_import_step_def shared_system_simps
    by (cases acc) (simp only: prod.case, intro agree_intros)
  then show ?thesis
    unfolding wire_enclave_step_def shared_system_simps by (intro agree_intros)
qed

lemma agree_reconcile:
  "agree (sys_store sys) (reconcile yp (shared_system sys) req) (reconcile yp sys req)"
  unfolding reconcile_def apply_changes_def shared_system_simps Let_def
  by (intro agree_intros agree_teardown agree_provision agree_wire)

text \<open>The handlers.\<close>

lemma shared_app_sys [simp]:
  "app_system (shared_app app) = shared_system (app_system app)" "app_api_base (shared_app app) = app_api_base app"
  "api_backend (shared_app app) = api_backend app" "api_request (shared_app app) = api_request app"
  "stored_cloud (shared_app app) = stored_cloud app" "status_to_json (shared_app app) = status_to_json app"
  by (simp_all add: fun_eq_iff shared_app_def shared_system_def api_backend_def api_request_def stored_cloud_def status_to_json_def
      split: option.split)

lemma agree_api [agree_intros]:
  fixes app :: "('s, 'x) app_state"
  shows "agree ops (store_do m :: (('s shared, 'x) world, store_error, 'a) act) (store_do n) \<Longrightarrow>
      agree ops (api_st (shared_app app) m :: ('s shared, 'x, 'a) api_act) (api_st app n)"
    and "agree ops (extracted r) (extracted r)" and "agree ops (or_fail e x) (or_fail e x)"
    and "(\<And>x. agree ops (f x) (f' x)) \<Longrightarrow> agree ops (path1 (shared_app app) a f) (path1 app a f')"
    and "(\<And>x y. agree ops (g x y) (g' x y)) \<Longrightarrow> agree ops (path2 (shared_app app) a b g) (path2 app a b g')"
  unfolding api_st_def extracted_def or_fail_def path1_def path2_def shared_app_simps by (intro agree_intros | assumption)+

lemma agree_handler:
  "agree (app_store app) (handle_route (shared_app app) req r) (handle_route app req r)"
proof -
  note defs = shared_app_simps shared_app_sys shared_system_simps Let_def
  have find: "agree (app_store app) (find_enclave (shared_app app) i) (find_enclave app i)"
    "agree (app_store app) (find_driver (shared_app app) e) (find_driver app e)" for i e
    unfolding find_enclave_def find_driver_def defs by (intro agree_intros)+
  have part: "agree (app_store app) (delete_enclave_partition (shared_app app) driver env existing i x errs)
      (delete_enclave_partition app driver env existing i x errs)" for driver env existing i x errs
    unfolding delete_enclave_partition_def defs by (cases x) (simp only: prod.case, intro agree_intros)
  have del: "agree (app_store app) (delete_enclave_resources (shared_app app) driver existing i ro) (delete_enclave_resources app driver existing i ro)"
      "agree (app_store app) (delete_partition_resources (shared_app app) driver existing ps) (delete_partition_resources app driver existing ps)"
    for driver existing i ro ps
    unfolding delete_enclave_resources_def delete_partition_resources_def defs by (intro agree_intros part)+
  have remaining: "agree (app_store app) (remaining_resources driver existing ps) (remaining_resources driver existing ps)" for driver existing ps
    unfolding remaining_resources_def by (intro agree_intros)
  have orphans: "agree (app_store app) (enclave_orphans (shared_app app) s acc) (enclave_orphans app s acc)" for s acc
    unfolding enclave_orphans_def defs by (intro agree_intros)
  have enclaves: "agree (app_store app) (api_health :: ('a shared, 'b, http_response) api_act) api_health"
    "agree (app_store app) (api_ready (shared_app app)) (api_ready app)"
    "agree (app_store app) (api_post_reconcile (shared_app app) body) (api_post_reconcile app body)"
    "agree (app_store app) (api_post_reconcile_dry_run (shared_app app) body) (api_post_reconcile_dry_run app body)"
    "agree (app_store app) (api_list_enclaves (shared_app app)) (api_list_enclaves app)"
    "agree (app_store app) (api_get_enclave (shared_app app) i) (api_get_enclave app i)"
    "agree (app_store app) (api_delete_enclave (shared_app app) i ro) (api_delete_enclave app i ro)"
    "agree (app_store app) (api_delete_partition (shared_app app) i p) (api_delete_partition app i p)" for body i ro p
    unfolding api_health_def api_ready_def api_post_reconcile_def api_post_reconcile_dry_run_def api_reconcile_def
      api_list_enclaves_def api_get_enclave_def api_delete_enclave_def api_delete_partition_def defs
    by (intro agree_intros agree_reconcile find del remaining)+
  have queries: "agree (app_store app) (api_enclave_graph (shared_app app) i) (api_enclave_graph app i)"
    "agree (app_store app) (api_system_graph (shared_app app)) (api_system_graph app)"
    "agree (app_store app) (api_list_events (shared_app app) e n) (api_list_events app e n)"
    "agree (app_store app) (api_list_iac_runs (shared_app app) i p) (api_list_iac_runs app i p)"
    "agree (app_store app) (api_latest_iac_run (shared_app app) i p) (api_latest_iac_run app i p)"
    "agree (app_store app) (api_get_iac_run (shared_app app) i) (api_get_iac_run app i)"
    "agree (app_store app) (api_status (shared_app app)) (api_status app)"
    "agree (app_store app) (api_list_orphans (shared_app app)) (api_list_orphans app)" for i e n p
    unfolding api_enclave_graph_def api_system_graph_def api_list_events_def api_list_iac_runs_def
      api_latest_iac_run_def api_get_iac_run_def api_status_def api_list_orphans_def defs
    by (intro agree_intros find orphans)+
  have backend: "agree (app_store app) (api_get_tf_state (shared_app app) i p) (api_get_tf_state app i p)"
    "agree (app_store app) (api_put_tf_state (shared_app app) i p b) (api_put_tf_state app i p b)"
    "agree (app_store app) (api_delete_tf_state (shared_app app) i p) (api_delete_tf_state app i p)"
    "agree (app_store app) (api_lock_tf_state (shared_app app) i p l) (api_lock_tf_state app i p l)"
    "agree (app_store app) (api_unlock_tf_state (shared_app app) i p b) (api_unlock_tf_state app i p b)" for i p b l
    unfolding api_get_tf_state_def api_put_tf_state_def api_delete_tf_state_def api_lock_tf_state_def api_unlock_tf_state_def defs
    by (intro agree_intros)+
  show ?thesis
    by (cases r; simp only: handle_route_def defs api_route.case)
       (intro agree_intros enclaves queries backend)+
qed

subsection \<open>Blocks of a history\<close>

lemma serve_agrees:
  assumes "undisturbed (app_store app) s0 w"
  shows "serve app req (next_world (app_store app) w) = map_prod id (next_world (app_store app)) (serve (shared_app app) req w)"
    and "undisturbed (app_store app) s0 (snd (serve (shared_app app) req w))"
  using agreeD [OF agree_handler assms] assms
  by (simp_all add: serve_def require_bearer_token_def run_route_def split: option.split prod.split) (metis snd_conv)

lemma serve_after:
  assumes "v = w\<lparr>w_store := run_calls (app_store app) others s\<rparr>"
  shows "fst (serve_among app req s [others] w) = fst (serve app req v)"
    and "run_calls (app_store app) (own_log app req s [others] w) (run_calls (app_store app) others s) = w_store (snd (serve app req v))"
proof -
  let ?w = "shared_world s [others] w"
  have "undisturbed (app_store app) (run_calls (app_store app) others s) ?w" "next_world (app_store app) ?w = v"
    by (simp_all add: undisturbed_def next_world_def shared_world_def others_at_def assms)
  note served = serve_agrees [OF this(1), of req, unfolded this(2)]
  show "fst (serve_among app req s [others] w) = fst (serve app req v)"
    using served(1) by (simp add: serve_among_def)
  show "run_calls (app_store app) (own_log app req s [others] w) (run_calls (app_store app) others s) = w_store (snd (serve app req v))"
    using served by (simp add: serve_among_def own_log_def undisturbed_def)
qed

lemma fst_serve: "fst (serve app req w) = (case routed app req of None \<Rightarrow> fst (serve app req w)
    | Some r \<Rightarrow> map_option (strip_head req) (into_response (fst (handle_route app req r w))))"
  by (simp add: serve_def routed_def require_bearer_token_def run_route_def split: option.split prod.split)

lemma response_agrees:
  assumes "\<And>i. i < N \<Longrightarrow> others_at sched i = others_at sched' i" "length (own_log app req s sched w) \<le> N"
  shows "fst (serve_among app req s sched w) = fst (serve_among app req s sched' w)"
proof (cases "routed app req")
  case None
  then show ?thesis
    by (auto simp: serve_among_def serve_def routed_def require_bearer_token_def split: option.splits if_splits)
next
  case (Some r)
  have m: "causal (handle_route (shared_app app) req r)"
    by (rule causal_handler) simp
  have start: "in_step N (shared_world s sched w) (shared_world s sched' w)"
    using assms(1) by (simp add: in_step_def shared_world_def)
  from m start show ?thesis
  proof (cases rule: causal_steps)
    case (1 res w' v')
    then show ?thesis
      using Some by (simp add: serve_among_def fst_serve [of "shared_app app"])
  next
    case 2
    then show ?thesis using Some assms(2) by (simp add: own_log_def serve_among_def snd_serve parted_def)
  qed
qed

lemma gaps_block: "own_calls i vs = [] \<Longrightarrow> gaps i (map (Pair i) cs @ vs) = replicate (length cs) [] @ [map snd vs]"
proof (induction cs)
  case Nil
  then show ?case by (induction i vs rule: gaps.induct) (auto simp: own_calls_def split: if_splits)
qed simp

lemma gaps_skip: "own_calls i us = [] \<Longrightarrow> gaps i (us @ h) = (map snd us @ hd (gaps i h)) # tl (gaps i h)"
  by (induction us) (auto simp: own_calls_def split: if_splits list.split)

lemma undisturbed_block:
  assumes "served_together app reqs s h" "h = us @ map (Pair i) cs @ vs" "length (run_of app reqs s i h) = length cs"
  shows "response_of app reqs s i h = fst (serve app (fst (reqs ! i)) ((snd (reqs ! i))\<lparr>w_store := store_after app s us\<rparr>))"
    and "store_after app s (us @ map (Pair i) cs) =
      w_store (snd (serve app (fst (reqs ! i)) ((snd (reqs ! i))\<lparr>w_store := store_after app s us\<rparr>)))"
proof -
  let ?run = "own_log app (fst (reqs ! i)) s" and ?w = "snd (reqs ! i)" and ?n = "length cs"
  have own: "own_calls i h = own_calls i us @ cs @ own_calls i vs"
    unfolding assms(2) by (simp add: own_calls_def comp_def)
  have "own_calls i h = take (length (own_calls i h)) (run_of app reqs s i h)"
    using served_prefix [OF assms(1), of i] by simp
  then have "length (own_calls i h) \<le> ?n" by (metis assms(3) length_take min.cobounded1 min.commute)
  then have none: "own_calls i us = []" "own_calls i vs = []" unfolding own by simp_all
  then have cs: "run_of app reqs s i h = cs"
    using served_prefix [OF assms(1), of i] assms(3) own by simp
  have gaps: "k < ?n \<Longrightarrow> others_at (gaps i h) k = others_at [map snd us] k" for k
    unfolding assms(2) gaps_skip [OF none(1)] gaps_block [OF none(2)]
    by (cases cs; cases k) (simp_all add: others_at_nth nth_append)
  show "response_of app reqs s i h = fst (serve app (fst (reqs ! i)) (?w\<lparr>w_store := store_after app s us\<rparr>))"
    using response_agrees [of ?n "gaps i h" "[map snd us]" app "fst (reqs ! i)" s ?w] gaps assms(3)
    by (simp add: response_of_def serve_after(1) [OF refl] store_after_def)
  have "take (Suc ?n) (run_of app reqs s i h) = take (Suc ?n) (?run [map snd us] ?w)"
    by (rule own_log_agrees) (rule gaps)
  then have first: "take (Suc ?n) (?run [map snd us] ?w) = cs" by (simp add: cs)
  from arg_cong [OF this, of length] have "length (?run [map snd us] ?w) \<le> Suc ?n" by (simp add: min_def split: if_splits)
  with first have "?run [map snd us] ?w = cs" by simp
  then show "store_after app s (us @ map (Pair i) cs) = w_store (snd (serve app (fst (reqs ! i)) (?w\<lparr>w_store := store_after app s us\<rparr>)))"
    using serve_after(2) [OF refl, of app "fst (reqs ! i)" s "map snd us" ?w] by (simp add: store_after_def comp_def)
qed

text \<open>A request of Terraform's protocol makes one call.\<close>

lemma own_api_st: "own (snd (api_st app (turn ops c m) w)) = own w @ [c]"
  by (simp add: api_st_def map_err_def store_do_def turn_def Let_def filter_map comp_def split: prod.split sum.split)

lemma own_seq_ret: "own (snd (seq m (\<lambda>a. ret (f a)) w)) = own (snd (m w))"
  by (simp add: seq_def ret_def split: prod.split sum.split)

lemma own_attempt: "own (snd (attempt (store_do (turn ops c m)) w)) = own w @ [c]"
  by (simp add: attempt_def store_do_def turn_def Let_def filter_map comp_def split: prod.split)

lemma own_path2:
  assumes "tf_key (app_http app) i p = Some k" "\<And>a b. slash a b = k \<Longrightarrow> own (snd (f a b w)) = cs"
  shows "own (snd (path2 app i p f w)) = cs"
  by (rule path2_key [OF assms(1), of f]) (simp add: assms(2))

lemma own_seq_Inr: "own (snd (seq (extracted (Inr a)) f w)) = own (snd (f a w))"
  by (simp add: extracted_def seq_def lift_result_def)

lemma tf_own_log:
  assumes "tf_call app req = Some c"
  shows "own_log app req s sched w = [CTf c]"
proof -
  let ?w = "shared_world s sched w" and ?app = "shared_app app"
  obtain r where r: "routed app req = Some r" using assms by (auto simp: tf_call_def Let_def split: option.splits)
  note call = own_api_st own_seq_ret own_attempt own_seq_Inr
  note defs = handle_route_def api_get_tf_state_def api_put_tf_state_def api_delete_tf_state_def api_lock_tf_state_def
    api_unlock_tf_state_def
  have "own (snd (handle_route ?app req r ?w)) = own ?w @ [CTf c]"
    using assms by (cases r) (auto simp: tf_call_def r Let_def defs call split: sum.splits intro!: own_path2 [of ?app])
  then show ?thesis by (simp add: own_log_def serve_among_def snd_serve [of ?app] r shared_world_def)
qed

subsection \<open>Requests as if they were served alone\<close>





end
