(* ===== verification/Spec2Isabelle.thy ===== *)
theory Spec2Isabelle
  imports Reconcile_Audit Api_Props Redb_Props Postgres_Refine Gcp_Iam Aws_Form Cloud_Props
    Cli_Tokens Cli_Destroy Cli_Handles Cli_Wire Cli_Concurrent Serial_Requests
begin

text \<open>
  nclav, verified: the reconciler that turns a directory of YAML files into cloud infrastructure.

  \<^bold>\<open>The program.\<close> A server (\<open>crates/nclav-api\<close>) and a command line (\<open>crates/nclav-cli\<close>) around one function,
  \<open>reconcile\<close>. It loads the enclaves and their partitions from a directory (\<open>nclav-config\<close>), checks the
  references between them and orders them (\<open>nclav-graph\<close>), reads what is provisioned from a store
  (\<open>nclav-store\<close>), reports the difference, and then tears down, provisions and wires through the driver
  of each enclave's cloud and through Terraform (\<open>nclav-driver\<close>), recording states and audit events in
  the store as it goes (\<open>nclav-reconciler\<close>).

  \<^bold>\<open>Theories and sources.\<close>
  \<^item> \<open>Nclav_Prelude\<close>, \<open>Effect_Monad\<close>, \<open>Rust_Strings\<close>, \<open>Json_Value\<close>, \<open>File_System\<close>: hash maps, fallible
    effects with early return and their weakest preconditions, the string functions, JSON values and
    the files, as far as the program uses the standard library and \<open>serde_json\<close>'s values.
  \<^item> \<open>Domain_Types\<close>: \<open>nclav-domain/src/types.rs\<close>. A struct is a record, an enum a datatype, a newtype
    around a string a datatype of its own; a port is a \<open>16 word\<close>. The JSON encodings are functions.
  \<^item> \<open>Graph_Validate\<close>: \<open>nclav-graph\<close>. Theorems: \<open>validate\<close> decides a declarative specification, its order
    is topological, imports are permitted, which error is reported, what it does not check.
  \<^item> \<open>Store_State\<close>: \<open>nclav-store/src/state.rs\<close>; \<open>Store_Interface\<close>: the trait \<open>StateStore\<close> as the record
    \<open>store_ops\<close> and the locales \<open>state_store\<close>, \<open>tf_state_store\<close> and \<open>full_store\<close>, which state what its
    comments promise over an abstract view; \<open>Memory_Store\<close>: \<open>memory.rs\<close>, and its interpretation \<open>mem\<close> of
    the locales; \<open>State_Json\<close>: the derived JSON forms of the stored structs.
  \<^item> \<open>Redb_Engine\<close>, \<open>Redb_Store\<close>: \<open>redb_store.rs\<close>, each operation as the transactions of the source over
    the tables of the database. \<open>Redb_Refine\<close> proves that it is a \<open>full_store\<close>, \<open>Redb_Props\<close> has an engine
    on lists that meets the assumptions and the order of the run log.
  \<^item> \<open>Postgres_Store\<close>: \<open>postgres_store.rs\<close>, the tables of the schema, every SQL statement as a function on
    them, and the operations. \<open>Postgres_Refine\<close> proves that it is a \<open>state_store\<close>, that its locks are
    exclusive, and where it departs from the other stores.
  \<^item> \<open>Driver_Interface\<close>, \<open>Local_Driver\<close>: the trait \<open>Driver\<close> as a record over an outside world \<open>'x\<close>, the
    registry, and \<open>local.rs\<close>.
  \<^item> \<open>Utf8\<close>, \<open>Cloud_Client\<close>: the characters of UTF-8 strings, and what the drivers of the clouds share: a
    request and its reply, the record \<open>cloud_net\<close> of HTTP client and timer, the polling loop.
    \<open>Cloud_Names\<close>: the names of projects, accounts, identities and roles, with the shape of a project id.
  \<^item> \<open>Gcp_Client\<close>, \<open>Gcp_Driver\<close>: \<open>gcp.rs\<close>; \<open>Azure_Client\<close>, \<open>Azure_Driver\<close>: \<open>azure.rs\<close>; \<open>Aws_Client\<close>,
    \<open>Aws_Driver\<close>: \<open>aws.rs\<close>. The client theories hold the configuration, the credentials and the single
    API calls, the driver theories the operations of the trait, one definition per step of the long ones.
    \<open>Cloud_Polling\<close> bounds every wait, \<open>Gcp_Iam\<close> says what a grant leaves of a policy, \<open>Aws_Form\<close> that form
    bodies are read back, \<open>Cloud_Props\<close> which handles the drivers return, what a second run skips and which
    values reach Terraform; \<open>Cloud_Examples\<close> has the concrete networks on which the witnesses run.
  \<^item> \<open>Terraform_Files\<close>, \<open>Terraform_Backend\<close>: \<open>terraform.rs\<close>, the generated files and the calls of the
    binary with the run log.
  \<^item> \<open>Config_Loader\<close>: \<open>nclav-config\<close>. \<open>Template_Resolve\<close>: \<open>resolve_inputs\<close> of \<open>reconcile.rs\<close>.
  \<^item> \<open>System_World\<close>: the state that the asynchronous functions share, the record \<open>world\<close> of store, files,
    outside and clock, and the record \<open>system\<close> of what the program is given.
  \<^item> \<open>Reconcile\<close>: \<open>reconcile.rs\<close>, one definition per numbered step and per loop body. \<open>Reconcile_Steps\<close>
    states what each loop leaves in any \<open>state_store\<close>; \<open>Reconcile_Props\<close> and \<open>Reconcile_Audit\<close> draw the
    theorems: idempotence, convergence, the effect of dry runs, the audit log, success with the local
    driver, and where partitions are forgotten or stay in error. \<open>Reconcile_Frame\<close> lists which parts of a
    store a reconcile can change. \<open>Stored_Handles\<close> states as the locale \<open>handle_driver\<close> what the reconciler relies
    on of a driver, interprets it for the four drivers, and carries it to the stored states of any store with the
    contract \<open>handles_store\<close>, which every \<open>state_store\<close> has.
  \<^item> \<open>Api_Auth\<close>, \<open>Api_Handlers\<close>, \<open>Api_App\<close>: \<open>nclav-api\<close>, the authentication, one definition per handler over
    the \<open>world\<close>, and \<open>serve\<close>, which routes a request through the authentication to its handler.
    \<open>Api_Protocol\<close> shows, for arbitrary sequences of requests, that locks are exclusive and that uploaded
    state is returned; \<open>Api_Props\<close> what the handlers answer and leave.
  \<^item> \<open>Cli_Console\<close>, \<open>Cli_Commands\<close>: \<open>commands.rs\<close> of \<open>nclav-cli\<close>, one definition per command over the record
    \<open>console\<close> of files, printed text, input and outside; \<open>Cli_Output\<close>: \<open>output.rs\<close>; \<open>Cli_Serve\<close>: \<open>cli.rs\<close>,
    \<open>main.rs\<close> and the command \<open>serve\<close>, which opens one of the three stores, makes the drivers and builds the
    application. \<open>Cli_Tokens\<close> shows that the client finds the token of the server, \<open>Cli_Destroy\<close> that \<open>destroy\<close>
    asks first, \<open>Cli_Start\<close> which drivers and store a started server has, \<open>Cli_Store\<close> that its store keeps
    the contract \<open>state_store\<close> whichever it is; \<open>Cli_Wire\<close> puts the client against \<open>serve\<close> of \<open>Api_App\<close> and
    relates \<open>diff\<close> to \<open>apply\<close>; \<open>Cli_Handles\<close> puts drivers, store and reconciler of a started server together.
    \<open>Cli_Examples\<close> has the machine on which the witnesses run.
  \<^item> Requests that are served at the same time (\<open>AppState\<close> is cloned for each of them, the store is shared):
    \<open>Shared_Store\<close> has the calls of the trait as a datatype and the store as one request sees it, the calls of the others in
    between; \<open>Concurrent_Requests\<close> the histories \<open>served_together\<close>, every interleaving of the handlers of
    \<open>Api_App\<close> at their calls, with a rely/guarantee rule. \<open>Request_Causality\<close> shows that what a handler does up to a call
    depends only on the calls before it, \<open>Concurrent_Progress\<close> that a history goes on with the next call of any request.
    \<open>Serial_Requests\<close> shows that a request that is not interrupted acts as \<open>serve\<close> says, and that Terraform's state backend
    is linearizable. \<open>Concurrent_Locks\<close>: the locks are exclusive in every history; \<open>Stale_Writes\<close>: a reconcile overwrites what others
    did to an enclave since it read it; \<open>Shared_Handles\<close> and \<open>Cli_Concurrent\<close>: the handles in the store of a
    started server stay well-formed, with any of the three stores.

  \<^bold>\<open>Parameters.\<close> Third-party code is an argument: the clock and the UUID generator (functions of a tick),
  SHA-256 over the canonical JSON (\<open>sys_digest\<close>), \<open>petgraph\<close>'s cycle test and sort (\<open>petgraph_at\<close> is
  their documentation, \<open>kahn_petgraph\<close> an implementation that meets it), the YAML and JSON parsers, the
  processes, the operating system's refusals (\<open>fs_refused\<close>), and the order in which hash maps are walked;
  the web framework with its extractors and the base64 decoder (\<open>http_stack\<close>), the texts of times, ids
  and JSON errors (\<open>text_forms\<close>), the embedded database (\<open>redb\<close>, whose documented behaviour is \<open>redb_ok\<close>)
  with the byte codec (\<open>codec_ok\<close>: what was encoded is read back), the connection to PostgreSQL with its
  collation and its codec (\<open>pg_env\<close>, \<open>json_codec_ok\<close>). The clouds are behind \<open>cloud_net\<close>: any function from
  a call to a reply or an error, and a timer. The facts about Unicode (\<open>unicode\<close>), the hash of the standard
  library, base64, the tokens of \<open>gcp_auth\<close>, the processes \<open>az\<close> and \<open>aws\<close>, the clock, the environment,
  SHA-256, HMAC and the XML tokenizer are parameters of the drivers (\<open>gcp\<close>, \<open>azure_host\<close>, \<open>aws_host\<close>).
  The command line is given its environment, the HTTP client, the texts of JSON values and status codes and random
  identifiers (\<open>shell\<close>), and what \<open>serve\<close> builds from (\<open>machine\<close>); what the HTTP libraries between client and server
  document is \<open>wire_ok\<close>.

  \<^bold>\<open>Bounds.\<close> A loop of the source is a fold over the list it walks. The template loop and the
  directory walk are recursive with a measure. Resolving links uses fuel 41, one more than the forty links
  after which the operating system gives up; Kahn's algorithm uses one unit of fuel per node.
  A redb database holds fewer than \<open>2 ^ 63\<close> entries, so the 64-bit number of an event does not wrap; the
  sequence of the PostgreSQL events is exhausted at \<open>2 ^ 63 - 1\<close>, after which its statement fails.

  The loops that wait for a cloud walk a list of 120 delays, at most 1220 seconds in all.

  \<^bold>\<open>Not modelled.\<close> Concurrent requests interleave at the calls of the store; a call is one step. The store in memory
  is like that; the file and PostgreSQL delete a partition by a read and a write of the enclave in two transactions, and PostgreSQL
  locks, unlocks and logs by a few statements, between which nothing else comes in the model. Concurrent requests share nothing but the
  store: each finds any files and any answers of the clouds, so a theorem on histories holds for all of them, but what two of
  them do to the same cloud resource is not described. The theorems on the results of one reconcile are about a
  reconcile during which no other request calls the store; they hold in a history where its calls stand together (\<open>Serial_Requests\<close>);
  \<open>serve_all\<close> handles requests one after the other. Further:
  what a request does that is cancelled or panics before its end; links to directories as
  inner components of a path; white space and debug output of characters beyond ASCII; the panics of
  the cloud drivers are an error value (\<open>driver_panic\<close>); the lower-casing of a final sigma; log lines. Of the
  command line: the parser \<open>clap\<close> (its result and its restrictions are types and a predicate), a terminal that
  cannot be written to, file modes except that setting one may be refused.
\<close>

end
